(* ===== verification/GoBase.thy ===== *)
theory GoBase
  imports Main "HOL-Library.Char_ord" "HOL-Library.List_Lexorder" "HOL-Library.Sublist"
    "HOL-Library.Multiset"
begin

text \<open>
  The prelude of the development: what the Go code takes from its language and standard
  library (panics, strings, number printing, sorting of key sets) and the lemmas that the
  components share.

  A Go \<open>string\<close> is a sequence of bytes, so it is modelled by \<open>string\<close> (a list of
  8-bit characters).  Case mapping, white space and quoting follow \<open>strings\<close>,
  \<open>strconv\<close> and \<open>fmt\<close> on ASCII; bytes above 127 are left as they are, which is what
  the library does with printable non-ASCII text in \<open>strconv.Quote\<close>.
\<close>

named_theorems outcome_simps \<open>rewrites for values that may panic\<close>

named_theorems verdict_simps \<open>how an operation changes the fields of a check result\<close>

section \<open>Panics\<close>

text \<open>
  A Go call either returns or panics (a nil pointer dereference, for instance).
\<close>

datatype 'a outcome = Returns 'a | Panics string

fun bind_outcome :: "'a outcome \<Rightarrow> ('a \<Rightarrow> 'b outcome) \<Rightarrow> 'b outcome" where
  "bind_outcome (Returns x) f = f x"
| "bind_outcome (Panics m) f = Panics m"

definition nil_dereference :: string where
  "nil_dereference = ''runtime error: invalid memory address or nil pointer dereference''"

fun deref :: "'a option \<Rightarrow> 'a outcome" where
  "deref (Some x) = Returns x"
| "deref None = Panics nil_dereference"

fun map_outcome :: "('a \<Rightarrow> 'b outcome) \<Rightarrow> 'a list \<Rightarrow> 'b list outcome" where
  "map_outcome f [] = Returns []"
| "map_outcome f (x # xs) =
     bind_outcome (f x) (\<lambda>y. bind_outcome (map_outcome f xs) (\<lambda>ys. Returns (y # ys)))"

fun fold_outcome :: "('a \<Rightarrow> 'b \<Rightarrow> 'b outcome) \<Rightarrow> 'a list \<Rightarrow> 'b \<Rightarrow> 'b outcome" where
  "fold_outcome f [] a = Returns a"
| "fold_outcome f (x # xs) a = bind_outcome (f x a) (fold_outcome f xs)"

lemma bind_outcome_Returns_iff [outcome_simps]:
  "bind_outcome m f = Returns y \<longleftrightarrow> (\<exists>x. m = Returns x \<and> f x = Returns y)"
  by (cases m) auto

lemma bind_outcome_Returns_right [simp]: "bind_outcome m Returns = m"
  by (cases m) auto

lemma bind_outcome_assoc:
  "bind_outcome (bind_outcome m f) g = bind_outcome m (\<lambda>x. bind_outcome (f x) g)"
  by (cases m) auto

lemma map_outcome_Returns:
  "map_outcome (\<lambda>x. Returns (f x)) xs = Returns (map f xs)"
  by (induction xs) auto

lemma map_outcome_length: "map_outcome f xs = Returns ys \<Longrightarrow> length ys = length xs"
  by (induction xs arbitrary: ys) (auto simp: outcome_simps)

lemma fold_outcome_Returns:
  "(\<And>x a. x \<in> set xs \<Longrightarrow> f x a = Returns (g x a)) \<Longrightarrow>
     fold_outcome f xs a = Returns (fold g xs a)"
  by (induction xs arbitrary: a) auto

lemma map_outcome_Panics_iff:
  "(\<exists>m. map_outcome f xs = Panics m) \<longleftrightarrow> (\<exists>x \<in> set xs. \<exists>m. f x = Panics m)"
proof (induction xs)
  case Nil
  then show ?case by simp
next
  case (Cons x xs)
  then show ?case by (cases "f x"; cases "map_outcome f xs") auto
qed

section \<open>Strings\<close>

definition itoa_digit :: "nat \<Rightarrow> char" where
  "itoa_digit d = (if d < 10 then char_of (48 + d) else CHR ''?'')"

fun nat_digits :: "nat \<Rightarrow> string" where
  "nat_digits n =
     (if n < 10 then [itoa_digit n] else nat_digits (n div 10) @ [itoa_digit (n mod 10)])"

declare nat_digits.simps [simp del]

definition itoa :: "int \<Rightarrow> string" where
  "itoa i = (if i < 0 then CHR ''-'' # nat_digits (nat (- i)) else nat_digits (nat i))"

definition is_digit :: "char \<Rightarrow> bool" where
  "is_digit c \<longleftrightarrow> 48 \<le> (of_char c :: nat) \<and> (of_char c :: nat) \<le> 57"

definition digit_value :: "char \<Rightarrow> nat" where
  "digit_value c = of_char c - 48"

definition digits_value :: "string \<Rightarrow> nat" where
  "digits_value ds = foldl (\<lambda>n c. 10 * n + digit_value c) 0 ds"

text \<open>\<open>strconv.Atoi\<close>: an optional sign, decimal digits, the range of a 64-bit int.\<close>

definition atoi :: "string \<Rightarrow> int option" where
  "atoi s =
     (let neg = (s \<noteq> [] \<and> hd s = CHR ''-'');
          ds = (if s \<noteq> [] \<and> (hd s = CHR ''-'' \<or> hd s = CHR ''+'') then tl s else s)
      in if ds = [] \<or> \<not> list_all is_digit ds then None
         else let v = int (digits_value ds); i = (if neg then - v else v)
              in if - (2 ^ 63) \<le> i \<and> i < 2 ^ 63 then Some i else None)"

definition lower_char :: "char \<Rightarrow> char" where
  "lower_char c =
     (if 65 \<le> (of_char c :: nat) \<and> (of_char c :: nat) \<le> 90 then char_of (of_char c + 32 :: nat)
      else c)"

definition to_lower :: "string \<Rightarrow> string" where
  "to_lower s = map lower_char s"

definition is_space :: "char \<Rightarrow> bool" where
  "is_space c \<longleftrightarrow> c = CHR '' '' \<or> (9 \<le> (of_char c :: nat) \<and> (of_char c :: nat) \<le> 13)"

definition trim_space :: "string \<Rightarrow> string" where
  "trim_space s = rev (dropWhile is_space (rev (dropWhile is_space s)))"

definition has_prefix :: "string \<Rightarrow> string \<Rightarrow> bool" where
  "has_prefix s p \<longleftrightarrow> take (length p) s = p"

definition trim_prefix :: "string \<Rightarrow> string \<Rightarrow> string" where
  "trim_prefix s p = (if has_prefix s p then drop (length p) s else s)"

fun contains_str :: "string \<Rightarrow> string \<Rightarrow> bool" where
  "contains_str [] p = (p = [])"
| "contains_str (c # s) p = (has_prefix (c # s) p \<or> contains_str s p)"

fun split_on :: "char \<Rightarrow> string \<Rightarrow> string list" where
  "split_on sep [] = [[]]"
| "split_on sep (c # s) =
     (if c = sep then [] # split_on sep s
      else case split_on sep s of [] \<Rightarrow> [[c]] | w # ws \<Rightarrow> (c # w) # ws)"

fun join_with :: "string \<Rightarrow> string list \<Rightarrow> string" where
  "join_with sep [] = []"
| "join_with sep [x] = x"
| "join_with sep (x # y # xs) = x @ sep @ join_with sep (y # xs)"

text \<open>\<open>strconv.Quote\<close>, the verb \<open>%q\<close>: the escapes of a Go string literal.\<close>

definition hex_digit :: "nat \<Rightarrow> char" where
  "hex_digit d = (if d < 10 then char_of (48 + d) else char_of (87 + d))"

definition quote_char :: "char \<Rightarrow> string" where
  "quote_char c =
     (let n = (of_char c :: nat); bs = char_of (92 :: nat)
      in if n = 34 \<or> n = 92 then [bs, c]
         else if n = 7 then [bs, CHR ''a'']
         else if n = 8 then [bs, CHR ''b'']
         else if n = 12 then [bs, CHR ''f'']
         else if n = 10 then [bs, CHR ''n'']
         else if n = 13 then [bs, CHR ''r'']
         else if n = 9 then [bs, CHR ''t'']
         else if n = 11 then [bs, CHR ''v'']
         else if n < 32 \<or> n = 127 then [bs, CHR ''x'', hex_digit (n div 16), hex_digit (n mod 16)]
         else [c])"

definition quoted :: "string \<Rightarrow> string" where
  "quoted s = char_of (34 :: nat) # concat (map quote_char s) @ [char_of (34 :: nat)]"

text \<open>The keys of a Go map in the order of \<open>sort.Strings\<close>.\<close>

definition sorted_keys :: "string set \<Rightarrow> string list" where
  "sorted_keys S = sorted_list_of_set S"

lemma join_with_two: "join_with sep [x, y] = x @ sep @ y"
  by simp

lemma split_on_nonempty [simp]: "split_on sep s \<noteq> []"
  by (induction s) (auto split: list.splits)

lemma has_prefix_iff: "has_prefix s p \<longleftrightarrow> (\<exists>t. s = p @ t)"
  by (metis append_eq_conv_conj has_prefix_def)

lemma has_prefix_append [simp]: "has_prefix (p @ t) p"
  by (auto simp: has_prefix_iff)

lemma trim_prefix_append [simp]: "trim_prefix (p @ t) p = t"
  by (simp add: trim_prefix_def)

lemma contains_str_append: "contains_str (xs @ p @ ys) p"
proof (induction xs)
  case Nil
  have "contains_str s p" if "s = p @ ys" for s
    using that by (cases s) (simp, metis contains_str.simps(2) has_prefix_append)
  then show ?case by simp
next
  case (Cons x xs)
  then show ?case by simp
qed

lemma contains_str_iff: "contains_str s p \<longleftrightarrow> (\<exists>xs ys. s = xs @ p @ ys)"
proof
  show "contains_str s p \<Longrightarrow> \<exists>xs ys. s = xs @ p @ ys"
  proof (induction s)
    case Nil
    then show ?case by simp
  next
    case (Cons c s)
    then show ?case
      by (auto simp: has_prefix_iff) (metis append_Nil, metis append_Cons)
  qed
qed (auto simp: contains_str_append)

lemma lower_char_idem: "lower_char (lower_char c) = lower_char c"
  by (simp add: lower_char_def)

lemma to_lower_idem: "to_lower (to_lower s) = to_lower s"
  by (simp add: to_lower_def lower_char_idem)

section \<open>Loops over results\<close>

text \<open>Reading a decimal number back: printing and parsing agree on naturals.\<close>

lemma digit_value_itoa_digit: "d < 10 \<Longrightarrow> digit_value (itoa_digit d) = d"
  by (simp add: digit_value_def itoa_digit_def)

lemma is_digit_itoa_digit: "d < 10 \<Longrightarrow> is_digit (itoa_digit d)"
  by (simp add: is_digit_def itoa_digit_def)

lemma digits_value_nat_digits: "digits_value (nat_digits n) = n"
proof (induction n rule: nat_digits.induct)
  case (1 n)
  then show ?case
    by (cases "n < 10")
      (auto simp: nat_digits.simps [of n] digits_value_def digit_value_itoa_digit)
qed

lemma list_all_is_digit_nat_digits: "list_all is_digit (nat_digits n)"
proof (induction n rule: nat_digits.induct)
  case (1 n)
  then show ?case
    by (cases "n < 10") (auto simp: nat_digits.simps [of n] is_digit_itoa_digit)
qed

lemma nat_digits_nonempty [simp]: "nat_digits n \<noteq> []"
  by (simp add: nat_digits.simps [of n])

end
