(* ===== verification/Verdict.thy ===== *)
theory Verdict
  imports GoBase
begin

text \<open>
  The result of a preflight check (\<open>CheckResult\<close>, \<open>Cause\<close> in
  \<open>pkg/webhook/preflight/preflight.go\<close>), the two ways the Nutanix checks record a
  failure (\<open>failCheck\<close> and \<open>failCheckInternal\<close> in
  \<open>pkg/webhook/preflight/nutanix/metro.go\<close>), and the interface that the loops of
  the checks share: a body that may record failures and never takes one back.
\<close>

record cause =
  Message :: string
  Field :: string

record check_result =
  Allowed :: bool
  InternalError :: bool
  Causes :: "cause list"
  Warnings :: "string list"

definition allowed_result :: check_result where
  "allowed_result = \<lparr>Allowed = True, InternalError = False, Causes = [], Warnings = []\<rparr>"

definition failCheck :: "string \<Rightarrow> string \<Rightarrow> check_result \<Rightarrow> check_result" where
  "failCheck field message r =
     r\<lparr>Allowed := False, Causes := Causes r @ [\<lparr>Message = message, Field = field\<rparr>]\<rparr>"

definition failCheckInternal :: "string \<Rightarrow> string \<Rightarrow> check_result \<Rightarrow> check_result" where
  "failCheckInternal field message r = failCheck field message (r\<lparr>InternalError := True\<rparr>)"

definition warnCheck :: "string \<Rightarrow> check_result \<Rightarrow> check_result" where
  "warnCheck message r = r\<lparr>Warnings := Warnings r @ [message]\<rparr>"

text \<open>
  A result is explained when it denies exactly if it names a cause, and an internal error is
  a denial.
\<close>

definition explained :: "check_result \<Rightarrow> bool" where
  "explained r \<longleftrightarrow>
     (Allowed r \<longleftrightarrow> Causes r = []) \<and> (InternalError r \<longrightarrow> \<not> Allowed r)"

lemma allowed_result_simps [simp]:
  "Allowed allowed_result" "\<not> InternalError allowed_result"
  "Causes allowed_result = []" "Warnings allowed_result = []" "explained allowed_result"
  by (auto simp: allowed_result_def explained_def)

lemma failCheck_simps [verdict_simps]:
  "Allowed (failCheck f m r) = False"
  "InternalError (failCheck f m r) = InternalError r"
  "Causes (failCheck f m r) = Causes r @ [\<lparr>Message = m, Field = f\<rparr>]"
  "Warnings (failCheck f m r) = Warnings r"
  by (auto simp: failCheck_def)

lemma failCheckInternal_simps [verdict_simps]:
  "Allowed (failCheckInternal f m r) = False"
  "InternalError (failCheckInternal f m r) = True"
  "Causes (failCheckInternal f m r) = Causes r @ [\<lparr>Message = m, Field = f\<rparr>]"
  "Warnings (failCheckInternal f m r) = Warnings r"
  by (auto simp: failCheckInternal_def failCheck_def)

lemma warnCheck_simps [verdict_simps]:
  "Allowed (warnCheck m r) = Allowed r"
  "InternalError (warnCheck m r) = InternalError r"
  "Causes (warnCheck m r) = Causes r"
  "Warnings (warnCheck m r) = Warnings r @ [m]"
  by (auto simp: warnCheck_def)

lemma explained_failCheck [simp]: "explained (failCheck f m r)"
  by (auto simp: explained_def verdict_simps)

lemma explained_failCheckInternal [simp]: "explained (failCheckInternal f m r)"
  by (auto simp: explained_def verdict_simps)

lemma explained_warnCheck [simp]: "explained (warnCheck m r) = explained r"
  by (auto simp: explained_def verdict_simps)

section \<open>Loops that accumulate failures\<close>

text \<open>
  The body \<open>step x\<close> of a loop over \<open>x\<close> updates the result: it denies exactly when
  \<open>bad x\<close>, and then it adds a cause; an internal error comes with a denial; causes
  recorded before stay.
\<close>

locale check_loop =
  fixes step :: "'a \<Rightarrow> check_result \<Rightarrow> check_result"
    and bad :: "'a \<Rightarrow> bool"
  assumes allowed_step: "Allowed (step x r) \<longleftrightarrow> Allowed r \<and> \<not> bad x"
    and causes_step: "\<exists>cs. Causes (step x r) = Causes r @ cs \<and> (cs = [] \<longleftrightarrow> \<not> bad x)"
    and internal_step: "InternalError (step x r) \<longrightarrow> InternalError r \<or> bad x"
    and internal_kept: "InternalError r \<longrightarrow> InternalError (step x r)"
begin

lemma allowed_loop: "Allowed (fold step xs r) \<longleftrightarrow> Allowed r \<and> (\<forall>x \<in> set xs. \<not> bad x)"
  by (induction xs arbitrary: r) (auto simp: allowed_step)

lemma explained_step: "explained r \<Longrightarrow> explained (step x r)"
  using causes_step [of x r] internal_step [of x r] internal_kept [of r x]
  by (auto simp: explained_def allowed_step)

lemma explained_loop: "explained r \<Longrightarrow> explained (fold step xs r)"
  by (induction xs arbitrary: r) (auto simp: explained_step)

lemma causes_loop: "\<exists>cs. Causes (fold step xs r) = Causes r @ cs"
proof (induction xs arbitrary: r)
  case Nil
  then show ?case by simp
next
  case (Cons x xs)
  obtain cs where "Causes (step x r) = Causes r @ cs"
    using causes_step by blast
  with Cons.IH [of "step x r"] show ?case by auto
qed

lemma causes_loop_exact:
  "\<exists>cs. Causes (fold step xs r) = Causes r @ cs \<and> (cs = [] \<longleftrightarrow> (\<forall>x \<in> set xs. \<not> bad x))"
proof (induction xs arbitrary: r)
  case Nil
  then show ?case by simp
next
  case (Cons x xs)
  obtain cs where "Causes (step x r) = Causes r @ cs" "cs = [] \<longleftrightarrow> \<not> bad x"
    using causes_step by blast
  with Cons.IH [of "step x r"] show ?case by auto
qed

lemma internal_loop:
  "InternalError (fold step xs r) \<longrightarrow> InternalError r \<or> (\<exists>x \<in> set xs. bad x)"
  "InternalError r \<longrightarrow> InternalError (fold step xs r)"
proof -
  show "InternalError (fold step xs r) \<longrightarrow> InternalError r \<or> (\<exists>x \<in> set xs. bad x)"
    by (induction xs arbitrary: r) (use internal_step in fastforce)+
  show "InternalError r \<longrightarrow> InternalError (fold step xs r)"
    by (induction xs arbitrary: r) (auto simp: internal_kept)
qed

text \<open>The whole loop is again such a body, for an outer loop.\<close>

lemma loop_body: "check_loop (fold step) (\<lambda>xs. \<exists>x \<in> set xs. bad x)"
  by unfold_locales (use internal_loop causes_loop_exact in \<open>auto simp: allowed_loop\<close>)

lemma causes_loop_empty:
  "Causes (fold step xs r) = [] \<longleftrightarrow> Causes r = [] \<and> (\<forall>x \<in> set xs. \<not> bad x)"
proof (induction xs arbitrary: r)
  case Nil
  then show ?case by simp
next
  case (Cons x xs)
  obtain cs where "Causes (step x r) = Causes r @ cs" "cs = [] \<longleftrightarrow> \<not> bad x"
    using causes_step by blast
  with Cons.IH [of "step x r"] show ?case by auto
qed

lemma allowed_loop_subset:
  "set ys \<subseteq> set xs \<Longrightarrow> Allowed (fold step xs r) \<Longrightarrow> Allowed (fold step ys r)"
  by (auto simp: allowed_loop)

end

end
