(* ===== verification/ApiTypes.thy ===== *)
theory ApiTypes
  imports GoBase
begin

text \<open>
  The API objects the program reads, as records holding the fields it uses: the Nutanix custom
  resources (\<open>api/external/.../cluster-api-provider-nutanix\<close>), the cluster configuration
  variables (\<open>api/v1alpha1\<close>, \<open>api/variables\<close>) and the Cluster API objects.
  A pointer field is an \<open>option\<close>, a string that is empty when unset stays a string, a map
  that is only looked up is a partial function and a map that is ranged over is an association
  list in the (arbitrary) order of the iteration.
\<close>

section \<open>Nutanix resource identifiers\<close>

record resource_id =
  id_type :: string
  id_uuid :: "string option"
  id_name :: "string option"

definition IsUUID :: "resource_id \<Rightarrow> bool" where
  "IsUUID nri \<longleftrightarrow> id_type nri = ''uuid'' \<and> id_uuid nri \<noteq> None"

definition IsName :: "resource_id \<Rightarrow> bool" where
  "IsName nri \<longleftrightarrow> id_type nri = ''name'' \<and> id_name nri \<noteq> None"

definition id_String :: "resource_id \<Rightarrow> string" where
  "id_String nri =
     (if IsUUID nri then the (id_uuid nri)
      else if IsName nri then the (id_name nri)
      else [])"

definition DisplayString :: "resource_id \<Rightarrow> string" where
  "DisplayString nri =
     (if id_type nri = ''uuid'' then
        (case id_uuid nri of Some u \<Rightarrow> ''uuid='' @ quoted u | None \<Rightarrow> ''unknown'')
      else if id_type nri = ''name'' then
        (case id_name nri of Some n \<Rightarrow> ''name='' @ quoted n | None \<Rightarrow> ''unknown'')
      else ''unknown'')"

definition EqualTo :: "resource_id \<Rightarrow> resource_id option \<Rightarrow> bool" where
  "EqualTo nri other =
     (case other of
        None \<Rightarrow> False
      | Some o' \<Rightarrow>
          if id_type nri \<noteq> id_type o' then False
          else if id_type nri = ''name'' then
            id_name nri \<noteq> None \<and> id_name o' \<noteq> None \<and> id_name nri = id_name o'
          else if id_type nri = ''uuid'' then
            id_uuid nri \<noteq> None \<and> id_uuid o' \<noteq> None \<and> id_uuid nri = id_uuid o'
          else False)"

lemma not_IsUUID_and_IsName: "\<not> (IsUUID nri \<and> IsName nri)"
  by (auto simp: IsUUID_def IsName_def)

lemma EqualTo_sym: "EqualTo a (Some b) = EqualTo b (Some a)"
  by (auto simp: EqualTo_def)

lemma EqualTo_same_String:
  "EqualTo a (Some b) \<Longrightarrow> id_String a = id_String b \<and> (IsUUID a = IsUUID b) \<and> (IsName a = IsName b)"
  by (auto simp: EqualTo_def id_String_def IsUUID_def IsName_def split: if_splits)

section \<open>Nutanix custom resources\<close>

record nutanix_failure_domain =
  fd_pe_cluster :: resource_id
  fd_subnets :: "resource_id list"

record nutanix_metro =
  metro_fds :: "string list"

record nutanix_metro_site =
  site_name :: string
  site_preferred_fd :: string
  site_metro_ref :: string
  site_group_label :: "string option"

section \<open>Machine details and the cluster configuration variable\<close>

record image_lookup =
  il_format :: "string option"
  il_base_os :: string

record machine_details =
  md_image :: "resource_id option"
  md_image_lookup :: "image_lookup option"
  md_cluster :: "resource_id option"
  md_subnets :: "resource_id list"

definition HasClusterAndSubnets :: "machine_details \<Rightarrow> bool \<times> bool" where
  "HasClusterAndSubnets md =
     ((case md_cluster md of None \<Rightarrow> False | Some c \<Rightarrow> IsName c \<or> IsUUID c),
      md_subnets md \<noteq> [])"

record cp_nutanix_spec =
  cpn_details :: machine_details
  cpn_failure_domains :: "string list"

record control_plane_endpoint =
  cpe_host :: string
  cpe_port :: int
  cpe_virtual_ip :: "string option option"

definition VirtualIPAddress :: "control_plane_endpoint \<Rightarrow> string" where
  "VirtualIPAddress s =
     (case cpe_virtual_ip s of
        Some (Some address) \<Rightarrow> if address \<noteq> [] then address else cpe_host s
      | _ \<Rightarrow> cpe_host s)"

record prism_central_endpoint =
  pce_url :: string
  pce_insecure :: bool
  pce_trust_bundle :: string
  pce_secret_name :: string

record nutanix_spec =
  ns_cp_endpoint :: control_plane_endpoint
  ns_pc_endpoint :: prism_central_endpoint

record storage_class_config =
  sc_parameters :: "(string \<rightharpoonup> string) option"

record csi_provider =
  csi_storage_classes :: "(string \<times> storage_class_config) list option"

record nutanix_cluster_config =
  ncc_nutanix :: "nutanix_spec option"
  ncc_control_plane :: "cp_nutanix_spec option option"
  ncc_addons :: "csi_provider option option"

record nutanix_worker_config =
  nwc_nutanix :: "machine_details option"

text \<open>
  \<open>cpe_virtual_ip\<close> nests \<open>VirtualIPSpec\<close> and its \<open>Configuration\<close>;
  \<open>ncc_control_plane\<close> nests \<open>ControlPlane\<close> and \<open>ControlPlane.Nutanix\<close>;
  \<open>ncc_addons\<close> nests \<open>Addons\<close> and \<open>Addons.CSI\<close>, whose
  \<open>Providers.NutanixCSI\<close> is the provider.
\<close>

abbreviation cp_nutanix :: "nutanix_cluster_config \<Rightarrow> cp_nutanix_spec option" where
  "cp_nutanix cfg \<equiv> Option.bind (ncc_control_plane cfg) id"

section \<open>URLs of the Prism Central endpoint\<close>

text \<open>
  \<open>url.ParseRequestURI\<close> is a parameter: it yields an error text or the parts of the URL.
\<close>

record parsed_url =
  url_scheme :: string
  url_host :: string
  url_hostname :: string
  url_port :: string
  url_path :: string

type_synonym url_parser = "string \<Rightarrow> string + parsed_url"

definition DefaultPrismCentralPort :: nat where
  "DefaultPrismCentralPort = 9440"

text \<open>\<open>strconv.ParseUint(s, 10, 16)\<close>: decimal digits only, at most 65535.\<close>

definition parse_uint16 :: "string \<Rightarrow> string + nat" where
  "parse_uint16 s =
     (if s = [] \<or> \<not> list_all is_digit s
      then Inl (''strconv.ParseUint: parsing '' @ quoted s @ '': invalid syntax'')
      else if 65535 < digits_value s
      then Inl (''strconv.ParseUint: parsing '' @ quoted s @ '': value out of range'')
      else Inr (digits_value s))"

definition ParseURL :: "url_parser \<Rightarrow> prism_central_endpoint \<Rightarrow> string + (string \<times> nat)" where
  "ParseURL parse_uri s =
     (case parse_uri (pce_url s) of
        Inl err \<Rightarrow> Inl (''error parsing Prism Central URL: '' @ err)
      | Inr u \<Rightarrow>
          if url_port u = [] then Inr (url_hostname u, DefaultPrismCentralPort)
          else case parse_uint16 (url_port u) of
                 Inl err \<Rightarrow> Inl (''error converting port to int: '' @ err)
               | Inr port \<Rightarrow> Inr (url_hostname u, port))"

lemma ParseURL_port_bound: "ParseURL parse_uri s = Inr (h, p) \<Longrightarrow> p \<le> 65535"
  by (auto simp: ParseURL_def parse_uint16_def DefaultPrismCentralPort_def
      split: sum.splits if_splits)

section \<open>Clusters and their topology\<close>

record cluster_variable =
  var_name :: string
  var_raw :: string

record machine_deployment =
  mdep_name :: string
  mdep_failure_domain :: string
  mdep_overrides :: "cluster_variable list"

record topology =
  top_class :: string
  top_version :: string
  top_variables :: "cluster_variable list"
  top_machine_deployments :: "machine_deployment list"

definition zero_topology :: topology where
  "zero_topology = \<lparr>top_class = [], top_version = [], top_variables = [],
     top_machine_deployments = []\<rparr>"

text \<open>\<open>Topology.IsDefined\<close>: the struct differs from its zero value.\<close>

definition IsDefined :: "topology \<Rightarrow> bool" where
  "IsDefined t \<longleftrightarrow> t \<noteq> zero_topology"

text \<open>
  \<open>cs_other\<close> stands for the fields of the spec that the program only compares.
\<close>

record cluster_spec =
  cs_paused :: "bool option"
  cs_topology :: topology
  cs_pod_cidrs :: "string list"
  cs_service_cidrs :: "string list"
  cs_service_domain :: string
  cs_infrastructure_kind :: string
  cs_cp_ref_defined :: bool
  cs_cp_host :: string
  cs_cp_port :: int
  cs_other :: string

record cluster =
  cl_name :: string
  cl_namespace :: string
  cl_annotations :: "string \<rightharpoonup> string"
  cl_labels :: "string \<rightharpoonup> string"
  cl_deletion :: "nat option"
  cl_spec :: cluster_spec

abbreviation cl_topology :: "cluster \<Rightarrow> topology" where
  "cl_topology c \<equiv> cs_topology (cl_spec c)"

section \<open>Cluster variables\<close>

definition ClusterConfigVariableName :: string where
  "ClusterConfigVariableName = ''clusterConfig''"

definition WorkerConfigVariableName :: string where
  "WorkerConfigVariableName = ''workerConfig''"

fun GetClusterVariableByName :: "string \<Rightarrow> cluster_variable list \<Rightarrow> cluster_variable option" where
  "GetClusterVariableByName name [] = None"
| "GetClusterVariableByName name (v # vs) =
     (if var_name v = name then Some v else GetClusterVariableByName name vs)"

fun UpdateClusterVariable :: "cluster_variable \<Rightarrow> cluster_variable list \<Rightarrow> cluster_variable list" where
  "UpdateClusterVariable v [] = [v]"
| "UpdateClusterVariable v (w # ws) =
     (if var_name w = var_name v then v # ws else w # UpdateClusterVariable v ws)"

text \<open>
  \<open>json.Unmarshal\<close> is a parameter.  It fills the object even when it fails half-way, so it
  yields the object and the error, if any.  \<open>UnmarshalClusterVariable\<close> dereferences the
  variable without a check: a nil variable panics.
\<close>

type_synonym 'a json_decoder = "string \<Rightarrow> 'a \<times> string option"

definition UnmarshalClusterVariable ::
    "'a json_decoder \<Rightarrow> cluster_variable option \<Rightarrow> ('a \<times> string option) outcome" where
  "UnmarshalClusterVariable decode v =
     bind_outcome (deref v) (\<lambda>cv.
       Returns (case decode (var_raw cv) of
                  (obj, None) \<Rightarrow> (obj, None)
                | (obj, Some err) \<Rightarrow> (obj, Some (''failed to unmarshal json: '' @ err))))"

text \<open>
  \<open>UnmarshalClusterConfigVariable\<close> and \<open>UnmarshalWorkerConfigVariable\<close> are the
  same function at two variable names; they check for the missing variable first.
\<close>

definition UnmarshalNamedVariable ::
    "string \<Rightarrow> 'a json_decoder \<Rightarrow> cluster_variable list \<Rightarrow> string + 'a option" where
  "UnmarshalNamedVariable name decode vars =
     (case GetClusterVariableByName name vars of
        None \<Rightarrow> Inr None
      | Some v \<Rightarrow>
          (case decode (var_raw v) of
             (spec, None) \<Rightarrow> Inr (Some spec)
           | (spec, Some err) \<Rightarrow>
               Inl (''failed to unmarshal cluster variable '' @ quoted name @ '': '' @
                    ''failed to unmarshal json: '' @ err)))"

definition UnmarshalClusterConfigVariable ::
    "'a json_decoder \<Rightarrow> cluster_variable list \<Rightarrow> string + 'a option" where
  "UnmarshalClusterConfigVariable = UnmarshalNamedVariable ClusterConfigVariableName"

definition UnmarshalWorkerConfigVariable ::
    "'a json_decoder \<Rightarrow> cluster_variable list \<Rightarrow> string + 'a option" where
  "UnmarshalWorkerConfigVariable = UnmarshalNamedVariable WorkerConfigVariableName"

lemma GetClusterVariableByName_name:
  "GetClusterVariableByName n vs = Some v \<Longrightarrow> var_name v = n \<and> v \<in> set vs"
  by (induction vs) (auto split: if_splits)

lemma GetClusterVariableByName_None_iff:
  "GetClusterVariableByName n vs = None \<longleftrightarrow> n \<notin> var_name ` set vs"
  by (induction vs) auto

lemma GetClusterVariableByName_Update:
  "GetClusterVariableByName n (UpdateClusterVariable v vs) =
     (if n = var_name v then Some v else GetClusterVariableByName n vs)"
  by (induction vs) auto

lemma map_var_name_Update:
  "var_name v \<in> var_name ` set vs \<Longrightarrow>
     map var_name (UpdateClusterVariable v vs) = map var_name vs"
  by (induction vs) auto

lemma UpdateClusterVariable_idem:
  "UpdateClusterVariable v (UpdateClusterVariable v vs) = UpdateClusterVariable v vs"
  by (induction vs) auto

section \<open>The Kubernetes API\<close>

text \<open>
  The API server is a parameter: a read succeeds with the object, reports that the object is
  not found, or fails otherwise.
\<close>

datatype api_error = NotFound string | OtherError string

fun IsNotFound :: "api_error \<Rightarrow> bool" where
  "IsNotFound (NotFound _) = True"
| "IsNotFound (OtherError _) = False"

fun api_error_text :: "api_error \<Rightarrow> string" where
  "api_error_text (NotFound t) = t"
| "api_error_text (OtherError t) = t"

type_synonym secret = "string \<rightharpoonup> string"

record kube_client =
  kc_failure_domain :: "string \<Rightarrow> string \<Rightarrow> api_error + nutanix_failure_domain"
  kc_metro :: "string \<Rightarrow> string \<Rightarrow> api_error + nutanix_metro"
  kc_metro_site :: "string \<Rightarrow> string \<Rightarrow> api_error + nutanix_metro_site"
  kc_metro_sites :: "string \<Rightarrow> api_error + nutanix_metro_site list"
  kc_secret :: "string \<Rightarrow> string \<Rightarrow> api_error + (string \<times> string) list"

text \<open>The first argument of each read is the namespace, the second the name.\<close>

end
