(* ===== verification/Skip.thy ===== *)
theory Skip
  imports ApiTypes
begin

text \<open>
  \<open>pkg/webhook/preflight/skip/skip.go\<close>: the checks a Cluster asks to skip, read from an
  annotation.  A nil annotation map reads as an empty one.
\<close>

definition PreflightChecksSkipAnnotationKey :: string where
  "PreflightChecksSkipAnnotationKey = ''preflight.cluster.caren.nutanix.com/skip''"

definition PreflightChecksSkipAllAnnotationValue :: string where
  "PreflightChecksSkipAllAnnotationValue = ''all''"

record evaluator =
  normalizedCheckNames :: "string set"
  skip_all :: bool

definition normalize_name :: "string \<Rightarrow> string" where
  "normalize_name checkName = trim_space (to_lower checkName)"

fun add_names :: "string set \<Rightarrow> string list \<Rightarrow> string set" where
  "add_names S [] = S"
| "add_names S (w # ws) =
     (if w = [] then add_names S ws else add_names (insert (normalize_name w) S) ws)"

definition skip_New :: "cluster \<Rightarrow> evaluator" where
  "skip_New c =
     (case cl_annotations c PreflightChecksSkipAnnotationKey of
        None \<Rightarrow> \<lparr>normalizedCheckNames = {}, skip_all = False\<rparr>
      | Some value \<Rightarrow>
          let names = add_names {} (split_on CHR '','' value)
          in \<lparr>normalizedCheckNames = names,
              skip_all = (PreflightChecksSkipAllAnnotationValue \<in> names \<and> card names = 1)\<rparr>)"

definition skip_For :: "evaluator \<Rightarrow> string \<Rightarrow> bool" where
  "skip_For e checkName =
     (if skip_all e then True else normalize_name checkName \<in> normalizedCheckNames e)"

definition skip_ForAll :: "evaluator \<Rightarrow> bool" where
  "skip_ForAll e = skip_all e"

lemma add_names_eq:
  "add_names S ws = S \<union> normalize_name ` {w \<in> set ws. w \<noteq> []}"
  by (induction ws arbitrary: S) auto

lemma finite_add_names: "finite S \<Longrightarrow> finite (add_names S ws)"
  by (simp add: add_names_eq)

text \<open>The names an annotation lists.\<close>

definition listed_names :: "string \<Rightarrow> string set" where
  "listed_names value = normalize_name ` {w \<in> set (split_on CHR '','' value). w \<noteq> []}"

lemma mem_card_1_iff: "a \<in> S \<and> card S = Suc 0 \<longleftrightarrow> S = {a}"
  by (auto simp: card_1_singleton_iff)

lemma skip_ForAll_iff:
  "skip_ForAll (skip_New c) \<longleftrightarrow>
     (\<exists>value. cl_annotations c PreflightChecksSkipAnnotationKey = Some value \<and>
        listed_names value = {PreflightChecksSkipAllAnnotationValue})"
  by (simp add: skip_ForAll_def skip_New_def add_names_eq listed_names_def Let_def
      mem_card_1_iff split: option.splits)

lemma skip_For_iff:
  "skip_For (skip_New c) n \<longleftrightarrow>
     skip_ForAll (skip_New c) \<or>
     (\<exists>value. cl_annotations c PreflightChecksSkipAnnotationKey = Some value \<and>
        normalize_name n \<in> listed_names value)"
  by (auto simp: skip_For_def skip_ForAll_def skip_New_def add_names_eq listed_names_def Let_def
      split: option.splits)

lemma skip_For_case_insensitive:
  "to_lower m = to_lower n \<Longrightarrow> skip_For e m = skip_For e n"
  by (simp add: skip_For_def normalize_name_def)

lemma skip_ForAll_For: "skip_ForAll e \<Longrightarrow> skip_For e n"
  by (simp add: skip_ForAll_def skip_For_def)

end
