(* ===== verification/PreflightRun.thy ===== *)
theory PreflightRun
  imports Preflight
begin

text \<open>
  The goroutines of \<open>run\<close> in \<open>pkg/webhook/preflight/preflight.go\<close>, as a step
  relation.  There is one goroutine per checker, which calls \<open>Init\<close>, allocates one slot
  per check, walks over the checks (it fills the slot of a skipped check itself and starts a
  goroutine for the others), waits for them and publishes the slots; the goroutine of a check
  runs it, recovers from a panic, and writes its slot.  A panic of \<open>Init\<close> is not
  recovered and ends the process.  A schedule is any sequence of these steps.
\<close>

section \<open>States and steps\<close>

record checker_state =
  ck_slots :: "named_result option list"
  ck_next :: nat
  ck_published :: bool

record run_state =
  rs_checkers :: "checker_state option list"
  rs_crashed :: "string option"

definition initial_run_state :: "check list outcome list \<Rightarrow> run_state" where
  "initial_run_state inits = \<lparr>rs_checkers = replicate (length inits) None, rs_crashed = None\<rparr>"

definition new_checker_state :: "check list \<Rightarrow> checker_state" where
  "new_checker_state cs =
     \<lparr>ck_slots = replicate (length cs) None, ck_next = 0, ck_published = False\<rparr>"

definition set_checker :: "nat \<Rightarrow> checker_state \<Rightarrow> run_state \<Rightarrow> run_state" where
  "set_checker i k s = s\<lparr>rs_checkers := (rs_checkers s)[i := Some k]\<rparr>"

text \<open>One turn of the loop over the checks of a checker.\<close>

definition walk :: "evaluator \<Rightarrow> check list \<Rightarrow> checker_state \<Rightarrow> checker_state" where
  "walk sk cs k =
     (let j = ck_next k; n = check_name (cs ! j)
      in k\<lparr>ck_next := Suc j,
           ck_slots := (if skip_For sk n then (ck_slots k)[j := Some (skipped_result n)]
                        else ck_slots k)\<rparr>)"

text \<open>The end of the goroutine of check \<open>j\<close>.\<close>

definition finish :: "check list \<Rightarrow> nat \<Rightarrow> checker_state \<Rightarrow> checker_state" where
  "finish cs j k = k\<lparr>ck_slots := (ck_slots k)[j := Some (executed_result (cs ! j))]\<rparr>"

inductive run_step ::
    "evaluator \<Rightarrow> check list outcome list \<Rightarrow> run_state \<Rightarrow> run_state \<Rightarrow> bool"
  for sk inits where
  init_step: "rs_crashed s = None \<Longrightarrow> i < length inits \<Longrightarrow> rs_checkers s ! i = None \<Longrightarrow>
     inits ! i = Returns cs \<Longrightarrow>
     run_step sk inits s (set_checker i (new_checker_state cs) s)"
| crash_step: "rs_crashed s = None \<Longrightarrow> i < length inits \<Longrightarrow> rs_checkers s ! i = None \<Longrightarrow>
     inits ! i = Panics m \<Longrightarrow>
     run_step sk inits s (s\<lparr>rs_crashed := Some m\<rparr>)"
| walk_step: "rs_crashed s = None \<Longrightarrow> i < length inits \<Longrightarrow> rs_checkers s ! i = Some k \<Longrightarrow>
     inits ! i = Returns cs \<Longrightarrow> ck_next k < length cs \<Longrightarrow>
     run_step sk inits s (set_checker i (walk sk cs k) s)"
| finish_step: "rs_crashed s = None \<Longrightarrow> i < length inits \<Longrightarrow> rs_checkers s ! i = Some k \<Longrightarrow>
     inits ! i = Returns cs \<Longrightarrow> j < ck_next k \<Longrightarrow> ck_slots k ! j = None \<Longrightarrow>
     run_step sk inits s (set_checker i (finish cs j k) s)"
| publish_step: "rs_crashed s = None \<Longrightarrow> i < length inits \<Longrightarrow> rs_checkers s ! i = Some k \<Longrightarrow>
     inits ! i = Returns cs \<Longrightarrow> ck_next k = length cs \<Longrightarrow> None \<notin> set (ck_slots k) \<Longrightarrow>
     \<not> ck_published k \<Longrightarrow>
     run_step sk inits s (set_checker i (k\<lparr>ck_published := True\<rparr>) s)"

inductive run_reachable :: "evaluator \<Rightarrow> check list outcome list \<Rightarrow> run_state \<Rightarrow> bool"
  for sk inits where
  run_start: "run_reachable sk inits (initial_run_state inits)"
| run_more: "run_reachable sk inits s \<Longrightarrow> run_step sk inits s t \<Longrightarrow> run_reachable sk inits t"

text \<open>A schedule has ended when no goroutine can move; then \<open>checkersWG.Wait\<close> returns
  (or the process has died), and this is what \<open>run\<close> returns.\<close>

definition run_ended :: "evaluator \<Rightarrow> check list outcome list \<Rightarrow> run_state \<Rightarrow> bool" where
  "run_ended sk inits s \<longleftrightarrow> (\<forall>t. \<not> run_step sk inits s t)"

definition checker_results :: "checker_state option \<Rightarrow> named_result list" where
  "checker_results ko = (case ko of None \<Rightarrow> [] | Some k \<Rightarrow> map the (ck_slots k))"

definition run_result :: "run_state \<Rightarrow> named_result list list outcome" where
  "run_result s =
     (case rs_crashed s of
        Some m \<Rightarrow> Panics m
      | None \<Rightarrow> Returns (map checker_results (rs_checkers s)))"

section \<open>The invariant of every schedule\<close>

text \<open>
  The slots of a checker hold nothing or the result of their check, a slot is filled only
  behind the loop, and the slots of skipped checks behind the loop are filled.
\<close>

definition checker_ok :: "evaluator \<Rightarrow> check list \<Rightarrow> checker_state \<Rightarrow> bool" where
  "checker_ok sk cs k \<longleftrightarrow>
     length (ck_slots k) = length cs \<and> ck_next k \<le> length cs \<and>
     (\<forall>j < length cs. ck_slots k ! j = None \<or> ck_slots k ! j = Some (run_one sk (cs ! j))) \<and>
     (\<forall>j < ck_next k. skip_For sk (check_name (cs ! j)) \<longrightarrow> ck_slots k ! j \<noteq> None) \<and>
     (ck_published k \<longrightarrow> ck_next k = length cs \<and> None \<notin> set (ck_slots k))"

definition run_ok :: "evaluator \<Rightarrow> check list outcome list \<Rightarrow> run_state \<Rightarrow> bool" where
  "run_ok sk inits s \<longleftrightarrow>
     length (rs_checkers s) = length inits \<and>
     (\<forall>m. rs_crashed s = Some m \<longrightarrow> Panics m \<in> set inits) \<and>
     (\<forall>i < length inits. \<forall>k. rs_checkers s ! i = Some k \<longrightarrow>
        (\<exists>cs. inits ! i = Returns cs \<and> checker_ok sk cs k))"

lemma run_ok_initial: "run_ok sk inits (initial_run_state inits)"
  by (simp add: run_ok_def initial_run_state_def)

lemma checker_ok_new: "checker_ok sk cs (new_checker_state cs)"
  by (simp add: checker_ok_def new_checker_state_def)

lemma checker_ok_walk:
  "checker_ok sk cs k \<Longrightarrow> ck_next k < length cs \<Longrightarrow> \<not> ck_published k \<Longrightarrow>
     checker_ok sk cs (walk sk cs k)"
  by (auto simp: checker_ok_def walk_def Let_def run_one_def nth_list_update less_Suc_eq)

lemma checker_ok_walking: "checker_ok sk cs k \<Longrightarrow> ck_next k < length cs \<Longrightarrow> \<not> ck_published k"
  by (auto simp: checker_ok_def)

lemma checker_ok_finish:
  "checker_ok sk cs k \<Longrightarrow> j < ck_next k \<Longrightarrow> ck_slots k ! j = None \<Longrightarrow>
     checker_ok sk cs (finish cs j k)"
  by (auto simp: checker_ok_def finish_def run_one_def nth_list_update in_set_conv_nth)

lemma checker_ok_publish:
  "checker_ok sk cs k \<Longrightarrow> ck_next k = length cs \<Longrightarrow> None \<notin> set (ck_slots k) \<Longrightarrow>
     checker_ok sk cs (k\<lparr>ck_published := True\<rparr>)"
  by (simp add: checker_ok_def)

lemma run_ok_set_checker:
  assumes "run_ok sk inits s" and "i < length inits" and "inits ! i = Returns cs"
    and "checker_ok sk cs k"
  shows "run_ok sk inits (set_checker i k s)"
  unfolding run_ok_def
proof (intro conjI allI impI)
  fix j k'
  assume "j < length inits" and "rs_checkers (set_checker i k s) ! j = Some k'"
  with assms show "\<exists>cs. inits ! j = Returns cs \<and> checker_ok sk cs k'"
    by (cases "j = i") (simp_all add: run_ok_def set_checker_def)
qed (use assms in \<open>auto simp: run_ok_def set_checker_def\<close>)

lemma run_ok_checker:
  "run_ok sk inits s \<Longrightarrow> i < length inits \<Longrightarrow> rs_checkers s ! i = Some k \<Longrightarrow>
     inits ! i = Returns cs \<Longrightarrow> checker_ok sk cs k"
  by (force simp: run_ok_def)

lemma run_step_ok: "run_step sk inits s t \<Longrightarrow> run_ok sk inits s \<Longrightarrow> run_ok sk inits t"
proof (induction rule: run_step.induct)
  case (init_step s i cs)
  then show ?case by (simp add: run_ok_set_checker checker_ok_new)
next
  case (crash_step s i m)
  then have "Panics m \<in> set inits" by (metis nth_mem)
  with crash_step show ?case by (simp add: run_ok_def)
next
  case (walk_step s i k cs)
  then have "checker_ok sk cs k" by (simp add: run_ok_checker)
  with walk_step show ?case
    by (simp add: run_ok_set_checker checker_ok_walk checker_ok_walking)
next
  case (finish_step s i k cs j)
  then have "checker_ok sk cs k" by (simp add: run_ok_checker)
  with finish_step show ?case by (simp add: run_ok_set_checker checker_ok_finish)
next
  case (publish_step s i k cs)
  then have "checker_ok sk cs k" by (simp add: run_ok_checker)
  with publish_step show ?case by (simp add: run_ok_set_checker checker_ok_publish)
qed

lemma run_reachable_ok: "run_reachable sk inits s \<Longrightarrow> run_ok sk inits s"
  by (induction rule: run_reachable.induct) (auto intro: run_ok_initial run_step_ok)

section \<open>Progress: a state that cannot move has published everything\<close>

lemma ended_published:
  assumes ok: "run_ok sk inits s" and ended: "run_ended sk inits s"
    and live: "rs_crashed s = None" and i: "i < length inits"
  shows "\<exists>cs k. inits ! i = Returns cs \<and> rs_checkers s ! i = Some k \<and> ck_published k"
proof -
  have started: "\<exists>k. rs_checkers s ! i = Some k"
  proof (rule ccontr)
    assume "\<nexists>k. rs_checkers s ! i = Some k"
    then have "rs_checkers s ! i = None" by auto
    then have "\<exists>t. run_step sk inits s t"
      using live i by (cases "inits ! i") (blast intro: init_step, blast intro: crash_step)
    with ended show False by (simp add: run_ended_def)
  qed
  then obtain k where k: "rs_checkers s ! i = Some k" by blast
  with ok i obtain cs where cs: "inits ! i = Returns cs" "checker_ok sk cs k"
    unfolding run_ok_def by blast
  have walked: "ck_next k = length cs"
  proof (rule ccontr)
    assume "ck_next k \<noteq> length cs"
    then have "ck_next k < length cs" using cs by (auto simp: checker_ok_def)
    then have "\<exists>t. run_step sk inits s t" using walk_step [OF live i k cs(1)] by blast
    with ended show False by (simp add: run_ended_def)
  qed
  have filled: "None \<notin> set (ck_slots k)"
  proof
    assume "None \<in> set (ck_slots k)"
    then obtain j where "j < length cs" "ck_slots k ! j = None"
      using cs by (auto simp: in_set_conv_nth checker_ok_def)
    then have "\<exists>t. run_step sk inits s t"
      using finish_step [OF live i k cs(1), of j] walked by auto
    with ended show False by (simp add: run_ended_def)
  qed
  have "ck_published k"
    using publish_step [OF live i k cs(1) walked filled] ended by (auto simp: run_ended_def)
  with k cs show ?thesis by blast
qed

lemma published_results:
  "checker_ok sk cs k \<Longrightarrow> ck_published k \<Longrightarrow> map the (ck_slots k) = map (run_one sk) cs"
proof (rule nth_equalityI)
  assume ok: "checker_ok sk cs k" and pub: "ck_published k"
  show "length (map the (ck_slots k)) = length (map (run_one sk) cs)"
    using ok by (simp add: checker_ok_def)
  fix j assume "j < length (map the (ck_slots k))"
  then have j: "j < length (ck_slots k)" "j < length cs" using ok by (auto simp: checker_ok_def)
  moreover have "ck_slots k ! j \<noteq> None"
    using ok pub j by (metis checker_ok_def nth_mem)
  ultimately have "ck_slots k ! j = Some (run_one sk (cs ! j))"
    using ok by (auto simp: checker_ok_def)
  with j show "map the (ck_slots k) ! j = map (run_one sk) cs ! j" by simp
qed

lemma ended_result:
  assumes "run_ok sk inits s" and "run_ended sk inits s"
  shows "if \<exists>m. Panics m \<in> set inits then (\<exists>m. run_result s = Panics m \<and> Panics m \<in> set inits)
         else run_result s = run_checks sk inits"
proof (cases "rs_crashed s")
  case (Some m)
  with assms(1) have "Panics m \<in> set inits" by (simp add: run_ok_def)
  with Some show ?thesis by (auto simp: run_result_def)
next
  case None
  note pub = ended_published [OF assms None]
  have returns: "\<exists>cs. inits ! i = Returns cs" if "i < length inits" for i
    using pub [OF that] by blast
  then have no_panic: "\<not> (\<exists>m. Panics m \<in> set inits)"
    by (metis in_set_conv_nth outcome.distinct(1))
  define css where "css = map (\<lambda>m. case m of Returns cs \<Rightarrow> cs | Panics _ \<Rightarrow> []) inits"
  have inits: "inits = map Returns css"
    by (rule nth_equalityI) (use returns in \<open>force simp: css_def\<close>)+
  have "map checker_results (rs_checkers s) = map (map (run_one sk)) css"
  proof (rule nth_equalityI)
    show "length (map checker_results (rs_checkers s)) = length (map (map (run_one sk)) css)"
      using assms(1) by (simp add: run_ok_def css_def)
  next
    fix i assume "i < length (map checker_results (rs_checkers s))"
    then have i: "i < length inits" "i < length css" using assms(1)
      by (auto simp: run_ok_def css_def)
    from pub [OF i(1)] obtain cs k where
      "inits ! i = Returns cs" "rs_checkers s ! i = Some k" "ck_published k" by blast
    with i assms(1) inits show "map checker_results (rs_checkers s) ! i =
        map (map (run_one sk)) css ! i"
      using run_ok_checker published_results
      by (fastforce simp: run_ok_def checker_results_def)
  qed
  with None no_panic show ?thesis
    by (simp add: run_result_def run_checks_Returns inits)
qed

section \<open>Termination: every schedule is finite\<close>

definition checker_left :: "check list outcome \<Rightarrow> checker_state option \<Rightarrow> nat" where
  "checker_left m ko =
     (case ko of
        None \<Rightarrow> (case m of Returns cs \<Rightarrow> 2 * length cs + 2 | Panics _ \<Rightarrow> 1)
      | Some k \<Rightarrow>
          (case m of
             Returns cs \<Rightarrow> (length cs - ck_next k) + length (filter (\<lambda>x. x = None) (ck_slots k)) +
               (if ck_published k then 0 else 1)
           | Panics _ \<Rightarrow> 0))"

definition run_left :: "check list outcome list \<Rightarrow> run_state \<Rightarrow> nat" where
  "run_left inits s =
     (if rs_crashed s \<noteq> None then 0
      else Suc (sum_list (map2 checker_left inits (rs_checkers s))))"

lemma sum_list_update_less:
  fixes f :: "'a \<Rightarrow> 'b \<Rightarrow> nat"
  shows "length xs = length ys \<Longrightarrow> i < length ys \<Longrightarrow> f (xs ! i) y < f (xs ! i) (ys ! i) \<Longrightarrow>
     sum_list (map2 f xs (ys[i := y])) < sum_list (map2 f xs ys)"
proof (induction xs ys arbitrary: i rule: list_induct2)
  case Nil
  then show ?case by simp
next
  case (Cons x xs z ys)
  then show ?case by (cases i) auto
qed

lemma length_filter_None_update:
  "j < length xs \<Longrightarrow> xs ! j = None \<Longrightarrow>
     length (filter (\<lambda>x. x = None) (xs[j := Some y])) < length (filter (\<lambda>x. x = None) xs)"
proof (induction xs arbitrary: j)
  case Nil
  then show ?case by simp
next
  case (Cons x xs)
  then show ?case by (cases j) auto
qed

lemma length_filter_None_update_le:
  "length (filter (\<lambda>x. x = None) (xs[j := Some y])) \<le> length (filter (\<lambda>x. x = None) xs)"
proof (induction xs arbitrary: j)
  case Nil
  then show ?case by simp
next
  case (Cons x xs)
  then show ?case by (cases j) (auto simp: le_SucI)
qed

lemma checker_left_walk:
  "ck_next k < length cs \<Longrightarrow>
     checker_left (Returns cs) (Some (walk sk cs k)) < checker_left (Returns cs) (Some k)"
  using length_filter_None_update_le [of "ck_slots k" "ck_next k"
      "skipped_result (check_name (cs ! ck_next k))"]
  by (simp add: checker_left_def walk_def Let_def) linarith

lemma run_left_set_checker:
  assumes "run_ok sk inits s" and "rs_crashed s = None" and "i < length inits"
    and "checker_left (inits ! i) (Some k) < checker_left (inits ! i) (rs_checkers s ! i)"
  shows "run_left inits (set_checker i k s) < run_left inits s"
  using assms sum_list_update_less [of inits "rs_checkers s" i checker_left "Some k"]
  by (simp add: run_left_def set_checker_def run_ok_def)

lemma run_step_decreases:
  "run_step sk inits s t \<Longrightarrow> run_ok sk inits s \<Longrightarrow> run_left inits t < run_left inits s"
proof (induction rule: run_step.induct)
  case (init_step s i cs)
  then show ?case
    by (intro run_left_set_checker) (auto simp: checker_left_def new_checker_state_def)
next
  case (crash_step s i m)
  then show ?case by (simp add: run_left_def)
next
  case (walk_step s i k cs)
  then show ?case by (intro run_left_set_checker) (auto simp: checker_left_walk)
next
  case (finish_step s i k cs j)
  then have "checker_ok sk cs k" by (blast dest: run_ok_checker)
  then have "j < length (ck_slots k)" using finish_step by (auto simp: checker_ok_def)
  with finish_step show ?case
    by (intro run_left_set_checker)
      (auto simp: checker_left_def finish_def intro: length_filter_None_update)
next
  case (publish_step s i k cs)
  then show ?case by (intro run_left_set_checker) (auto simp: checker_left_def)
qed

lemma schedule_exists:
  "run_reachable sk inits s \<Longrightarrow>
     \<exists>t. (run_step sk inits)\<^sup>*\<^sup>* s t \<and> run_reachable sk inits t \<and> run_ended sk inits t"
proof (induction "run_left inits s" arbitrary: s rule: less_induct)
  case less
  then show ?case
    using run_step_decreases run_more run_reachable_ok
    unfolding run_ended_def by (metis converse_rtranclp_into_rtranclp rtranclp.rtrancl_refl)
qed

lemma schedules_wf: "wfp (\<lambda>t s. run_reachable sk inits s \<and> run_step sk inits s t)"
  by (rule wfp_if_convertible_to_nat [where f = "run_left inits"])
    (blast intro: run_step_decreases run_reachable_ok)

end
