(* ===== verification/PrismClient.thy ===== *)
theory PrismClient
  imports ApiTypes Complex_Main
begin

text \<open>
  \<open>pkg/webhook/preflight/nutanix/clients.go\<close>: the client the Nutanix checks use.  The
  converged Prism Central client underneath is a parameter (\<open>converged_client\<close>);
  \<open>newClient\<close> wraps it.  A response of the wrapper may in principle be nil, carry no data,
  or carry data of another type, and the callers test for that; the interface
  \<open>prism_responses\<close> states that the wrapper's responses always carry the data.
\<close>

section \<open>Objects of the Prism Central API\<close>

record pe_cluster =
  pe_ext_id :: "string option"

record ip_config =
  ipc_ip :: "string option"
  ipc_prefix_length :: "int option"

text \<open>
  \<open>ipc_ip\<close> is the chain \<open>Ipv4.IpSubnet.Ip.Value\<close>, absent when any link is nil;
  \<open>ipc_prefix_length\<close> is \<open>Ipv4.IpSubnet.PrefixLength\<close>.
\<close>

record subnet =
  sub_type :: "string option"
  sub_cluster_ref :: "string option"
  sub_vpc_ref :: "string option"
  sub_network_id :: "int option"
  sub_ip_prefix :: "string option"
  sub_ip_config :: "ip_config list"

record vm_image =
  img_name :: "string option"

datatype 'a api_response = NilResponse | NilData | Data 'a | OtherData

text \<open>The Go interface \<open>client\<close>; an error is its text.\<close>

record nclient =
  nc_validate :: "string option"
  nc_pc_version :: "string + string"
  nc_hosting_cluster :: "string + string"
  nc_rtt :: "string \<Rightarrow> string \<Rightarrow> string + rat option"
  nc_image_by_id :: "string option \<Rightarrow> string + vm_image api_response"
  nc_list_images :: "string option \<Rightarrow> string + vm_image list api_response"
  nc_cluster_by_id :: "string option \<Rightarrow> string + pe_cluster api_response"
  nc_list_clusters :: "string option \<Rightarrow> string + pe_cluster list api_response"
  nc_list_containers :: "string option \<Rightarrow> string + string list api_response"
  nc_subnet_by_id :: "string option \<Rightarrow> string + subnet api_response"
  nc_list_subnets :: "string option \<Rightarrow> string + subnet list api_response"

text \<open>
  A list call takes the filter; the other query parameters are nil at every call of the
  program.  A round-trip time that could not be determined is \<open>None\<close>; a time is the
  rational number the \<open>float64\<close> denotes.
\<close>

section \<open>Query options\<close>

datatype odata_option =
    WithPage int | WithLimit int | WithFilter string | WithOrderBy string | WithSelect string
  | WithApply string | WithExpand string

definition buildODataOptions ::
    "int option \<Rightarrow> int option \<Rightarrow> string option \<Rightarrow> string option \<Rightarrow> string option \<Rightarrow>
     odata_option list" where
  "buildODataOptions page limit fltr orderby selectFields =
     (case page of Some p \<Rightarrow> [WithPage p] | None \<Rightarrow> []) @
     (case limit of Some l \<Rightarrow> [WithLimit l] | None \<Rightarrow> []) @
     (case fltr of Some f \<Rightarrow> if f \<noteq> [] then [WithFilter f] else [] | None \<Rightarrow> []) @
     (case orderby of Some ob \<Rightarrow> if ob \<noteq> [] then [WithOrderBy ob] else [] | None \<Rightarrow> []) @
     (case selectFields of Some s \<Rightarrow> if s \<noteq> [] then [WithSelect s] else [] | None \<Rightarrow> [])"

section \<open>The management endpoint\<close>

record credentials =
  cred_endpoint :: string
  cred_url :: string
  cred_username :: string
  cred_password :: string
  cred_insecure :: bool

record management_endpoint =
  me_address :: parsed_url
  me_insecure :: bool
  me_trust_bundle :: string
  me_username :: string
  me_password :: string

text \<open>\<open>url.Parse\<close> is the parameter.\<close>

definition buildManagementEndpoint ::
    "url_parser \<Rightarrow> credentials \<Rightarrow> string \<Rightarrow> string + management_endpoint" where
  "buildManagementEndpoint url_parse cred additionalTrustBundlePEM =
     (let urlStr = (if \<not> has_prefix (cred_url cred) ''http://'' \<and>
                       \<not> has_prefix (cred_url cred) ''https://''
                    then ''https://'' @ cred_url cred else cred_url cred)
      in case url_parse urlStr of
           Inl err \<Rightarrow> Inl (''failed to parse URL '' @ quoted urlStr @ '': '' @ err)
         | Inr parsedURL \<Rightarrow>
             if url_host parsedURL = []
             then Inl (''invalid URL '' @ quoted (cred_url cred) @ '': parsed URL has empty host'')
             else Inr \<lparr>me_address = parsedURL, me_insecure = cred_insecure cred,
                       me_trust_bundle = additionalTrustBundlePEM,
                       me_username = cred_username cred, me_password = cred_password cred\<rparr>)"

lemma buildManagementEndpoint_host:
  "buildManagementEndpoint url_parse cred pem = Inr me \<Longrightarrow> url_host (me_address me) \<noteq> []"
  by (auto simp: buildManagementEndpoint_def Let_def split: sum.splits if_splits)

section \<open>Calls under a context\<close>

text \<open>
  \<open>callWithContext\<close> runs the call in a goroutine and selects between the cancellation of
  the context and the result; which case fires is the argument.
\<close>

datatype select_case = ContextDone string | ResultReady

fun callWithContext :: "select_case \<Rightarrow> string + 'a \<Rightarrow> string + 'a" where
  "callWithContext (ContextDone err) res = Inl err"
| "callWithContext ResultReady res = res"

lemma callWithContext_Inr:
  "callWithContext sel res = Inr x \<Longrightarrow> res = Inr x"
  by (cases sel) auto

section \<open>The round-trip time between two clusters\<close>

record availability_zone =
  az_metadata :: "string option option"
  az_status :: "string option option option"

text \<open>
  \<open>az_metadata\<close> is \<open>Metadata\<close> and its \<open>UUID\<close>; \<open>az_status\<close> is
  \<open>Status\<close>, its \<open>Resources\<close> and their \<open>ManagementPlaneType\<close>.
\<close>

fun local_zone_of :: "availability_zone option list \<Rightarrow> string" where
  "local_zone_of [] = []"
| "local_zone_of (None # azs) = local_zone_of azs"
| "local_zone_of (Some az # azs) =
     (if az_metadata az = None \<or> az_status az = None then local_zone_of azs
      else if az_status az = Some (Some (Some ''Local''))
      then (case az_metadata az of Some (Some uuid) \<Rightarrow> uuid | _ \<Rightarrow> [])
      else local_zone_of azs)"

definition localAvailabilityZoneUUID :: "availability_zone option list option \<Rightarrow> string" where
  "localAvailabilityZoneUUID resp = (case resp of None \<Rightarrow> [] | Some azs \<Rightarrow> local_zone_of azs)"

text \<open>
  An entry of the capability response carries its round-trip time, as it is written
  (\<open>json.Number\<close>) and parsed (\<open>Float64\<close>).
\<close>

fun first_rtt :: "(string \<times> (string + rat)) option option list \<Rightarrow> string + rat option" where
  "first_rtt [] = Inr None"
| "first_rtt (None # es) = first_rtt es"
| "first_rtt (Some None # es) = first_rtt es"
| "first_rtt (Some (Some (written, Inl err)) # es) =
     Inl (''failed to parse round-trip time '' @ quoted written @ '': '' @ err)"
| "first_rtt (Some (Some (written, Inr rtt)) # es) = Inr (Some rtt)"

record v3_client =
  v3_zones :: "string + availability_zone option list option"
  v3_capable :: "string \<Rightarrow> string \<Rightarrow> string \<Rightarrow> string + (string \<times> (string + rat)) option option list option"

definition interClusterRTTMillis ::
    "string + v3_client \<Rightarrow> string \<Rightarrow> string \<Rightarrow> string + rat option" where
  "interClusterRTTMillis v3 source remote =
     (case v3 of
        Inl err \<Rightarrow> Inl (''failed to create Prism Central V3 API client: '' @ err)
      | Inr v3client \<Rightarrow>
     (case v3_zones v3client of
        Inl err \<Rightarrow> Inl (''failed to list availability zones: '' @ err)
      | Inr azResp \<Rightarrow>
          let localAZUUID = localAvailabilityZoneUUID azResp
          in if localAZUUID = [] then Inr None
             else case v3_capable v3client source remote localAZUUID of
                 Inl err \<Rightarrow> Inl (''failed to check synchronous replication capability: '' @ err)
               | Inr None \<Rightarrow> Inr None
               | Inr (Some entries) \<Rightarrow> first_rtt entries))"

section \<open>The wrapper\<close>

record converged_client =
  cv_users :: "string option"
  cv_pc_version :: "string + string"
  cv_domain_managers :: "string + string option list"
  cv_image :: "string \<Rightarrow> string + vm_image"
  cv_images :: "odata_option list \<Rightarrow> string + vm_image list"
  cv_cluster :: "string \<Rightarrow> string + pe_cluster"
  cv_clusters :: "odata_option list \<Rightarrow> string + pe_cluster list"
  cv_containers :: "odata_option list \<Rightarrow> string + string list"
  cv_subnet :: "string \<Rightarrow> string + subnet"
  cv_subnets :: "odata_option list \<Rightarrow> string + subnet list"

fun first_hosting_cluster :: "string option list \<Rightarrow> string" where
  "first_hosting_cluster [] = []"
| "first_hosting_cluster (Some (c # cs) # dms) = c # cs"
| "first_hosting_cluster (_ # dms) = first_hosting_cluster dms"

definition wrap_data :: "string + 'a \<Rightarrow> string + 'a api_response" where
  "wrap_data res = (case res of Inl err \<Rightarrow> Inl err | Inr x \<Rightarrow> Inr (Data x))"

definition get_by_uuid :: "(string \<Rightarrow> string + 'a) \<Rightarrow> string option \<Rightarrow> string + 'a api_response" where
  "get_by_uuid get uuid =
     (case uuid of None \<Rightarrow> Inl ''uuid cannot be nil'' | Some u \<Rightarrow> wrap_data (get u))"

definition list_filtered ::
    "(odata_option list \<Rightarrow> string + 'a) \<Rightarrow> string option \<Rightarrow> string + 'a api_response" where
  "list_filtered lst fltr = wrap_data (lst (buildODataOptions None None fltr None None))"

definition wrapConverged :: "select_case \<Rightarrow> string + v3_client \<Rightarrow> converged_client \<Rightarrow> nclient" where
  "wrapConverged sel v3 conv =
     \<lparr>nc_validate = cv_users conv,
      nc_pc_version = cv_pc_version conv,
      nc_hosting_cluster = callWithContext sel
        (case cv_domain_managers conv of
           Inl err \<Rightarrow> Inl err
         | Inr dms \<Rightarrow> Inr (first_hosting_cluster dms)),
      nc_rtt = interClusterRTTMillis v3,
      nc_image_by_id = (\<lambda>u. callWithContext sel (get_by_uuid (cv_image conv) u)),
      nc_list_images = (\<lambda>f. callWithContext sel (list_filtered (cv_images conv) f)),
      nc_cluster_by_id = (\<lambda>u. callWithContext sel (get_by_uuid (cv_cluster conv) u)),
      nc_list_clusters = (\<lambda>f. callWithContext sel (list_filtered (cv_clusters conv) f)),
      nc_list_containers = (\<lambda>f. callWithContext sel (list_filtered (cv_containers conv) f)),
      nc_subnet_by_id = (\<lambda>u. callWithContext sel (get_by_uuid (cv_subnet conv) u)),
      nc_list_subnets = (\<lambda>f. callWithContext sel (list_filtered (cv_subnets conv) f))\<rparr>"

text \<open>\<open>cache.go\<close>: the key of the client caches and the parameters handed to them.\<close>

record cache_params =
  ClusterNamespacedName :: "string \<times> string"
  PrismManagementEndpoint :: management_endpoint

definition cache_key :: "cache_params \<Rightarrow> string" where
  "cache_key c = fst (ClusterNamespacedName c) @ ''/'' @ snd (ClusterNamespacedName c)"

definition newClient ::
    "url_parser \<Rightarrow> (cache_params \<Rightarrow> string + converged_client) \<Rightarrow>
     (cache_params \<Rightarrow> string + v3_client) \<Rightarrow> select_case \<Rightarrow>
     credentials \<Rightarrow> string \<times> string \<Rightarrow> string \<Rightarrow> string + nclient" where
  "newClient url_parse getOrCreate getOrCreateV3 sel cred clusterNamespacedName
       additionalTrustBundlePEM =
     (case buildManagementEndpoint url_parse cred additionalTrustBundlePEM of
        Inl err \<Rightarrow> Inl (''failed to build management endpoint: '' @ err)
      | Inr endpoint \<Rightarrow>
          let cacheParams = \<lparr>ClusterNamespacedName = clusterNamespacedName,
                             PrismManagementEndpoint = endpoint\<rparr>
          in case getOrCreate cacheParams of
               Inl err \<Rightarrow> Inl (''failed to create converged client: '' @ err)
             | Inr convergedc \<Rightarrow> Inr (wrapConverged sel (getOrCreateV3 cacheParams) convergedc))"

lemma first_hosting_cluster_cases:
  "first_hosting_cluster dms = [] \<or> Some (first_hosting_cluster dms) \<in> set dms"
  by (induction dms rule: first_hosting_cluster.induct) auto

lemma wrap_data_Inr: "wrap_data res = Inr r \<Longrightarrow> \<exists>x. r = Data x"
  by (auto simp: wrap_data_def split: sum.splits)

lemma get_by_uuid_Inr: "get_by_uuid get u = Inr r \<Longrightarrow> \<exists>x. r = Data x"
  by (auto simp: get_by_uuid_def dest: wrap_data_Inr split: option.splits)

lemma list_filtered_Inr: "list_filtered lst f = Inr r \<Longrightarrow> \<exists>x. r = Data x"
  by (auto simp: list_filtered_def dest: wrap_data_Inr)

section \<open>Looking objects up by identifier\<close>

text \<open>
  \<open>getVMImages\<close> (image.go), \<open>getSubnets\<close> (failuredomain.go), \<open>getClusters\<close> and
  \<open>getStorageContainers\<close> (storagecontainer.go).  Only \<open>getClusters\<close> reads the data
  of a response without asking whether the response is nil, and takes a pointer to the
  identifier.
\<close>

definition name_filter :: "string \<Rightarrow> string" where
  "name_filter n = ''name eq '' @ [CHR 0x27] @ n @ [CHR 0x27]"

definition list_data :: "string \<Rightarrow> 'a list api_response \<Rightarrow> string + 'a list" where
  "list_data failure resp =
     (case resp of
        NilResponse \<Rightarrow> Inr []
      | NilData \<Rightarrow> Inr []
      | Data xs \<Rightarrow> Inr xs
      | OtherData \<Rightarrow> Inl failure)"

definition item_data :: "string \<Rightarrow> 'a api_response \<Rightarrow> string + 'a list" where
  "item_data failure resp =
     (case resp of
        NilResponse \<Rightarrow> Inr []
      | Data x \<Rightarrow> Inr [x]
      | _ \<Rightarrow> Inl failure)"

definition getVMImages :: "nclient \<Rightarrow> resource_id \<Rightarrow> string + vm_image list" where
  "getVMImages nc i =
     (if IsUUID i then
        (case nc_image_by_id nc (id_uuid i) of
           Inl err \<Rightarrow> Inl err
         | Inr resp \<Rightarrow> item_data ''failed to get data returned by GetImageById'' resp)
      else if IsName i then
        (case nc_list_images nc (Some (name_filter (the (id_name i)))) of
           Inl err \<Rightarrow> Inl err
         | Inr resp \<Rightarrow> list_data ''failed to get data returned by ListImages'' resp)
      else Inl ''image identifier is missing both name and uuid'')"

definition getSubnets :: "nclient \<Rightarrow> resource_id \<Rightarrow> string + subnet list" where
  "getSubnets nc i =
     (if IsUUID i then
        (case nc_subnet_by_id nc (id_uuid i) of
           Inl err \<Rightarrow> Inl err
         | Inr resp \<Rightarrow> item_data ''failed to get data returned by GetSubnetById'' resp)
      else if IsName i then
        (case nc_list_subnets nc (Some (name_filter (the (id_name i)))) of
           Inl err \<Rightarrow> Inl err
         | Inr resp \<Rightarrow> list_data ''failed to get data returned by ListSubnets'' resp)
      else Inl (''subnet identifier is missing both name and uuid, identifier type: '' @ id_type i))"

definition getClusters :: "nclient \<Rightarrow> resource_id option \<Rightarrow> (string + pe_cluster list) outcome" where
  "getClusters nc clusterIdentifier =
     bind_outcome (deref clusterIdentifier) (\<lambda>i.
       if IsUUID i then
         (case nc_cluster_by_id nc (id_uuid i) of
            Inl err \<Rightarrow> Returns (Inl err)
          | Inr NilResponse \<Rightarrow> Panics nil_dereference
          | Inr (Data c) \<Rightarrow> Returns (Inr [c])
          | Inr _ \<Rightarrow> Returns (Inl ''failed to get data returned by GetClusterById''))
       else if IsName i then
         (case nc_list_clusters nc (Some (name_filter (the (id_name i)))) of
            Inl err \<Rightarrow> Returns (Inl err)
          | Inr resp \<Rightarrow> Returns (list_data ''failed to get data returned by ListClusters'' resp))
       else Returns (Inl ''cluster identifier is missing both name and uuid''))"

definition getStorageContainers :: "nclient \<Rightarrow> string \<Rightarrow> string \<Rightarrow> string + string list" where
  "getStorageContainers nc clusterUUID storageContainerName =
     (let fltr = name_filter storageContainerName @ '' and clusterExtId eq '' @ [CHR 0x27] @
        clusterUUID @ [CHR 0x27]
      in case nc_list_containers nc (Some fltr) of
           Inl err \<Rightarrow> Inl err
         | Inr resp \<Rightarrow>
             list_data (''failed to get data returned by ListStorageContainers (filter='' @
               quoted fltr @ '')'') resp)"

section \<open>The interface: responses carry their data\<close>

locale prism_responses =
  fixes nc :: nclient
  assumes cluster_data: "nc_cluster_by_id nc u = Inr r \<Longrightarrow> \<exists>x. r = Data x"
    and clusters_data: "nc_list_clusters nc f = Inr rs \<Longrightarrow> \<exists>x. rs = Data x"
    and subnet_data: "nc_subnet_by_id nc u = Inr s \<Longrightarrow> \<exists>x. s = Data x"
    and subnets_data: "nc_list_subnets nc f = Inr ss \<Longrightarrow> \<exists>x. ss = Data x"
    and image_data: "nc_image_by_id nc u = Inr im \<Longrightarrow> \<exists>x. im = Data x"
    and images_data: "nc_list_images nc f = Inr ims \<Longrightarrow> \<exists>x. ims = Data x"
begin

lemma getClusters_returns: "\<exists>res. getClusters nc (Some i) = Returns res"
  using cluster_data [of "id_uuid i"]
  by (auto simp: getClusters_def split: sum.splits api_response.splits)

lemma getClusters_uuid_one:
  "IsUUID i \<Longrightarrow> getClusters nc (Some i) = Returns (Inr cs) \<Longrightarrow> length cs = 1"
  using cluster_data [of "id_uuid i"]
  by (auto simp: getClusters_def split: sum.splits api_response.splits)

lemma getSubnets_uuid_one: "IsUUID i \<Longrightarrow> getSubnets nc i = Inr ss \<Longrightarrow> length ss = 1"
  using subnet_data [of "id_uuid i"]
  by (auto simp: getSubnets_def item_data_def split: sum.splits api_response.splits)

lemma getVMImages_uuid_one: "IsUUID i \<Longrightarrow> getVMImages nc i = Inr ims \<Longrightarrow> length ims = 1"
  using image_data [of "id_uuid i"]
  by (auto simp: getVMImages_def item_data_def split: sum.splits api_response.splits)

end

interpretation wrapped: prism_responses "wrapConverged sel v3 conv" for sel v3 conv
  by unfold_locales
    (auto simp: wrapConverged_def dest!: callWithContext_Inr get_by_uuid_Inr list_filtered_Inr)

lemma newClient_wrapped:
  "newClient url_parse getOrCreate getOrCreateV3 sel cred nn pem = Inr nc \<Longrightarrow>
     \<exists>v3 conv. nc = wrapConverged sel v3 conv"
  by (auto simp: newClient_def Let_def split: sum.splits)

lemma getClusters_newClient_returns:
  "newClient url_parse getOrCreate getOrCreateV3 sel cred nn pem = Inr nc \<Longrightarrow>
     \<exists>res. getClusters nc (Some i) = Returns res"
  by (metis newClient_wrapped wrapped.getClusters_returns)

lemma getClusters_None: "getClusters nc None = Panics nil_dereference"
  by (simp add: getClusters_def)

end
