(* ===== verification/PcVersion.thy ===== *)
theory PcVersion
  imports GoBase
begin

text \<open>
  \<open>pkg/webhook/preflight/nutanix/utils/version.go\<close>: comparison of Prism Central
  versions.  The regular expressions are written out as recognisers.  The locale
  \<open>version_order\<close> is what the callers expect of a comparison: on a set of versions it is a
  total preorder.  \<open>CompareVersions\<close> provides it on all strings, \<open>ComparePCVersions\<close>
  on the two release formats.
\<close>

section \<open>Formats\<close>

text \<open>\<open>(\.\d+)+\<close> up to the end of the text.\<close>

definition dotted_numbers :: "string \<Rightarrow> bool" where
  "dotted_numbers s =
     (case split_on CHR ''.'' s of
        [] \<Rightarrow> False
      | p # ps \<Rightarrow> p = [] \<and> ps \<noteq> [] \<and> (\<forall>q \<in> set ps. q \<noteq> [] \<and> list_all is_digit q))"

text \<open>\<open>^202(\d(\.\d+)+)$\<close> and \<open>^7((\.\d+)+)$\<close>\<close>

definition is202XPcVersion :: "string \<Rightarrow> bool" where
  "is202XPcVersion version =
     (has_prefix version ''202'' \<and>
      (case drop 3 version of [] \<Rightarrow> False | d # rest \<Rightarrow> is_digit d \<and> dotted_numbers rest))"

definition is7XPcVersion :: "string \<Rightarrow> bool" where
  "is7XPcVersion version = (has_prefix version ''7'' \<and> dotted_numbers (drop 1 version))"

definition CleanPCVersion :: "string \<Rightarrow> string" where
  "CleanPCVersion version = trim_prefix (to_lower (trim_space version)) ''pc.''"

section \<open>Comparison\<close>

fun atois :: "string list \<Rightarrow> int list option" where
  "atois [] = Some []"
| "atois (x # xs) =
     (case atoi x of
        None \<Rightarrow> None
      | Some v \<Rightarrow> (case atois xs of None \<Rightarrow> None | Some vs \<Rightarrow> Some (v # vs)))"

definition convertStringToIntList :: "string \<Rightarrow> int list" where
  "convertStringToIntList str =
     (case atois (split_on CHR ''.'' str) of None \<Rightarrow> [9999] | Some intList \<Rightarrow> intList)"

definition pad_zeros :: "nat \<Rightarrow> int list \<Rightarrow> int list" where
  "pad_zeros n xs = xs @ replicate (n - length xs) 0"

fun compare_lists :: "int list \<Rightarrow> int list \<Rightarrow> int" where
  "compare_lists (x # xs) (y # ys) =
     (if x > y then 1 else if x < y then -1 else compare_lists xs ys)"
| "compare_lists _ _ = 0"

definition master_to_number :: "string \<Rightarrow> string" where
  "master_to_number v = (if to_lower v = ''master'' then ''9999'' else v)"

definition CompareVersions :: "string \<Rightarrow> string \<Rightarrow> int" where
  "CompareVersions v1 v2 =
     (let l1 = convertStringToIntList (master_to_number v1);
          l2 = convertStringToIntList (master_to_number v2);
          maxLen = max (length l1) (length l2)
      in compare_lists (pad_zeros maxLen l1) (pad_zeros maxLen l2))"

definition ComparePCVersions :: "string \<Rightarrow> string \<Rightarrow> int" where
  "ComparePCVersions v1 v2 =
     (let cleanV1 = CleanPCVersion v1; cleanV2 = CleanPCVersion v2
      in if is7XPcVersion cleanV1 \<and> is202XPcVersion cleanV2 then 1
         else if is7XPcVersion cleanV2 \<and> is202XPcVersion cleanV1 then -1
         else CompareVersions cleanV1 cleanV2)"

section \<open>The contract of a comparison\<close>

locale version_order =
  fixes cmp :: "'a \<Rightarrow> 'a \<Rightarrow> int"
    and release :: "'a \<Rightarrow> bool"
  assumes range: "cmp x y \<in> {-1, 0, 1}"
    and antisym: "release x \<Longrightarrow> release y \<Longrightarrow> cmp y x = - cmp x y"
    and trans: "release x \<Longrightarrow> release y \<Longrightarrow> release z \<Longrightarrow> cmp x y \<le> 0 \<Longrightarrow> cmp y z \<le> 0 \<Longrightarrow>
      cmp x z \<le> 0"
begin

lemma self: "release x \<Longrightarrow> cmp x x = 0"
  using antisym [of x x] by simp

lemma total: "release x \<Longrightarrow> release y \<Longrightarrow> cmp x y \<le> 0 \<or> cmp y x \<le> 0"
  using antisym [of x y] by linarith

text \<open>A threshold accepts every later version: what a minimum supported version needs.\<close>

lemma threshold_upward:
  assumes "release m" "release v" "release w" and "cmp v m \<noteq> -1" and "cmp v w \<le> 0"
  shows "cmp w m \<noteq> -1"
proof -
  have "cmp m v \<le> 0"
    using assms range [of v m] antisym [of v m] by auto
  with assms have "cmp m w \<le> 0" by (blast intro: trans)
  then show ?thesis using assms antisym [of w m] by auto
qed

lemma equal_versions_interchangeable:
  assumes "release x" "release y" "release z" and "cmp x y = 0"
  shows "cmp x z \<le> 0 \<longleftrightarrow> cmp y z \<le> 0"
  using assms antisym [of x y] trans [of x y z] trans [of y x z] by auto

end

section \<open>\<open>CompareVersions\<close> is such a comparison on all strings\<close>

text \<open>A list of numbers stands for the sequence it starts, followed by zeros.\<close>

definition component :: "int list \<Rightarrow> nat \<Rightarrow> int" where
  "component xs i = (if i < length xs then xs ! i else 0)"

lemma component_pad_zeros [simp]: "component (pad_zeros n xs) = component xs"
  by (auto simp: component_def pad_zeros_def nth_append fun_eq_iff)

lemma length_pad_zeros: "length xs \<le> n \<Longrightarrow> length (pad_zeros n xs) = n"
  by (simp add: pad_zeros_def)

definition seq_less :: "(nat \<Rightarrow> int) \<Rightarrow> (nat \<Rightarrow> int) \<Rightarrow> bool" where
  "seq_less f g \<longleftrightarrow> (\<exists>i. f i < g i \<and> (\<forall>j < i. f j = g j))"

lemma seq_less_irrefl: "\<not> seq_less f f"
  by (simp add: seq_less_def)

lemma seq_less_trans: "seq_less f g \<Longrightarrow> seq_less g h \<Longrightarrow> seq_less f h"
proof -
  assume "seq_less f g" and "seq_less g h"
  then obtain i k where i: "f i < g i" "\<forall>j < i. f j = g j" and k: "g k < h k" "\<forall>j < k. g j = h j"
    by (auto simp: seq_less_def)
  have "f (min i k) < h (min i k)"
    using i k by (cases i k rule: linorder_cases) (auto simp: min_def)
  moreover have "\<forall>j < min i k. f j = h j" using i k by auto
  ultimately show ?thesis by (auto simp: seq_less_def)
qed

lemma component_Cons:
  "component (x # xs) 0 = x" "component (x # xs) (Suc i) = component xs i"
  by (auto simp: component_def)

lemma seq_less_Cons:
  "seq_less (component (x # xs)) (component (y # ys)) \<longleftrightarrow>
     x < y \<or> (x = y \<and> seq_less (component xs) (component ys))"
  (is "?l \<longleftrightarrow> ?r")
proof
  assume ?l
  then obtain i where i: "component (x # xs) i < component (y # ys) i"
      "\<forall>j < i. component (x # xs) j = component (y # ys) j"
    by (auto simp: seq_less_def)
  show ?r
  proof (cases i)
    case 0
    with i show ?thesis by (simp add: component_Cons)
  next
    case (Suc k)
    then have "x = y" using i by (auto simp: component_Cons)
    moreover have "\<forall>j < k. component xs j = component ys j"
      using i(2) Suc by (auto simp: component_Cons dest: spec [where x = "Suc _"])
    ultimately show ?thesis using i(1) Suc by (auto simp: seq_less_def component_Cons)
  qed
next
  assume ?r
  then show ?l
  proof
    assume "x < y"
    then show ?l by (auto simp: seq_less_def component_Cons intro!: exI [where x = 0])
  next
    assume "x = y \<and> seq_less (component xs) (component ys)"
    then obtain i where "x = y" "component xs i < component ys i"
        "\<forall>j < i. component xs j = component ys j"
      by (auto simp: seq_less_def)
    then show ?l
      by (auto simp: seq_less_def component_Cons less_Suc_eq_0_disj intro!: exI [where x = "Suc i"])
  qed
qed

lemma compare_lists_range: "compare_lists xs ys \<in> {-1, 0, 1}"
  by (induction xs ys rule: compare_lists.induct) auto

lemma compare_lists_less:
  "length xs = length ys \<Longrightarrow>
     compare_lists xs ys = -1 \<longleftrightarrow> seq_less (component xs) (component ys)"
  by (induction xs ys rule: list_induct2) (auto simp: seq_less_irrefl seq_less_Cons)

lemma compare_lists_swap: "compare_lists ys xs = - compare_lists xs ys"
  by (induction xs ys rule: compare_lists.induct) auto

definition version_seq :: "string \<Rightarrow> nat \<Rightarrow> int" where
  "version_seq v = component (convertStringToIntList (master_to_number v))"

lemma CompareVersions_range: "CompareVersions v w \<in> {-1, 0, 1}"
  unfolding CompareVersions_def Let_def by (rule compare_lists_range)

lemma CompareVersions_swap: "CompareVersions w v = - CompareVersions v w"
  unfolding CompareVersions_def Let_def
  by (subst compare_lists_swap) (simp only: max.commute)

lemma CompareVersions_less: "CompareVersions v w = -1 \<longleftrightarrow> seq_less (version_seq v) (version_seq w)"
  unfolding CompareVersions_def Let_def version_seq_def
  by (subst compare_lists_less) (simp_all add: length_pad_zeros)

lemma CompareVersions_le: "CompareVersions v w \<le> 0 \<longleftrightarrow> \<not> seq_less (version_seq w) (version_seq v)"
proof -
  have "CompareVersions v w \<le> 0 \<longleftrightarrow> CompareVersions w v \<noteq> -1"
    using CompareVersions_range [of v w] CompareVersions_swap [where v = v and w = w] by auto
  then show ?thesis by (simp only: CompareVersions_less)
qed

lemma seq_total: "f \<noteq> g \<Longrightarrow> seq_less f g \<or> seq_less g f"
proof -
  assume "f \<noteq> g"
  then obtain i where "f i \<noteq> g i" by (auto simp: fun_eq_iff)
  define k where "k = (LEAST i. f i \<noteq> g i)"
  have k: "f k \<noteq> g k" unfolding k_def by (rule LeastI [of "\<lambda>i. f i \<noteq> g i"]) fact
  have "\<forall>j < k. f j = g j" unfolding k_def using not_less_Least by blast
  with k show ?thesis by (auto simp: seq_less_def neq_iff)
qed

lemma seq_less_linear: "\<not> seq_less g f \<Longrightarrow> \<not> seq_less h g \<Longrightarrow> \<not> seq_less h f"
  using seq_total [of f g] seq_less_trans [of h f g] by blast

lemma CompareVersions_trans:
  "CompareVersions x y \<le> 0 \<Longrightarrow> CompareVersions y z \<le> 0 \<Longrightarrow> CompareVersions x z \<le> 0"
  unfolding CompareVersions_le by (rule seq_less_linear)

interpretation plain: version_order CompareVersions "\<lambda>_. True"
  by unfold_locales
    (rule CompareVersions_range, rule CompareVersions_swap, rule CompareVersions_trans)

section \<open>\<open>ComparePCVersions\<close> is such a comparison on the release formats\<close>

definition pc_release :: "string \<Rightarrow> bool" where
  "pc_release v \<longleftrightarrow> is7XPcVersion (CleanPCVersion v) \<or> is202XPcVersion (CleanPCVersion v)"

lemma not_7X_and_202X: "\<not> (is7XPcVersion s \<and> is202XPcVersion s)"
  by (auto simp: is7XPcVersion_def is202XPcVersion_def has_prefix_iff)

lemma ComparePCVersions_cases:
  assumes "pc_release x" "pc_release y"
  shows "ComparePCVersions x y =
    (if is7XPcVersion (CleanPCVersion x) = is7XPcVersion (CleanPCVersion y)
     then CompareVersions (CleanPCVersion x) (CleanPCVersion y)
     else if is7XPcVersion (CleanPCVersion x) then 1 else -1)"
  using assms not_7X_and_202X [of "CleanPCVersion x"] not_7X_and_202X [of "CleanPCVersion y"]
  by (auto simp: ComparePCVersions_def Let_def pc_release_def)

interpretation pc: version_order ComparePCVersions pc_release
proof unfold_locales
  fix x y z
  show "ComparePCVersions x y \<in> {-1, 0, 1}"
    using CompareVersions_range by (simp add: ComparePCVersions_def Let_def)
  show "ComparePCVersions y x = - ComparePCVersions x y" if "pc_release x" "pc_release y"
    unfolding ComparePCVersions_cases [OF that] ComparePCVersions_cases [OF that(2,1)]
    using CompareVersions_swap [of "CleanPCVersion y" "CleanPCVersion x"] by auto
  show "ComparePCVersions x z \<le> 0"
    if r: "pc_release x" "pc_release y" "pc_release z"
      and le: "ComparePCVersions x y \<le> 0" "ComparePCVersions y z \<le> 0"
    using le CompareVersions_trans [of "CleanPCVersion x" "CleanPCVersion y" "CleanPCVersion z"]
    unfolding ComparePCVersions_cases [OF r(1,2)] ComparePCVersions_cases [OF r(2,3)]
      ComparePCVersions_cases [OF r(1,3)]
    by (auto split: if_splits)
qed

end
