(* ===== verification/NutanixInit.thy ===== *)
theory NutanixInit
  imports Preflight PrismClient PcVersion "HOL-Library.AList"
begin

text \<open>
  \<open>specs.go\<close>, \<open>credentials.go\<close>, \<open>prismcentralversion.go\<close> and
  \<open>controlplane.go\<close> of \<open>pkg/webhook/preflight/nutanix\<close>.  The first three
  constructors fill in the dependencies that the later checks read
  (\<open>checkDependencies\<close>), so each takes the dependencies and returns them updated with
  its check, whose result is already fixed.  \<open>cd_workers\<close> is the map of worker
  configurations in the order of its iterations.
\<close>

record check_dependencies =
  cd_kclient :: kube_client
  cd_cluster :: cluster
  cd_old_cluster :: "cluster option"
  cd_config :: "nutanix_cluster_config option"
  cd_workers :: "(string \<times> nutanix_worker_config) list"
  cd_failure_domains :: "string \<rightharpoonup> string"
  cd_nclient :: "nclient option"
  cd_pc_version :: string

definition finished_check :: "string \<Rightarrow> check_result \<Rightarrow> check" where
  "finished_check n r = \<lparr>check_name = n, check_run = Returns r\<rparr>"

section \<open>The configuration check\<close>

definition cluster_config_field :: string where
  "cluster_config_field = ''$.spec.topology.variables[?@.name==\"clusterConfig\"]''"

definition override_field :: "string \<Rightarrow> string" where
  "override_field mdName =
     ''$.spec.topology.workers.machineDeployments[?@.name=='' @ quoted mdName @
     ''].variables[?@.name=='' @ [CHR 0x27] @ WorkerConfigVariableName @ [CHR 0x27] @ '']''"

definition worker_variable_field :: string where
  "worker_variable_field =
     ''$.spec.topology.variables[?@.name=='' @ [CHR 0x27] @ WorkerConfigVariableName @
     [CHR 0x27] @ '']''"

text \<open>The variable that configures the workers of a MachineDeployment, with its field path.\<close>

definition worker_config_variable ::
    "cluster_variable list \<Rightarrow> machine_deployment \<Rightarrow> (cluster_variable \<times> string) option" where
  "worker_config_variable vars md =
     (case GetClusterVariableByName WorkerConfigVariableName (mdep_overrides md) of
        Some v \<Rightarrow> Some (v, override_field (mdep_name md))
      | None \<Rightarrow>
          (case GetClusterVariableByName WorkerConfigVariableName vars of
             Some v \<Rightarrow> Some (v, worker_variable_field)
           | None \<Rightarrow> None))"

definition has_nutanix_config :: "nutanix_cluster_config \<Rightarrow> bool" where
  "has_nutanix_config cfg \<longleftrightarrow> ncc_nutanix cfg \<noteq> None \<or> cp_nutanix cfg \<noteq> None"

text \<open>
  The body of the loop over the MachineDeployments: the failure domains, the worker
  configurations and the result so far.
\<close>

type_synonym worker_state =
  "(string \<rightharpoonup> string) \<times> (string \<times> nutanix_worker_config) list \<times> check_result"

definition configure_worker ::
    "nutanix_worker_config json_decoder \<Rightarrow> cluster_variable list \<Rightarrow> machine_deployment \<Rightarrow>
     worker_state \<Rightarrow> worker_state" where
  "configure_worker decode vars md st =
     (case st of (fds, workers, r) \<Rightarrow>
        let fds' = (if mdep_failure_domain md \<noteq> []
                    then fds(mdep_name md \<mapsto> mdep_failure_domain md) else fds)
        in case worker_config_variable vars md of
             None \<Rightarrow> (fds', workers, r)
           | Some (v, field) \<Rightarrow>
               (case decode (var_raw v) of (spec, err) \<Rightarrow>
                  (fds',
                   (if nwc_nutanix spec \<noteq> None
                    then AList.update (mdep_name md) spec workers else workers),
                   (case err of
                      None \<Rightarrow> r
                    | Some e \<Rightarrow>
                        failCheckInternal field
                          (''Failed to unmarshal variable '' @ quoted WorkerConfigVariableName @
                           '': '' @ ''failed to unmarshal json: '' @ e @ ''. Review the Cluster.'')
                          r))))"

definition newConfigurationCheck ::
    "nutanix_cluster_config json_decoder \<Rightarrow> nutanix_worker_config json_decoder \<Rightarrow>
     check_dependencies \<Rightarrow> (check \<times> check_dependencies) outcome" where
  "newConfigurationCheck decode decode_worker cd =
     (let vars = top_variables (cl_topology (cd_cluster cd))
      in bind_outcome
        (UnmarshalClusterVariable decode (GetClusterVariableByName ClusterConfigVariableName vars))
        (\<lambda>(cfg, err).
          let r = (case err of
                     None \<Rightarrow> allowed_result
                   | Some e \<Rightarrow>
                       failCheckInternal cluster_config_field
                         (''Failed to unmarshal cluster variable '' @
                          quoted ClusterConfigVariableName @ '': '' @ e @ ''. Review the Cluster.'')
                         allowed_result);
              (fds, workers, r') =
                fold (configure_worker decode_worker vars)
                  (top_machine_deployments (cl_topology (cd_cluster cd)))
                  (Map.empty, [], r)
          in Returns (finished_check ''NutanixConfiguration'' r',
               cd\<lparr>cd_config := (if has_nutanix_config cfg then Some cfg else cd_config cd),
                  cd_workers := (if workers \<noteq> [] then workers else cd_workers cd),
                  cd_failure_domains := fds\<rparr>)))"

section \<open>The Prism Central version check\<close>

definition prismCentralEndpointFieldPath :: string where
  "prismCentralEndpointFieldPath =
     cluster_config_field @ ''.value.nutanix.prismCentralEndpoint''"

definition minSupportedPrismCentralVersion :: string where
  "minSupportedPrismCentralVersion = ''7.5''"

definition internalPrismCentralVersionLabel :: string where
  "internalPrismCentralVersionLabel = ''master''"

definition isPCVersionCheckSkipped :: "cluster \<Rightarrow> bool" where
  "isPCVersionCheckSkipped c = skip_For (skip_New c) ''NutanixPrismCentralVersion''"

definition prism_central_version_verdict ::
    "check_dependencies \<Rightarrow> check_result \<times> check_dependencies" where
  "prism_central_version_verdict cd =
     (if isPCVersionCheckSkipped (cd_cluster cd)
      then (allowed_result, cd\<lparr>cd_pc_version := ''skipped''\<rparr>)
      else if cd_pc_version cd \<noteq> [] then (allowed_result, cd)
      else case cd_nclient cd of
        None \<Rightarrow> (allowed_result, cd)
      | Some nc \<Rightarrow>
     (case nc_pc_version nc of
        Inl err \<Rightarrow>
          (failCheckInternal prismCentralEndpointFieldPath
             (''Failed to get Prism Central version: '' @ err @
              ''. This is usually a temporary error. Please retry.'') allowed_result, cd)
      | Inr version \<Rightarrow>
          let lowerVersion = to_lower (trim_space version);
              cleanVersion = CleanPCVersion lowerVersion
          in if contains_str lowerVersion internalPrismCentralVersionLabel
             then (allowed_result, cd\<lparr>cd_pc_version := version\<rparr>)
             else if cleanVersion = [] then
               (failCheck prismCentralEndpointFieldPath
                  (''Prism Central reported version '' @ quoted version @
                   '', which is not a valid version. Upgrade Prism Central to '' @
                   minSupportedPrismCentralVersion @
                   '' or later, wait for the upgrade to finish, then retry.'') allowed_result, cd)
             else if ComparePCVersions cleanVersion minSupportedPrismCentralVersion = -1 then
               (failCheck prismCentralEndpointFieldPath
                  (''Prism Central version '' @ quoted version @
                   '' is older than the minimum supported version '' @
                   minSupportedPrismCentralVersion @ ''. Upgrade Prism Central to '' @
                   minSupportedPrismCentralVersion @
                   '' or later, wait for the upgrade to finish, then retry.'') allowed_result, cd)
             else (allowed_result, cd\<lparr>cd_pc_version := version\<rparr>)))"

definition newPrismCentralVersionCheck ::
    "check_dependencies \<Rightarrow> check \<times> check_dependencies" where
  "newPrismCentralVersionCheck cd =
     (case prism_central_version_verdict cd of
        (r, cd') \<Rightarrow> (finished_check ''NutanixPrismCentralVersion'' r, cd'))"

section \<open>The credentials check\<close>

definition secret_ref_field :: string where
  "secret_ref_field = prismCentralEndpointFieldPath @ ''.credentials.secretRef''"

definition trust_bundle_field :: string where
  "trust_bundle_field = prismCentralEndpointFieldPath @ ''.additionalTrustBundle''"

text \<open>
  The libraries the check calls: \<open>url.ParseRequestURI\<close>, the parser of the credentials
  document (user name and password), base64 decoding, and the client factory.
\<close>

record credential_libs =
  lib_parse_uri :: url_parser
  lib_parse_credentials :: "string \<Rightarrow> string + (string \<times> string)"
  lib_base64 :: "string \<Rightarrow> string + string"
  lib_client_factory :: "credentials \<Rightarrow> string \<times> string \<Rightarrow> string \<Rightarrow> string + nclient"

text \<open>The Secret's document: the part of the check that reads the Secret.\<close>

definition credentials_document ::
    "kube_client \<Rightarrow> string \<Rightarrow> string \<Rightarrow> check_result + string" where
  "credentials_document kc namespace secretName =
     (case kc_secret kc namespace secretName of
        Inl (NotFound e) \<Rightarrow>
          Inl ((failCheck secret_ref_field
            (''Prism Central credentials Secret '' @ quoted secretName @
             '' not found. Create the Secret first, then create the Cluster.'')
            allowed_result)\<lparr>InternalError := False\<rparr>)
      | Inl (OtherError e) \<Rightarrow>
          Inl (failCheckInternal secret_ref_field
            (''Failed to get Prism Central credentials Secret '' @ quoted secretName @ '': '' @ e @
             ''. This is usually a temporary error. Please retry.'') allowed_result)
      | Inr data \<Rightarrow>
          if data = [] then
            Inl (failCheck secret_ref_field
              (''Credentials Secret '' @ quoted secretName @ '' is empty. Review the Secret.'')
              allowed_result)
          else case map_of data ''credentials'' of
            None \<Rightarrow>
              Inl (failCheck secret_ref_field
                (''Credentials Secret '' @ quoted secretName @ '' does not contain key '' @
                 quoted ''credentials'' @ ''. Review the Secret.'') allowed_result)
          | Some doc \<Rightarrow> Inr doc)"

text \<open>How the error of the validation call is reported.\<close>

definition validation_failure :: "string \<Rightarrow> string \<Rightarrow> check_result" where
  "validation_failure additionalTrustBundlePEM err =
     (if contains_str err ''invalid Nutanix credentials'' then
        failCheck secret_ref_field
          (''Failed to validate credentials: '' @ err @
           ''. Please check the username and/or password.'') allowed_result
      else if contains_str err ''failed to verify certificate'' then
        failCheck trust_bundle_field
          (''Failed to verify certificate: '' @ err @
           (if additionalTrustBundlePEM = []
            then ''. If you are using a self-signed certificate, you need to provide '' @
                 ''the additional trust bundle.''
            else ''. Please check the additional trust bundle.'')) allowed_result
      else
        failCheckInternal prismCentralEndpointFieldPath
          (''Failed to validate credentials: '' @ err @
           ''. The error may be related to the URL, or the credentials. Please check both.'')
          allowed_result)"

definition credentials_client ::
    "credential_libs \<Rightarrow> check_dependencies \<Rightarrow> nutanix_spec \<Rightarrow> check_result + nclient" where
  "credentials_client libs cd spec =
     (let pce = ns_pc_endpoint spec; c = cd_cluster cd
      in case ParseURL (lib_parse_uri libs) pce of
        Inl err \<Rightarrow>
          Inl (failCheck (prismCentralEndpointFieldPath @ ''.url'')
            (''Failed to parse the Prism Central endpoint URL '' @ quoted (pce_url pce) @ '': '' @
             err @ ''. Check the URL format and retry.'') allowed_result)
      | Inr (host, port) \<Rightarrow>
     (case credentials_document (cd_kclient cd) (cl_namespace c) (pce_secret_name pce) of
        Inl r \<Rightarrow> Inl r
      | Inr doc \<Rightarrow>
     (case lib_parse_credentials libs doc of
        Inl err \<Rightarrow>
          Inl (failCheck secret_ref_field
            (''Failed to parse Prism Central credentials: '' @ err @ ''. Review the Secret.'')
            allowed_result)
      | Inr (username, password) \<Rightarrow>
     (case (if pce_trust_bundle pce \<noteq> [] then lib_base64 libs (pce_trust_bundle pce)
            else Inr []) of
        Inl err \<Rightarrow>
          Inl (failCheck trust_bundle_field
            (''Failed to decode Prism Central additionalTrustBundle (expected base64 PEM): '' @
             err @ ''.'') allowed_result)
      | Inr pem \<Rightarrow>
          let address = host @ '':'' @ itoa (int port);
              cred = \<lparr>cred_endpoint = address, cred_url = ''https://'' @ address,
                      cred_username = username, cred_password = password,
                      cred_insecure = pce_insecure pce\<rparr>
          in case lib_client_factory libs cred (cl_namespace c, cl_name c) pem of
               Inl err \<Rightarrow>
                 Inl (failCheckInternal secret_ref_field
                   (''Failed to initialize the Nutanix Prism Central API client: '' @ err @ ''.'')
                   allowed_result)
             | Inr nc \<Rightarrow>
                 (case nc_validate nc of
                    None \<Rightarrow> Inr nc
                  | Some err \<Rightarrow> Inl (validation_failure pem err))))))"

definition newCredentialsCheck ::
    "credential_libs \<Rightarrow> check_dependencies \<Rightarrow> check \<times> check_dependencies" where
  "newCredentialsCheck libs cd =
     (let finish = (\<lambda>r. finished_check ''NutanixCredentials'' r)
      in if cd_config cd = None \<and> cd_workers cd = [] then (finish allowed_result, cd)
         else case Option.bind (cd_config cd) ncc_nutanix of
           None \<Rightarrow>
             (finish (failCheck (cluster_config_field @ ''.value.nutanix'')
               (''The Nutanix configuration is missing from the Cluster resource. '' @
                ''Review the Cluster resource.'') allowed_result), cd)
         | Some spec \<Rightarrow>
             (case credentials_client libs cd spec of
                Inl r \<Rightarrow> (finish r, cd)
              | Inr nc \<Rightarrow> (finish allowed_result, cd\<lparr>cd_nclient := Some nc\<rparr>)))"

section \<open>The control plane endpoint check\<close>

text \<open>
  \<open>net.JoinHostPort\<close> brackets a host with a colon.  Dialling is the parameter: whether
  a TCP connection to the address is established within the timeout.
\<close>

definition JoinHostPort :: "string \<Rightarrow> string \<Rightarrow> string" where
  "JoinHostPort host port =
     (if CHR '':'' \<in> set host then ''['' @ host @ '']:'' @ port else host @ '':'' @ port)"

definition controlPlaneEndpointCheck_Run :: "(string \<Rightarrow> bool) \<Rightarrow> cluster \<Rightarrow> check_result" where
  "controlPlaneEndpointCheck_Run connects c =
     (if cs_cp_ref_defined (cl_spec c) then allowed_result
      else let addr = JoinHostPort (cs_cp_host (cl_spec c)) (itoa (cs_cp_port (cl_spec c)))
           in if \<not> connects addr then allowed_result
              else failCheck []
                (''The control plane endpoint '' @ addr @
                 '' established a TCP connection, before any control plane nodes have been '' @
                 ''created. The endpoint is in use, possibly by another cluster.'')
                allowed_result)"

definition newControlPlaneEndpointChecks :: "(string \<Rightarrow> bool) \<Rightarrow> check_dependencies \<Rightarrow> check list" where
  "newControlPlaneEndpointChecks connects cd =
     [\<lparr>check_name = ''NutanixControlPlaneEndpoint'',
       check_run = Returns (controlPlaneEndpointCheck_Run connects (cd_cluster cd))\<rparr>]"

section \<open>What the constructors establish\<close>

text \<open>The worker map holds only Nutanix configurations, one for each name.\<close>

definition workers_ok :: "(string \<times> nutanix_worker_config) list \<Rightarrow> bool" where
  "workers_ok ws \<longleftrightarrow> distinct (map fst ws) \<and> (\<forall>(n, w) \<in> set ws. nwc_nutanix w \<noteq> None)"

lemma workers_ok_update:
  "workers_ok ws \<Longrightarrow> nwc_nutanix w \<noteq> None \<Longrightarrow> workers_ok (AList.update n w ws)"
proof -
  assume ok: "workers_ok ws" and w: "nwc_nutanix w \<noteq> None"
  have d: "distinct (map fst (AList.update n w ws))"
    using ok by (simp add: workers_ok_def distinct_update)
  have "nwc_nutanix v \<noteq> None" if "(k, v) \<in> set (AList.update n w ws)" for k v
  proof -
    have "map_of (AList.update n w ws) k = Some v" using d that by simp
    then have "v = w \<or> (k, v) \<in> set ws"
      by (auto simp: update_conv split: if_splits dest: map_of_SomeD)
    then show ?thesis using ok w by (auto simp: workers_ok_def)
  qed
  with d show ?thesis by (auto simp: workers_ok_def)
qed

lemma workers_ok_configure:
  assumes "workers_ok (fst (snd st))"
  shows "workers_ok (fst (snd (configure_worker decode vars md st)))"
  using assms workers_ok_update [of "fst (snd st)"]
  by (auto simp: configure_worker_def Let_def split: prod.splits option.splits)

lemma workers_ok_loop:
  "workers_ok (fst (snd st)) \<Longrightarrow>
     workers_ok (fst (snd (fold (configure_worker decode vars) mds st)))"
  by (induction mds arbitrary: st) (simp_all add: workers_ok_configure)

lemma explained_configure:
  "explained (snd (snd st)) \<Longrightarrow> explained (snd (snd (configure_worker decode vars md st)))"
  by (auto simp: configure_worker_def Let_def split: prod.splits option.splits)

lemma explained_configure_loop:
  "explained (snd (snd st)) \<Longrightarrow>
     explained (snd (snd (fold (configure_worker decode vars) mds st)))"
  by (induction mds arbitrary: st) (simp_all add: explained_configure)

lemma configure_failure_domains:
  "fst (fold (configure_worker decode vars) mds st) =
     fold (\<lambda>md fds. if mdep_failure_domain md \<noteq> []
                    then fds(mdep_name md \<mapsto> mdep_failure_domain md) else fds) mds (fst st)"
proof (induction mds arbitrary: st)
  case Nil
  then show ?case by simp
next
  case (Cons md mds)
  have "fst (configure_worker decode vars md st) =
      (if mdep_failure_domain md \<noteq> []
       then (fst st)(mdep_name md \<mapsto> mdep_failure_domain md) else fst st)"
    by (auto simp: configure_worker_def Let_def split: prod.splits option.splits)
  with Cons.IH show ?case by simp
qed

lemma newConfigurationCheck_panics_iff:
  "(\<exists>m. newConfigurationCheck decode dw cd = Panics m) \<longleftrightarrow>
     ClusterConfigVariableName \<notin> var_name ` set (top_variables (cl_topology (cd_cluster cd)))"
  by (cases "GetClusterVariableByName ClusterConfigVariableName
       (top_variables (cl_topology (cd_cluster cd)))")
    (auto simp: newConfigurationCheck_def Let_def UnmarshalClusterVariable_def split_def
      GetClusterVariableByName_None_iff [symmetric])

lemma newConfigurationCheck_workers_ok:
  assumes "newConfigurationCheck decode dw cd = Returns (c, cd')" and "workers_ok (cd_workers cd)"
  shows "workers_ok (cd_workers cd')"
proof -
  have "workers_ok (fst (snd (fold (configure_worker dw vars) mds (Map.empty, [], r))))"
    for vars mds r
    by (rule workers_ok_loop) (simp add: workers_ok_def)
  with assms show ?thesis
    by (auto simp: newConfigurationCheck_def Let_def outcome_simps split_def split: if_splits)
qed

lemma newConfigurationCheck_keeps:
  assumes "newConfigurationCheck decode dw cd = Returns (c, cd')"
  shows "cd_nclient cd' = cd_nclient cd" "cd_pc_version cd' = cd_pc_version cd"
    "cd_cluster cd' = cd_cluster cd" "cd_kclient cd' = cd_kclient cd"
    "cd_old_cluster cd' = cd_old_cluster cd" "check_name c = ''NutanixConfiguration''"
  using assms
  by (auto simp: newConfigurationCheck_def Let_def outcome_simps split_def finished_check_def)

lemma newConfigurationCheck_explained:
  assumes "newConfigurationCheck decode dw cd = Returns (c, cd')"
  shows "\<exists>r. check_run c = Returns r \<and> explained r"
proof -
  have "explained (snd (snd (fold (configure_worker dw vars) mds (Map.empty, [], r))))"
    if "explained r" for vars mds r
    by (rule explained_configure_loop) (simp add: that)
  with assms show ?thesis
    by (auto simp: newConfigurationCheck_def Let_def outcome_simps split_def finished_check_def
        split: option.splits)
qed

text \<open>A client is stored exactly when the credentials were needed and validated.\<close>

lemma validation_failure_denies:
  "\<not> Allowed (validation_failure pem err) \<and> explained (validation_failure pem err)"
  by (simp add: validation_failure_def verdict_simps)

lemma credentials_document_denies:
  "credentials_document kc ns n = Inl r \<Longrightarrow> \<not> Allowed r \<and> explained r"
  by (auto simp: credentials_document_def verdict_simps explained_def
      split: sum.splits api_error.splits if_splits option.splits)

lemma credentials_client_denies:
  assumes "credentials_client libs cd spec = Inl r"
  shows "\<not> Allowed r \<and> explained r"
  using assms validation_failure_denies credentials_document_denies
  by (auto simp: credentials_client_def Let_def verdict_simps
      split: sum.splits prod.splits option.splits if_splits)

lemma credentials_client_valid:
  "credentials_client libs cd spec = Inr nc \<Longrightarrow>
     nc_validate nc = None \<and> (\<exists>cred nn pem. lib_client_factory libs cred nn pem = Inr nc)"
  by (auto simp: credentials_client_def Let_def split: sum.splits prod.splits option.splits)

lemma newCredentialsCheck_result:
  assumes "newCredentialsCheck libs cd = (c, cd')"
  obtains r where "check_run c = Returns r" "explained r"
    "Allowed r \<longleftrightarrow> (cd_config cd = None \<and> cd_workers cd = []) \<or>
       (\<exists>spec nc. Option.bind (cd_config cd) ncc_nutanix = Some spec \<and>
          credentials_client libs cd spec = Inr nc \<and> cd' = cd\<lparr>cd_nclient := Some nc\<rparr>)"
    "Allowed r \<or> cd' = cd"
  using assms credentials_client_denies
  by (auto simp: newCredentialsCheck_def Let_def finished_check_def verdict_simps
      split: option.splits sum.splits if_splits)

lemma newCredentialsCheck_client:
  "newCredentialsCheck libs cd = (c, cd') \<Longrightarrow>
     cd_nclient cd' = cd_nclient cd \<or>
     (\<exists>spec nc. cd_nclient cd' = Some nc \<and> credentials_client libs cd spec = Inr nc)"
  by (auto simp: newCredentialsCheck_def Let_def split: if_splits option.splits sum.splits)

lemma newCredentialsCheck_keeps:
  assumes "newCredentialsCheck libs cd = (c, cd')"
  shows "cd_cluster cd' = cd_cluster cd" "cd_config cd' = cd_config cd"
    "cd_workers cd' = cd_workers cd" "cd_pc_version cd' = cd_pc_version cd"
    "cd_kclient cd' = cd_kclient cd" "cd_failure_domains cd' = cd_failure_domains cd"
    "cd_old_cluster cd' = cd_old_cluster cd" "check_name c = ''NutanixCredentials''"
  using assms
  by (auto simp: newCredentialsCheck_def Let_def finished_check_def
      split: option.splits sum.splits if_splits)

text \<open>The version is recorded exactly when the version check passes.\<close>

lemma CleanPCVersion_Nil: "CleanPCVersion [] = []"
  by (simp add: CleanPCVersion_def to_lower_def trim_space_def trim_prefix_def has_prefix_def)

lemma prism_central_version_gate:
  assumes "prism_central_version_verdict cd = (r, cd')" and "cd_nclient cd = Some nc"
  shows "Allowed r \<longleftrightarrow> cd_pc_version cd' \<noteq> []"
  using assms
  by (auto simp: prism_central_version_verdict_def Let_def verdict_simps CleanPCVersion_Nil
      to_lower_def trim_space_def internalPrismCentralVersionLabel_def has_prefix_def
      split: sum.splits if_splits)

lemma prism_central_version_keeps:
  assumes "prism_central_version_verdict cd = (r, cd')"
  shows "cd_cluster cd' = cd_cluster cd" "cd_config cd' = cd_config cd"
    "cd_workers cd' = cd_workers cd" "cd_nclient cd' = cd_nclient cd"
    "cd_kclient cd' = cd_kclient cd" "cd_failure_domains cd' = cd_failure_domains cd"
    "cd_old_cluster cd' = cd_old_cluster cd" "explained r"
  using assms
  by (auto simp: prism_central_version_verdict_def Let_def split: sum.splits if_splits option.splits)

lemma pc_release_minimum: "pc_release minSupportedPrismCentralVersion"
  by code_simp

lemma prism_central_version_allowed:
  assumes "\<not> isPCVersionCheckSkipped (cd_cluster cd)" "cd_pc_version cd = []"
    "cd_nclient cd = Some nc" "nc_pc_version nc = Inr v"
  shows "Allowed (fst (prism_central_version_verdict cd)) \<longleftrightarrow>
    contains_str (to_lower (trim_space v)) internalPrismCentralVersionLabel \<or>
    CleanPCVersion (to_lower (trim_space v)) \<noteq> [] \<and>
    ComparePCVersions (CleanPCVersion (to_lower (trim_space v)))
      minSupportedPrismCentralVersion \<noteq> -1"
  using assms by (simp add: prism_central_version_verdict_def Let_def verdict_simps)

end
