(* ===== verification/FailureDomains.thy ===== *)
theory FailureDomains
  imports NutanixInit
begin

text \<open>
  \<open>failuredomain.go\<close>: resolving a failure domain reference to the names of
  NutanixFailureDomain objects, and the check of one of them.  The last-but-one section
  instantiates the loop interface for the subnets of a failure domain.
\<close>

section \<open>Failure domain references\<close>

definition metroFailureDomainPrefix :: string where
  "metroFailureDomainPrefix = ''NutanixMetro/''"

definition metroSiteFailureDomainPrefix :: string where
  "metroSiteFailureDomainPrefix = ''NutanixMetroSite/''"

definition isNutanixMetroFailureDomain :: "string \<Rightarrow> bool" where
  "isNutanixMetroFailureDomain fdName = has_prefix fdName metroFailureDomainPrefix"

definition isNutanixMetroSiteFailureDomain :: "string \<Rightarrow> bool" where
  "isNutanixMetroSiteFailureDomain fdName = has_prefix fdName metroSiteFailureDomainPrefix"

definition nonempty_names :: "string list \<Rightarrow> string list" where
  "nonempty_names ns = filter (\<lambda>n. n \<noteq> []) ns"

definition getFailureDomainNames :: "kube_client \<Rightarrow> string \<Rightarrow> string \<Rightarrow> string + string list" where
  "getFailureDomainNames kc namespace fd =
     (if isNutanixMetroFailureDomain fd then
        (let metroName = drop (length metroFailureDomainPrefix) fd
         in case kc_metro kc namespace metroName of
              Inl err \<Rightarrow>
                Inl (''failed to fetch the NutanixMetro '' @ metroName @
                  '' referenced by failureDomain '' @ fd @ '': '' @ api_error_text err)
            | Inr metro \<Rightarrow> Inr (nonempty_names (metro_fds metro)))
      else if isNutanixMetroSiteFailureDomain fd then
        (let metroSiteName = drop (length metroSiteFailureDomainPrefix) fd
         in case kc_metro_site kc namespace metroSiteName of
              Inl err \<Rightarrow>
                Inl (''failed to fetch the NutanixMetroSite '' @ metroSiteName @
                  '' referenced by failureDomain '' @ fd @ '': '' @ api_error_text err)
            | Inr metroSite \<Rightarrow>
                let metroName = site_metro_ref metroSite
                in case kc_metro kc namespace metroName of
                     Inl err \<Rightarrow>
                       Inl (''failed to fetch the NutanixMetro '' @ metroName @
                         '' referenced by NutanixMetroSite '' @ metroSiteName @
                         '', failureDomain '' @ fd @ '': '' @ api_error_text err)
                   | Inr metro \<Rightarrow>
                       let fdNames = nonempty_names (metro_fds metro)
                       in if site_preferred_fd metroSite \<in> set fdNames then Inr fdNames
                          else Inl (''the NutanixMetroSite '' @ metroSiteName @
                            '' preferredFailureDomain '' @ site_preferred_fd metroSite @
                            '' is not from the referenced NutanixMetro '' @ metroName @
                            '' failureDomains ['' @ join_with '' '' fdNames @ '']''))
      else Inr [fd])"

lemma metro_prefixes_exclusive:
  "\<not> (isNutanixMetroFailureDomain fd \<and> isNutanixMetroSiteFailureDomain fd)"
  by (auto simp: isNutanixMetroFailureDomain_def isNutanixMetroSiteFailureDomain_def
      metroFailureDomainPrefix_def metroSiteFailureDomainPrefix_def has_prefix_iff)

lemma getFailureDomainNames_nonempty:
  "getFailureDomainNames kc ns fd = Inr names \<Longrightarrow> fd \<noteq> [] \<Longrightarrow> [] \<notin> set names"
  by (auto simp: getFailureDomainNames_def Let_def nonempty_names_def split: if_splits sum.splits)

lemma getFailureDomainNames_site:
  "getFailureDomainNames kc ns (metroSiteFailureDomainPrefix @ s) = Inr names \<Longrightarrow>
     \<exists>site metro. kc_metro_site kc ns s = Inr site \<and>
       kc_metro kc ns (site_metro_ref site) = Inr metro \<and>
       names = nonempty_names (metro_fds metro) \<and> site_preferred_fd site \<in> set names"
  using metro_prefixes_exclusive [of "metroSiteFailureDomainPrefix @ s"]
  by (auto simp: getFailureDomainNames_def Let_def isNutanixMetroSiteFailureDomain_def
      split: if_splits sum.splits)

section \<open>The check\<close>

record failure_domain_check =
  fdc_name :: string
  fdc_namespace :: string
  fdc_field :: string
  fdc_kclient :: kube_client
  fdc_nclient :: nclient
  fdc_err :: "string option"

text \<open>A subnet counts when it belongs to the Prism Element cluster or to none (overlay).\<close>

definition subnet_on_cluster :: "string \<Rightarrow> subnet \<Rightarrow> bool" where
  "subnet_on_cluster peUUID s \<longleftrightarrow>
     sub_cluster_ref s = None \<or> sub_cluster_ref s = Some peUUID"

definition check_fd_subnet ::
    "failure_domain_check \<Rightarrow> string \<Rightarrow> resource_id \<Rightarrow> check_result \<Rightarrow> check_result" where
  "check_fd_subnet fdc peUUID i result =
     (case getSubnets (fdc_nclient fdc) i of
        Inl err \<Rightarrow>
          failCheckInternal (fdc_field fdc)
            (''Failed to get subnet '' @ quoted (id_String i) @
             '' referenced by the Failure Domain '' @ quoted (fdc_name fdc) @ '': '' @ err @
             ''. This is usually a temporary error. Please retry.'') result
      | Inr subnets \<Rightarrow>
          let filteredSubnets = filter (subnet_on_cluster peUUID) subnets
          in if length filteredSubnets \<noteq> 1 then
               failCheck (fdc_field fdc)
                 (''Found '' @ itoa (int (length filteredSubnets)) @
                  '' Subnets that match identifier '' @ quoted (id_String i) @
                  ''. There must be exactly 1 Subnet that matches this identifier.'') result
             else result)"

text \<open>Checking the object: the Prism Element cluster, then every subnet.\<close>

definition validate_failure_domain ::
    "failure_domain_check \<Rightarrow> nutanix_failure_domain \<Rightarrow> check_result outcome" where
  "validate_failure_domain fdc fdObj =
     (let peIdentifier = fd_pe_cluster fdObj
      in bind_outcome (getClusters (fdc_nclient fdc) (Some peIdentifier)) (\<lambda>res.
        case res of
          Inl err \<Rightarrow>
            Returns (failCheckInternal (fdc_field fdc)
              (''Failed to check if the Prism Element cluster '' @
               quoted (id_String peIdentifier) @ '', referenced by Failure Domain '' @
               quoted (fdc_name fdc) @ '', exists: '' @ err @
               ''. This is usually a temporary error. Please retry.'') allowed_result)
        | Inr peClusters \<Rightarrow>
            if length peClusters \<noteq> 1 then
              Returns (failCheck (fdc_field fdc)
                (''Found '' @ itoa (int (length peClusters)) @
                 '' Prism Element cluster(s) that match identifier '' @
                 quoted (id_String peIdentifier) @
                 ''. There must be exactly 1 Cluster that matches this identifier.'')
                allowed_result)
            else bind_outcome (deref (pe_ext_id (hd peClusters))) (\<lambda>peUUID.
              Returns (fold (check_fd_subnet fdc peUUID) (fd_subnets fdObj)
                allowed_result))))"

definition failureDomainCheck_Run :: "failure_domain_check \<Rightarrow> check_result outcome" where
  "failureDomainCheck_Run fdc =
     (case fdc_err fdc of
        Some errMessage \<Rightarrow>
          Returns (failCheck (fdc_field fdc)
            (''Failed to check failureDomain '' @ quoted (fdc_name fdc) @ '': '' @ errMessage)
            allowed_result)
      | None \<Rightarrow>
     (case kc_failure_domain (fdc_kclient fdc) (fdc_namespace fdc) (fdc_name fdc) of
        Inl (NotFound e) \<Rightarrow>
          Returns (failCheck (fdc_field fdc)
            (''NutanixFailureDomain '' @ quoted (fdc_name fdc) @
             '' was not found in the management cluster. Please create it and retry.'')
            allowed_result)
      | Inl (OtherError e) \<Rightarrow>
          Returns (failCheckInternal (fdc_field fdc)
            (''Failed to get NutanixFailureDomain '' @ quoted (fdc_name fdc) @ '': '' @ e @
             '' This is usually a temporary error. Please retry.'') allowed_result)
      | Inr fdObj \<Rightarrow> validate_failure_domain fdc fdObj))"

definition failure_domain_check_of :: "failure_domain_check \<Rightarrow> check" where
  "failure_domain_check_of fdc =
     \<lparr>check_name = ''NutanixFailureDomain'', check_run = failureDomainCheck_Run fdc\<rparr>"

section \<open>Which checks are made\<close>

definition cp_failure_domains_field :: string where
  "cp_failure_domains_field =
     cluster_config_field @ ''.value.controlPlane.nutanix.failureDomains''"

definition md_failure_domain_field :: "string \<Rightarrow> string" where
  "md_failure_domain_field mdName =
     ''$.spec.topology.workers.machineDeployments[?@.name=='' @ quoted mdName @
     ''].failureDomain''"

text \<open>
  The checks for one reference: one for each name it resolves to, or one that reports that
  it does not.  The failure to resolve is reported under the control-plane field for worker
  references too, as in the code.
\<close>

definition checks_for_reference ::
    "check_dependencies \<Rightarrow> nclient \<Rightarrow> string \<Rightarrow> string \<Rightarrow> failure_domain_check list" where
  "checks_for_reference cd nc field fd =
     (let mk = (\<lambda>n f err. \<lparr>fdc_name = n, fdc_namespace = cl_namespace (cd_cluster cd),
                 fdc_field = f, fdc_kclient = cd_kclient cd, fdc_nclient = nc, fdc_err = err\<rparr>)
      in case getFailureDomainNames (cd_kclient cd) (cl_namespace (cd_cluster cd)) fd of
           Inl err \<Rightarrow> [mk fd cp_failure_domains_field (Some err)]
         | Inr fdNames \<Rightarrow> map (\<lambda>n. mk n field None) fdNames)"

definition control_plane_references :: "check_dependencies \<Rightarrow> string list" where
  "control_plane_references cd =
     (case Option.bind (cd_config cd) (\<lambda>cfg. cp_nutanix cfg) of
        None \<Rightarrow> []
      | Some cpn \<Rightarrow> nonempty_names (cpn_failure_domains cpn))"

definition worker_references :: "check_dependencies \<Rightarrow> (string \<times> string) list" where
  "worker_references cd =
     (let t = cl_topology (cd_cluster cd)
      in if \<not> IsDefined t then []
         else map (\<lambda>md. (mdep_name md, mdep_failure_domain md))
           (filter (\<lambda>md. mdep_failure_domain md \<noteq> []) (top_machine_deployments t)))"

definition newFailureDomainChecks :: "check_dependencies \<Rightarrow> failure_domain_check list" where
  "newFailureDomainChecks cd =
     (case cd_nclient cd of
        None \<Rightarrow> []
      | Some nc \<Rightarrow>
          if cd_pc_version cd = [] then []
          else concat (map (checks_for_reference cd nc cp_failure_domains_field)
                 (control_plane_references cd)) @
               concat (map (\<lambda>(n, fd). checks_for_reference cd nc (md_failure_domain_field n) fd)
                 (worker_references cd)))"

section \<open>The subnets of a failure domain\<close>

definition fd_subnet_ok :: "nclient \<Rightarrow> string \<Rightarrow> resource_id \<Rightarrow> bool" where
  "fd_subnet_ok nc peUUID i =
     (case getSubnets nc i of
        Inl err \<Rightarrow> False
      | Inr subnets \<Rightarrow> length (filter (subnet_on_cluster peUUID) subnets) = 1)"

interpretation fd_subnets: check_loop "check_fd_subnet fdc pe"
    "\<lambda>i. \<not> fd_subnet_ok (fdc_nclient fdc) pe i" for fdc pe
  by unfold_locales
    (auto simp: check_fd_subnet_def fd_subnet_ok_def Let_def verdict_simps split: sum.splits)

text \<open>A failure domain that can be used: one Prism Element cluster, every subnet found once.\<close>

definition failure_domain_usable :: "nclient \<Rightarrow> nutanix_failure_domain \<Rightarrow> bool" where
  "failure_domain_usable nc fd =
     (case getClusters nc (Some (fd_pe_cluster fd)) of
        Returns (Inr [c]) \<Rightarrow>
          (case pe_ext_id c of
             None \<Rightarrow> False
           | Some pe \<Rightarrow> list_all (fd_subnet_ok nc pe) (fd_subnets fd))
      | _ \<Rightarrow> False)"

lemma length_one_iff: "length xs = Suc 0 \<longleftrightarrow> (\<exists>x. xs = [x])"
  by (auto simp: length_Suc_conv)

lemma validate_failure_domain_panic:
  "getClusters (fdc_nclient fdc) (Some (fd_pe_cluster fd)) = Panics m \<Longrightarrow>
     validate_failure_domain fdc fd = Panics m"
  by (simp add: validate_failure_domain_def Let_def)

lemma validate_failure_domain_one:
  "getClusters (fdc_nclient fdc) (Some (fd_pe_cluster fd)) = Returns (Inr [c]) \<Longrightarrow>
     validate_failure_domain fdc fd =
       (case pe_ext_id c of
          None \<Rightarrow> Panics nil_dereference
        | Some pe \<Rightarrow> Returns (fold (check_fd_subnet fdc pe) (fd_subnets fd) allowed_result))"
  by (simp add: validate_failure_domain_def Let_def split: option.splits)

lemma validate_failure_domain_denies:
  assumes "getClusters (fdc_nclient fdc) (Some (fd_pe_cluster fd)) = Returns res"
    and "\<nexists>c. res = Inr [c]"
  obtains r where "validate_failure_domain fdc fd = Returns r" "\<not> Allowed r" "explained r"
  using assms
  by (cases res) (auto simp: validate_failure_domain_def Let_def verdict_simps length_one_iff)

lemma validate_failure_domain_allowed:
  assumes "validate_failure_domain fdc fd = Returns r"
  shows "(Allowed r \<longleftrightarrow> failure_domain_usable (fdc_nclient fdc) fd) \<and> explained r"
proof (cases "\<exists>c. getClusters (fdc_nclient fdc) (Some (fd_pe_cluster fd)) = Returns (Inr [c])")
  case True
  then obtain c where c: "getClusters (fdc_nclient fdc) (Some (fd_pe_cluster fd)) = Returns (Inr [c])"
    by blast
  with assms show ?thesis
    by (auto simp: validate_failure_domain_one [OF c] failure_domain_usable_def
        fd_subnets.allowed_loop fd_subnets.explained_loop list_all_iff split: option.splits)
next
  case False
  then show ?thesis
  proof (cases "getClusters (fdc_nclient fdc) (Some (fd_pe_cluster fd))")
    case (Returns res)
    with False have "\<nexists>c. res = Inr [c]" by auto
    with Returns assms have "\<not> Allowed r" "explained r"
      by (auto elim: validate_failure_domain_denies)
    moreover have "\<not> failure_domain_usable (fdc_nclient fdc) fd"
      using False by (auto simp: failure_domain_usable_def split: outcome.splits sum.splits list.splits)
    ultimately show ?thesis by simp
  next
    case (Panics m)
    with assms show ?thesis by (simp add: validate_failure_domain_panic)
  qed
qed

lemma failureDomainCheck_Run_cases:
  "failureDomainCheck_Run fdc = Returns r \<Longrightarrow>
     (\<exists>fd. fdc_err fdc = None \<and>
        kc_failure_domain (fdc_kclient fdc) (fdc_namespace fdc) (fdc_name fdc) = Inr fd \<and>
        validate_failure_domain fdc fd = Returns r) \<or>
     (\<not> Allowed r \<and> explained r \<and> (fdc_err fdc \<noteq> None \<or>
        (\<exists>e. kc_failure_domain (fdc_kclient fdc) (fdc_namespace fdc) (fdc_name fdc) = Inl e)))"
  by (auto simp: failureDomainCheck_Run_def verdict_simps
      split: option.splits sum.splits api_error.splits)

lemma failureDomainCheck_Run_allowed:
  assumes "failureDomainCheck_Run fdc = Returns r"
  shows "(Allowed r \<longleftrightarrow> fdc_err fdc = None \<and>
      (\<exists>fd. kc_failure_domain (fdc_kclient fdc) (fdc_namespace fdc) (fdc_name fdc) = Inr fd \<and>
         failure_domain_usable (fdc_nclient fdc) fd)) \<and> explained r"
  using failureDomainCheck_Run_cases [OF assms] validate_failure_domain_allowed by auto

lemma validate_failure_domain_panics_iff:
  "(\<exists>m. validate_failure_domain fdc fd = Panics m) \<longleftrightarrow>
     (\<exists>m. getClusters (fdc_nclient fdc) (Some (fd_pe_cluster fd)) = Panics m) \<or>
     (\<exists>c. getClusters (fdc_nclient fdc) (Some (fd_pe_cluster fd)) = Returns (Inr [c]) \<and>
        pe_ext_id c = None)"
proof (cases "\<exists>res. getClusters (fdc_nclient fdc) (Some (fd_pe_cluster fd)) = Returns res \<and>
    (\<nexists>c. res = Inr [c])")
  case True
  then obtain r where "validate_failure_domain fdc fd = Returns r"
    by (metis validate_failure_domain_denies)
  with True show ?thesis by auto
next
  case False
  then show ?thesis
    by (cases "getClusters (fdc_nclient fdc) (Some (fd_pe_cluster fd))")
      (auto simp: validate_failure_domain_one validate_failure_domain_panic split: option.splits)
qed

lemma failureDomainCheck_Run_panics_iff:
  "(\<exists>m. failureDomainCheck_Run fdc = Panics m) \<longleftrightarrow>
     fdc_err fdc = None \<and>
     (\<exists>fd. kc_failure_domain (fdc_kclient fdc) (fdc_namespace fdc) (fdc_name fdc) = Inr fd \<and>
        (\<exists>m. validate_failure_domain fdc fd = Panics m))"
  by (auto simp: failureDomainCheck_Run_def split: option.splits sum.splits api_error.splits)

end
