(* ===== verification/Images.thy ===== *)
theory Images
  imports NutanixInit
begin

text \<open>
  \<open>image.go\<close> and \<open>imagekubernetesversioncheck.go\<close>: the VM image of every machine
  configuration exists once, and its name contains the Kubernetes version of the cluster.
  \<open>semver.ParseTolerant\<close> followed by \<open>FinalizeVersion\<close> is a parameter.
\<close>

section \<open>The machine configurations of a cluster\<close>

definition cp_machine_details_field :: string where
  "cp_machine_details_field =
     cluster_config_field @ ''.value.controlPlane.nutanix.machineDetails''"

definition md_machine_details_field :: "string \<Rightarrow> string" where
  "md_machine_details_field mdName =
     ''$.spec.topology.workers.machineDeployments[?@.name=='' @ quoted mdName @
     ''].variables[?@.name=workerConfig].value.nutanix.machineDetails''"

text \<open>
  The control plane's machine details, then those of the workers in the order of the map.
\<close>

definition machine_configurations :: "check_dependencies \<Rightarrow> (string \<times> machine_details) list" where
  "machine_configurations cd =
     (case Option.bind (cd_config cd) (\<lambda>cfg. cp_nutanix cfg) of
        None \<Rightarrow> []
      | Some cpn \<Rightarrow> [(cp_machine_details_field, cpn_details cpn)]) @
     List.map_filter (\<lambda>(mdName, w).
        map_option (\<lambda>md. (md_machine_details_field mdName, md)) (nwc_nutanix w))
       (cd_workers cd)"

section \<open>The image exists\<close>

record image_check =
  imc_details :: machine_details
  imc_field :: string
  imc_nclient :: nclient

definition imageCheck_Run :: "image_check \<Rightarrow> check_result" where
  "imageCheck_Run c =
     (let result = allowed_result\<lparr>Allowed := False\<rparr>; field = imc_field c @ ''.image''
      in if md_image_lookup (imc_details c) \<noteq> None then
           warnCheck (''Field '' @ imc_field c @
             '' uses imageLookup, which is not yet supported by checks'')
             (result\<lparr>Allowed := True\<rparr>)
         else case md_image (imc_details c) of
           None \<Rightarrow> result
         | Some imageId \<Rightarrow>
             (case getVMImages (imc_nclient c) imageId of
                Inl err \<Rightarrow>
                  failCheckInternal field
                    (''Failed to get VM Image '' @ quoted (id_String imageId) @ '': '' @ err @
                     ''. This is usually a temporary error. Please retry.'') result
              | Inr images \<Rightarrow>
                  if images = [] then
                    failCheck field
                      (''No VM Images found in Prism Central that match identifier '' @
                       quoted (id_String imageId) @
                       ''. Check that the correct VM Image is found in Prism Central. If you '' @
                       ''find the VM Image in Prism Central, you may need to change the '' @
                       ''identifier. If no VM Image is found, create one, or download a '' @
                       ''pre-built VM Image from the Nutanix portal, and upload it to Prism '' @
                       ''Central. Once you have the correct VM Image, retry.'') result
                  else if length images = 1 then result\<lparr>Allowed := True\<rparr>
                  else
                    failCheck field
                      (''Found '' @ itoa (int (length images)) @
                       '' VM Images in Prism Central that match name '' @
                       quoted (id_String imageId) @
                       ''. There must be exactly 1 VM Image that matches this name. Remove '' @
                       ''duplicate VM Images, use a different VM Image, or identify the VM '' @
                       ''Image by its UUID, then retry.'') result))"

definition newVMImageChecks :: "check_dependencies \<Rightarrow> image_check list" where
  "newVMImageChecks cd =
     (case cd_nclient cd of
        None \<Rightarrow> []
      | Some nc \<Rightarrow>
          if cd_pc_version cd = [] then []
          else map (\<lambda>(field, md). \<lparr>imc_details = md, imc_field = field, imc_nclient = nc\<rparr>)
            (machine_configurations cd))"

definition image_check_of :: "image_check \<Rightarrow> check" where
  "image_check_of c = \<lparr>check_name = ''NutanixVMImage'', check_run = Returns (imageCheck_Run c)\<rparr>"

section \<open>The image name carries the Kubernetes version\<close>

record image_version_check =
  ivc_details :: machine_details
  ivc_field :: string
  ivc_nclient :: nclient
  ivc_version :: string

type_synonym semver_finalizer = "string \<Rightarrow> string + string"

definition first_image_verdict ::
    "semver_finalizer \<Rightarrow> image_version_check \<Rightarrow> resource_id \<Rightarrow> vm_image \<Rightarrow> check_result" where
  "first_image_verdict finalize c image_id img =
     (let field = ivc_field c @ ''.image''
      in case img_name img of
           Some (ch # chs) \<Rightarrow>
             (case finalize (ivc_version c) of
                Inl err \<Rightarrow>
                  failCheckInternal field
                    (''The Cluster Kubernetes version '' @ quoted (ivc_version c) @
                     '' is not a valid semantic version. This error should not happen under '' @
                     ''normal circumstances. Please report.'') allowed_result
              | Inr finalized \<Rightarrow>
                  if \<not> contains_str (ch # chs) finalized then
                    failCheck field
                      (''The VM Image identified by '' @ quoted (id_String image_id) @
                       '' has the name '' @ quoted (ch # chs) @
                       ''. Make sure the VM Image name contains the Kubernetes version '' @
                       ''supported by the VM Image. Choose a VM Image that supports the '' @
                       ''cluster Kubernetes version: '' @ quoted finalized @ ''.'') allowed_result
                  else allowed_result)
         | _ \<Rightarrow>
             failCheck field
               (''The VM Image identified by '' @ quoted (id_String image_id) @
                '' has no name. Give the VM Image a name, or use a different VM Image. Make '' @
                ''sure the VM Image contains the Kubernetes version supported by the VM '' @
                ''Image. Choose a VM Image that supports the cluster Kubernetes version: '' @
                quoted (ivc_version c)) allowed_result)"

definition imageKubernetesVersionCheck_Run ::
    "semver_finalizer \<Rightarrow> image_version_check \<Rightarrow> check_result" where
  "imageKubernetesVersionCheck_Run finalize c =
     (if md_image_lookup (ivc_details c) \<noteq> None then
        warnCheck (ivc_field c @ '' uses imageLookup, which is not yet supported by checks'')
          allowed_result
      else case md_image (ivc_details c) of
        None \<Rightarrow> allowed_result
      | Some image_id \<Rightarrow>
          (case getVMImages (ivc_nclient c) image_id of
             Inl err \<Rightarrow>
               failCheckInternal (ivc_field c @ ''.image'')
                 (''Failed to get VM Image '' @ quoted (id_String image_id) @ '': '' @ err @
                  ''. This is usually a temporary error. Please retry.'') allowed_result
           | Inr [] \<Rightarrow> allowed_result
           | Inr (img # _) \<Rightarrow> first_image_verdict finalize c image_id img))"

definition cluster_kubernetes_version :: "cluster \<Rightarrow> string" where
  "cluster_kubernetes_version c =
     (if IsDefined (cl_topology c) \<and> top_version (cl_topology c) \<noteq> []
      then trim_prefix (top_version (cl_topology c)) ''v'' else [])"

definition newVMImageKubernetesVersionChecks ::
    "check_dependencies \<Rightarrow> image_version_check list" where
  "newVMImageKubernetesVersionChecks cd =
     (case cd_nclient cd of
        None \<Rightarrow> []
      | Some nc \<Rightarrow>
          let version = cluster_kubernetes_version (cd_cluster cd)
          in if cd_pc_version cd = [] \<or> version = [] then []
             else map (\<lambda>(field, md). \<lparr>ivc_details = md, ivc_field = field, ivc_nclient = nc,
                    ivc_version = version\<rparr>) (machine_configurations cd))"

definition image_version_check_of :: "semver_finalizer \<Rightarrow> image_version_check \<Rightarrow> check" where
  "image_version_check_of finalize c =
     \<lparr>check_name = ''NutanixVMImageKubernetesVersion'',
      check_run = Returns (imageKubernetesVersionCheck_Run finalize c)\<rparr>"

section \<open>When the checks allow\<close>

lemma imageCheck_allowed:
  "Allowed (imageCheck_Run c) \<longleftrightarrow>
     md_image_lookup (imc_details c) \<noteq> None \<or>
     (\<exists>i im. md_image (imc_details c) = Some i \<and> getVMImages (imc_nclient c) i = Inr [im])"
  by (auto simp: imageCheck_Run_def Let_def verdict_simps length_Suc_conv
      split: option.splits sum.splits)

text \<open>
  Every denial names a cause, except the one for machine details with neither an image nor an
  image lookup.
\<close>

lemma imageCheck_explained:
  "explained (imageCheck_Run c) \<longleftrightarrow>
     md_image_lookup (imc_details c) \<noteq> None \<or> md_image (imc_details c) \<noteq> None"
  by (auto simp: imageCheck_Run_def Let_def explained_def verdict_simps
      split: option.splits sum.splits)

lemma first_image_allowed:
  "Allowed (first_image_verdict finalize c i im) \<longleftrightarrow>
     (\<exists>name v. img_name im = Some name \<and> name \<noteq> [] \<and> finalize (ivc_version c) = Inr v \<and>
        contains_str name v)"
  by (auto simp: first_image_verdict_def Let_def verdict_simps
      split: option.splits list.splits sum.splits)

lemma first_image_explained: "explained (first_image_verdict finalize c i im)"
  by (auto simp: first_image_verdict_def Let_def split: option.splits list.splits sum.splits)

lemma imageKubernetesVersionCheck_explained:
  "explained (imageKubernetesVersionCheck_Run finalize c)"
  by (auto simp: imageKubernetesVersionCheck_Run_def first_image_explained
      split: option.splits sum.splits list.splits)

lemma imageKubernetesVersionCheck_allowed:
  assumes "md_image_lookup (ivc_details c) = None" "md_image (ivc_details c) = Some i"
    "getVMImages (ivc_nclient c) i = Inr [im]"
  shows "Allowed (imageKubernetesVersionCheck_Run finalize c) \<longleftrightarrow>
    (\<exists>name v xs ys. img_name im = Some name \<and> name \<noteq> [] \<and> finalize (ivc_version c) = Inr v \<and>
       name = xs @ v @ ys)"
  using assms
  by (auto simp: imageKubernetesVersionCheck_Run_def first_image_allowed contains_str_iff)

end
