(* ===== verification/Netip.thy ===== *)
theory Netip
  imports GoBase "HOL-Library.Word"
begin

text \<open>
  The part of Go's \<open>net/netip\<close> that the checks use: parsing an address and a prefix,
  masking, printing, and whether two prefixes overlap.  An address is a 32-bit or a 128-bit
  word.  The last section shows that two prefixes overlap exactly when they share an address.
\<close>

datatype addr = IP4 "32 word" | IP6 "128 word" string

record ip_prefix =
  pfx_addr :: addr
  pfx_bits :: nat

fun Is4 :: "addr \<Rightarrow> bool" where
  "Is4 (IP4 w) = True"
| "Is4 (IP6 w z) = False"

section \<open>Parsing addresses\<close>

definition parse_addr_error :: "string \<Rightarrow> string \<Rightarrow> string \<Rightarrow> string" where
  "parse_addr_error inp msg at =
     ''ParseAddr('' @ quoted inp @ ''): '' @ msg @
     (if at \<noteq> [] then '' (at '' @ quoted at @ '')'' else [])"

text \<open>
  The loop over the characters of a dotted address: whether it is at the start, whether the
  character before was a dot, the value and the number of digits of the current octet, and
  the octets read.
\<close>

fun ipv4_loop ::
    "string \<Rightarrow> string \<Rightarrow> bool \<Rightarrow> bool \<Rightarrow> nat \<Rightarrow> nat \<Rightarrow> nat list \<Rightarrow> string + nat list" where
  "ipv4_loop inp [] first prevDot val digLen octets =
     (if length octets < 3 then Inl (parse_addr_error inp ''IPv4 address too short'' [])
      else Inr (octets @ [val]))"
| "ipv4_loop inp (c # s) first prevDot val digLen octets =
     (if is_digit c then
        if digLen = 1 \<and> val = 0 then
          Inl (parse_addr_error inp ''IPv4 field has octet with leading zero'' [])
        else if 255 < val * 10 + digit_value c then
          Inl (parse_addr_error inp ''IPv4 field has value >255'' [])
        else ipv4_loop inp s False False (val * 10 + digit_value c) (digLen + 1) octets
      else if c = CHR ''.'' then
        if first \<or> s = [] \<or> prevDot then
          Inl (parse_addr_error inp ''IPv4 field must have at least one digit'' (c # s))
        else if length octets = 3 then
          Inl (parse_addr_error inp ''IPv4 address too long'' [])
        else ipv4_loop inp s False True 0 0 (octets @ [val])
      else Inl (parse_addr_error inp ''unexpected character'' (c # s)))"

definition horner :: "nat \<Rightarrow> nat list \<Rightarrow> nat" where
  "horner b ds = foldl (\<lambda>n d. b * n + d) 0 ds"

definition parseIPv4 :: "string \<Rightarrow> string + addr" where
  "parseIPv4 s =
     (case ipv4_loop s s True False 0 0 [] of
        Inl err \<Rightarrow> Inl err
      | Inr octets \<Rightarrow> Inr (IP4 (word_of_nat (horner 256 octets))))"

definition hex_value :: "char \<Rightarrow> nat option" where
  "hex_value c =
     (let n = (of_char c :: nat)
      in if 48 \<le> n \<and> n \<le> 57 then Some (n - 48)
         else if 97 \<le> n \<and> n \<le> 102 then Some (n - 87)
         else if 65 \<le> n \<and> n \<le> 70 then Some (n - 55)
         else None)"

text \<open>A group of hexadecimal digits: how many, their value, and what follows.\<close>

fun hex_group :: "string \<Rightarrow> nat \<Rightarrow> nat \<Rightarrow> string + (nat \<times> nat \<times> string)" where
  "hex_group [] off acc = Inr (off, acc, [])"
| "hex_group (c # s) off acc =
     (case hex_value c of
        None \<Rightarrow> Inr (off, acc, c # s)
      | Some d \<Rightarrow>
          if 3 < off then Inl ''each group must have 4 or less digits''
          else if 65535 < acc * 16 + d then Inl ''IPv6 field has value >=2^16''
          else hex_group s (off + 1) (acc * 16 + d))"

text \<open>
  The loop over the groups: the position of the ellipsis (in groups), the groups read, and the
  rest of the text.
\<close>

function ipv6_loop ::
    "string \<Rightarrow> nat option \<Rightarrow> nat list \<Rightarrow> string \<Rightarrow> string + (nat list \<times> nat option \<times> string)" where
  "ipv6_loop inp ell gs s =
     (if 8 \<le> length gs then Inr (gs, ell, s)
      else case hex_group s 0 0 of
        Inl msg \<Rightarrow> Inl (parse_addr_error inp msg s)
      | Inr (off, acc, rest) \<Rightarrow>
          if off = 0 then
            Inl (parse_addr_error inp
              ''each colon-separated field must have at least one digit'' s)
          else case rest of
            [] \<Rightarrow> Inr (gs @ [acc], ell, [])
          | c # rest' \<Rightarrow>
              if c = CHR ''.'' then
                if ell = None \<and> length gs \<noteq> 6 then
                  Inl (parse_addr_error inp
                    ''embedded IPv4 address must replace the final 2 octets of the address'' s)
                else if 8 < length gs + 2 then
                  Inl (parse_addr_error inp
                    ''too many hex octets to fit an embedded IPv4 at the end of the address'' s)
                else (case ipv4_loop inp s True False 0 0 [] of
                        Inl err \<Rightarrow> Inl err
                      | Inr fs \<Rightarrow>
                          Inr (gs @ [fs ! 0 * 256 + fs ! 1, fs ! 2 * 256 + fs ! 3], ell, []))
              else if c \<noteq> CHR '':'' then
                Inl (parse_addr_error inp ''unexpected character, want colon'' rest)
              else (case rest' of
                      [] \<Rightarrow> Inl (parse_addr_error inp
                              ''colon must be followed by more characters'' rest)
                    | c' # rest'' \<Rightarrow>
                        if c' = CHR '':'' then
                          if ell \<noteq> None then
                            Inl (parse_addr_error inp ''multiple :: in address'' rest')
                          else if rest'' = [] then
                            Inr (gs @ [acc], Some (length gs + 1), [])
                          else ipv6_loop inp (Some (length gs + 1)) (gs @ [acc]) rest''
                        else ipv6_loop inp ell (gs @ [acc]) rest'))"
  by pat_completeness auto

termination by (relation "measure (\<lambda>(_, _, gs, _). 8 - length gs)") auto

declare ipv6_loop.simps [simp del]

text \<open>Expanding the ellipsis to eight groups.\<close>

definition expand_groups :: "string \<Rightarrow> nat list \<times> nat option \<times> string \<Rightarrow> string + nat list" where
  "expand_groups inp st =
     (case st of (gs, ell, s) \<Rightarrow>
        if s \<noteq> [] then Inl (parse_addr_error inp ''trailing garbage after address'' s)
        else if length gs < 8 then
          (case ell of
             None \<Rightarrow> Inl (parse_addr_error inp ''address string too short'' [])
           | Some k \<Rightarrow> Inr (take k gs @ replicate (8 - length gs) 0 @ drop k gs))
        else if ell \<noteq> None then
          Inl (parse_addr_error inp
            ''the :: must expand to at least one field of zeros'' [])
        else Inr gs)"

definition parseIPv6 :: "string \<Rightarrow> string + addr" where
  "parseIPv6 inp =
     (let s = takeWhile (\<lambda>c. c \<noteq> CHR ''%'') inp;
          after = dropWhile (\<lambda>c. c \<noteq> CHR ''%'') inp;
          zone = drop 1 after
      in if after \<noteq> [] \<and> zone = [] then
           Inl (parse_addr_error inp ''zone must be a non-empty string'' [])
         else if has_prefix s ''::'' \<and> drop 2 s = [] then Inr (IP6 0 zone)
         else case (if has_prefix s ''::'' then ipv6_loop inp (Some 0) [] (drop 2 s)
                    else ipv6_loop inp None [] s) of
                Inl err \<Rightarrow> Inl err
              | Inr st \<Rightarrow>
                  (case expand_groups inp st of
                     Inl err \<Rightarrow> Inl err
                   | Inr gs \<Rightarrow> Inr (IP6 (word_of_nat (horner 65536 gs)) zone)))"

fun parse_addr_scan :: "string \<Rightarrow> string \<Rightarrow> string + addr" where
  "parse_addr_scan s [] = Inl (parse_addr_error s ''unable to parse IP'' [])"
| "parse_addr_scan s (c # cs) =
     (if c = CHR ''.'' then parseIPv4 s
      else if c = CHR '':'' then parseIPv6 s
      else if c = CHR ''%'' then Inl (parse_addr_error s ''missing IPv6 address'' [])
      else parse_addr_scan s cs)"

definition ParseAddr :: "string \<Rightarrow> string + addr" where
  "ParseAddr s = parse_addr_scan s s"

section \<open>Parsing prefixes\<close>

definition parse_prefix_error :: "string \<Rightarrow> string \<Rightarrow> string" where
  "parse_prefix_error inp msg = ''netip.ParsePrefix('' @ quoted inp @ ''): '' @ msg"

definition after_last_slash :: "string \<Rightarrow> string" where
  "after_last_slash s = rev (takeWhile (\<lambda>c. c \<noteq> CHR ''/'') (rev s))"

definition ParsePrefix :: "string \<Rightarrow> string + ip_prefix" where
  "ParsePrefix s =
     (if CHR ''/'' \<notin> set s then
        Inl (parse_prefix_error s (''no '' @ [CHR 0x27, CHR ''/'', CHR 0x27]))
      else
        let bitsStr = after_last_slash s;
            badBits = parse_prefix_error s (''bad bits after slash: '' @ quoted bitsStr)
        in case ParseAddr (take (length s - length bitsStr - 1) s) of
             Inl err \<Rightarrow> Inl (parse_prefix_error s err)
           | Inr ip \<Rightarrow>
               if (case ip of IP4 _ \<Rightarrow> False | IP6 _ z \<Rightarrow> z \<noteq> []) then
                 Inl (parse_prefix_error s ''IPv6 zones cannot be present in a prefix'')
               else if 1 < length bitsStr \<and> \<not> (hd bitsStr \<noteq> CHR ''0'' \<and> is_digit (hd bitsStr))
               then Inl badBits
               else (case atoi bitsStr of
                       None \<Rightarrow> Inl badBits
                     | Some bits \<Rightarrow>
                         if bits < 0 \<or> (if Is4 ip then 32 else 128) < bits then
                           Inl (parse_prefix_error s ''prefix length out of range'')
                         else Inr \<lparr>pfx_addr = ip, pfx_bits = nat bits\<rparr>))"

section \<open>Masks and overlap\<close>

definition mask_word :: "nat \<Rightarrow> nat \<Rightarrow> 'a::len word \<Rightarrow> 'a word" where
  "mask_word width bits w = push_bit (width - bits) (drop_bit (width - bits) w)"

fun mask_addr :: "nat \<Rightarrow> addr \<Rightarrow> addr" where
  "mask_addr bits (IP4 w) = IP4 (mask_word 32 bits w)"
| "mask_addr bits (IP6 w z) = IP6 (mask_word 128 bits w) []"

definition Masked :: "ip_prefix \<Rightarrow> ip_prefix" where
  "Masked p = p\<lparr>pfx_addr := mask_addr (pfx_bits p) (pfx_addr p)\<rparr>"

definition Overlaps :: "ip_prefix \<Rightarrow> ip_prefix \<Rightarrow> bool" where
  "Overlaps p o' =
     (if p = o' then True
      else if Is4 (pfx_addr p) \<noteq> Is4 (pfx_addr o') then False
      else let minBits = min (pfx_bits p) (pfx_bits o')
           in minBits = 0 \<or> mask_addr minBits (pfx_addr p) = mask_addr minBits (pfx_addr o'))"

section \<open>Printing\<close>

definition string4 :: "32 word \<Rightarrow> string" where
  "string4 w =
     (let n = unat w
      in nat_digits (n div 16777216) @ ''.'' @ nat_digits (n div 65536 mod 256) @ ''.'' @
         nat_digits (n div 256 mod 256) @ ''.'' @ nat_digits (n mod 256))"

fun hex_digits :: "nat \<Rightarrow> string" where
  "hex_digits n =
     (if n < 16 then [hex_digit n] else hex_digits (n div 16) @ [hex_digit (n mod 16)])"

declare hex_digits.simps [simp del]

definition ip_groups :: "128 word \<Rightarrow> nat list" where
  "ip_groups w = map (\<lambda>i. unat w div 65536 ^ (7 - i) mod 65536) [0..<8]"

definition zero_run :: "nat list \<Rightarrow> nat" where
  "zero_run gs = length (takeWhile (\<lambda>g. g = 0) gs)"

text \<open>The longest run of at least two zero groups, the first of them: its start and length.\<close>

definition longest_zero_run :: "nat list \<Rightarrow> (nat \<times> nat) option" where
  "longest_zero_run gs =
     fold (\<lambda>i best.
        let l = zero_run (drop i gs)
        in if 2 \<le> l \<and> (case best of None \<Rightarrow> True | Some (_, l') \<Rightarrow> l' < l) then Some (i, l)
           else best) [0..<length gs] None"

definition groups_text :: "nat list \<Rightarrow> string" where
  "groups_text gs = join_with '':'' (map hex_digits gs)"

definition string6 :: "128 word \<Rightarrow> string" where
  "string6 w =
     (let gs = ip_groups w
      in if take 6 gs = [0, 0, 0, 0, 0, 65535] then ''::ffff:'' @ string4 (ucast w)
         else case longest_zero_run gs of
           None \<Rightarrow> groups_text gs
         | Some (i, l) \<Rightarrow> groups_text (take i gs) @ ''::'' @ groups_text (drop (i + l) gs))"

fun addr_String :: "addr \<Rightarrow> string" where
  "addr_String (IP4 w) = string4 w"
| "addr_String (IP6 w z) = string6 w @ (if z \<noteq> [] then ''%'' @ z else [])"

definition prefix_String :: "ip_prefix \<Rightarrow> string" where
  "prefix_String p = addr_String (pfx_addr p) @ ''/'' @ nat_digits (pfx_bits p)"

section \<open>Prefixes as sets of addresses\<close>

definition prefix_valid :: "ip_prefix \<Rightarrow> bool" where
  "prefix_valid p \<longleftrightarrow>
     (case pfx_addr p of IP4 _ \<Rightarrow> pfx_bits p \<le> 32 | IP6 _ z \<Rightarrow> pfx_bits p \<le> 128 \<and> z = [])"

fun prefix_contains :: "ip_prefix \<Rightarrow> addr \<Rightarrow> bool" where
  "prefix_contains p (IP4 x) =
     (case pfx_addr p of
        IP4 w \<Rightarrow> drop_bit (32 - pfx_bits p) x = drop_bit (32 - pfx_bits p) w
      | IP6 _ _ \<Rightarrow> False)"
| "prefix_contains p (IP6 x z) =
     (case pfx_addr p of
        IP4 _ \<Rightarrow> False
      | IP6 w _ \<Rightarrow> z = [] \<and> drop_bit (128 - pfx_bits p) x = drop_bit (128 - pfx_bits p) w)"

lemma drop_push_drop: "drop_bit k (push_bit k (drop_bit k w)) = drop_bit k (w :: 'a::len word)"
  by (rule bit_word_eqI) (auto simp: bit_simps dest: bit_imp_le_length)

lemma mask_word_eq_iff:
  "mask_word n b v = mask_word n b w \<longleftrightarrow>
     drop_bit (n - b) v = drop_bit (n - b) (w :: 'a::len word)"
  unfolding mask_word_def by (metis drop_push_drop)

lemma drop_bit_weaken:
  assumes "drop_bit (n - a) v = drop_bit (n - a) (w :: 'a::len word)" "b \<le> a" "a \<le> n"
  shows "drop_bit (n - b) v = drop_bit (n - b) w"
proof -
  have k: "n - b = (a - b) + (n - a)" using assms by simp
  have "drop_bit (n - b) u = drop_bit (a - b) (drop_bit (n - a) u)" for u :: "'a word"
    by (simp only: k drop_bit_drop_bit)
  then show ?thesis by (simp only: assms(1))
qed

lemma share_address_iff:
  assumes "a \<le> n" "b \<le> n"
  shows "(\<exists>x. drop_bit (n - a) x = drop_bit (n - a) v \<and> drop_bit (n - b) x = drop_bit (n - b) w) \<longleftrightarrow>
    drop_bit (n - min a b) v = drop_bit (n - min a b) (w :: 'a::len word)" (is "?l \<longleftrightarrow> ?r")
proof
  assume ?l
  then obtain x where x: "drop_bit (n - a) x = drop_bit (n - a) v"
      "drop_bit (n - b) x = drop_bit (n - b) w" by blast
  have "drop_bit (n - min a b) x = drop_bit (n - min a b) v"
    by (rule drop_bit_weaken [OF x(1) min.cobounded1 assms(1)])
  moreover have "drop_bit (n - min a b) x = drop_bit (n - min a b) w"
    by (rule drop_bit_weaken [OF x(2) min.cobounded2 assms(2)])
  ultimately show ?r by (simp only:)
next
  assume r: ?r
  show ?l
  proof (cases "a \<le> b")
    case True
    with r have "drop_bit (n - a) w = drop_bit (n - a) v" by (simp only: min.absorb1)
    then show ?thesis by blast
  next
    case False
    then have "min a b = b" by simp
    with r have "drop_bit (n - b) v = drop_bit (n - b) w" by (simp only:)
    then show ?thesis by blast
  qed
qed

lemma Overlaps_iff_share:
  assumes "prefix_valid p" "prefix_valid q"
  shows "Overlaps p q \<longleftrightarrow> (\<exists>x. prefix_contains p x \<and> prefix_contains q x)"
proof (cases "pfx_addr p"; cases "pfx_addr q")
  fix v w
  assume pq: "pfx_addr p = IP4 v" "pfx_addr q = IP4 w"
  have zero: "drop_bit 32 u = 0" for u :: "32 word"
    by (rule bit_word_eqI) (auto simp: bit_simps dest: bit_imp_le_length)
  have "Overlaps p q \<longleftrightarrow>
      drop_bit (32 - min (pfx_bits p) (pfx_bits q)) v = drop_bit (32 - min (pfx_bits p) (pfx_bits q)) w"
    using pq zero by (auto simp: Overlaps_def Let_def mask_word_eq_iff min_def split: if_splits)
  also have "\<dots> \<longleftrightarrow> (\<exists>x. drop_bit (32 - pfx_bits p) x = drop_bit (32 - pfx_bits p) v \<and>
      drop_bit (32 - pfx_bits q) x = drop_bit (32 - pfx_bits q) w)"
    using assms pq by (subst share_address_iff) (auto simp: prefix_valid_def)
  also have "\<dots> \<longleftrightarrow> (\<exists>x. prefix_contains p x \<and> prefix_contains q x)"
  proof
    assume "\<exists>x. drop_bit (32 - pfx_bits p) x = drop_bit (32 - pfx_bits p) v \<and>
      drop_bit (32 - pfx_bits q) x = drop_bit (32 - pfx_bits q) w"
    then obtain x where "drop_bit (32 - pfx_bits p) x = drop_bit (32 - pfx_bits p) v"
      "drop_bit (32 - pfx_bits q) x = drop_bit (32 - pfx_bits q) w" by blast
    then show "\<exists>x. prefix_contains p x \<and> prefix_contains q x"
      using pq by (intro exI [where x = "IP4 x"]) simp
  next
    assume "\<exists>x. prefix_contains p x \<and> prefix_contains q x"
    then obtain x where "prefix_contains p x" "prefix_contains q x" by blast
    with pq show "\<exists>x. drop_bit (32 - pfx_bits p) x = drop_bit (32 - pfx_bits p) v \<and>
      drop_bit (32 - pfx_bits q) x = drop_bit (32 - pfx_bits q) w"
      by (cases x) auto
  qed
  finally show ?thesis .
next
  fix v w z z'
  assume pq: "pfx_addr p = IP6 v z" "pfx_addr q = IP6 w z'"
  have zero: "drop_bit 128 u = 0" for u :: "128 word"
    by (rule bit_word_eqI) (auto simp: bit_simps dest: bit_imp_le_length)
  have "Overlaps p q \<longleftrightarrow>
      drop_bit (128 - min (pfx_bits p) (pfx_bits q)) v = drop_bit (128 - min (pfx_bits p) (pfx_bits q)) w"
    using pq zero by (auto simp: Overlaps_def Let_def mask_word_eq_iff min_def split: if_splits)
  also have "\<dots> \<longleftrightarrow> (\<exists>x. drop_bit (128 - pfx_bits p) x = drop_bit (128 - pfx_bits p) v \<and>
      drop_bit (128 - pfx_bits q) x = drop_bit (128 - pfx_bits q) w)"
    using assms pq by (subst share_address_iff) (auto simp: prefix_valid_def)
  also have "\<dots> \<longleftrightarrow> (\<exists>x. prefix_contains p x \<and> prefix_contains q x)"
  proof
    assume "\<exists>x. drop_bit (128 - pfx_bits p) x = drop_bit (128 - pfx_bits p) v \<and>
      drop_bit (128 - pfx_bits q) x = drop_bit (128 - pfx_bits q) w"
    then obtain x where "drop_bit (128 - pfx_bits p) x = drop_bit (128 - pfx_bits p) v"
      "drop_bit (128 - pfx_bits q) x = drop_bit (128 - pfx_bits q) w" by blast
    then show "\<exists>x. prefix_contains p x \<and> prefix_contains q x"
      using pq by (intro exI [where x = "IP6 x []"]) simp
  next
    assume "\<exists>x. prefix_contains p x \<and> prefix_contains q x"
    then obtain x where "prefix_contains p x" "prefix_contains q x" by blast
    with pq show "\<exists>x. drop_bit (128 - pfx_bits p) x = drop_bit (128 - pfx_bits p) v \<and>
      drop_bit (128 - pfx_bits q) x = drop_bit (128 - pfx_bits q) w"
      by (cases x) auto
  qed
  finally show ?thesis .
next
  fix v w z
  assume pq: "pfx_addr p = IP4 v" "pfx_addr q = IP6 w z"
  have "\<not> (prefix_contains p x \<and> prefix_contains q x)" for x
    using pq by (cases x) auto
  with pq show ?thesis by (auto simp: Overlaps_def)
next
  fix v w z
  assume pq: "pfx_addr p = IP6 v z" "pfx_addr q = IP4 w"
  have "\<not> (prefix_contains p x \<and> prefix_contains q x)" for x
    using pq by (cases x) auto
  with pq show ?thesis by (auto simp: Overlaps_def)
qed

lemma ParsePrefix_valid: "ParsePrefix s = Inr p \<Longrightarrow> prefix_valid p"
  by (auto simp: ParsePrefix_def Let_def prefix_valid_def split: if_splits sum.splits option.splits
      addr.splits)

lemma Masked_valid: "prefix_valid p \<Longrightarrow> prefix_valid (Masked p)"
  by (cases "pfx_addr p") (auto simp: prefix_valid_def Masked_def)

lemma ParsePrefix_Masked_valid: "ParsePrefix s = Inr p \<Longrightarrow> prefix_valid (Masked p)"
  by (intro Masked_valid ParsePrefix_valid)

lemma Masked_contains: "prefix_contains (Masked p) x = prefix_contains p x"
  by (cases x; cases "pfx_addr p") (auto simp: Masked_def mask_word_def drop_push_drop)

lemma Overlaps_refl: "Overlaps p p"
  by (simp add: Overlaps_def)

lemma Overlaps_sym: "Overlaps p q = Overlaps q p"
  by (auto simp: Overlaps_def Let_def min.commute)

section \<open>Comparison\<close>

fun BitLen :: "addr \<Rightarrow> nat" where
  "BitLen (IP4 w) = 32"
| "BitLen (IP6 w z) = 128"

fun addr_Compare :: "addr \<Rightarrow> addr \<Rightarrow> int" where
  "addr_Compare (IP4 v) (IP4 w) = (if v < w then -1 else if w < v then 1 else 0)"
| "addr_Compare (IP6 v z) (IP6 w z') =
     (if v < w then -1 else if w < v then 1
      else if z < z' then -1 else if z' < z then 1 else 0)"
| "addr_Compare a b = (if BitLen a < BitLen b then -1 else 1)"

lemma addr_Compare_eq_iff: "addr_Compare a b = 0 \<longleftrightarrow> a = b"
  by (induction a b rule: addr_Compare.induct) auto

lemma addr_Compare_swap: "addr_Compare b a = - addr_Compare a b"
  by (induction a b rule: addr_Compare.induct) auto

section \<open>Reading back what was printed\<close>

text \<open>An octet is one to three digits, the first of them zero only when it is alone.\<close>

lemma octet_digits:
  assumes "n < 256"
  shows "nat_digits n =
    (if n < 10 then [itoa_digit n]
     else if n < 100 then [itoa_digit (n div 10), itoa_digit (n mod 10)]
     else [itoa_digit (n div 100), itoa_digit (n div 10 mod 10), itoa_digit (n mod 10)])"
proof -
  have "n div 100 < 10" "n div 10 < 10 \<longleftrightarrow> n < 100"
    using assms by (simp_all add: div_less_iff_less_mult)
  then show ?thesis
    by (auto simp: nat_digits.simps [of n] nat_digits.simps [of "n div 10"]
        nat_digits.simps [of "n div 100"] div_mult2_eq [symmetric])
qed

lemma ipv4_loop_digit:
  assumes "d < 10" "digLen = 1 \<longrightarrow> val \<noteq> 0" "val * 10 + d \<le> 255"
  shows "ipv4_loop inp (itoa_digit d # s) first prevDot val digLen octets =
    ipv4_loop inp s False False (val * 10 + d) (Suc digLen) octets"
  using assms by (auto simp: is_digit_itoa_digit digit_value_itoa_digit)

lemma ipv4_loop_octet:
  assumes "n < 256"
  shows "\<exists>k. ipv4_loop inp (nat_digits n @ s) first prevDot 0 0 octets =
    ipv4_loop inp s False False n (Suc k) octets"
proof -
  have e: "n = (n div 10) * 10 + n mod 10" "n div 10 = (n div 100) * 10 + n div 10 mod 10"
    using div_mult2_eq [of n 10 10] by simp_all
  consider "n < 10" | "10 \<le> n" "n < 100" | "100 \<le> n" by linarith
  then show ?thesis
  proof cases
    case 1
    then show ?thesis
      using assms by (simp add: octet_digits ipv4_loop_digit del: ipv4_loop.simps) blast
  next
    case 2
    then have "nat_digits n @ s = itoa_digit (n div 10) # itoa_digit (n mod 10) # s"
      using assms by (simp add: octet_digits)
    moreover have "n div 10 \<noteq> 0" "n div 10 < 10" using 2 by auto
    ultimately show ?thesis
      using assms e by (simp add: ipv4_loop_digit del: ipv4_loop.simps) blast
  next
    case 3
    then have "nat_digits n @ s =
        itoa_digit (n div 100) # itoa_digit (n div 10 mod 10) # itoa_digit (n mod 10) # s"
      using assms by (simp add: octet_digits)
    moreover have "n div 100 \<noteq> 0" "n div 100 < 10" "n div 10 \<le> 25" using 3 assms by auto
    ultimately show ?thesis
      using assms e by (simp add: ipv4_loop_digit del: ipv4_loop.simps) blast
  qed
qed

lemma ipv4_loop_dot:
  "s \<noteq> [] \<Longrightarrow> length octets < 3 \<Longrightarrow>
     ipv4_loop inp (CHR ''.'' # s) False False val digLen octets =
       ipv4_loop inp s False True 0 0 (octets @ [val])"
  by (simp add: is_digit_def)

lemma ipv4_loop_dotted:
  assumes "a < 256" "b < 256" "c < 256" "d < 256"
  shows "ipv4_loop inp (nat_digits a @ CHR ''.'' # nat_digits b @ CHR ''.'' # nat_digits c @
    CHR ''.'' # nat_digits d) True False 0 0 [] = Inr [a, b, c, d]"
proof -
  have octet: "ipv4_loop inp (nat_digits n @ CHR ''.'' # s) first prevDot 0 0 octets =
      ipv4_loop inp s False True 0 0 (octets @ [n])"
    if "n < 256" "s \<noteq> []" "length octets < 3" for n s first prevDot octets
    using ipv4_loop_octet [OF that(1), of inp "CHR ''.'' # s" first prevDot octets]
      ipv4_loop_dot [OF that(2,3)] by (metis (no_types))
  obtain k where "ipv4_loop inp (nat_digits d @ []) False True 0 0 [a, b, c] =
      ipv4_loop inp [] False False d (Suc k) [a, b, c]"
    using ipv4_loop_octet [OF assms(4)] by blast
  then show ?thesis
    using assms by (simp add: octet del: ipv4_loop.simps) simp
qed

lemma parse_addr_scan_digits:
  "list_all is_digit ds \<Longrightarrow> parse_addr_scan s (ds @ CHR ''.'' # cs) = parseIPv4 s"
  by (induction ds) (auto simp: is_digit_def)

lemma ParseAddr_string4: "ParseAddr (string4 w) = Inr (IP4 w)"
proof -
  define n where "n = unat w"
  have n: "n < 4294967296" unfolding n_def using unsigned_less [where 'a = nat and w = w] by simp
  have "string4 w = nat_digits (n div 16777216) @ CHR ''.'' # nat_digits (n div 65536 mod 256) @
      CHR ''.'' # nat_digits (n div 256 mod 256) @ CHR ''.'' # nat_digits (n mod 256)"
    by (simp add: string4_def n_def Let_def)
  moreover have "horner 256 [n div 16777216, n div 65536 mod 256, n div 256 mod 256, n mod 256] = n"
  proof -
    have "n div 16777216 = n div 65536 div 256" "n div 65536 = n div 256 div 256"
      by (simp_all add: div_mult2_eq [symmetric])
    then show ?thesis by (simp add: horner_def)
  qed
  moreover have "n div 16777216 < 256" using n by simp
  ultimately show ?thesis
    by (simp add: ParseAddr_def parse_addr_scan_digits list_all_is_digit_nat_digits parseIPv4_def
        ipv4_loop_dotted n_def del: ipv4_loop.simps parse_addr_scan.simps)
qed

text \<open>For parsing a concrete address or prefix.\<close>

lemmas parse_eval = ParsePrefix_def after_last_slash_def ParseAddr_def parseIPv4_def horner_def
  is_digit_def digit_value_def atoi_def digits_value_def

end
