(* ===== verification/Cidr.thy ===== *)
theory Cidr
  imports NutanixInit Netip Images
begin

text \<open>
  \<open>cidrvalidation.go\<close>: the Pod and Service CIDRs are large enough, do not overlap each
  other and do not overlap the subnets of the nodes.  The prefixes of a node subnet are
  resolved once for each identifier and cached (\<open>resolve_loop\<close>); the last section
  compares that with resolving every reference on its own.
\<close>

section \<open>Sizes\<close>

definition clusterNetworkPodsFieldPath :: string where
  "clusterNetworkPodsFieldPath = ''$.spec.clusterNetwork.pods.cidrBlocks''"

definition clusterNetworkServicesFieldPath :: string where
  "clusterNetworkServicesFieldPath = ''$.spec.clusterNetwork.services.cidrBlocks''"

fun parseCIDRBlocks :: "string list \<Rightarrow> string + ip_prefix list" where
  "parseCIDRBlocks [] = Inr []"
| "parseCIDRBlocks (cidr # cidrs) =
     (case ParsePrefix cidr of
        Inl err \<Rightarrow> Inl (''failed to parse CIDR '' @ quoted cidr @ '': '' @ err)
      | Inr p \<Rightarrow>
          (case parseCIDRBlocks cidrs of
             Inl err \<Rightarrow> Inl err
           | Inr ps \<Rightarrow> Inr (Masked p # ps)))"

definition maxNodesForPodCIDR :: "nat \<Rightarrow> nat \<Rightarrow> nat" where
  "maxNodesForPodCIDR podMaskSize nodeMaskSize =
     (if nodeMaskSize \<le> podMaskSize then 1 else 2 ^ (nodeMaskSize - podMaskSize))"

text \<open>The capacity of an IPv4 prefix; a /0 does not fit the shift.\<close>

definition ipv4CIDRCapacity :: "ip_prefix \<Rightarrow> nat option" where
  "ipv4CIDRCapacity p =
     (if \<not> Is4 (pfx_addr p) then None
      else if 32 < pfx_bits p \<or> 31 < 32 - pfx_bits p then None
      else Some (2 ^ (32 - pfx_bits p)))"

definition check_pod_cidr :: "ip_prefix \<Rightarrow> check_result \<Rightarrow> check_result" where
  "check_pod_cidr p result =
     (let maskSize = pfx_bits p; maxNodes = maxNodesForPodCIDR maskSize 24
      in if 24 \<le> maskSize then
           failCheck clusterNetworkPodsFieldPath
             (''Pod CIDR '' @ quoted (prefix_String p) @ '' has prefix /'' @ nat_digits maskSize @
              '', which is too small for a cluster with '' @ nat_digits maxNodes @
              '' nodes. This prefix size does not allow the cluster to temporarily scale up '' @
              ''during an upgrade, or replacement of a failed node. Use a larger prefix, for '' @
              ''example /16.'') result
         else if 21 \<le> maskSize then
           warnCheck (''Pod CIDR '' @ quoted (prefix_String p) @ '' has prefix /'' @
             nat_digits maskSize @ '', which supports only '' @ nat_digits maxNodes @
             '' node(s) with a /24 node mask. Consider a larger prefix, for example /16.'') result
         else result)"

definition validatePodCIDR :: "ip_prefix list \<Rightarrow> check_result \<Rightarrow> check_result" where
  "validatePodCIDR pfxs result = fold check_pod_cidr pfxs result"

definition check_service_cidr :: "ip_prefix \<Rightarrow> check_result \<Rightarrow> check_result" where
  "check_service_cidr p result =
     (let maskSize = pfx_bits p
      in if 24 \<le> maskSize then
           (let message = ''Service CIDR '' @ quoted (prefix_String p) @
              '' is too small with prefix /'' @ nat_digits maskSize @
              '' (/24 or smaller). Minimum /23 recommended.''
            in failCheck clusterNetworkServicesFieldPath
              (case ipv4CIDRCapacity p of
                 None \<Rightarrow> message
               | Some totalIPs \<Rightarrow> message @ '' This CIDR supports up to '' @
                   nat_digits totalIPs @ '' service IPs.'') result)
         else if 20 < maskSize then
           warnCheck (case ipv4CIDRCapacity p of
               Some totalIPs \<Rightarrow>
                 ''Service CIDR '' @ quoted (prefix_String p) @ '' is tight with prefix /'' @
                 nat_digits maskSize @ '' and supports up to '' @ nat_digits totalIPs @
                 '' service IPs. You may encounter scaling issues if service count grows '' @
                 ''significantly.''
             | None \<Rightarrow>
                 ''Service CIDR '' @ quoted (prefix_String p) @ '' is tight with prefix /'' @
                 nat_digits maskSize @ ''. You may encounter scaling issues if service count '' @
                 ''grows significantly.'') result
         else result)"

definition validateServiceCIDR :: "ip_prefix list \<Rightarrow> check_result \<Rightarrow> check_result" where
  "validateServiceCIDR pfxs result = fold check_service_cidr pfxs result"

section \<open>Overlaps\<close>

definition prefixesOverlap :: "ip_prefix \<Rightarrow> ip_prefix \<Rightarrow> bool" where
  "prefixesOverlap a b = Overlaps a b"

record resolved_node_subnet =
  rns_prefix :: ip_prefix
  rns_field :: string
  rns_name :: string

definition check_pod_service :: "ip_prefix \<Rightarrow> ip_prefix \<Rightarrow> check_result \<Rightarrow> check_result" where
  "check_pod_service podCIDR serviceCIDR result =
     (if prefixesOverlap podCIDR serviceCIDR then
        failCheck clusterNetworkPodsFieldPath
          (''Pod CIDR '' @ quoted (prefix_String podCIDR) @ '' overlaps with Service CIDR '' @
           quoted (prefix_String serviceCIDR) @
           ''. Use non-overlapping Pod and Service CIDR ranges and retry.'') result
      else result)"

definition validatePodAndServiceCIDRsNotOverlapping ::
    "ip_prefix list \<Rightarrow> ip_prefix list \<Rightarrow> check_result \<Rightarrow> check_result" where
  "validatePodAndServiceCIDRsNotOverlapping podCIDRs serviceCIDRs result =
     fold (\<lambda>podCIDR. fold (check_pod_service podCIDR) serviceCIDRs) podCIDRs result"

definition check_node_subnet ::
    "string \<Rightarrow> ip_prefix \<Rightarrow> resolved_node_subnet \<Rightarrow> check_result \<Rightarrow> check_result" where
  "check_node_subnet kind cidr nodeSubnet result =
     (if prefixesOverlap cidr (rns_prefix nodeSubnet) then
        failCheck (rns_field nodeSubnet)
          (kind @ '' CIDR '' @ quoted (prefix_String cidr) @ '' overlaps with node subnet '' @
           quoted (rns_name nodeSubnet) @ '' (CIDR '' @
           quoted (prefix_String (rns_prefix nodeSubnet)) @
           ''). Use non-overlapping ranges and retry.'') result
      else result)"

definition validateSubnetAndPodCIDRsNotOverlapping ::
    "ip_prefix list \<Rightarrow> resolved_node_subnet list \<Rightarrow> check_result \<Rightarrow> check_result" where
  "validateSubnetAndPodCIDRsNotOverlapping podCIDRs subnets result =
     fold (\<lambda>podCIDR. fold (check_node_subnet ''Pod'' podCIDR) subnets) podCIDRs result"

definition validateSubnetAndServiceCIDRsNotOverlapping ::
    "ip_prefix list \<Rightarrow> resolved_node_subnet list \<Rightarrow> check_result \<Rightarrow> check_result" where
  "validateSubnetAndServiceCIDRsNotOverlapping serviceCIDRs subnets result =
     fold (\<lambda>serviceCIDR. fold (check_node_subnet ''Service'' serviceCIDR) subnets)
       serviceCIDRs result"

section \<open>The subnets of the nodes\<close>

record nutanix_subnet =
  nsub_id :: resource_id
  nsub_field :: string
  nsub_cluster :: "resource_id option"

text \<open>Every machine configuration contributes its subnets, with their index.\<close>

definition collectNutanixSubnets :: "check_dependencies \<Rightarrow> nutanix_subnet list" where
  "collectNutanixSubnets cd =
     concat (map (\<lambda>(field, md).
       map (\<lambda>(i, subnetID). \<lparr>nsub_id = subnetID,
              nsub_field = field @ ''.subnets['' @ nat_digits i @ '']'',
              nsub_cluster = md_cluster md\<rparr>)
         (List.enumerate 0 (md_subnets md))) (machine_configurations cd))"

definition subnetIdentifierKey :: "resource_id \<Rightarrow> string" where
  "subnetIdentifierKey i =
     (if IsUUID i then ''uuid:'' @ the (id_uuid i)
      else if IsName i then ''name:'' @ the (id_name i)
      else [])"

definition subnetIdentifierForMessage :: "resource_id \<Rightarrow> string" where
  "subnetIdentifierForMessage i =
     (if IsUUID i then the (id_uuid i)
      else if IsName i then the (id_name i)
      else ''<invalid-identifier>'')"

definition resolvePEClusterUUID :: "nclient \<Rightarrow> resource_id \<Rightarrow> (string + string) outcome" where
  "resolvePEClusterUUID nc clusterID =
     (if IsUUID clusterID then Returns (Inr (the (id_uuid clusterID)))
      else bind_outcome (getClusters nc (Some clusterID)) (\<lambda>res.
        case res of
          Inl err \<Rightarrow>
            Returns (Inl (''failed to resolve PE cluster '' @
              quoted (subnetIdentifierForMessage clusterID) @ '': '' @ err))
        | Inr clusters \<Rightarrow>
            if length clusters \<noteq> 1 then
              Returns (Inl (''found '' @ itoa (int (length clusters)) @
                '' PE clusters matching '' @ quoted (subnetIdentifierForMessage clusterID) @
                ''; expected exactly 1''))
            else bind_outcome (deref (pe_ext_id (hd clusters))) (\<lambda>uuid. Returns (Inr uuid))))"

definition filterSubnetsByPECluster ::
    "nclient \<Rightarrow> subnet list \<Rightarrow> resource_id option \<Rightarrow> subnet list outcome" where
  "filterSubnetsByPECluster nc subnets clusterID =
     (case clusterID of
        None \<Rightarrow> Returns subnets
      | Some cid \<Rightarrow>
          bind_outcome (resolvePEClusterUUID nc cid) (\<lambda>res.
            case res of
              Inl err \<Rightarrow> Returns subnets
            | Inr peUUID \<Rightarrow>
                if peUUID = [] then Returns subnets
                else Returns (filter (\<lambda>s. sub_cluster_ref s = None \<or>
                       sub_cluster_ref s = Some peUUID) subnets)))"

fun extract_prefixes :: "ip_config list \<Rightarrow> string + ip_prefix list" where
  "extract_prefixes [] = Inr []"
| "extract_prefixes (c # cs) =
     (case (ipc_ip c, ipc_prefix_length c) of
        (Some ipValue, Some prefixLength) \<Rightarrow>
          (case ParsePrefix (ipValue @ ''/'' @ itoa prefixLength) of
             Inl err \<Rightarrow>
               Inl (''failed to parse subnet prefix '' @ quoted ipValue @ ''/'' @
                 itoa prefixLength @ '': '' @ err)
           | Inr p \<Rightarrow>
               (case extract_prefixes cs of
                  Inl err \<Rightarrow> Inl err
                | Inr ps \<Rightarrow> Inr (Masked p # ps)))
      | _ \<Rightarrow> extract_prefixes cs)"

definition extractIPv4PrefixesFromSubnet :: "subnet \<Rightarrow> string + ip_prefix list" where
  "extractIPv4PrefixesFromSubnet s = extract_prefixes (sub_ip_config s)"

fun extract_all :: "string \<Rightarrow> subnet list \<Rightarrow> string + ip_prefix list" where
  "extract_all name [] = Inr []"
| "extract_all name (s # ss) =
     (case extractIPv4PrefixesFromSubnet s of
        Inl err \<Rightarrow>
          Inl (''failed to extract IPv4 CIDR for subnet '' @ quoted name @ '': '' @ err)
      | Inr ps \<Rightarrow>
          (case extract_all name ss of Inl err \<Rightarrow> Inl err | Inr qs \<Rightarrow> Inr (ps @ qs)))"

text \<open>What is stored in the cache for a reference: the body of \<open>if !ok\<close>.\<close>

definition lookup_subnet :: "nclient \<Rightarrow> nutanix_subnet \<Rightarrow> (string + ip_prefix list) outcome" where
  "lookup_subnet nc s =
     (let i = nsub_id s; name = subnetIdentifierForMessage i
      in case getSubnets nc i of
        Inl err \<Rightarrow> Returns (Inl (''failed to get subnet '' @ quoted name @ '': '' @ err))
      | Inr pcSubnets \<Rightarrow>
          if pcSubnets = [] then
            Returns (Inl (''found no subnets for identifier '' @ quoted name))
          else if IsName i \<and> 1 < length pcSubnets then
            bind_outcome (filterSubnetsByPECluster nc pcSubnets (nsub_cluster s)) (\<lambda>kept.
              if length kept \<noteq> 1 then
                Returns (Inl (''found '' @ itoa (int (length kept)) @
                  '' subnets matching name '' @ quoted (the (id_name i)) @
                  '' on the target Prism Element cluster; there must be exactly 1; use '' @
                  ''subnet UUID instead''))
              else Returns (extract_all name kept))
          else Returns (extract_all name pcSubnets))"

definition resolved_of :: "nutanix_subnet \<Rightarrow> ip_prefix list \<Rightarrow> resolved_node_subnet list" where
  "resolved_of s ps =
     map (\<lambda>p. \<lparr>rns_prefix = p, rns_field = nsub_field s,
            rns_name = subnetIdentifierForMessage (nsub_id s)\<rparr>) ps"

fun resolve_loop ::
    "nclient \<Rightarrow> nutanix_subnet list \<Rightarrow> (string \<rightharpoonup> ip_prefix list) \<Rightarrow>
     resolved_node_subnet list \<Rightarrow> string list \<Rightarrow>
     (string list \<times> (string + resolved_node_subnet list)) outcome" where
  "resolve_loop nc [] prefixCache resolved warnings = Returns (warnings, Inr resolved)"
| "resolve_loop nc (s # ss) prefixCache resolved warnings =
     (let cacheKey = subnetIdentifierKey (nsub_id s)
      in case prefixCache cacheKey of
        Some cached \<Rightarrow> resolve_loop nc ss prefixCache (resolved @ resolved_of s cached) warnings
      | None \<Rightarrow>
          bind_outcome (lookup_subnet nc s) (\<lambda>res.
            case res of
              Inl err \<Rightarrow> Returns (warnings, Inl err)
            | Inr pfxs \<Rightarrow>
                resolve_loop nc ss (prefixCache(cacheKey \<mapsto> pfxs))
                  (resolved @ resolved_of s pfxs)
                  (if pfxs = []
                   then warnings @ [''Subnet '' @
                     quoted (subnetIdentifierForMessage (nsub_id s)) @
                     '' appears to use external IPAM (no IP configuration found). CIDR '' @
                     ''overlap validation will be skipped for this subnet.'']
                   else warnings)))"

definition resolveNodeSubnets ::
    "nclient \<Rightarrow> nutanix_subnet list \<Rightarrow>
     (string list \<times> (string + resolved_node_subnet list)) outcome" where
  "resolveNodeSubnets nc subnets = resolve_loop nc subnets Map.empty [] []"

section \<open>The check\<close>

definition parse_cidrs ::
    "string \<Rightarrow> string \<Rightarrow> string list \<Rightarrow> check_result \<Rightarrow> ip_prefix list \<times> check_result" where
  "parse_cidrs kind field blocks result =
     (case parseCIDRBlocks blocks of
        Inl err \<Rightarrow>
          ([], failCheck field (''Invalid '' @ kind @ '' CIDR configuration: '' @ err) result)
      | Inr ps \<Rightarrow> (ps, result))"

text \<open>The first half of \<open>Run\<close>: what needs no node subnet.\<close>

definition check_cluster_cidrs ::
    "string list \<Rightarrow> string list \<Rightarrow> ip_prefix list \<times> ip_prefix list \<times> check_result" where
  "check_cluster_cidrs pods services =
     (let (podCIDRs, r1) = parse_cidrs ''Pod'' clusterNetworkPodsFieldPath pods allowed_result;
          (serviceCIDRs, r2) = parse_cidrs ''Service'' clusterNetworkServicesFieldPath services r1
      in (podCIDRs, serviceCIDRs,
          validatePodAndServiceCIDRsNotOverlapping podCIDRs serviceCIDRs
            (validateServiceCIDR serviceCIDRs (validatePodCIDR podCIDRs r2))))"

definition cidrValidationCheck_Run :: "check_dependencies \<Rightarrow> check_result outcome" where
  "cidrValidationCheck_Run cd =
     (let spec = cl_spec (cd_cluster cd);
          (podCIDRs, serviceCIDRs, result) =
            check_cluster_cidrs (cs_pod_cidrs spec) (cs_service_cidrs spec);
          nutanixSubnets = collectNutanixSubnets cd
      in if nutanixSubnets = [] then Returns result
         else case cd_nclient cd of
           None \<Rightarrow> Returns result
         | Some nc \<Rightarrow>
             bind_outcome (resolveNodeSubnets nc nutanixSubnets) (\<lambda>(resolveWarnings, res).
               let result' = result\<lparr>Warnings := Warnings result @ resolveWarnings\<rparr>
               in Returns (case res of
                    Inl err \<Rightarrow>
                      failCheckInternal []
                        (''Failed to resolve node subnet CIDRs from Prism Central: '' @ err @
                         ''. Please retry.'') result'
                  | Inr resolvedSubnets \<Rightarrow>
                      validateSubnetAndServiceCIDRsNotOverlapping serviceCIDRs resolvedSubnets
                        (validateSubnetAndPodCIDRsNotOverlapping podCIDRs resolvedSubnets
                          result'))))"

definition newCIDRValidationChecks :: "check_dependencies \<Rightarrow> check list" where
  "newCIDRValidationChecks cd =
     [\<lparr>check_name = ''NutanixCIDRValidation'', check_run = cidrValidationCheck_Run cd\<rparr>]"

section \<open>What the loops deny\<close>

interpretation pod_cidrs: check_loop check_pod_cidr "\<lambda>p. 24 \<le> pfx_bits p"
  by unfold_locales (auto simp: check_pod_cidr_def Let_def verdict_simps)

interpretation service_cidrs: check_loop check_service_cidr "\<lambda>p. 24 \<le> pfx_bits p"
  by unfold_locales (auto simp: check_service_cidr_def Let_def verdict_simps)

interpretation pod_service: check_loop "check_pod_service podCIDR" "prefixesOverlap podCIDR"
  for podCIDR
  by unfold_locales (auto simp: check_pod_service_def verdict_simps)

interpretation pods_services: check_loop "\<lambda>podCIDR. fold (check_pod_service podCIDR) services"
    "\<lambda>podCIDR. \<exists>s \<in> set services. prefixesOverlap podCIDR s" for services
  by unfold_locales
    (use pod_service.internal_loop pod_service.causes_loop_exact in
      \<open>auto simp: pod_service.allowed_loop\<close>)

interpretation node_subnets: check_loop "check_node_subnet kind cidr"
    "\<lambda>n. prefixesOverlap cidr (rns_prefix n)" for kind cidr
  by unfold_locales (auto simp: check_node_subnet_def verdict_simps)

interpretation cidrs_nodes: check_loop "\<lambda>cidr. fold (check_node_subnet kind cidr) subnets"
    "\<lambda>cidr. \<exists>n \<in> set subnets. prefixesOverlap cidr (rns_prefix n)" for kind subnets
  by unfold_locales
    (use node_subnets.internal_loop node_subnets.causes_loop_exact in
      \<open>auto simp: node_subnets.allowed_loop\<close>)

definition share_address :: "ip_prefix \<Rightarrow> ip_prefix \<Rightarrow> bool" where
  "share_address p q \<longleftrightarrow> (\<exists>x. prefix_contains p x \<and> prefix_contains q x)"

lemma parseCIDRBlocks_valid: "parseCIDRBlocks cs = Inr ps \<Longrightarrow> \<forall>p \<in> set ps. prefix_valid p"
  by (induction cs arbitrary: ps)
    (auto dest: ParsePrefix_Masked_valid split: sum.splits)

lemma parseCIDRBlocks_length: "parseCIDRBlocks cs = Inr ps \<Longrightarrow> length ps = length cs"
  by (induction cs arbitrary: ps) (auto split: sum.splits)

text \<open>The ranges that the operator wrote are acceptable.\<close>

definition cluster_cidrs_ok :: "ip_prefix list \<Rightarrow> ip_prefix list \<Rightarrow> bool" where
  "cluster_cidrs_ok pods services \<longleftrightarrow>
     (\<forall>p \<in> set pods. pfx_bits p < 24) \<and> (\<forall>s \<in> set services. pfx_bits s < 24) \<and>
     (\<forall>p \<in> set pods. \<forall>s \<in> set services. \<not> share_address p s)"

lemma validate_cluster_cidrs:
  assumes "\<forall>p \<in> set ps. prefix_valid p" "\<forall>s \<in> set ss. prefix_valid s"
  shows "Allowed (validatePodAndServiceCIDRsNotOverlapping ps ss
      (validateServiceCIDR ss (validatePodCIDR ps r))) \<longleftrightarrow> Allowed r \<and> cluster_cidrs_ok ps ss"
  using assms
  by (auto simp: validatePodAndServiceCIDRsNotOverlapping_def validateServiceCIDR_def
      validatePodCIDR_def pods_services.allowed_loop service_cidrs.allowed_loop
      pod_cidrs.allowed_loop cluster_cidrs_ok_def prefixesOverlap_def share_address_def
      Overlaps_iff_share)

lemma explained_cluster_cidrs:
  "explained r \<Longrightarrow> explained (validatePodAndServiceCIDRsNotOverlapping ps ss
      (validateServiceCIDR ss (validatePodCIDR ps r)))"
  by (simp add: validatePodAndServiceCIDRsNotOverlapping_def validateServiceCIDR_def
      validatePodCIDR_def pods_services.explained_loop service_cidrs.explained_loop
      pod_cidrs.explained_loop)

lemma check_cluster_cidrs_result:
  assumes "check_cluster_cidrs pods services = (ps, ss, r)"
  shows "(Allowed r \<longleftrightarrow> parseCIDRBlocks pods = Inr ps \<and> parseCIDRBlocks services = Inr ss \<and>
      cluster_cidrs_ok ps ss) \<and> explained r \<and>
    (\<forall>p \<in> set ps. prefix_valid p) \<and> (\<forall>s \<in> set ss. prefix_valid s)"
proof -
  have valid: "\<forall>p \<in> set ps. prefix_valid p" "\<forall>s \<in> set ss. prefix_valid s"
    using assms parseCIDRBlocks_valid
    by (auto simp: check_cluster_cidrs_def parse_cidrs_def split: sum.splits prod.splits)
  then show ?thesis
    using assms validate_cluster_cidrs [OF valid]
    by (auto simp: check_cluster_cidrs_def parse_cidrs_def verdict_simps
        explained_cluster_cidrs split: sum.splits prod.splits)
qed

lemma node_subnets_allowed:
  assumes "\<forall>p \<in> set cidrs. prefix_valid p" "\<forall>n \<in> set ns. prefix_valid (rns_prefix n)"
  shows "Allowed (fold (\<lambda>c. fold (check_node_subnet kind c) ns) cidrs r) \<longleftrightarrow>
    Allowed r \<and> (\<forall>c \<in> set cidrs. \<forall>n \<in> set ns. \<not> share_address c (rns_prefix n))"
  using assms
  by (auto simp: cidrs_nodes.allowed_loop prefixesOverlap_def share_address_def Overlaps_iff_share)

lemma extract_prefixes_valid: "extract_prefixes cs = Inr ps \<Longrightarrow> \<forall>p \<in> set ps. prefix_valid p"
  by (induction cs arbitrary: ps)
    (auto dest: ParsePrefix_Masked_valid split: sum.splits option.splits)

lemma extract_all_valid: "extract_all n ss = Inr ps \<Longrightarrow> \<forall>p \<in> set ps. prefix_valid p"
  by (induction ss arbitrary: ps)
    (auto simp: extractIPv4PrefixesFromSubnet_def intro: extract_prefixes_valid [THEN bspec]
      split: sum.splits)

lemma lookup_subnet_valid:
  "lookup_subnet nc s = Returns (Inr ps) \<Longrightarrow> \<forall>p \<in> set ps. prefix_valid p"
  by (auto simp: lookup_subnet_def Let_def outcome_simps dest: extract_all_valid
      split: sum.splits if_splits)

section \<open>The cache\<close>

text \<open>Resolving every reference on its own.\<close>

fun resolve_each ::
    "nclient \<Rightarrow> nutanix_subnet list \<Rightarrow> (string + resolved_node_subnet list) outcome" where
  "resolve_each nc [] = Returns (Inr [])"
| "resolve_each nc (s # ss) =
     bind_outcome (lookup_subnet nc s) (\<lambda>res.
       case res of
         Inl err \<Rightarrow> Returns (Inl err)
       | Inr ps \<Rightarrow>
           bind_outcome (resolve_each nc ss) (\<lambda>rest.
             Returns (map_sum id (\<lambda>rs. resolved_of s ps @ rs) rest)))"

definition cache_coherent ::
    "nclient \<Rightarrow> nutanix_subnet list \<Rightarrow> (string \<rightharpoonup> ip_prefix list) \<Rightarrow> bool" where
  "cache_coherent nc ss cache \<longleftrightarrow>
     (\<forall>s \<in> set ss. \<forall>ps. cache (subnetIdentifierKey (nsub_id s)) = Some ps \<longrightarrow>
        lookup_subnet nc s = Returns (Inr ps))"

lemma lookup_subnet_same_key:
  assumes "subnetIdentifierKey (nsub_id s) = subnetIdentifierKey (nsub_id t)"
    and "nsub_cluster s = nsub_cluster t" and "lookup_subnet nc s = Returns (Inr ps)"
  shows "lookup_subnet nc t = Returns (Inr ps)"
proof -
  have "IsUUID (nsub_id s) \<or> IsName (nsub_id s)"
    using assms(3) by (auto simp: lookup_subnet_def getSubnets_def Let_def split: if_splits)
  then have same: "IsUUID (nsub_id s) = IsUUID (nsub_id t)" "IsName (nsub_id s) = IsName (nsub_id t)"
    "IsUUID (nsub_id s) \<Longrightarrow> id_uuid (nsub_id s) = id_uuid (nsub_id t)"
    "IsName (nsub_id s) \<Longrightarrow> id_name (nsub_id s) = id_name (nsub_id t)"
    using assms(1) not_IsUUID_and_IsName [of "nsub_id s"] not_IsUUID_and_IsName [of "nsub_id t"]
    by (auto simp: subnetIdentifierKey_def IsUUID_def IsName_def split: if_splits)
  have g: "getSubnets nc (nsub_id t) = getSubnets nc (nsub_id s)"
    and m: "subnetIdentifierForMessage (nsub_id t) = subnetIdentifierForMessage (nsub_id s)"
    using \<open>IsUUID (nsub_id s) \<or> IsName (nsub_id s)\<close> same
    by (auto simp: getSubnets_def subnetIdentifierForMessage_def)
  have "lookup_subnet nc t = lookup_subnet nc s"
  proof (cases "IsName (nsub_id s)")
    case True
    then have n: "IsName (nsub_id t)" "id_name (nsub_id t) = id_name (nsub_id s)"
      using same by auto
    show ?thesis
      unfolding lookup_subnet_def Let_def g m n(2) assms(2) [symmetric] by (simp only: True n(1))
  next
    case False
    then have n: "\<not> IsName (nsub_id t)" using same by auto
    show ?thesis
      unfolding lookup_subnet_def Let_def g m by (simp only: False n simp_thms if_False)
  qed
  with assms(3) show ?thesis by simp
qed

definition same_cluster_for_key :: "nutanix_subnet list \<Rightarrow> bool" where
  "same_cluster_for_key ss \<longleftrightarrow>
     (\<forall>s \<in> set ss. \<forall>t \<in> set ss. subnetIdentifierKey (nsub_id s) = subnetIdentifierKey (nsub_id t) \<longrightarrow>
        nsub_cluster s = nsub_cluster t)"

lemma same_cluster_for_keyD:
  "same_cluster_for_key ss \<Longrightarrow> s \<in> set ss \<Longrightarrow> t \<in> set ss \<Longrightarrow>
     subnetIdentifierKey (nsub_id s) = subnetIdentifierKey (nsub_id t) \<Longrightarrow>
     nsub_cluster s = nsub_cluster t"
  unfolding same_cluster_for_key_def by blast

lemma same_cluster_for_key_tail: "same_cluster_for_key (s # ss) \<Longrightarrow> same_cluster_for_key ss"
  using set_subset_Cons [of ss s] unfolding same_cluster_for_key_def by blast

lemma cache_coherent_update:
  assumes "same_cluster_for_key (s # ss)" "cache_coherent nc (s # ss) cache"
    "lookup_subnet nc s = Returns (Inr ps)"
  shows "cache_coherent nc ss (cache(subnetIdentifierKey (nsub_id s) \<mapsto> ps))"
  unfolding cache_coherent_def
proof (intro ballI allI impI)
  fix t qs
  assume t: "t \<in> set ss"
    and c: "(cache(subnetIdentifierKey (nsub_id s) \<mapsto> ps)) (subnetIdentifierKey (nsub_id t)) = Some qs"
  show "lookup_subnet nc t = Returns (Inr qs)"
  proof (cases "subnetIdentifierKey (nsub_id s) = subnetIdentifierKey (nsub_id t)")
    case True
    have "nsub_cluster s = nsub_cluster t"
      by (rule same_cluster_for_keyD [OF assms(1) _ _ True]) (use t in auto)
    then have "lookup_subnet nc t = Returns (Inr ps)"
      by (rule lookup_subnet_same_key [OF True _ assms(3)])
    with True c show ?thesis by simp
  next
    case False
    then show ?thesis using assms(2) c t by (auto simp: cache_coherent_def)
  qed
qed

lemma resolve_loop_each:
  assumes "same_cluster_for_key ss" "cache_coherent nc ss cache"
  shows "bind_outcome (resolve_loop nc ss cache resolved w) (\<lambda>(w, r). Returns r) =
    bind_outcome (resolve_each nc ss) (\<lambda>r. Returns (map_sum id (\<lambda>rs. resolved @ rs) r))"
  using assms
proof (induction ss arbitrary: cache resolved w)
  case Nil
  then show ?case by simp
next
  case (Cons s ss)
  note tail = same_cluster_for_key_tail [OF Cons.prems(1)]
  have coherent: "cache_coherent nc ss cache"
    using Cons.prems(2) by (simp add: cache_coherent_def)
  show ?case
  proof (cases "cache (subnetIdentifierKey (nsub_id s))")
    case (Some ps)
    then have "lookup_subnet nc s = Returns (Inr ps)"
      using Cons.prems(2) by (simp add: cache_coherent_def)
    with Some coherent tail show ?thesis
      by (simp add: Let_def Cons.IH bind_outcome_assoc sum.map_comp comp_def)
  next
    case None
    show ?thesis
    proof (cases "\<exists>ps. lookup_subnet nc s = Returns (Inr ps)")
      case True
      then obtain ps where l: "lookup_subnet nc s = Returns (Inr ps)" by blast
      note cache_coherent_update [OF Cons.prems l]
      with None l tail show ?thesis
        by (simp add: Let_def Cons.IH bind_outcome_assoc sum.map_comp comp_def del: fun_upd_apply)
    next
      case False
      with None show ?thesis
        by (cases "lookup_subnet nc s") (auto simp: Let_def split: sum.splits)
    qed
  qed
qed

lemma resolveNodeSubnets_each:
  "same_cluster_for_key ss \<Longrightarrow>
     bind_outcome (resolveNodeSubnets nc ss) (\<lambda>(w, r). Returns r) = resolve_each nc ss"
proof -
  have idm: "map_sum id (\<lambda>rs. [] @ rs) x = x" for x :: "string + resolved_node_subnet list"
    by (cases x) auto
  assume "same_cluster_for_key ss"
  then have "bind_outcome (resolveNodeSubnets nc ss) (\<lambda>(w, r). Returns r) =
      bind_outcome (resolve_each nc ss) (\<lambda>r. Returns (map_sum id (\<lambda>rs. [] @ rs) r))"
    unfolding resolveNodeSubnets_def
    by (rule resolve_loop_each) (simp add: cache_coherent_def)
  then show ?thesis unfolding idm by simp
qed

lemma resolve_loop_valid:
  assumes "resolve_loop nc ss cache resolved w = Returns (w', Inr rs)"
    and "\<forall>k ps. cache k = Some ps \<longrightarrow> (\<forall>p \<in> set ps. prefix_valid p)"
    and "\<forall>n \<in> set resolved. prefix_valid (rns_prefix n)"
  shows "\<forall>n \<in> set rs. prefix_valid (rns_prefix n)"
  using assms
proof (induction ss arbitrary: cache resolved w)
  case Nil
  then show ?case by simp
next
  case (Cons s ss)
  show ?case
  proof (cases "cache (subnetIdentifierKey (nsub_id s))")
    case (Some ps)
    show ?thesis
      by (rule Cons.IH [of cache "resolved @ resolved_of s ps" w])
        (use Some Cons.prems in \<open>auto simp: Let_def resolved_of_def\<close>)
  next
    case None
    with Cons.prems(1) obtain ps where l: "lookup_subnet nc s = Returns (Inr ps)"
      by (cases "lookup_subnet nc s") (auto simp: Let_def split: sum.splits)
    with None Cons.prems(1) obtain w'' where
      r: "resolve_loop nc ss (cache(subnetIdentifierKey (nsub_id s) \<mapsto> ps))
        (resolved @ resolved_of s ps) w'' = Returns (w', Inr rs)"
      by (simp add: Let_def)
    show ?thesis
      by (rule Cons.IH [OF r])
        (use Cons.prems lookup_subnet_valid [OF l] in \<open>auto simp: resolved_of_def\<close>)
  qed
qed

lemma resolveNodeSubnets_valid:
  "resolveNodeSubnets nc ss = Returns (w, Inr rs) \<Longrightarrow> \<forall>n \<in> set rs. prefix_valid (rns_prefix n)"
  unfolding resolveNodeSubnets_def by (rule resolve_loop_valid) auto

section \<open>The whole check\<close>

text \<open>No Pod or Service range contains an address of a node subnet.\<close>

definition clear_of_nodes :: "ip_prefix list \<Rightarrow> resolved_node_subnet list \<Rightarrow> bool" where
  "clear_of_nodes cidrs ns \<longleftrightarrow>
     (\<forall>c \<in> set cidrs. \<forall>n \<in> set ns. \<not> share_address c (rns_prefix n))"

lemma validate_node_subnets:
  assumes "\<forall>p \<in> set ps. prefix_valid p" "\<forall>p \<in> set ss. prefix_valid p"
    "\<forall>n \<in> set ns. prefix_valid (rns_prefix n)"
  shows "Allowed (validateSubnetAndServiceCIDRsNotOverlapping ss ns
      (validateSubnetAndPodCIDRsNotOverlapping ps ns r)) \<longleftrightarrow>
    Allowed r \<and> clear_of_nodes ps ns \<and> clear_of_nodes ss ns"
  using assms
  by (auto simp: validateSubnetAndServiceCIDRsNotOverlapping_def clear_of_nodes_def
      validateSubnetAndPodCIDRsNotOverlapping_def node_subnets_allowed)

lemma explained_node_subnets:
  "explained r \<Longrightarrow> explained (validateSubnetAndServiceCIDRsNotOverlapping ss ns
      (validateSubnetAndPodCIDRsNotOverlapping ps ns r))"
  by (simp add: validateSubnetAndServiceCIDRsNotOverlapping_def
      validateSubnetAndPodCIDRsNotOverlapping_def cidrs_nodes.explained_loop)

lemma check_cluster_cidrs_parsed:
  assumes "check_cluster_cidrs pods services = (ps, ss, r)"
  shows "(\<exists>ps' ss'. parseCIDRBlocks pods = Inr ps' \<and> parseCIDRBlocks services = Inr ss' \<and>
      cluster_cidrs_ok ps' ss' \<and> P ps' ss') \<longleftrightarrow> Allowed r \<and> P ps ss"
proof -
  have "parseCIDRBlocks pods = Inr ps' \<Longrightarrow> ps' = ps" for ps'
    using assms by (auto simp: check_cluster_cidrs_def parse_cidrs_def split: sum.splits)
  moreover have "parseCIDRBlocks services = Inr ss' \<Longrightarrow> ss' = ss" for ss'
    using assms by (auto simp: check_cluster_cidrs_def parse_cidrs_def split: sum.splits)
  ultimately show ?thesis using check_cluster_cidrs_result [OF assms] by blast
qed

lemma more_warnings:
  "Allowed (r\<lparr>Warnings := ws\<rparr>) = Allowed r" "explained (r\<lparr>Warnings := ws\<rparr>) = explained r"
  by (auto simp: explained_def)

lemma cidrValidationCheck_Run_allowed:
  assumes "cidrValidationCheck_Run cd = Returns r"
  shows "(Allowed r \<longleftrightarrow> (\<exists>ps ss.
      parseCIDRBlocks (cs_pod_cidrs (cl_spec (cd_cluster cd))) = Inr ps \<and>
      parseCIDRBlocks (cs_service_cidrs (cl_spec (cd_cluster cd))) = Inr ss \<and>
      cluster_cidrs_ok ps ss \<and>
      (collectNutanixSubnets cd = [] \<or> cd_nclient cd = None \<or>
       (\<exists>nc w ns. cd_nclient cd = Some nc \<and>
          resolveNodeSubnets nc (collectNutanixSubnets cd) = Returns (w, Inr ns) \<and>
          clear_of_nodes ps ns \<and> clear_of_nodes ss ns)))) \<and> explained r"
proof -
  obtain ps ss r0 where c: "check_cluster_cidrs (cs_pod_cidrs (cl_spec (cd_cluster cd)))
      (cs_service_cidrs (cl_spec (cd_cluster cd))) = (ps, ss, r0)"
    by (metis prod_cases3)
  note first = check_cluster_cidrs_result [OF c]
  let ?nodes = "\<lambda>ps ss. collectNutanixSubnets cd = [] \<or> cd_nclient cd = None \<or>
       (\<exists>nc w ns. cd_nclient cd = Some nc \<and>
          resolveNodeSubnets nc (collectNutanixSubnets cd) = Returns (w, Inr ns) \<and>
          clear_of_nodes ps ns \<and> clear_of_nodes ss ns)"
  have "(Allowed r \<longleftrightarrow> Allowed r0 \<and> ?nodes ps ss) \<and> explained r"
  proof (cases "collectNutanixSubnets cd = [] \<or> cd_nclient cd = None")
    case True
    then have "r = r0"
      using assms by (auto simp: cidrValidationCheck_Run_def Let_def c split: if_splits)
    with first True show ?thesis by auto
  next
    case False
    then obtain nc where nc: "cd_nclient cd = Some nc" by blast
    obtain w res where res: "resolveNodeSubnets nc (collectNutanixSubnets cd) = Returns (w, res)"
      using assms False nc by (auto simp: cidrValidationCheck_Run_def Let_def c outcome_simps)
    show ?thesis
    proof (cases res)
      case (Inl err)
      with assms False nc c res show ?thesis
        by (auto simp: cidrValidationCheck_Run_def Let_def verdict_simps)
    next
      case (Inr ns)
      then have r: "r = validateSubnetAndServiceCIDRsNotOverlapping ss ns
          (validateSubnetAndPodCIDRsNotOverlapping ps ns
            (r0\<lparr>Warnings := Warnings r0 @ w\<rparr>))"
        using assms False nc c res by (simp add: cidrValidationCheck_Run_def Let_def)
      have "\<forall>n \<in> set ns. prefix_valid (rns_prefix n)"
        by (rule resolveNodeSubnets_valid) (use res Inr in simp)
      with first r False nc res Inr show ?thesis
        by (auto simp: validate_node_subnets explained_node_subnets more_warnings)
    qed
  qed
  then show ?thesis
    unfolding check_cluster_cidrs_parsed [OF c, where P = "?nodes", symmetric] .
qed

end
