(* ===== verification/StorageContainers.thy ===== *)
theory StorageContainers
  imports FailureDomains Images
begin

text \<open>
  \<open>storagecontainer.go\<close>: every storage class of the CSI configuration that names a
  storage container finds exactly one on the Prism Element cluster of each failure domain or
  machine configuration.  The clusters are looked up once (\<open>sync.OnceValues\<close>), when
  the first storage class needs them; \<open>clusters\<close> is that value.
\<close>

section \<open>The check\<close>

record storage_container_check =
  scc_machine_spec :: "machine_details option"
  scc_failure_domain :: string
  scc_namespace :: string
  scc_kclient :: "kube_client option"
  scc_field :: string
  scc_csi :: csi_provider
  scc_nclient :: nclient
  scc_err :: "string option"

definition quoted_identifier :: "resource_id option \<Rightarrow> string" where
  "quoted_identifier i = (case i of None \<Rightarrow> ''<nil>'' | Some i' \<Rightarrow> quoted (id_String i'))"

definition csi_provider_field :: string where
  "csi_provider_field = cluster_config_field @ ''.value.addons.csi.providers.nutanix''"

definition storage_container_parameter_field :: string where
  "storage_container_parameter_field =
     csi_provider_field @ ''.storageClassConfigs.volume.parameters.storageContainer''"

text \<open>What is recorded for a container name, once the cluster's UUID is known.\<close>

definition container_verdict ::
    "storage_container_check \<Rightarrow> resource_id option \<Rightarrow> string \<Rightarrow> string \<Rightarrow> check_result \<Rightarrow>
     check_result" where
  "container_verdict c ident name uuid result =
     (case getStorageContainers (scc_nclient c) uuid name of
        Inl err \<Rightarrow>
          failCheckInternal (scc_field c @ ''.cluster'')
            (''Failed to check if Storage Container '' @ quoted name @ '' exists in cluster '' @
             quoted_identifier ident @ '': '' @ err @
             ''. This is usually a temporary error. Please retry.'') result
      | Inr containers \<Rightarrow>
          if containers = [] then
            failCheck storage_container_parameter_field
              (''Found no Storage Containers with name '' @ quoted name @ '' on Cluster '' @
               quoted_identifier ident @
               ''. Create a Storage Container with this name on Cluster '' @
               quoted_identifier ident @ '', and then retry.'') result
          else if length containers = 1 then result
          else
            failCheckInternal storage_container_parameter_field
              (''Found '' @ itoa (int (length containers)) @ '' Storage Containers with name '' @
               quoted name @ '' on Cluster '' @ quoted_identifier ident @
               ''. This should not happen under normal circumstances. Please report.'') result)"

definition storage_container_parameter :: "storage_class_config \<Rightarrow> string option" where
  "storage_container_parameter sc =
     Option.bind (sc_parameters sc) (\<lambda>ps. ps ''storageContainer'')"

definition check_storage_class ::
    "storage_container_check \<Rightarrow> resource_id option \<Rightarrow> (string + pe_cluster list) outcome \<Rightarrow>
     string \<times> storage_class_config \<Rightarrow> check_result \<Rightarrow> check_result outcome" where
  "check_storage_class c ident clusters entry result =
     (case storage_container_parameter (snd entry) of
        None \<Rightarrow> Returns result
      | Some name \<Rightarrow>
          bind_outcome clusters (\<lambda>res.
            case res of
              Inl err \<Rightarrow>
                Returns (failCheckInternal (scc_field c @ ''.cluster'')
                  (''Failed to check if storage container '' @ quoted name @
                   '' exists: failed to get cluster '' @ quoted_identifier ident @ '': '' @ err @
                   ''. This is usually a temporary error. Please retry.'') result)
            | Inr cs \<Rightarrow>
                if length cs \<noteq> 1 then
                  Returns (failCheck (scc_field c @ ''.cluster'')
                    (''Found '' @ itoa (int (length cs)) @
                     '' Clusters (Prism Elements) in Prism Central that match identifier '' @
                     quoted_identifier ident @
                     ''. There must be exactly 1 Cluster that matches this identifier. Use a '' @
                     ''unique Cluster name, or identify the Cluster by its UUID, then retry.'')
                    result)
                else bind_outcome (deref (pe_ext_id (hd cs))) (\<lambda>uuid.
                  Returns (container_verdict c ident name uuid result))))"

text \<open>The identifier of the cluster, or the verdict when the failure domain is not found.\<close>

definition cluster_identifier ::
    "storage_container_check \<Rightarrow> (check_result + resource_id option) outcome" where
  "cluster_identifier c =
     (if scc_failure_domain c \<noteq> [] then
        bind_outcome (deref (scc_kclient c)) (\<lambda>kc.
          case kc_failure_domain kc (scc_namespace c) (scc_failure_domain c) of
            Inl (NotFound e) \<Rightarrow>
              Returns (Inl (failCheck (scc_field c @ ''.failureDomain'')
                (''NutanixFailureDomain '' @ quoted (scc_failure_domain c) @
                 '' was not found in the management cluster. Please create it and retry.'')
                allowed_result))
          | Inl (OtherError e) \<Rightarrow>
              Returns (Inl (failCheckInternal (scc_field c @ ''.failureDomain'')
                (''Failed to get NutanixFailureDomain '' @ quoted (scc_failure_domain c) @ '': '' @
                 e @ ''. This is usually a temporary error. Please retry.'') allowed_result))
          | Inr fdObj \<Rightarrow> Returns (Inr (Some (fd_pe_cluster fdObj))))
      else bind_outcome (deref (scc_machine_spec c)) (\<lambda>md. Returns (Inr (md_cluster md))))"

definition storageContainerCheck_Run :: "storage_container_check \<Rightarrow> check_result outcome" where
  "storageContainerCheck_Run c =
     (case scc_err c of
        Some errMessage \<Rightarrow>
          Returns (failCheck (scc_field c)
            (''Failed to check NutanixStorageContainer: '' @ errMessage) allowed_result)
      | None \<Rightarrow>
     (case csi_storage_classes (scc_csi c) of
        None \<Rightarrow>
          Returns (failCheck csi_provider_field
            (''Nutanix CSI Provider configuration is missing storage class configurations. '' @
             ''Review the Cluster.'') allowed_result)
      | Some storageClasses \<Rightarrow>
          bind_outcome (cluster_identifier c) (\<lambda>res.
            case res of
              Inl r \<Rightarrow> Returns r
            | Inr ident \<Rightarrow>
                fold_outcome (check_storage_class c ident (getClusters (scc_nclient c) ident))
                  storageClasses allowed_result)))"

section \<open>Which checks are made\<close>

datatype storage_check = FailureDomainFailed failure_domain_check | StorageCheck storage_container_check

fun storage_check_of :: "storage_check \<Rightarrow> check" where
  "storage_check_of (FailureDomainFailed fdc) = failure_domain_check_of fdc"
| "storage_check_of (StorageCheck c) =
     \<lparr>check_name = ''NutanixStorageContainer'', check_run = storageContainerCheck_Run c\<rparr>"

definition storage_checks_for_reference ::
    "check_dependencies \<Rightarrow> nclient \<Rightarrow> csi_provider \<Rightarrow> string \<Rightarrow> string \<Rightarrow> storage_check list" where
  "storage_checks_for_reference cd nc csi field fd =
     (let ns = cl_namespace (cd_cluster cd)
      in case getFailureDomainNames (cd_kclient cd) ns fd of
           Inl err \<Rightarrow>
             [FailureDomainFailed \<lparr>fdc_name = fd, fdc_namespace = ns,
                fdc_field = cp_failure_domains_field, fdc_kclient = cd_kclient cd,
                fdc_nclient = nc, fdc_err = Some err\<rparr>]
         | Inr fdNames \<Rightarrow>
             map (\<lambda>n. StorageCheck \<lparr>scc_machine_spec = None, scc_failure_domain = n,
                  scc_namespace = ns, scc_kclient = Some (cd_kclient cd), scc_field = field,
                  scc_csi = csi, scc_nclient = nc, scc_err = None\<rparr>) fdNames)"

definition storage_check_for_machine ::
    "nclient \<Rightarrow> csi_provider \<Rightarrow> string \<Rightarrow> machine_details \<Rightarrow> storage_check" where
  "storage_check_for_machine nc csi field md =
     StorageCheck \<lparr>scc_machine_spec = Some md, scc_failure_domain = [], scc_namespace = [],
       scc_kclient = None, scc_field = field, scc_csi = csi, scc_nclient = nc, scc_err = None\<rparr>"

definition newStorageContainerChecks :: "check_dependencies \<Rightarrow> storage_check list" where
  "newStorageContainerChecks cd =
     (case cd_nclient cd of
        None \<Rightarrow> []
      | Some nc \<Rightarrow>
     (case Option.bind (cd_config cd) (\<lambda>cfg. Option.bind (ncc_addons cfg) id) of
        None \<Rightarrow> []
      | Some csi \<Rightarrow>
          if cd_pc_version cd = [] then []
          else
            (case Option.bind (cd_config cd) (\<lambda>cfg. cp_nutanix cfg) of
               None \<Rightarrow> []
             | Some cpn \<Rightarrow>
                 if cpn_failure_domains cpn \<noteq> []
                 then concat (map (storage_checks_for_reference cd nc csi cp_failure_domains_field)
                        (nonempty_names (cpn_failure_domains cpn)))
                 else [storage_check_for_machine nc csi cp_machine_details_field
                         (cpn_details cpn)]) @
            concat (map (\<lambda>(mdName, w).
              case nwc_nutanix w of
                None \<Rightarrow> []
              | Some md \<Rightarrow>
                  (case cd_failure_domains cd mdName of
                     Some (ch # chs) \<Rightarrow>
                       storage_checks_for_reference cd nc csi (md_failure_domain_field mdName)
                         (ch # chs)
                   | _ \<Rightarrow> [storage_check_for_machine nc csi (md_machine_details_field mdName) md]))
              (cd_workers cd))))"

section \<open>The loop over the storage classes\<close>

definition container_found :: "nclient \<Rightarrow> string \<Rightarrow> string \<Rightarrow> bool" where
  "container_found nc uuid name \<longleftrightarrow> (\<exists>x. getStorageContainers nc uuid name = Inr [x])"

text \<open>What the body does when the cluster lookup returned one cluster with an identifier.\<close>

definition storage_class_step ::
    "storage_container_check \<Rightarrow> resource_id option \<Rightarrow> string \<Rightarrow> string \<times> storage_class_config \<Rightarrow>
     check_result \<Rightarrow> check_result" where
  "storage_class_step c ident uuid entry r =
     (case storage_container_parameter (snd entry) of
        None \<Rightarrow> r
      | Some name \<Rightarrow> container_verdict c ident name uuid r)"

definition storage_class_bad :: "nclient \<Rightarrow> string \<Rightarrow> string \<times> storage_class_config \<Rightarrow> bool" where
  "storage_class_bad nc uuid entry \<longleftrightarrow>
     (\<exists>name. storage_container_parameter (snd entry) = Some name \<and>
        \<not> container_found nc uuid name)"

lemma container_verdict_fields:
  "Allowed (container_verdict c ident name uuid r) \<longleftrightarrow>
     Allowed r \<and> container_found (scc_nclient c) uuid name"
  "\<exists>cs. Causes (container_verdict c ident name uuid r) = Causes r @ cs \<and>
     (cs = [] \<longleftrightarrow> container_found (scc_nclient c) uuid name)"
  "InternalError (container_verdict c ident name uuid r) \<longrightarrow>
     InternalError r \<or> \<not> container_found (scc_nclient c) uuid name"
  "InternalError r \<longrightarrow> InternalError (container_verdict c ident name uuid r)"
  by (auto simp: container_verdict_def container_found_def verdict_simps length_Suc_conv
      split: sum.splits)

interpretation storage_classes: check_loop "storage_class_step c ident uuid"
    "storage_class_bad (scc_nclient c) uuid" for c ident uuid
  by unfold_locales
    (auto simp: storage_class_step_def storage_class_bad_def container_verdict_fields
      split: option.splits)

lemma storage_loop_one_cluster:
  assumes "getClusters (scc_nclient c) ident = Returns (Inr [pe])" "pe_ext_id pe = Some uuid"
  shows "fold_outcome (check_storage_class c ident (getClusters (scc_nclient c) ident)) scs r =
    Returns (fold (storage_class_step c ident uuid) scs r)"
  by (rule fold_outcome_Returns)
    (auto simp: check_storage_class_def storage_class_step_def assms split: option.splits)

text \<open>No storage class names a container: nothing is looked up, whatever the cluster is.\<close>

lemma storage_loop_no_parameter:
  assumes "\<forall>sc \<in> set scs. storage_container_parameter (snd sc) = None"
  shows "fold_outcome (check_storage_class c ident clusters) scs r = Returns r"
proof -
  have "fold_outcome (check_storage_class c ident clusters) scs r =
      Returns (fold (\<lambda>_ r. r) scs r)"
    by (rule fold_outcome_Returns) (simp add: check_storage_class_def assms)
  moreover have "fold (\<lambda>_ r. r) scs r = r" by (induction scs) auto
  ultimately show ?thesis by simp
qed

lemma storage_loop_panics:
  assumes "sc \<in> set scs" "storage_container_parameter (snd sc) \<noteq> None" "clusters = Panics m"
  shows "\<exists>m. fold_outcome (check_storage_class c ident clusters) scs r = Panics m"
  using assms
proof (induction scs arbitrary: r)
  case Nil
  then show ?case by simp
next
  case (Cons x xs)
  then show ?case
    by (cases "storage_container_parameter (snd x)") (auto simp: check_storage_class_def)
qed

text \<open>
  A machine configuration without a cluster, and no failure domain: the identifier is nil and
  the lookup panics, as soon as one storage class names a container.
\<close>

lemma storageContainerCheck_no_cluster_panics:
  assumes "scc_err c = None" "csi_storage_classes (scc_csi c) = Some scs"
    "scc_failure_domain c = []" "scc_machine_spec c = Some md" "md_cluster md = None"
    "sc \<in> set scs" "storage_container_parameter (snd sc) \<noteq> None"
  shows "\<exists>m. storageContainerCheck_Run c = Panics m"
  using assms storage_loop_panics [of sc scs "getClusters (scc_nclient c) None"]
  by (simp add: storageContainerCheck_Run_def cluster_identifier_def getClusters_None)

lemma storageContainerCheck_one_cluster:
  assumes "scc_err c = None" "csi_storage_classes (scc_csi c) = Some scs"
    "cluster_identifier c = Returns (Inr ident)"
    "getClusters (scc_nclient c) ident = Returns (Inr [pe])" "pe_ext_id pe = Some uuid"
  obtains r where "storageContainerCheck_Run c = Returns r" "explained r"
    "Allowed r \<longleftrightarrow> (\<forall>sc \<in> set scs. \<forall>name. storage_container_parameter (snd sc) = Some name \<longrightarrow>
       (\<exists>x. getStorageContainers (scc_nclient c) uuid name = Inr [x]))"
proof
  have "fold_outcome (check_storage_class c ident (getClusters (scc_nclient c) ident)) scs
      allowed_result = Returns (fold (storage_class_step c ident uuid) scs allowed_result)"
    using assms(4,5) by (rule storage_loop_one_cluster)
  then show "storageContainerCheck_Run c =
      Returns (fold (storage_class_step c ident uuid) scs allowed_result)"
    by (simp add: storageContainerCheck_Run_def assms(1-3))
qed (auto simp: storage_classes.explained_loop storage_classes.allowed_loop storage_class_bad_def
    container_found_def)

end
