(* ===== verification/MetroChecks.thy ===== *)
theory MetroChecks
  imports FailureDomains
begin

text \<open>
  \<open>pkg/webhook/preflight/nutanix/metro.go\<close>: the checks of a metro Cluster, whose nodes
  span two Prism Elements.  Go maps used as sets are sets, read through the sorted list of
  their elements; the map of subnet profiles is an association list in the order of its
  iteration.
\<close>

section \<open>The failure domains of the Cluster\<close>

text \<open>\<open>forEachClusterFailureDomain\<close>: what is visited, with its field path.\<close>

definition cluster_failure_domains :: "check_dependencies \<Rightarrow> (string \<times> string) list" where
  "cluster_failure_domains cd =
     map (\<lambda>fd. (fd, cp_failure_domains_field)) (control_plane_references cd) @
     map (\<lambda>(n, fd). (fd, md_failure_domain_field n)) (worker_references cd)"

definition metroNameFromFailureDomain ::
    "kube_client \<Rightarrow> string \<Rightarrow> string \<Rightarrow> string + string" where
  "metroNameFromFailureDomain kc namespace fd =
     (if isNutanixMetroFailureDomain fd then Inr (drop (length metroFailureDomainPrefix) fd)
      else if isNutanixMetroSiteFailureDomain fd then
        (let metroSiteName = drop (length metroSiteFailureDomainPrefix) fd
         in case kc_metro_site kc namespace metroSiteName of
              Inl err \<Rightarrow>
                Inl (''failed to fetch the NutanixMetroSite '' @ metroSiteName @
                  '' referenced by failureDomain '' @ fd @ '': '' @ api_error_text err)
            | Inr site \<Rightarrow> Inr (site_metro_ref site))
      else Inr [])"

record metro_reference =
  ref_metro :: string
  ref_field :: string
  ref_err :: "string option"

definition add_metro ::
    "kube_client \<Rightarrow> string \<Rightarrow> string \<times> string \<Rightarrow> string set \<times> metro_reference list \<Rightarrow>
     string set \<times> metro_reference list" where
  "add_metro kc namespace visit st =
     (case (visit, st) of ((fd, field), (seen, refs)) \<Rightarrow>
        case metroNameFromFailureDomain kc namespace fd of
          Inl err \<Rightarrow>
            (let key = ''err:'' @ fd
             in if key \<in> seen then (seen, refs)
                else (insert key seen,
                      refs @ [\<lparr>ref_metro = fd, ref_field = field, ref_err = Some err\<rparr>]))
        | Inr metroName \<Rightarrow>
            if metroName = [] \<or> metroName \<in> seen then (seen, refs)
            else (insert metroName seen,
                  refs @ [\<lparr>ref_metro = metroName, ref_field = field, ref_err = None\<rparr>]))"

definition referencedMetros :: "check_dependencies \<Rightarrow> metro_reference list" where
  "referencedMetros cd =
     snd (fold (add_metro (cd_kclient cd) (cl_namespace (cd_cluster cd)))
       (cluster_failure_domains cd) ({}, []))"

definition add_failure_domain_names ::
    "kube_client \<Rightarrow> string \<Rightarrow> string \<times> string \<Rightarrow> string set \<times> string option \<Rightarrow>
     string set \<times> string option" where
  "add_failure_domain_names kc namespace visit st =
     (case getFailureDomainNames kc namespace (fst visit) of
        Inl err \<Rightarrow> (fst st, case snd st of None \<Rightarrow> Some err | Some e \<Rightarrow> Some e)
      | Inr names \<Rightarrow> (fst st \<union> set (nonempty_names names), snd st))"

definition clusterFailureDomainNames :: "check_dependencies \<Rightarrow> string list \<times> string option" where
  "clusterFailureDomainNames cd =
     (let (nameSet, errMessage) =
        fold (add_failure_domain_names (cd_kclient cd) (cl_namespace (cd_cluster cd)))
          (cluster_failure_domains cd) ({}, None)
      in (sorted_keys nameSet, errMessage))"

section \<open>Node pools\<close>

record node_pool =
  np_description :: string
  np_failure_domains :: "string list"
  np_field :: string

definition clusterNodePools :: "check_dependencies \<Rightarrow> node_pool list" where
  "clusterNodePools cd =
     (case Option.bind (cd_config cd) (\<lambda>cfg. cp_nutanix cfg) of
        None \<Rightarrow> []
      | Some cpn \<Rightarrow>
          [\<lparr>np_description = ''The Control Plane'',
            np_failure_domains = nonempty_names (cpn_failure_domains cpn),
            np_field = cp_failure_domains_field\<rparr>]) @
     (let t = cl_topology (cd_cluster cd)
      in if \<not> IsDefined t then []
         else map (\<lambda>md. \<lparr>np_description = ''Worker MachineDeployment '' @ quoted (mdep_name md),
                np_failure_domains = nonempty_names [mdep_failure_domain md],
                np_field = md_failure_domain_field (mdep_name md)\<rparr>)
           (top_machine_deployments t))"

definition metro_placement_advice :: string where
  "metro_placement_advice =
     ''In a metro configuration, every Control Plane and Worker node pool must be placed on '' @
     ''a NutanixMetro or NutanixMetroSite failure domain so that all nodes are protected by '' @
     ''synchronous replication. ''"

definition is_metro_reference :: "string \<Rightarrow> bool" where
  "is_metro_reference fd \<longleftrightarrow>
     isNutanixMetroFailureDomain fd \<or> isNutanixMetroSiteFailureDomain fd"

definition check_pool_domain :: "node_pool \<Rightarrow> string \<Rightarrow> check_result \<Rightarrow> check_result" where
  "check_pool_domain np fd result =
     (if is_metro_reference fd then result
      else failCheck (np_field np)
        (np_description np @ '' uses failure domain '' @ quoted fd @
         '', which is not a NutanixMetro or NutanixMetroSite failure domain. '' @
         metro_placement_advice @
         ''Use a NutanixMetro or NutanixMetroSite failure domain and retry.'') result)"

definition check_pool :: "node_pool \<Rightarrow> check_result \<Rightarrow> check_result" where
  "check_pool np result =
     (if np_failure_domains np = [] then
        failCheck (np_field np)
          (np_description np @ '' is not configured with a failure domain. '' @
           metro_placement_advice @
           ''Configure it with a NutanixMetro or NutanixMetroSite failure domain and retry.'')
          result
      else fold (check_pool_domain np) (np_failure_domains np) result)"

definition allNodePoolsMetroCheck_Run :: "node_pool list \<Rightarrow> check_result" where
  "allNodePoolsMetroCheck_Run pools = fold check_pool pools allowed_result"

section \<open>Metro sites\<close>

record metro_site_identity =
  msi_name :: string
  msi_preferred_fd :: string
  msi_group_label :: string

definition site_identity :: "nutanix_metro_site \<Rightarrow> metro_site_identity" where
  "site_identity site =
     \<lparr>msi_name = site_name site, msi_preferred_fd = site_preferred_fd site,
      msi_group_label = (case site_group_label site of None \<Rightarrow> [] | Some l \<Rightarrow> l)\<rparr>"

text \<open>The loop of \<open>reportDuplicateSiteField\<close>: the values seen, with the site's name.\<close>

fun report_duplicates ::
    "string \<Rightarrow> string \<Rightarrow> (metro_site_identity \<Rightarrow> string) \<Rightarrow> string \<Rightarrow> metro_site_identity list \<Rightarrow>
     (string \<rightharpoonup> string) \<Rightarrow> check_result \<Rightarrow> check_result" where
  "report_duplicates field metroName val fieldName [] seen result = result"
| "report_duplicates field metroName val fieldName (site # sites) seen result =
     (let v = val site
      in if v = [] then report_duplicates field metroName val fieldName sites seen result
         else case seen v of
           Some other \<Rightarrow>
             report_duplicates field metroName val fieldName sites seen
               (failCheck field
                 (''NutanixMetroSite '' @ quoted other @ '' and '' @ quoted (msi_name site) @
                  '' of NutanixMetro '' @ quoted metroName @ '' share '' @ fieldName @ '' '' @
                  quoted v @ ''. Each metro site must have a distinct '' @ fieldName @
                  '' so that sites pin to different Prism Elements and topology segments. '' @
                  ''Use a unique '' @ fieldName @ '' per site and retry.'') result)
         | None \<Rightarrow>
             report_duplicates field metroName val fieldName sites (seen(v \<mapsto> msi_name site))
               result)"

definition reportDuplicateSiteField ::
    "string \<Rightarrow> string \<Rightarrow> metro_site_identity list \<Rightarrow> (metro_site_identity \<Rightarrow> string) \<Rightarrow> string \<Rightarrow>
     check_result \<Rightarrow> check_result" where
  "reportDuplicateSiteField field metroName sites val fieldName result =
     report_duplicates field metroName val fieldName sites Map.empty result"

definition sites_of_metro :: "nutanix_metro_site list \<Rightarrow> string \<Rightarrow> metro_site_identity list" where
  "sites_of_metro items metroName =
     map site_identity (filter (\<lambda>s. site_metro_ref s = metroName) items)"

definition check_metro_sites ::
    "string \<Rightarrow> nutanix_metro_site list \<Rightarrow> string \<Rightarrow> check_result \<Rightarrow> check_result" where
  "check_metro_sites field items metroName result =
     (let sites = sites_of_metro items metroName
      in reportDuplicateSiteField field metroName sites msi_group_label ''groupNameLabel''
           (reportDuplicateSiteField field metroName sites msi_preferred_fd
             ''preferredFailureDomain'' result))"

definition metroSitesIdentityCheck_Run ::
    "kube_client \<Rightarrow> string \<Rightarrow> string \<Rightarrow> string list \<Rightarrow> check_result" where
  "metroSitesIdentityCheck_Run kc namespace field metroNames =
     (case kc_metro_sites kc namespace of
        Inl err \<Rightarrow>
          failCheckInternal field
            (''Failed to list NutanixMetroSite objects: '' @ api_error_text err @
             ''. This is usually a temporary error. Please retry.'') allowed_result
      | Inr items \<Rightarrow> fold (check_metro_sites field items) metroNames allowed_result)"

section \<open>Category names\<close>

definition prismCategoryValueMaxLen :: nat where
  "prismCategoryValueMaxLen = 64"

definition vhaDefaultMovementGroup :: string where
  "vhaDefaultMovementGroup = ''default''"

definition vhaDomainName :: "string \<Rightarrow> string \<Rightarrow> string" where
  "vhaDomainName clusterName metroName = clusterName @ ''-'' @ metroName"

definition vhaCategoryValue :: "string \<Rightarrow> string \<Rightarrow> nat \<Rightarrow> string" where
  "vhaCategoryValue vHADomainName grp idx =
     ''k8s-vha-capx-'' @ vHADomainName @ ''-'' @ grp @ ''-'' @ nat_digits idx"

definition check_category :: "string \<Rightarrow> string \<Rightarrow> string \<Rightarrow> check_result \<Rightarrow> check_result" where
  "check_category field clusterName metroName result =
     (let val = vhaCategoryValue (vhaDomainName clusterName metroName) vhaDefaultMovementGroup 0
      in if length val \<le> prismCategoryValueMaxLen then result
         else failCheck field
           (''Generated Prism Central category value '' @ quoted val @ '' is '' @
            nat_digits (length val) @ '' characters; Prism Central limits category values to '' @
            nat_digits prismCategoryValueMaxLen @ ''. CAPX names metro categories '' @
            ''k8s-vha-capx-{cluster}-{metro}-default-{idx} and does not hash or truncate them. '' @
            ''Shorten the Cluster name '' @ quoted clusterName @ '' or NutanixMetro name '' @
            quoted metroName @ '' and retry.'') result)"

definition metroVHACategoryNameCheck_Run :: "string \<Rightarrow> string \<Rightarrow> string list \<Rightarrow> check_result" where
  "metroVHACategoryNameCheck_Run field clusterName metroNames =
     fold (check_category field clusterName) metroNames allowed_result"

section \<open>One metro for each Cluster\<close>

definition singleMetroCheck_Run :: "string \<Rightarrow> string list \<Rightarrow> check_result" where
  "singleMetroCheck_Run field metroNames =
     (if 1 < length metroNames then
        failCheck field
          (''A Cluster may reference at most one NutanixMetro, but it references '' @
           nat_digits (length metroNames) @ '': '' @ join_with '', '' (sort metroNames) @
           ''. Control Plane and Worker nodes in a metro configuration must span exactly two '' @
           ''Prism Elements from a single NutanixMetro.'') allowed_result
      else allowed_result)"

section \<open>The Prism Elements of the Cluster\<close>

definition metroPrismElementCount :: nat where
  "metroPrismElementCount = 2"

text \<open>
  The fields that the scale, hosting and latency checks have in common.
\<close>

record span_check =
  spc_names :: "string list"
  spc_namespace :: string
  spc_field :: string
  spc_kclient :: kube_client
  spc_nclient :: nclient
  spc_err :: "string option"

definition failureDomainPrismElementUUID ::
    "kube_client \<Rightarrow> nclient \<Rightarrow> string \<Rightarrow> string \<Rightarrow> (string + string) outcome" where
  "failureDomainPrismElementUUID kc nc namespace fdName =
     (case kc_failure_domain kc namespace fdName of
        Inl err \<Rightarrow>
          Returns (Inl (''failed to get NutanixFailureDomain '' @ quoted fdName @ '': '' @
            api_error_text err))
      | Inr fdObj \<Rightarrow>
          let peIdentifier = fd_pe_cluster fdObj
          in bind_outcome (getClusters nc (Some peIdentifier)) (\<lambda>res. Returns (
            case res of
              Inl err \<Rightarrow>
                Inl (''failed to get Prism Element cluster '' @ quoted (id_String peIdentifier) @
                  '': '' @ err)
            | Inr peClusters \<Rightarrow>
                if length peClusters \<noteq> 1 then
                  Inl (''found '' @ nat_digits (length peClusters) @
                    '' Prism Element cluster(s) matching identifier '' @
                    quoted (id_String peIdentifier) @ '', expected exactly 1'')
                else (case pe_ext_id (hd peClusters) of
                        None \<Rightarrow>
                          Inl (''no ExtId returned for Prism Element cluster '' @
                            quoted (id_String peIdentifier))
                      | Some uuid \<Rightarrow> Inr uuid))))"

text \<open>
  The loops of the three checks resolve the failure domains in order and stop at the first
  that does not resolve.  \<open>resolve_span\<close> is that loop, with the failure of the check.
\<close>

fun resolve_span ::
    "(string \<Rightarrow> (string + string) outcome) \<Rightarrow> string list \<Rightarrow>
     ((string \<times> string) + string list) outcome" where
  "resolve_span resolve [] = Returns (Inr [])"
| "resolve_span resolve (fd # fds) =
     bind_outcome (resolve fd) (\<lambda>res.
       case res of
         Inl err \<Rightarrow> Returns (Inl (fd, err))
       | Inr uuid \<Rightarrow>
           bind_outcome (resolve_span resolve fds) (\<lambda>rest.
             Returns (map_sum id (\<lambda>us. uuid # us) rest)))"

definition span_resolver :: "span_check \<Rightarrow> string \<Rightarrow> (string + string) outcome" where
  "span_resolver c =
     failureDomainPrismElementUUID (spc_kclient c) (spc_nclient c) (spc_namespace c)"

definition span_unresolved :: "string \<Rightarrow> string \<Rightarrow> string \<times> string \<Rightarrow> check_result" where
  "span_unresolved usage field failure =
     (case failure of (fdName, err) \<Rightarrow>
        failCheckInternal field
          (''Failed to determine the Prism Element of Failure Domain '' @ quoted fdName @ usage @
           '': '' @ err @ ''. This is usually a temporary error. Please retry.'') allowed_result)"

definition clusterPrismElementScaleCheck_Run :: "span_check \<Rightarrow> check_result outcome" where
  "clusterPrismElementScaleCheck_Run c =
     (case spc_err c of
        Some errMessage \<Rightarrow>
          Returns (failCheck (spc_field c)
            (''Failed to determine the Prism Elements the Cluster spans: '' @ errMessage)
            allowed_result)
      | None \<Rightarrow>
          bind_outcome (resolve_span (span_resolver c) (spc_names c)) (\<lambda>res. Returns (
            case res of
              Inl failure \<Rightarrow> span_unresolved '' used by the Cluster'' (spc_field c) failure
            | Inr uuids \<Rightarrow>
                if card (set uuids) \<noteq> metroPrismElementCount then
                  failCheck (spc_field c)
                    (''The Cluster'' @ [CHR 0x27] @ ''s Control Plane and Worker nodes must '' @
                     ''span exactly '' @ nat_digits metroPrismElementCount @
                     '' distinct Prism Elements in a metro configuration, but they span '' @
                     nat_digits (card (set uuids)) @ '' across failure domains '' @
                     join_with '', '' (spc_names c) @
                     ''. Ensure all nodes are placed on the two Prism Elements of a single '' @
                     ''NutanixMetro.'') allowed_result
                else allowed_result)))"

fun hosting_loop ::
    "span_check \<Rightarrow> string \<Rightarrow> string list \<Rightarrow> check_result outcome" where
  "hosting_loop c hostingPEUUID [] = Returns allowed_result"
| "hosting_loop c hostingPEUUID (fdName # fds) =
     bind_outcome (span_resolver c fdName) (\<lambda>res.
       case res of
         Inl err \<Rightarrow> Returns (span_unresolved '' used for metro'' (spc_field c) (fdName, err))
       | Inr peUUID \<Rightarrow>
           if peUUID = hostingPEUUID then
             Returns (failCheck (spc_field c)
               (''Prism Central resides on Prism Element '' @ quoted hostingPEUUID @
                '', which is used for metro by Failure Domain '' @ quoted fdName @
                ''. Prism Central must not reside on either of the two Prism Elements used for '' @
                ''metro, so that a Prism Element failure does not take down Prism Central '' @
                ''together with half of the metro. Move Prism Central to a different Prism '' @
                ''Element and retry.'') allowed_result)
           else hosting_loop c hostingPEUUID fds)"

definition prismCentralMetroHostingCheck_Run :: "span_check \<Rightarrow> check_result outcome" where
  "prismCentralMetroHostingCheck_Run c =
     (case spc_err c of
        Some errMessage \<Rightarrow>
          Returns (failCheck (spc_field c)
            (''Failed to determine the Prism Elements used for metro: '' @ errMessage)
            allowed_result)
      | None \<Rightarrow>
     (case nc_hosting_cluster (spc_nclient c) of
        Inl err \<Rightarrow>
          Returns (failCheckInternal (spc_field c)
            (''Failed to determine the Prism Element hosting Prism Central: '' @ err @
             ''. This is usually a temporary error. Please retry.'') allowed_result)
      | Inr hostingPEUUID \<Rightarrow>
          if hostingPEUUID = [] then Returns allowed_result
          else hosting_loop c hostingPEUUID (spc_names c)))"

text \<open>The format \<open>%.2f\<close> of a non-negative number: rounded to nearest, ties to even.\<close>

definition round_half_even :: "rat \<Rightarrow> int" where
  "round_half_even r =
     (let f = \<lfloor>r\<rfloor>; d = r - of_int f
      in if d < 1 / 2 then f else if 1 / 2 < d then f + 1 else if even f then f else f + 1)"

definition fixed2 :: "rat \<Rightarrow> string" where
  "fixed2 r =
     (let n = nat (round_half_even (r * 100))
      in nat_digits (n div 100) @ ''.'' @ nat_digits (n div 10 mod 10) @ nat_digits (n mod 10))"

definition metroMaxRTTMillis :: rat where
  "metroMaxRTTMillis = 5"

definition metroReplicationLatencyCheck_Run :: "span_check \<Rightarrow> check_result outcome" where
  "metroReplicationLatencyCheck_Run c =
     (case spc_err c of
        Some errMessage \<Rightarrow>
          Returns (failCheck (spc_field c)
            (''Failed to determine the Prism Elements used for metro: '' @ errMessage)
            allowed_result)
      | None \<Rightarrow>
          bind_outcome (resolve_span (span_resolver c) (spc_names c)) (\<lambda>res. Returns (
            case res of
              Inl failure \<Rightarrow> span_unresolved '' used for metro'' (spc_field c) failure
            | Inr uuids \<Rightarrow>
                let peUUIDs = rev (remdups (rev uuids))
                in if length peUUIDs \<noteq> metroPrismElementCount then allowed_result
                   else case nc_rtt (spc_nclient c) (peUUIDs ! 0) (peUUIDs ! 1) of
                     Inl err \<Rightarrow>
                       failCheckInternal (spc_field c)
                         (''Failed to determine the network round-trip time between the Prism '' @
                          ''Elements used for metro: '' @ err @
                          ''. This is usually a temporary error. Please retry.'') allowed_result
                   | Inr None \<Rightarrow> allowed_result
                   | Inr (Some rttMillis) \<Rightarrow>
                       if metroMaxRTTMillis < rttMillis then
                         failCheck (spc_field c)
                           (''The network round-trip time between the two Prism Elements used '' @
                            ''for metro is '' @ fixed2 rttMillis @
                            ''ms, which exceeds the supported maximum of 5ms. Synchronous metro '' @
                            ''replication requires a round-trip time within 5ms. Use Prism '' @
                            ''Elements with lower network latency between them and retry.'')
                           allowed_result
                       else allowed_result)))"

section \<open>The metro itself\<close>

record metro_check =
  mc_metro :: string
  mc_namespace :: string
  mc_field :: string
  mc_kclient :: kube_client
  mc_nclient :: nclient
  mc_err :: "string option"

record subnet_attributes =
  sa_layers :: "string set"
  sa_vpcs :: "string set"
  sa_profiles :: "(string \<times> string set) list"

definition newMetroSubnetAttributes :: subnet_attributes where
  "newMetroSubnetAttributes = \<lparr>sa_layers = {}, sa_vpcs = {}, sa_profiles = []\<rparr>"

definition subnetLayerName :: "string option \<Rightarrow> string" where
  "subnetLayerName t = (case t of None \<Rightarrow> ''UNKNOWN'' | Some name \<Rightarrow> name)"

definition subnetProfileKey :: "subnet \<Rightarrow> string" where
  "subnetProfileKey s =
     subnetLayerName (sub_type s) @ ''|'' @
     (case sub_network_id s of None \<Rightarrow> [] | Some i \<Rightarrow> itoa i) @ ''|'' @
     (case sub_ip_prefix s of None \<Rightarrow> [] | Some p \<Rightarrow> p)"

definition add_profile ::
    "string \<Rightarrow> string \<Rightarrow> (string \<times> string set) list \<Rightarrow> (string \<times> string set) list" where
  "add_profile fdName profile ps =
     AList.update fdName
       (insert profile (case map_of ps fdName of None \<Rightarrow> {} | Some S \<Rightarrow> S)) ps"

definition record_subnet :: "string \<Rightarrow> string \<Rightarrow> subnet \<Rightarrow> subnet_attributes \<Rightarrow> subnet_attributes" where
  "record_subnet fdName peUUID s attrs =
     (if sub_cluster_ref s \<noteq> None \<and> sub_cluster_ref s \<noteq> Some peUUID then attrs
      else attrs\<lparr>
        sa_layers := insert (subnetLayerName (sub_type s)) (sa_layers attrs),
        sa_vpcs := (case sub_vpc_ref s of
            Some (c # cs) \<Rightarrow> insert (c # cs) (sa_vpcs attrs)
          | _ \<Rightarrow> sa_vpcs attrs),
        sa_profiles := add_profile fdName (subnetProfileKey s) (sa_profiles attrs)\<rparr>)"

text \<open>The loop stops at the first subnet reference that cannot be read.\<close>

fun collectSubnetAttributes ::
    "metro_check \<Rightarrow> string \<Rightarrow> string \<Rightarrow> resource_id list \<Rightarrow>
     subnet_attributes \<times> check_result \<Rightarrow> subnet_attributes \<times> check_result" where
  "collectSubnetAttributes mc fdName peUUID [] st = st"
| "collectSubnetAttributes mc fdName peUUID (i # ids) st =
     (case getSubnets (mc_nclient mc) i of
        Inl err \<Rightarrow>
          (fst st, failCheckInternal (mc_field mc)
            (''Failed to get subnet '' @ quoted (id_String i) @
             '' referenced by Failure Domain '' @ quoted fdName @ '' of NutanixMetro '' @
             quoted (mc_metro mc) @ '': '' @ err @
             ''. This is usually a temporary error. Please retry.'') (snd st))
      | Inr subnets \<Rightarrow>
          collectSubnetAttributes mc fdName peUUID ids
            (fold (record_subnet fdName peUUID) subnets (fst st), snd st))"

definition mc_getFailureDomain ::
    "metro_check \<Rightarrow> string \<Rightarrow> check_result \<Rightarrow> check_result + nutanix_failure_domain" where
  "mc_getFailureDomain mc fdName result =
     (case kc_failure_domain (mc_kclient mc) (mc_namespace mc) fdName of
        Inl (NotFound e) \<Rightarrow>
          Inl (failCheck (mc_field mc)
            (''NutanixFailureDomain '' @ quoted fdName @ '' referenced by NutanixMetro '' @
             quoted (mc_metro mc) @
             '' was not found in the management cluster. Please create it and retry.'') result)
      | Inl (OtherError e) \<Rightarrow>
          Inl (failCheckInternal (mc_field mc)
            (''Failed to get NutanixFailureDomain '' @ quoted fdName @
             '' referenced by NutanixMetro '' @ quoted (mc_metro mc) @ '': '' @ e @
             ''. This is usually a temporary error. Please retry.'') result)
      | Inr fdObj \<Rightarrow> Inr fdObj)"

text \<open>The UUID of the cluster that \<open>resolvePrismElement\<close> returns.\<close>

definition resolvePrismElement ::
    "metro_check \<Rightarrow> nutanix_failure_domain \<Rightarrow> string \<Rightarrow> check_result \<Rightarrow>
     (check_result + string) outcome" where
  "resolvePrismElement mc fdObj fdName result =
     (let peIdentifier = fd_pe_cluster fdObj;
          whence = '' referenced by Failure Domain '' @ quoted fdName @ '' of NutanixMetro '' @
            quoted (mc_metro mc)
      in bind_outcome (getClusters (mc_nclient mc) (Some peIdentifier)) (\<lambda>res. Returns (
        case res of
          Inl err \<Rightarrow>
            Inl (failCheckInternal (mc_field mc)
              (''Failed to check the Prism Element cluster '' @ quoted (id_String peIdentifier) @
               whence @ '': '' @ err @ ''. This is usually a temporary error. Please retry.'') result)
        | Inr peClusters \<Rightarrow>
            if length peClusters \<noteq> 1 then
              Inl (failCheck (mc_field mc)
                (''Found '' @ nat_digits (length peClusters) @
                 '' Prism Element cluster(s) that match identifier '' @
                 quoted (id_String peIdentifier) @ whence @
                 ''. There must be exactly 1 Cluster that matches this identifier.'') result)
            else (case pe_ext_id (hd peClusters) of
                    None \<Rightarrow>
                      Inl (failCheckInternal (mc_field mc)
                        (''The Prism Element cluster '' @ quoted (id_String peIdentifier) @ whence @
                         '' was returned without an ExtId. This is usually a temporary error. '' @
                         ''Please retry.'') result)
                  | Some peUUID \<Rightarrow> Inr peUUID))))"

type_synonym metro_state = "string set \<times> subnet_attributes \<times> check_result"

definition evaluate_failure_domain ::
    "metro_check \<Rightarrow> string \<Rightarrow> metro_state \<Rightarrow> metro_state outcome" where
  "evaluate_failure_domain mc fdName st =
     (case st of (peUUIDs, attrs, result) \<Rightarrow>
        if fdName = [] then Returns st
        else case mc_getFailureDomain mc fdName result of
          Inl result' \<Rightarrow> Returns (peUUIDs, attrs, result')
        | Inr fdObj \<Rightarrow>
            bind_outcome (resolvePrismElement mc fdObj fdName result) (\<lambda>res. Returns (
              case res of
                Inl result' \<Rightarrow> (peUUIDs, attrs, result')
              | Inr peUUID \<Rightarrow>
                  (insert peUUID peUUIDs,
                   collectSubnetAttributes mc fdName peUUID (fd_subnets fdObj)
                     (attrs, result)))))"

definition evaluateFailureDomains ::
    "metro_check \<Rightarrow> string list \<Rightarrow> check_result \<Rightarrow> metro_state outcome" where
  "evaluateFailureDomains mc fds result =
     fold_outcome (evaluate_failure_domain mc) fds ({}, newMetroSubnetAttributes, result)"

definition stringSetEqual :: "string set \<Rightarrow> string set \<Rightarrow> bool" where
  "stringSetEqual a b \<longleftrightarrow> card a = card b \<and> a \<subseteq> b"

fun equal_profiles_loop :: "string set option \<Rightarrow> string set list \<Rightarrow> bool" where
  "equal_profiles_loop baseline [] = True"
| "equal_profiles_loop None (p # ps) = equal_profiles_loop (Some p) ps"
| "equal_profiles_loop (Some b) (p # ps) =
     (if \<not> stringSetEqual b p then False else equal_profiles_loop (Some b) ps)"

definition equalSubnetProfileSets :: "(string \<times> string set) list \<Rightarrow> bool" where
  "equalSubnetProfileSets profilesByFD = equal_profiles_loop None (map snd profilesByFD)"

definition checkSubnetConsistency ::
    "metro_check \<Rightarrow> subnet_attributes \<Rightarrow> check_result \<Rightarrow> check_result" where
  "checkSubnetConsistency mc attrs result =
     (if sa_layers attrs = {} then result
      else if sa_vpcs attrs \<noteq> {} then
        failCheck (mc_field mc)
          (''VPC-backed subnets are not supported for NKP Metro cluster. NutanixMetro '' @
           quoted (mc_metro mc) @ '' uses VPC reference(s): '' @
           join_with '', '' (sorted_keys (sa_vpcs attrs)) @ ''. Use non-VPC subnets and retry.'')
          result
      else if 1 < card (sa_layers attrs) then
        failCheck (mc_field mc)
          (''Subnets across the failure domains of NutanixMetro '' @ quoted (mc_metro mc) @
           '' reside on multiple network layers ('' @
           join_with '', '' (sorted_keys (sa_layers attrs)) @
           ''). All subnets must reside on the same network layer (either VLAN-tagged or '' @
           ''Overlay) to support synchronous metro replication.'') result
      else
        let layer = hd (sorted_keys (sa_layers attrs))
        in if layer \<noteq> subnetLayerName (Some ''VLAN'') \<and> layer \<noteq> subnetLayerName (Some ''OVERLAY'')
           then failCheck (mc_field mc)
             (''Subnets of NutanixMetro '' @ quoted (mc_metro mc) @
              '' reside on an unsupported network layer '' @ quoted layer @
              ''. Metro configurations support only VLAN-tagged or Overlay subnets.'') result
           else if \<not> equalSubnetProfileSets (sa_profiles attrs) then
             failCheck (mc_field mc)
               (''Subnets across the failure domains of NutanixMetro '' @ quoted (mc_metro mc) @
                '' do not match. Each failure domain must expose the same set of subnet '' @
                ''profiles (layer, VLAN ID/VNI, CIDR) to support synchronous metro replication.'')
               result
           else result)"

definition getMetro :: "metro_check \<Rightarrow> check_result \<Rightarrow> check_result + nutanix_metro" where
  "getMetro mc result =
     (case kc_metro (mc_kclient mc) (mc_namespace mc) (mc_metro mc) of
        Inl (NotFound e) \<Rightarrow>
          Inl (failCheck (mc_field mc)
            (''NutanixMetro '' @ quoted (mc_metro mc) @
             '' was not found in the management cluster. Please create it and retry.'') result)
      | Inl (OtherError e) \<Rightarrow>
          Inl (failCheckInternal (mc_field mc)
            (''Failed to get NutanixMetro '' @ quoted (mc_metro mc) @ '': '' @ e @
             ''. This is usually a temporary error. Please retry.'') result)
      | Inr metro \<Rightarrow> Inr metro)"

text \<open>The guardrails, once every failure domain is evaluated.\<close>

fun metro_verdict :: "metro_check \<Rightarrow> metro_state \<Rightarrow> check_result" where
  "metro_verdict mc (peUUIDs, attrs, result) =
     (if \<not> Allowed result then result
      else checkSubnetConsistency mc attrs
        (if card peUUIDs \<noteq> metroPrismElementCount then
           failCheck (mc_field mc)
             (''NutanixMetro '' @ quoted (mc_metro mc) @ '' must span exactly '' @
              nat_digits metroPrismElementCount @
              '' distinct Prism Elements, but its failure domains resolve to '' @
              nat_digits (card peUUIDs) @
              ''. Control Plane and Worker nodes in a metro configuration must span '' @
              ''exactly two Prism Elements.'') result
         else result))"

definition metroCheck_Run :: "metro_check \<Rightarrow> check_result outcome" where
  "metroCheck_Run mc =
     (case mc_err mc of
        Some errMessage \<Rightarrow>
          Returns (failCheck (mc_field mc)
            (''Failed to check NutanixMetro '' @ quoted (mc_metro mc) @ '': '' @ errMessage)
            allowed_result)
      | None \<Rightarrow>
     (case getMetro mc allowed_result of
        Inl result \<Rightarrow> Returns result
      | Inr metroObj \<Rightarrow>
          bind_outcome (evaluateFailureDomains mc (metro_fds metroObj) allowed_result)
            (\<lambda>st. Returns (metro_verdict mc st))))"

section \<open>Which checks are made\<close>

definition metro_named :: "check_result outcome \<Rightarrow> check" where
  "metro_named r = \<lparr>check_name = ''NutanixMetro'', check_run = r\<rparr>"

definition metro_check_for ::
    "check_dependencies \<Rightarrow> nclient \<Rightarrow> metro_reference \<Rightarrow> metro_check" where
  "metro_check_for cd nc r =
     \<lparr>mc_metro = ref_metro r, mc_namespace = cl_namespace (cd_cluster cd), mc_field = ref_field r,
      mc_kclient = cd_kclient cd, mc_nclient = nc, mc_err = ref_err r\<rparr>"

definition resolved_references :: "metro_reference list \<Rightarrow> metro_reference list" where
  "resolved_references refs = filter (\<lambda>r. ref_err r = None) refs"

definition newMetroChecks :: "check_dependencies \<Rightarrow> check list" where
  "newMetroChecks cd =
     (case cd_nclient cd of
        None \<Rightarrow> []
      | Some nc \<Rightarrow>
          if cd_pc_version cd = [] then []
          else
            let refs = referencedMetros cd;
                ns = cl_namespace (cd_cluster cd);
                resolved = resolved_references refs;
                metroNames = map ref_metro resolved;
                firstField = (case filter (\<lambda>f. f \<noteq> []) (map ref_field resolved) of
                                [] \<Rightarrow> [] | f # _ \<Rightarrow> f);
                (fdNames, errMessage) = clusterFailureDomainNames cd;
                span = \<lparr>spc_names = fdNames, spc_namespace = ns, spc_field = firstField,
                        spc_kclient = cd_kclient cd, spc_nclient = nc, spc_err = errMessage\<rparr>
            in map (\<lambda>r. metro_named (metroCheck_Run (metro_check_for cd nc r))) refs @
               (if 1 < length metroNames
                then [metro_named (Returns (singleMetroCheck_Run firstField metroNames))] else []) @
               (if metroNames = [] then []
                else [metro_named (clusterPrismElementScaleCheck_Run span),
                      metro_named (prismCentralMetroHostingCheck_Run span),
                      metro_named (metroReplicationLatencyCheck_Run span),
                      metro_named (Returns (allNodePoolsMetroCheck_Run (clusterNodePools cd))),
                      metro_named (Returns (metroSitesIdentityCheck_Run (cd_kclient cd) ns
                        firstField metroNames)),
                      metro_named (Returns (metroVHACategoryNameCheck_Run firstField
                        (cl_name (cd_cluster cd)) metroNames))]))"

section \<open>What the simple checks deny\<close>

interpretation pool_domains: check_loop "check_pool_domain np" "\<lambda>fd. \<not> is_metro_reference fd" for np
  by unfold_locales (auto simp: check_pool_domain_def verdict_simps)

definition pool_on_metro :: "node_pool \<Rightarrow> bool" where
  "pool_on_metro np \<longleftrightarrow>
     np_failure_domains np \<noteq> [] \<and> (\<forall>fd \<in> set (np_failure_domains np). is_metro_reference fd)"

interpretation pools: check_loop check_pool "\<lambda>np. \<not> pool_on_metro np"
proof unfold_locales
  fix np r
  show "Allowed (check_pool np r) \<longleftrightarrow> Allowed r \<and> \<not> \<not> pool_on_metro np"
    by (auto simp: check_pool_def pool_on_metro_def verdict_simps pool_domains.allowed_loop)
  show "\<exists>cs. Causes (check_pool np r) = Causes r @ cs \<and> (cs = [] \<longleftrightarrow> \<not> \<not> pool_on_metro np)"
    using pool_domains.causes_loop_exact [of np "np_failure_domains np" r]
    by (auto simp: check_pool_def pool_on_metro_def verdict_simps)
  show "InternalError (check_pool np r) \<longrightarrow> InternalError r \<or> \<not> pool_on_metro np"
    using pool_domains.internal_loop(1) [of np "np_failure_domains np" r]
    by (auto simp: check_pool_def pool_on_metro_def verdict_simps)
  show "InternalError r \<longrightarrow> InternalError (check_pool np r)"
    using pool_domains.internal_loop(2) [of r np "np_failure_domains np"]
    by (auto simp: check_pool_def verdict_simps)
qed

lemma category_length:
  "length (vhaCategoryValue (vhaDomainName c m) vhaDefaultMovementGroup 0) = length c + length m + 24"
  by (simp add: vhaCategoryValue_def vhaDomainName_def vhaDefaultMovementGroup_def
      nat_digits.simps [of 0])

interpretation categories: check_loop "check_category field c" "\<lambda>m. 40 < length c + length m"
  for field c
  by unfold_locales
    (auto simp: check_category_def Let_def verdict_simps category_length prismCategoryValueMaxLen_def)

text \<open>The values that are set differ from site to site, and from those seen before.\<close>

definition set_values :: "(metro_site_identity \<Rightarrow> string) \<Rightarrow> metro_site_identity list \<Rightarrow> string list" where
  "set_values val sites = filter (\<lambda>v. v \<noteq> []) (map val sites)"

definition fresh_values :: "string list \<Rightarrow> (string \<rightharpoonup> string) \<Rightarrow> bool" where
  "fresh_values vs seen \<longleftrightarrow> distinct vs \<and> set vs \<inter> dom seen = {}"

lemma fresh_values_Cons:
  "fresh_values (v # vs) seen \<longleftrightarrow> seen v = None \<and> fresh_values vs (seen(v \<mapsto> n))"
  by (auto simp: fresh_values_def)

lemma set_values_Cons:
  "set_values val (s # ss) = (if val s = [] then set_values val ss else val s # set_values val ss)"
  by (simp add: set_values_def)

lemma report_duplicates_fields:
  "(Allowed (report_duplicates field m val f sites seen r) \<longleftrightarrow>
      Allowed r \<and> fresh_values (set_values val sites) seen) \<and>
   (\<exists>cs. Causes (report_duplicates field m val f sites seen r) = Causes r @ cs \<and>
      (cs = [] \<longleftrightarrow> fresh_values (set_values val sites) seen)) \<and>
   InternalError (report_duplicates field m val f sites seen r) = InternalError r"
proof (induction sites arbitrary: seen r)
  case Nil
  then show ?case by (simp add: set_values_def fresh_values_def)
next
  case (Cons site sites)
  show ?case
  proof (cases "val site = []")
    case True
    then show ?thesis using Cons.IH [of seen r] by (simp add: Let_def set_values_Cons)
  next
    case set: False
    note step = fresh_values_Cons [of "val site" "set_values val sites" seen "msi_name site"]
    show ?thesis
    proof (cases "seen (val site)")
      case None
      with set show ?thesis
        using Cons.IH [of "seen(val site \<mapsto> msi_name site)" r]
        by (simp add: Let_def set_values_Cons step del: fun_upd_apply)
    next
      case (Some other)
      define r' where "r' = failCheck field
         (''NutanixMetroSite '' @ quoted other @ '' and '' @ quoted (msi_name site) @
          '' of NutanixMetro '' @ quoted m @ '' share '' @ f @ '' '' @ quoted (val site) @
          ''. Each metro site must have a distinct '' @ f @
          '' so that sites pin to different Prism Elements and topology segments. '' @
          ''Use a unique '' @ f @ '' per site and retry.'') r"
      have "report_duplicates field m val f (site # sites) seen r =
          report_duplicates field m val f sites seen r'"
        using set Some by (simp add: Let_def r'_def)
      moreover have "\<not> Allowed r'" "\<exists>c. Causes r' = Causes r @ [c]" "InternalError r' = InternalError r"
        by (simp_all add: r'_def verdict_simps)
      ultimately show ?thesis
        using Cons.IH [of seen r'] set Some by (auto simp: set_values_Cons step)
    qed
  qed
qed

definition sites_distinct :: "metro_site_identity list \<Rightarrow> bool" where
  "sites_distinct sites \<longleftrightarrow>
     distinct (set_values msi_preferred_fd sites) \<and> distinct (set_values msi_group_label sites)"

interpretation metro_sites: check_loop "check_metro_sites field items"
    "\<lambda>m. \<not> sites_distinct (sites_of_metro items m)" for field items
proof unfold_locales
  fix m r
  let ?s = "sites_of_metro items m"
  let ?r1 = "report_duplicates field m msi_preferred_fd ''preferredFailureDomain'' ?s Map.empty r"
  have unfolded: "check_metro_sites field items m r =
      report_duplicates field m msi_group_label ''groupNameLabel'' ?s Map.empty ?r1"
    by (simp add: check_metro_sites_def Let_def reportDuplicateSiteField_def)
  show "Allowed (check_metro_sites field items m r) \<longleftrightarrow> Allowed r \<and> \<not> \<not> sites_distinct ?s"
    using report_duplicates_fields by (auto simp: unfolded fresh_values_def sites_distinct_def)
  show "\<exists>cs. Causes (check_metro_sites field items m r) = Causes r @ cs \<and>
      (cs = [] \<longleftrightarrow> \<not> \<not> sites_distinct ?s)"
    unfolding unfolded
    using report_duplicates_fields
        [of field m msi_group_label "''groupNameLabel''" ?s Map.empty ?r1]
      report_duplicates_fields
        [of field m msi_preferred_fd "''preferredFailureDomain''" ?s Map.empty r]
    by (auto simp: fresh_values_def sites_distinct_def)
  show "InternalError (check_metro_sites field items m r) \<longrightarrow> InternalError r \<or> \<not> sites_distinct ?s"
    "InternalError r \<longrightarrow> InternalError (check_metro_sites field items m r)"
    using report_duplicates_fields by (simp_all add: unfolded)
qed

section \<open>Resolving the Prism Elements\<close>

definition resolves_to :: "kube_client \<Rightarrow> nclient \<Rightarrow> string \<Rightarrow> string \<Rightarrow> string \<Rightarrow> bool" where
  "resolves_to kc nc ns fd u \<longleftrightarrow> failureDomainPrismElementUUID kc nc ns fd = Returns (Inr u)"

lemma resolves_to_iff:
  "resolves_to kc nc ns fd u \<longleftrightarrow>
     (\<exists>obj c. kc_failure_domain kc ns fd = Inr obj \<and>
        getClusters nc (Some (fd_pe_cluster obj)) = Returns (Inr [c]) \<and> pe_ext_id c = Some u)"
proof (cases "kc_failure_domain kc ns fd")
  case (Inl e)
  then show ?thesis by (simp add: resolves_to_def failureDomainPrismElementUUID_def)
next
  case (Inr obj)
  show ?thesis
  proof (cases "\<exists>c. getClusters nc (Some (fd_pe_cluster obj)) = Returns (Inr [c])")
    case True
    then obtain c where "getClusters nc (Some (fd_pe_cluster obj)) = Returns (Inr [c])" by blast
    with Inr show ?thesis
      by (cases "pe_ext_id c") (auto simp: resolves_to_def failureDomainPrismElementUUID_def)
  next
    case False
    with Inr show ?thesis
      by (cases "getClusters nc (Some (fd_pe_cluster obj))")
        (auto simp: resolves_to_def failureDomainPrismElementUUID_def length_one_iff Let_def
          split: sum.splits)
  qed
qed

lemma resolve_span_Inr:
  "resolve_span resolve fds = Returns (Inr us) \<longleftrightarrow>
     list_all2 (\<lambda>fd u. resolve fd = Returns (Inr u)) fds us"
proof (induction fds arbitrary: us)
  case Nil
  then show ?case by auto
next
  case (Cons fd fds)
  show ?case
  proof (cases "\<exists>u. resolve fd = Returns (Inr u)")
    case True
    then obtain u where u: "resolve fd = Returns (Inr u)" by blast
    have "resolve_span resolve (fd # fds) = Returns (Inr us) \<longleftrightarrow>
        (\<exists>vs. resolve_span resolve fds = Returns (Inr vs) \<and> us = u # vs)"
      using u by (cases "resolve_span resolve fds")
        (auto split: sum.splits simp: map_sum_def)
    then show ?thesis using u by (auto simp: Cons.IH list_all2_Cons1)
  next
    case False
    then have "resolve_span resolve (fd # fds) \<noteq> Returns (Inr us)"
      by (cases "resolve fd") (auto split: sum.splits)
    with False show ?thesis by (auto simp: list_all2_Cons1)
  qed
qed

lemma span_unresolved_denies:
  "\<not> Allowed (span_unresolved usage field f)" "explained (span_unresolved usage field f)"
  by (auto simp: span_unresolved_def verdict_simps split: prod.splits)

lemma scale_check_allowed:
  assumes "clusterPrismElementScaleCheck_Run c = Returns r"
  shows "(Allowed r \<longleftrightarrow> spc_err c = None \<and>
      (\<exists>us. list_all2 (resolves_to (spc_kclient c) (spc_nclient c) (spc_namespace c)) (spc_names c) us \<and>
         card (set us) = 2)) \<and> explained r"
proof (cases "spc_err c")
  case (Some e)
  with assms show ?thesis
    by (auto simp: clusterPrismElementScaleCheck_Run_def verdict_simps)
next
  case None
  with assms obtain res where
    res: "resolve_span (span_resolver c) (spc_names c) = Returns res"
    by (auto simp: clusterPrismElementScaleCheck_Run_def outcome_simps)
  note [simp] = clusterPrismElementScaleCheck_Run_def span_unresolved_denies metroPrismElementCount_def
  show ?thesis
  proof (cases res)
    case (Inl f)
    with assms None res have "r = span_unresolved '' used by the Cluster'' (spc_field c) f" by simp
    moreover have "\<nexists>us. list_all2 (resolves_to (spc_kclient c) (spc_nclient c) (spc_namespace c))
        (spc_names c) us"
      using res Inl resolve_span_Inr [of "span_resolver c" "spc_names c"]
      by (simp add: resolves_to_def [abs_def] span_resolver_def)
    ultimately show ?thesis by auto
  next
    case (Inr us)
    then have us: "list_all2 (resolves_to (spc_kclient c) (spc_nclient c) (spc_namespace c))
        (spc_names c) us"
      using res resolve_span_Inr [of "span_resolver c" "spc_names c" us]
      by (simp add: resolves_to_def [abs_def] span_resolver_def)
    moreover have "us' = us" if "list_all2 (resolves_to (spc_kclient c) (spc_nclient c)
        (spc_namespace c)) (spc_names c) us'" for us'
      using res Inr that resolve_span_Inr [of "span_resolver c" "spc_names c" us']
      by (simp add: resolves_to_def [abs_def] span_resolver_def)
    moreover have "Allowed r \<longleftrightarrow> card (set us) = 2" "explained r"
      using assms None res Inr by (auto simp: verdict_simps split: if_splits)
    ultimately show ?thesis using None by blast
  qed
qed

lemma hosting_loop_allowed:
  "hosting_loop c h fds = Returns r \<Longrightarrow>
     (Allowed r \<longleftrightarrow> (\<forall>fd \<in> set fds. \<exists>u. span_resolver c fd = Returns (Inr u) \<and> u \<noteq> h)) \<and> explained r"
proof (induction fds arbitrary: r)
  case Nil
  then show ?case by simp
next
  case (Cons fd fds)
  then obtain res where res: "span_resolver c fd = Returns res" by (auto simp: outcome_simps)
  with Cons show ?case
    by (cases res) (auto simp: span_unresolved_denies verdict_simps split: if_splits)
qed

section \<open>What a metro must look like\<close>

text \<open>The subnets that a failure domain of the metro shows on its Prism Element.\<close>

definition domain_subnets :: "metro_check \<Rightarrow> string \<Rightarrow> subnet set" where
  "domain_subnets mc fd =
     {s. \<exists>obj u i ss. kc_failure_domain (mc_kclient mc) (mc_namespace mc) fd = Inr obj \<and>
           resolves_to (mc_kclient mc) (mc_nclient mc) (mc_namespace mc) fd u \<and>
           i \<in> set (fd_subnets obj) \<and> getSubnets (mc_nclient mc) i = Inr ss \<and> s \<in> set ss \<and>
           subnet_on_cluster u s}"

definition profiles_of :: "(string \<times> subnet) set \<Rightarrow> string \<Rightarrow> string set" where
  "profiles_of X fd = subnetProfileKey ` {s. (fd, s) \<in> X}"

text \<open>The attributes describe a set of observed subnets.\<close>

definition attributes_match :: "subnet_attributes \<Rightarrow> (string \<times> subnet) set \<Rightarrow> bool" where
  "attributes_match ats X \<longleftrightarrow>
     finite X \<and>
     sa_layers ats = (\<lambda>(fd, s). subnetLayerName (sub_type s)) ` X \<and>
     sa_vpcs ats = {v. v \<noteq> [] \<and> (\<exists>fd s. (fd, s) \<in> X \<and> sub_vpc_ref s = Some v)} \<and>
     (\<forall>fd. map_of (sa_profiles ats) fd =
        (if \<exists>s. (fd, s) \<in> X then Some (profiles_of X fd) else None)) \<and>
     distinct (map fst (sa_profiles ats))"

lemma attributes_match_empty: "attributes_match newMetroSubnetAttributes {}"
  by (simp add: attributes_match_def newMetroSubnetAttributes_def)

lemma profiles_of_insert:
  "profiles_of (insert (fd, s) X) g =
     (if g = fd then insert (subnetProfileKey s) (profiles_of X g) else profiles_of X g)"
  by (auto simp: profiles_of_def)

lemma profiles_of_none: "\<nexists>s. (fd, s) \<in> X \<Longrightarrow> profiles_of X fd = {}"
  by (auto simp: profiles_of_def)

lemma map_of_add_profile:
  assumes "\<forall>g. map_of ps g = (if \<exists>s. (g, s) \<in> X then Some (profiles_of X g) else None)"
  shows "map_of (add_profile fd (subnetProfileKey s) ps) g =
    (if \<exists>s'. (g, s') \<in> insert (fd, s) X then Some (profiles_of (insert (fd, s) X) g) else None)"
  using assms profiles_of_none [of fd X]
  by (auto simp: add_profile_def update_conv profiles_of_insert split: option.splits)

lemma attributes_match_record:
  assumes "attributes_match ats X"
  shows "attributes_match (record_subnet fd u s ats)
    (if subnet_on_cluster u s then insert (fd, s) X else X)"
proof (cases "subnet_on_cluster u s")
  case False
  then have "record_subnet fd u s ats = ats"
    by (auto simp: record_subnet_def subnet_on_cluster_def)
  with False assms show ?thesis by simp
next
  case True
  then have r: "record_subnet fd u s ats = ats\<lparr>
        sa_layers := insert (subnetLayerName (sub_type s)) (sa_layers ats),
        sa_vpcs := (case sub_vpc_ref s of
            Some (c # cs) \<Rightarrow> insert (c # cs) (sa_vpcs ats)
          | _ \<Rightarrow> sa_vpcs ats),
        sa_profiles := add_profile fd (subnetProfileKey s) (sa_profiles ats)\<rparr>"
    by (auto simp: record_subnet_def subnet_on_cluster_def)
  have profiles: "map_of (sa_profiles ats) g =
      (if \<exists>s. (g, s) \<in> X then Some (profiles_of X g) else None)" for g
    using assms by (simp add: attributes_match_def)
  have "distinct (map fst (add_profile fd (subnetProfileKey s) (sa_profiles ats)))"
    using assms by (simp add: attributes_match_def add_profile_def distinct_update)
  moreover have "(case sub_vpc_ref s of
            Some (c # cs) \<Rightarrow> insert (c # cs) (sa_vpcs ats)
          | _ \<Rightarrow> sa_vpcs ats) =
      {v. v \<noteq> [] \<and> (\<exists>g t. (g, t) \<in> insert (fd, s) X \<and> sub_vpc_ref t = Some v)}"
    using assms by (auto simp: attributes_match_def split: option.splits list.splits)
  moreover note map_of_add_profile [of "sa_profiles ats" X fd s] profiles
  ultimately show ?thesis
    using True assms unfolding attributes_match_def r by auto
qed

lemma attributes_match_fold:
  "attributes_match ats X \<Longrightarrow>
     attributes_match (fold (record_subnet fd u) ss ats)
       (X \<union> {(fd, s) |s. s \<in> set ss \<and> subnet_on_cluster u s})"
proof (induction ss arbitrary: ats X)
  case Nil
  then show ?case by simp
next
  case (Cons s ss)
  have "(if subnet_on_cluster u s then insert (fd, s) X else X) \<union>
      {(fd, t) |t. t \<in> set ss \<and> subnet_on_cluster u t} =
      X \<union> {(fd, t) |t. t \<in> set (s # ss) \<and> subnet_on_cluster u t}"
    by auto
  with Cons.IH [OF attributes_match_record [OF Cons.prems, of fd u s]] show ?case by simp
qed

lemma collect_allowed:
  assumes "collectSubnetAttributes mc fd u ids (ats, r) = (ats', r')" "Allowed r'"
    "attributes_match ats X"
  shows "r' = r \<and> (\<forall>i \<in> set ids. \<exists>ss. getSubnets (mc_nclient mc) i = Inr ss) \<and>
    attributes_match ats' (X \<union> {(fd, s) |s. \<exists>i ss. i \<in> set ids \<and>
      getSubnets (mc_nclient mc) i = Inr ss \<and> s \<in> set ss \<and> subnet_on_cluster u s})"
  using assms
proof (induction ids arbitrary: ats X)
  case Nil
  then show ?case by simp
next
  case (Cons i ids)
  show ?case
  proof (cases "getSubnets (mc_nclient mc) i")
    case (Inl err)
    with Cons.prems show ?thesis by (auto simp: verdict_simps)
  next
    case (Inr ss)
    let ?X = "X \<union> {(fd, s) |s. s \<in> set ss \<and> subnet_on_cluster u s}"
    have "?X \<union> {(fd, s) |s. \<exists>j ss. j \<in> set ids \<and> getSubnets (mc_nclient mc) j = Inr ss \<and>
          s \<in> set ss \<and> subnet_on_cluster u s} =
        X \<union> {(fd, s) |s. \<exists>j ss. j \<in> set (i # ids) \<and> getSubnets (mc_nclient mc) j = Inr ss \<and>
          s \<in> set ss \<and> subnet_on_cluster u s}"
      using Inr by auto
    moreover have "collectSubnetAttributes mc fd u ids
        (fold (record_subnet fd u) ss ats, r) = (ats', r')"
      using Cons.prems(1) Inr by simp
    note Cons.IH [OF this Cons.prems(2) attributes_match_fold [OF Cons.prems(3)]]
    ultimately show ?thesis using Inr by simp
  qed
qed

lemma collect_denied:
  "\<not> Allowed r \<Longrightarrow> \<not> Allowed (snd (collectSubnetAttributes mc fd u ids (ats, r)))"
  by (induction ids arbitrary: ats) (auto simp: verdict_simps split: sum.splits)

lemma resolvePrismElement_resolves:
  assumes "mc_getFailureDomain mc fd r = Inr obj"
  shows "resolvePrismElement mc obj fd r = Returns (Inr u) \<longleftrightarrow>
    resolves_to (mc_kclient mc) (mc_nclient mc) (mc_namespace mc) fd u"
proof -
  have obj: "kc_failure_domain (mc_kclient mc) (mc_namespace mc) fd = Inr obj"
    using assms by (auto simp: mc_getFailureDomain_def split: sum.splits api_error.splits)
  show ?thesis
  proof (cases "\<exists>c. getClusters (mc_nclient mc) (Some (fd_pe_cluster obj)) = Returns (Inr [c])")
    case True
    then obtain c where "getClusters (mc_nclient mc) (Some (fd_pe_cluster obj)) = Returns (Inr [c])"
      by blast
    with obj show ?thesis
      by (cases "pe_ext_id c") (auto simp: resolvePrismElement_def resolves_to_iff Let_def)
  next
    case False
    with obj show ?thesis
      by (cases "getClusters (mc_nclient mc) (Some (fd_pe_cluster obj))")
        (auto simp: resolvePrismElement_def resolves_to_iff Let_def length_one_iff
          split: sum.splits)
  qed
qed

lemma resolvePrismElement_denies:
  "resolvePrismElement mc obj fd r = Returns (Inl r') \<Longrightarrow> \<not> Allowed r'"
  by (cases "getClusters (mc_nclient mc) (Some (fd_pe_cluster obj))")
    (auto simp: resolvePrismElement_def Let_def verdict_simps
      split: sum.splits if_splits option.splits)

lemma mc_getFailureDomain_denies:
  "mc_getFailureDomain mc fd r = Inl r' \<Longrightarrow> \<not> Allowed r'"
  by (auto simp: mc_getFailureDomain_def verdict_simps split: sum.splits api_error.splits)

text \<open>The subnets observed after some of the failure domains.\<close>

definition observed :: "metro_check \<Rightarrow> string list \<Rightarrow> (string \<times> subnet) set" where
  "observed mc fds = {(fd, s). fd \<in> set fds \<and> fd \<noteq> [] \<and> s \<in> domain_subnets mc fd}"

lemma evaluate_failure_domain_allowed:
  assumes "evaluate_failure_domain mc fd (S, ats, r) = Returns (S', ats', r')" "Allowed r'"
    "attributes_match ats X"
  shows "Allowed r \<and>
    (if fd = [] then S' = S \<and> ats' = ats
     else (\<exists>u. resolves_to (mc_kclient mc) (mc_nclient mc) (mc_namespace mc) fd u \<and>
              S' = insert u S) \<and>
          attributes_match ats' (X \<union> {(fd, s) |s. s \<in> domain_subnets mc fd}))"
proof (cases "fd = []")
  case True
  with assms show ?thesis by (simp add: evaluate_failure_domain_def)
next
  case False
  show ?thesis
  proof (cases "mc_getFailureDomain mc fd r")
    case (Inl rr)
    with False assms mc_getFailureDomain_denies [OF Inl] show ?thesis
      by (simp add: evaluate_failure_domain_def)
  next
    case (Inr obj)
    then have obj: "kc_failure_domain (mc_kclient mc) (mc_namespace mc) fd = Inr obj"
      by (auto simp: mc_getFailureDomain_def split: sum.splits api_error.splits)
    from False assms(1) Inr obtain res where res: "resolvePrismElement mc obj fd r = Returns res"
      by (auto simp: evaluate_failure_domain_def outcome_simps)
    show ?thesis
    proof (cases res)
      case (Inl rr)
      with False assms Inr res resolvePrismElement_denies [of mc obj fd r rr] show ?thesis
        by (simp add: evaluate_failure_domain_def)
    next
      case u: (Inr u)
      then have ru: "resolves_to (mc_kclient mc) (mc_nclient mc) (mc_namespace mc) fd u"
        using res resolvePrismElement_resolves [OF Inr] by simp
      have S': "S' = insert u S"
        and c: "collectSubnetAttributes mc fd u (fd_subnets obj) (ats, r) = (ats', r')"
        using False assms(1) Inr res u by (auto simp: evaluate_failure_domain_def)
      have "{(fd, s) |s. \<exists>i ss. i \<in> set (fd_subnets obj) \<and> getSubnets (mc_nclient mc) i = Inr ss \<and>
          s \<in> set ss \<and> subnet_on_cluster u s} = {(fd, s) |s. s \<in> domain_subnets mc fd}"
        using ru obj by (auto simp: domain_subnets_def resolves_to_def)
      with collect_allowed [OF c assms(2,3)] ru S' False assms(2) show ?thesis by auto
    qed
  qed
qed

lemma evaluate_denied:
  assumes "evaluate_failure_domain mc fd (S, ats, r) = Returns (S', ats', r')" "\<not> Allowed r"
  shows "\<not> Allowed r'"
proof (cases "fd = []")
  case True
  with assms show ?thesis by (simp add: evaluate_failure_domain_def)
next
  case False
  show ?thesis
  proof (cases "mc_getFailureDomain mc fd r")
    case (Inl rr)
    with False assms mc_getFailureDomain_denies [OF Inl] show ?thesis
      by (simp add: evaluate_failure_domain_def)
  next
    case (Inr obj)
    with False assms(1) obtain res where res: "resolvePrismElement mc obj fd r = Returns res"
      by (auto simp: evaluate_failure_domain_def outcome_simps)
    with False assms Inr show ?thesis
      using resolvePrismElement_denies [of mc obj fd r r'] collect_denied [of r mc fd _ _ ats]
      by (cases res) (auto simp: evaluate_failure_domain_def, metis snd_conv)
  qed
qed

lemma evaluate_loop_denied:
  "fold_outcome (evaluate_failure_domain mc) fds (S, ats, r) = Returns (S', ats', r') \<Longrightarrow>
     Allowed r' \<Longrightarrow> Allowed r"
proof (induction fds arbitrary: S ats r)
  case Nil
  then show ?case by simp
next
  case (Cons fd fds)
  then show ?case using evaluate_denied by (fastforce simp: outcome_simps)
qed

lemma evaluate_loop_allowed:
  assumes "fold_outcome (evaluate_failure_domain mc) fds (S, ats, r) = Returns (S', ats', r')"
    "Allowed r'" "attributes_match ats X"
  shows "attributes_match ats' (X \<union> observed mc fds) \<and>
    (\<forall>fd \<in> set fds. fd \<noteq> [] \<longrightarrow>
       (\<exists>u. resolves_to (mc_kclient mc) (mc_nclient mc) (mc_namespace mc) fd u)) \<and>
    S' = S \<union> {u. \<exists>fd \<in> set fds. fd \<noteq> [] \<and>
      resolves_to (mc_kclient mc) (mc_nclient mc) (mc_namespace mc) fd u}"
  using assms
proof (induction fds arbitrary: S ats r X)
  case Nil
  then show ?case by (simp add: observed_def)
next
  case (Cons fd fds)
  from Cons.prems(1) obtain S1 ats1 r1 where
    one: "evaluate_failure_domain mc fd (S, ats, r) = Returns (S1, ats1, r1)" and
    rest: "fold_outcome (evaluate_failure_domain mc) fds (S1, ats1, r1) = Returns (S', ats', r')"
    by (auto simp: outcome_simps)
  have a1: "Allowed r1" by (rule evaluate_loop_denied [OF rest Cons.prems(2)])
  note step = evaluate_failure_domain_allowed [OF one a1 Cons.prems(3)]
  let ?R = "resolves_to (mc_kclient mc) (mc_nclient mc) (mc_namespace mc)"
  show ?case
  proof (cases "fd = []")
    case True
    with step have "S1 = S" "ats1 = ats" by auto
    moreover have "observed mc (fd # fds) = observed mc fds"
      using True by (auto simp: observed_def)
    ultimately show ?thesis
      using Cons.IH [OF rest Cons.prems(2), of X] Cons.prems(3) True by auto
  next
    case False
    with step obtain u where u: "?R fd u" "S1 = insert u S"
      and m: "attributes_match ats1 (X \<union> {(fd, s) |s. s \<in> domain_subnets mc fd})"
      by auto
    have one_u: "?R fd v \<longleftrightarrow> v = u" for v
      using u(1) by (auto simp: resolves_to_def)
    have o': "X \<union> {(fd, s) |s. s \<in> domain_subnets mc fd} \<union> observed mc fds =
        X \<union> observed mc (fd # fds)"
      using False by (auto simp: observed_def)
    show ?thesis
      using Cons.IH [OF rest Cons.prems(2) m] u one_u False unfolding o' by auto
  qed
qed

section \<open>Subnet profiles\<close>

lemma stringSetEqual_iff: "finite b \<Longrightarrow> stringSetEqual a b \<longleftrightarrow> a = b"
  using card_subset_eq [of b a] by (auto simp: stringSetEqual_def)

lemma equal_profiles_loop_iff:
  "\<forall>p \<in> set ps. finite p \<Longrightarrow> equal_profiles_loop (Some b) ps \<longleftrightarrow> (\<forall>p \<in> set ps. p = b)"
  by (induction ps) (auto simp: stringSetEqual_iff)

lemma equalSubnetProfileSets_iff:
  assumes "\<forall>(fd, p) \<in> set m. finite p"
  shows "equalSubnetProfileSets m \<longleftrightarrow> (\<forall>(fd, p) \<in> set m. \<forall>(fd', q) \<in> set m. p = q)"
proof (cases m)
  case Nil
  then show ?thesis by (simp add: equalSubnetProfileSets_def)
next
  case (Cons x xs)
  have "\<forall>p \<in> set (map snd xs). finite p" using assms Cons by auto
  then have "equalSubnetProfileSets m \<longleftrightarrow> (\<forall>y \<in> set xs. snd y = snd x)"
    using Cons by (simp add: equalSubnetProfileSets_def equal_profiles_loop_iff)
  also have "\<dots> \<longleftrightarrow> (\<forall>y \<in> set m. \<forall>z \<in> set m. snd y = snd z)"
    unfolding Cons by (metis list.set_intros set_ConsD)
  finally show ?thesis by (simp add: split_def)
qed

lemma equalSubnetProfileSets_observed:
  assumes "attributes_match ats X"
  shows "equalSubnetProfileSets (sa_profiles ats) \<longleftrightarrow>
    (\<forall>fd g. (\<exists>s. (fd, s) \<in> X) \<longrightarrow> (\<exists>s. (g, s) \<in> X) \<longrightarrow> profiles_of X fd = profiles_of X g)"
proof -
  have d: "distinct (map fst (sa_profiles ats))"
    and m: "map_of (sa_profiles ats) fd =
        (if \<exists>s. (fd, s) \<in> X then Some (profiles_of X fd) else None)" for fd
    using assms by (auto simp: attributes_match_def)
  have mem: "(fd, p) \<in> set (sa_profiles ats) \<longleftrightarrow> (\<exists>s. (fd, s) \<in> X) \<and> p = profiles_of X fd" for fd p
    unfolding map_of_eq_Some_iff [OF d, symmetric] m by auto
  have "finite {s. (fd, s) \<in> X}" for fd
  proof (rule finite_subset)
    show "{s. (fd, s) \<in> X} \<subseteq> snd ` X"
      by (rule subsetI) (metis imageI mem_Collect_eq snd_conv)
    show "finite (snd ` X)" using assms by (simp add: attributes_match_def)
  qed
  then have "finite (profiles_of X fd)" for fd
    by (simp add: profiles_of_def)
  then have "\<forall>(fd, p) \<in> set (sa_profiles ats). finite p"
    by (simp add: split_def mem split_paired_all)
  then have "equalSubnetProfileSets (sa_profiles ats) \<longleftrightarrow>
      (\<forall>(fd, p) \<in> set (sa_profiles ats). \<forall>(g, q) \<in> set (sa_profiles ats). p = q)"
    by (rule equalSubnetProfileSets_iff)
  also have "\<dots> \<longleftrightarrow> (\<forall>fd p g q. (fd, p) \<in> set (sa_profiles ats) \<longrightarrow>
      (g, q) \<in> set (sa_profiles ats) \<longrightarrow> p = q)"
    by blast
  finally show ?thesis unfolding mem by blast
qed

text \<open>
  The network of a metro: one layer, VLAN or overlay, no VPC, and the same profiles for all the
  failure domains that show a subnet.
\<close>

definition consistent_network :: "(string \<times> subnet) set \<Rightarrow> bool" where
  "consistent_network X \<longleftrightarrow>
     (\<exists>layer \<in> {''VLAN'', ''OVERLAY''}. \<forall>(fd, s) \<in> X. sub_type s = Some layer) \<and>
     (\<forall>(fd, s) \<in> X. sub_vpc_ref s = None \<or> sub_vpc_ref s = Some []) \<and>
     (\<forall>(fd, s) \<in> X. \<forall>(g, t) \<in> X. profiles_of X fd = profiles_of X g)"

lemma consistent_network_empty: "consistent_network {}"
  unfolding consistent_network_def by blast

lemma checkSubnetConsistency_allowed:
  assumes m: "attributes_match ats X" and a: "Allowed (checkSubnetConsistency mc ats r)"
  shows "Allowed r \<and> consistent_network X"
proof (cases "sa_layers ats = {}")
  case True
  then have "X = {}" using m by (auto simp: attributes_match_def)
  with True a show ?thesis by (simp add: checkSubnetConsistency_def consistent_network_empty)
next
  case False
  have layers: "sa_layers ats = (\<lambda>(fd, s). subnetLayerName (sub_type s)) ` X" and fin: "finite X"
    and vpcs: "sa_vpcs ats = {v. v \<noteq> [] \<and> (\<exists>fd s. (fd, s) \<in> X \<and> sub_vpc_ref s = Some v)}"
    using m by (auto simp: attributes_match_def)
  have c: "sa_vpcs ats = {}" "\<not> 1 < card (sa_layers ats)"
    "hd (sorted_keys (sa_layers ats)) \<in> {''VLAN'', ''OVERLAY''}"
    "equalSubnetProfileSets (sa_profiles ats)" "Allowed r"
    using a False
    by (auto simp: checkSubnetConsistency_def Let_def verdict_simps subnetLayerName_def
        split: if_splits)
  have "finite (sa_layers ats)" using layers fin by simp
  with False c(2) have "card (sa_layers ats) = 1"
    by (metis One_nat_def Suc_lessI card_gt_0_iff)
  then obtain layer where layer: "sa_layers ats = {layer}" by (auto simp: card_1_singleton_iff)
  with c(3) have lv: "layer \<in> {''VLAN'', ''OVERLAY''}" by (simp add: sorted_keys_def)
  have "sub_type s = Some layer" if "(fd, s) \<in> X" for fd s
  proof -
    have "subnetLayerName (sub_type s) = layer" using that layer layers by auto
    with lv show ?thesis by (auto simp: subnetLayerName_def split: option.splits)
  qed
  moreover have "sub_vpc_ref s = None \<or> sub_vpc_ref s = Some []" if "(fd, s) \<in> X" for fd s
    using that c(1) vpcs by (cases "sub_vpc_ref s") auto
  moreover have "profiles_of X fd = profiles_of X g" if "(fd, s) \<in> X" "(g, t) \<in> X" for fd s g t
    using c(4) that unfolding equalSubnetProfileSets_observed [OF m] by blast
  ultimately show ?thesis using lv c(5) unfolding consistent_network_def by blast
qed

lemma metroCheck_allowed:
  assumes run: "metroCheck_Run mc = Returns r" and a: "Allowed r"
  obtains metro where
    "kc_metro (mc_kclient mc) (mc_namespace mc) (mc_metro mc) = Inr metro"
    "card {u. \<exists>fd \<in> set (metro_fds metro). fd \<noteq> [] \<and>
       resolves_to (mc_kclient mc) (mc_nclient mc) (mc_namespace mc) fd u} = 2"
    "\<forall>fd \<in> set (metro_fds metro). fd \<noteq> [] \<longrightarrow>
       (\<exists>u. resolves_to (mc_kclient mc) (mc_nclient mc) (mc_namespace mc) fd u)"
    "consistent_network (observed mc (metro_fds metro))"
proof -
  have err: "mc_err mc = None"
    using run a by (auto simp: metroCheck_Run_def verdict_simps split: option.splits)
  obtain metro where g: "getMetro mc allowed_result = Inr metro"
    using run a err
    by (auto simp: metroCheck_Run_def getMetro_def verdict_simps
        split: sum.splits api_error.splits)
  obtain S ats r1 where
    e: "evaluateFailureDomains mc (metro_fds metro) allowed_result = Returns (S, ats, r1)" and
    r: "r = metro_verdict mc (S, ats, r1)"
    using run err g
    by (cases "evaluateFailureDomains mc (metro_fds metro) allowed_result")
      (auto simp: metroCheck_Run_def)
  have a1: "Allowed r1" using a r by (auto split: if_splits)
  note loop = evaluate_loop_allowed
    [OF e [unfolded evaluateFailureDomains_def] a1 attributes_match_empty]
  then have m: "attributes_match ats (observed mc (metro_fds metro))" by simp
  obtain r2 where r2: "r = checkSubnetConsistency mc ats r2" "Allowed r2 \<longrightarrow> card S = 2"
    using a1 r
    by (cases "card S = 2") (simp_all add: verdict_simps metroPrismElementCount_def)
  then have "card S = 2" "consistent_network (observed mc (metro_fds metro))"
    using checkSubnetConsistency_allowed [OF m] a by auto
  moreover have "kc_metro (mc_kclient mc) (mc_namespace mc) (mc_metro mc) = Inr metro"
    using g by (auto simp: getMetro_def split: sum.splits api_error.splits)
  ultimately show thesis using loop that by simp
qed

section \<open>The metros of a Cluster\<close>

definition names_seen :: "string set \<times> metro_reference list \<Rightarrow> bool" where
  "names_seen st \<longleftrightarrow>
     (\<forall>r \<in> set (resolved_references (snd st)). ref_metro r \<in> fst st) \<and>
     distinct (map ref_metro (resolved_references (snd st)))"

lemma names_seen_add: "names_seen st \<Longrightarrow> names_seen (add_metro kc ns v st)"
  by (auto simp: names_seen_def add_metro_def Let_def resolved_references_def
      split: prod.splits sum.splits if_splits)

lemma names_seen_loop: "names_seen st \<Longrightarrow> names_seen (fold (add_metro kc ns) vs st)"
  by (induction vs arbitrary: st) (simp_all add: names_seen_add)

lemma referencedMetros_distinct:
  "distinct (map ref_metro (resolved_references (referencedMetros cd)))"
  using names_seen_loop [of "({}, [])" "cd_kclient cd" "cl_namespace (cd_cluster cd)"
      "cluster_failure_domains cd"]
  by (simp add: referencedMetros_def names_seen_def resolved_references_def)

end
