(* ===== verification/NutanixChecker.thy ===== *)
theory NutanixChecker
  imports PreflightRun FailureDomains Images Cidr StorageContainers MetroChecks
begin

text \<open>
  \<open>checker.go\<close>: \<open>Init\<close> of the Nutanix checker makes the checks in order; the first
  three constructors fill in the dependencies.  The section at the end states what gates the
  checks made from them, and which of all the checks can panic when they run.
\<close>

record nutanix_libs =
  nl_kclient :: kube_client
  nl_decode_cluster :: "nutanix_cluster_config json_decoder"
  nl_decode_worker :: "nutanix_worker_config json_decoder"
  nl_credential_libs :: credential_libs
  nl_finalize :: semver_finalizer
  nl_connects :: "string \<Rightarrow> bool"

definition initial_dependencies :: "nutanix_libs \<Rightarrow> cluster \<Rightarrow> cluster option \<Rightarrow> check_dependencies" where
  "initial_dependencies libs c old =
     \<lparr>cd_kclient = nl_kclient libs, cd_cluster = c, cd_old_cluster = old, cd_config = None,
      cd_workers = [], cd_failure_domains = Map.empty, cd_nclient = None, cd_pc_version = []\<rparr>"

text \<open>The checks made from the dependencies, once they are filled in.\<close>

definition dependent_checks :: "nutanix_libs \<Rightarrow> check_dependencies \<Rightarrow> check list" where
  "dependent_checks libs cd =
     map failure_domain_check_of (newFailureDomainChecks cd) @
     map image_check_of (newVMImageChecks cd) @
     map (image_version_check_of (nl_finalize libs)) (newVMImageKubernetesVersionChecks cd) @
     newCIDRValidationChecks cd @
     map storage_check_of (newStorageContainerChecks cd) @
     newControlPlaneEndpointChecks (nl_connects libs) cd @
     newMetroChecks cd"

definition nutanix_Init :: "nutanix_libs \<Rightarrow> checker" where
  "nutanix_Init libs c oldCluster =
     bind_outcome
       (newConfigurationCheck (nl_decode_cluster libs) (nl_decode_worker libs)
          (initial_dependencies libs c oldCluster))
       (\<lambda>(configurationCheck, cd1).
         let (credentialsCheck, cd2) = newCredentialsCheck (nl_credential_libs libs) cd1;
             (versionCheck, cd3) = newPrismCentralVersionCheck cd2
         in Returns ([configurationCheck, credentialsCheck, versionCheck] @
              dependent_checks libs cd3))"

section \<open>When \<open>Init\<close> panics\<close>

lemma nutanix_Init_panics_iff:
  "(\<exists>m. nutanix_Init libs c old = Panics m) \<longleftrightarrow>
     ClusterConfigVariableName \<notin> var_name ` set (top_variables (cl_topology c))"
proof -
  have "(\<exists>m. nutanix_Init libs c old = Panics m) \<longleftrightarrow>
      (\<exists>m. newConfigurationCheck (nl_decode_cluster libs) (nl_decode_worker libs)
         (initial_dependencies libs c old) = Panics m)"
    by (cases "newConfigurationCheck (nl_decode_cluster libs) (nl_decode_worker libs)
         (initial_dependencies libs c old)")
      (auto simp: nutanix_Init_def Let_def split_def)
  then show ?thesis
    by (simp add: newConfigurationCheck_panics_iff initial_dependencies_def)
qed

section \<open>What gates the checks\<close>

text \<open>
  The checks that are made without a validated client or a supported version of Prism Central:
  that of the CIDR ranges, which resolves subnets when it has a client, and that of the control
  plane endpoint, which does not call Prism Central.
\<close>

definition local_checks :: "nutanix_libs \<Rightarrow> check_dependencies \<Rightarrow> check list" where
  "local_checks libs cd =
     newCIDRValidationChecks cd @ newControlPlaneEndpointChecks (nl_connects libs) cd"

lemma dependent_checks_gated:
  "cd_nclient cd = None \<or> cd_pc_version cd = [] \<Longrightarrow> dependent_checks libs cd = local_checks libs cd"
  by (auto simp: dependent_checks_def local_checks_def newFailureDomainChecks_def
      newVMImageChecks_def newVMImageKubernetesVersionChecks_def newStorageContainerChecks_def
      newMetroChecks_def Let_def split: option.splits)

text \<open>Without a client the CIDR check only looks at the ranges of the Cluster.\<close>

lemma cidr_check_without_client:
  assumes "cd_nclient cd = None"
  shows "cidrValidationCheck_Run cd =
    Returns (snd (snd (check_cluster_cidrs (cs_pod_cidrs (cl_spec (cd_cluster cd)))
      (cs_service_cidrs (cl_spec (cd_cluster cd))))))"
  using assms by (simp add: cidrValidationCheck_Run_def Let_def split: prod.splits)

lemma nutanix_Init_stages:
  assumes "nutanix_Init libs c old = Returns checks"
  obtains conf cred ver cd1 cd2 cd3 where
    "newConfigurationCheck (nl_decode_cluster libs) (nl_decode_worker libs)
       (initial_dependencies libs c old) = Returns (conf, cd1)"
    "newCredentialsCheck (nl_credential_libs libs) cd1 = (cred, cd2)"
    "newPrismCentralVersionCheck cd2 = (ver, cd3)"
    "checks = [conf, cred, ver] @ dependent_checks libs cd3"
proof -
  obtain conf cd1 where conf:
    "newConfigurationCheck (nl_decode_cluster libs) (nl_decode_worker libs)
       (initial_dependencies libs c old) = Returns (conf, cd1)"
    using assms by (auto simp: nutanix_Init_def outcome_simps)
  obtain cred cd2 where cred: "newCredentialsCheck (nl_credential_libs libs) cd1 = (cred, cd2)"
    by force
  obtain ver cd3 where ver: "newPrismCentralVersionCheck cd2 = (ver, cd3)"
    by force
  have "checks = [conf, cred, ver] @ dependent_checks libs cd3"
    using assms by (simp add: nutanix_Init_def conf cred ver)
  with conf cred ver that show thesis by blast
qed

text \<open>A check denies when its run returns a denial.\<close>

definition check_denies :: "check \<Rightarrow> bool" where
  "check_denies ch \<longleftrightarrow> (\<exists>r. check_run ch = Returns r \<and> \<not> Allowed r)"

lemma version_check_result:
  assumes "newPrismCentralVersionCheck cd = (ver, cd')"
  obtains r where "prism_central_version_verdict cd = (r, cd')" "check_run ver = Returns r"
  using assms
  by (auto simp: newPrismCentralVersionCheck_def finished_check_def split: prod.splits)

text \<open>
  If the first checks all allow and the cluster has Nutanix configuration, there is a client
  whose credentials were validated and a recorded version.
\<close>

lemma first_checks_allow:
  assumes conf: "newConfigurationCheck dc dw (initial_dependencies libs c old) = Returns (conf, cd1)"
    and cred: "newCredentialsCheck cl cd1 = (cred, cd2)"
    and ver: "newPrismCentralVersionCheck cd2 = (ver, cd3)"
    and "\<not> check_denies cred" "\<not> check_denies ver"
    and some: "cd_config cd1 \<noteq> None \<or> cd_workers cd1 \<noteq> []"
  shows "(\<exists>nc. cd_nclient cd3 = Some nc \<and> nc_validate nc = None) \<and> cd_pc_version cd3 \<noteq> []"
proof -
  obtain r where r: "check_run cred = Returns r" and
    a: "Allowed r \<longleftrightarrow> (cd_config cd1 = None \<and> cd_workers cd1 = []) \<or>
       (\<exists>spec nc. Option.bind (cd_config cd1) ncc_nutanix = Some spec \<and>
          credentials_client cl cd1 spec = Inr nc \<and> cd2 = cd1\<lparr>cd_nclient := Some nc\<rparr>)"
    using newCredentialsCheck_result [OF cred] by metis
  then obtain spec nc where nc: "credentials_client cl cd1 spec = Inr nc" "cd_nclient cd2 = Some nc"
    using assms by (auto simp: check_denies_def)
  obtain r' where r': "prism_central_version_verdict cd2 = (r', cd3)" "check_run ver = Returns r'"
    by (rule version_check_result [OF ver])
  then have "cd_pc_version cd3 \<noteq> []"
    using prism_central_version_gate [OF r'(1) nc(2)] assms(5) by (auto simp: check_denies_def)
  moreover have "cd_nclient cd3 = Some nc"
    using prism_central_version_keeps [OF r'(1)] nc(2) by simp
  ultimately show ?thesis using credentials_client_valid [OF nc(1)] by blast
qed

end
