(* ===== verification/Generic.thy ===== *)
theory Generic
  imports Preflight
begin

text \<open>
  \<open>pkg/webhook/preflight/generic\<close>: the checker that every Cluster gets.  It decodes the
  generic part of the cluster configuration and pings the image registries.  The registry
  client is a parameter: whether pinging a host with the configuration succeeds.
\<close>

record image_registry =
  ir_url :: string
  ir_secret_ref :: "string option"

text \<open>
  \<open>ir_secret_ref\<close> nests \<open>Credentials\<close> and \<open>SecretRef\<close>.
\<close>

record generic_cluster_config =
  gcc_mirror :: "image_registry option"
  gcc_registries :: "image_registry list"

record registry_host =
  rh_name :: string
  rh_tls_disabled :: bool
  rh_user :: string
  rh_pass :: string
  rh_cert :: string

record generic_libs =
  gl_kclient :: kube_client
  gl_decode :: "generic_cluster_config json_decoder"
  gl_parse_uri :: url_parser
  gl_ping :: "registry_host \<Rightarrow> string option"

record registry_check =
  rc_field :: string
  rc_namespace :: string
  rc_url :: string
  rc_secret_ref :: "string option"

section \<open>The registry check\<close>

definition registry_credentials ::
    "kube_client \<Rightarrow> registry_check \<Rightarrow> registry_host \<Rightarrow> check_result + registry_host" where
  "registry_credentials kc r host =
     (case rc_secret_ref r of
        None \<Rightarrow> Inr host
      | Some secretName \<Rightarrow>
          let result = allowed_result\<lparr>Allowed := False\<rparr>;
              field = rc_field r @ ''.credentials.secretRef''
          in case kc_secret kc (rc_namespace r) secretName of
               Inl (NotFound e) \<Rightarrow>
                 Inl ((failCheck field
                   (''Registry credentials Secret '' @ quoted secretName @
                    '' not found. Create the Secret first, then create the Cluster.'')
                   result)\<lparr>InternalError := False\<rparr>)
             | Inl (OtherError e) \<Rightarrow>
                 Inl (failCheckInternal field
                   (''Failed to get Registry credentials Secret '' @ quoted secretName @ '': '' @
                    e @ ''. This is usually a temporary error. Please retry.'') result)
             | Inr data \<Rightarrow>
                 let get = (\<lambda>k dflt. case map_of data k of Some v \<Rightarrow> v | None \<Rightarrow> dflt)
                 in Inr (host\<lparr>rh_user := get ''username'' (rh_user host),
                              rh_pass := get ''password'' (rh_pass host),
                              rh_cert := get ''ca.crt'' (rh_cert host)\<rparr>))"

definition checkRegistry :: "generic_libs \<Rightarrow> registry_check \<Rightarrow> check_result" where
  "checkRegistry libs r =
     (let result = allowed_result\<lparr>Allowed := False\<rparr>; registryURL = rc_url r
      in if registryURL = [] then result\<lparr>Allowed := True\<rparr>
         else case gl_parse_uri libs registryURL of
           Inl err \<Rightarrow>
             (failCheck (rc_field r @ ''.url'')
               (''Failed to parse registry URL '' @ quoted registryURL @ '' with error: '' @ err @
                ''. Review the Cluster.'') result)\<lparr>InternalError := False\<rparr>
         | Inr parsed \<Rightarrow>
             if url_scheme parsed \<noteq> ''http'' \<and> url_scheme parsed \<noteq> ''https'' then
               failCheck (rc_field r @ ''.url'')
                 (''The registry URL '' @ quoted registryURL @ '' uses the scheme '' @
                  quoted (url_scheme parsed) @
                  ''. This scheme is not supported. Use either the \"http\" or \"https\" scheme.'')
                 result
             else
               case registry_credentials (gl_kclient libs) r
                 \<lparr>rh_name = url_host parsed, rh_tls_disabled = (url_scheme parsed = ''http''),
                  rh_user = [], rh_pass = [], rh_cert = []\<rparr> of
                 Inl r' \<Rightarrow> r'
               | Inr host \<Rightarrow>
                   (case gl_ping libs host of
                      Some err \<Rightarrow>
                        failCheck (rc_field r)
                          (''Failed to ping registry '' @ quoted registryURL @ '': '' @ err @
                           ''. First verify that the management cluster can reach the '' @
                           ''registry, then retry.'') result
                    | None \<Rightarrow> result\<lparr>Allowed := True, InternalError := False\<rparr>))"

definition newRegistryCheck :: "cluster \<Rightarrow> generic_cluster_config \<Rightarrow> registry_check list" where
  "newRegistryCheck c cfg =
     (let base = ''$.spec.topology.variables[?@.name==\"clusterConfig\"].value.'';
          mk = (\<lambda>field reg. \<lparr>rc_field = base @ field, rc_namespace = cl_namespace c,
                 rc_url = ir_url reg, rc_secret_ref = ir_secret_ref reg\<rparr>)
      in (case gcc_mirror cfg of None \<Rightarrow> [] | Some m \<Rightarrow> [mk ''globalImageRegistryMirror'' m]) @
         map (\<lambda>(i, reg). mk (''imageRegistries['' @ nat_digits i @ '']'') reg)
           (List.enumerate 0 (gcc_registries cfg)))"

section \<open>The checker\<close>

text \<open>The configuration check always stores the object it decoded, even half-way.\<close>

definition generic_newConfigurationCheck ::
    "generic_libs \<Rightarrow> cluster \<Rightarrow> (check \<times> generic_cluster_config) outcome" where
  "generic_newConfigurationCheck libs c =
     bind_outcome
       (UnmarshalClusterVariable (gl_decode libs)
          (GetClusterVariableByName ClusterConfigVariableName (top_variables (cl_topology c))))
       (\<lambda>(cfg, err). Returns
         (\<lparr>check_name = ''GenericConfiguration'',
           check_run = Returns (case err of
               None \<Rightarrow> allowed_result
             | Some e \<Rightarrow>
                 failCheckInternal ''$.spec.topology.variables[?@.name==\"clusterConfig\"]''
                   (''Failed to unmarshal cluster variable '' @ quoted ClusterConfigVariableName @
                    '': '' @ e @ ''. Review the Cluster.'') allowed_result)\<rparr>,
          cfg))"

definition generic_Init :: "generic_libs \<Rightarrow> checker" where
  "generic_Init libs c oldCluster =
     bind_outcome (generic_newConfigurationCheck libs c) (\<lambda>(configurationCheck, cfg).
       Returns (configurationCheck #
         map (\<lambda>r. \<lparr>check_name = ''Registry'', check_run = Returns (checkRegistry libs r)\<rparr>)
           (newRegistryCheck c cfg)))"

lemma generic_Init_panics_iff:
  "(\<exists>m. generic_Init libs c old = Panics m) \<longleftrightarrow>
     ClusterConfigVariableName \<notin> var_name ` set (top_variables (cl_topology c))"
  by (cases "GetClusterVariableByName ClusterConfigVariableName (top_variables (cl_topology c))")
    (auto simp: generic_Init_def generic_newConfigurationCheck_def UnmarshalClusterVariable_def
      split_def GetClusterVariableByName_None_iff [symmetric])

lemma registry_credentials_denies:
  "registry_credentials kc r h = Inl x \<Longrightarrow> \<not> Allowed x \<and> explained x"
  by (auto simp: registry_credentials_def Let_def verdict_simps explained_def
      split: option.splits sum.splits api_error.splits)

lemma registry_credentials_host:
  "registry_credentials kc r h = Inr h' \<Longrightarrow>
     rh_name h' = rh_name h \<and> rh_tls_disabled h' = rh_tls_disabled h"
  by (auto simp: registry_credentials_def Let_def
      split: option.splits sum.splits api_error.splits)

lemma checkRegistry_explained: "explained (checkRegistry libs r)"
  using registry_credentials_denies
  by (auto simp: checkRegistry_def Let_def verdict_simps explained_def
      split: sum.splits option.splits)

text \<open>An allowed registry answered, on a host reached without TLS only for plain http.\<close>

lemma checkRegistry_allowed:
  assumes "Allowed (checkRegistry libs r)" "rc_url r \<noteq> []"
  obtains u h where "gl_parse_uri libs (rc_url r) = Inr u" "url_scheme u \<in> {''http'', ''https''}"
    "gl_ping libs h = None" "rh_name h = url_host u"
    "rh_tls_disabled h \<longleftrightarrow> url_scheme u = ''http''"
proof -
  obtain u where u: "gl_parse_uri libs (rc_url r) = Inr u"
    using assms by (auto simp: checkRegistry_def Let_def verdict_simps split: sum.splits)
  have scheme: "url_scheme u \<in> {''http'', ''https''}"
    using assms u by (auto simp: checkRegistry_def Let_def verdict_simps split: if_splits)
  let ?h = "\<lparr>rh_name = url_host u, rh_tls_disabled = (url_scheme u = ''http''),
    rh_user = [], rh_pass = [], rh_cert = []\<rparr>"
  obtain h where h: "registry_credentials (gl_kclient libs) r ?h = Inr h"
    using assms u scheme registry_credentials_denies
    by (auto simp: checkRegistry_def Let_def split: sum.splits)
  have "gl_ping libs h = None"
    using assms u scheme h
    by (auto simp: checkRegistry_def Let_def verdict_simps split: option.splits)
  with u scheme registry_credentials_host [OF h] that show thesis by auto
qed

end
