(* ===== verification/Samples.thy ===== *)
theory Samples
  imports NutanixChecker Generic
begin

text \<open>
  A small environment, used to show that the hypotheses of the properties can hold: a cluster
  with one worker pool, a management cluster whose failure domains are named after their Prism
  Element clusters, and a Prism Central with one subnet, one image and one storage container
  for every identifier.
\<close>

definition by_uuid :: "string \<Rightarrow> resource_id" where
  "by_uuid u = \<lparr>id_type = ''uuid'', id_uuid = Some u, id_name = None\<rparr>"

definition by_name :: "string \<Rightarrow> resource_id" where
  "by_name n = \<lparr>id_type = ''name'', id_uuid = None, id_name = Some n\<rparr>"

definition sample_subnet :: subnet where
  "sample_subnet = \<lparr>sub_type = Some ''VLAN'', sub_cluster_ref = None, sub_vpc_ref = None,
     sub_network_id = Some 7, sub_ip_prefix = Some ''10.0.0.0/8'',
     sub_ip_config = [\<lparr>ipc_ip = Some ''10.0.0.0'', ipc_prefix_length = Some 8\<rparr>]\<rparr>"

definition sample_nclient :: nclient where
  "sample_nclient = \<lparr>nc_validate = None, nc_pc_version = Inr ''pc.7.5'',
     nc_hosting_cluster = Inr [], nc_rtt = (\<lambda>_ _. Inr None),
     nc_image_by_id = (\<lambda>_. Inr (Data \<lparr>img_name = Some ''rocky-1.30.5''\<rparr>)),
     nc_list_images = (\<lambda>_. Inr (Data [])),
     nc_cluster_by_id = (\<lambda>u. Inr (Data \<lparr>pe_ext_id = u\<rparr>)),
     nc_list_clusters = (\<lambda>_. Inr (Data [])),
     nc_list_containers = (\<lambda>_. Inr (Data [''default''])),
     nc_subnet_by_id = (\<lambda>_. Inr (Data sample_subnet)),
     nc_list_subnets = (\<lambda>_. Inr (Data []))\<rparr>"

definition sample_failure_domain :: "string \<Rightarrow> nutanix_failure_domain" where
  "sample_failure_domain n = \<lparr>fd_pe_cluster = by_uuid n, fd_subnets = [by_uuid ''subnet'']\<rparr>"

definition sample_site :: nutanix_metro_site where
  "sample_site = \<lparr>site_name = ''site'', site_preferred_fd = ''pe1'', site_metro_ref = ''metro'',
     site_group_label = None\<rparr>"

definition sample_kclient :: kube_client where
  "sample_kclient = \<lparr>kc_failure_domain = (\<lambda>_ n. Inr (sample_failure_domain n)),
     kc_metro = (\<lambda>_ _. Inr \<lparr>metro_fds = [''pe1'', ''pe2'']\<rparr>),
     kc_metro_site = (\<lambda>_ _. Inr sample_site),
     kc_metro_sites = (\<lambda>_. Inr [sample_site]),
     kc_secret = (\<lambda>_ _. Inr [(''credentials'', ''doc'')])\<rparr>"

definition sample_topology :: topology where
  "sample_topology = \<lparr>top_class = ''class'', top_version = ''v1.30.5'',
     top_variables = [\<lparr>var_name = ''clusterConfig'', var_raw = ''config''\<rparr>],
     top_machine_deployments = []\<rparr>"

definition sample_cluster :: cluster where
  "sample_cluster = \<lparr>cl_name = ''c'', cl_namespace = ''ns'', cl_annotations = Map.empty,
     cl_labels = Map.empty, cl_deletion = None,
     cl_spec = \<lparr>cs_paused = None, cs_topology = sample_topology, cs_pod_cidrs = [],
       cs_service_cidrs = [], cs_service_domain = [], cs_infrastructure_kind = [],
       cs_cp_ref_defined = False, cs_cp_host = [], cs_cp_port = 0,
       cs_other = []\<rparr>\<rparr>"

definition create_request :: "cluster request" where
  "create_request = \<lparr>req_operation = Create, req_object = sample_cluster,
     req_old_object = sample_cluster\<rparr>"

text \<open>A check that denies, one that panics, and a checker made of given checks.\<close>

definition denying_check :: check where
  "denying_check = \<lparr>check_name = ''Deny'',
     check_run = Returns (failCheck ''field'' ''message'' allowed_result)\<rparr>"

definition panicking_check :: check where
  "panicking_check = \<lparr>check_name = ''Panic'', check_run = Panics nil_dereference\<rparr>"

definition fixed_checker :: "check list \<Rightarrow> checker" where
  "fixed_checker cs = (\<lambda>_ _. Returns cs)"

text \<open>The libraries: a configuration document decodes to one control plane machine.\<close>

definition sample_machine :: machine_details where
  "sample_machine = \<lparr>md_image = Some (by_uuid ''image''), md_image_lookup = None,
     md_cluster = Some (by_uuid ''pe1''), md_subnets = [by_uuid ''subnet'']\<rparr>"

definition sample_endpoint :: prism_central_endpoint where
  "sample_endpoint = \<lparr>pce_url = ''https://pc:9440'', pce_insecure = False, pce_trust_bundle = [],
     pce_secret_name = ''secret''\<rparr>"

definition sample_config :: nutanix_cluster_config where
  "sample_config = \<lparr>
     ncc_nutanix = Some \<lparr>ns_cp_endpoint = \<lparr>cpe_host = ''10.0.0.1'', cpe_port = 6443,
         cpe_virtual_ip = None\<rparr>, ns_pc_endpoint = sample_endpoint\<rparr>,
     ncc_control_plane = Some (Some \<lparr>cpn_details = sample_machine, cpn_failure_domains = []\<rparr>),
     ncc_addons = None\<rparr>"

definition sample_url :: url_parser where
  "sample_url s = Inr \<lparr>url_scheme = ''https'', url_host = ''pc:9440'', url_hostname = ''pc'',
     url_port = ''9440'', url_path = []\<rparr>"

definition sample_libs :: nutanix_libs where
  "sample_libs = \<lparr>nl_kclient = sample_kclient, nl_decode_cluster = (\<lambda>_. (sample_config, None)),
     nl_decode_worker = (\<lambda>_. (\<lparr>nwc_nutanix = Some sample_machine\<rparr>, None)),
     nl_credential_libs = \<lparr>lib_parse_uri = sample_url,
       lib_parse_credentials = (\<lambda>_. Inr (''user'', ''pass'')), lib_base64 = Inr,
       lib_client_factory = (\<lambda>_ _ _. Inr sample_nclient)\<rparr>,
     nl_finalize = Inr, nl_connects = (\<lambda>_. False)\<rparr>"

definition sample_dependencies :: check_dependencies where
  "sample_dependencies = (initial_dependencies sample_libs sample_cluster None)\<lparr>
     cd_config := Some sample_config, cd_nclient := Some sample_nclient,
     cd_pc_version := ''pc.7.5''\<rparr>"

lemma sample_cluster_fields [simp]:
  "cl_annotations sample_cluster = Map.empty" "cl_deletion sample_cluster = None"
  "cl_name sample_cluster = ''c''" "cl_namespace sample_cluster = ''ns''"
  "cl_topology sample_cluster = sample_topology"
  "cs_paused (cl_spec sample_cluster) = None"
  by (simp_all add: sample_cluster_def)

lemma sample_topology_defined [simp]: "IsDefined sample_topology"
  by (simp add: IsDefined_def sample_topology_def zero_topology_def)

lemma sample_not_skipped [simp]:
  "\<not> skip_ForAll (skip_New sample_cluster)" "\<not> skip_For (skip_New sample_cluster) n"
  by (simp_all add: skip_ForAll_def skip_For_def skip_New_def)

lemma sample_responses [simp]:
  "getClusters sample_nclient (Some (by_uuid u)) = Returns (Inr [\<lparr>pe_ext_id = Some u\<rparr>])"
  "getSubnets sample_nclient (by_uuid u) = Inr [sample_subnet]"
  "getVMImages sample_nclient (by_uuid u) = Inr [\<lparr>img_name = Some ''rocky-1.30.5''\<rparr>]"
  "getStorageContainers sample_nclient u n = Inr [''default'']"
  by (simp_all add: getClusters_def getSubnets_def getVMImages_def getStorageContainers_def
      item_data_def list_data_def sample_nclient_def by_uuid_def IsUUID_def Let_def)

end
