(* ===== verification/PreflightProps.thy ===== *)
theory PreflightProps
  imports PreflightRun Samples
begin

text \<open>
  The properties of the preflight webhook as a whole: what the handler answers, when the
  process dies, that the goroutines of \<open>run\<close> always end and agree with
  \<open>run_checks\<close>, and what gates the Nutanix checks.
\<close>

section \<open>Requests that are checked\<close>

text \<open>The checkers that \<open>cmd/main.go\<close> registers, in its order.\<close>

definition webhook_checkers :: "generic_libs \<Rightarrow> nutanix_libs \<Rightarrow> checker list" where
  "webhook_checkers gl nl = [generic_Init gl, nutanix_Init nl]"

text \<open>The request asks for a cluster whose checks must run, with the old cluster of an update.\<close>

definition under_check ::
    "('raw \<Rightarrow> string + cluster) \<Rightarrow> 'raw request \<Rightarrow> cluster \<Rightarrow> cluster option \<Rightarrow> bool" where
  "under_check decode req c old \<longleftrightarrow>
     req_operation req \<noteq> Delete \<and> decode (req_object req) = Inr c \<and>
     cl_deletion c = None \<and> IsDefined (cl_topology c) \<and> \<not> is_paused c \<and>
     \<not> skip_ForAll (skip_New c) \<and>
     (if req_operation req = Update
      then (\<exists>o'. decode (req_old_object req) = Inr o' \<and> \<not> same_spec_ignoring_paused o' c \<and>
             old = Some o')
      else old = None)"

lemma Handle_under_check:
  "under_check decode req c old \<Longrightarrow>
     Handle decode checkers req =
       bind_outcome (run c old (skip_New c) checkers) (\<lambda>rs. Returns (summarize rs))"
  by (auto simp: under_check_def Handle_def handle_checks_def Let_def split: if_splits)

lemma admission_fields:
  "resp_allowed (admission_Allowed msg)" "resp_code (admission_Allowed msg) = 200"
  "\<not> resp_allowed (admission_Errored code err)" "resp_code (admission_Errored code err) = code"
  by (simp_all add: admission_Allowed_def admission_Errored_def)

lemma not_under_check:
  assumes "\<not> (\<exists>c old. under_check decode req c old)"
  shows "Handle decode checkers req = Handle decode [] req"
    "\<exists>resp. Handle decode [] req = Returns resp \<and>
       (resp_allowed resp \<and> resp_code resp = 200 \<or> \<not> resp_allowed resp \<and> resp_code resp = 400)"
proof -
  let ?old = "\<lambda>c. if req_operation req = Update
    then (case decode (req_old_object req) of Inr o' \<Rightarrow> Some o' | Inl _ \<Rightarrow> None) else None"
  have checked: "\<not> under_check decode req c (?old c)" for c using assms by blast
  show "Handle decode checkers req = Handle decode [] req"
  proof (cases "decode (req_object req)")
    case (Inr c)
    with checked [of c] show ?thesis
      by (auto simp: under_check_def Handle_def handle_checks_def Let_def split: sum.splits)
  qed (simp add: Handle_def)
  show "\<exists>resp. Handle decode [] req = Returns resp \<and>
      (resp_allowed resp \<and> resp_code resp = 200 \<or> \<not> resp_allowed resp \<and> resp_code resp = 400)"
  proof (cases "decode (req_object req)")
    case (Inr c)
    with checked [of c] show ?thesis
      by (auto simp: under_check_def Handle_def handle_checks_def Let_def admission_fields
          split: sum.splits)
  qed (simp add: Handle_def admission_fields)
qed

lemma run_Panics_iff:
  "(\<exists>m. run c old sk checkers = Panics m) \<longleftrightarrow> (\<exists>ck \<in> set checkers. \<exists>m. ck c old = Panics m)"
proof -
  have "(\<exists>m. bind_outcome x (\<lambda>cs. Returns (map (run_one sk) cs)) = Panics m) \<longleftrightarrow>
      (\<exists>m. x = Panics m)" for x
    by (cases x) auto
  then show ?thesis
    by (simp add: run_def run_checks_def map_outcome_Panics_iff)
qed

lemma map_outcome_mem:
  "map_outcome f xs = Returns ys \<Longrightarrow> x \<in> set xs \<Longrightarrow> \<exists>y \<in> set ys. f x = Returns y"
  by (induction xs arbitrary: ys) (auto simp: outcome_simps)

lemma run_result_of_check:
  assumes "run c old sk checkers = Returns rss" "ck \<in> set checkers" "ck c old = Returns checks"
    "ch \<in> set checks"
  shows "run_one sk ch \<in> set (all_results rss)"
proof -
  have "\<exists>rs \<in> set rss. bind_outcome (ck c old) (\<lambda>cs. Returns (map (run_one sk) cs)) = Returns rs"
    using map_outcome_mem [OF assms(1) [unfolded run_def run_checks_def], of "ck c old"] assms(2)
    by auto
  then have "map (run_one sk) checks \<in> set rss" by (auto simp: assms(3))
  with assms(4) show ?thesis by (auto intro!: bexI [of _ "map (run_one sk) checks"])
qed

lemma create_request_under_check: "under_check Inr create_request sample_cluster None"
  by (simp add: under_check_def create_request_def is_paused_def)

lemma run_fixed_checker:
  "run c old sk [fixed_checker cs] = Returns [map (run_one sk) cs]"
  by (simp add: run_def run_checks_def fixed_checker_def)

section \<open>What the handler answers\<close>

text \<open>
  C1. Whatever the checkers are: when a request is under check and every \<open>Init\<close>
  returns, the handler answers; it allows the request exactly when every result allows, it
  reports every cause under the name of its check in order, and every warning; the status code
  is 500 if some check met an internal error, 422 if some check denied otherwise.
\<close>

theorem Handle_decision:
  assumes "under_check decode req c old" and "run c old (skip_New c) checkers = Returns rss"
  shows "\<exists>resp. Handle decode checkers req = Returns resp \<and>
    (resp_allowed resp \<longleftrightarrow> (\<forall>nr \<in> set (concat rss). Allowed (result_of nr))) \<and>
    resp_code resp =
      (if \<exists>nr \<in> set (concat rss). InternalError (result_of nr) then 500
       else if \<exists>nr \<in> set (concat rss). \<not> Allowed (result_of nr) then 422 else 0) \<and>
    resp_causes resp =
      concat (map (\<lambda>nr. map (to_status_cause (result_name nr)) (Causes (result_of nr)))
        (concat rss)) \<and>
    resp_warnings resp = concat (map (\<lambda>nr. Warnings (result_of nr)) (concat rss))"
  unfolding Handle_under_check [OF assms(1)] assms(2) bind_outcome.simps
  by (rule exI [of _ "summarize rss"]) (simp only: summarize_fields simp_thms)

theorem Handle_decision_witness:
  "\<exists>resp. Handle Inr [fixed_checker [denying_check]] create_request = Returns resp \<and>
     \<not> resp_allowed resp \<and> resp_code resp = 422"
  using Handle_decision [OF create_request_under_check run_fixed_checker, of "[denying_check]"]
  by (auto simp: run_one_def executed_result_def denying_check_def verdict_simps)

text \<open>
  C2. A request that is not under check (a deletion, a cluster that is being deleted, has no
  topology, is paused, skips everything, or whose spec only changes its paused flag) gets an
  answer that no checker can influence: it is allowed, unless an object cannot be decoded.
\<close>

theorem Handle_not_under_check:
  assumes "\<not> (\<exists>c old. under_check decode req c old)"
  shows "\<exists>resp. (\<forall>checkers. Handle decode checkers req = Returns resp) \<and>
    (resp_allowed resp \<and> resp_code resp = 200 \<or> \<not> resp_allowed resp \<and> resp_code resp = 400)"
  using not_under_check [OF assms] by metis

theorem Handle_not_under_check_witness:
  "\<exists>resp. \<forall>checkers. Handle Inr checkers (create_request\<lparr>req_operation := Delete\<rparr>) = Returns resp"
  using Handle_not_under_check [of Inr "create_request\<lparr>req_operation := Delete\<rparr>"]
  by (auto simp: under_check_def)

text \<open>
  C13. The process dies on a request, with the checkers that \<open>cmd/main.go\<close> registers,
  exactly when the request is under check and its cluster has no \<open>clusterConfig\<close>
  variable: both configuration checks dereference it, in goroutines that do not recover.
\<close>

theorem Handle_panics_iff:
  "(\<exists>m. Handle decode (webhook_checkers gl nl) req = Panics m) \<longleftrightarrow>
     (\<exists>c old. under_check decode req c old \<and>
        ClusterConfigVariableName \<notin> var_name ` set (top_variables (cl_topology c)))"
proof -
  have dies: "(\<exists>m. Handle decode (webhook_checkers gl nl) req = Panics m) \<longleftrightarrow>
      ClusterConfigVariableName \<notin> var_name ` set (top_variables (cl_topology c))"
    if "under_check decode req c old" for c old
  proof -
    have "(\<exists>m. bind_outcome x (\<lambda>rs. Returns (summarize rs)) = Panics m) \<longleftrightarrow> (\<exists>m. x = Panics m)"
      for x by (cases x) auto
    then show ?thesis
      by (simp add: Handle_under_check [OF that] run_Panics_iff webhook_checkers_def
          nutanix_Init_panics_iff generic_Init_panics_iff)
  qed
  show ?thesis
  proof (cases "\<exists>c old. under_check decode req c old")
    case True
    then obtain c old where u: "under_check decode req c old" by blast
    then have "c' = c" if "under_check decode req c' old'" for c' old'
      using that by (simp add: under_check_def)
    with dies [OF u] u show ?thesis by blast
  next
    case False
    then show ?thesis using not_under_check [OF False] by (metis outcome.distinct(1))
  qed
qed

text \<open>
  C14. A panic inside a check that is not skipped does not end the process: the request is
  denied with status code 500.
\<close>

theorem check_panic_denies:
  assumes "under_check decode req c old" and "ck \<in> set checkers" and "ck c old = Returns checks"
    and "ch \<in> set checks" and "\<not> skip_For (skip_New c) (check_name ch)"
    and "check_run ch = Panics m" and "Handle decode checkers req = Returns resp"
  shows "\<not> resp_allowed resp \<and> resp_code resp = 500"
proof -
  obtain rss where rss: "run c old (skip_New c) checkers = Returns rss" "resp = summarize rss"
    using assms(7) Handle_under_check [OF assms(1)] by (auto simp: outcome_simps)
  have "panic_result (check_name ch) m \<in> set (all_results rss)"
    using run_result_of_check [OF rss(1) assms(2,3,4)] assms(5,6)
    by (simp add: run_one_def executed_result_def)
  moreover have "\<not> Allowed (result_of (panic_result (check_name ch) m))"
    "InternalError (result_of (panic_result (check_name ch) m))"
    by (simp_all add: panic_result_def)
  ultimately show ?thesis unfolding rss(2) summarize_fields by meson
qed

theorem check_panic_denies_witness:
  "\<exists>resp. Handle Inr [fixed_checker [panicking_check]] create_request = Returns resp \<and>
     \<not> resp_allowed resp \<and> resp_code resp = 500"
proof -
  obtain resp where "Handle Inr [fixed_checker [panicking_check]] create_request = Returns resp"
    by (simp add: Handle_under_check [OF create_request_under_check] run_fixed_checker)
  with check_panic_denies [OF create_request_under_check, of "fixed_checker [panicking_check]"
      "[fixed_checker [panicking_check]]" "[panicking_check]" panicking_check]
  show ?thesis by (simp add: fixed_checker_def panicking_check_def)
qed

section \<open>The goroutines of \<open>run\<close>\<close>

text \<open>
  C3. However the goroutines interleave: once none can move, \<open>run\<close> has the results of
  \<open>run_checks\<close>, in the order of the checkers and their checks; if some \<open>Init\<close>
  panics, so does the process, with the panic of one of them.
\<close>

theorem schedules_agree:
  assumes "run_reachable sk inits s" and "run_ended sk inits s"
  shows "if \<exists>m. Panics m \<in> set inits then (\<exists>m. run_result s = Panics m \<and> Panics m \<in> set inits)
    else run_result s = run_checks sk inits"
  by (rule ended_result [OF run_reachable_ok [OF assms(1)] assms(2)])

theorem schedules_agree_witness:
  "\<exists>s. run_reachable (skip_New sample_cluster) [Returns [denying_check]] s \<and>
     run_result s = Returns [[\<lparr>result_name = ''Deny'',
       result_of = failCheck ''field'' ''message'' allowed_result\<rparr>]]"
proof -
  obtain s where s: "run_reachable (skip_New sample_cluster) [Returns [denying_check]] s"
      "run_ended (skip_New sample_cluster) [Returns [denying_check]] s"
    using schedule_exists [OF run_start] by blast
  from schedules_agree [OF s] have
    "run_result s = run_checks (skip_New sample_cluster) [Returns [denying_check]]" by simp
  also have "\<dots> = Returns [[\<lparr>result_name = ''Deny'',
      result_of = failCheck ''field'' ''message'' allowed_result\<rparr>]]"
    by (simp add: run_checks_def run_one_def executed_result_def denying_check_def)
  finally show ?thesis using s(1) by blast
qed

text \<open>
  C18. No schedule goes on for ever, and from every state that a schedule reaches some schedule
  ends: the wait groups of \<open>run\<close> are always released.
\<close>

theorem schedules_end:
  "wfp (\<lambda>t s. run_reachable sk inits s \<and> run_step sk inits s t) \<and>
   (run_reachable sk inits s \<longrightarrow>
      (\<exists>t. (run_step sk inits)\<^sup>*\<^sup>* s t \<and> run_reachable sk inits t \<and> run_ended sk inits t))"
  using schedules_wf schedule_exists by blast

theorem schedules_end_witness:
  "\<exists>t. run_reachable (skip_New sample_cluster) [Returns [denying_check, panicking_check]] t \<and>
     run_ended (skip_New sample_cluster) [Returns [denying_check, panicking_check]] t"
  using schedules_end [of "skip_New sample_cluster" "[Returns [denying_check, panicking_check]]"]
    run_start by blast

section \<open>What gates the Nutanix checks\<close>

text \<open>
  C19. If the credentials check or the Prism Central version check denies, the only checks made
  besides the first three are that of the CIDR ranges and that of the control plane endpoint.  If
  the credentials are denied there is no client, and the CIDR check only looks at the ranges of the
  Cluster.  If just the version is denied the client stays, and the CIDR check still resolves
  the subnets of the nodes at Prism Central with it.  Every client in use was validated.
\<close>

theorem denied_gate:
  assumes "nutanix_Init libs c old = Returns checks"
  shows "\<exists>conf cred ver cd. checks = [conf, cred, ver] @ dependent_checks libs cd \<and>
    cd_cluster cd = c \<and>
    (\<forall>nc. cd_nclient cd = Some nc \<longrightarrow> nc_validate nc = None) \<and>
    (check_denies cred \<longrightarrow> cd_nclient cd = None \<and>
       cidrValidationCheck_Run cd = Returns (snd (snd (check_cluster_cidrs
         (cs_pod_cidrs (cl_spec c)) (cs_service_cidrs (cl_spec c)))))) \<and>
    (check_denies cred \<or> check_denies ver \<longrightarrow> dependent_checks libs cd =
       newCIDRValidationChecks cd @ newControlPlaneEndpointChecks (nl_connects libs) cd)"
proof -
  obtain conf cred ver cd1 cd2 cd3 where
    conf: "newConfigurationCheck (nl_decode_cluster libs) (nl_decode_worker libs)
       (initial_dependencies libs c old) = Returns (conf, cd1)" and
    cred: "newCredentialsCheck (nl_credential_libs libs) cd1 = (cred, cd2)" and
    ver: "newPrismCentralVersionCheck cd2 = (ver, cd3)" and
    checks: "checks = [conf, cred, ver] @ dependent_checks libs cd3"
    by (rule nutanix_Init_stages [OF assms])
  obtain r where r: "prism_central_version_verdict cd2 = (r, cd3)" "check_run ver = Returns r"
    by (rule version_check_result [OF ver])
  note keeps = newConfigurationCheck_keeps [OF conf] newCredentialsCheck_keeps [OF cred]
    prism_central_version_keeps [OF r(1)]
  have c: "cd_cluster cd3 = c" using keeps by (simp add: initial_dependencies_def)
  have n1: "cd_nclient cd1 = None" using keeps by (simp add: initial_dependencies_def)
  have a: "cd_nclient cd3 = None" if "check_denies cred"
  proof -
    obtain r' where "check_run cred = Returns r'" "Allowed r' \<or> cd2 = cd1"
      using newCredentialsCheck_result [OF cred] by metis
    then show ?thesis using that n1 keeps by (auto simp: check_denies_def)
  qed
  have v: "nc_validate nc = None" if "cd_nclient cd3 = Some nc" for nc
    using that keeps n1 newCredentialsCheck_client [OF cred] credentials_client_valid by auto
  have b: "cd_nclient cd3 = None \<or> cd_pc_version cd3 = []" if "check_denies ver"
    using prism_central_version_gate [OF r(1)] that r(2) keeps
    by (cases "cd_nclient cd2") (auto simp: check_denies_def)
  have g: "dependent_checks libs cd3 =
      newCIDRValidationChecks cd3 @ newControlPlaneEndpointChecks (nl_connects libs) cd3"
    if "check_denies cred \<or> check_denies ver"
    using dependent_checks_gated [of cd3 libs] a b that unfolding local_checks_def by blast
  have d: "cidrValidationCheck_Run cd3 = Returns (snd (snd (check_cluster_cidrs
      (cs_pod_cidrs (cl_spec c)) (cs_service_cidrs (cl_spec c)))))" if "check_denies cred"
    using cidr_check_without_client [OF a [OF that]] c by simp
  show ?thesis using checks c v a d g by blast
qed

text \<open>The Secret with the credentials does not exist.\<close>

definition no_secret_libs :: nutanix_libs where
  "no_secret_libs = sample_libs\<lparr>nl_kclient :=
     sample_kclient\<lparr>kc_secret := (\<lambda>_ _. Inl (NotFound ''not found''))\<rparr>\<rparr>"

lemma no_secret_denied:
  assumes "newConfigurationCheck (nl_decode_cluster no_secret_libs) (nl_decode_worker no_secret_libs)
       (initial_dependencies no_secret_libs sample_cluster None) = Returns (conf, cd1)"
    and "newCredentialsCheck (nl_credential_libs no_secret_libs) cd1 = (cred, cd2)"
  shows "check_denies cred"
proof -
  have "cd_kclient cd1 = nl_kclient no_secret_libs" "cd_cluster cd1 = sample_cluster"
    using newConfigurationCheck_keeps [OF assms(1)] by (simp_all add: initial_dependencies_def)
  moreover have "cd_config cd1 = Some sample_config"
    using assms(1)
    by (auto simp: newConfigurationCheck_def UnmarshalClusterVariable_def Let_def outcome_simps
        initial_dependencies_def no_secret_libs_def sample_libs_def sample_topology_def
        ClusterConfigVariableName_def has_nutanix_config_def sample_config_def)
  ultimately have "\<exists>r. credentials_client (nl_credential_libs no_secret_libs) cd1
      (the (ncc_nutanix sample_config)) = Inl r \<and> \<not> Allowed r"
    by (cases "ParseURL sample_url sample_endpoint")
      (auto simp: credentials_client_def Let_def credentials_document_def no_secret_libs_def
        sample_libs_def sample_config_def failCheck_def)
  then show ?thesis
    using assms(2) \<open>cd_config cd1 = Some sample_config\<close>
    by (auto simp: newCredentialsCheck_def Let_def check_denies_def finished_check_def
        sample_config_def split: prod.splits)
qed

theorem denied_gate_witness:
  "\<exists>conf cred ver cd. nutanix_Init no_secret_libs sample_cluster None =
     Returns ([conf, cred, ver] @ newCIDRValidationChecks cd @
       newControlPlaneEndpointChecks (nl_connects no_secret_libs) cd) \<and>
     check_denies cred \<and> cd_nclient cd = None"
proof -
  obtain checks where i: "nutanix_Init no_secret_libs sample_cluster None = Returns checks"
    using nutanix_Init_panics_iff [of no_secret_libs sample_cluster None]
    by (cases "nutanix_Init no_secret_libs sample_cluster None")
      (auto simp: ClusterConfigVariableName_def sample_topology_def)
  obtain conf cred ver cd1 cd2 cd3 where stages:
    "newConfigurationCheck (nl_decode_cluster no_secret_libs) (nl_decode_worker no_secret_libs)
       (initial_dependencies no_secret_libs sample_cluster None) = Returns (conf, cd1)"
    "newCredentialsCheck (nl_credential_libs no_secret_libs) cd1 = (cred, cd2)"
    "checks = [conf, cred, ver] @ dependent_checks no_secret_libs cd3"
    by (rule nutanix_Init_stages [OF i])
  have "check_denies (checks ! 1)" using no_secret_denied [OF stages(1,2)] by (simp add: stages(3))
  with denied_gate [OF i] i show ?thesis by auto
qed

end
