(* ===== verification/NutanixProps.thy ===== *)
theory NutanixProps
  imports Samples
begin

text \<open>
  The properties of the Nutanix preflight checks: the skip annotation, the Prism Central
  version, CIDR ranges, failure domains, storage containers, images and metro placement.
\<close>

section \<open>Skipping\<close>

text \<open>
  A check is skipped exactly when the annotation lists its name, up to case and
  surrounding space, or lists nothing but \<open>all\<close>; a skipped check is reported as allowed,
  with a warning, whatever it would have found.
\<close>

theorem skipped_iff:
  "skip_For (skip_New c) n \<longleftrightarrow>
     (\<exists>value. cl_annotations c PreflightChecksSkipAnnotationKey = Some value \<and>
        (listed_names value = {PreflightChecksSkipAllAnnotationValue} \<or>
         normalize_name n \<in> listed_names value))"
  unfolding skip_For_iff skip_ForAll_iff by auto

section \<open>The Prism Central version\<close>

text \<open>What the check compares: the version Prism Central reported, cleaned.\<close>

definition reported_version :: "string \<Rightarrow> string" where
  "reported_version v = CleanPCVersion (to_lower (trim_space v))"

definition reporting :: "string \<Rightarrow> check_dependencies \<Rightarrow> nclient \<Rightarrow> check_dependencies" where
  "reporting v cd nc = cd\<lparr>cd_nclient := Some (nc\<lparr>nc_pc_version := Inr v\<rparr>)\<rparr>"

lemma reporting_allowed:
  assumes "\<not> isPCVersionCheckSkipped (cd_cluster cd)" "cd_pc_version cd = []"
  shows "Allowed (fst (prism_central_version_verdict (reporting v cd nc))) \<longleftrightarrow>
    contains_str (to_lower (trim_space v)) internalPrismCentralVersionLabel \<or>
    reported_version v \<noteq> [] \<and>
    ComparePCVersions (reported_version v) minSupportedPrismCentralVersion \<noteq> -1"
  unfolding reported_version_def
  by (rule prism_central_version_allowed [where nc = "nc\<lparr>nc_pc_version := Inr v\<rparr>"])
    (use assms in \<open>simp_all add: reporting_def\<close>)

lemma pc_release_nonempty: "pc_release v \<Longrightarrow> v \<noteq> []"
  by (auto simp: pc_release_def CleanPCVersion_Nil is7XPcVersion_def is202XPcVersion_def
      has_prefix_def)

lemma version_comparisons:
  "ComparePCVersions ''7.5'' ''2024.1'' = 1" "ComparePCVersions ''2024.1'' ''8.0'' = 1"
  "ComparePCVersions ''8.0'' ''7.5'' = 1" "ComparePCVersions ''7.5'' ''7.5.1'' = -1"
  "ComparePCVersions ''7.5'' ''7.5'' = 0"
  by code_simp+

text \<open>
  The minimum version is a threshold on released versions (7.x and 202x): if the check
  accepts one, it accepts every later one.
\<close>

theorem version_threshold:
  assumes "\<not> isPCVersionCheckSkipped (cd_cluster cd)" "cd_pc_version cd = []"
    and "pc_release (reported_version v)" "pc_release (reported_version w)"
    and "\<not> contains_str (to_lower (trim_space v)) internalPrismCentralVersionLabel"
    and "Allowed (fst (prism_central_version_verdict (reporting v cd nc)))"
    and "ComparePCVersions (reported_version v) (reported_version w) \<le> 0"
  shows "Allowed (fst (prism_central_version_verdict (reporting w cd nc)))"
  using assms pc.threshold_upward [OF pc_release_minimum assms(3,4)] pc_release_nonempty
  by (auto simp: reporting_allowed)

theorem version_threshold_witness:
  "Allowed (fst (prism_central_version_verdict
     (reporting ''pc.7.5.1'' (sample_dependencies\<lparr>cd_pc_version := []\<rparr>) sample_nclient)))"
proof -
  have reported: "reported_version ''pc.7.5'' = ''7.5''" "reported_version ''pc.7.5.1'' = ''7.5.1''"
    "pc_release ''7.5''" "pc_release ''7.5.1''"
    "\<not> contains_str (to_lower (trim_space ''pc.7.5'')) internalPrismCentralVersionLabel"
    "minSupportedPrismCentralVersion = ''7.5''"
    by code_simp+
  have cd: "\<not> isPCVersionCheckSkipped (cd_cluster (sample_dependencies\<lparr>cd_pc_version := []\<rparr>))"
    "cd_pc_version (sample_dependencies\<lparr>cd_pc_version := []\<rparr>) = []"
    by (simp_all add: isPCVersionCheckSkipped_def sample_dependencies_def initial_dependencies_def)
  show ?thesis
    by (rule version_threshold [OF cd, of "''pc.7.5''"])
      (simp_all only: reporting_allowed [OF cd] reported version_comparisons, simp_all)
qed

text \<open>
  Outside the released formats the comparison is no order: 7.5 is newer than 2024.1,
  2024.1 is newer than 8.0, and 8.0 is newer than 7.5.
\<close>

theorem version_cycle:
  "ComparePCVersions ''7.5'' ''2024.1'' = 1 \<and> ComparePCVersions ''2024.1'' ''8.0'' = 1 \<and>
   ComparePCVersions ''8.0'' ''7.5'' = 1"
  by (simp only: version_comparisons)

section \<open>CIDR ranges\<close>

text \<open>
  C4. The CIDR check allows exactly when both lists of ranges parse, every range is larger
  than a /24, no Pod range shares an address with a Service range, and, if there are node
  subnets and a client to look them up, every one resolves and none of their prefixes shares an
  address with a Pod or Service range; a denial always names a cause.
\<close>

theorem cidr_check_iff:
  assumes "cidrValidationCheck_Run cd = Returns r"
  shows "(Allowed r \<longleftrightarrow> (\<exists>ps ss.
      parseCIDRBlocks (cs_pod_cidrs (cl_spec (cd_cluster cd))) = Inr ps \<and>
      parseCIDRBlocks (cs_service_cidrs (cl_spec (cd_cluster cd))) = Inr ss \<and>
      cluster_cidrs_ok ps ss \<and>
      (collectNutanixSubnets cd = [] \<or> cd_nclient cd = None \<or>
       (\<exists>nc w ns. cd_nclient cd = Some nc \<and>
          resolveNodeSubnets nc (collectNutanixSubnets cd) = Returns (w, Inr ns) \<and>
          clear_of_nodes ps ns \<and> clear_of_nodes ss ns)))) \<and> explained r"
  by (rule cidrValidationCheck_Run_allowed [OF assms])

definition pods_in_node_subnet :: check_dependencies where
  "pods_in_node_subnet = sample_dependencies\<lparr>cd_cluster := sample_cluster\<lparr>cl_spec :=
     (cl_spec sample_cluster)\<lparr>cs_pod_cidrs := [''10.1.0.0/16'']\<rparr>\<rparr>\<rparr>"

lemma small_numbers: "itoa 8 = ''8''" "nat_digits 0 = ''0''"
  by (simp_all add: itoa_def nat_digits.simps itoa_digit_def char_of_def bit_Suc_0_iff)

lemma parsed_prefixes:
  "ParsePrefix ''10.0.0.0/8'' = Inr \<lparr>pfx_addr = IP4 167772160, pfx_bits = 8\<rparr>"
  "ParsePrefix ''11.0.0.0/8'' = Inr \<lparr>pfx_addr = IP4 184549376, pfx_bits = 8\<rparr>"
  "ParsePrefix ''10.1.0.0/16'' = Inr \<lparr>pfx_addr = IP4 167837696, pfx_bits = 16\<rparr>"
  by (simp_all add: parse_eval Let_def)

lemma sample_collected:
  "collectNutanixSubnets pods_in_node_subnet =
     [\<lparr>nsub_id = by_uuid ''subnet'', nsub_field = cp_machine_details_field @ ''.subnets[0]'',
       nsub_cluster = Some (by_uuid ''pe1'')\<rparr>]"
  by (simp add: collectNutanixSubnets_def machine_configurations_def pods_in_node_subnet_def
      sample_dependencies_def initial_dependencies_def sample_config_def sample_machine_def
      List.map_filter_def small_numbers)

lemma sample_extract:
  "extract_all n [sample_subnet] = Inr [Masked \<lparr>pfx_addr = IP4 167772160, pfx_bits = 8\<rparr>]"
  by (simp add: extractIPv4PrefixesFromSubnet_def sample_subnet_def small_numbers parsed_prefixes)

lemma sample_lookup:
  "lookup_subnet sample_nclient \<lparr>nsub_id = by_uuid u, nsub_field = f, nsub_cluster = c\<rparr> =
     Returns (Inr [Masked \<lparr>pfx_addr = IP4 167772160, pfx_bits = 8\<rparr>])"
  by (simp add: lookup_subnet_def sample_extract del: extract_all.simps)

lemma sample_resolved:
  "resolveNodeSubnets sample_nclient (collectNutanixSubnets pods_in_node_subnet) =
     Returns ([], Inr [\<lparr>rns_prefix = Masked \<lparr>pfx_addr = IP4 167772160, pfx_bits = 8\<rparr>,
       rns_field = cp_machine_details_field @ ''.subnets[0]'', rns_name = ''subnet''\<rparr>])"
  by (simp add: sample_collected resolveNodeSubnets_def sample_lookup resolved_of_def
      subnetIdentifierForMessage_def by_uuid_def [of "''subnet''"] IsUUID_def Let_def
      sample_lookup [unfolded by_uuid_def])

lemma sample_client:
  "cd_nclient pods_in_node_subnet = Some sample_nclient"
  "cs_pod_cidrs (cl_spec (cd_cluster pods_in_node_subnet)) = [''10.1.0.0/16'']"
  "collectNutanixSubnets pods_in_node_subnet \<noteq> []"
  by (simp_all add: sample_collected) (simp_all add: pods_in_node_subnet_def sample_dependencies_def)

theorem cidr_check_iff_witness:
  "\<exists>r. cidrValidationCheck_Run pods_in_node_subnet = Returns r \<and> \<not> Allowed r"
proof -
  let ?pods = "Masked \<lparr>pfx_addr = IP4 167837696, pfx_bits = 16\<rparr>"
  let ?node = "Masked \<lparr>pfx_addr = IP4 167772160, pfx_bits = 8\<rparr>"
  obtain r where r: "cidrValidationCheck_Run pods_in_node_subnet = Returns r"
    using sample_resolved
    by (cases "check_cluster_cidrs (cs_pod_cidrs (cl_spec (cd_cluster pods_in_node_subnet)))
        (cs_service_cidrs (cl_spec (cd_cluster pods_in_node_subnet)))")
      (simp add: cidrValidationCheck_Run_def Let_def sample_client)
  have "share_address ?pods ?node"
    unfolding share_address_def Masked_contains
    by (rule exI [of _ "IP4 167837696"]) simp
  then have "\<not> Allowed r"
    using cidr_check_iff [OF r] sample_resolved
    by (auto simp: sample_client parsed_prefixes clear_of_nodes_def)
  with r show ?thesis by blast
qed

text \<open>
  C23. The cache of resolved subnets is sound as long as references with the same identifier
  come from machines on the same Prism Element cluster: the outcome is that of resolving every
  reference on its own.
\<close>

theorem cache_sound:
  assumes "same_cluster_for_key ss"
  shows "bind_outcome (resolveNodeSubnets nc ss) (\<lambda>(w, r). Returns r) = resolve_each nc ss"
  by (rule resolveNodeSubnets_each [OF assms])

theorem cache_sound_witness:
  "resolve_each sample_nclient (collectNutanixSubnets pods_in_node_subnet) =
     Returns (Inr [\<lparr>rns_prefix = Masked \<lparr>pfx_addr = IP4 167772160, pfx_bits = 8\<rparr>,
       rns_field = cp_machine_details_field @ ''.subnets[0]'', rns_name = ''subnet''\<rparr>])"
  using cache_sound [of "collectNutanixSubnets pods_in_node_subnet" sample_nclient]
    sample_resolved
  by (simp add: sample_collected same_cluster_for_key_def)

text \<open>A Prism Central with a subnet of the same name on each of two clusters.\<close>

definition subnet_on :: "string \<Rightarrow> string \<Rightarrow> subnet" where
  "subnet_on pe ip = sample_subnet\<lparr>sub_cluster_ref := Some pe,
     sub_ip_config := [\<lparr>ipc_ip = Some ip, ipc_prefix_length = Some 8\<rparr>]\<rparr>"

definition twin_subnets :: nclient where
  "twin_subnets = sample_nclient\<lparr>nc_list_subnets :=
     (\<lambda>_. Inr (Data [subnet_on ''pe1'' ''10.0.0.0'', subnet_on ''pe2'' ''11.0.0.0'']))\<rparr>"

definition node_on :: "string \<Rightarrow> nutanix_subnet" where
  "node_on pe = \<lparr>nsub_id = by_name ''net'', nsub_field = pe, nsub_cluster = Some (by_uuid pe)\<rparr>"

abbreviation slash8 :: "32 word \<Rightarrow> ip_prefix" where
  "slash8 w \<equiv> Masked \<lparr>pfx_addr = IP4 w, pfx_bits = 8\<rparr>"

lemma node_on_name: "nsub_id (node_on pe) = by_name ''net''"
  by (simp add: node_on_def)

lemma twin_lookup:
  "lookup_subnet twin_subnets (node_on ''pe1'') = Returns (Inr [slash8 167772160])"
  "lookup_subnet twin_subnets (node_on ''pe2'') = Returns (Inr [slash8 184549376])"
  by (simp_all add: lookup_subnet_def getSubnets_def list_data_def twin_subnets_def node_on_def
      by_name_def by_uuid_def IsUUID_def IsName_def filterSubnetsByPECluster_def Let_def
      resolvePEClusterUUID_def subnet_on_def extractIPv4PrefixesFromSubnet_def small_numbers
      parsed_prefixes)

lemma disjoint_slash8: "\<not> share_address (slash8 167772160) (slash8 184549376)"
proof -
  have "\<not> (prefix_contains (slash8 167772160) x \<and> prefix_contains (slash8 184549376) x)" for x
    unfolding Masked_contains by (cases x) auto
  then show ?thesis by (simp add: share_address_def)
qed

text \<open>
  Without that condition the cache is wrong: for a subnet name that exists on two Prism
  Element clusters, the machines on the second cluster get the prefix of the first cluster's
  subnet, although the two share no address, so an overlap with the second is not seen.
\<close>

theorem cache_crosses_clusters:
  "resolve_each twin_subnets [node_on ''pe1'', node_on ''pe2''] =
     Returns (Inr (resolved_of (node_on ''pe1'') [slash8 167772160] @
                   resolved_of (node_on ''pe2'') [slash8 184549376])) \<and>
   resolveNodeSubnets twin_subnets [node_on ''pe1'', node_on ''pe2''] =
     Returns ([], Inr (resolved_of (node_on ''pe1'') [slash8 167772160] @
                       resolved_of (node_on ''pe2'') [slash8 167772160])) \<and>
   \<not> share_address (slash8 167772160) (slash8 184549376)"
  using disjoint_slash8 by (simp add: resolveNodeSubnets_def twin_lookup node_on_name Let_def)

text \<open>
  C24. The overlap test on two parsed ranges decides whether they have an address in common,
  and masking a range, as the check does after parsing, keeps its addresses.
\<close>

theorem overlap_iff_common_address:
  assumes "ParsePrefix s = Inr p" and "ParsePrefix t = Inr q"
  shows "(prefixesOverlap (Masked p) (Masked q) \<longleftrightarrow>
      (\<exists>x. prefix_contains p x \<and> prefix_contains q x)) \<and>
    prefix_contains (Masked p) x = prefix_contains p x"
  using Overlaps_iff_share [OF ParsePrefix_Masked_valid [OF assms(1)]
      ParsePrefix_Masked_valid [OF assms(2)]]
  by (simp add: prefixesOverlap_def Masked_contains)

theorem overlap_iff_common_address_witness:
  "prefixesOverlap (slash8 167772160) (Masked \<lparr>pfx_addr = IP4 167837696, pfx_bits = 16\<rparr>)"
proof -
  have "\<exists>x. prefix_contains \<lparr>pfx_addr = IP4 167772160, pfx_bits = 8\<rparr> x \<and>
      prefix_contains \<lparr>pfx_addr = IP4 167837696, pfx_bits = 16\<rparr> x"
    by (rule exI [of _ "IP4 167837696"]) simp
  then show ?thesis
    using overlap_iff_common_address [OF parsed_prefixes(1,3)] by blast
qed

section \<open>Failure domains\<close>

text \<open>
  C21. A failure domain check allows exactly when its reference resolved, the object exists,
  its Prism Element cluster is found exactly once and every one of its subnets is found exactly
  once on that cluster; a denial names a cause.
\<close>

theorem failure_domain_check_iff:
  assumes "failureDomainCheck_Run fdc = Returns r"
  shows "(Allowed r \<longleftrightarrow> fdc_err fdc = None \<and>
      (\<exists>fd. kc_failure_domain (fdc_kclient fdc) (fdc_namespace fdc) (fdc_name fdc) = Inr fd \<and>
         failure_domain_usable (fdc_nclient fdc) fd)) \<and> explained r"
  by (rule failureDomainCheck_Run_allowed [OF assms])

definition sample_fd_check :: failure_domain_check where
  "sample_fd_check = \<lparr>fdc_name = ''pe1'', fdc_namespace = ''ns'', fdc_field = ''field'',
     fdc_kclient = sample_kclient, fdc_nclient = sample_nclient, fdc_err = None\<rparr>"

lemma sample_fd_check_usable:
  "kc_failure_domain sample_kclient ns n = Inr (sample_failure_domain n)"
  "failure_domain_usable sample_nclient (sample_failure_domain n)"
  by (simp_all add: sample_kclient_def failure_domain_usable_def sample_failure_domain_def
      fd_subnet_ok_def subnet_on_cluster_def sample_subnet_def)

theorem failure_domain_check_iff_witness:
  "\<exists>r. failureDomainCheck_Run sample_fd_check = Returns r \<and> Allowed r"
proof -
  have "\<exists>r. failureDomainCheck_Run sample_fd_check = Returns r"
    by (simp add: failureDomainCheck_Run_def sample_fd_check_def sample_fd_check_usable
        validate_failure_domain_def sample_failure_domain_def Let_def)
  then obtain r where r: "failureDomainCheck_Run sample_fd_check = Returns r" by blast
  with failure_domain_check_iff [OF r] show ?thesis
    by (simp add: sample_fd_check_def sample_fd_check_usable)
qed

text \<open>
  With a client made by \<open>newClient\<close>, the check panics exactly when the only
  cluster found for the failure domain has no identifier: the dereference that
  \<open>metro.go\<close> guards against is not guarded here.
\<close>

theorem failure_domain_check_panics_iff:
  assumes "newClient url_parse getOrCreate getOrCreateV3 sel cred nn pem = Inr (fdc_nclient fdc)"
  shows "(\<exists>m. failureDomainCheck_Run fdc = Panics m) \<longleftrightarrow>
    fdc_err fdc = None \<and>
    (\<exists>fd c. kc_failure_domain (fdc_kclient fdc) (fdc_namespace fdc) (fdc_name fdc) = Inr fd \<and>
       getClusters (fdc_nclient fdc) (Some (fd_pe_cluster fd)) = Returns (Inr [c]) \<and>
       pe_ext_id c = None)"
proof -
  have "\<not> (\<exists>m. getClusters (fdc_nclient fdc) (Some i) = Panics m)" for i
    using getClusters_newClient_returns [OF assms, of i] by auto
  then show ?thesis
    by (simp add: failureDomainCheck_Run_panics_iff validate_failure_domain_panics_iff)
qed

definition nameless_clusters :: converged_client where
  "nameless_clusters = \<lparr>cv_users = None, cv_pc_version = Inr ''pc.7.5'',
     cv_domain_managers = Inr [], cv_image = (\<lambda>_. Inl ''none''), cv_images = (\<lambda>_. Inr []),
     cv_cluster = (\<lambda>_. Inr \<lparr>pe_ext_id = None\<rparr>), cv_clusters = (\<lambda>_. Inr []),
     cv_containers = (\<lambda>_. Inr []), cv_subnet = (\<lambda>_. Inl ''none''), cv_subnets = (\<lambda>_. Inr [])\<rparr>"

definition nameless_nclient :: nclient where
  "nameless_nclient = wrapConverged ResultReady (Inl ''none'') nameless_clusters"

lemma nameless_getClusters:
  "getClusters nameless_nclient (Some (by_uuid u)) = Returns (Inr [\<lparr>pe_ext_id = None\<rparr>])"
  by (simp add: getClusters_def nameless_nclient_def wrapConverged_def nameless_clusters_def
      get_by_uuid_def wrap_data_def by_uuid_def IsUUID_def)

theorem failure_domain_check_panics_iff_witness:
  "\<exists>m. failureDomainCheck_Run (sample_fd_check\<lparr>fdc_nclient := nameless_nclient\<rparr>) = Panics m"
proof -
  let ?cred = "\<lparr>cred_endpoint = ''pc:9440'', cred_url = ''https://pc:9440'', cred_username = ''u'',
    cred_password = ''p'', cred_insecure = False\<rparr>"
  have "newClient sample_url (\<lambda>_. Inr nameless_clusters) (\<lambda>_. Inl ''none'') ResultReady ?cred
      (''ns'', ''c'') [] = Inr nameless_nclient"
    by (simp add: newClient_def buildManagementEndpoint_def sample_url_def has_prefix_def
        nameless_nclient_def)
  with failure_domain_check_panics_iff
    [of _ _ _ _ _ _ _ "sample_fd_check\<lparr>fdc_nclient := nameless_nclient\<rparr>"]
  show ?thesis
    by (simp add: sample_fd_check_def sample_fd_check_usable nameless_getClusters
        sample_failure_domain_def)
qed

text \<open>
  A NutanixMetroSite reference resolves only if its metro exists and lists the site's
  preferred failure domain; it stands for all failure domains of that metro.
\<close>

theorem metro_site_reference:
  assumes "getFailureDomainNames kc ns (metroSiteFailureDomainPrefix @ s) = Inr names"
  shows "\<exists>site metro. kc_metro_site kc ns s = Inr site \<and>
    kc_metro kc ns (site_metro_ref site) = Inr metro \<and>
    names = nonempty_names (metro_fds metro) \<and> site_preferred_fd site \<in> set names"
  by (rule getFailureDomainNames_site [OF assms])

theorem metro_site_reference_witness:
  "\<exists>site. kc_metro_site sample_kclient ''ns'' ''s'' = Inr site \<and>
     site_preferred_fd site \<in> {''pe1'', ''pe2''}"
proof -
  have "getFailureDomainNames sample_kclient ''ns'' (metroSiteFailureDomainPrefix @ ''s'') =
      Inr [''pe1'', ''pe2'']"
    by (simp add: getFailureDomainNames_def isNutanixMetroFailureDomain_def
        isNutanixMetroSiteFailureDomain_def metroFailureDomainPrefix_def has_prefix_def
        metroSiteFailureDomainPrefix_def sample_kclient_def sample_site_def nonempty_names_def)
  from metro_site_reference [OF this] show ?thesis by auto
qed

section \<open>Storage containers\<close>

text \<open>
  With one cluster found, the storage container check returns, and it allows exactly when
  every storage class that names a container finds exactly one by that name on the cluster.
\<close>

theorem storage_check_iff:
  assumes "scc_err c = None" and "csi_storage_classes (scc_csi c) = Some scs"
    and "cluster_identifier c = Returns (Inr ident)"
    and "getClusters (scc_nclient c) ident = Returns (Inr [pe])" and "pe_ext_id pe = Some uuid"
  shows "\<exists>r. storageContainerCheck_Run c = Returns r \<and> explained r \<and>
    (Allowed r \<longleftrightarrow> (\<forall>sc \<in> set scs. \<forall>name. storage_container_parameter (snd sc) = Some name \<longrightarrow>
       (\<exists>x. getStorageContainers (scc_nclient c) uuid name = Inr [x])))"
  using storageContainerCheck_one_cluster [OF assms] by metis

definition sample_csi :: csi_provider where
  "sample_csi = \<lparr>csi_storage_classes =
     Some [(''volume'', \<lparr>sc_parameters = Some [''storageContainer'' \<mapsto> ''default'']\<rparr>)]\<rparr>"

definition sample_storage_check :: "resource_id option \<Rightarrow> storage_container_check" where
  "sample_storage_check ident = \<lparr>scc_machine_spec = Some (sample_machine\<lparr>md_cluster := ident\<rparr>),
     scc_failure_domain = [], scc_namespace = [], scc_kclient = None, scc_field = ''field'',
     scc_csi = sample_csi, scc_nclient = sample_nclient, scc_err = None\<rparr>"

theorem storage_check_iff_witness:
  "\<exists>r. storageContainerCheck_Run (sample_storage_check (Some (by_uuid ''pe1''))) = Returns r \<and>
     Allowed r"
  using storage_check_iff [of "sample_storage_check (Some (by_uuid ''pe1''))" _
      "Some (by_uuid ''pe1'')" "\<lparr>pe_ext_id = Some ''pe1''\<rparr>" "''pe1''"]
  by (auto simp: sample_storage_check_def sample_csi_def cluster_identifier_def)

text \<open>
  A machine configuration without a cluster, where no failure domain is set, makes the
  check panic as soon as one storage class names a container.
\<close>

theorem storage_check_no_cluster_panics:
  assumes "scc_err c = None" and "csi_storage_classes (scc_csi c) = Some scs"
    and "scc_failure_domain c = []" and "scc_machine_spec c = Some md" and "md_cluster md = None"
    and "sc \<in> set scs" and "storage_container_parameter (snd sc) \<noteq> None"
  shows "\<exists>m. storageContainerCheck_Run c = Panics m"
  by (rule storageContainerCheck_no_cluster_panics [OF assms])

theorem storage_check_no_cluster_panics_witness:
  "\<exists>m. storageContainerCheck_Run (sample_storage_check None) = Panics m"
  by (rule storage_check_no_cluster_panics [where md = "sample_machine\<lparr>md_cluster := None\<rparr>"
        and scs = "[(''volume'', \<lparr>sc_parameters = Some [''storageContainer'' \<mapsto> ''default'']\<rparr>)]"
        and sc = "(''volume'', \<lparr>sc_parameters = Some [''storageContainer'' \<mapsto> ''default'']\<rparr>)"])
    (simp_all add: sample_storage_check_def sample_csi_def storage_container_parameter_def)

section \<open>Images\<close>

text \<open>
  The image check allows exactly when the image is looked up by the provider or its
  identifier finds exactly one image; a denial names a cause unless the machine has neither.
\<close>

theorem image_check_iff:
  "(Allowed (imageCheck_Run c) \<longleftrightarrow>
      md_image_lookup (imc_details c) \<noteq> None \<or>
      (\<exists>i im. md_image (imc_details c) = Some i \<and> getVMImages (imc_nclient c) i = Inr [im])) \<and>
   (explained (imageCheck_Run c) \<longleftrightarrow>
      md_image_lookup (imc_details c) \<noteq> None \<or> md_image (imc_details c) \<noteq> None)"
  by (intro conjI imageCheck_allowed imageCheck_explained)

theorem image_check_iff_witness:
  "Allowed (imageCheck_Run \<lparr>imc_details = sample_machine, imc_field = ''f'',
     imc_nclient = sample_nclient\<rparr>) \<and>
   \<not> explained (imageCheck_Run \<lparr>imc_details = sample_machine\<lparr>md_image := None\<rparr>,
     imc_field = ''f'', imc_nclient = sample_nclient\<rparr>)"
  using image_check_iff [of "\<lparr>imc_details = sample_machine, imc_field = ''f'',
      imc_nclient = sample_nclient\<rparr>"]
    image_check_iff [of "\<lparr>imc_details = sample_machine\<lparr>md_image := None\<rparr>,
      imc_field = ''f'', imc_nclient = sample_nclient\<rparr>"]
  by (simp add: sample_machine_def getVMImages_def IsUUID_def by_uuid_def sample_nclient_def
      item_data_def)

text \<open>
  For an image that is found once, the version check allows exactly when the image has a
  name that contains the cluster's Kubernetes version.
\<close>

theorem image_version_check_iff:
  assumes "md_image_lookup (ivc_details c) = None" and "md_image (ivc_details c) = Some i"
    and "getVMImages (ivc_nclient c) i = Inr [im]"
  shows "Allowed (imageKubernetesVersionCheck_Run finalize c) \<longleftrightarrow>
    (\<exists>name v xs ys. img_name im = Some name \<and> name \<noteq> [] \<and> finalize (ivc_version c) = Inr v \<and>
       name = xs @ v @ ys)"
  by (rule imageKubernetesVersionCheck_allowed [OF assms])

theorem image_version_check_iff_witness:
  "Allowed (imageKubernetesVersionCheck_Run Inr \<lparr>ivc_details = sample_machine,
     ivc_field = ''field'', ivc_nclient = sample_nclient, ivc_version = ''1.30.5''\<rparr>)"
proof -
  let ?check = "\<lparr>ivc_details = sample_machine, ivc_field = ''field'',
    ivc_nclient = sample_nclient, ivc_version = ''1.30.5''\<rparr>"
  have name: "''rocky-1.30.5'' = ''rocky-'' @ ''1.30.5'' @ []" by simp
  have "md_image_lookup (ivc_details ?check) = None"
    "md_image (ivc_details ?check) = Some (by_uuid ''image'')"
    "getVMImages (ivc_nclient ?check) (by_uuid ''image'') = Inr [\<lparr>img_name = Some ''rocky-1.30.5''\<rparr>]"
    by (simp_all add: sample_machine_def)
  note iff = image_version_check_iff [OF this, of Inr]
  show ?thesis unfolding iff
    by (intro exI conjI, rule vm_image.simps, simp, simp, simp only: image_version_check.simps name)
qed

end
