(* ===== verification/MetroProps.thy ===== *)
theory MetroProps
  imports Samples
begin

text \<open>
  The properties of the metro preflight checks: the two Prism Elements and the network of a
  metro, the placement of the nodes, the identity of its sites and the names derived from it.
\<close>

text \<open>
  C29. An allowed metro check means that the metro exists, all its failure domains resolve,
  together to exactly two Prism Elements, and the subnets seen in them are consistent: no VPC,
  one supported layer, and the same set of profiles in every failure domain that has any.
\<close>

theorem metro_check_allowed:
  assumes "metroCheck_Run mc = Returns r" and "Allowed r"
  shows "\<exists>metro. kc_metro (mc_kclient mc) (mc_namespace mc) (mc_metro mc) = Inr metro \<and>
    card {u. \<exists>fd \<in> set (metro_fds metro). fd \<noteq> [] \<and>
       resolves_to (mc_kclient mc) (mc_nclient mc) (mc_namespace mc) fd u} = 2 \<and>
    (\<forall>fd \<in> set (metro_fds metro). fd \<noteq> [] \<longrightarrow>
       (\<exists>u. resolves_to (mc_kclient mc) (mc_nclient mc) (mc_namespace mc) fd u)) \<and>
    consistent_network (observed mc (metro_fds metro))"
  by (rule metroCheck_allowed [OF assms]) (intro exI conjI)

definition sample_metro_check :: metro_check where
  "sample_metro_check = \<lparr>mc_metro = ''metro'', mc_namespace = ''ns'', mc_field = ''field'',
     mc_kclient = sample_kclient, mc_nclient = sample_nclient, mc_err = None\<rparr>"

lemma sample_reads [simp]:
  "kc_failure_domain sample_kclient ns n = Inr (sample_failure_domain n)"
  "kc_metro sample_kclient ns n = Inr \<lparr>metro_fds = [''pe1'', ''pe2'']\<rparr>"
  "kc_metro_site sample_kclient ns n = Inr sample_site"
  "kc_metro_sites sample_kclient ns = Inr [sample_site]"
  "fd_pe_cluster (sample_failure_domain n) = by_uuid n"
  "fd_subnets (sample_failure_domain n) = [by_uuid ''subnet'']"
  by (simp_all add: sample_kclient_def sample_failure_domain_def)

lemma sample_metro_check_runs: "metroCheck_Run sample_metro_check = Returns allowed_result"
  by (simp add: metroCheck_Run_def sample_metro_check_def getMetro_def evaluateFailureDomains_def
      evaluate_failure_domain_def mc_getFailureDomain_def resolvePrismElement_def Let_def
      record_subnet_def sample_subnet_def add_profile_def newMetroSubnetAttributes_def
      metroPrismElementCount_def checkSubnetConsistency_def equalSubnetProfileSets_def
      subnetLayerName_def sorted_keys_def stringSetEqual_def)

theorem metro_check_allowed_witness:
  "card {u. \<exists>fd \<in> {''pe1'', ''pe2''}. resolves_to sample_kclient sample_nclient ''ns'' fd u} = 2"
  using metro_check_allowed [OF sample_metro_check_runs] by (simp add: sample_metro_check_def)

text \<open>
  The scale check allows exactly when all failure domains of the Cluster resolve and they
  name two Prism Elements in all.
\<close>

theorem scale_check_iff:
  assumes "clusterPrismElementScaleCheck_Run c = Returns r"
  shows "(Allowed r \<longleftrightarrow> spc_err c = None \<and>
      (\<exists>us. list_all2 (resolves_to (spc_kclient c) (spc_nclient c) (spc_namespace c)) (spc_names c) us \<and>
         card (set us) = 2)) \<and> explained r"
  by (rule scale_check_allowed [OF assms])

definition sample_span :: "string list \<Rightarrow> span_check" where
  "sample_span names = \<lparr>spc_names = names, spc_namespace = ''ns'', spc_field = ''field'',
     spc_kclient = sample_kclient, spc_nclient = sample_nclient, spc_err = None\<rparr>"

lemma sample_span_fields [simp]:
  "spc_names (sample_span names) = names" "spc_namespace (sample_span names) = ''ns''"
  "spc_kclient (sample_span names) = sample_kclient" "spc_err (sample_span names) = None"
  "spc_nclient (sample_span names) = sample_nclient"
  by (simp_all add: sample_span_def)

lemma sample_resolves [simp]: "resolves_to sample_kclient sample_nclient ns = (\<lambda>fd u. u = fd)"
  by (auto simp: fun_eq_iff resolves_to_def failureDomainPrismElementUUID_def)

lemma sample_resolver [simp]: "span_resolver (sample_span names) fd = Returns (Inr fd)"
  by (simp add: span_resolver_def sample_span_def failureDomainPrismElementUUID_def)

theorem scale_check_iff_witness:
  "\<exists>r. clusterPrismElementScaleCheck_Run (sample_span [''pe1'', ''pe2'']) = Returns r \<and> Allowed r"
proof -
  let ?c = "sample_span [''pe1'', ''pe2'']"
  obtain r where r: "clusterPrismElementScaleCheck_Run ?c = Returns r"
    by (simp add: clusterPrismElementScaleCheck_Run_def)
  then have "Allowed r \<longleftrightarrow> (\<exists>us. list_all2 (\<lambda>fd u. u = fd) [''pe1'', ''pe2''] us \<and> card (set us) = 2)"
    using scale_check_iff [OF r] by simp
  moreover have "list_all2 (\<lambda>fd u. u = fd) [''pe1'', ''pe2''] [''pe1'', ''pe2'']"
    "card (set [''pe1'', ''pe2'']) = 2" by simp_all
  ultimately have "Allowed r" by blast
  with r show ?thesis by blast
qed

text \<open>
  When the Prism Element that hosts Prism Central is known, the hosting check allows
  exactly when every failure domain resolves, none of them to that Prism Element.
\<close>

theorem hosting_check_iff:
  assumes "prismCentralMetroHostingCheck_Run c = Returns r" and "spc_err c = None"
    and "nc_hosting_cluster (spc_nclient c) = Inr h" and "h \<noteq> []"
  shows "(Allowed r \<longleftrightarrow>
      (\<forall>fd \<in> set (spc_names c). \<exists>u.
         resolves_to (spc_kclient c) (spc_nclient c) (spc_namespace c) fd u \<and> u \<noteq> h)) \<and>
    explained r"
  using assms hosting_loop_allowed [of c h "spc_names c" r]
  by (simp add: prismCentralMetroHostingCheck_Run_def resolves_to_def span_resolver_def)

theorem hosting_check_iff_witness:
  "\<exists>r. prismCentralMetroHostingCheck_Run (sample_span [''pe1'', ''pe2'']\<lparr>spc_nclient :=
     sample_nclient\<lparr>nc_hosting_cluster := Inr ''pe2''\<rparr>\<rparr>) = Returns r \<and> \<not> Allowed r"
proof -
  let ?nc = "sample_nclient\<lparr>nc_hosting_cluster := Inr ''pe2''\<rparr>"
  let ?c = "sample_span [''pe1'', ''pe2'']\<lparr>spc_nclient := ?nc\<rparr>"
  have cl: "getClusters ?nc i = getClusters sample_nclient i" for i
    by (simp add: getClusters_def cong: if_cong)
  have res: "failureDomainPrismElementUUID sample_kclient ?nc ''ns'' fd = Returns (Inr fd)" for fd
    by (simp add: failureDomainPrismElementUUID_def cl)
  obtain r where r: "prismCentralMetroHostingCheck_Run ?c = Returns r"
    by (simp add: prismCentralMetroHostingCheck_Run_def span_resolver_def res)
  have "\<not> Allowed r"
    using hosting_check_iff [OF r, of "''pe2''"] by (simp add: resolves_to_def res)
  with r show ?thesis by blast
qed

text \<open>
  The site identity check allows exactly when the sites can be listed and, for every
  referenced metro, no two of its sites have the same preferred failure domain or the same
  group label (sites that leave one empty are not compared on it).
\<close>

theorem metro_sites_iff:
  "Allowed (metroSitesIdentityCheck_Run kc ns field metros) \<longleftrightarrow>
     (\<exists>items. kc_metro_sites kc ns = Inr items \<and>
        list_all (\<lambda>m. sites_distinct (sites_of_metro items m)) metros)"
  by (auto simp: metroSitesIdentityCheck_Run_def metro_sites.allowed_loop verdict_simps list_all_iff
      split: sum.splits)

text \<open>
  The node pool check allows exactly when every pool is placed, and only on metro or metro
  site failure domains; a denial names a cause.
\<close>

theorem node_pools_iff:
  "(Allowed (allNodePoolsMetroCheck_Run nps) \<longleftrightarrow> list_all pool_on_metro nps) \<and>
   explained (allNodePoolsMetroCheck_Run nps)"
  by (simp add: allNodePoolsMetroCheck_Run_def pools.allowed_loop pools.explained_loop list_all_iff)

text \<open>
  The category check allows exactly when the names of the Cluster and of each metro have
  at most 40 characters together: what Prism Central's 64 leave for them.
\<close>

theorem category_bound:
  "Allowed (metroVHACategoryNameCheck_Run field c metros) \<longleftrightarrow>
     list_all (\<lambda>m. length c + length m \<le> 40) metros"
  by (simp add: metroVHACategoryNameCheck_Run_def categories.allowed_loop list_all_iff not_less)

text \<open>
  Whatever mixture of metro and metro site references the control plane and the workers
  use, every metro is checked once.
\<close>

theorem metros_checked_once:
  "distinct (map ref_metro (resolved_references (referencedMetros cd)))"
  by (rule referencedMetros_distinct)

end
