(* ===== verification/ClusterConfig.thy ===== *)
theory ClusterConfig
  imports Preflight
begin

text \<open>
  The aggregate configuration types of \<open>api/variables\<close> that the Cluster webhooks read,
  and the reply of a webhook.  Fields that the modelled code only carries along are collected
  in an \<open>other\<close> field.
\<close>

record kubelet_config =
  kl_automatic_reservations :: bool
  kl_system_reserved :: "(string \<times> string) list"
  kl_kube_reserved :: "(string \<times> string) list"
  kl_cpu_manager_policy :: "string option"
  kl_eviction_hard :: "(string \<times> string) list"
  kl_eviction_soft :: "(string \<times> string) list"
  kl_max_parallel :: "int option"

record control_plane_config =
  cpc_nutanix :: "cp_nutanix_spec option"
  cpc_kubelet :: "kubelet_config option"

record address_range =
  ar_start :: string
  ar_end :: string

record service_load_balancer =
  slb_provider :: string
  slb_ranges :: "address_range list option"

record cni_config =
  cni_provider :: string
  cni_values :: "string option option"

record addons_config =
  ad_csi :: "(string \<rightharpoonup> csi_provider) option option"
  ad_load_balancer :: "service_load_balancer option"
  ad_registry :: "string option"
  ad_cni :: "cni_config option"

text \<open>
  \<open>cni_values\<close> nests \<open>Values\<close> and the name of its \<open>SourceRef\<close>;
  \<open>ad_csi\<close> nests \<open>CSI\<close> and its map \<open>Providers\<close>; \<open>ad_registry\<close> is the
  provider of the registry addon.
\<close>

record registry_mirror =
  rm_url :: string
  rm_secret_ref :: "string option option"

record cluster_config_spec =
  ccs_nutanix :: "nutanix_spec option"
  ccs_control_plane :: "control_plane_config option"
  ccs_addons :: "addons_config option"
  ccs_max_parallel :: "int option"
  ccs_kube_proxy :: "string option"
  ccs_global_mirror :: "registry_mirror option"
  ccs_other :: string

text \<open>
  \<open>ccs_kube_proxy\<close> is the mode of \<open>KubeProxy\<close>; \<open>rm_secret_ref\<close> nests
  \<open>Credentials\<close> and the name of its \<open>SecretRef\<close>.
\<close>

record worker_config_spec =
  wcs_nutanix :: "machine_details option"
  wcs_kubelet :: "kubelet_config option"
  wcs_other :: string

abbreviation ccs_cp_nutanix :: "cluster_config_spec \<Rightarrow> cp_nutanix_spec option" where
  "ccs_cp_nutanix cfg \<equiv> Option.bind (ccs_control_plane cfg) cpc_nutanix"

text \<open>\<open>MarshalToClusterVariable\<close>: \<open>json.Marshal\<close> is the parameter.\<close>

type_synonym 'a json_encoder = "'a \<Rightarrow> string + string"

definition MarshalToClusterVariable ::
    "'a json_encoder \<Rightarrow> string \<Rightarrow> 'a \<Rightarrow> string + cluster_variable" where
  "MarshalToClusterVariable encode name obj =
     (case encode obj of
        Inl err \<Rightarrow> Inl (''failed to marshal variable value '' @ quoted name @ '': '' @ err)
      | Inr marshaled \<Rightarrow> Inr \<lparr>var_name = name, var_raw = marshaled\<rparr>)"

section \<open>What the JSON text determines\<close>

text \<open>
  What of a configuration is in its JSON text.  A map that is nil and one that is empty are both
  left out when the field is \<open>omitempty\<close>, as \<open>Parameters\<close> of a storage class is; and
  the keys of a map are sorted, so the order of the entries of the lists that stand for maps
  (the storage classes, and the reservations and thresholds of a kubelet) does not matter.
\<close>

definition parameters_of :: "storage_class_config \<Rightarrow> string \<rightharpoonup> string" where
  "parameters_of sc = (case sc_parameters sc of None \<Rightarrow> Map.empty | Some ps \<Rightarrow> ps)"

definition class_entries :: "(string \<times> storage_class_config) list \<Rightarrow> (string \<times> (string \<rightharpoonup> string)) multiset"
  where
  "class_entries entries = image_mset (\<lambda>(name, sc). (name, parameters_of sc)) (mset entries)"

definition provider_content ::
    "csi_provider \<Rightarrow> (string \<times> (string \<rightharpoonup> string)) multiset option" where
  "provider_content p = map_option class_entries (csi_storage_classes p)"

definition addons_content where
  "addons_content a =
     (map_option (map_option (\<lambda>providers. map_option provider_content \<circ> providers)) (ad_csi a),
      ad_load_balancer a, ad_registry a, ad_cni a)"

definition kubelet_content where
  "kubelet_content k =
     (kl_automatic_reservations k, mset (kl_system_reserved k), mset (kl_kube_reserved k),
      kl_cpu_manager_policy k, mset (kl_eviction_hard k), mset (kl_eviction_soft k),
      kl_max_parallel k)"

definition control_plane_content where
  "control_plane_content p = (cpc_nutanix p, map_option kubelet_content (cpc_kubelet p))"

definition json_content where
  "json_content x =
     (ccs_nutanix x, map_option control_plane_content (ccs_control_plane x),
      map_option addons_content (ccs_addons x), ccs_max_parallel x, ccs_kube_proxy x,
      ccs_global_mirror x, ccs_other x)"

definition same_json :: "cluster_config_spec \<Rightarrow> cluster_config_spec \<Rightarrow> bool" where
  "same_json x y \<longleftrightarrow> json_content x = json_content y"

lemma same_json_refl [simp]: "same_json x x"
  by (simp add: same_json_def)

text \<open>
  The documented behaviour of \<open>encoding/json\<close> on these types: the text is determined by the
  configuration as above, and decoding the text of a configuration of \<open>W\<close> gives one with the
  same text.  \<open>W\<close> is the set of the configurations that the caller writes, which come from
  decoded ones (so that their strings are valid UTF-8).
\<close>

definition json_faithful ::
    "cluster_config_spec set \<Rightarrow> cluster_config_spec json_encoder \<Rightarrow>
     cluster_config_spec json_decoder \<Rightarrow> bool" where
  "json_faithful W encode decode \<longleftrightarrow>
     (\<forall>x y. same_json x y \<longrightarrow> encode x = encode y) \<and>
     (\<forall>x \<in> W. \<forall>raw. encode x = Inr raw \<longrightarrow> (\<exists>y. decode raw = (y, None) \<and> same_json x y))"

text \<open>Marshalling and decoding give a Cluster back.\<close>

definition cluster_round_trip ::
    "('raw \<Rightarrow> string + cluster) \<Rightarrow> (cluster \<Rightarrow> string + 'raw) \<Rightarrow> bool" where
  "cluster_round_trip decode marshal \<longleftrightarrow> (\<forall>c raw. marshal c = Inr raw \<longrightarrow> decode raw = Inr c)"

datatype 'raw reply = Reply response | Patched 'raw 'raw

text \<open>\<open>Patched original marshaled\<close> stands for \<open>admission.PatchResponseFromRaw\<close>.\<close>

lemma Unmarshal_after_Update:
  assumes "json_faithful W encode decode" and "cfg \<in> W"
    and "MarshalToClusterVariable encode ClusterConfigVariableName cfg = Inr v"
  obtains y where "same_json cfg y"
    "\<And>vars. UnmarshalClusterConfigVariable decode (UpdateClusterVariable v vars) = Inr (Some y)"
    "MarshalToClusterVariable encode ClusterConfigVariableName y = Inr v"
proof -
  from assms(3) have raw: "encode cfg = Inr (var_raw v)" "var_name v = ClusterConfigVariableName"
    by (auto simp: MarshalToClusterVariable_def split: sum.splits)
  obtain y where y: "decode (var_raw v) = (y, None)" "same_json cfg y"
    using assms(1,2) raw(1) unfolding json_faithful_def by blast
  then have "encode y = encode cfg" using assms(1) unfolding json_faithful_def by metis
  then have "MarshalToClusterVariable encode ClusterConfigVariableName y = Inr v"
    using assms(3) by (simp add: MarshalToClusterVariable_def)
  moreover have "UnmarshalClusterConfigVariable decode (UpdateClusterVariable v vars) = Inr (Some y)"
    for vars
    using y(1) raw(2)
    by (simp add: UnmarshalClusterConfigVariable_def UnmarshalNamedVariable_def
        GetClusterVariableByName_Update)
  ultimately show ?thesis using that y(2) by blast
qed

text \<open>A configuration that was read is the value of some text.\<close>

lemma Unmarshal_decoded:
  assumes "UnmarshalClusterConfigVariable decode vars = Inr (Some cfg)"
  shows "\<exists>raw. decode raw = (cfg, None)"
  using assms
  by (auto simp: UnmarshalClusterConfigVariable_def UnmarshalNamedVariable_def
      split: option.splits prod.splits)

end
