(* ===== verification/MetroDefaults.thy ===== *)
theory MetroDefaults
  imports ClusterConfig FailureDomains
begin

text \<open>
  \<open>pkg/metro/metro.go\<close> and \<open>pkg/webhook/cluster/metro_clusters.go\<close>: a metro
  Cluster must not pin CSI volumes to a Prism Element.  The defaulting webhook sets
  \<open>computeAffinity\<close> to \<open>DISABLED\<close> on the storage classes that do not set it; the
  validating webhook refuses any other value.
\<close>

section \<open>Metro Clusters\<close>

definition IsMetroFailureDomain :: "string \<Rightarrow> bool" where
  "IsMetroFailureDomain fd \<longleftrightarrow> has_prefix fd ''NutanixMetro/'' \<or> has_prefix fd ''NutanixMetroSite/''"

definition IsMetroCluster :: "cluster_config_spec json_decoder \<Rightarrow> cluster \<Rightarrow> bool" where
  "IsMetroCluster decode c =
     (let t = cl_topology c
      in if \<not> IsDefined t then False
         else (case UnmarshalClusterConfigVariable decode (top_variables t) of
                 Inr (Some cfg) \<Rightarrow>
                   (case ccs_cp_nutanix cfg of
                      None \<Rightarrow> False
                    | Some cpn \<Rightarrow> list_ex IsMetroFailureDomain (cpn_failure_domains cpn))
               | _ \<Rightarrow> False) \<or>
              list_ex (\<lambda>md. IsMetroFailureDomain (mdep_failure_domain md))
                (top_machine_deployments t))"

section \<open>Compute affinity\<close>

definition ComputeAffinityParameter :: string where
  "ComputeAffinityParameter = ''computeAffinity''"

definition ComputeAffinityDisabled :: string where
  "ComputeAffinityDisabled = ''DISABLED''"

definition CSIProviderNutanix :: string where
  "CSIProviderNutanix = ''nutanix''"

definition nutanixCSIProvider :: "cluster_config_spec option \<Rightarrow> csi_provider option" where
  "nutanixCSIProvider cfg =
     Option.bind cfg (\<lambda>c.
     Option.bind (ccs_addons c) (\<lambda>a.
     Option.bind (ad_csi a) (\<lambda>csi.
     Option.bind csi (\<lambda>providers. providers CSIProviderNutanix))))"

text \<open>A lookup in a map that may be nil; a missing key reads as the empty string.\<close>

definition affinity_of :: "storage_class_config \<Rightarrow> string" where
  "affinity_of sc =
     (case Option.bind (sc_parameters sc) (\<lambda>ps. ps ComputeAffinityParameter) of
        None \<Rightarrow> [] | Some v \<Rightarrow> v)"

definition default_affinity :: "storage_class_config \<Rightarrow> storage_class_config" where
  "default_affinity sc =
     (if affinity_of sc \<noteq> [] then sc
      else let ps = (case sc_parameters sc of None \<Rightarrow> Map.empty | Some ps \<Rightarrow> ps)
           in sc\<lparr>sc_parameters := Some (ps(ComputeAffinityParameter \<mapsto> ComputeAffinityDisabled))\<rparr>)"

definition default_provider :: "csi_provider \<Rightarrow> csi_provider" where
  "default_provider p =
     p\<lparr>csi_storage_classes :=
       map_option (map (\<lambda>(name, sc). (name, default_affinity sc))) (csi_storage_classes p)\<rparr>"

text \<open>Storing the provider back; the callers have checked that the chain is not nil.\<close>

definition set_nutanix_provider :: "csi_provider \<Rightarrow> cluster_config_spec \<Rightarrow> cluster_config_spec" where
  "set_nutanix_provider p cfg =
     cfg\<lparr>ccs_addons := map_option (\<lambda>a.
       a\<lparr>ad_csi := map_option (map_option (\<lambda>m. m(CSIProviderNutanix \<mapsto> p))) (ad_csi a)\<rparr>)
       (ccs_addons cfg)\<rparr>"

definition set_variables :: "cluster_variable list \<Rightarrow> cluster \<Rightarrow> cluster" where
  "set_variables vars c =
     c\<lparr>cl_spec := (cl_spec c)\<lparr>cs_topology := (cl_topology c)\<lparr>top_variables := vars\<rparr>\<rparr>\<rparr>"

definition unmarshal_failure :: "string \<Rightarrow> string" where
  "unmarshal_failure err =
     ''failed to unmarshal cluster topology variable '' @ quoted ClusterConfigVariableName @ '': '' @
     err"

definition DefaultCSIComputeAffinity ::
    "cluster_config_spec json_decoder \<Rightarrow> cluster_config_spec json_encoder \<Rightarrow> cluster \<Rightarrow>
     string + cluster" where
  "DefaultCSIComputeAffinity decode encode c =
     (case UnmarshalClusterConfigVariable decode (top_variables (cl_topology c)) of
        Inl err \<Rightarrow> Inl (unmarshal_failure err)
      | Inr clusterConfig \<Rightarrow>
          (case (clusterConfig, nutanixCSIProvider clusterConfig) of
             (Some cfg, Some provider) \<Rightarrow>
               (case MarshalToClusterVariable encode ClusterConfigVariableName
                       (set_nutanix_provider (default_provider provider) cfg) of
                  Inl err \<Rightarrow> Inl (''failed to marshal cluster variable: '' @ err)
                | Inr variable \<Rightarrow>
                    Inr (set_variables
                      (UpdateClusterVariable variable (top_variables (cl_topology c))) c))
           | _ \<Rightarrow> Inr c))"

definition affinity_error :: "string \<times> storage_class_config \<Rightarrow> string option" where
  "affinity_error entry =
     (let val = affinity_of (snd entry)
      in if val = [] \<or> val = ComputeAffinityDisabled then None
         else Some (''computeAffinity '' @ quoted val @ '' on storage class '' @
           quoted (fst entry) @ '' is not supported for the metro cluster''))"

text \<open>
  \<open>errors.Join\<close>: the errors, one for each line; none is no error.  Go ranges over the map of
  the storage classes in a random order, which is the order of the list here: the order of the
  lines is not determined, whether there is an error is.
\<close>

definition ValidateCSIComputeAffinity ::
    "cluster_config_spec json_decoder \<Rightarrow> cluster \<Rightarrow> string option" where
  "ValidateCSIComputeAffinity decode c =
     (case UnmarshalClusterConfigVariable decode (top_variables (cl_topology c)) of
        Inl err \<Rightarrow> Some (unmarshal_failure err)
      | Inr clusterConfig \<Rightarrow>
          (case Option.bind (nutanixCSIProvider clusterConfig) csi_storage_classes of
             None \<Rightarrow> None
           | Some entries \<Rightarrow>
               (case List.map_filter affinity_error entries of
                  [] \<Rightarrow> None
                | errs \<Rightarrow> Some (join_with [char_of (10 :: nat)] errs))))"

section \<open>The webhooks\<close>

definition metro_defaulter ::
    "('raw \<Rightarrow> string + cluster) \<Rightarrow> (cluster \<Rightarrow> string + 'raw) \<Rightarrow>
     cluster_config_spec json_decoder \<Rightarrow> cluster_config_spec json_encoder \<Rightarrow>
     'raw request \<Rightarrow> 'raw reply" where
  "metro_defaulter decode_req marshal decode encode req =
     (if req_operation req = Delete then Reply (admission_Allowed [])
      else case decode_req (req_object req) of
        Inl err \<Rightarrow> Reply (admission_Errored 400 err)
      | Inr c \<Rightarrow>
          if \<not> IsDefined (cl_topology c) \<or> \<not> IsMetroCluster decode c
          then Reply (admission_Allowed [])
          else case DefaultCSIComputeAffinity decode encode c of
            Inl err \<Rightarrow> Reply (admission_Errored 400 err)
          | Inr c' \<Rightarrow>
              (case marshal c' of
                 Inl err \<Rightarrow> Reply (admission_Errored 500 err)
               | Inr marshaledCluster \<Rightarrow> Patched (req_object req) marshaledCluster))"

definition metro_validate ::
    "('raw \<Rightarrow> string + cluster) \<Rightarrow> cluster_config_spec json_decoder \<Rightarrow> 'raw request \<Rightarrow>
     response" where
  "metro_validate decode_req decode req =
     (if req_operation req = Delete then admission_Allowed []
      else case decode_req (req_object req) of
        Inl err \<Rightarrow> admission_Errored 400 err
      | Inr c \<Rightarrow>
          if \<not> IsDefined (cl_topology c) \<or> \<not> IsMetroCluster decode c
          then admission_Allowed []
          else case ValidateCSIComputeAffinity decode c of
            Some err \<Rightarrow> admission_Denied err
          | None \<Rightarrow> admission_Allowed [])"

section \<open>Defaulting\<close>

lemma IsMetroFailureDomain_reference:
  "IsMetroFailureDomain fd \<longleftrightarrow> isNutanixMetroFailureDomain fd \<or> isNutanixMetroSiteFailureDomain fd"
  by (simp add: IsMetroFailureDomain_def isNutanixMetroFailureDomain_def
      isNutanixMetroSiteFailureDomain_def metroFailureDomainPrefix_def
      metroSiteFailureDomainPrefix_def)

lemma affinity_default:
  "affinity_of (default_affinity sc) =
     (if affinity_of sc = [] then ComputeAffinityDisabled else affinity_of sc)"
  by (auto simp: default_affinity_def affinity_of_def split: option.splits)

lemma default_affinity_idem: "default_affinity (default_affinity sc) = default_affinity sc"
  using affinity_default [of sc]
  by (auto simp: default_affinity_def [of "default_affinity sc"] ComputeAffinityDisabled_def
      split: if_splits)

lemma default_provider_idem: "default_provider (default_provider p) = default_provider p"
  by (cases "csi_storage_classes p")
    (auto simp: default_provider_def default_affinity_idem comp_def split_def)

lemma nutanixCSIProvider_set:
  assumes "nutanixCSIProvider (Some cfg) = Some p"
  shows "nutanixCSIProvider (Some (set_nutanix_provider q cfg)) = Some q"
  using assms
  by (auto simp: nutanixCSIProvider_def set_nutanix_provider_def bind_eq_Some_conv)

lemma set_nutanix_provider_twice:
  "set_nutanix_provider p (set_nutanix_provider q cfg) = set_nutanix_provider p cfg"
  by (cases "ccs_addons cfg")
    (auto simp: set_nutanix_provider_def option.map_comp comp_def)

lemma set_variables_topology:
  "top_variables (cl_topology (set_variables vs c)) = vs"
  "top_machine_deployments (cl_topology (set_variables vs c)) =
     top_machine_deployments (cl_topology c)"
  "set_variables vs (set_variables ws c) = set_variables vs c"
  by (auto simp: set_variables_def)

lemma DefaultCSIComputeAffinity_cases:
  assumes "DefaultCSIComputeAffinity decode encode c = Inr c'"
  shows "(c' = c \<and> (\<exists>cc. UnmarshalClusterConfigVariable decode (top_variables (cl_topology c)) = Inr cc \<and>
        nutanixCSIProvider cc = None)) \<or>
    (\<exists>cfg p v. UnmarshalClusterConfigVariable decode (top_variables (cl_topology c)) = Inr (Some cfg) \<and>
       nutanixCSIProvider (Some cfg) = Some p \<and>
       MarshalToClusterVariable encode ClusterConfigVariableName
         (set_nutanix_provider (default_provider p) cfg) = Inr v \<and>
       c' = set_variables (UpdateClusterVariable v (top_variables (cl_topology c))) c)"
proof -
  obtain cc where cc: "UnmarshalClusterConfigVariable decode (top_variables (cl_topology c)) = Inr cc"
    using assms by (auto simp: DefaultCSIComputeAffinity_def split: sum.splits)
  show ?thesis
  proof (cases "nutanixCSIProvider cc")
    case None
    with assms cc show ?thesis
      by (auto simp: DefaultCSIComputeAffinity_def split: option.splits)
  next
    case (Some p)
    then obtain cfg where "cc = Some cfg" by (cases cc) (auto simp: nutanixCSIProvider_def)
    with assms cc Some show ?thesis
      by (auto simp: DefaultCSIComputeAffinity_def split: sum.splits)
  qed
qed

text \<open>The configurations that the webhook writes.\<close>

definition defaulted_configs ::
    "cluster_config_spec json_decoder \<Rightarrow> cluster_config_spec set" where
  "defaulted_configs decode =
     {set_nutanix_provider (default_provider p) cfg |p cfg.
        nutanixCSIProvider (Some cfg) = Some p \<and> (\<exists>raw. decode raw = (cfg, None))}"

lemma nutanixCSIProvider_same:
  assumes "same_json x y" "nutanixCSIProvider (Some x) = Some p"
  obtains q where "nutanixCSIProvider (Some y) = Some q" "provider_content q = provider_content p"
proof -
  from assms(2) obtain a m where x: "ccs_addons x = Some a" "ad_csi a = Some (Some m)"
    "m CSIProviderNutanix = Some p"
    by (auto simp: nutanixCSIProvider_def bind_eq_Some_conv)
  have "map_option addons_content (ccs_addons y) = map_option addons_content (ccs_addons x)"
    using assms(1) by (simp add: same_json_def json_content_def)
  then obtain b where b: "ccs_addons y = Some b" "addons_content b = addons_content a"
    using x(1) by (cases "ccs_addons y") auto
  then obtain n where n: "ad_csi b = Some (Some n)"
    "map_option provider_content \<circ> n = map_option provider_content \<circ> m"
    using x(2) by (auto simp: addons_content_def)
  obtain q where "n CSIProviderNutanix = Some q" "provider_content q = provider_content p"
    using fun_cong [OF n(2), of CSIProviderNutanix] x(3) by auto
  then show ?thesis using that b(1) n(1) by (simp add: nutanixCSIProvider_def)
qed

text \<open>After a run that wrote the configuration: it is read back as one with the same text.\<close>

lemma DefaultCSIComputeAffinity_config:
  assumes "json_faithful (defaulted_configs decode) encode decode"
    and "DefaultCSIComputeAffinity decode encode c = Inr c'"
  obtains (unchanged) cc where
    "UnmarshalClusterConfigVariable decode (top_variables (cl_topology c)) = Inr cc"
    "nutanixCSIProvider cc = None" "c' = c"
  | (written) cfg p y q v where
    "UnmarshalClusterConfigVariable decode (top_variables (cl_topology c)) = Inr (Some cfg)"
    "nutanixCSIProvider (Some cfg) = Some p"
    "UnmarshalClusterConfigVariable decode (top_variables (cl_topology c')) = Inr (Some y)"
    "nutanixCSIProvider (Some y) = Some q" "provider_content q = provider_content (default_provider p)"
    "MarshalToClusterVariable encode ClusterConfigVariableName y = Inr v"
    "c' = set_variables (UpdateClusterVariable v (top_variables (cl_topology c))) c"
  using DefaultCSIComputeAffinity_cases [OF assms(2)]
proof (elim disjE exE conjE)
  fix cfg p v
  assume cfg: "UnmarshalClusterConfigVariable decode (top_variables (cl_topology c)) = Inr (Some cfg)"
    and p: "nutanixCSIProvider (Some cfg) = Some p"
    and v: "MarshalToClusterVariable encode ClusterConfigVariableName
         (set_nutanix_provider (default_provider p) cfg) = Inr v"
    and c': "c' = set_variables (UpdateClusterVariable v (top_variables (cl_topology c))) c"
  have "set_nutanix_provider (default_provider p) cfg \<in> defaulted_configs decode"
    using p Unmarshal_decoded [OF cfg] unfolding defaulted_configs_def by blast
  from assms(1) this v obtain y where y:
    "same_json (set_nutanix_provider (default_provider p) cfg) y"
    "\<And>vars. UnmarshalClusterConfigVariable decode (UpdateClusterVariable v vars) = Inr (Some y)"
    "MarshalToClusterVariable encode ClusterConfigVariableName y = Inr v"
    by (rule Unmarshal_after_Update) blast
  obtain q where q: "nutanixCSIProvider (Some y) = Some q" "provider_content q = provider_content (default_provider p)"
    by (rule nutanixCSIProvider_same [OF y(1) nutanixCSIProvider_set [OF p]])
  have "UnmarshalClusterConfigVariable decode (top_variables (cl_topology c')) = Inr (Some y)"
    by (simp add: c' set_variables_topology y(2))
  then show ?thesis by (rule written [OF cfg p _ q y(3) c'])
qed (rule unchanged)

text \<open>What the affinities depend on.\<close>

lemma affinity_of_parameters:
  "affinity_of sc = (case parameters_of sc ComputeAffinityParameter of None \<Rightarrow> [] | Some v \<Rightarrow> v)"
  by (cases "sc_parameters sc") (simp_all add: affinity_of_def parameters_of_def)

definition affinities :: "csi_provider \<Rightarrow> (string \<times> string) set" where
  "affinities p =
     (case csi_storage_classes p of None \<Rightarrow> {}
      | Some entries \<Rightarrow> (\<lambda>(name, sc). (name, affinity_of sc)) ` set entries)"

lemma class_entries_affinities:
  assumes "class_entries xs = class_entries ys"
  shows "(\<lambda>(name, sc). (name, affinity_of sc)) ` set xs = (\<lambda>(name, sc). (name, affinity_of sc)) ` set ys"
proof -
  let ?f = "\<lambda>(name, ps). (name, case ps ComputeAffinityParameter of None \<Rightarrow> [] | Some v \<Rightarrow> v)"
  have "(\<lambda>(name, sc). (name, affinity_of sc)) ` set zs = ?f ` set_mset (class_entries zs)"
    for zs :: "(string \<times> storage_class_config) list"
    by (simp add: class_entries_def affinity_of_parameters image_image split_def)
  then show ?thesis using assms by simp
qed

lemma affinities_same:
  assumes "provider_content q = provider_content p"
  shows "affinities q = affinities p"
proof (cases "csi_storage_classes p")
  case None
  with assms show ?thesis by (simp add: provider_content_def affinities_def)
next
  case (Some xs)
  with assms obtain ys where ys: "csi_storage_classes q = Some ys" "class_entries ys = class_entries xs"
    by (auto simp: provider_content_def)
  show ?thesis using class_entries_affinities [OF ys(2)] by (simp add: affinities_def Some ys(1))
qed

lemma affinities_default:
  "affinities (default_provider p) =
     (\<lambda>(name, a). (name, if a = [] then ComputeAffinityDisabled else a)) ` affinities p"
  by (cases "csi_storage_classes p")
    (auto simp: affinities_def default_provider_def affinity_default image_image split_def)

text \<open>A provider whose classes all set the affinity is left alone.\<close>

lemma default_provider_set:
  assumes "\<forall>(name, a) \<in> affinities p. a \<noteq> []"
  shows "default_provider p = p"
proof (cases "csi_storage_classes p")
  case None
  then show ?thesis by (simp add: default_provider_def)
next
  case (Some entries)
  have "map (\<lambda>(name, sc). (name, default_affinity sc)) entries = entries"
    by (rule map_idI) (use assms Some in \<open>auto simp: affinities_def default_affinity_def\<close>)
  with Some show ?thesis by (simp add: default_provider_def)
qed

lemma set_nutanix_provider_same:
  assumes "nutanixCSIProvider (Some cfg) = Some p"
  shows "set_nutanix_provider p cfg = cfg"
proof -
  from assms obtain a m where x: "ccs_addons cfg = Some a" "ad_csi a = Some (Some m)"
    "m CSIProviderNutanix = Some p"
    by (auto simp: nutanixCSIProvider_def bind_eq_Some_conv)
  then have "m(CSIProviderNutanix \<mapsto> p) = m" by (simp add: fun_upd_idem)
  with x show ?thesis by (simp add: set_nutanix_provider_def)
qed

lemma Validate_affinities:
  assumes "UnmarshalClusterConfigVariable decode (top_variables (cl_topology c)) = Inr (Some cfg)"
    and "nutanixCSIProvider (Some cfg) = Some p"
  shows "ValidateCSIComputeAffinity decode c = None \<longleftrightarrow>
    (\<forall>(name, a) \<in> affinities p. a = [] \<or> a = ComputeAffinityDisabled)"
proof (cases "csi_storage_classes p")
  case None
  with assms show ?thesis by (simp add: ValidateCSIComputeAffinity_def affinities_def)
next
  case (Some entries)
  have "List.map_filter affinity_error entries = [] \<longleftrightarrow> (\<forall>e \<in> set entries. affinity_error e = None)"
    by (induction entries) (auto simp: map_filter_simps split: option.splits)
  also have "\<dots> \<longleftrightarrow> (\<forall>(name, a) \<in> affinities p. a = [] \<or> a = ComputeAffinityDisabled)"
    using Some by (auto simp: affinities_def affinity_error_def Let_def)
  finally show ?thesis
    using assms Some
    by (cases "List.map_filter affinity_error entries") (simp_all add: ValidateCSIComputeAffinity_def)
qed

lemma ccs_cp_nutanix_set: "ccs_cp_nutanix (set_nutanix_provider p cfg) = ccs_cp_nutanix cfg"
  by (simp add: set_nutanix_provider_def)

lemma IsMetroCluster_set_variables:
  assumes "UnmarshalClusterConfigVariable decode (top_variables (cl_topology c)) = Inr (Some cfg)"
    "UnmarshalClusterConfigVariable decode vars = Inr (Some (set_nutanix_provider p cfg))"
    "IsDefined (cl_topology (set_variables vars c))" "IsDefined (cl_topology c)"
  shows "IsMetroCluster decode (set_variables vars c) = IsMetroCluster decode c"
  using assms by (simp add: IsMetroCluster_def set_variables_topology ccs_cp_nutanix_set)

lemma defaulted_nonempty:
  assumes "provider_content q = provider_content (default_provider p)"
  shows "\<forall>(name, a) \<in> affinities q. a \<noteq> []"
  unfolding affinities_same [OF assms] affinities_default
  by (auto simp: ComputeAffinityDisabled_def split: if_splits)

lemma DefaultCSI_Validate:
  assumes "json_faithful (defaulted_configs decode) encode decode"
    and "DefaultCSIComputeAffinity decode encode c = Inr c'"
  shows "ValidateCSIComputeAffinity decode c' = None \<longleftrightarrow> ValidateCSIComputeAffinity decode c = None"
  using assms
proof (cases rule: DefaultCSIComputeAffinity_config)
  case (written cfg p y q v)
  show ?thesis
    unfolding Validate_affinities [OF written(1,2)] Validate_affinities [OF written(3,4)]
      affinities_same [OF written(5)] affinities_default
    by (auto split: if_splits)
qed simp

lemma DefaultCSI_disables:
  assumes "json_faithful (defaulted_configs decode) encode decode"
    and "DefaultCSIComputeAffinity decode encode c = Inr c'"
    and "UnmarshalClusterConfigVariable decode (top_variables (cl_topology c')) = Inr cc"
    and "nutanixCSIProvider cc = Some r"
  shows "\<forall>(name, a) \<in> affinities r. a \<noteq> []"
  using assms(1,2)
proof (cases rule: DefaultCSIComputeAffinity_config)
  case (unchanged cc')
  then show ?thesis using assms(3,4) by simp
next
  case (written cfg p y q v)
  then have "r = q" using assms(3,4) by simp
  then show ?thesis using defaulted_nonempty [OF written(5)] by simp
qed

lemma DefaultCSI_idem:
  assumes "json_faithful (defaulted_configs decode) encode decode"
    and "DefaultCSIComputeAffinity decode encode c = Inr c'"
  shows "DefaultCSIComputeAffinity decode encode c' = Inr c'"
  using assms
proof (cases rule: DefaultCSIComputeAffinity_config)
  case (unchanged cc)
  then show ?thesis using assms(2) by simp
next
  case (written cfg p y q v)
  have "set_nutanix_provider (default_provider q) y = y"
    using default_provider_set [OF defaulted_nonempty [OF written(5)]]
      set_nutanix_provider_same [OF written(4)] by simp
  then have "DefaultCSIComputeAffinity decode encode c' =
      Inr (set_variables (UpdateClusterVariable v (top_variables (cl_topology c'))) c')"
    using written(3,4,6) by (simp add: DefaultCSIComputeAffinity_def)
  then show ?thesis
    by (simp add: written(7) set_variables_topology UpdateClusterVariable_idem)
qed

end
