(* ===== verification/NutanixValidator.thy ===== *)
theory NutanixValidator
  imports ClusterConfig Netip
begin

text \<open>
  \<open>pkg/webhook/cluster/nutanix_validator.go\<close> and \<open>pkg/helpers/helpers.go\<close>: a
  node pool is placed either by failure domains or by cluster and subnets, never both; the
  Prism Central address differs from the control plane's and lies outside the load balancer's
  ranges.  The field errors of the Kubernetes library are values; how a list of them is
  printed is a parameter.
\<close>

section \<open>Addresses\<close>

definition IsIPInRange :: "string \<Rightarrow> string \<Rightarrow> string \<Rightarrow> string + bool" where
  "IsIPInRange startIP endIP targetIP =
     (case ParseAddr startIP of
        Inl err \<Rightarrow> Inl (''invalid start IP: '' @ err)
      | Inr start \<Rightarrow>
     (case ParseAddr endIP of
        Inl err \<Rightarrow> Inl (''invalid end IP: '' @ err)
      | Inr ende \<Rightarrow>
     (case ParseAddr targetIP of
        Inl err \<Rightarrow> Inl (''invalid target IP: '' @ err)
      | Inr target \<Rightarrow> Inr (addr_Compare start target \<le> 0 \<and> addr_Compare ende target \<ge> 0))))"

definition ParseIP :: "url_parser \<Rightarrow> prism_central_endpoint \<Rightarrow> string + addr" where
  "ParseIP parse_uri s =
     (case ParseURL parse_uri s of
        Inl err \<Rightarrow> Inl err
      | Inr (pcHostname, _) \<Rightarrow>
          (case ParseAddr pcHostname of
             Inl err \<Rightarrow> Inl (''error parsing Prism Central IP: '' @ err)
           | Inr pcIP \<Rightarrow> Inr pcIP))"

definition validatePrismCentralIPDoesNotEqualControlPlaneIP ::
    "url_parser \<Rightarrow> prism_central_endpoint \<Rightarrow> control_plane_endpoint \<Rightarrow> string option" where
  "validatePrismCentralIPDoesNotEqualControlPlaneIP parse_uri pcEndpoint cpEndpoint =
     (case ParseAddr (VirtualIPAddress cpEndpoint) of
        Inl _ \<Rightarrow> None
      | Inr controlPlaneVIP \<Rightarrow>
     (case ParseIP parse_uri pcEndpoint of
        Inl _ \<Rightarrow> None
      | Inr pcIP \<Rightarrow>
          if addr_Compare pcIP controlPlaneVIP = 0
          then Some (''Prism Central and control plane endpoint cannot have the same IP '' @
                 quoted (addr_String pcIP))
          else None))"

fun check_ranges :: "addr \<Rightarrow> address_range list \<Rightarrow> string option" where
  "check_ranges pcIP [] = None"
| "check_ranges pcIP (pool # pools) =
     (let rng = quoted (ar_start pool) @ ''-'' @ quoted (ar_end pool)
      in case IsIPInRange (ar_start pool) (ar_end pool) (addr_String pcIP) of
           Inl err \<Rightarrow>
             Some (''failed to check if Prism Central IP '' @ quoted (addr_String pcIP) @
               '' is part of MetalLB address range '' @ rng @ '': '' @ err)
         | Inr isIPInRange \<Rightarrow>
             if isIPInRange
             then Some (''Prism Central IP '' @ quoted (addr_String pcIP) @
               '' must not be part of MetalLB address range '' @ rng)
             else check_ranges pcIP pools)"

definition validatePrismCentralIPNotInLoadBalancerIPRange ::
    "url_parser \<Rightarrow> prism_central_endpoint \<Rightarrow> service_load_balancer option \<Rightarrow> string option" where
  "validatePrismCentralIPNotInLoadBalancerIPRange parse_uri pcEndpoint lb =
     (case lb of
        None \<Rightarrow> None
      | Some l \<Rightarrow>
          if slb_provider l \<noteq> ''MetalLB'' then None
          else case slb_ranges l of
            None \<Rightarrow> None
          | Some ranges \<Rightarrow>
              (case ParseIP parse_uri pcEndpoint of
                 Inl _ \<Rightarrow> None
               | Inr pcIP \<Rightarrow> check_ranges pcIP ranges))"

section \<open>Placement of the node pools\<close>

datatype field_error =
    Required string string
  | Forbidden string string
  | InternalErr string string

definition validateFailureDomainXORMachineDetails ::
    "string \<Rightarrow> bool \<Rightarrow> machine_details \<Rightarrow> string \<Rightarrow> field_error list" where
  "validateFailureDomainXORMachineDetails fldPath hasFailureDomains machineDetails term =
     (let verb = (if term = ''failureDomains'' then ''are'' else ''is'');
          (hasCluster, hasSubnets) = HasClusterAndSubnets machineDetails;
          missing = (\<lambda>f. Required (fldPath @ ''.'' @ f)
            (''\"'' @ f @ ''\" must be set when '' @ term @ '' '' @ verb @ '' not configured.''));
          surplus = (\<lambda>f. Forbidden (fldPath @ ''.'' @ f)
            (''\"'' @ f @ ''\" must not be set when '' @ term @ '' '' @ verb @ '' configured.''))
      in if \<not> hasFailureDomains then
           (if \<not> hasCluster then [missing ''cluster''] else []) @
           (if \<not> hasSubnets then [missing ''subnets''] else [])
         else
           (if hasCluster then [surplus ''cluster''] else []) @
           (if hasSubnets then [surplus ''subnets''] else []))"

definition validateControlPlaneFailureDomainConfig :: "cluster_config_spec \<Rightarrow> field_error list" where
  "validateControlPlaneFailureDomainConfig cfg =
     (case ccs_cp_nutanix cfg of
        None \<Rightarrow> []
      | Some cpn \<Rightarrow>
          validateFailureDomainXORMachineDetails
            ''spec.topology.variables.clusterConfig.value.controlPlane.nutanix.machineDetails''
            (cpn_failure_domains cpn \<noteq> []) (cpn_details cpn) ''failureDomains'')"

definition workerConfigVarPath :: string where
  "workerConfigVarPath = ''spec.topology.variables.workerConfig''"

definition workerConfigMDVarOverridePath :: string where
  "workerConfigMDVarOverridePath =
     ''spec.topology.workers.machineDeployments.variables.overrides.workerConfig''"

text \<open>The worker configuration of a MachineDeployment, with its path and what failed.\<close>

definition effective_worker_config ::
    "worker_config_spec json_decoder \<Rightarrow> worker_config_spec option \<Rightarrow> machine_deployment \<Rightarrow>
     field_error list \<times> (worker_config_spec option \<times> string)" where
  "effective_worker_config decode defaultWorkerConfig md =
     (case UnmarshalWorkerConfigVariable decode (mdep_overrides md) of
        Inl err \<Rightarrow>
          ([InternalErr workerConfigMDVarOverridePath
              (''failed to unmarshal worker overrides variable '' @
               quoted WorkerConfigVariableName @ '': '' @ err)],
           (defaultWorkerConfig, workerConfigVarPath))
      | Inr None \<Rightarrow> ([], (defaultWorkerConfig, workerConfigVarPath))
      | Inr (Some w) \<Rightarrow> ([], (Some w, workerConfigMDVarOverridePath)))"

definition validate_machine_deployment ::
    "worker_config_spec json_decoder \<Rightarrow> worker_config_spec option \<Rightarrow> machine_deployment \<Rightarrow>
     field_error list" where
  "validate_machine_deployment decode defaultWorkerConfig md =
     (case effective_worker_config decode defaultWorkerConfig md of
        (errs, (workerConfig, wcfgPath)) \<Rightarrow>
          errs @
          (case Option.bind workerConfig wcs_nutanix of
             None \<Rightarrow> []
           | Some machineDetails \<Rightarrow>
               validateFailureDomainXORMachineDetails
                 (wcfgPath @ ''.value.nutanix.machineDetails'')
                 (mdep_failure_domain md \<noteq> []) machineDetails ''failureDomain''))"

definition validateWorkerFailureDomainConfig ::
    "worker_config_spec json_decoder \<Rightarrow> cluster \<Rightarrow> field_error list" where
  "validateWorkerFailureDomainConfig decode c =
     (let (errs, defaultWorkerConfig) =
        (case UnmarshalWorkerConfigVariable decode (top_variables (cl_topology c)) of
           Inl err \<Rightarrow>
             ([InternalErr workerConfigVarPath
                 (''failed to unmarshal cluster topology variable '' @
                  quoted WorkerConfigVariableName @ '': '' @ err)], None)
         | Inr w \<Rightarrow> ([], w))
      in errs @ concat (map (validate_machine_deployment decode defaultWorkerConfig)
           (top_machine_deployments (cl_topology c))))"

definition validateTopologyFailureDomainConfig ::
    "worker_config_spec json_decoder \<Rightarrow> cluster_config_spec \<Rightarrow> cluster \<Rightarrow> field_error list" where
  "validateTopologyFailureDomainConfig decode cfg c =
     validateControlPlaneFailureDomainConfig cfg @ validateWorkerFailureDomainConfig decode c"

section \<open>The webhook\<close>

record 'raw validator_libs =
  vl_decode_req :: "'raw \<Rightarrow> string + cluster"
  vl_decode_cluster :: "cluster_config_spec json_decoder"
  vl_decode_worker :: "worker_config_spec json_decoder"
  vl_parse_uri :: url_parser
  vl_aggregate :: "field_error list \<Rightarrow> string"

definition GetProvider :: "cluster \<Rightarrow> string" where
  "GetProvider c =
     (case cl_labels c ''cluster.x-k8s.io/provider'' of None \<Rightarrow> [] | Some p \<Rightarrow> p)"

definition check_endpoints ::
    "url_parser \<Rightarrow> nutanix_spec \<Rightarrow> addons_config option \<Rightarrow> string option" where
  "check_endpoints parse_uri spec addons =
     (case validatePrismCentralIPDoesNotEqualControlPlaneIP parse_uri
             (ns_pc_endpoint spec) (ns_cp_endpoint spec) of
        Some err \<Rightarrow> Some err
      | None \<Rightarrow>
          (case addons of
             None \<Rightarrow> None
           | Some a \<Rightarrow>
               validatePrismCentralIPNotInLoadBalancerIPRange parse_uri (ns_pc_endpoint spec)
                 (ad_load_balancer a)))"

text \<open>
  The configuration is dereferenced without a check, so a Cluster of the provider without the
  variable panics.
\<close>

definition nutanix_validate :: "'raw validator_libs \<Rightarrow> 'raw request \<Rightarrow> response outcome" where
  "nutanix_validate libs req =
     (if req_operation req = Delete then Returns (admission_Allowed [])
      else case vl_decode_req libs (req_object req) of
        Inl err \<Rightarrow> Returns (admission_Errored 400 err)
      | Inr c \<Rightarrow>
          if \<not> IsDefined (cl_topology c) then Returns (admission_Allowed [])
          else if GetProvider c \<noteq> ''nutanix'' then Returns (admission_Allowed [])
          else case UnmarshalClusterConfigVariable (vl_decode_cluster libs)
                      (top_variables (cl_topology c)) of
            Inl err \<Rightarrow>
              Returns (admission_Denied (''failed to unmarshal cluster topology variable '' @
                quoted ClusterConfigVariableName @ '': '' @ err))
          | Inr clusterConfig \<Rightarrow>
              bind_outcome (deref clusterConfig) (\<lambda>cfg. Returns (
                case (case ccs_nutanix cfg of
                        None \<Rightarrow> None
                      | Some spec \<Rightarrow>
                          check_endpoints (vl_parse_uri libs) spec (ccs_addons cfg)) of
                  Some err \<Rightarrow> admission_Denied err
                | None \<Rightarrow>
                    (let errs = validateTopologyFailureDomainConfig (vl_decode_worker libs) cfg c
                     in if errs \<noteq> [] then admission_Denied (vl_aggregate libs errs)
                        else admission_Allowed []))))"

section \<open>What is accepted\<close>

lemma XOR_accepts_iff:
  "validateFailureDomainXORMachineDetails p fd md t = [] \<longleftrightarrow>
     (if fd then HasClusterAndSubnets md = (False, False)
      else HasClusterAndSubnets md = (True, True))"
  by (cases "HasClusterAndSubnets md")
    (simp add: validateFailureDomainXORMachineDetails_def Let_def)

text \<open>
  The range check reads the printed address back, so it compares addresses: an IPv4 address is
  refused exactly when it lies between the ends of a range.
\<close>

lemma IsIPInRange_string4:
  assumes "ParseAddr s = Inr (IP4 a)" "ParseAddr e = Inr (IP4 b)"
  shows "IsIPInRange s e (string4 w) = Inr (a \<le> w \<and> w \<le> b)"
  using assms by (auto simp: IsIPInRange_def ParseAddr_string4)

lemma check_ranges_IPv4:
  assumes "\<forall>r \<in> set ranges. \<exists>a b. ParseAddr (ar_start r) = Inr (IP4 a) \<and> ParseAddr (ar_end r) = Inr (IP4 b)"
  shows "check_ranges (IP4 w) ranges = None \<longleftrightarrow>
    (\<forall>r \<in> set ranges. \<forall>a b. ParseAddr (ar_start r) = Inr (IP4 a) \<longrightarrow>
       ParseAddr (ar_end r) = Inr (IP4 b) \<longrightarrow> \<not> (a \<le> w \<and> w \<le> b))"
  using assms
proof (induction ranges)
  case Nil
  then show ?case by simp
next
  case (Cons r rs)
  from Cons.prems obtain a b where ab: "ParseAddr (ar_start r) = Inr (IP4 a)"
      "ParseAddr (ar_end r) = Inr (IP4 b)"
    by auto
  with Cons show ?case by (simp add: Let_def IsIPInRange_string4)
qed

lemma validate_equal_ip:
  "validatePrismCentralIPDoesNotEqualControlPlaneIP parse_uri pce cpe = None \<longleftrightarrow>
     \<not> (\<exists>ip. ParseAddr (VirtualIPAddress cpe) = Inr ip \<and> ParseIP parse_uri pce = Inr ip)"
  by (auto simp: validatePrismCentralIPDoesNotEqualControlPlaneIP_def addr_Compare_eq_iff
      split: sum.splits)

end
