(* ===== verification/KubeletValidator.thy ===== *)
theory KubeletValidator
  imports ClusterConfig
begin

text \<open>
  \<open>pkg/webhook/cluster/kubeletconfiguration_validator.go\<close>.  The regular expression of an
  eviction threshold is written out as a recogniser; the first error of a map is that of the
  entry the iteration meets first.
\<close>

section \<open>Eviction thresholds\<close>

definition threshold_units :: "string list" where
  "threshold_units = [[], ''%'', ''Ki'', ''Mi'', ''Gi'', ''Ti'']"

text \<open>\<open>^\d+(\.\d+)?(%|Ki|Mi|Gi|Ti)?$\<close>: digits, an optional fraction, an optional unit.\<close>

definition eviction_threshold :: "string \<Rightarrow> bool" where
  "eviction_threshold s =
     (let rest = dropWhile is_digit s
      in takeWhile is_digit s \<noteq> [] \<and>
         (rest \<in> set threshold_units \<or>
          (case rest of
             [] \<Rightarrow> False
           | c # frac \<Rightarrow>
               c = CHR ''.'' \<and> takeWhile is_digit frac \<noteq> [] \<and>
               dropWhile is_digit frac \<in> set threshold_units)))"

fun validateEvictionThresholds :: "(string \<times> string) list \<Rightarrow> string \<Rightarrow> string option" where
  "validateEvictionThresholds [] fieldPath = None"
| "validateEvictionThresholds ((signal, val) # ts) fieldPath =
     (if \<not> eviction_threshold val then
        Some (fieldPath @ '': invalid eviction threshold value '' @ quoted val @ '' for signal '' @
          quoted signal @ '': must be a percentage or resource quantity'')
      else validateEvictionThresholds ts fieldPath)"

section \<open>A kubelet configuration\<close>

definition hasCPUReservation :: "(string \<times> string) list \<Rightarrow> bool" where
  "hasCPUReservation reserved \<longleftrightarrow> map_of reserved ''cpu'' \<noteq> None"

definition validateKubeletConfig :: "kubelet_config \<Rightarrow> string \<Rightarrow> string option" where
  "validateKubeletConfig cfg path =
     (if kl_automatic_reservations cfg \<and>
         (kl_system_reserved cfg \<noteq> [] \<or> kl_kube_reserved cfg \<noteq> [] \<or> kl_eviction_hard cfg \<noteq> [])
      then Some (path @ '': automaticReservations cannot be combined with systemReserved, '' @
             ''kubeReserved, or evictionHard'')
      else if kl_cpu_manager_policy cfg = Some ''static'' \<and>
         \<not> (hasCPUReservation (kl_system_reserved cfg) \<or> hasCPUReservation (kl_kube_reserved cfg))
      then Some (path @ '': cpuManagerPolicy '' @ [CHR 0x27] @ ''static'' @ [CHR 0x27] @
             '' requires CPU reservation in systemReserved or kubeReserved'')
      else case validateEvictionThresholds (kl_eviction_hard cfg) (path @ ''.evictionHard'') of
        Some err \<Rightarrow> Some err
      | None \<Rightarrow> validateEvictionThresholds (kl_eviction_soft cfg) (path @ ''.evictionSoft''))"

section \<open>The webhook\<close>

definition cp_kubelet_path :: string where
  "cp_kubelet_path = ''clusterConfig.controlPlane.kubeletConfiguration''"

definition worker_kubelet_path :: string where
  "worker_kubelet_path = ''workerConfig.kubeletConfiguration''"

definition md_kubelet_path :: "string \<Rightarrow> string" where
  "md_kubelet_path mdName =
     ''workers.machineDeployments['' @ quoted mdName @
     ''].variables.overrides[workerConfig].kubeletConfiguration''"

type_synonym kubelet_entry = "kubelet_config option \<times> string"

text \<open>The entries of the MachineDeployments, or the first override that does not decode.\<close>

fun md_entries ::
    "worker_config_spec json_decoder \<Rightarrow> worker_config_spec option \<Rightarrow> machine_deployment list \<Rightarrow>
     string + kubelet_entry list" where
  "md_entries decode dflt [] = Inr []"
| "md_entries decode dflt (md # mds) =
     (case UnmarshalWorkerConfigVariable decode (mdep_overrides md) of
        Inl err \<Rightarrow>
          Inl (''failed to unmarshal worker overrides variable '' @
            quoted WorkerConfigVariableName @ '' for machineDeployment '' @
            quoted (mdep_name md) @ '': '' @ err)
      | Inr w \<Rightarrow>
          (case md_entries decode dflt mds of
             Inl err \<Rightarrow> Inl err
           | Inr es \<Rightarrow>
               Inr ((case w of
                       Some wc \<Rightarrow> [(wcs_kubelet wc, md_kubelet_path (mdep_name md))]
                     | None \<Rightarrow>
                         (case dflt of
                            Some wc \<Rightarrow> [(wcs_kubelet wc, worker_kubelet_path)]
                          | None \<Rightarrow> [])) @ es)))"

definition cfgs_to_validate ::
    "worker_config_spec json_decoder \<Rightarrow> cluster_config_spec \<Rightarrow> cluster \<Rightarrow>
     string + kubelet_entry list" where
  "cfgs_to_validate decode cfg c =
     (let t = cl_topology c;
          cp = (case ccs_control_plane cfg of
                  None \<Rightarrow> [] | Some cp \<Rightarrow> [(cpc_kubelet cp, cp_kubelet_path)])
      in case UnmarshalWorkerConfigVariable decode (top_variables t) of
           Inl err \<Rightarrow>
             Inl (''failed to unmarshal cluster topology variable '' @
               quoted WorkerConfigVariableName @ '': '' @ err)
         | Inr dflt \<Rightarrow>
             (case md_entries decode dflt (top_machine_deployments t) of
                Inl err \<Rightarrow> Inl err
              | Inr es \<Rightarrow>
                  Inr (cp @
                    (case dflt of None \<Rightarrow> [] | Some wc \<Rightarrow> [(wcs_kubelet wc, worker_kubelet_path)]) @
                    es)))"

fun first_kubelet_error :: "kubelet_entry list \<Rightarrow> string option" where
  "first_kubelet_error [] = None"
| "first_kubelet_error ((None, path) # es) = first_kubelet_error es"
| "first_kubelet_error ((Some cfg, path) # es) =
     (case validateKubeletConfig cfg path of
        Some err \<Rightarrow> Some err
      | None \<Rightarrow> first_kubelet_error es)"

definition max_parallel_warnings :: "cluster_config_spec \<Rightarrow> kubelet_entry list \<Rightarrow> string list" where
  "max_parallel_warnings cfg entries =
     (let hasControlPlaneMaxParallel =
            (case Option.bind (ccs_control_plane cfg) cpc_kubelet of
               None \<Rightarrow> False | Some k \<Rightarrow> kl_max_parallel k \<noteq> None);
          hasWorkerMaxParallel =
            list_ex (\<lambda>(k, path). path \<noteq> cp_kubelet_path \<and>
              (case k of None \<Rightarrow> False | Some kc \<Rightarrow> kl_max_parallel kc \<noteq> None)) entries
      in if ccs_max_parallel cfg \<noteq> None \<and> (hasControlPlaneMaxParallel \<or> hasWorkerMaxParallel)
         then [''both maxParallelImagePullsPerNode and '' @
               ''kubeletConfiguration.maxParallelImagePulls are set; '' @
               ''maxParallelImagePullsPerNode will be ignored'']
         else [])"

definition kubelet_validate ::
    "('raw \<Rightarrow> string + cluster) \<Rightarrow> cluster_config_spec json_decoder \<Rightarrow>
     worker_config_spec json_decoder \<Rightarrow> 'raw request \<Rightarrow> response" where
  "kubelet_validate decode_req decode decode_worker req =
     (if req_operation req = Delete then admission_Allowed []
      else case decode_req (req_object req) of
        Inl err \<Rightarrow> admission_Errored 400 err
      | Inr c \<Rightarrow>
          if \<not> IsDefined (cl_topology c) then admission_Allowed []
          else case UnmarshalClusterConfigVariable decode (top_variables (cl_topology c)) of
            Inl err \<Rightarrow>
              admission_Denied (''failed to unmarshal cluster topology variable '' @
                quoted ClusterConfigVariableName @ '': '' @ err)
          | Inr None \<Rightarrow> admission_Allowed []
          | Inr (Some cfg) \<Rightarrow>
              (case cfgs_to_validate decode_worker cfg c of
                 Inl err \<Rightarrow> admission_Denied err
               | Inr entries \<Rightarrow>
                   (case first_kubelet_error entries of
                      Some err \<Rightarrow> admission_Denied err
                    | None \<Rightarrow>
                        (admission_Allowed [])\<lparr>resp_warnings := max_parallel_warnings cfg entries\<rparr>)))"

section \<open>What is accepted\<close>

text \<open>The language of thresholds.\<close>

lemma digits_split:
  assumes "list_all is_digit ds" "rest = [] \<or> \<not> is_digit (hd rest)"
  shows "takeWhile is_digit (ds @ rest) = ds" "dropWhile is_digit (ds @ rest) = rest"
  using assms by (induction ds) (cases rest; auto)+

lemma units_not_digit: "u \<in> set threshold_units \<Longrightarrow> u = [] \<or> \<not> is_digit (hd u)"
  by (auto simp: threshold_units_def is_digit_def)

lemma eviction_threshold_iff:
  "eviction_threshold s \<longleftrightarrow>
     (\<exists>ds u. ds \<noteq> [] \<and> list_all is_digit ds \<and> u \<in> set threshold_units \<and>
        (s = ds @ u \<or>
         (\<exists>fs. fs \<noteq> [] \<and> list_all is_digit fs \<and> s = ds @ CHR ''.'' # fs @ u)))" (is "?l \<longleftrightarrow> ?r")
proof
  assume l: ?l
  have s: "s = takeWhile is_digit s @ dropWhile is_digit s" by simp
  have d: "list_all is_digit (takeWhile is_digit t)" for t
    by (auto simp: list_all_iff dest: set_takeWhileD)
  consider "dropWhile is_digit s \<in> set threshold_units"
    | frac where "dropWhile is_digit s = CHR ''.'' # frac" "takeWhile is_digit frac \<noteq> []"
        "dropWhile is_digit frac \<in> set threshold_units"
    using l by (cases "dropWhile is_digit s") (auto simp: eviction_threshold_def Let_def)
  then show ?r
  proof cases
    case 1
    moreover have "takeWhile is_digit s \<noteq> []" using l by (simp add: eviction_threshold_def Let_def)
    ultimately show ?thesis using d [of s] s by blast
  next
    case 2
    have "s = takeWhile is_digit s @ CHR ''.'' # takeWhile is_digit frac @ dropWhile is_digit frac"
      using s 2(1) by simp
    moreover have "takeWhile is_digit s \<noteq> []" using l by (simp add: eviction_threshold_def Let_def)
    ultimately show ?thesis using 2 d [of s] d [of frac] by blast
  qed
next
  assume ?r
  then obtain ds u where ds: "ds \<noteq> []" "list_all is_digit ds" "u \<in> set threshold_units"
    and s: "s = ds @ u \<or> (\<exists>fs. fs \<noteq> [] \<and> list_all is_digit fs \<and> s = ds @ CHR ''.'' # fs @ u)"
    by blast
  from s show ?l
  proof (elim disjE exE conjE)
    assume "s = ds @ u"
    then show ?l
      using ds digits_split [OF ds(2) units_not_digit [OF ds(3)]]
      by (simp add: eviction_threshold_def)
  next
    fix fs
    assume fs: "fs \<noteq> []" "list_all is_digit fs" "s = ds @ CHR ''.'' # fs @ u"
    have "\<not> is_digit (hd (CHR ''.'' # fs @ u))" by (simp add: is_digit_def)
    then show ?l
      using ds fs digits_split [OF ds(2), of "CHR ''.'' # fs @ u"]
        digits_split [OF fs(2) units_not_digit [OF ds(3)]]
      by (simp add: eviction_threshold_def)
  qed
qed

lemma validateEvictionThresholds_None:
  "validateEvictionThresholds ts path = None \<longleftrightarrow> (\<forall>(sig, v) \<in> set ts. eviction_threshold v)"
  by (induction ts path rule: validateEvictionThresholds.induct) auto

definition kubelet_config_ok :: "kubelet_config \<Rightarrow> bool" where
  "kubelet_config_ok cfg \<longleftrightarrow>
     (kl_automatic_reservations cfg \<longrightarrow>
        kl_system_reserved cfg = [] \<and> kl_kube_reserved cfg = [] \<and> kl_eviction_hard cfg = []) \<and>
     (kl_cpu_manager_policy cfg = Some ''static'' \<longrightarrow>
        ''cpu'' \<in> fst ` set (kl_system_reserved cfg @ kl_kube_reserved cfg)) \<and>
     (\<forall>(sig, v) \<in> set (kl_eviction_hard cfg @ kl_eviction_soft cfg). eviction_threshold v)"

lemma hasCPUReservation_iff: "hasCPUReservation r \<longleftrightarrow> ''cpu'' \<in> fst ` set r"
  by (simp add: hasCPUReservation_def map_of_eq_None_iff)

lemma validateKubeletConfig_None: "validateKubeletConfig cfg path = None \<longleftrightarrow> kubelet_config_ok cfg"
proof -
  have v: "(case a of None \<Rightarrow> b | Some err \<Rightarrow> Some err) = None \<longleftrightarrow> a = None \<and> b = None"
    for a b :: "string option"
    by (cases a) auto
  show ?thesis
    unfolding validateKubeletConfig_def kubelet_config_ok_def
    by (simp add: v validateEvictionThresholds_None hasCPUReservation_iff image_Un ball_Un)
      (auto split: if_splits)
qed

lemma first_kubelet_error_None:
  "first_kubelet_error es = None \<longleftrightarrow> (\<forall>(k, path) \<in> set es. \<forall>cfg. k = Some cfg \<longrightarrow> kubelet_config_ok cfg)"
proof (induction es rule: first_kubelet_error.induct)
  case (3 cfg path es)
  then show ?case
    using validateKubeletConfig_None [of cfg path]
    by (cases "validateKubeletConfig cfg path") auto
qed auto

end
