(* ===== verification/WebhookProps.thy ===== *)
theory WebhookProps
  imports MetroDefaults NutanixValidator KubeletValidator Samples
begin

text \<open>
  The properties of the Cluster webhooks: the CSI defaults of metro clusters, the Nutanix
  validator and the kubelet configuration validator.
\<close>

section \<open>Metro defaults\<close>

text \<open>
  C38. When defaulting succeeds, a second run changes nothing; every storage class of the
  provider then sets its affinity; and the validating webhook decides as it would have before:
  defaulting neither hides an affinity that would be refused nor introduces one.  The law of
  \<open>encoding/json\<close> is only that the text of a configuration the webhook writes is read back as
  one with the same text, where a nil map and an empty one may be confused and the entries of a
  map have no order (\<open>same_json\<close>).
\<close>

theorem metro_default_stable:
  assumes "json_faithful (defaulted_configs decode) encode decode"
    and "DefaultCSIComputeAffinity decode encode c = Inr c'"
  shows "DefaultCSIComputeAffinity decode encode c' = Inr c' \<and>
    (\<forall>cc p. UnmarshalClusterConfigVariable decode (top_variables (cl_topology c')) = Inr cc \<longrightarrow>
       nutanixCSIProvider cc = Some p \<longrightarrow> (\<forall>(name, a) \<in> affinities p. a \<noteq> [])) \<and>
    (ValidateCSIComputeAffinity decode c' = None \<longleftrightarrow> ValidateCSIComputeAffinity decode c = None)"
  using DefaultCSI_idem [OF assms] DefaultCSI_Validate [OF assms] DefaultCSI_disables [OF assms]
  by blast

text \<open>
  An instance: the configuration is one storage class, with an empty map of parameters; the
  encoder writes what has the text of the defaulted object and fails on any other, the decoder
  reads both documents.
\<close>

definition sample_provider :: csi_provider where
  "sample_provider = \<lparr>csi_storage_classes =
    Some [(''volume'', \<lparr>sc_parameters = Some Map.empty\<rparr>)]\<rparr>"

definition sample_metro_config :: cluster_config_spec where
  "sample_metro_config = \<lparr>ccs_nutanix = None, ccs_control_plane = None,
     ccs_addons = Some \<lparr>ad_csi = Some (Some [CSIProviderNutanix \<mapsto> sample_provider]),
       ad_load_balancer = None, ad_registry = None, ad_cni = None\<rparr>, ccs_max_parallel = None,
     ccs_kube_proxy = None, ccs_global_mirror = None, ccs_other = []\<rparr>"

definition defaulted_config :: cluster_config_spec where
  "defaulted_config = set_nutanix_provider (default_provider sample_provider) sample_metro_config"

definition sample_encode :: "cluster_config_spec json_encoder" where
  "sample_encode obj =
     (if same_json defaulted_config obj then Inr ''defaulted'' else Inl ''unsupported'')"

definition sample_decode :: "cluster_config_spec json_decoder" where
  "sample_decode raw =
     (if raw = ''defaulted'' then defaulted_config else sample_metro_config, None)"

lemma sample_faithful: "json_faithful W sample_encode sample_decode"
  by (auto simp: json_faithful_def same_json_def sample_encode_def sample_decode_def split: if_splits)

lemma sample_config_provider:
  "nutanixCSIProvider (Some sample_metro_config) = Some sample_provider"
  "nutanixCSIProvider (Some defaulted_config) = Some (default_provider sample_provider)"
  by (simp_all add: nutanixCSIProvider_def sample_metro_config_def defaulted_config_def
      set_nutanix_provider_def)

definition defaulted_cluster :: cluster where
  "defaulted_cluster =
     set_variables [\<lparr>var_name = ''clusterConfig'', var_raw = ''defaulted''\<rparr>] sample_cluster"

lemma sample_unmarshal:
  "UnmarshalClusterConfigVariable sample_decode (top_variables sample_topology) =
     Inr (Some sample_metro_config)"
  "UnmarshalClusterConfigVariable sample_decode
     [\<lparr>var_name = ''clusterConfig'', var_raw = ''defaulted''\<rparr>] = Inr (Some defaulted_config)"
  by (simp_all add: UnmarshalClusterConfigVariable_def UnmarshalNamedVariable_def sample_decode_def
      ClusterConfigVariableName_def sample_topology_def)

lemma sample_defaulted:
  "DefaultCSIComputeAffinity sample_decode sample_encode sample_cluster = Inr defaulted_cluster"
  by (simp add: DefaultCSIComputeAffinity_def sample_unmarshal sample_config_provider
      MarshalToClusterVariable_def defaulted_config_def [symmetric] sample_encode_def
      defaulted_cluster_def ClusterConfigVariableName_def)
    (simp add: sample_topology_def)

theorem metro_default_stable_witness:
  "DefaultCSIComputeAffinity sample_decode sample_encode defaulted_cluster = Inr defaulted_cluster \<and>
   ValidateCSIComputeAffinity sample_decode defaulted_cluster = None \<and>
   affinities (default_provider sample_provider) = {(''volume'', ''DISABLED'')}"
proof (intro conjI)
  note stable = metro_default_stable [OF sample_faithful sample_defaulted]
  then show "DefaultCSIComputeAffinity sample_decode sample_encode defaulted_cluster =
      Inr defaulted_cluster" by blast
  have "ValidateCSIComputeAffinity sample_decode sample_cluster = None"
    by (subst Validate_affinities [OF _ sample_config_provider(1)])
      (simp_all add: sample_unmarshal affinities_def sample_provider_def affinity_of_def)
  then show "ValidateCSIComputeAffinity sample_decode defaulted_cluster = None" using stable by blast
  show "affinities (default_provider sample_provider) = {(''volume'', ''DISABLED'')}"
    by (subst affinities_default)
      (simp add: affinities_def sample_provider_def affinity_of_def ComputeAffinityDisabled_def)
qed

section \<open>The Nutanix validator\<close>

text \<open>
  A node pool is accepted exactly when it is placed one way: by failure domains with
  neither cluster nor subnets in its machine details, or by both a cluster and subnets.
\<close>

theorem placement_exclusive:
  "validateFailureDomainXORMachineDetails p hasFailureDomains md t = [] \<longleftrightarrow>
     (if hasFailureDomains then HasClusterAndSubnets md = (False, False)
      else HasClusterAndSubnets md = (True, True))"
  by (rule XOR_accepts_iff)

text \<open>
  When Prism Central is addressed by an IPv4 address and the load balancer's ranges are
  IPv4, the range test refuses exactly an address between the ends of some range, although it
  prints the address and parses it again; and the test against the control plane refuses
  exactly the same address.
\<close>

theorem endpoint_addresses:
  assumes "\<forall>r \<in> set ranges. \<exists>a b. ParseAddr (ar_start r) = Inr (IP4 a) \<and> ParseAddr (ar_end r) = Inr (IP4 b)"
    and "ParseIP parse_uri pce = Inr (IP4 w)" and "slb_provider lb = ''MetalLB''"
    and "slb_ranges lb = Some ranges"
  shows "(validatePrismCentralIPNotInLoadBalancerIPRange parse_uri pce (Some lb) = None \<longleftrightarrow>
      (\<forall>r \<in> set ranges. \<forall>a b. ParseAddr (ar_start r) = Inr (IP4 a) \<longrightarrow>
         ParseAddr (ar_end r) = Inr (IP4 b) \<longrightarrow> \<not> (a \<le> w \<and> w \<le> b))) \<and>
    (validatePrismCentralIPDoesNotEqualControlPlaneIP parse_uri pce cpe = None \<longleftrightarrow>
      ParseAddr (VirtualIPAddress cpe) \<noteq> Inr (IP4 w))"
  using assms check_ranges_IPv4 [OF assms(1), of w]
  by (auto simp: validatePrismCentralIPNotInLoadBalancerIPRange_def validate_equal_ip)

lemma parsed_addresses:
  "ParseAddr ''10.0.0.1'' = Inr (IP4 167772161)" "ParseAddr ''10.0.0.9'' = Inr (IP4 167772169)"
  "ParseAddr ''10.0.0.5'' = Inr (IP4 167772165)"
  by (simp_all add: ParseAddr_def parseIPv4_def horner_def is_digit_def digit_value_def)

theorem endpoint_addresses_witness:
  "validatePrismCentralIPNotInLoadBalancerIPRange
     (\<lambda>_. Inr \<lparr>url_scheme = [], url_host = [], url_hostname = ''10.0.0.5'', url_port = [], url_path = []\<rparr>)
     sample_endpoint (Some \<lparr>slb_provider = ''MetalLB'',
       slb_ranges = Some [\<lparr>ar_start = ''10.0.0.1'', ar_end = ''10.0.0.9''\<rparr>]\<rparr>) \<noteq> None"
  using endpoint_addresses [of "[\<lparr>ar_start = ''10.0.0.1'', ar_end = ''10.0.0.9''\<rparr>]"
      "\<lambda>_. Inr \<lparr>url_scheme = [], url_host = [], url_hostname = ''10.0.0.5'', url_port = [], url_path = []\<rparr>"
      sample_endpoint 167772165 "\<lparr>slb_provider = ''MetalLB'',
       slb_ranges = Some [\<lparr>ar_start = ''10.0.0.1'', ar_end = ''10.0.0.9''\<rparr>]\<rparr>"]
  by (simp add: parsed_addresses ParseIP_def ParseURL_def)

text \<open>
  The validator panics exactly on a defined topology of the Nutanix provider without the
  \<open>clusterConfig\<close> variable.
\<close>

theorem nutanix_validate_panics_iff:
  "(\<exists>m. nutanix_validate libs req = Panics m) \<longleftrightarrow>
     req_operation req \<noteq> Delete \<and>
     (\<exists>c. vl_decode_req libs (req_object req) = Inr c \<and> IsDefined (cl_topology c) \<and>
        GetProvider c = ''nutanix'' \<and>
        ClusterConfigVariableName \<notin> var_name ` set (top_variables (cl_topology c)))"
  unfolding GetClusterVariableByName_None_iff [symmetric]
  by (auto simp: nutanix_validate_def UnmarshalClusterConfigVariable_def UnmarshalNamedVariable_def
      split: sum.splits option.splits prod.splits)

section \<open>The kubelet configuration validator\<close>

text \<open>
  A Cluster whose configuration variables decode is accepted exactly when each of its
  kubelet configurations, of the control plane, the default workers and every override, is
  acceptable.
\<close>

theorem kubelet_validate_iff:
  assumes "req_operation req \<noteq> Delete" and "decode_req (req_object req) = Inr c"
    and "IsDefined (cl_topology c)"
    and "UnmarshalClusterConfigVariable decode (top_variables (cl_topology c)) = Inr (Some cfg)"
    and "cfgs_to_validate decode_worker cfg c = Inr entries"
  shows "resp_allowed (kubelet_validate decode_req decode decode_worker req) \<longleftrightarrow>
    (\<forall>(k, path) \<in> set entries. \<forall>kc. k = Some kc \<longrightarrow> kubelet_config_ok kc)"
  using assms first_kubelet_error_None [of entries]
  by (auto simp: kubelet_validate_def admission_Allowed_def admission_Denied_def
      split: option.splits)

definition sample_kubelet :: kubelet_config where
  "sample_kubelet = \<lparr>kl_automatic_reservations = False, kl_system_reserved = [],
     kl_kube_reserved = [], kl_cpu_manager_policy = Some ''static'', kl_eviction_hard = [],
     kl_eviction_soft = [], kl_max_parallel = None\<rparr>"

definition kubelet_cluster_config :: cluster_config_spec where
  "kubelet_cluster_config = sample_metro_config\<lparr>ccs_control_plane :=
     Some \<lparr>cpc_nutanix = None, cpc_kubelet = Some sample_kubelet\<rparr>\<rparr>"

theorem kubelet_validate_iff_witness:
  "\<not> resp_allowed (kubelet_validate Inr (\<lambda>_. (kubelet_cluster_config, None))
     (\<lambda>_. (\<lparr>wcs_nutanix = None, wcs_kubelet = None, wcs_other = []\<rparr>, None)) create_request)"
proof -
  have c: "req_operation create_request \<noteq> Delete"
    "(Inr (req_object create_request) :: string + cluster) = Inr sample_cluster"
    by (simp_all add: create_request_def)
  have u: "UnmarshalClusterConfigVariable (\<lambda>_. (kubelet_cluster_config, None))
      (top_variables (cl_topology sample_cluster)) = Inr (Some kubelet_cluster_config)"
    by (simp add: UnmarshalClusterConfigVariable_def UnmarshalNamedVariable_def
        ClusterConfigVariableName_def sample_topology_def)
  have e: "cfgs_to_validate (\<lambda>_. (\<lparr>wcs_nutanix = None, wcs_kubelet = None, wcs_other = []\<rparr>, None))
      kubelet_cluster_config sample_cluster = Inr [(Some sample_kubelet, cp_kubelet_path)]"
    by (simp add: cfgs_to_validate_def kubelet_cluster_config_def Let_def sample_topology_def
        UnmarshalWorkerConfigVariable_def UnmarshalNamedVariable_def WorkerConfigVariableName_def)
  show ?thesis
    using kubelet_validate_iff [where decode_req = Inr, OF c _ u e]
    by (simp add: sample_kubelet_def kubelet_config_ok_def)
qed

text \<open>
  The thresholds the validator accepts are exactly: digits, possibly a dot and digits, and
  one of the units.
\<close>

theorem threshold_language:
  "eviction_threshold s \<longleftrightarrow>
     (\<exists>ds u. ds \<noteq> [] \<and> list_all is_digit ds \<and> u \<in> set threshold_units \<and>
        (s = ds @ u \<or>
         (\<exists>fs. fs \<noteq> [] \<and> list_all is_digit fs \<and> s = ds @ CHR ''.'' # fs @ u)))"
  by (rule eviction_threshold_iff)

end
