(* ===== verification/Rollout.thy ===== *)
theory Rollout
  imports ApiTypes "HOL-Library.Signed_Division" "HOL-Library.AList"
begin

text \<open>
  \<open>pkg/controllers/failuredomainrollout/controller.go\<close>: the controller that triggers a
  rollout of the control plane when its machines use a failure domain that is gone or
  disabled, or when they could be spread better.  Reads and the update of the API server are
  arguments; times are nanoseconds.  A distribution is the map from failure domains to machine
  counts as an association list in the order of its iteration.  Go's integer division
  truncates, as \<open>sdiv\<close> and \<open>smod\<close> do.
\<close>

record failure_domain =
  fdm_name :: string
  fdm_control_plane :: "bool option"

record cp_machine =
  mach_deletion :: "nat option"
  mach_failure_domain :: string

record condition =
  cond_type :: string
  cond_status :: string

record kcp =
  kcp_deletion :: "nat option"
  kcp_generation :: int
  kcp_observed_generation :: int
  kcp_replicas :: "int option"
  kcp_rollout_after :: "int option"
  kcp_status_replicas :: "int option"
  kcp_up_to_date_replicas :: "int option"
  kcp_conditions :: "condition list"

record cluster_status =
  cst_cluster :: cluster
  cst_generation :: int
  cst_observed_generation :: int
  cst_cp_ref_kind :: string
  cst_cp_ref_name :: string
  cst_failure_domains :: "failure_domain list"

section \<open>The distribution\<close>

type_synonym distribution = "(string \<times> int) list"

definition count_machine :: "cp_machine \<Rightarrow> distribution \<Rightarrow> distribution" where
  "count_machine m d =
     (if mach_deletion m \<noteq> None \<or> mach_failure_domain m = [] then d
      else AList.update (mach_failure_domain m)
        ((case map_of d (mach_failure_domain m) of None \<Rightarrow> 0 | Some n \<Rightarrow> n) + 1) d)"

definition getMachineDistribution :: "string + cp_machine list \<Rightarrow> string + distribution" where
  "getMachineDistribution listed =
     (case listed of
        Inl err \<Rightarrow> Inl (''failed to list control plane machines: '' @ err)
      | Inr machines \<Rightarrow> Inr (fold count_machine machines []))"

definition calculateMaxIdealPerFD :: "int \<Rightarrow> int \<Rightarrow> int" where
  "calculateMaxIdealPerFD replicas availableCount =
     (if availableCount = 0 then replicas
      else let base = replicas sdiv availableCount
           in if replicas smod availableCount > 0 then base + 1 else base)"

definition hasSuboptimalDistribution :: "distribution \<Rightarrow> int \<Rightarrow> int \<Rightarrow> bool" where
  "hasSuboptimalDistribution d replicas availableCount =
     list_ex (\<lambda>(fd, n). n > calculateMaxIdealPerFD replicas availableCount) d"

text \<open>The largest count and how many failure domains have it.\<close>

definition max_step :: "string \<times> int \<Rightarrow> int \<times> int \<Rightarrow> int \<times> int" where
  "max_step entry st =
     (case (entry, st) of ((fd, n), (currentMax, atMax)) \<Rightarrow>
        if n > currentMax then (n, 1)
        else if n = currentMax then (currentMax, atMax + 1)
        else (currentMax, atMax))"

definition canImproveWithMoreFDs :: "distribution \<Rightarrow> int \<Rightarrow> int \<Rightarrow> bool" where
  "canImproveWithMoreFDs d replicas availableCount =
     (if d = [] \<or> replicas = 0 \<or> availableCount \<le> int (length d) then False
      else let (currentMaxPerFD, currentFDsAtMax) = fold max_step d (0, 0);
               optimalMaxPerFD = calculateMaxIdealPerFD replicas availableCount;
               extra = replicas smod availableCount;
               optimalFDsAtMax = (if extra = 0 then availableCount else extra)
           in optimalMaxPerFD < currentMaxPerFD \<or>
              (optimalMaxPerFD = currentMaxPerFD \<and> optimalFDsAtMax < currentFDsAtMax))"

definition shouldImproveDistribution :: "kcp \<Rightarrow> distribution \<Rightarrow> string list \<Rightarrow> bool" where
  "shouldImproveDistribution k d availableFDs =
     (case kcp_replicas k of
        None \<Rightarrow> False
      | Some replicas \<Rightarrow>
          let availableCount = int (length availableFDs)
          in if hasSuboptimalDistribution d replicas availableCount then True
             else if availableCount > int (length d)
             then canImproveWithMoreFDs d replicas availableCount
             else False)"

section \<open>When to roll out\<close>

definition failureDomainsToMap :: "failure_domain list \<Rightarrow> string \<rightharpoonup> failure_domain" where
  "failureDomainsToMap fds = fold (\<lambda>fd m. m(fdm_name fd \<mapsto> fd)) fds Map.empty"

definition enabled :: "failure_domain \<Rightarrow> bool" where
  "enabled fd \<longleftrightarrow> fdm_control_plane fd = Some True"

definition getAvailableFailureDomains :: "failure_domain list \<Rightarrow> string list" where
  "getAvailableFailureDomains fds = map fdm_name (filter enabled fds)"

fun unusable_domain :: "(string \<rightharpoonup> failure_domain) \<Rightarrow> distribution \<Rightarrow> string option" where
  "unusable_domain m [] = None"
| "unusable_domain m ((usedFD, n) # d) =
     (case m usedFD of
        None \<Rightarrow> Some (''failure domain '' @ usedFD @ '' is removed'')
      | Some fd \<Rightarrow>
          if \<not> enabled fd
          then Some (''failure domain '' @ usedFD @ '' is disabled for control plane'')
          else unusable_domain m d)"

definition shouldTriggerRollout ::
    "cluster_status \<Rightarrow> kcp \<Rightarrow> string + cp_machine list \<Rightarrow> string + (bool \<times> string)" where
  "shouldTriggerRollout cst k listed =
     (case getMachineDistribution listed of
        Inl err \<Rightarrow> Inl (''failed to get current machine distribution: '' @ err)
      | Inr d \<Rightarrow>
          (case unusable_domain (failureDomainsToMap (cst_failure_domains cst)) d of
             Some reason \<Rightarrow> Inr (True, reason)
           | None \<Rightarrow>
               if shouldImproveDistribution k d
                    (getAvailableFailureDomains (cst_failure_domains cst))
               then Inr (True, ''failure domain distribution could be improved for better '' @
                 ''fault tolerance'')
               else Inr (False, [])))"

definition minutes :: "int \<Rightarrow> int" where
  "minutes n = n * 60000000000"

definition ptr_deref0 :: "int option \<Rightarrow> int" where
  "ptr_deref0 p = (case p of None \<Rightarrow> 0 | Some v \<Rightarrow> v)"

text \<open>The wait before checking again, if the rollout is skipped.\<close>

definition shouldSkipRollout :: "int \<Rightarrow> kcp \<Rightarrow> int option" where
  "shouldSkipRollout now k =
     (if (case kcp_rollout_after k of None \<Rightarrow> False | Some t \<Rightarrow> now - t < minutes 15)
      then Some (minutes 5)
      else if ptr_deref0 (kcp_up_to_date_replicas k) < ptr_deref0 (kcp_status_replicas k)
      then Some (minutes 2)
      else if list_ex (\<lambda>c. cond_type c = ''MachinesUpToDate'' \<and> cond_status c = ''False'')
                (kcp_conditions k)
      then Some (minutes 2)
      else None)"

section \<open>Reconcile\<close>

text \<open>
  What the API server answers to the request; \<open>annotations.IsPaused\<close> of Cluster API is
  a parameter, for the Cluster itself and for its control plane.
\<close>

record rollout_env =
  env_request :: string
  env_cluster :: "api_error + cluster_status"
  env_kcp :: "string \<Rightarrow> string \<Rightarrow> api_error + kcp"
  env_machines :: "string + cp_machine list"
  env_cluster_paused :: "cluster_status \<Rightarrow> bool"
  env_kcp_paused :: "cluster_status \<Rightarrow> kcp \<Rightarrow> bool"
  env_now :: int
  env_update :: "kcp \<Rightarrow> string option"

datatype reconcile_result = Done | RequeueAfter int | Failed string

definition areResourcesDeleting :: "cluster_status \<Rightarrow> kcp \<Rightarrow> bool" where
  "areResourcesDeleting cst k \<longleftrightarrow>
     cl_deletion (cst_cluster cst) \<noteq> None \<or> kcp_deletion k \<noteq> None"

definition areResourcesUpdating :: "cluster_status \<Rightarrow> kcp \<Rightarrow> bool" where
  "areResourcesUpdating cst k \<longleftrightarrow>
     cst_observed_generation cst < cst_generation cst \<or>
     kcp_observed_generation k < kcp_generation k"

definition shouldSkipClusterReconciliation :: "cluster_status \<Rightarrow> bool" where
  "shouldSkipClusterReconciliation cst \<longleftrightarrow>
     \<not> IsDefined (cl_topology (cst_cluster cst)) \<or> cst_cp_ref_kind cst = [] \<or>
     cst_failure_domains cst = []"

definition areResourcesPaused :: "rollout_env \<Rightarrow> cluster_status \<Rightarrow> kcp \<Rightarrow> bool" where
  "areResourcesPaused env cst k \<longleftrightarrow> env_cluster_paused env cst \<or> env_kcp_paused env cst k"

text \<open>The result and the object sent to the API server, if an update was sent.\<close>

definition trigger_rollout :: "rollout_env \<Rightarrow> string \<Rightarrow> kcp \<Rightarrow> reconcile_result \<times> kcp option" where
  "trigger_rollout env kcpKey k =
     (let kcpCopy = k\<lparr>kcp_rollout_after := Some (env_now env)\<rparr>
      in case env_update env kcpCopy of
           Some err \<Rightarrow>
             (Failed (''failed to update KubeAdmControlPlane '' @ kcpKey @ '': '' @ err),
              Some kcpCopy)
         | None \<Rightarrow> (Done, Some kcpCopy))"

definition Reconcile :: "rollout_env \<Rightarrow> reconcile_result \<times> kcp option" where
  "Reconcile env =
     (case env_cluster env of
        Inl (NotFound e) \<Rightarrow> (Done, None)
      | Inl (OtherError e) \<Rightarrow>
          (Failed (''failed to get Cluster '' @ env_request env @ '': '' @ e), None)
      | Inr cst \<Rightarrow>
          if shouldSkipClusterReconciliation cst then (Done, None)
          else
            let namespace = cl_namespace (cst_cluster cst);
                kcpKey = namespace @ ''/'' @ cst_cp_ref_name cst
            in case env_kcp env namespace (cst_cp_ref_name cst) of
              Inl (NotFound e) \<Rightarrow> (Done, None)
            | Inl (OtherError e) \<Rightarrow>
                (Failed (''failed to get KubeAdmControlPlane '' @ kcpKey @ '': '' @ e), None)
            | Inr k \<Rightarrow>
                if areResourcesDeleting cst k then (Done, None)
                else if areResourcesPaused env cst k then (Done, None)
                else if areResourcesUpdating cst k then (RequeueAfter (minutes 2), None)
                else case shouldTriggerRollout cst k (env_machines env) of
                  Inl err \<Rightarrow>
                    (Failed (''failed to determine if rollout is needed: '' @ err), None)
                | Inr (needsRollout, reason) \<Rightarrow>
                    if \<not> needsRollout then (Done, None)
                    else case shouldSkipRollout (env_now env) k of
                      Some requeueAfter \<Rightarrow> (RequeueAfter requeueAfter, None)
                    | None \<Rightarrow> trigger_rollout env kcpKey k)"

section \<open>The ideal maximum\<close>

lemma ideal_eq:
  assumes "0 \<le> r" "0 < a"
  shows "calculateMaxIdealPerFD r a = (if r mod a > 0 then r div a + 1 else r div a)"
proof -
  have "r sdiv a = r div a"
    using assms by (simp add: signed_divide_int_def sgn_if)
  moreover have "r smod a = r mod a"
    using assms by (simp add: signed_modulo_int_def sgn_if)
  ultimately show ?thesis using assms by (simp add: calculateMaxIdealPerFD_def Let_def)
qed

lemma ideal_bounds:
  assumes "0 \<le> r" "0 < a"
  shows "r \<le> a * calculateMaxIdealPerFD r a" "a * (calculateMaxIdealPerFD r a - 1) < r \<or> r = 0"
proof -
  have e: "r = a * (r div a) + r mod a" by simp
  have m: "0 \<le> r mod a" "r mod a < a" using assms by auto
  show "r \<le> a * calculateMaxIdealPerFD r a"
  proof (cases "r mod a > 0")
    case True
    have "r \<le> a * (r div a) + a" using e m(2) by linarith
    then show ?thesis using True by (simp add: ideal_eq [OF assms] distrib_left)
  next
    case False
    then have "r = a * (r div a)" using e m(1) by linarith
    then show ?thesis using False by (simp add: ideal_eq [OF assms])
  qed
  show "a * (calculateMaxIdealPerFD r a - 1) < r \<or> r = 0"
  proof (cases "r mod a > 0")
    case True
    then have "a * (r div a) < r" using e by linarith
    then show ?thesis using True by (simp add: ideal_eq [OF assms])
  next
    case False
    then have "r mod a = 0" using m by simp
    then have "a * (r div a - 1) = r - a" using e by (simp add: right_diff_distrib)
    with False assms show ?thesis by (simp add: ideal_eq [OF assms])
  qed
qed

text \<open>No way to place the machines on the available domains does better.\<close>

lemma ideal_is_least:
  assumes "0 \<le> r" "length xs = nat a" "0 < a" "sum_list xs = r" "\<forall>x \<in> set xs. x \<le> m"
  shows "calculateMaxIdealPerFD r a \<le> m \<or> r = 0"
proof (rule ccontr)
  assume "\<not> ?thesis"
  then have less: "m \<le> calculateMaxIdealPerFD r a - 1" "r \<noteq> 0" by auto
  have "sum_list xs \<le> int (length xs) * m"
    using assms(5) by (induction xs) (auto simp: distrib_right)
  also have "\<dots> = a * m" using assms by simp
  also have "\<dots> \<le> a * (calculateMaxIdealPerFD r a - 1)"
    using less(1) assms(3) by (simp add: mult_left_mono)
  also have "\<dots> < r" using ideal_bounds(2) [OF assms(1,3)] less(2) by auto
  finally show False using assms(4) by simp
qed

section \<open>The loop over the distribution\<close>

definition at_count :: "int \<Rightarrow> distribution \<Rightarrow> int" where
  "at_count m d = int (length (filter (\<lambda>(fd, n). n = m) d))"

lemma max_step_pair:
  "max_step (fd, n) (m, k) = (if n > m then (n, 1) else if n = m then (m, k + 1) else (m, k))"
  by (simp add: max_step_def)

lemma max_loop:
  assumes "fold max_step d (m, k) = (M, K)"
  shows "m \<le> M" "\<forall>(fd, n) \<in> set d. n \<le> M" "M = m \<or> M \<in> snd ` set d"
    "K = (if M = m then k else 0) + at_count M d"
proof -
  have "m \<le> M \<and> (\<forall>(fd, n) \<in> set d. n \<le> M) \<and> (M = m \<or> M \<in> snd ` set d) \<and>
      K = (if M = m then k else 0) + at_count M d"
    using assms
  proof (induction d arbitrary: m k)
    case Nil
    then show ?case by (simp add: at_count_def)
  next
    case (Cons e d)
    obtain fd n where e: "e = (fd, n)" by force
    consider "m < n" | "n = m" | "n < m" by linarith
    then show ?case
    proof cases
      case 1
      then have "fold max_step d (n, 1) = (M, K)"
        using Cons.prems by (simp add: e max_step_pair)
      from Cons.IH [OF this] 1 show ?thesis by (auto simp: e at_count_def)
    next
      case 2
      then have "fold max_step d (m, k + 1) = (M, K)"
        using Cons.prems by (simp add: e max_step_pair)
      from Cons.IH [OF this] 2 show ?thesis by (auto simp: e at_count_def)
    next
      case 3
      then have "fold max_step d (m, k) = (M, K)"
        using Cons.prems by (simp add: e max_step_pair)
      from Cons.IH [OF this] 3 show ?thesis by (auto simp: e at_count_def)
    qed
  qed
  then show "m \<le> M" "\<forall>(fd, n) \<in> set d. n \<le> M" "M = m \<or> M \<in> snd ` set d"
    "K = (if M = m then k else 0) + at_count M d"
    by auto
qed

lemma canImprove_iff:
  assumes "d \<noteq> []" "0 < r" "int (length d) < a" "\<forall>(fd, n) \<in> set d. 0 < n"
  shows "canImproveWithMoreFDs d r a \<longleftrightarrow>
    (\<exists>(fd, n) \<in> set d. calculateMaxIdealPerFD r a < n) \<or>
    ((\<exists>(fd, n) \<in> set d. n = calculateMaxIdealPerFD r a) \<and>
     (if r mod a = 0 then a else r mod a) < at_count (calculateMaxIdealPerFD r a) d)"
proof -
  obtain M K where MK: "fold max_step d (0, 0) = (M, K)" by force
  note loop = max_loop [OF MK]
  obtain fd n where fdn: "(fd, n) \<in> set d" using assms(1) by (cases d) auto
  then have "0 < M" using loop(2) assms(4) by fastforce
  then have M: "M \<in> snd ` set d" "K = at_count M d" using loop by auto
  have mods: "r smod a = r mod a" using assms by (simp add: signed_modulo_int_def sgn_if)
  let ?i = "calculateMaxIdealPerFD r a"
  have gt: "?i < M \<longleftrightarrow> (\<exists>(fd, n) \<in> set d. ?i < n)"
    using M(1) loop(2) by fastforce
  have "canImproveWithMoreFDs d r a \<longleftrightarrow>
      ?i < M \<or> (?i = M \<and> (if r mod a = 0 then a else r mod a) < K)"
    using assms MK by (simp add: canImproveWithMoreFDs_def Let_def mods)
  also have "\<dots> \<longleftrightarrow> (\<exists>(fd, n) \<in> set d. ?i < n) \<or>
    ((\<exists>(fd, n) \<in> set d. n = ?i) \<and> (if r mod a = 0 then a else r mod a) < at_count ?i d)"
  proof (cases "?i < M")
    case True
    then show ?thesis using gt by simp
  next
    case False
    then have "?i = M \<longleftrightarrow> (\<exists>(fd, n) \<in> set d. n = ?i)"
      using M(1) loop(2) by fastforce
    with False gt M(2) show ?thesis by auto
  qed
  finally show ?thesis .
qed

section \<open>What a distribution that is left alone looks like\<close>

lemma shouldImprove_iff:
  fixes fds :: "string list"
  assumes "kcp_replicas k = Some r" "0 < r" "d \<noteq> []" "\<forall>(fd, n) \<in> set d. 0 < n"
  defines "a \<equiv> int (length fds)"
  shows "shouldImproveDistribution k d fds \<longleftrightarrow>
    (\<exists>(fd, n) \<in> set d. calculateMaxIdealPerFD r a < n) \<or>
    (int (length d) < a \<and> (\<exists>(fd, n) \<in> set d. n = calculateMaxIdealPerFD r a) \<and>
     (if r mod a = 0 then a else r mod a) < at_count (calculateMaxIdealPerFD r a) d)"
proof -
  have "hasSuboptimalDistribution d r a \<longleftrightarrow> (\<exists>(fd, n) \<in> set d. calculateMaxIdealPerFD r a < n)"
    by (auto simp: hasSuboptimalDistribution_def list_ex_iff)
  moreover have "shouldImproveDistribution k d fds \<longleftrightarrow>
      hasSuboptimalDistribution d r a \<or> (int (length d) < a \<and> canImproveWithMoreFDs d r a)"
    using assms(1) by (simp add: shouldImproveDistribution_def Let_def a_def)
  ultimately show ?thesis
    using canImprove_iff [OF assms(3,2) _ assms(4), of a] by auto
qed

section \<open>Counting machines\<close>

definition live_in :: "string \<Rightarrow> cp_machine \<Rightarrow> bool" where
  "live_in fd m \<longleftrightarrow> mach_deletion m = None \<and> mach_failure_domain m = fd \<and> fd \<noteq> []"

lemma count_machine_map:
  "map_of (count_machine m d) fd =
     (if live_in fd m then Some ((case map_of d fd of None \<Rightarrow> 0 | Some n \<Rightarrow> n) + 1) else map_of d fd)"
  by (auto simp: count_machine_def live_in_def update_conv)

lemma distribution_counts:
  "(case map_of (fold count_machine ms d) fd of None \<Rightarrow> 0 | Some n \<Rightarrow> n) =
     (case map_of d fd of None \<Rightarrow> 0 | Some n \<Rightarrow> n) + int (length (filter (live_in fd) ms))"
  by (induction ms arbitrary: d) (auto simp: count_machine_map)

lemma distribution_distinct:
  "distinct (map fst d) \<Longrightarrow> distinct (map fst (fold count_machine ms d))"
  by (induction ms arbitrary: d) (auto simp: count_machine_def distinct_update)

lemma distribution_positive:
  "\<forall>fd n. map_of d fd = Some n \<longrightarrow> 0 < n \<Longrightarrow> map_of (fold count_machine ms d) fd = Some n \<Longrightarrow> 0 < n"
proof (induction ms arbitrary: d)
  case Nil
  then show ?case by auto
next
  case (Cons m ms)
  have "\<forall>fd n. map_of (count_machine m d) fd = Some n \<longrightarrow> 0 < n"
    using Cons.prems(1) by (auto simp: count_machine_map split: if_splits option.splits) fastforce
  then show ?case using Cons.IH Cons.prems(2) by simp
qed

lemma unusable_domain_None:
  "unusable_domain m d = None \<longleftrightarrow> (\<forall>(fd, n) \<in> set d. \<exists>x. m fd = Some x \<and> enabled x)"
  by (induction m d rule: unusable_domain.induct) (auto split: option.splits)

section \<open>When the control plane is updated\<close>

lemma Reconcile_update:
  assumes "Reconcile env = (res, Some k')"
  obtains cst k reason where "env_cluster env = Inr cst"
    "env_kcp env (cl_namespace (cst_cluster cst)) (cst_cp_ref_name cst) = Inr k"
    "\<not> shouldSkipClusterReconciliation cst" "\<not> areResourcesDeleting cst k"
    "\<not> areResourcesPaused env cst k" "\<not> areResourcesUpdating cst k"
    "shouldTriggerRollout cst k (env_machines env) = Inr (True, reason)"
    "shouldSkipRollout (env_now env) k = None"
    "k' = k\<lparr>kcp_rollout_after := Some (env_now env)\<rparr>"
  using assms
  by (auto simp: Reconcile_def Let_def trigger_rollout_def
      split: sum.splits api_error.splits if_splits option.splits prod.splits)

lemma shouldSkipRollout_recent:
  "kcp_rollout_after k = Some t \<Longrightarrow> now - t < minutes 15 \<Longrightarrow> shouldSkipRollout now k \<noteq> None"
  by (simp add: shouldSkipRollout_def)

lemma distribution_mem:
  "map_of (fold count_machine ms d) fd = Some n \<Longrightarrow> map_of d fd = None \<Longrightarrow>
     \<exists>m \<in> set ms. live_in fd m"
  by (induction ms arbitrary: d) (fastforce simp: count_machine_map split: if_splits)+

lemma shouldTriggerRollout_reason:
  assumes "shouldTriggerRollout cst k (Inr ms) = Inr (True, reason)"
  shows "(\<exists>m \<in> set ms. \<exists>fd. live_in fd m \<and>
      \<not> (\<exists>x. failureDomainsToMap (cst_failure_domains cst) fd = Some x \<and> enabled x)) \<or>
    shouldImproveDistribution k (fold count_machine ms [])
      (getAvailableFailureDomains (cst_failure_domains cst))"
proof (cases "unusable_domain (failureDomainsToMap (cst_failure_domains cst)) (fold count_machine ms [])")
  case None
  with assms show ?thesis
    by (auto simp: shouldTriggerRollout_def getMachineDistribution_def split: if_splits)
next
  case (Some r)
  then have "unusable_domain (failureDomainsToMap (cst_failure_domains cst))
      (fold count_machine ms []) \<noteq> None" by simp
  then obtain fd n where fd: "(fd, n) \<in> set (fold count_machine ms [])"
      "\<not> (\<exists>x. failureDomainsToMap (cst_failure_domains cst) fd = Some x \<and> enabled x)"
    unfolding unusable_domain_None by blast
  have "map_of (fold count_machine ms []) fd = Some n"
    using fd(1) distribution_distinct [of "[]" ms] by simp
  then obtain m where "m \<in> set ms" "live_in fd m" using distribution_mem by fastforce
  with fd(2) show ?thesis by blast
qed

end
