(* ===== verification/AutoscalerLimits.thy ===== *)
theory AutoscalerLimits
  imports ApiTypes
begin

text \<open>
  \<open>pkg/controllers/enforceclusterautoscalerlimits/controller.go\<close>: a MachineDeployment
  whose replicas are outside the autoscaler's bounds has its replicas unset, so that the
  defaulting of Cluster API scales it into the bounds.
\<close>

record machine_deployment_object =
  mdo_annotations :: "string \<rightharpoonup> string"
  mdo_replicas :: "int option"

definition AutoscalerMinSizeAnnotation :: string where
  "AutoscalerMinSizeAnnotation = ''cluster.x-k8s.io/cluster-api-autoscaler-node-group-min-size''"

definition AutoscalerMaxSizeAnnotation :: string where
  "AutoscalerMaxSizeAnnotation = ''cluster.x-k8s.io/cluster-api-autoscaler-node-group-max-size''"

datatype annotation_error = Missing | Invalid

definition size_from_annotations :: "string \<Rightarrow> (string \<rightharpoonup> string) \<Rightarrow> annotation_error + int" where
  "size_from_annotations key annotations =
     (case annotations key of
        None \<Rightarrow> Inl Missing
      | Some v \<Rightarrow> (case atoi v of None \<Rightarrow> Inl Invalid | Some i \<Rightarrow> Inr i))"

definition minReplicasFromAnnotations :: "(string \<rightharpoonup> string) \<Rightarrow> annotation_error + int" where
  "minReplicasFromAnnotations = size_from_annotations AutoscalerMinSizeAnnotation"

definition maxReplicasFromAnnotations :: "(string \<rightharpoonup> string) \<Rightarrow> annotation_error + int" where
  "maxReplicasFromAnnotations = size_from_annotations AutoscalerMaxSizeAnnotation"

text \<open>The outcome of a reconciliation; a failure is the step that failed.\<close>

datatype limits_failure = GetFailed | MinFailed | MaxFailed | UpdateFailed

definition limits_Reconcile ::
    "api_error + machine_deployment_object \<Rightarrow> (machine_deployment_object \<Rightarrow> string option) \<Rightarrow>
     limits_failure option \<times> machine_deployment_object option" where
  "limits_Reconcile got update =
     (case got of
        Inl (NotFound e) \<Rightarrow> (None, None)
      | Inl (OtherError e) \<Rightarrow> (Some GetFailed, None)
      | Inr md \<Rightarrow>
     (case mdo_replicas md of
        None \<Rightarrow> (None, None)
      | Some replicas \<Rightarrow>
     (case minReplicasFromAnnotations (mdo_annotations md) of
        Inl Missing \<Rightarrow> (None, None)
      | Inl Invalid \<Rightarrow> (Some MinFailed, None)
      | Inr minReplicas \<Rightarrow>
     (case maxReplicasFromAnnotations (mdo_annotations md) of
        Inl Missing \<Rightarrow> (None, None)
      | Inl Invalid \<Rightarrow> (Some MaxFailed, None)
      | Inr maxReplicas \<Rightarrow>
          if minReplicas > maxReplicas then (None, None)
          else if replicas \<ge> minReplicas \<and> replicas \<le> maxReplicas then (None, None)
          else
            let md' = md\<lparr>mdo_replicas := None\<rparr>
            in (case update md' of None \<Rightarrow> None | Some err \<Rightarrow> Some UpdateFailed, Some md')))))"

lemma limits_Reconcile_update:
  "snd (limits_Reconcile got update) = Some md' \<longleftrightarrow>
     (\<exists>md r lo hi. got = Inr md \<and> mdo_replicas md = Some r \<and>
        minReplicasFromAnnotations (mdo_annotations md) = Inr lo \<and>
        maxReplicasFromAnnotations (mdo_annotations md) = Inr hi \<and>
        lo \<le> hi \<and> (r < lo \<or> hi < r) \<and> md' = md\<lparr>mdo_replicas := None\<rparr>)"
  by (auto simp: limits_Reconcile_def Let_def
      split: sum.splits api_error.splits option.splits annotation_error.splits)

end
