(* ===== verification/ControllerProps.thy ===== *)
theory ControllerProps
  imports Rollout AutoscalerLimits Samples
begin

text \<open>
  The properties of the controllers: when the control plane is rolled out to other failure
  domains, and when a node group is brought back into the autoscaler's limits.
\<close>

section \<open>Rolling out the control plane\<close>

text \<open>
  C28. The controller updates a control plane only when nothing is being deleted, paused or
  still updating, no rollout is recent or under way, and there is a reason: a machine that is
  not being deleted is in a failure domain that is gone or disabled, or the machines can be
  spread better; the update only sets the time after which to roll out.
\<close>

theorem rollout_only_for_a_reason:
  assumes "Reconcile env = (res, Some k')"
  shows "\<exists>cst k ms. env_cluster env = Inr cst \<and>
    env_kcp env (cl_namespace (cst_cluster cst)) (cst_cp_ref_name cst) = Inr k \<and>
    \<not> areResourcesDeleting cst k \<and> \<not> areResourcesPaused env cst k \<and>
    \<not> areResourcesUpdating cst k \<and> shouldSkipRollout (env_now env) k = None \<and>
    env_machines env = Inr ms \<and>
    ((\<exists>m \<in> set ms. \<exists>fd. live_in fd m \<and>
        \<not> (\<exists>x. failureDomainsToMap (cst_failure_domains cst) fd = Some x \<and> enabled x)) \<or>
     shouldImproveDistribution k (fold count_machine ms [])
       (getAvailableFailureDomains (cst_failure_domains cst))) \<and>
    k' = k\<lparr>kcp_rollout_after := Some (env_now env)\<rparr>"
proof -
  obtain cst k reason where u: "env_cluster env = Inr cst"
    "env_kcp env (cl_namespace (cst_cluster cst)) (cst_cp_ref_name cst) = Inr k"
    "\<not> areResourcesDeleting cst k" "\<not> areResourcesPaused env cst k"
    "\<not> areResourcesUpdating cst k"
    "shouldTriggerRollout cst k (env_machines env) = Inr (True, reason)"
    "shouldSkipRollout (env_now env) k = None"
    "k' = k\<lparr>kcp_rollout_after := Some (env_now env)\<rparr>"
    using Reconcile_update [OF assms] by metis
  obtain ms where ms: "env_machines env = Inr ms"
    using u(6) by (auto simp: shouldTriggerRollout_def getMachineDistribution_def split: sum.splits)
  show ?thesis
    using u ms shouldTriggerRollout_reason [OF u(6) [unfolded ms]] by blast
qed

text \<open>
  C39. Within fifteen minutes after a rollout was triggered the controller triggers no other.
\<close>

theorem no_rollout_soon_after:
  assumes "env_cluster env = Inr cst"
    and "env_kcp env (cl_namespace (cst_cluster cst)) (cst_cp_ref_name cst) = Inr k"
    and "kcp_rollout_after k = Some t" and "env_now env - t < minutes 15"
  shows "snd (Reconcile env) = None"
proof (rule ccontr)
  assume "snd (Reconcile env) \<noteq> None"
  then obtain res k' where "Reconcile env = (res, Some k')" by (metis prod.collapse option.exhaust)
  from Reconcile_update [OF this] assms shouldSkipRollout_recent [OF assms(3,4)]
  show False by (metis Inr_inject)
qed

text \<open>
  A distribution is rolled out again exactly when a failure domain holds more than the
  ideal maximum, the least that any placement on the available ones can reach, or when more
  are available than used and more of them than necessary sit at the ideal maximum.
\<close>

theorem improve_iff:
  fixes fds :: "string list"
  assumes "kcp_replicas k = Some r" and "0 < r" and "d \<noteq> []" and "\<forall>(fd, n) \<in> set d. 0 < n"
  shows "shouldImproveDistribution k d fds \<longleftrightarrow>
    (\<exists>(fd, n) \<in> set d. calculateMaxIdealPerFD r (int (length fds)) < n) \<or>
    (length d < length fds \<and>
     (\<exists>(fd, n) \<in> set d. n = calculateMaxIdealPerFD r (int (length fds))) \<and>
     (if r mod int (length fds) = 0 then int (length fds) else r mod int (length fds)) <
       at_count (calculateMaxIdealPerFD r (int (length fds))) d)"
  using shouldImprove_iff [OF assms, of fds] by simp

definition sample_kcp :: "int \<Rightarrow> kcp" where
  "sample_kcp r = \<lparr>kcp_deletion = None, kcp_generation = 1, kcp_observed_generation = 1,
     kcp_replicas = Some r, kcp_rollout_after = None, kcp_status_replicas = Some r,
     kcp_up_to_date_replicas = Some r, kcp_conditions = []\<rparr>"

theorem improve_iff_witness:
  "shouldImproveDistribution (sample_kcp 3) [(''a'', 2), (''b'', 1)] [''a'', ''b'', ''c'']"
  using improve_iff [of "sample_kcp 3" 3 "[(''a'', 2), (''b'', 1)]" "[''a'', ''b'', ''c'']"]
  by (simp add: sample_kcp_def ideal_eq)

text \<open>
  The ideal maximum bounds the fullest failure domain only: seven machines placed 3, 3 and
  1 on three available failure domains are left alone, although 3, 2 and 2 loses fewer of them
  with one of the first two.
\<close>

theorem uneven_placement_kept:
  "\<not> shouldImproveDistribution (sample_kcp 7) [(''a'', 3), (''b'', 3), (''c'', 1)]
     [''a'', ''b'', ''c'']"
  by (simp add: shouldImproveDistribution_def hasSuboptimalDistribution_def sample_kcp_def ideal_eq)

section \<open>Autoscaler limits\<close>

text \<open>
  A node group is updated exactly when it has replicas and readable limits, the limits are
  ordered and the replicas lie outside them; the update unsets the replicas and nothing else.
\<close>

theorem limits_update_iff:
  "snd (limits_Reconcile got update) = Some md' \<longleftrightarrow>
     (\<exists>md r lo hi. got = Inr md \<and> mdo_replicas md = Some r \<and>
        minReplicasFromAnnotations (mdo_annotations md) = Inr lo \<and>
        maxReplicasFromAnnotations (mdo_annotations md) = Inr hi \<and>
        lo \<le> hi \<and> (r < lo \<or> hi < r) \<and> md' = md\<lparr>mdo_replicas := None\<rparr>)"
  by (rule limits_Reconcile_update)

section \<open>Instances\<close>

definition sample_status :: cluster_status where
  "sample_status = \<lparr>cst_cluster = sample_cluster, cst_generation = 1,
     cst_observed_generation = 1, cst_cp_ref_kind = ''KubeadmControlPlane'',
     cst_cp_ref_name = ''c'',
     cst_failure_domains = [\<lparr>fdm_name = ''a'', fdm_control_plane = Some True\<rparr>]\<rparr>"

definition sample_env :: "kcp \<Rightarrow> rollout_env" where
  "sample_env k = \<lparr>env_request = ''ns/c'', env_cluster = Inr sample_status,
     env_kcp = (\<lambda>_ _. Inr k),
     env_machines = Inr [\<lparr>mach_deletion = None, mach_failure_domain = ''gone''\<rparr>],
     env_cluster_paused = (\<lambda>_. False), env_kcp_paused = (\<lambda>_ _. False),
     env_now = minutes 100, env_update = (\<lambda>_. None)\<rparr>"

theorem rollout_only_for_a_reason_witness:
  "\<exists>k'. Reconcile (sample_env (sample_kcp 1)) = (Done, Some k') \<and>
     k' = (sample_kcp 1)\<lparr>kcp_rollout_after := Some (minutes 100)\<rparr>"
proof -
  obtain k' where r: "Reconcile (sample_env (sample_kcp 1)) = (Done, Some k')"
    by (simp add: Reconcile_def sample_env_def sample_status_def shouldSkipClusterReconciliation_def
        areResourcesDeleting_def areResourcesPaused_def areResourcesUpdating_def
        shouldTriggerRollout_def getMachineDistribution_def count_machine_def
        failureDomainsToMap_def shouldSkipRollout_def trigger_rollout_def sample_kcp_def
        ptr_deref0_def Let_def)
  from rollout_only_for_a_reason [OF r] r show ?thesis by (auto simp: sample_env_def)
qed

theorem no_rollout_soon_after_witness:
  "snd (Reconcile (sample_env ((sample_kcp 1)\<lparr>kcp_rollout_after := Some (minutes 90)\<rparr>))) = None"
  by (rule no_rollout_soon_after [where t = "minutes 90" and cst = sample_status
        and k = "(sample_kcp 1)\<lparr>kcp_rollout_after := Some (minutes 90)\<rparr>"])
    (simp_all add: sample_env_def minutes_def)

end
