(* ===== verification/NamespaceSync.thy ===== *)
theory NamespaceSync
  imports ApiTypes
begin

text \<open>
  \<open>pkg/controllers/namespacesync\<close>: ClusterClasses and the templates they refer to are
  copied from a source namespace to every namespace that a label selector matches.  The state
  is that of the API server, of which only the calls are known (\<open>kube_api\<close>); what they
  promise is stated by \<open>lawful_api\<close>, over the map of the objects in a state.  Nothing is
  promised of the reader, which is a cache (\<open>UnstructuredCachingClient\<close>): it may miss an
  object that exists and still hold one that was deleted.
\<close>

section \<open>Objects\<close>

text \<open>
  An object: its group, version and kind, its metadata and the rest (\<open>ob_content\<close>).
\<close>

record kube_object =
  ob_gvk :: string
  ob_name :: string
  ob_namespace :: string
  ob_creation :: "int option"
  ob_grace :: "int option"
  ob_deletion :: "int option"
  ob_finalizers :: "string list"
  ob_generate_name :: string
  ob_generation :: int
  ob_labels :: "string \<rightharpoonup> string"
  ob_annotations :: "string \<rightharpoonup> string"
  ob_managed_fields :: "string list"
  ob_owner_references :: "string list"
  ob_resource_version :: string
  ob_self_link :: string
  ob_uid :: string
  ob_content :: string

record template_ref =
  tr_api_version :: string
  tr_kind :: string
  tr_name :: string

record object_reference =
  or_api_version :: string
  or_kind :: string
  or_name :: string
  or_namespace :: string

text \<open>
  A ClusterClass; \<open>cc_workers\<close> has the infrastructure and the bootstrap template of each
  MachineDeployment class.
\<close>

record cluster_class =
  cc_object :: kube_object
  cc_infrastructure :: template_ref
  cc_control_plane :: template_ref
  cc_machine_infrastructure :: template_ref
  cc_workers :: "(template_ref \<times> template_ref) list"

text \<open>
  The calls of the API server.  \<open>ka_exists\<close> reads the metadata of an object (\<open>None\<close>
  when it is found), \<open>ka_read\<close> is \<open>external.Get\<close>, \<open>ka_gvk\<close> is
  \<open>apiutil.GVKForObject\<close>, and \<open>ka_reference\<close> is \<open>ToObjectReference\<close>.
\<close>

record 's kube_api =
  ka_exists :: "'s \<Rightarrow> string \<Rightarrow> string \<Rightarrow> string \<Rightarrow> api_error option"
  ka_read :: "'s \<Rightarrow> object_reference \<Rightarrow> string + kube_object"
  ka_create :: "'s \<Rightarrow> kube_object \<Rightarrow> string option \<times> 's"
  ka_gvk :: "kube_object \<Rightarrow> string + string"
  ka_reference :: "template_ref \<Rightarrow> string \<Rightarrow> object_reference option"
  ka_list_classes :: "'s \<Rightarrow> string \<Rightarrow> string + cluster_class list"

section \<open>Copying\<close>

definition copyObjectForCreate :: "kube_object \<Rightarrow> string \<Rightarrow> string \<Rightarrow> kube_object" where
  "copyObjectForCreate src name namespace =
     src\<lparr>ob_name := name, ob_namespace := namespace, ob_creation := None, ob_grace := None,
       ob_deletion := None, ob_finalizers := [], ob_generate_name := [], ob_generation := 0,
       ob_labels := Map.empty, ob_managed_fields := [], ob_owner_references := [],
       ob_resource_version := [], ob_self_link := [], ob_uid := []\<rparr>"

definition createIfNotExists :: "'s kube_api \<Rightarrow> kube_object \<Rightarrow> 's \<Rightarrow> string option \<times> 's" where
  "createIfNotExists api obj s =
     (let key = ob_namespace obj @ ''/'' @ ob_name obj
      in case ka_gvk api obj of
        Inl err \<Rightarrow> (Some (''failed to get GVK for object '' @ key @ '': '' @ err), s)
      | Inr gvk \<Rightarrow>
          (case ka_exists api s gvk (ob_namespace obj) (ob_name obj) of
             Some (NotFound e) \<Rightarrow>
               (case ka_create api s obj of
                  (Some err, s') \<Rightarrow>
                    (Some (''failed to create '' @ gvk @ '' '' @ key @ '': '' @ err), s')
                | (None, s') \<Rightarrow> (None, s'))
           | Some (OtherError err) \<Rightarrow>
               (Some (''failed to check if '' @ gvk @ '' '' @ key @ '' exists: '' @ err), s)
           | None \<Rightarrow> (None, s)))"

definition getReference ::
    "'s kube_api \<Rightarrow> object_reference option \<Rightarrow> 's \<Rightarrow> string + kube_object" where
  "getReference api r s =
     (case r of
        None \<Rightarrow> Inl ''reference is not set''
      | Some ref \<Rightarrow>
          let what = or_kind ref @ '' '' @ or_name ref @ ''/'' @ or_namespace ref
          in case ka_read api s ref of
            Inl err \<Rightarrow> Inl (''failed to get '' @ what @ '': '' @ err)
          | Inr obj \<Rightarrow>
              (case ka_gvk api obj of
                 Inl err \<Rightarrow> Inl (''failed to get GVK for '' @ what @ '': '' @ err)
               | Inr gvk \<Rightarrow> Inr (obj\<lparr>ob_gvk := gvk\<rparr>)))"

text \<open>A loop that stops at the first error, over the state of the API server.\<close>

fun try_each :: "('a \<Rightarrow> 's \<Rightarrow> 'e option \<times> 's) \<Rightarrow> 'a list \<Rightarrow> 's \<Rightarrow> 'e option \<times> 's" where
  "try_each f [] s = (None, s)"
| "try_each f (x # xs) s =
     (case f x s of (Some e, s') \<Rightarrow> (Some e, s') | (None, s') \<Rightarrow> try_each f xs s')"

text \<open>The references of a class that are set, in the order of the walk.\<close>

definition class_references :: "'s kube_api \<Rightarrow> cluster_class \<Rightarrow> object_reference list" where
  "class_references api cc =
     List.map_filter (\<lambda>t. ka_reference api t (ob_namespace (cc_object cc)))
       ([cc_infrastructure cc, cc_control_plane cc, cc_machine_infrastructure cc] @
        concat (map (\<lambda>(infrastructure, bootstrap). [infrastructure, bootstrap]) (cc_workers cc)))"

definition walkReferences ::
    "'s kube_api \<Rightarrow> cluster_class option \<Rightarrow> (object_reference \<Rightarrow> 's \<Rightarrow> string option \<times> 's) \<Rightarrow>
     's \<Rightarrow> string option \<times> 's" where
  "walkReferences api cc fn s =
     (case cc of None \<Rightarrow> (None, s) | Some c \<Rightarrow> try_each fn (class_references api c) s)"

text \<open>
  What is done for one reference.  The code then writes the UID and the namespace of the new
  template into the reference, which nothing reads any more: the class to create was copied
  before, and the reference is a value of its own.
\<close>

definition copy_template ::
    "'s kube_api \<Rightarrow> string \<Rightarrow> object_reference \<Rightarrow> 's \<Rightarrow> string option \<times> 's" where
  "copy_template api namespace ref s =
     (case getReference api (Some ref) s of
        Inl err \<Rightarrow> (Some (''failed to get reference: '' @ err), s)
      | Inr sourceTemplate \<Rightarrow>
          (case createIfNotExists api
                  (copyObjectForCreate sourceTemplate (ob_name sourceTemplate) namespace) s of
             (Some err, s') \<Rightarrow> (Some (''failed to create template: '' @ err), s')
           | (None, s') \<Rightarrow> (None, s')))"

definition copyClusterClassAndTemplates ::
    "'s kube_api \<Rightarrow> string \<Rightarrow> cluster_class \<Rightarrow> 's \<Rightarrow> string option \<times> 's" where
  "copyClusterClassAndTemplates api namespace source s =
     (let target = copyObjectForCreate (cc_object source) (ob_name (cc_object source)) namespace
      in case walkReferences api (Some source) (copy_template api namespace) s of
        (Some err, s') \<Rightarrow> (Some (''error processing references: '' @ err), s')
      | (None, s') \<Rightarrow>
          (case createIfNotExists api target s' of
             (Some err, s'') \<Rightarrow> (Some (''failed to create cluster class: '' @ err), s'')
           | (None, s'') \<Rightarrow> (None, s'')))"

section \<open>The controller\<close>

definition listSourceClusterClasses ::
    "'s kube_api \<Rightarrow> string \<Rightarrow> 's \<Rightarrow> string + cluster_class list" where
  "listSourceClusterClasses api source_namespace s =
     (if source_namespace = [] then Inr [] else ka_list_classes api s source_namespace)"

definition sync_Reconcile ::
    "'s kube_api \<Rightarrow> string \<Rightarrow> string \<Rightarrow> 's \<Rightarrow> string option \<times> 's" where
  "sync_Reconcile api source_namespace namespace s =
     (case listSourceClusterClasses api source_namespace s of
        Inl err \<Rightarrow> (Some (''failed to list source ClusterClasses: '' @ err), s)
      | Inr sccs \<Rightarrow>
          try_each (\<lambda>scc s.
            case copyClusterClassAndTemplates api namespace scc s of
              (Some err, s') \<Rightarrow>
                (Some (''failed to copy source ClusterClass '' @
                  ob_namespace (cc_object scc) @ ''/'' @ ob_name (cc_object scc) @
                  '' or its referenced Templates to namespace '' @ namespace @ '': '' @ err), s')
            | (None, s') \<Rightarrow> (None, s')) sccs s)"

text \<open>
  The predicates of the watch on namespaces: which events lead to a reconciliation, given
  whether the selector matches the labels.
\<close>

definition namespace_created :: "('labels \<Rightarrow> bool) \<Rightarrow> 'labels \<Rightarrow> bool" where
  "namespace_created matches labels = matches labels"

definition namespace_updated :: "('labels \<Rightarrow> bool) \<Rightarrow> 'labels \<Rightarrow> 'labels \<Rightarrow> bool" where
  "namespace_updated matches old new =
     (let matchesOld = matches old; matchesNew = matches new in \<not> matchesOld \<and> matchesNew)"

text \<open>The namespaces a changed ClusterClass is synced to; the server applies the selector.\<close>

definition clusterClassToNamespaces :: "string + string list \<Rightarrow> string list" where
  "clusterClassToNamespaces listed = (case listed of Inl err \<Rightarrow> [] | Inr names \<Rightarrow> names)"

text \<open>
  The life of a namespace as the watch sees it: the labels it is first seen with and those
  after each update; for each event, whether it leads to a reconciliation.
\<close>

fun updates_enqueued :: "('labels \<Rightarrow> bool) \<Rightarrow> 'labels \<Rightarrow> 'labels list \<Rightarrow> bool list" where
  "updates_enqueued matches old [] = []"
| "updates_enqueued matches old (new # ls) =
     namespace_updated matches old new # updates_enqueued matches new ls"

definition events_enqueued :: "('labels \<Rightarrow> bool) \<Rightarrow> 'labels \<Rightarrow> 'labels list \<Rightarrow> bool list" where
  "events_enqueued matches l ls = namespace_created matches l # updates_enqueued matches l ls"

lemma length_updates_enqueued [simp]: "length (updates_enqueued matches l ls) = length ls"
  by (induction ls arbitrary: l) auto

lemma updates_enqueued_since:
  assumes "matches (last (l # ls))"
  shows "(\<forall>k \<le> length ls. matches ((l # ls) ! k)) \<or>
    (\<exists>i < length ls. updates_enqueued matches l ls ! i \<and>
       (\<forall>k. i < k \<and> k \<le> length ls \<longrightarrow> matches ((l # ls) ! k)))"
  using assms
proof (induction ls arbitrary: l)
  case (Cons a ls)
  from Cons.prems have "matches (last (a # ls))" by simp
  from Cons.IH [OF this] show ?case
  proof (elim disjE exE conjE)
    assume all: "\<forall>k \<le> length ls. matches ((a # ls) ! k)"
    show ?thesis
    proof (cases "matches l")
      case True
      then show ?thesis using all by (auto simp: nth_Cons split: nat.splits)
    next
      case False
      moreover from all have "matches a" by force
      ultimately have "updates_enqueued matches l (a # ls) ! 0"
        by (simp add: namespace_updated_def)
      moreover have "\<forall>k. 0 < k \<and> k \<le> length (a # ls) \<longrightarrow> matches ((l # a # ls) ! k)"
        using all by (auto simp: nth_Cons split: nat.splits)
      ultimately show ?thesis by (metis length_greater_0_conv list.distinct(1))
    qed
  next
    fix i
    assume "i < length ls" "updates_enqueued matches a ls ! i"
      "\<forall>k. i < k \<and> k \<le> length ls \<longrightarrow> matches ((a # ls) ! k)"
    then have "Suc i < length (a # ls)" "updates_enqueued matches l (a # ls) ! Suc i"
      "\<forall>k. Suc i < k \<and> k \<le> length (a # ls) \<longrightarrow> matches ((l # a # ls) ! k)"
      by (auto simp: nth_Cons split: nat.splits)
    then show ?thesis by blast
  qed
qed simp

section \<open>What a reconciliation leaves behind\<close>

type_synonym object_key = "string \<times> string \<times> string"

definition key_of :: "string \<Rightarrow> kube_object \<Rightarrow> object_key" where
  "key_of gvk obj = (gvk, ob_namespace obj, ob_name obj)"

text \<open>
  What the API server and its clients promise, for the map \<open>objects\<close> of the objects in a
  state: creating an object adds one that was not there; a creation that fails changes nothing,
  or the server has added the object and its answer was lost; a template that is read has the
  name and the kind that the reference asks for (\<open>ref_gvk\<close>); and the kind of an object
  does not depend on its other metadata.  No law relates \<open>ka_exists\<close> to the objects.
\<close>

definition adds_object ::
    "('s \<Rightarrow> object_key \<rightharpoonup> kube_object) \<Rightarrow> object_key \<Rightarrow> 's \<Rightarrow> 's \<Rightarrow> bool" where
  "adds_object objects key s s' \<longleftrightarrow>
     objects s key = None \<and> (\<exists>stored. objects s' = (objects s)(key \<mapsto> stored))"

definition lawful_api ::
    "'s kube_api \<Rightarrow> ('s \<Rightarrow> object_key \<rightharpoonup> kube_object) \<Rightarrow> (object_reference \<Rightarrow> string) \<Rightarrow> bool"
  where
  "lawful_api api objects ref_gvk \<longleftrightarrow>
     (\<forall>s obj s' gvk. ka_create api s obj = (None, s') \<longrightarrow> ka_gvk api obj = Inr gvk \<longrightarrow>
        adds_object objects (key_of gvk obj) s s') \<and>
     (\<forall>s obj s' err gvk. ka_create api s obj = (Some err, s') \<longrightarrow> ka_gvk api obj = Inr gvk \<longrightarrow>
        objects s' = objects s \<or> adds_object objects (key_of gvk obj) s s') \<and>
     (\<forall>s ref obj. ka_read api s ref = Inr obj \<longrightarrow>
        ob_name obj = or_name ref \<and> ka_gvk api obj = Inr (ref_gvk ref)) \<and>
     (\<forall>obj name ns. ka_gvk api (copyObjectForCreate obj name ns) = ka_gvk api obj) \<and>
     (\<forall>obj gvk. ka_gvk api obj = Inr gvk \<longrightarrow> ka_gvk api (obj\<lparr>ob_gvk := gvk\<rparr>) = Inr gvk)"

lemma lawful_create:
  assumes "lawful_api api objects ref_gvk" "ka_create api s obj = (None, s')"
    "ka_gvk api obj = Inr gvk"
  shows "adds_object objects (key_of gvk obj) s s'"
  using assms unfolding lawful_api_def by blast

lemma lawful_create_any:
  assumes "lawful_api api objects ref_gvk" "ka_create api s obj = (r, s')"
    "ka_gvk api obj = Inr gvk"
  shows "objects s' = objects s \<or> adds_object objects (key_of gvk obj) s s'"
proof (cases r)
  case None
  then show ?thesis using lawful_create [OF assms(1) _ assms(3)] assms(2) by simp
next
  case (Some err)
  then show ?thesis using assms unfolding lawful_api_def by blast
qed

lemma lawful_api_laws:
  assumes "lawful_api api objects ref_gvk"
  shows "ka_read api s ref = Inr obj \<Longrightarrow> ob_name obj = or_name ref"
    "ka_read api s ref = Inr obj \<Longrightarrow> ka_gvk api obj = Inr (ref_gvk ref)"
    "ka_gvk api (copyObjectForCreate obj name ns) = ka_gvk api obj"
    "ka_gvk api obj = Inr gvk \<Longrightarrow> ka_gvk api (obj\<lparr>ob_gvk := gvk\<rparr>) = Inr gvk"
proof -
  note laws = assms [unfolded lawful_api_def, THEN conjunct2, THEN conjunct2]
  show "ka_read api s ref = Inr obj \<Longrightarrow> ob_name obj = or_name ref"
    "ka_read api s ref = Inr obj \<Longrightarrow> ka_gvk api obj = Inr (ref_gvk ref)"
    using laws [THEN conjunct1, rule_format] by blast+
  show "ka_gvk api (copyObjectForCreate obj name ns) = ka_gvk api obj"
    "ka_gvk api obj = Inr gvk \<Longrightarrow> ka_gvk api (obj\<lparr>ob_gvk := gvk\<rparr>) = Inr gvk"
    using laws [THEN conjunct2] by blast+
qed

text \<open>Objects are only added, and only in the namespace.\<close>

definition grows :: "('s \<Rightarrow> object_key \<rightharpoonup> 'o) \<Rightarrow> string \<Rightarrow> 's \<Rightarrow> 's \<Rightarrow> bool" where
  "grows objects namespace s s' \<longleftrightarrow>
     objects s \<subseteq>\<^sub>m objects s' \<and>
     (\<forall>k \<in> dom (objects s') - dom (objects s). fst (snd k) = namespace)"

lemma grows_refl [simp]: "grows objects namespace s s"
  by (simp add: grows_def)

lemma grows_trans:
  "grows objects namespace s t \<Longrightarrow> grows objects namespace t u \<Longrightarrow> grows objects namespace s u"
  unfolding grows_def by (blast intro: map_le_trans)

lemma grows_dom: "grows objects namespace s t \<Longrightarrow> k \<in> dom (objects s) \<Longrightarrow> k \<in> dom (objects t)"
  unfolding grows_def using map_le_implies_dom_le by blast

lemma try_each_grows:
  assumes "\<And>x s. x \<in> set xs \<Longrightarrow> grows objects namespace s (snd (f x s))"
  shows "grows objects namespace s (snd (try_each f xs s))"
  using assms
proof (induction xs arbitrary: s)
  case (Cons x xs)
  have "grows objects namespace s (snd (f x s))" using Cons.prems by simp
  moreover have "grows objects namespace t (snd (try_each f xs t))" for t
    using Cons.IH Cons.prems by simp
  ultimately show ?case by (auto split: prod.splits option.splits intro: grows_trans)
qed simp

text \<open>
  A key is settled after a run from \<open>s\<close> to \<open>s'\<close> when its object exists, or when the
  reader found it in some state of the run.
\<close>

definition reported :: "'s kube_api \<Rightarrow> 's \<Rightarrow> object_key \<Rightarrow> bool" where
  "reported api t key \<longleftrightarrow> ka_exists api t (fst key) (fst (snd key)) (snd (snd key)) = None"

definition settled ::
    "'s kube_api \<Rightarrow> ('s \<Rightarrow> object_key \<rightharpoonup> kube_object) \<Rightarrow> string \<Rightarrow> 's \<Rightarrow> 's \<Rightarrow> object_key \<Rightarrow> bool"
  where
  "settled api objects namespace s s' key \<longleftrightarrow> key \<in> dom (objects s') \<or>
     (\<exists>t. grows objects namespace s t \<and> grows objects namespace t s' \<and> reported api t key)"

lemma settled_mono:
  assumes "grows objects namespace s t" "grows objects namespace u v"
    and "settled api objects namespace t u key"
  shows "settled api objects namespace s v key"
  using assms(3) unfolding settled_def
proof
  assume "key \<in> dom (objects u)"
  then show "key \<in> dom (objects v) \<or> (\<exists>r. grows objects namespace s r \<and>
      grows objects namespace r v \<and> reported api r key)"
    using grows_dom [OF assms(2)] by blast
next
  assume "\<exists>r. grows objects namespace t r \<and> grows objects namespace r u \<and> reported api r key"
  then show "key \<in> dom (objects v) \<or> (\<exists>r. grows objects namespace s r \<and>
      grows objects namespace r v \<and> reported api r key)"
    using grows_trans [OF assms(1)] grows_trans [OF _ assms(2)] by blast
qed

text \<open>After a loop that succeeds, what each step settles is settled.\<close>

lemma try_each_done:
  assumes "try_each f xs s = (None, s')"
    and "\<And>x s. grows objects namespace s (snd (f x s))"
    and "\<And>x s t. x \<in> set xs \<Longrightarrow> f x s = (None, t) \<Longrightarrow>
      \<forall>k \<in> K x. settled api objects namespace s t k"
  shows "\<forall>x \<in> set xs. \<forall>k \<in> K x. settled api objects namespace s s' k"
  using assms
proof (induction xs arbitrary: s)
  case (Cons x xs)
  from Cons.prems(1) obtain t where t: "f x s = (None, t)" "try_each f xs t = (None, s')"
    by (auto split: prod.splits option.splits)
  have st: "grows objects namespace s t" using Cons.prems(2) [of s x] t(1) by simp
  have ts: "grows objects namespace t s'"
    using try_each_grows [of xs objects namespace f t] Cons.prems(2) t(2) by simp
  have "\<forall>k \<in> K x. settled api objects namespace s t k"
    by (rule Cons.prems(3) [OF _ t(1)]) simp
  then have "\<forall>k \<in> K x. settled api objects namespace s s' k"
    using settled_mono [OF grows_refl ts] by blast
  moreover have "\<forall>x \<in> set xs. \<forall>k \<in> K x. settled api objects namespace t s' k"
    by (rule Cons.IH [OF t(2) Cons.prems(2)]) (rule Cons.prems(3), simp_all)
  then have "\<forall>x \<in> set xs. \<forall>k \<in> K x. settled api objects namespace s s' k"
    using settled_mono [OF st grows_refl] by blast
  ultimately show ?case by simp
qed simp

lemma created_grows:
  assumes "lawful_api api objects ref_gvk" and "ka_create api s obj = (r, s')"
    and "ka_gvk api obj = Inr gvk" and "ob_namespace obj = namespace"
  shows "grows objects namespace s s'"
  using lawful_create_any [OF assms(1-3)]
proof
  assume "objects s' = objects s"
  then show ?thesis by (simp add: grows_def)
next
  assume "adds_object objects (key_of gvk obj) s s'"
  then show ?thesis using assms(4) unfolding adds_object_def grows_def map_le_def
    by (auto simp: key_of_def)
qed

lemma createIfNotExists_cases:
  assumes "createIfNotExists api obj s = (r, s')"
  obtains (unchanged) "s' = s" "r \<noteq> None"
    | (exists) gvk where "s' = s" "r = None" "ka_gvk api obj = Inr gvk"
        "ka_exists api s gvk (ob_namespace obj) (ob_name obj) = None"
    | (created) gvk r' where "ka_gvk api obj = Inr gvk" "ka_create api s obj = (r', s')"
        "r = None \<longleftrightarrow> r' = None"
  using assms
  by (cases "ka_create api s obj")
    (auto simp: createIfNotExists_def Let_def split: sum.splits option.splits api_error.splits)

lemma createIfNotExists_grows:
  assumes "lawful_api api objects ref_gvk" and "createIfNotExists api obj s = (r, s')"
    and "ob_namespace obj = namespace"
  shows "grows objects namespace s s'"
  using assms(2)
proof (cases rule: createIfNotExists_cases)
  case (created gvk r')
  then show ?thesis using created_grows [OF assms(1) _ _ assms(3)] by blast
qed simp_all

lemma createIfNotExists_done:
  assumes "lawful_api api objects ref_gvk" and "createIfNotExists api obj s = (None, s')"
    and "ka_gvk api obj = Inr gvk"
  shows "settled api objects namespace s s' (key_of gvk obj)"
  using assms(2)
proof (cases rule: createIfNotExists_cases)
  case (exists gvk')
  then have "reported api s (key_of gvk obj)" using assms(3) by (simp add: reported_def key_of_def)
  then show ?thesis unfolding settled_def exists(1)
    by (intro disjI2 exI [of _ s] conjI grows_refl)
next
  case (created gvk' r')
  then have "ka_create api s obj = (None, s')" by simp
  from lawful_create [OF assms(1) this assms(3)]
  show ?thesis by (auto simp: settled_def adds_object_def)
qed simp_all

lemma getReference_Inr:
  assumes "lawful_api api objects ref_gvk" and "getReference api (Some ref) s = Inr obj"
  shows "ob_name obj = or_name ref" "ka_gvk api obj = Inr (ref_gvk ref)"
proof -
  from assms(2) obtain o' gvk where o': "ka_read api s ref = Inr o'" "ka_gvk api o' = Inr gvk"
    "obj = o'\<lparr>ob_gvk := gvk\<rparr>"
    by (auto simp: getReference_def Let_def split: sum.splits)
  note r = lawful_api_laws(1,2) [OF assms(1) o'(1)]
  show "ob_name obj = or_name ref" using r(1) by (simp add: o'(3))
  show "ka_gvk api obj = Inr (ref_gvk ref)"
    using r(2) o'(2,3) lawful_api_laws(4) [OF assms(1) o'(2)] by simp
qed

lemma copy_fields [simp]:
  "ob_name (copyObjectForCreate obj name namespace) = name"
  "ob_namespace (copyObjectForCreate obj name namespace) = namespace"
  by (simp_all add: copyObjectForCreate_def)

lemma copy_template_cases:
  assumes "copy_template api namespace ref s = (r, s')"
  obtains (unread) err where "s' = s" "r \<noteq> None" "getReference api (Some ref) s = Inl err"
    | (read) t r' where "getReference api (Some ref) s = Inr t"
        "createIfNotExists api (copyObjectForCreate t (ob_name t) namespace) s = (r', s')"
        "r = None \<longleftrightarrow> r' = None"
  using assms
  by (auto simp: copy_template_def split: sum.splits prod.splits option.splits)

lemma copy_template_grows:
  assumes "lawful_api api objects ref_gvk" and "copy_template api namespace ref s = (r, s')"
  shows "grows objects namespace s s'"
  using assms(2)
proof (cases rule: copy_template_cases)
  case (read t r')
  then show ?thesis using createIfNotExists_grows [OF assms(1) read(2)] by simp
qed simp

lemma copy_template_done:
  assumes "lawful_api api objects ref_gvk" and "copy_template api namespace ref s = (None, s')"
  shows "settled api objects namespace s s' (ref_gvk ref, namespace, or_name ref)"
proof -
  from assms(2) obtain t where t: "getReference api (Some ref) s = Inr t"
    "createIfNotExists api (copyObjectForCreate t (ob_name t) namespace) s = (None, s')"
    by (cases rule: copy_template_cases) auto
  have "ka_gvk api (copyObjectForCreate t (ob_name t) namespace) = Inr (ref_gvk ref)"
    using getReference_Inr(2) [OF assms(1) t(1)] lawful_api_laws(3) [OF assms(1)] by simp
  from createIfNotExists_done [OF assms(1) t(2) this] show ?thesis
    using getReference_Inr(1) [OF assms(1) t(1)] by (simp add: key_of_def)
qed

lemma walk_grows:
  assumes "lawful_api api objects ref_gvk"
    and "walkReferences api (Some cc) (copy_template api namespace) s = (r, t)"
  shows "grows objects namespace s t"
proof -
  have "grows objects namespace s (snd (try_each (copy_template api namespace) (class_references api cc) s))"
    by (rule try_each_grows) (rule copy_template_grows [OF assms(1) prod.collapse [symmetric]])
  with assms(2) show ?thesis by (simp add: walkReferences_def)
qed

lemma copy_class_cases:
  assumes "copyClusterClassAndTemplates api namespace cc s = (r, s')"
  obtains (walk) r' where "walkReferences api (Some cc) (copy_template api namespace) s = (r', s')"
      "r \<noteq> None"
    | (create) t r' where "walkReferences api (Some cc) (copy_template api namespace) s = (None, t)"
      "createIfNotExists api (copyObjectForCreate (cc_object cc) (ob_name (cc_object cc)) namespace) t =
         (r', s')" "r = None \<longleftrightarrow> r' = None"
  using assms
  by (auto simp: copyClusterClassAndTemplates_def Let_def split: prod.splits option.splits)

lemma copy_class_grows:
  assumes "lawful_api api objects ref_gvk"
  shows "grows objects namespace s (snd (copyClusterClassAndTemplates api namespace cc s))"
  using prod.collapse [of "copyClusterClassAndTemplates api namespace cc s", symmetric]
proof (cases rule: copy_class_cases)
  case (walk r')
  show ?thesis by (rule walk_grows [OF assms walk(1)])
next
  case (create t r')
  show ?thesis
    by (rule grows_trans [OF walk_grows [OF assms create(1)]
          createIfNotExists_grows [OF assms create(2)]]) simp
qed

text \<open>The keys a class and its templates have in the namespace.\<close>

definition copied_keys ::
    "'s kube_api \<Rightarrow> (object_reference \<Rightarrow> string) \<Rightarrow> string \<Rightarrow> cluster_class \<Rightarrow> object_key set" where
  "copied_keys api ref_gvk namespace cc =
     {(gvk, namespace, ob_name (cc_object cc)) |gvk. ka_gvk api (cc_object cc) = Inr gvk} \<union>
     (\<lambda>ref. (ref_gvk ref, namespace, or_name ref)) ` set (class_references api cc)"

lemma copy_class_done:
  assumes "lawful_api api objects ref_gvk"
    and "copyClusterClassAndTemplates api namespace cc s = (None, s')"
  shows "\<forall>k \<in> copied_keys api ref_gvk namespace cc. settled api objects namespace s s' k"
proof -
  let ?target = "copyObjectForCreate (cc_object cc) (ob_name (cc_object cc)) namespace"
  from assms(2) obtain t where t:
    "walkReferences api (Some cc) (copy_template api namespace) s = (None, t)"
    "createIfNotExists api ?target t = (None, s')"
    by (cases rule: copy_class_cases) auto
  note st = walk_grows [OF assms(1) t(1)]
  have ts: "grows objects namespace t s'" using createIfNotExists_grows [OF assms(1) t(2)] by simp
  have loop: "try_each (copy_template api namespace) (class_references api cc) s = (None, t)"
    using t(1) by (simp add: walkReferences_def)
  have "\<forall>ref \<in> set (class_references api cc). \<forall>k \<in> {(ref_gvk ref, namespace, or_name ref)}.
      settled api objects namespace s t k"
    using loop
    by (rule try_each_done [where namespace = namespace])
      (rule copy_template_grows [OF assms(1) prod.collapse [symmetric]],
        simp add: copy_template_done [OF assms(1)])
  then have "\<forall>ref \<in> set (class_references api cc).
      settled api objects namespace s s' (ref_gvk ref, namespace, or_name ref)"
    using settled_mono [OF grows_refl ts] by blast
  moreover have "settled api objects namespace s s' (gvk, namespace, ob_name (cc_object cc))"
    if "ka_gvk api (cc_object cc) = Inr gvk" for gvk
  proof -
    have "ka_gvk api ?target = Inr gvk" using lawful_api_laws(3) [OF assms(1)] that by simp
    from createIfNotExists_done [OF assms(1) t(2) this, of namespace]
    show ?thesis using settled_mono [OF st grows_refl] by (simp add: key_of_def)
  qed
  ultimately show ?thesis by (auto simp: copied_keys_def)
qed

text \<open>The step of the loop over the classes.\<close>

lemma sync_Reconcile_listed:
  assumes "listSourceClusterClasses api source_namespace s = Inr sccs"
  obtains f where "sync_Reconcile api source_namespace namespace s = try_each f sccs s"
    "\<And>cc s. snd (f cc s) = snd (copyClusterClassAndTemplates api namespace cc s)"
    "\<And>cc s. fst (f cc s) = None \<longleftrightarrow> fst (copyClusterClassAndTemplates api namespace cc s) = None"
proof -
  let ?f = "\<lambda>scc s. case copyClusterClassAndTemplates api namespace scc s of
      (Some err, s') \<Rightarrow> (Some (''failed to copy source ClusterClass '' @
          ob_namespace (cc_object scc) @ ''/'' @ ob_name (cc_object scc) @
          '' or its referenced Templates to namespace '' @ namespace @ '': '' @ err), s')
    | (None, s') \<Rightarrow> (None, s')"
  have "sync_Reconcile api source_namespace namespace s = try_each ?f sccs s"
    using assms by (simp add: sync_Reconcile_def)
  then show ?thesis by (rule that) (auto split: prod.splits option.splits)
qed

lemma sync_grows:
  assumes "lawful_api api objects ref_gvk"
  shows "grows objects namespace s (snd (sync_Reconcile api source_namespace namespace s))"
proof (cases "listSourceClusterClasses api source_namespace s")
  case (Inl e)
  then show ?thesis by (simp add: sync_Reconcile_def)
next
  case (Inr sccs)
  then obtain f where f: "sync_Reconcile api source_namespace namespace s = try_each f sccs s"
    "\<And>cc s. snd (f cc s) = snd (copyClusterClassAndTemplates api namespace cc s)"
    by (rule sync_Reconcile_listed [where namespace = namespace]) blast
  show ?thesis unfolding f(1)
    by (rule try_each_grows) (simp add: f(2) copy_class_grows [OF assms])
qed

lemma sync_done:
  assumes "lawful_api api objects ref_gvk"
    and "listSourceClusterClasses api source_namespace s = Inr sccs"
    and "sync_Reconcile api source_namespace namespace s = (None, s')"
  shows "\<forall>cc \<in> set sccs. \<forall>k \<in> copied_keys api ref_gvk namespace cc.
    settled api objects namespace s s' k"
proof -
  obtain f where f: "sync_Reconcile api source_namespace namespace s = try_each f sccs s"
    "\<And>cc s. snd (f cc s) = snd (copyClusterClassAndTemplates api namespace cc s)"
    "\<And>cc s. fst (f cc s) = None \<longleftrightarrow> fst (copyClusterClassAndTemplates api namespace cc s) = None"
    by (rule sync_Reconcile_listed [OF assms(2), where namespace = namespace]) blast
  have "try_each f sccs s = (None, s')" using assms(3) f(1) by simp
  then show ?thesis
  proof (rule try_each_done [where namespace = namespace])
    show "grows objects namespace s (snd (f x s))" for x s
      by (simp add: f(2) copy_class_grows [OF assms(1)])
    show "\<forall>k \<in> copied_keys api ref_gvk namespace x. settled api objects namespace s t k"
      if "f x s = (None, t)" for x s t
      using copy_class_done [OF assms(1), of namespace x s t] f(2,3) [of x s] that
      by (metis fst_conv prod.collapse snd_conv)
  qed
qed

text \<open>
  The reader holds nothing that was deleted: what it finds in a state from \<open>s\<close> on exists.
\<close>

definition reports_exist ::
    "'s kube_api \<Rightarrow> ('s \<Rightarrow> object_key \<rightharpoonup> kube_object) \<Rightarrow> string \<Rightarrow> 's \<Rightarrow> bool" where
  "reports_exist api objects namespace s \<longleftrightarrow>
     (\<forall>t key. grows objects namespace s t \<longrightarrow> reported api t key \<longrightarrow> key \<in> dom (objects t))"

lemma settled_exists:
  assumes "reports_exist api objects namespace s" "settled api objects namespace s s' key"
  shows "key \<in> dom (objects s')"
  using assms(2) unfolding settled_def
proof
  assume "\<exists>t. grows objects namespace s t \<and> grows objects namespace t s' \<and> reported api t key"
  then obtain t where t: "grows objects namespace s t" "grows objects namespace t s'"
    "reported api t key" by blast
  then have "key \<in> dom (objects t)" using assms(1) unfolding reports_exist_def by blast
  then show ?thesis by (rule grows_dom [OF t(2)])
qed

section \<open>A later reconciliation\<close>

text \<open>The reader has caught up: it misses no object that exists.\<close>

definition caught_up :: "'s kube_api \<Rightarrow> ('s \<Rightarrow> object_key \<rightharpoonup> kube_object) \<Rightarrow> 's \<Rightarrow> bool" where
  "caught_up api objects s \<longleftrightarrow>
     (\<forall>gvk ns n e. ka_exists api s gvk ns n = Some (NotFound e) \<longrightarrow> objects s (gvk, ns, n) = None)"

text \<open>
  Creating an object whose key is in \<open>K\<close>, from a state in \<open>Q\<close>, ends in one: with a
  reader that has caught up the state stays the same, and with any reader the objects do, since
  the server refuses to create what exists.
\<close>

definition keeps_existing :: "'s kube_api \<Rightarrow> object_key set \<Rightarrow> ('s \<Rightarrow> bool) \<Rightarrow> bool" where
  "keeps_existing api K Q \<longleftrightarrow>
     (\<forall>obj gvk t. ka_gvk api obj = Inr gvk \<longrightarrow> key_of gvk obj \<in> K \<longrightarrow> Q t \<longrightarrow>
        Q (snd (createIfNotExists api obj t)))"

lemma keeps_existingD:
  "keeps_existing api K Q \<Longrightarrow> ka_gvk api obj = Inr gvk \<Longrightarrow> key_of gvk obj \<in> K \<Longrightarrow> Q t \<Longrightarrow>
     Q (snd (createIfNotExists api obj t))"
  unfolding keeps_existing_def by blast

lemma keeps_state:
  assumes "caught_up api objects s"
  shows "keeps_existing api (dom (objects s)) (\<lambda>t. t = s)"
  unfolding keeps_existing_def
proof (intro allI impI)
  fix obj gvk t
  assume a: "ka_gvk api obj = Inr gvk" "key_of gvk obj \<in> dom (objects s)" "t = s"
  then have "ka_exists api s gvk (ob_namespace obj) (ob_name obj) \<noteq> Some (NotFound e)" for e
    using assms unfolding caught_up_def key_of_def by (metis domIff)
  then show "snd (createIfNotExists api obj t) = s"
    using a by (auto simp: createIfNotExists_def Let_def split: option.splits api_error.splits)
qed

lemma keeps_objects:
  assumes "lawful_api api objects ref_gvk"
  shows "keeps_existing api (dom (objects s)) (\<lambda>t. objects t = objects s)"
  unfolding keeps_existing_def
proof (intro allI impI)
  fix obj gvk t
  assume a: "ka_gvk api obj = Inr gvk" "key_of gvk obj \<in> dom (objects s)" "objects t = objects s"
  show "objects (snd (createIfNotExists api obj t)) = objects s"
    using prod.collapse [of "createIfNotExists api obj t", symmetric]
  proof (cases rule: createIfNotExists_cases)
    case (created gvk' r')
    have "\<not> adds_object objects (key_of gvk obj) t (snd (createIfNotExists api obj t))"
      using a(2,3) by (auto simp: adds_object_def)
    then show ?thesis using lawful_create_any [OF assms created(2) a(1)] a(3) by simp
  qed (simp_all add: a(3))
qed

lemma try_each_keeps:
  assumes "\<And>x t. x \<in> set xs \<Longrightarrow> Q t \<Longrightarrow> Q (snd (f x t))" and "Q s"
  shows "Q (snd (try_each f xs s))"
  using assms
proof (induction xs arbitrary: s)
  case (Cons x xs)
  obtain r t where f: "f x s = (r, t)" by fastforce
  then have "Q t" using Cons.prems(1) [of x s] Cons.prems(2) by simp
  then show ?case using Cons.IH Cons.prems(1) f by (cases r) auto
qed simp

lemma copy_template_keeps:
  assumes "lawful_api api objects ref_gvk" and "keeps_existing api K Q"
    and "(ref_gvk ref, namespace, or_name ref) \<in> K" and "Q t"
  shows "Q (snd (copy_template api namespace ref t))"
  using prod.collapse [of "copy_template api namespace ref t", symmetric]
proof (cases rule: copy_template_cases)
  case (read src r')
  note src = getReference_Inr [OF assms(1) read(1)]
  let ?copy = "copyObjectForCreate src (ob_name src) namespace"
  have "ka_gvk api ?copy = Inr (ref_gvk ref)"
    using lawful_api_laws(3) [OF assms(1)] src(2) by simp
  moreover have "key_of (ref_gvk ref) ?copy \<in> K" using assms(3) src(1) by (simp add: key_of_def)
  ultimately show ?thesis using keeps_existingD [OF assms(2) _ _ assms(4)] read(2) by fastforce
qed (simp add: assms(4))

lemma copy_class_keeps:
  assumes "lawful_api api objects ref_gvk" and "keeps_existing api K Q"
    and "copied_keys api ref_gvk namespace cc \<subseteq> K" and "Q t"
  shows "Q (snd (copyClusterClassAndTemplates api namespace cc t))"
proof -
  let ?target = "copyObjectForCreate (cc_object cc) (ob_name (cc_object cc)) namespace"
  have walk: "Q (snd (walkReferences api (Some cc) (copy_template api namespace) t))"
    unfolding walkReferences_def option.case
    by (rule try_each_keeps, rule copy_template_keeps [OF assms(1,2)])
      (use assms(3,4) in \<open>auto simp: copied_keys_def\<close>)
  have target: "Q (snd (createIfNotExists api ?target u))" if "Q u" for u
  proof (cases "ka_gvk api (cc_object cc)")
    case (Inl err)
    then show ?thesis
      using lawful_api_laws(3) [OF assms(1)] that by (simp add: createIfNotExists_def Let_def)
  next
    case (Inr gvk)
    then have "ka_gvk api ?target = Inr gvk" using lawful_api_laws(3) [OF assms(1)] by simp
    moreover have "key_of gvk ?target \<in> K"
      using assms(3) Inr by (auto simp: copied_keys_def key_of_def)
    ultimately show ?thesis by (rule keeps_existingD [OF assms(2) _ _ that])
  qed
  show ?thesis
    using prod.collapse [of "copyClusterClassAndTemplates api namespace cc t", symmetric]
  proof (cases rule: copy_class_cases)
    case (walk r')
    then show ?thesis using \<open>Q (snd (walkReferences _ _ _ _))\<close> by simp
  next
    case (create u r')
    then show ?thesis using walk target [of u] by simp
  qed
qed

lemma sync_keeps:
  assumes "lawful_api api objects ref_gvk" and "keeps_existing api K Q"
    and "listSourceClusterClasses api source_namespace s = Inr sccs"
    and "\<forall>cc \<in> set sccs. copied_keys api ref_gvk namespace cc \<subseteq> K" and "Q s"
  shows "Q (snd (sync_Reconcile api source_namespace namespace s))"
proof -
  obtain f where f: "sync_Reconcile api source_namespace namespace s = try_each f sccs s"
    "\<And>cc s. snd (f cc s) = snd (copyClusterClassAndTemplates api namespace cc s)"
    by (rule sync_Reconcile_listed [OF assms(3), where namespace = namespace]) blast
  show ?thesis
    unfolding f(1) by (rule try_each_keeps [where Q = Q])
      (simp_all add: f(2) copy_class_keeps [OF assms(1,2)] assms(4,5))
qed

end
