(* ===== verification/ParallelHooks.thy ===== *)
theory ParallelHooks
  imports GoBase "HOL-Library.Multiset"
begin

text \<open>
  \<open>common/pkg/capi/clustertopology/handlers/lifecycle/parallel.go\<close>: several handlers of a
  lifecycle hook are run in parallel and their responses are put together.  A response has a
  status, a message and, for the hooks that can ask to be called again, the seconds to wait;
  \<open>hr_retry\<close> is \<open>None\<close> when the type of the response has no such field.  The
  goroutines are a step relation: one for each hook, one that closes the channel, and the loop
  that receives from it.
\<close>

section \<open>Putting responses together\<close>

datatype hook_status = StatusUnset | Success | Failure

record hook_response =
  hr_status :: hook_status
  hr_message :: string
  hr_retry :: "int option"

text \<open>
  \<open>util.LowestNonZeroInt32\<close> of Cluster API is a parameter (\<open>lowest\<close>); zero means
  that nothing is asked.
\<close>

definition lowest_nonzero :: "(int \<Rightarrow> int \<Rightarrow> int) \<Rightarrow> bool" where
  "lowest_nonzero lowest \<longleftrightarrow>
     (\<forall>i j. lowest i j = (if i = 0 then j else if j = 0 then i else min i j))"

text \<open>
  One turn of the loop of \<open>aggregateResponses\<close>, over the messages of successes and
  failures, the seconds and the status so far.
\<close>

definition add_response ::
    "(int \<Rightarrow> int \<Rightarrow> int) \<Rightarrow> hook_response \<Rightarrow> string list \<times> string list \<times> int \<times> hook_status \<Rightarrow>
     string list \<times> string list \<times> int \<times> hook_status" where
  "add_response lowest resp acc =
     (case acc of (successMessages, failureMessages, retryAfterSeconds, status) \<Rightarrow>
       (case hr_status resp of
          Failure \<Rightarrow>
            (successMessages,
             (if hr_message resp \<noteq> [] then failureMessages @ [hr_message resp] else failureMessages),
             (case hr_retry resp of
                None \<Rightarrow> retryAfterSeconds
              | Some r \<Rightarrow> lowest retryAfterSeconds r),
             Failure)
        | Success \<Rightarrow>
            ((if hr_message resp \<noteq> [] then successMessages @ [hr_message resp] else successMessages),
             failureMessages, retryAfterSeconds, status)
        | StatusUnset \<Rightarrow> acc))"

definition aggregateResponses ::
    "(int \<Rightarrow> int \<Rightarrow> int) \<Rightarrow> hook_response \<Rightarrow> hook_response list \<Rightarrow> hook_response" where
  "aggregateResponses lowest aggregated responses =
     (case fold (add_response lowest) responses ([], [], 0, Success) of
        (successMessages, failureMessages, retryAfterSeconds, status) \<Rightarrow>
          (case status of
             Failure \<Rightarrow>
               let resp = aggregated\<lparr>hr_status := status,
                 hr_message := join_with '', '' failureMessages\<rparr>
               in if retryAfterSeconds > 0
                  then resp\<lparr>hr_retry := Some retryAfterSeconds\<rparr> else resp
           | Success \<Rightarrow>
               aggregated\<lparr>hr_status := status, hr_message := join_with '', '' successMessages\<rparr>
           | StatusUnset \<Rightarrow> aggregated\<lparr>hr_status := status\<rparr>))"

section \<open>Running hooks in parallel\<close>

text \<open>
  A hook is what it makes of a new response of the type of the hook (\<open>fresh\<close>).  The
  state of \<open>runHooksInParallel\<close>: for each hook, whether its goroutine has sent its response
  and whether it has told the wait group; the channel, in order; whether it is closed; what the
  loop has received; and whether the loop has ended.
\<close>

record hooks_state =
  hs_sent :: "bool list"
  hs_done :: "bool list"
  hs_channel :: "hook_response list"
  hs_closed :: bool
  hs_received :: "hook_response list"
  hs_ended :: bool

definition initial_hooks_state :: "nat \<Rightarrow> hooks_state" where
  "initial_hooks_state n =
     \<lparr>hs_sent = replicate n False, hs_done = replicate n False, hs_channel = [],
      hs_closed = False, hs_received = [], hs_ended = False\<rparr>"

text \<open>
  The channel has room for every response, so sending never blocks; the channel is closed when
  every goroutine is done; the loop ends when the channel is closed and empty.
\<close>

inductive hooks_step :: "hook_response list \<Rightarrow> hooks_state \<Rightarrow> hooks_state \<Rightarrow> bool" for rs where
  send: "i < length rs \<Longrightarrow> \<not> hs_sent s ! i \<Longrightarrow>
     hooks_step rs s (s\<lparr>hs_sent := (hs_sent s)[i := True],
       hs_channel := hs_channel s @ [rs ! i]\<rparr>)"
| tell: "i < length rs \<Longrightarrow> hs_sent s ! i \<Longrightarrow> \<not> hs_done s ! i \<Longrightarrow>
     hooks_step rs s (s\<lparr>hs_done := (hs_done s)[i := True]\<rparr>)"
| close: "\<not> hs_closed s \<Longrightarrow> False \<notin> set (hs_done s) \<Longrightarrow> hooks_step rs s (s\<lparr>hs_closed := True\<rparr>)"
| receive: "hs_channel s = r # ch \<Longrightarrow> \<not> hs_ended s \<Longrightarrow>
     hooks_step rs s (s\<lparr>hs_channel := ch, hs_received := hs_received s @ [r]\<rparr>)"
| finished: "hs_channel s = [] \<Longrightarrow> hs_closed s \<Longrightarrow> \<not> hs_ended s \<Longrightarrow>
     hooks_step rs s (s\<lparr>hs_ended := True\<rparr>)"

inductive hooks_reachable :: "hook_response list \<Rightarrow> hooks_state \<Rightarrow> bool" for rs where
  hooks_start: "hooks_reachable rs (initial_hooks_state (length rs))"
| hooks_more: "hooks_reachable rs s \<Longrightarrow> hooks_step rs s t \<Longrightarrow> hooks_reachable rs t"

definition hooks_result ::
    "(int \<Rightarrow> int \<Rightarrow> int) \<Rightarrow> hook_response \<Rightarrow> hooks_state \<Rightarrow> hook_response" where
  "hooks_result lowest response s = aggregateResponses lowest response (hs_received s)"

text \<open>The wrappers of the five hooks pass the handlers' functions on.\<close>

definition parallel_responses ::
    "('req \<Rightarrow> hook_response \<Rightarrow> hook_response) list \<Rightarrow> 'req \<Rightarrow> hook_response \<Rightarrow> hook_response list"
  where
  "parallel_responses hooks req fresh = map (\<lambda>f. f req fresh) hooks"

section \<open>The aggregate\<close>

definition messages :: "hook_status \<Rightarrow> hook_response list \<Rightarrow> string list" where
  "messages st rs =
     filter (\<lambda>m. m \<noteq> []) (map hr_message (filter (\<lambda>r. hr_status r = st) rs))"

text \<open>The seconds that failed hooks ask for.\<close>

definition retries :: "hook_response list \<Rightarrow> int list" where
  "retries rs = filter (\<lambda>i. i \<noteq> 0)
     (List.map_filter hr_retry (filter (\<lambda>r. hr_status r = Failure) rs))"

definition least_retry :: "int set \<Rightarrow> int" where
  "least_retry S = (if S = {} then 0 else Min S)"

lemma least_retry_insert:
  "lowest_nonzero lowest \<Longrightarrow> finite S \<Longrightarrow> 0 \<notin> S \<Longrightarrow> i \<noteq> 0 \<Longrightarrow>
     least_retry (insert i S) = lowest (least_retry S) i"
  by (cases "S = {}")
    (auto simp: least_retry_def lowest_nonzero_def min.commute dest: Min_in)

lemma aggregate_loop:
  assumes "lowest_nonzero lowest"
  shows "fold (add_response lowest) rs ([], [], 0, Success) =
    (messages Success rs, messages Failure rs, least_retry (set (retries rs)),
     (if \<exists>r \<in> set rs. hr_status r = Failure then Failure else Success))"
proof (induction rs rule: rev_induct)
  case Nil
  then show ?case by (simp add: messages_def retries_def map_filter_simps least_retry_def)
next
  case (snoc r rs)
  have snoc_eq: "messages st (rs @ [r]) = messages st rs @
      (if hr_status r = st \<and> hr_message r \<noteq> [] then [hr_message r] else [])" for st
    by (simp add: messages_def)
  have zero: "lowest x 0 = x" for x using assms by (simp add: lowest_nonzero_def)
  have retry: "least_retry (set (retries (rs @ [r]))) =
      (if hr_status r = Failure
       then (case hr_retry r of None \<Rightarrow> least_retry (set (retries rs))
             | Some i \<Rightarrow> lowest (least_retry (set (retries rs))) i)
       else least_retry (set (retries rs)))"
  proof -
    have "0 \<notin> set (retries rs)" by (simp add: retries_def)
    note ins = least_retry_insert [OF assms finite_set this]
    have "retries (rs @ [r]) = retries rs @
        (if hr_status r = Failure then
           (case hr_retry r of None \<Rightarrow> [] | Some i \<Rightarrow> if i = 0 then [] else [i]) else [])"
      by (simp add: retries_def List.map_filter_def split: option.splits)
    then have eq: "set (retries (rs @ [r])) = set (retries rs) \<union>
        (if hr_status r = Failure then
           (case hr_retry r of None \<Rightarrow> {} | Some i \<Rightarrow> if i = 0 then {} else {i}) else {})"
      by (cases "hr_retry r"; cases "hr_status r = Failure") simp_all
    show ?thesis unfolding eq
      using ins by (cases "hr_retry r") (simp_all add: zero)
  qed
  show ?case
    unfolding fold_append comp_apply snoc.IH
    by (cases "hr_status r") (auto simp: add_response_def snoc_eq retry)
qed

lemma aggregateResponses_eq:
  assumes "lowest_nonzero lowest"
  shows "aggregateResponses lowest resp rs =
    (if \<exists>r \<in> set rs. hr_status r = Failure
     then resp\<lparr>hr_status := Failure, hr_message := join_with '', '' (messages Failure rs),
            hr_retry := (if 0 < least_retry (set (retries rs))
              then Some (least_retry (set (retries rs))) else hr_retry resp)\<rparr>
     else resp\<lparr>hr_status := Success, hr_message := join_with '', '' (messages Success rs)\<rparr>)"
  by (simp add: aggregateResponses_def aggregate_loop [OF assms] Let_def)

lemma mset_messages: "mset rs = mset rs' \<Longrightarrow> mset (messages st rs) = mset (messages st rs')"
  unfolding messages_def by (metis mset_filter mset_map)

lemma set_retries: "set (retries rs) =
    {i. i \<noteq> 0 \<and> (\<exists>r \<in> set rs. hr_status r = Failure \<and> hr_retry r = Some i)}"
  by (force simp: retries_def List.map_filter_def)

section \<open>Schedules\<close>

text \<open>
  Along every schedule, what was received and what is in the channel are the responses sent.
\<close>

definition sent_responses :: "hook_response list \<Rightarrow> bool list \<Rightarrow> hook_response multiset" where
  "sent_responses rs bs = mset (map fst (filter snd (zip rs bs)))"

definition hooks_ok :: "hook_response list \<Rightarrow> hooks_state \<Rightarrow> bool" where
  "hooks_ok rs s \<longleftrightarrow>
     length (hs_sent s) = length rs \<and> length (hs_done s) = length rs \<and>
     (\<forall>i < length rs. hs_done s ! i \<longrightarrow> hs_sent s ! i) \<and>
     (hs_closed s \<longrightarrow> False \<notin> set (hs_done s)) \<and>
     (hs_ended s \<longrightarrow> hs_closed s \<and> hs_channel s = []) \<and>
     mset (hs_received s @ hs_channel s) = sent_responses rs (hs_sent s)"

lemma sent_responses_update:
  "i < length rs \<Longrightarrow> length bs = length rs \<Longrightarrow> \<not> bs ! i \<Longrightarrow>
     sent_responses rs (bs[i := True]) = add_mset (rs ! i) (sent_responses rs bs)"
proof (induction rs arbitrary: i bs)
  case (Cons r rs)
  then show ?case by (cases i; cases bs) (auto simp: sent_responses_def)
qed simp

lemma hooks_ok_initial: "hooks_ok rs (initial_hooks_state (length rs))"
proof -
  have "sent_responses rs (replicate (length rs) False) = {#}"
    by (induction rs) (simp_all add: sent_responses_def)
  then show ?thesis by (simp add: hooks_ok_def initial_hooks_state_def)
qed

lemma hooks_step_ok:
  assumes "hooks_step rs s t" and "hooks_ok rs s"
  shows "hooks_ok rs t"
  using assms
proof (induction rule: hooks_step.induct)
  case (send i s)
  then have "\<not> hs_closed s" by (auto simp: hooks_ok_def in_set_conv_nth)
  with send show ?case
    by (auto simp: hooks_ok_def sent_responses_update nth_list_update)
next
  case (tell i s)
  then show ?case
    by (auto simp: hooks_ok_def nth_list_update dest: set_update_subset_insert [THEN subsetD])
qed (auto simp: hooks_ok_def)

lemma hooks_reachable_ok: "hooks_reachable rs s \<Longrightarrow> hooks_ok rs s"
  by (induction rule: hooks_reachable.induct) (auto intro: hooks_ok_initial hooks_step_ok)

lemma ended_received:
  assumes "hooks_reachable rs s" and "hs_ended s"
  shows "mset (hs_received s) = mset rs"
proof -
  note ok = hooks_reachable_ok [OF assms(1)]
  then have "\<forall>i < length rs. hs_sent s ! i" and l: "length (hs_sent s) = length rs"
    using assms(2) by (auto simp: hooks_ok_def in_set_conv_nth)
  then have "hs_sent s = replicate (length rs) True" by (simp add: list_eq_iff_nth_eq)
  moreover have "sent_responses rs (replicate (length rs) True) = mset rs"
    by (induction rs) (simp_all add: sent_responses_def)
  ultimately show ?thesis using ok assms(2) by (auto simp: hooks_ok_def)
qed

text \<open>
  A hook that fails and asks to be called again fails the whole, which asks for no later time.
\<close>

lemma failed_hook_blocks:
  assumes "lowest_nonzero lowest" and "hooks_reachable rs s" and "hs_ended s"
    and "r \<in> set rs" and "hr_status r = Failure" and "hr_retry r = Some i" and "0 < i"
    and "\<forall>r \<in> set rs. \<forall>j. hr_retry r = Some j \<longrightarrow> 0 \<le> j"
  shows "hr_status (hooks_result lowest resp s) = Failure \<and>
    (\<exists>j. hr_retry (hooks_result lowest resp s) = Some j \<and> 0 < j \<and> j \<le> i)"
proof -
  have sets: "set (hs_received s) = set rs" by (rule mset_eq_setD [OF ended_received [OF assms(2,3)]])
  let ?asked = "set (retries (hs_received s))"
  have i: "i \<in> ?asked" using assms(4-7) unfolding set_retries sets by auto
  have "0 < j" if "j \<in> ?asked" for j
    using that assms(8) unfolding set_retries sets by force
  moreover have "Min ?asked \<in> ?asked" using i by (intro Min_in) auto
  ultimately have "0 < Min ?asked" by blast
  moreover have "Min ?asked \<le> i" using i by (simp add: Min_le)
  moreover have "least_retry ?asked = Min ?asked" using i by (auto simp: least_retry_def)
  moreover have "\<exists>r \<in> set (hs_received s). hr_status r = Failure" using assms(4,5) sets by blast
  ultimately show ?thesis
    unfolding hooks_result_def aggregateResponses_eq [OF assms(1)] by simp
qed

text \<open>How many steps are left.\<close>

definition hooks_left :: "hooks_state \<Rightarrow> nat" where
  "hooks_left s = 2 * count_list (hs_sent s) False + count_list (hs_done s) False +
     length (hs_channel s) + (if hs_closed s then 0 else 1) + (if hs_ended s then 0 else 1)"

lemma count_list_update_True:
  "i < length bs \<Longrightarrow> \<not> bs ! i \<Longrightarrow> count_list bs False = Suc (count_list (bs[i := True]) False)"
proof (induction bs arbitrary: i)
  case (Cons b bs)
  then show ?case by (cases i) auto
qed simp

lemma hooks_step_decreases:
  assumes "hooks_step rs s t" and "hooks_ok rs s"
  shows "hooks_left t < hooks_left s"
  using assms
proof (induction rule: hooks_step.induct)
  case (send i s)
  then show ?case using count_list_update_True [of i "hs_sent s"]
    by (simp add: hooks_left_def hooks_ok_def)
next
  case (tell i s)
  then show ?case using count_list_update_True [of i "hs_done s"]
    by (simp add: hooks_left_def hooks_ok_def)
qed (simp_all add: hooks_left_def)

lemma hooks_progress:
  assumes "hooks_ok rs s" and "\<not> hs_ended s"
  shows "\<exists>t. hooks_step rs s t"
proof (cases "hs_channel s")
  case (Cons r ch)
  then show ?thesis using receive assms(2) by blast
next
  case Nil
  show ?thesis
  proof (cases "hs_closed s")
    case True
    then show ?thesis using finished Nil assms(2) by blast
  next
    case not_closed: False
    show ?thesis
    proof (cases "False \<in> set (hs_done s)")
      case True
      then obtain i where "i < length rs" "\<not> hs_done s ! i"
        using assms(1) by (auto simp: in_set_conv_nth hooks_ok_def)
      then show ?thesis using send tell by blast
    next
      case False
      then show ?thesis using close not_closed by blast
    qed
  qed
qed

lemma hooks_end:
  assumes "hooks_reachable rs s"
  shows "\<exists>t. (hooks_step rs)\<^sup>*\<^sup>* s t \<and> hooks_reachable rs t \<and> hs_ended t"
  using assms
proof (induction "hooks_left s" arbitrary: s rule: less_induct)
  case less
  note ok = hooks_reachable_ok [OF less.prems]
  show ?case
  proof (cases "hs_ended s")
    case False
    then obtain t where t: "hooks_step rs s t" using hooks_progress [OF ok] by blast
    then have "hooks_reachable rs t" using hooks_more less.prems by blast
    from less.hyps [OF hooks_step_decreases [OF t ok] this] t show ?thesis
      by (meson converse_rtranclp_into_rtranclp)
  qed (use less.prems in blast)
qed

lemma hooks_wf: "wfp (\<lambda>t s. hooks_reachable rs s \<and> hooks_step rs s t)"
  by (rule wfp_if_convertible_to_nat [of _ hooks_left])
    (use hooks_step_decreases hooks_reachable_ok in blast)

end
