(* ===== verification/ClusterUUID.thy ===== *)
theory ClusterUUID
  imports ClusterConfig
begin

text \<open>
  \<open>pkg/webhook/cluster/clusteruuidlabeler.go\<close>: every Cluster with a topology gets a UUID
  in an annotation, which then stays the same.  Decoding, marshalling and the generator of UUIDs
  are parameters; a generated UUID is an argument of the defaulting webhook.
\<close>

definition ClusterUUIDAnnotationKey :: string where
  "ClusterUUIDAnnotationKey = ''caren.nutanix.com/cluster-uuid''"

abbreviation cluster_uuid :: "cluster \<Rightarrow> string option" where
  "cluster_uuid c \<equiv> cl_annotations c ClusterUUIDAnnotationKey"

definition set_uuid :: "string \<Rightarrow> cluster \<Rightarrow> cluster" where
  "set_uuid u c = c\<lparr>cl_annotations := (cl_annotations c)(ClusterUUIDAnnotationKey \<mapsto> u)\<rparr>"

text \<open>The Cluster with its UUID, or the error of decoding the old Cluster.\<close>

definition default_uuid ::
    "('raw \<Rightarrow> string + cluster) \<Rightarrow> string \<Rightarrow> 'raw request \<Rightarrow> cluster \<Rightarrow> string + cluster" where
  "default_uuid decode fresh req c =
     (if cluster_uuid c \<noteq> None then Inr c
      else case req_operation req of
        Update \<Rightarrow>
          (case decode (req_old_object req) of
             Inl err \<Rightarrow> Inl (''failed to decode old cluster: '' @ err)
           | Inr oldCluster \<Rightarrow>
               (case cluster_uuid oldCluster of
                  Some oldClusterUUID \<Rightarrow> Inr (set_uuid oldClusterUUID c)
                | None \<Rightarrow> Inr (set_uuid fresh c)))
      | Create \<Rightarrow> Inr (set_uuid fresh c)
      | _ \<Rightarrow> Inr c)"

definition uuid_defaulter ::
    "('raw \<Rightarrow> string + cluster) \<Rightarrow> (cluster \<Rightarrow> string + 'raw) \<Rightarrow> string \<Rightarrow> 'raw request \<Rightarrow> 'raw reply"
  where
  "uuid_defaulter decode marshal fresh req =
     (case decode (req_object req) of
        Inl err \<Rightarrow> Reply (admission_Errored 400 err)
      | Inr c \<Rightarrow>
          if \<not> IsDefined (cl_topology c) then Reply (admission_Allowed [])
          else case default_uuid decode fresh req c of
            Inl err \<Rightarrow> Reply (admission_Errored 400 err)
          | Inr c' \<Rightarrow>
              (case marshal c' of
                 Inl err \<Rightarrow> Reply (admission_Errored 500 err)
               | Inr marshaledCluster \<Rightarrow> Patched (req_object req) marshaledCluster))"

definition uuid_validate :: "('raw \<Rightarrow> string + cluster) \<Rightarrow> 'raw request \<Rightarrow> response" where
  "uuid_validate decode req =
     (case decode (req_object req) of
        Inl err \<Rightarrow> admission_Errored 400 err
      | Inr c \<Rightarrow>
          if \<not> IsDefined (cl_topology c) then admission_Allowed []
          else case cluster_uuid c of
            None \<Rightarrow> admission_Denied (''missing cluster UUID annotation '' @ ClusterUUIDAnnotationKey)
          | Some clusterUUID \<Rightarrow>
              if req_operation req = Update then
                (case decode (req_old_object req) of
                   Inl err \<Rightarrow> admission_Errored 400 (''failed to decode old cluster: '' @ err)
                 | Inr oldCluster \<Rightarrow>
                     (case cluster_uuid oldCluster of
                        None \<Rightarrow> admission_Allowed []
                      | Some oldClusterUUID \<Rightarrow>
                          if clusterUUID \<noteq> oldClusterUUID then
                            admission_Denied (''cluster UUID annotation '' @
                              ClusterUUIDAnnotationKey @
                              '' is immutable and cannot be changed from '' @ oldClusterUUID @
                              '' to '' @ clusterUUID)
                          else admission_Allowed []))
              else admission_Allowed [])"

section \<open>Both webhooks on a request\<close>

text \<open>
  The API server first asks the defaulting webhook and applies its patch, then the validating
  webhook; the object is stored when both allow it.
\<close>

definition defaulted_object :: "'raw reply \<Rightarrow> 'raw \<Rightarrow> 'raw option" where
  "defaulted_object reply raw =
     (case reply of
        Patched _ marshaled \<Rightarrow> Some marshaled
      | Reply resp \<Rightarrow> if resp_allowed resp then Some raw else None)"

definition uuid_admit ::
    "('raw \<Rightarrow> string + cluster) \<Rightarrow> (cluster \<Rightarrow> string + 'raw) \<Rightarrow> string \<Rightarrow> 'raw request \<Rightarrow> 'raw option"
  where
  "uuid_admit decode marshal fresh req =
     (case defaulted_object (uuid_defaulter decode marshal fresh req) (req_object req) of
        None \<Rightarrow> None
      | Some raw \<Rightarrow>
          if resp_allowed (uuid_validate decode (req\<lparr>req_object := raw\<rparr>)) then Some raw else None)"

text \<open>The objects that a Cluster has been, the current one first.\<close>

inductive cluster_history ::
    "('raw \<Rightarrow> string + cluster) \<Rightarrow> (cluster \<Rightarrow> string + 'raw) \<Rightarrow> 'raw list \<Rightarrow> bool"
  for decode marshal where
  history_created: "uuid_admit decode marshal fresh
       \<lparr>req_operation = Create, req_object = raw, req_old_object = old\<rparr> = Some stored \<Longrightarrow>
     cluster_history decode marshal [stored]"
| history_updated: "cluster_history decode marshal (current # rest) \<Longrightarrow>
     uuid_admit decode marshal fresh
       \<lparr>req_operation = Update, req_object = raw, req_old_object = current\<rparr> = Some stored \<Longrightarrow>
     cluster_history decode marshal (stored # current # rest)"

definition topology_defined :: "('raw \<Rightarrow> string + cluster) \<Rightarrow> 'raw \<Rightarrow> bool" where
  "topology_defined decode raw \<longleftrightarrow> (\<exists>c. decode raw = Inr c \<and> IsDefined (cl_topology c))"

definition stored_uuid :: "('raw \<Rightarrow> string + cluster) \<Rightarrow> 'raw \<Rightarrow> string option" where
  "stored_uuid decode raw = (case decode raw of Inl err \<Rightarrow> None | Inr c \<Rightarrow> cluster_uuid c)"

lemma allowed_responses [simp]:
  "resp_allowed (admission_Allowed msg)" "\<not> resp_allowed (admission_Denied msg)"
  "\<not> resp_allowed (admission_Errored code msg)"
  by (simp_all add: admission_Allowed_def admission_Denied_def admission_Errored_def)

lemma set_uuid_fields [simp]:
  "cluster_uuid (set_uuid u c) = Some u" "cl_topology (set_uuid u c) = cl_topology c"
  by (simp_all add: set_uuid_def)

lemma default_uuid_topology:
  "default_uuid decode fresh req c = Inr c' \<Longrightarrow> cl_topology c' = cl_topology c"
  by (auto simp: default_uuid_def split: if_splits operation.splits sum.splits option.splits)

text \<open>What the validating webhook makes of a Cluster with a topology.\<close>

lemma uuid_validate_allowed:
  assumes "decode (req_object req) = Inr c" and "IsDefined (cl_topology c)"
  shows "resp_allowed (uuid_validate decode req) \<longleftrightarrow>
    (\<exists>u. cluster_uuid c = Some u \<and>
       (req_operation req = Update \<longrightarrow>
          (\<exists>old. decode (req_old_object req) = Inr old \<and>
             (\<forall>u'. cluster_uuid old = Some u' \<longrightarrow> u' = u))))"
  using assms by (auto simp: uuid_validate_def split: option.splits sum.splits)

lemma uuid_admit_stored:
  assumes "uuid_admit decode marshal fresh req = Some raw" and "topology_defined decode raw"
  shows "\<exists>u. stored_uuid decode raw = Some u \<and>
    (req_operation req = Update \<longrightarrow>
       (\<forall>u'. stored_uuid decode (req_old_object req) = Some u' \<longrightarrow> u' = u))"
proof -
  obtain c where c: "decode raw = Inr c" "IsDefined (cl_topology c)"
    using assms(2) by (auto simp: topology_defined_def)
  have "resp_allowed (uuid_validate decode (req\<lparr>req_object := raw\<rparr>))"
    using assms(1) by (auto simp: uuid_admit_def split: option.splits if_splits)
  then show ?thesis
    using uuid_validate_allowed [of decode "req\<lparr>req_object := raw\<rparr>" c] c
    by (auto simp: stored_uuid_def split: sum.splits)
qed

lemma cluster_history_uuid:
  assumes "cluster_history decode marshal raws" and "\<forall>raw \<in> set raws. topology_defined decode raw"
  shows "\<exists>u. \<forall>raw \<in> set raws. stored_uuid decode raw = Some u"
  using assms
proof (induction rule: cluster_history.induct)
  case (history_created fresh raw old stored)
  then show ?case using uuid_admit_stored [OF history_created.hyps] by auto
next
  case (history_updated current rest fresh raw stored)
  then obtain u where u: "\<forall>raw \<in> set (current # rest). stored_uuid decode raw = Some u" by auto
  have "topology_defined decode stored" using history_updated.prems by simp
  from uuid_admit_stored [OF history_updated.hyps(2) this] u
  have "stored_uuid decode stored = Some u" by auto
  with u show ?case by auto
qed

text \<open>When a create or update with a topology is admitted.\<close>

lemma uuid_admit_iff:
  assumes "cluster_round_trip decode marshal"
    and "decode (req_object req) = Inr c" and "IsDefined (cl_topology c)"
    and "\<forall>c. \<exists>raw. marshal c = Inr raw" and "req_operation req = Create \<or> req_operation req = Update"
    and "req_operation req = Update \<Longrightarrow> decode (req_old_object req) = Inr old"
  shows "uuid_admit decode marshal fresh req \<noteq> None \<longleftrightarrow>
    \<not> (req_operation req = Update \<and>
        (\<exists>u u'. cluster_uuid c = Some u \<and> cluster_uuid old = Some u' \<and> u \<noteq> u'))"
proof -
  obtain c' where c': "default_uuid decode fresh req c = Inr c'"
    "cluster_uuid c' = (case cluster_uuid c of
       Some u \<Rightarrow> Some u
     | None \<Rightarrow> Some (case (if req_operation req = Update then cluster_uuid old else None) of
         Some u \<Rightarrow> u | None \<Rightarrow> fresh))"
  proof (cases "cluster_uuid c")
    case None
    then show ?thesis using assms(5,6) that
      by (cases "cluster_uuid old") (auto simp: default_uuid_def)
  qed (use that in \<open>auto simp: default_uuid_def\<close>)
  obtain raw where raw: "marshal c' = Inr raw" using assms(4) by blast
  with assms(1) have d: "decode raw = Inr c'" by (simp add: cluster_round_trip_def)
  have t: "IsDefined (cl_topology c')" using assms(3) default_uuid_topology [OF c'(1)] by simp
  have "uuid_admit decode marshal fresh req \<noteq> None \<longleftrightarrow>
      resp_allowed (uuid_validate decode (req\<lparr>req_object := raw\<rparr>))"
    using assms(2,3) c'(1) raw
    by (simp add: uuid_admit_def uuid_defaulter_def defaulted_object_def)
  also have "\<dots> \<longleftrightarrow> \<not> (req_operation req = Update \<and>
      (\<exists>u u'. cluster_uuid c = Some u \<and> cluster_uuid old = Some u' \<and> u \<noteq> u'))"
    using uuid_validate_allowed [of decode "req\<lparr>req_object := raw\<rparr>" c'] d t c'(2) assms(5,6)
    by (cases "cluster_uuid c"; cases "cluster_uuid old") auto
  finally show ?thesis .
qed

end
