(* ===== verification/CiliumValidator.thy ===== *)
theory CiliumValidator
  imports ClusterConfig
begin

text \<open>
  \<open>pkg/webhook/cluster/cilium_configuration_validator.go\<close>: when kube-proxy is disabled,
  Cilium has to replace it, so a ConfigMap with values for Cilium must enable
  \<open>kubeProxyReplacement\<close>.  Parameters: reading a ConfigMap, and Go's
  \<open>text/template\<close> and YAML libraries, the former as the parsing of a template and the
  execution of a parsed one for an endpoint.
\<close>

definition SkipCiliumKubeProxyReplacementValidation :: string where
  "SkipCiliumKubeProxyReplacementValidation =
     ''caren.nutanix.com/skip-cilium-kube-proxy-replacement-validation''"

definition CNIProviderCilium :: string where
  "CNIProviderCilium = ''Cilium''"

definition KubeProxyModeDisabled :: string where
  "KubeProxyModeDisabled = ''disabled''"

record 'template cilium_libs =
  cl_parse_template :: "string \<Rightarrow> string + 'template"
  cl_execute_template :: "'template \<Rightarrow> string \<times> int \<Rightarrow> string + string"
  cl_unmarshal_values :: "string \<Rightarrow> string + bool"
  cl_get_config_map :: "string \<Rightarrow> string \<Rightarrow> api_error + (string \<rightharpoonup> string)"

definition hasSkipAnnotation :: "cluster \<Rightarrow> bool" where
  "hasSkipAnnotation c \<longleftrightarrow>
     cl_annotations c SkipCiliumKubeProxyReplacementValidation = Some ''true''"

definition templateValues ::
    "'template cilium_libs \<Rightarrow> cluster \<Rightarrow> string \<Rightarrow> string + string" where
  "templateValues libs c txt =
     (case cl_parse_template libs txt of
        Inl err \<Rightarrow> Inl (''failed to parse template: '' @ err)
      | Inr valuesTemplate \<Rightarrow>
          (case cl_execute_template libs valuesTemplate
                  (cs_cp_host (cl_spec c), cs_cp_port (cl_spec c)) of
             Inl err \<Rightarrow> Inl (''failed templating values: '' @ err)
           | Inr b \<Rightarrow> Inr b))"

text \<open>The value of \<open>kubeProxyReplacement\<close>, or none if there are no values.\<close>

definition getCiliumValues ::
    "'template cilium_libs \<Rightarrow> cluster \<Rightarrow> string \<Rightarrow> string + bool option" where
  "getCiliumValues libs c configMapName =
     (let configMap = cl_namespace c @ ''/'' @ configMapName
      in case cl_get_config_map libs (cl_namespace c) configMapName of
        Inl (NotFound e) \<Rightarrow> Inr None
      | Inl (OtherError err) \<Rightarrow> Inl (''failed to get ConfigMap '' @ configMap @ '': '' @ err)
      | Inr data \<Rightarrow>
          (case data ''values.yaml'' of
             None \<Rightarrow> Inr None
           | Some valuesYAML \<Rightarrow>
               (case templateValues libs c valuesYAML of
                  Inl err \<Rightarrow> Inl (''failed to template Cilium values from ConfigMap '' @
                    configMap @ '': '' @ err)
                | Inr templatedValues \<Rightarrow>
                    (case cl_unmarshal_values libs templatedValues of
                       Inl err \<Rightarrow> Inl (''failed to unmarshal Cilium values from ConfigMap '' @
                         configMap @ '': '' @ err)
                     | Inr kubeProxyReplacement \<Rightarrow> Inr (Some kubeProxyReplacement)))))"

definition validateCiliumKubeProxyReplacement :: "bool \<Rightarrow> string \<Rightarrow> string \<Rightarrow> string option" where
  "validateCiliumKubeProxyReplacement kubeProxyReplacement namespace configMapName =
     (if \<not> kubeProxyReplacement then
        Some (''kube-proxy is disabled, but Cilium ConfigMap '' @ namespace @ ''/'' @
          configMapName @ '' does not have 'kubeProxyReplacement' enabled'')
      else None)"

text \<open>
  The ConfigMap with custom values for Cilium, when kube-proxy is disabled: the conditions under
  which the webhook does not skip the validation.
\<close>

definition cilium_source :: "cluster_config_spec option \<Rightarrow> string option" where
  "cilium_source clusterConfig =
     (case clusterConfig of
        None \<Rightarrow> None
      | Some cfg \<Rightarrow>
          if ccs_kube_proxy cfg = None \<or> ccs_kube_proxy cfg \<noteq> Some KubeProxyModeDisabled then None
          else case Option.bind (ccs_addons cfg) ad_cni of
            None \<Rightarrow> None
          | Some cni \<Rightarrow>
              if cni_provider cni \<noteq> CNIProviderCilium then None
              else case cni_values cni of None \<Rightarrow> None | Some sourceRef \<Rightarrow> sourceRef)"

definition cilium_validate ::
    "('raw \<Rightarrow> string + cluster) \<Rightarrow> cluster_config_spec json_decoder \<Rightarrow> 'template cilium_libs \<Rightarrow>
     'raw request \<Rightarrow> response" where
  "cilium_validate decode_req decode libs req =
     (if req_operation req = Delete then admission_Allowed []
      else case decode_req (req_object req) of
        Inl err \<Rightarrow> admission_Errored 400 err
      | Inr c \<Rightarrow>
          if \<not> IsDefined (cl_topology c) then admission_Allowed []
          else if hasSkipAnnotation c then admission_Allowed []
          else case UnmarshalClusterConfigVariable decode (top_variables (cl_topology c)) of
            Inl err \<Rightarrow> admission_Denied (''failed to unmarshal cluster topology variable '' @
              quoted ClusterConfigVariableName @ '': '' @ err)
          | Inr clusterConfig \<Rightarrow>
              (case cilium_source clusterConfig of
                 None \<Rightarrow> admission_Allowed []
               | Some configMapName \<Rightarrow>
                   (case getCiliumValues libs c configMapName of
                      Inl err \<Rightarrow> admission_Denied err
                    | Inr None \<Rightarrow> admission_Allowed []
                    | Inr (Some kubeProxyReplacement) \<Rightarrow>
                        (case validateCiliumKubeProxyReplacement kubeProxyReplacement
                                (cl_namespace c) configMapName of
                           Some err \<Rightarrow> admission_Denied err
                         | None \<Rightarrow> admission_Allowed []))))"

text \<open>
  An enabled replacement in the values of a ConfigMap: its template parses, executes for the
  control plane endpoint of the Cluster and unmarshals to it.
\<close>

definition replacement_enabled :: "'template cilium_libs \<Rightarrow> cluster \<Rightarrow> string \<Rightarrow> bool" where
  "replacement_enabled libs c valuesYAML \<longleftrightarrow>
     (\<exists>t b. cl_parse_template libs valuesYAML = Inr t \<and>
        cl_execute_template libs t (cs_cp_host (cl_spec c), cs_cp_port (cl_spec c)) = Inr b \<and>
        cl_unmarshal_values libs b = Inr True)"

lemma cilium_values_checked:
  "(case getCiliumValues libs c n of
      Inl err \<Rightarrow> False | Inr None \<Rightarrow> True
    | Inr (Some r) \<Rightarrow> validateCiliumKubeProxyReplacement r ns n = None) \<longleftrightarrow>
   (case cl_get_config_map libs (cl_namespace c) n of
      Inl e \<Rightarrow> IsNotFound e
    | Inr data \<Rightarrow> \<forall>v. data ''values.yaml'' = Some v \<longrightarrow> replacement_enabled libs c v)"
  by (auto simp: getCiliumValues_def templateValues_def validateCiliumKubeProxyReplacement_def
      replacement_enabled_def Let_def split: sum.splits option.splits api_error.splits)

end
