(* ===== verification/RegistryEnabler.thy ===== *)
theory RegistryEnabler
  imports ClusterConfig
begin

text \<open>
  \<open>pkg/webhook/addons/registry/autoenabler.go\<close>, with \<open>api/variables/getters.go\<close>
  and \<open>common/pkg/capi/utils/utils.go\<close> on which it rests: when the management cluster
  has the registry addon, a workload cluster without one gets the same.  Both tests on a read
  error look through the context that \<open>fmt.Errorf\<close> wraps around it.
\<close>

section \<open>The management cluster\<close>

text \<open>
  What is read from the API server: the annotations of the nodes, a Cluster by namespace and
  name, and all Clusters.  A read that fails because the kind is not known to the server
  (\<open>meta.IsNoMatchError\<close>) is told apart from one that does not find the object.
\<close>

datatype read_error = MissingObject string | MissingKind string | ReadError string

fun read_error_text :: "read_error \<Rightarrow> string" where
  "read_error_text (MissingObject t) = t"
| "read_error_text (MissingKind t) = t"
| "read_error_text (ReadError t) = t"

record cluster_reader =
  cr_nodes :: "string + (string \<rightharpoonup> string) list"
  cr_cluster :: "string \<Rightarrow> string \<Rightarrow> read_error + cluster"
  cr_clusters :: "string + cluster list"

definition ClusterNameAnnotation :: string where
  "ClusterNameAnnotation = ''cluster.x-k8s.io/cluster-name''"

definition ClusterNamespaceAnnotation :: string where
  "ClusterNamespaceAnnotation = ''cluster.x-k8s.io/cluster-namespace''"

definition annotation :: "(string \<rightharpoonup> string) \<Rightarrow> string \<Rightarrow> string" where
  "annotation annotations key = (case annotations key of None \<Rightarrow> [] | Some v \<Rightarrow> v)"

definition clusterAnnotationsFromNodes :: "cluster_reader \<Rightarrow> string + (string \<times> string)" where
  "clusterAnnotationsFromNodes r =
     (case cr_nodes r of
        Inl err \<Rightarrow> Inl (''error listing Nodes: '' @ err)
      | Inr items \<Rightarrow>
          let annotations = (case items of [] \<Rightarrow> Map.empty | node # _ \<Rightarrow> node)
          in Inr (annotation annotations ClusterNameAnnotation,
                  annotation annotations ClusterNamespaceAnnotation))"

fun wrap_read_error :: "string \<Rightarrow> read_error \<Rightarrow> read_error" where
  "wrap_read_error context (MissingObject t) = MissingObject (context @ t)"
| "wrap_read_error context (MissingKind t) = MissingKind (context @ t)"
| "wrap_read_error context (ReadError t) = ReadError (context @ t)"

definition managementClusterFromNodeAnnotations ::
    "cluster_reader \<Rightarrow> string \<Rightarrow> string \<Rightarrow> read_error + cluster" where
  "managementClusterFromNodeAnnotations r clusterName clusterNamespace =
     (case cr_cluster r clusterNamespace clusterName of
        Inl err \<Rightarrow>
          Inl (wrap_read_error ''error getting Cluster object based on Node annotations: '' err)
      | Inr c \<Rightarrow> Inr c)"

definition ManagementCluster :: "cluster_reader \<Rightarrow> string + cluster option" where
  "ManagementCluster r =
     (case clusterAnnotationsFromNodes r of
        Inl err \<Rightarrow> Inl (''error getting cluster annotations from Nodes: '' @ err)
      | Inr (clusterName, clusterNamespace) \<Rightarrow>
          if clusterName = [] \<and> clusterNamespace = [] then Inr None
          else case managementClusterFromNodeAnnotations r clusterName clusterNamespace of
            Inl (MissingObject e) \<Rightarrow> Inr None
          | Inl (MissingKind e) \<Rightarrow> Inr None
          | Inl (ReadError err) \<Rightarrow> Inl err
          | Inr c \<Rightarrow> Inr (Some c))"

definition managementClusterFromBootstrapClient :: "cluster_reader \<Rightarrow> string + cluster" where
  "managementClusterFromBootstrapClient r =
     (case cr_clusters r of
        Inl err \<Rightarrow> Inl (''error listing Clusters: '' @ err)
      | Inr [] \<Rightarrow> Inl ''no Cluster objects found''
      | Inr [c] \<Rightarrow> Inr c
      | Inr _ \<Rightarrow> Inl ''multiple Cluster objects found, expected exactly one'')"

definition ManagementOrFutureManagementCluster :: "cluster_reader \<Rightarrow> string + cluster" where
  "ManagementOrFutureManagementCluster r =
     (case clusterAnnotationsFromNodes r of
        Inl err \<Rightarrow> Inl (''error getting cluster annotations from Nodes: '' @ err)
      | Inr (clusterName, clusterNamespace) \<Rightarrow>
          (case (if clusterName \<noteq> [] \<and> clusterNamespace \<noteq> [] then
                   (case managementClusterFromNodeAnnotations r clusterName clusterNamespace of
                      Inl err \<Rightarrow> Inl (read_error_text err) | Inr c \<Rightarrow> Inr c)
                 else if clusterName = [] \<and> clusterNamespace = [] then
                   managementClusterFromBootstrapClient r
                 else if clusterName = [] then
                   Inl (''missing '' @ quoted ClusterNameAnnotation @ '' annotation'')
                 else Inl (''missing '' @ quoted ClusterNamespaceAnnotation @ '' annotation'')) of
             Inl err \<Rightarrow>
               Inl (''error determining management cluster for the provided client: '' @ err)
           | Inr c \<Rightarrow> Inr c))"

section \<open>Getters\<close>

definition RegistryAddon :: "cluster_config_spec json_decoder \<Rightarrow> cluster \<Rightarrow> string + string option" where
  "RegistryAddon decode c =
     (case UnmarshalClusterConfigVariable decode (top_variables (cl_topology c)) of
        Inl err \<Rightarrow> Inl (''failed to unmarshal cluster variable: '' @ err)
      | Inr None \<Rightarrow> Inr None
      | Inr (Some spec) \<Rightarrow>
          (case ccs_addons spec of None \<Rightarrow> Inr None | Some a \<Rightarrow> Inr (ad_registry a)))"

definition KubeProxyMode :: "cluster_config_spec json_decoder \<Rightarrow> cluster \<Rightarrow> string + string option" where
  "KubeProxyMode decode c =
     (case UnmarshalClusterConfigVariable decode (top_variables (cl_topology c)) of
        Inl err \<Rightarrow> Inl (''failed to unmarshal cluster variable: '' @ err)
      | Inr None \<Rightarrow> Inr None
      | Inr (Some spec) \<Rightarrow> Inr (ccs_kube_proxy spec))"

definition KubeProxyIsDisabled :: "cluster_config_spec json_decoder \<Rightarrow> cluster \<Rightarrow> string + bool" where
  "KubeProxyIsDisabled decode c =
     (case KubeProxyMode decode c of
        Inl err \<Rightarrow> Inl err
      | Inr mode \<Rightarrow> Inr (mode = Some ''disabled''))"

definition globalImageRegistryMirrorFromCluster ::
    "cluster_config_spec json_decoder \<Rightarrow> cluster \<Rightarrow> string + registry_mirror option" where
  "globalImageRegistryMirrorFromCluster decode c =
     (case UnmarshalClusterConfigVariable decode (top_variables (cl_topology c)) of
        Inl err \<Rightarrow> Inl (''failed to unmarshal cluster variable: '' @ err)
      | Inr None \<Rightarrow> Inr None
      | Inr (Some spec) \<Rightarrow> Inr (ccs_global_mirror spec))"

section \<open>The webhook\<close>

definition SkipAutoEnablingWorkloadClusterRegistry :: string where
  "SkipAutoEnablingWorkloadClusterRegistry =
     ''caren.nutanix.com/skip-auto-enabling-workload-cluster-registry''"

definition skip_auto_enabling :: "cluster \<Rightarrow> bool" where
  "skip_auto_enabling c \<longleftrightarrow> cl_annotations c SkipAutoEnablingWorkloadClusterRegistry \<noteq> None"

definition no_addons :: addons_config where
  "no_addons = \<lparr>ad_csi = None, ad_load_balancer = None, ad_registry = None, ad_cni = None\<rparr>"

text \<open>
  The Cluster with the addon; a missing variable leaves \<open>spec\<close> nil, and reading its addons
  panics.
\<close>

definition enabledSameRegistryAddonInCluster ::
    "cluster_config_spec json_decoder \<Rightarrow> cluster_config_spec json_encoder \<Rightarrow> cluster \<Rightarrow> string \<Rightarrow>
     (string + cluster) outcome" where
  "enabledSameRegistryAddonInCluster decode encode c provider =
     (case UnmarshalClusterConfigVariable decode (top_variables (cl_topology c)) of
        Inl err \<Rightarrow> Returns (Inl (''failed to unmarshal cluster variable: '' @ err))
      | Inr specPtr \<Rightarrow>
          bind_outcome (deref specPtr) (\<lambda>spec.
            let addons = (case ccs_addons spec of None \<Rightarrow> no_addons | Some a \<Rightarrow> a);
                spec' = spec\<lparr>ccs_addons := Some (addons\<lparr>ad_registry := Some provider\<rparr>)\<rparr>
            in case MarshalToClusterVariable encode ClusterConfigVariableName spec' of
              Inl err \<Rightarrow> Returns (Inl (''failed to marshal cluster variable: '' @ err))
            | Inr variable \<Rightarrow>
                Returns (Inr (c\<lparr>cl_spec := (cl_spec c)\<lparr>cs_topology := (cl_topology c)\<lparr>
                  top_variables := UpdateClusterVariable variable
                    (top_variables (cl_topology c))\<rparr>\<rparr>\<rparr>))))"

definition registry_defaulter ::
    "('raw \<Rightarrow> string + cluster) \<Rightarrow> (cluster \<Rightarrow> string + 'raw) \<Rightarrow>
     cluster_config_spec json_decoder \<Rightarrow> cluster_config_spec json_encoder \<Rightarrow> cluster_reader \<Rightarrow>
     'raw request \<Rightarrow> 'raw reply outcome" where
  "registry_defaulter decode_req marshal decode encode r req =
     (let allow = Returns (Reply (admission_Allowed []));
          failed = (\<lambda>what err. Returns (Reply (admission_Errored 500 (what @ err))))
      in case decode_req (req_object req) of
        Inl err \<Rightarrow> Returns (Reply (admission_Errored 400 err))
      | Inr c \<Rightarrow>
     if skip_auto_enabling c then allow
     else if \<not> IsDefined (cl_topology c) then allow
     else case RegistryAddon decode c of
        Inl err \<Rightarrow> failed ''failed to check if registry addon is enabled in cluster: '' err
      | Inr (Some _) \<Rightarrow> allow
      | Inr None \<Rightarrow>
     (case globalImageRegistryMirrorFromCluster decode c of
        Inl err \<Rightarrow>
          failed ''failed to check if global image registry mirror is enabled in cluster: '' err
      | Inr (Some _) \<Rightarrow> allow
      | Inr None \<Rightarrow>
     (case ManagementCluster r of
        Inl err \<Rightarrow> failed ''failed to get management cluster: '' err
      | Inr None \<Rightarrow> allow
      | Inr (Some managementCluster) \<Rightarrow>
     if \<not> IsDefined (cl_topology managementCluster) then allow
     else case RegistryAddon decode managementCluster of
        Inl err \<Rightarrow>
          failed ''failed to check if registry addon is enabled in management cluster: '' err
      | Inr None \<Rightarrow> allow
      | Inr (Some provider) \<Rightarrow>
          bind_outcome (enabledSameRegistryAddonInCluster decode encode c provider) (\<lambda>enabled.
            case enabled of
              Inl err \<Rightarrow> failed ''failed to enable registry addon in cluster: '' err
            | Inr c' \<Rightarrow>
                (case marshal c' of
                   Inl err \<Rightarrow> Returns (Reply (admission_Errored 500 err))
                 | Inr marshaledCluster \<Rightarrow>
                     Returns (Patched (req_object req) marshaledCluster))))))"

section \<open>When the webhook acts\<close>

lemma enabledSame_Panics:
  "enabledSameRegistryAddonInCluster decode encode c p = Panics m \<longleftrightarrow>
     m = nil_dereference \<and>
     UnmarshalClusterConfigVariable decode (top_variables (cl_topology c)) = Inr None"
proof (cases "UnmarshalClusterConfigVariable decode (top_variables (cl_topology c))")
  case (Inr specPtr)
  then show ?thesis
    by (cases specPtr) (auto simp: enabledSameRegistryAddonInCluster_def Let_def split: sum.splits)
qed (simp add: enabledSameRegistryAddonInCluster_def)

lemma enabledSame_Inr:
  assumes "enabledSameRegistryAddonInCluster decode encode c p = Returns (Inr c')"
  obtains spec variable where
    "UnmarshalClusterConfigVariable decode (top_variables (cl_topology c)) = Inr (Some spec)"
    "MarshalToClusterVariable encode ClusterConfigVariableName
       (spec\<lparr>ccs_addons := Some ((case ccs_addons spec of None \<Rightarrow> no_addons | Some a \<Rightarrow> a)
          \<lparr>ad_registry := Some p\<rparr>)\<rparr>) = Inr variable"
    "c' = c\<lparr>cl_spec := (cl_spec c)\<lparr>cs_topology := (cl_topology c)\<lparr>
       top_variables := UpdateClusterVariable variable (top_variables (cl_topology c))\<rparr>\<rparr>\<rparr>"
proof (cases "UnmarshalClusterConfigVariable decode (top_variables (cl_topology c))")
  case (Inl err)
  with assms show ?thesis by (simp add: enabledSameRegistryAddonInCluster_def)
next
  case (Inr specPtr)
  with assms that show ?thesis
    by (cases specPtr) (auto simp: enabledSameRegistryAddonInCluster_def Let_def split: sum.splits)
qed

lemma Unmarshal_None_iff:
  "UnmarshalClusterConfigVariable decode vars = Inr None \<longleftrightarrow>
     GetClusterVariableByName ClusterConfigVariableName vars = None"
  by (auto simp: UnmarshalClusterConfigVariable_def UnmarshalNamedVariable_def
      split: option.splits prod.splits)

text \<open>The conditions under which the addon is enabled.\<close>

definition enabling ::
    "cluster_config_spec json_decoder \<Rightarrow> cluster_reader \<Rightarrow> cluster \<Rightarrow> string \<Rightarrow> bool" where
  "enabling decode r c p \<longleftrightarrow>
     \<not> skip_auto_enabling c \<and> IsDefined (cl_topology c) \<and>
     RegistryAddon decode c = Inr None \<and> globalImageRegistryMirrorFromCluster decode c = Inr None \<and>
     (\<exists>mc. ManagementCluster r = Inr (Some mc) \<and> IsDefined (cl_topology mc) \<and>
        RegistryAddon decode mc = Inr (Some p))"

lemma registry_defaulter_cases:
  assumes "decode_req (req_object req) = Inr c"
  shows "(\<exists>p. enabling decode r c p \<and>
      registry_defaulter decode_req marshal decode encode r req =
        bind_outcome (enabledSameRegistryAddonInCluster decode encode c p) (\<lambda>enabled.
          case enabled of
            Inl err \<Rightarrow> Returns (Reply (admission_Errored 500
              (''failed to enable registry addon in cluster: '' @ err)))
          | Inr c' \<Rightarrow>
              (case marshal c' of
                 Inl err \<Rightarrow> Returns (Reply (admission_Errored 500 err))
               | Inr marshaledCluster \<Rightarrow>
                   Returns (Patched (req_object req) marshaledCluster)))) \<or>
    (\<forall>p. \<not> enabling decode r c p) \<and>
      (\<exists>resp. registry_defaulter decode_req marshal decode encode r req = Returns (Reply resp))"
proof (cases "\<exists>p. enabling decode r c p")
  case True
  then show ?thesis using assms
    by (auto simp: registry_defaulter_def enabling_def Let_def)
next
  case False
  then show ?thesis using assms
    by (auto simp: registry_defaulter_def enabling_def Let_def
        split: sum.splits option.splits if_splits)
qed

lemma patched_reply:
  "(case x of
      Inl err \<Rightarrow> Returns (Reply (f err))
    | Inr c' \<Rightarrow>
        (case marshal c' of
           Inl err \<Rightarrow> Returns (Reply (g err))
         | Inr marshaledCluster \<Rightarrow> Returns (Patched raw marshaledCluster))) =
     Returns (Patched raw' new) \<Longrightarrow> \<exists>c'. x = Inr c' \<and> marshal c' = Inr new"
  by (cases x; cases "marshal (projr x)") auto

lemma registry_defaulter_panics:
  "registry_defaulter decode_req marshal decode encode r req = Panics m \<longleftrightarrow>
     m = nil_dereference \<and>
     (\<exists>c mc p. decode_req (req_object req) = Inr c \<and> \<not> skip_auto_enabling c \<and>
        IsDefined (cl_topology c) \<and>
        GetClusterVariableByName ClusterConfigVariableName (top_variables (cl_topology c)) = None \<and>
        ManagementCluster r = Inr (Some mc) \<and> IsDefined (cl_topology mc) \<and>
        RegistryAddon decode mc = Inr (Some p))"
proof (cases "decode_req (req_object req)")
  case (Inl err)
  then show ?thesis by (simp add: registry_defaulter_def Let_def)
next
  case (Inr c)
  have none: "RegistryAddon decode c = Inr None \<and> globalImageRegistryMirrorFromCluster decode c = Inr None"
    if "UnmarshalClusterConfigVariable decode (top_variables (cl_topology c)) = Inr None"
    using that by (simp add: RegistryAddon_def globalImageRegistryMirrorFromCluster_def)
  from registry_defaulter_cases [of decode_req req c decode r marshal encode, OF Inr]
  show ?thesis
  proof (elim disjE exE conjE)
    fix p
    assume e: "enabling decode r c p"
      "registry_defaulter decode_req marshal decode encode r req =
        bind_outcome (enabledSameRegistryAddonInCluster decode encode c p) (\<lambda>enabled.
          case enabled of
            Inl err \<Rightarrow> Returns (Reply (admission_Errored 500
              (''failed to enable registry addon in cluster: '' @ err)))
          | Inr c' \<Rightarrow>
              (case marshal c' of
                 Inl err \<Rightarrow> Returns (Reply (admission_Errored 500 err))
               | Inr marshaledCluster \<Rightarrow>
                   Returns (Patched (req_object req) marshaledCluster)))"
    have "registry_defaulter decode_req marshal decode encode r req = Panics m \<longleftrightarrow>
        enabledSameRegistryAddonInCluster decode encode c p = Panics m"
      unfolding e(2)
      by (cases "enabledSameRegistryAddonInCluster decode encode c p") (auto split: sum.splits)
    then show ?thesis
      unfolding enabledSame_Panics Unmarshal_None_iff using e(1) Inr
      by (auto simp: enabling_def)
  next
    fix resp
    assume "\<forall>p. \<not> enabling decode r c p"
      "registry_defaulter decode_req marshal decode encode r req = Returns (Reply resp)"
    then show ?thesis using none Inr by (auto simp: enabling_def Unmarshal_None_iff)
  qed
qed

text \<open>The configurations that the webhook writes.\<close>

abbreviation with_registry :: "string \<Rightarrow> cluster_config_spec \<Rightarrow> cluster_config_spec" where
  "with_registry p spec \<equiv> spec\<lparr>ccs_addons :=
     Some ((case ccs_addons spec of None \<Rightarrow> no_addons | Some a \<Rightarrow> a)\<lparr>ad_registry := Some p\<rparr>)\<rparr>"

definition registry_configs ::
    "cluster_config_spec json_decoder \<Rightarrow> cluster_config_spec set" where
  "registry_configs decode = {with_registry p spec |p spec. \<exists>raw. decode raw = (spec, None)}"

lemma RegistryAddon_same:
  assumes "same_json (with_registry p spec) y"
    and "UnmarshalClusterConfigVariable decode (top_variables (cl_topology c)) = Inr (Some y)"
  shows "RegistryAddon decode c = Inr (Some p)"
  using assms
  by (cases "ccs_addons y") (auto simp: RegistryAddon_def same_json_def json_content_def addons_content_def)

lemma registry_defaulter_enables:
  assumes "cluster_round_trip decode_req marshal"
    and "json_faithful (registry_configs decode) encode decode"
    and "registry_defaulter decode_req marshal decode encode r req = Returns (Patched raw new)"
  shows "\<exists>c mc p spec c' y. decode_req (req_object req) = Inr c \<and>
    UnmarshalClusterConfigVariable decode (top_variables (cl_topology c)) = Inr (Some spec) \<and>
    ManagementCluster r = Inr (Some mc) \<and> RegistryAddon decode mc = Inr (Some p) \<and>
    decode_req new = Inr c' \<and>
    UnmarshalClusterConfigVariable decode (top_variables (cl_topology c')) = Inr (Some y) \<and>
    same_json (with_registry p spec) y \<and>
    registry_defaulter decode_req marshal decode encode r' (req\<lparr>req_object := new\<rparr>) =
      Returns (Reply (admission_Allowed []))"
proof -
  obtain c where c: "decode_req (req_object req) = Inr c"
    using assms(3) by (cases "decode_req (req_object req)") (auto simp: registry_defaulter_def Let_def)
  obtain p where p: "enabling decode r c p"
    "bind_outcome (enabledSameRegistryAddonInCluster decode encode c p) (\<lambda>enabled.
          case enabled of
            Inl err \<Rightarrow> Returns (Reply (admission_Errored 500
              (''failed to enable registry addon in cluster: '' @ err)))
          | Inr c' \<Rightarrow>
              (case marshal c' of
                 Inl err \<Rightarrow> Returns (Reply (admission_Errored 500 err))
               | Inr marshaledCluster \<Rightarrow>
                   Returns (Patched (req_object req) marshaledCluster))) = Returns (Patched raw new)"
    using registry_defaulter_cases [of decode_req req c decode r marshal encode, OF c]
    unfolding assms(3) by (elim disjE exE conjE) (metis, simp)
  then obtain c' where c': "enabledSameRegistryAddonInCluster decode encode c p = Returns (Inr c')"
    "marshal c' = Inr new"
    unfolding bind_outcome_Returns_iff by (elim conjE exE) (drule patched_reply, blast)
  obtain mc where mc: "ManagementCluster r = Inr (Some mc)" "RegistryAddon decode mc = Inr (Some p)"
    using p(1) by (auto simp: enabling_def)
  from c'(1) obtain spec variable where v:
    "UnmarshalClusterConfigVariable decode (top_variables (cl_topology c)) = Inr (Some spec)"
    "MarshalToClusterVariable encode ClusterConfigVariableName
       (spec\<lparr>ccs_addons := Some ((case ccs_addons spec of None \<Rightarrow> no_addons | Some a \<Rightarrow> a)
          \<lparr>ad_registry := Some p\<rparr>)\<rparr>) = Inr variable"
    "c' = c\<lparr>cl_spec := (cl_spec c)\<lparr>cs_topology := (cl_topology c)\<lparr>
       top_variables := UpdateClusterVariable variable (top_variables (cl_topology c))\<rparr>\<rparr>\<rparr>"
    by (rule enabledSame_Inr)
  have "with_registry p spec \<in> registry_configs decode"
    using Unmarshal_decoded [OF v(1)] unfolding registry_configs_def by blast
  from assms(2) this v(2) obtain y where y: "same_json (with_registry p spec) y"
    "\<And>vars. UnmarshalClusterConfigVariable decode (UpdateClusterVariable variable vars) = Inr (Some y)"
    by (rule Unmarshal_after_Update) blast
  have u': "UnmarshalClusterConfigVariable decode (top_variables (cl_topology c')) = Inr (Some y)"
    by (simp add: v(3) y(2))
  have d: "decode_req new = Inr c'" using assms(1) c'(2) by (simp add: cluster_round_trip_def)
  have "RegistryAddon decode c' = Inr (Some p)" by (rule RegistryAddon_same [OF y(1) u'])
  then have "registry_defaulter decode_req marshal decode encode r' (req\<lparr>req_object := new\<rparr>) =
      Returns (Reply (admission_Allowed []))"
    using d by (simp add: registry_defaulter_def Let_def)
  with c v(1) mc d u' y(1) show ?thesis by blast
qed

end
