(* ===== verification/RegistryMatch.thy ===== *)
theory RegistryMatch
  imports ApiTypes
begin

text \<open>
  \<open>pkg/handlers/generic/mutation/generic/imageregistries/credentials/credentialprovider\<close>:
  which image registries belong to a cloud provider.  Parsing a URL (\<open>url.Parse\<close>) is a
  parameter; \<open>net.SplitHostPort\<close> and \<open>path/filepath.Match\<close> of the standard library
  are modelled, the latter for patterns of literal characters and stars, the only ones the
  program has.
\<close>

section \<open>The standard library\<close>

text \<open>The text before and after the last occurrence of a character.\<close>

definition split_last :: "char \<Rightarrow> string \<Rightarrow> (string \<times> string) option" where
  "split_last c s =
     (if c \<in> set s
      then Some (rev (drop 1 (dropWhile (\<lambda>x. x \<noteq> c) (rev s))),
                 rev (takeWhile (\<lambda>x. x \<noteq> c) (rev s)))
      else None)"

text \<open>
  \<open>net.SplitHostPort\<close>, with \<open>None\<close> for its errors.  A host in brackets may contain
  colons; brackets are not allowed anywhere else.
\<close>

definition SplitHostPort :: "string \<Rightarrow> (string \<times> string) option" where
  "SplitHostPort hostport =
     (case split_last CHR '':'' hostport of
        None \<Rightarrow> None
      | Some (host, port) \<Rightarrow>
          if hostport \<noteq> [] \<and> hd hostport = CHR ''['' then
            let inner = takeWhile (\<lambda>x. x \<noteq> CHR '']'') (tl hostport);
                rest = dropWhile (\<lambda>x. x \<noteq> CHR '']'') (tl hostport)
            in if rest = [] then None
               else if tl rest = CHR '':'' # port \<and> CHR '':'' \<notin> set port \<and>
                 CHR ''['' \<notin> set inner \<and> CHR ''['' \<notin> set port \<and> CHR '']'' \<notin> set port
               then Some (inner, port)
               else None
          else if CHR '':'' \<in> set host then None
          else if CHR ''['' \<in> set hostport \<or> CHR '']'' \<in> set hostport then None
          else Some (host, port))"

text \<open>\<open>filepath.Match\<close>: a star stands for any characters but the separator.\<close>

fun glob_match :: "string \<Rightarrow> string \<Rightarrow> bool" where
  "glob_match [] s \<longleftrightarrow> s = []"
| "glob_match (g # p) [] \<longleftrightarrow> g = CHR ''*'' \<and> glob_match p []"
| "glob_match (g # p) (c # s) \<longleftrightarrow>
     (if g = CHR ''*''
      then glob_match p (c # s) \<or> c \<noteq> CHR ''/'' \<and> glob_match (g # p) s
      else g = c \<and> glob_match p s)"

section \<open>Matching URLs\<close>

definition ParseSchemelessURL :: "url_parser \<Rightarrow> string \<Rightarrow> string + parsed_url" where
  "ParseSchemelessURL parse schemelessURL =
     (case parse (''https://'' @ schemelessURL) of
        Inl err \<Rightarrow> Inl (''invalid URL: '' @ err)
      | Inr u \<Rightarrow> Inr (u\<lparr>url_scheme := []\<rparr>))"

definition SplitURL :: "parsed_url \<Rightarrow> string list \<times> string" where
  "SplitURL u =
     (case SplitHostPort (url_host u) of
        None \<Rightarrow> (split_on CHR ''.'' (url_host u), [])
      | Some (host, port) \<Rightarrow> (split_on CHR ''.'' host, port))"

definition URLsMatch :: "parsed_url \<Rightarrow> parsed_url \<Rightarrow> bool" where
  "URLsMatch globURL targetURL =
     (let (globURLParts, globPort) = SplitURL globURL;
          (targetURLParts, targetPort) = SplitURL targetURL
      in if globPort \<noteq> targetPort then False
         else if length globURLParts \<noteq> length targetURLParts then False
         else if \<not> has_prefix (url_path targetURL) (url_path globURL) then False
         else list_all2 glob_match globURLParts targetURLParts)"

definition URLsMatchStr :: "url_parser \<Rightarrow> string \<Rightarrow> string \<Rightarrow> string + bool" where
  "URLsMatchStr parse glob target =
     (case ParseSchemelessURL parse glob of
        Inl err \<Rightarrow> Inl err
      | Inr globURL \<Rightarrow>
          (case ParseSchemelessURL parse target of
             Inl err \<Rightarrow> Inl err
           | Inr targetURL \<Rightarrow> Inr (URLsMatch globURL targetURL)))"

section \<open>The known providers\<close>

definition ecrURLGlobs :: "string list" where
  "ecrURLGlobs =
     [''*.dkr.ecr.*.amazonaws.com'', ''*.dkr.ecr.*.amazonaws.cn'',
      ''*.dkr.ecr-fips.*.amazonaws.com'', ''*.dkr.ecr.us-iso-east-1.c2s.ic.gov'',
      ''*.dkr.ecr.us-isob-east-1.sc2s.sgov.gov'']"

definition gcrURLGlobs :: "string list" where
  "gcrURLGlobs = [''container.cloud.google.com'', ''gcr.io'', ''*.gcr.io'', ''*.pkg.dev'']"

definition acrURLGlobs :: "string list" where
  "acrURLGlobs =
     [''*.azurecr.io'', ''*.azurecr.cn'', ''*.azurecr.de'', ''*.azurecr.us'', ''*.azurecr.*'']"

definition strip_http :: "string \<Rightarrow> string" where
  "strip_http target =
     (if has_prefix target ''https://'' then drop 8 target
      else if has_prefix target ''http://'' then drop 7 target else target)"

fun match_globs :: "url_parser \<Rightarrow> string list \<Rightarrow> string \<Rightarrow> string + bool" where
  "match_globs parse [] target = Inr False"
| "match_globs parse (g # gs) target =
     (case URLsMatchStr parse g target of
        Inl err \<Rightarrow> Inl err
      | Inr m \<Rightarrow> if m then Inr True else match_globs parse gs target)"

definition URLMatchesOneOfGlobs :: "url_parser \<Rightarrow> string list \<Rightarrow> string \<Rightarrow> string + bool" where
  "URLMatchesOneOfGlobs parse globs target = match_globs parse globs (strip_http target)"

definition URLMatchesKnownRegistryProvider :: "url_parser \<Rightarrow> string \<Rightarrow> string + bool" where
  "URLMatchesKnownRegistryProvider parse =
     URLMatchesOneOfGlobs parse (ecrURLGlobs @ gcrURLGlobs @ acrURLGlobs)"

definition URLMatchesECR :: "url_parser \<Rightarrow> string \<Rightarrow> string + bool" where
  "URLMatchesECR parse = URLMatchesOneOfGlobs parse ecrURLGlobs"

definition URLMatchesGCR :: "url_parser \<Rightarrow> string \<Rightarrow> string + bool" where
  "URLMatchesGCR parse = URLMatchesOneOfGlobs parse gcrURLGlobs"

definition URLMatchesACR :: "url_parser \<Rightarrow> string \<Rightarrow> string + bool" where
  "URLMatchesACR parse = URLMatchesOneOfGlobs parse acrURLGlobs"

lemma match_globs_append:
  "match_globs parse (gs @ hs) target =
     (case match_globs parse gs target of
        Inl err \<Rightarrow> Inl err | Inr True \<Rightarrow> Inr True | Inr False \<Rightarrow> match_globs parse hs target)"
  by (induction gs) (auto split: sum.splits bool.splits)

text \<open>
  A star matches a part when the characters around it do; a pattern without a star matches only
  itself.
\<close>

lemma glob_match_literal: "CHR ''*'' \<notin> set p \<Longrightarrow> glob_match p s \<longleftrightarrow> s = p"
proof (induction p arbitrary: s)
  case (Cons g p)
  then show ?case by (cases s) auto
qed simp

lemma glob_match_star: "glob_match (CHR ''*'' # p) s \<longleftrightarrow>
    (\<exists>u v. s = u @ v \<and> CHR ''/'' \<notin> set u \<and> glob_match p v)"
proof (induction s)
  case (Cons c s)
  have "(\<exists>u v. c # s = u @ v \<and> CHR ''/'' \<notin> set u \<and> glob_match p v) \<longleftrightarrow>
      glob_match p (c # s) \<or> c \<noteq> CHR ''/'' \<and> (\<exists>u v. s = u @ v \<and> CHR ''/'' \<notin> set u \<and> glob_match p v)"
    (is "?l \<longleftrightarrow> ?r")
  proof
    assume ?l
    then obtain u v where "c # s = u @ v" "CHR ''/'' \<notin> set u" "glob_match p v" by blast
    then show ?r by (cases u) auto
  next
    assume ?r
    then show ?l
    proof (elim disjE exE conjE)
      assume "glob_match p (c # s)"
      then show ?l by (intro exI [of _ "[]"] exI [of _ "c # s"]) auto
    next
      fix u v assume "c \<noteq> CHR ''/''" "s = u @ v" "CHR ''/'' \<notin> set u" "glob_match p v"
      then show ?l by (intro exI [of _ "c # u"] exI [of _ v]) auto
    qed
  qed
  with Cons show ?case by simp
qed simp

end
