(* ===== verification/PatchFramework.thy ===== *)
theory PatchFramework
  imports ApiTypes
begin

text \<open>
  \<open>common/pkg/capi/clustertopology/patches\<close> and \<open>handlers/mutation/meta.go\<close>: which
  templates a patch applies to, how it is applied, and the getter of the Cluster.  Parameters: the variables of the request, \<open>strconv.Unquote\<close> of the
  class of a MachineDeployment (empty on an error), and the conversions between JSON documents
  and typed objects.
\<close>

section \<open>Selectors\<close>

text \<open>The classes of a selector are those of \<open>MachineDeploymentClass\<close>, if it is set.\<close>

record patch_selector =
  ps_api_version :: string
  ps_kind :: string
  ps_infrastructure :: "bool option"
  ps_control_plane :: "bool option"
  ps_classes :: "string list option"

record holder_reference =
  hold_kind :: string
  hold_field_path :: string

definition ControlPlane_selector :: "string \<Rightarrow> patch_selector" where
  "ControlPlane_selector controlPlaneVersion =
     \<lparr>ps_api_version = controlPlaneVersion, ps_kind = ''KubeadmControlPlaneTemplate'',
      ps_infrastructure = None, ps_control_plane = Some True, ps_classes = None\<rparr>"

definition WorkersKubeadmConfigTemplateSelector :: "string \<Rightarrow> patch_selector" where
  "WorkersKubeadmConfigTemplateSelector bootstrapVersion =
     \<lparr>ps_api_version = bootstrapVersion, ps_kind = ''KubeadmConfigTemplate'',
      ps_infrastructure = None, ps_control_plane = None, ps_classes = Some [''*'']\<rparr>"

definition WorkersConfigTemplateSelector :: "string \<Rightarrow> string \<Rightarrow> patch_selector" where
  "WorkersConfigTemplateSelector capiInfrastructureAPIVersion kind =
     \<lparr>ps_api_version = capiInfrastructureAPIVersion, ps_kind = kind,
      ps_infrastructure = None, ps_control_plane = None, ps_classes = Some [''*'']\<rparr>"

definition infrastructure_version :: "string \<Rightarrow> string" where
  "infrastructure_version version = ''infrastructure.cluster.x-k8s.io/'' @ version"

definition InfrastructureCluster :: "string \<Rightarrow> string \<Rightarrow> patch_selector" where
  "InfrastructureCluster capiInfrastructureAPIVersion kind =
     \<lparr>ps_api_version = infrastructure_version capiInfrastructureAPIVersion, ps_kind = kind,
      ps_infrastructure = Some True, ps_control_plane = None, ps_classes = None\<rparr>"

definition InfrastructureWorkerMachineTemplates :: "string \<Rightarrow> string \<Rightarrow> patch_selector" where
  "InfrastructureWorkerMachineTemplates capiInfrastructureAPIVersion kind =
     \<lparr>ps_api_version = infrastructure_version capiInfrastructureAPIVersion, ps_kind = kind,
      ps_infrastructure = None, ps_control_plane = None, ps_classes = Some [''*'']\<rparr>"

definition InfrastructureControlPlaneMachines :: "string \<Rightarrow> string \<Rightarrow> patch_selector" where
  "InfrastructureControlPlaneMachines capiInfrastructureAPIVersion kind =
     \<lparr>ps_api_version = infrastructure_version capiInfrastructureAPIVersion, ps_kind = kind,
      ps_infrastructure = None, ps_control_plane = Some True, ps_classes = None\<rparr>"

section \<open>Matching\<close>

text \<open>The version and kind of the template, as its document states them.\<close>

definition MatchesGVK :: "string \<Rightarrow> string \<Rightarrow> string \<times> string \<Rightarrow> bool" where
  "MatchesGVK apiVersion kind obj \<longleftrightarrow> fst obj = apiVersion \<and> snd obj = kind"

definition MatchesInfrastructure :: "holder_reference \<Rightarrow> bool" where
  "MatchesInfrastructure h \<longleftrightarrow>
     hold_kind h = ''Cluster'' \<and> hold_field_path h = ''spec.infrastructureRef''"

definition MatchesControlPlane :: "holder_reference \<Rightarrow> bool" where
  "MatchesControlPlane h =
     (if hold_kind h = ''Cluster'' \<and> hold_field_path h = ''spec.controlPlaneRef'' then True
      else if hold_field_path h = ''spec.machineTemplate.infrastructureRef'' then True
      else if hold_field_path h = ''spec.machineTemplate.spec.infrastructureRef'' then True
      else if hold_field_path h = ''spec.template.spec.infrastructureRef'' \<and>
        (hold_kind h = ''KubeadmControlPlaneTemplate'' \<or> hold_kind h = ''KubeadmControlPlane'')
      then True
      else False)"

definition has_suffix :: "string \<Rightarrow> string \<Rightarrow> bool" where
  "has_suffix s t \<longleftrightarrow> has_prefix (rev s) (rev t)"

definition trim_suffix :: "string \<Rightarrow> string \<Rightarrow> string" where
  "trim_suffix s t = (if has_suffix s t then take (length s - length t) s else s)"

text \<open>
  One configured class against the class of the template, given as a JSON document.
\<close>

definition class_matches :: "(string \<Rightarrow> string) \<Rightarrow> string \<Rightarrow> string \<Rightarrow> bool" where
  "class_matches unquote raw mdClass =
     (if mdClass = ''*'' \<or> raw = quoted mdClass then True
      else if has_prefix mdClass ''*'' \<and> has_suffix (unquote raw) (trim_prefix mdClass ''*'') then True
      else has_suffix mdClass ''*'' \<and> has_prefix (unquote raw) (trim_suffix mdClass ''*''))"

text \<open>\<open>class_of\<close> is the variable \<open>builtin.machineDeployment.class\<close> of the request.\<close>

definition MatchesMachineDeploymentClass ::
    "(string \<Rightarrow> string) \<Rightarrow> holder_reference \<Rightarrow> string list \<Rightarrow> string + string \<Rightarrow> bool" where
  "MatchesMachineDeploymentClass unquote h names class_of =
     (if hold_kind h = ''MachineDeployment'' \<and>
         (hold_field_path h = ''spec.template.spec.bootstrap.configRef'' \<or>
          hold_field_path h = ''spec.template.spec.infrastructureRef'')
      then (case class_of of
              Inl err \<Rightarrow> False
            | Inr raw \<Rightarrow> list_ex (class_matches unquote raw) names)
      else False)"

definition MatchesSelector ::
    "(string \<Rightarrow> string) \<Rightarrow> patch_selector \<Rightarrow> string \<times> string \<Rightarrow> holder_reference \<Rightarrow>
     string + string \<Rightarrow> bool" where
  "MatchesSelector unquote sel obj h class_of =
     (if \<not> MatchesGVK (ps_api_version sel) (ps_kind sel) obj then False
      else if ps_infrastructure sel = Some True \<and> MatchesInfrastructure h then True
      else if ps_control_plane sel = Some True \<and> MatchesControlPlane h then True
      else case ps_classes sel of
        None \<Rightarrow> False
      | Some names \<Rightarrow> MatchesMachineDeploymentClass unquote h names class_of)"

text \<open>
  A selector of control plane templates and one of worker templates never match the same
  template, even when both name the same kind.
\<close>

lemma control_plane_not_worker:
  assumes "MatchesControlPlane h"
  shows "\<not> MatchesMachineDeploymentClass unquote h names class_of"
    "\<not> MatchesInfrastructure h"
  using assms
  by (auto simp: MatchesControlPlane_def MatchesMachineDeploymentClass_def
      MatchesInfrastructure_def split: if_splits)

lemma infrastructure_not_worker:
  "MatchesInfrastructure h \<Longrightarrow> \<not> MatchesMachineDeploymentClass unquote h names class_of"
  by (simp add: MatchesInfrastructure_def MatchesMachineDeploymentClass_def)

text \<open>What a selector is for: templates of the control plane, of workers, or of the cluster.\<close>

definition selects_only_control_plane :: "patch_selector \<Rightarrow> bool" where
  "selects_only_control_plane sel \<longleftrightarrow> ps_infrastructure sel \<noteq> Some True \<and> ps_classes sel = None"

definition selects_only_workers :: "patch_selector \<Rightarrow> bool" where
  "selects_only_workers sel \<longleftrightarrow>
     ps_infrastructure sel \<noteq> Some True \<and> ps_control_plane sel \<noteq> Some True"

lemma selectors_disjoint:
  assumes "selects_only_control_plane cp" and "selects_only_workers w"
    and "MatchesSelector unquote cp obj h class_of"
  shows "\<not> MatchesSelector unquote w obj h class_of"
proof -
  have "MatchesControlPlane h"
    using assms(1,3) by (auto simp: MatchesSelector_def selects_only_control_plane_def split: if_splits)
  then show ?thesis
    using assms(2) control_plane_not_worker(1)
    by (auto simp: MatchesSelector_def selects_only_workers_def split: option.splits)
qed

section \<open>Applying a patch\<close>

text \<open>
  The libraries for a type of template: reading a document as an object, writing an object, the
  JSON patch between two written objects, its marshalling and decoding, and its application to
  the document.
\<close>

record ('doc, 'typed, 'bytes, 'ops, 'patch) patch_libs =
  pl_convert :: "'doc \<Rightarrow> string + 'typed"
  pl_serialize :: "'typed \<Rightarrow> string + 'bytes"
  pl_create_patch :: "'bytes \<Rightarrow> 'bytes \<Rightarrow> string + 'ops"
  pl_marshal_ops :: "'ops \<Rightarrow> string + 'bytes"
  pl_decode_patch :: "'bytes \<Rightarrow> string + 'patch"
  pl_marshal_doc :: "'doc \<Rightarrow> string + 'bytes"
  pl_apply :: "'patch \<Rightarrow> 'bytes \<Rightarrow> string + 'bytes"
  pl_unmarshal_doc :: "'bytes \<Rightarrow> string + 'doc"

definition bind_sum :: "string \<Rightarrow> string + 'a \<Rightarrow> ('a \<Rightarrow> string + 'b) \<Rightarrow> string + 'b" where
  "bind_sum context x f = (case x of Inl err \<Rightarrow> Inl (context @ err) | Inr a \<Rightarrow> f a)"

lemma bind_sum_simps [simp]:
  "bind_sum context (Inl err) f = Inl (context @ err)" "bind_sum context (Inr a) f = f a"
  by (simp_all add: bind_sum_def)

lemma bind_sum_Inr_iff: "bind_sum context x f = Inr b \<longleftrightarrow> (\<exists>a. x = Inr a \<and> f a = Inr b)"
  by (cases x) simp_all

text \<open>
  The new document; \<open>matches\<close> is whether the selector matches, and the mutation gives the
  changed object.
\<close>

definition MutateIfApplicable ::
    "('doc, 'typed, 'bytes, 'ops, 'patch) patch_libs \<Rightarrow> ('doc \<Rightarrow> string) \<Rightarrow> bool \<Rightarrow>
     ('typed \<Rightarrow> string + 'typed) \<Rightarrow> 'doc \<Rightarrow> string + 'doc" where
  "MutateIfApplicable libs gvk_text matches mutFn obj =
     (if \<not> matches then Inr obj
      else
        bind_sum (''failed to convert unstructured object ('' @ gvk_text obj @
          '') to typed object: '') (pl_convert libs obj) (\<lambda>typed.
        bind_sum ''failed to apply mutation: '' (mutFn typed) (\<lambda>modified.
        bind_sum ''failed to serialize unmodified typed object: '' (pl_serialize libs typed)
          (\<lambda>unmodifiedBytes.
        bind_sum ''failed to serialize modified typed object: '' (pl_serialize libs modified)
          (\<lambda>modifiedBytes.
        bind_sum ''failed to create JSON patches for modified typed object: ''
          (pl_create_patch libs unmodifiedBytes modifiedBytes) (\<lambda>jsonOps.
        bind_sum ''failed to marshal json patch: '' (pl_marshal_ops libs jsonOps) (\<lambda>jsonOpsBytes.
        bind_sum ''failed to decode json patch (RFC6902): '' (pl_decode_patch libs jsonOpsBytes)
          (\<lambda>jsonPatch.
        bind_sum ''failed to marshal unstructured input object: '' (pl_marshal_doc libs obj)
          (\<lambda>input.
        bind_sum ''failed to apply JSON patches to input: '' (pl_apply libs jsonPatch input)
          (\<lambda>patched.
        bind_sum ''failed to unmarshal patched unstructured input: ''
          (pl_unmarshal_doc libs patched) Inr))))))))))"

section \<open>The Cluster of a request\<close>

text \<open>
  \<open>CreateClusterGetter\<close>: the function it returns makes a new \<open>sync.Once\<close> on every
  call, so every call asks the API server.
\<close>

definition CreateClusterGetter ::
    "('s \<Rightarrow> (string + 'c) \<times> 's) \<Rightarrow> 's \<Rightarrow> (string + 'c) \<times> 's" where
  "CreateClusterGetter get s =
     (case get s of
        (Inl err, s') \<Rightarrow> (Inl (''failed to fetch cluster: '' @ err), s')
      | (Inr c, s') \<Rightarrow> (Inr c, s'))"

end
