(* ===== verification/KubeadmSpec.thy ===== *)
theory KubeadmSpec
  imports PatchFramework
begin

text \<open>
  The objects that the patch handlers change: the kubeadm configuration of the control plane
  template and of the worker template (the fields that a handler reads or writes), and the
  nodeadm configuration of EKS workers.  The second part gives the two calls of
  \<open>patches.MutateIfApplicable\<close> that most handlers make, one for the control plane
  template and one for the worker template, and the lookup of a variable.
\<close>

section \<open>Files, arguments and users\<close>

text \<open>A file has its content, or the name and the key of a Secret to read it from.\<close>

record machine_file =
  mf_path :: string
  mf_owner :: string
  mf_permissions :: string
  mf_content :: string
  mf_secret :: "(string \<times> string) option"

text \<open>An argument has a name and a pointer to its value.\<close>

type_synonym kubeadm_arg = "string \<times> string option"

record host_path_mount =
  hp_name :: string
  hp_host_path :: string
  hp_mount_path :: string
  hp_read_only :: "bool option"
  hp_path_type :: string

record node_taint =
  taint_key :: string
  taint_value :: string
  taint_effect :: string

record boot_user =
  bu_name :: string
  bu_gecos :: string
  bu_groups :: string
  bu_home_dir :: string
  bu_inactive :: "bool option"
  bu_shell :: string
  bu_passwd :: string
  bu_passwd_from :: "string \<times> string"
  bu_primary_group :: string
  bu_lock_password :: "bool option"
  bu_sudo :: string
  bu_ssh_keys :: "string list"

record ntp_config =
  ntp_enabled :: "bool option"
  ntp_servers :: "string list"

section \<open>Templates\<close>

record api_server =
  as_extra_args :: "kubeadm_arg list"
  as_extra_volumes :: "host_path_mount list"
  as_cert_sans :: "string list"

text \<open>The taints are a pointer to a slice, which may be nil.\<close>

record node_registration =
  nr_taints :: "node_taint list option option"
  nr_ignore_preflight :: "string list"
  nr_kubelet_args :: "kubeadm_arg list"

record local_etcd =
  etcd_extra_args :: "kubeadm_arg list"
  etcd_image_tag :: string
  etcd_image_repository :: string

record dns_config =
  dns_image_tag :: string
  dns_image_repository :: string

record kubeadm_config_spec =
  ks_files :: "machine_file list"
  ks_pre_commands :: "string list"
  ks_post_commands :: "string list"
  ks_users :: "boot_user list"
  ks_ntp :: ntp_config
  ks_api_server :: api_server
  ks_controller_manager_args :: "kubeadm_arg list"
  ks_scheduler_args :: "kubeadm_arg list"
  ks_etcd :: local_etcd
  ks_dns :: dns_config
  ks_image_repository :: string
  ks_skip_phases :: "string list"
  ks_init_registration :: node_registration
  ks_join_registration :: node_registration

text \<open>
  \<open>KubeadmControlPlaneTemplate\<close>: the configuration and the days before the expiry of the
  certificates at which machines are rolled out.
\<close>

record kcp_template =
  kcp_spec :: kubeadm_config_spec
  kcp_expiry_days :: int

text \<open>\<open>NodeadmConfigTemplate\<close>; the users of EKS have pointers where kubeadm has strings.\<close>

record eks_user =
  eu_name :: string
  eu_gecos :: "string option"
  eu_groups :: "string option"
  eu_home_dir :: "string option"
  eu_inactive :: "bool option"
  eu_shell :: "string option"
  eu_passwd :: "string option"
  eu_passwd_from :: "(string \<times> string) option"
  eu_primary_group :: "string option"
  eu_lock_password :: "bool option"
  eu_sudo :: "string option"
  eu_ssh_keys :: "string list"

record nodeadm_template =
  na_users :: "eks_user list"
  na_ntp :: "ntp_config option"
  na_kubelet_flags :: "string list option"
  na_files :: "machine_file list"
  na_pre_commands :: "string list"

section \<open>Changing a part of a template\<close>

definition on_spec :: "(kubeadm_config_spec \<Rightarrow> kubeadm_config_spec) \<Rightarrow> kcp_template \<Rightarrow> kcp_template" where
  "on_spec f t = t\<lparr>kcp_spec := f (kcp_spec t)\<rparr>"

definition on_api_server :: "(api_server \<Rightarrow> api_server) \<Rightarrow> kubeadm_config_spec \<Rightarrow> kubeadm_config_spec" where
  "on_api_server f s = s\<lparr>ks_api_server := f (ks_api_server s)\<rparr>"

definition add_files :: "machine_file list \<Rightarrow> kubeadm_config_spec \<Rightarrow> kubeadm_config_spec" where
  "add_files fs s = s\<lparr>ks_files := ks_files s @ fs\<rparr>"

definition add_pre_commands :: "string list \<Rightarrow> kubeadm_config_spec \<Rightarrow> kubeadm_config_spec" where
  "add_pre_commands cs s = s\<lparr>ks_pre_commands := ks_pre_commands s @ cs\<rparr>"

text \<open>The loop that adds those of some arguments whose names are not given yet.\<close>

fun add_missing_args :: "kubeadm_arg list \<Rightarrow> kubeadm_arg list \<Rightarrow> kubeadm_arg list" where
  "add_missing_args [] args = args"
| "add_missing_args (a # new) args =
     (if fst a \<in> fst ` set args then add_missing_args new args
      else add_missing_args new (args @ [a]))"

section \<open>Variables of a request\<close>

text \<open>\<open>variables.Get\<close>: a value, an error that says there is none, or another error.\<close>

datatype 'a variable = Found 'a | Missing string | Failed string

section \<open>Patching the templates\<close>

text \<open>
  What a request item has: the libraries for its document, its reference and class, and the API
  versions of the templates.  Of \<open>AWSManagedControlPlaneTemplate\<close> only the flag that
  disables kube-proxy is used.
\<close>

record ('doc, 'b, 'o, 'p) template_env =
  te_cp :: "('doc, kcp_template, 'b, 'o, 'p) patch_libs"
  te_worker :: "('doc, kubeadm_config_spec, 'b, 'o, 'p) patch_libs"
  te_nodeadm :: "('doc, nodeadm_template, 'b, 'o, 'p) patch_libs"
  te_managed :: "('doc, bool, 'b, 'o, 'p) patch_libs"
  te_gvk :: "'doc \<Rightarrow> string \<times> string"
  te_gvk_text :: "'doc \<Rightarrow> string"
  te_unquote :: "string \<Rightarrow> string"
  te_holder :: holder_reference
  te_class_of :: "string + string"
  te_cp_version :: string
  te_bootstrap_version :: string
  te_eks_version :: string
  te_eks_control_plane_version :: string

definition template_matches :: "('doc, 'b, 'o, 'p) template_env \<Rightarrow> patch_selector \<Rightarrow> 'doc \<Rightarrow> bool" where
  "template_matches env sel obj =
     MatchesSelector (te_unquote env) sel (te_gvk env obj) (te_holder env) (te_class_of env)"

definition is_control_plane :: "('doc, 'b, 'o, 'p) template_env \<Rightarrow> 'doc \<Rightarrow> bool" where
  "is_control_plane env = template_matches env (ControlPlane_selector (te_cp_version env))"

definition is_worker :: "('doc, 'b, 'o, 'p) template_env \<Rightarrow> 'doc \<Rightarrow> bool" where
  "is_worker env = template_matches env (WorkersKubeadmConfigTemplateSelector (te_bootstrap_version env))"

definition patch_control_plane ::
    "('doc, 'b, 'o, 'p) template_env \<Rightarrow> (kcp_template \<Rightarrow> string + kcp_template) \<Rightarrow> 'doc \<Rightarrow> string + 'doc" where
  "patch_control_plane env mutFn obj =
     MutateIfApplicable (te_cp env) (te_gvk_text env) (is_control_plane env obj) mutFn obj"

definition patch_workers ::
    "('doc, 'b, 'o, 'p) template_env \<Rightarrow> (kubeadm_config_spec \<Rightarrow> string + kubeadm_config_spec) \<Rightarrow>
     'doc \<Rightarrow> string + 'doc" where
  "patch_workers env mutFn obj =
     MutateIfApplicable (te_worker env) (te_gvk_text env) (is_worker env obj) mutFn obj"

definition patch_nodeadm ::
    "('doc, 'b, 'o, 'p) template_env \<Rightarrow> (nodeadm_template \<Rightarrow> string + nodeadm_template) \<Rightarrow>
     'doc \<Rightarrow> string + 'doc" where
  "patch_nodeadm env mutFn obj =
     MutateIfApplicable (te_nodeadm env) (te_gvk_text env)
       (template_matches env (WorkersConfigTemplateSelector (te_eks_version env) ''NodeadmConfigTemplate'') obj)
       mutFn obj"

text \<open>The same change in the control plane template and in the worker template.\<close>

definition patch_both ::
    "('doc, 'b, 'o, 'p) template_env \<Rightarrow> (kubeadm_config_spec \<Rightarrow> kubeadm_config_spec) \<Rightarrow> 'doc \<Rightarrow>
     string + 'doc" where
  "patch_both env f obj =
     bind_sum [] (patch_control_plane env (\<lambda>t. Inr (on_spec f t)) obj)
       (patch_workers env (\<lambda>s. Inr (f s)))"

text \<open>
  A template of the control plane is not one of the workers, whatever the first change made of
  its document, so only one of the two changes is made.
\<close>

lemma control_plane_is_no_worker: "is_control_plane env obj \<Longrightarrow> \<not> is_worker env obj'"
  unfolding is_control_plane_def is_worker_def template_matches_def
  using control_plane_not_worker
  by (auto simp: MatchesSelector_def ControlPlane_selector_def
      WorkersKubeadmConfigTemplateSelector_def split: if_splits)

lemma patch_both_one:
  "patch_both env f obj =
     (if is_control_plane env obj then patch_control_plane env (\<lambda>t. Inr (on_spec f t)) obj
      else patch_workers env (\<lambda>s. Inr (f s)) obj)"
proof (cases "is_control_plane env obj")
  case True
  have "patch_workers env g x = Inr x" for g x
    using control_plane_is_no_worker [OF True] by (simp add: patch_workers_def MutateIfApplicable_def)
  then show ?thesis
    using True by (cases "patch_control_plane env (\<lambda>t. Inr (on_spec f t)) obj") (simp_all add: patch_both_def)
next
  case False
  then have "patch_control_plane env g obj = Inr obj" for g
    by (simp add: patch_control_plane_def MutateIfApplicable_def)
  then show ?thesis using False by (simp add: patch_both_def)
qed

definition patch_managed ::
    "('doc, 'b, 'o, 'p) template_env \<Rightarrow> (bool \<Rightarrow> string + bool) \<Rightarrow> 'doc \<Rightarrow> string + 'doc" where
  "patch_managed env mutFn obj =
     MutateIfApplicable (te_managed env) (te_gvk_text env)
       (template_matches env
         \<lparr>ps_api_version = te_eks_control_plane_version env, ps_kind = ''AWSManagedControlPlaneTemplate'',
          ps_infrastructure = None, ps_control_plane = Some True, ps_classes = None\<rparr> obj)
       mutFn obj"

text \<open>
  A change that calls the API server: it is made only if the template is of the right kind and
  converts, and what it has done stays done if the patch fails afterwards.
\<close>

definition MutateWithEffect ::
    "('doc, 'typed, 'b, 'o, 'p) patch_libs \<Rightarrow> ('doc \<Rightarrow> string) \<Rightarrow> bool \<Rightarrow>
     ('typed \<Rightarrow> 's \<Rightarrow> (string + 'typed) \<times> 's) \<Rightarrow> 'doc \<Rightarrow> 's \<Rightarrow> (string + 'doc) \<times> 's" where
  "MutateWithEffect libs gvk_text matches mutFn obj s =
     (if \<not> matches then (Inr obj, s)
      else case pl_convert libs obj of
        Inl err \<Rightarrow>
          (Inl (''failed to convert unstructured object ('' @ gvk_text obj @ '') to typed object: '' @ err), s)
      | Inr typed \<Rightarrow>
          (case mutFn typed s of
             (r, s') \<Rightarrow> (MutateIfApplicable libs gvk_text True (\<lambda>_. r) obj, s')))"

section \<open>Lemmas on arguments\<close>

lemma add_missing_args_append: "\<exists>new'. add_missing_args new args = args @ new'"
  by (induction new arbitrary: args) (auto, metis append.assoc append_Cons)

lemma add_missing_args_keeps: "set args \<subseteq> set (add_missing_args new args)"
  using add_missing_args_append [of new args] by auto

lemma names_add_missing_args:
  "fst ` set (add_missing_args new args) = fst ` set args \<union> fst ` set new"
  by (induction new arbitrary: args) auto

lemma distinct_add_missing_args:
  "distinct (map fst args) \<Longrightarrow> distinct (map fst (add_missing_args new args))"
  by (induction new arbitrary: args) auto

lemma add_missing_args_idem:
  "fst ` set new \<subseteq> fst ` set args \<Longrightarrow> add_missing_args new args = args"
  by (induction new arbitrary: args) auto

end
