(* ===== verification/CredentialConfigs.thy ===== *)
theory CredentialConfigs
  imports RegistryMatch KubeadmSpec
begin

text \<open>
  \<open>pkg/handlers/generic/mutation/generic/imageregistries/credentials\<close>: the files that
  give the kubelet the credentials of the image registries.  A registry is served by the
  provider of its cloud, or by a static one that reads a Secret with the credentials.  Executing
  a template and reading Secrets are parameters; the program depends on the input of the
  templates.
\<close>

section \<open>Paths\<close>

text \<open>
  \<open>path.Clean\<close> and \<open>path.Join\<close>, on the elements of a path; \<open>path_elements\<close>
  has the elements read so far, the last one first.
\<close>

definition path_element :: "bool \<Rightarrow> string \<Rightarrow> string list \<Rightarrow> string list" where
  "path_element rooted e es =
     (if e = [] \<or> e = ''.'' then es
      else if e = ''..'' then
        (case es of
           [] \<Rightarrow> if rooted then [] else [''..'']
         | x # xs \<Rightarrow> if x = ''..'' then ''..'' # es else xs)
      else e # es)"

definition path_Clean :: "string \<Rightarrow> string" where
  "path_Clean p =
     (let rooted = has_prefix p ''/'';
          cleaned = (if rooted then ''/'' else []) @
            join_with ''/'' (rev (fold (path_element rooted) (split_on CHR ''/'' p) []))
      in if cleaned = [] then ''.'' else cleaned)"

definition path_Join :: "string list \<Rightarrow> string" where
  "path_Join elems =
     (let es = dropWhile (\<lambda>e. e = []) elems
      in if es = [] then [] else path_Clean (join_with ''/'' es))"

section \<open>Registries\<close>

record provider_config =
  pv_url :: string
  pv_username :: string
  pv_password :: string
  pv_has_ca_cert :: bool
  pv_mirror :: bool

text \<open>\<open>url.Parse\<close>, \<open>url.ParseRequestURI\<close> and the API version of the library.\<close>

record credential_env =
  ce_parse :: url_parser
  ce_parse_uri :: url_parser
  ce_api_version :: string

definition isCredentialsEmpty :: "provider_config \<Rightarrow> bool" where
  "isCredentialsEmpty c \<longleftrightarrow> pv_username c = [] \<and> pv_password c = []"

definition registryHostWithPath :: "credential_env \<Rightarrow> provider_config \<Rightarrow> string + string" where
  "registryHostWithPath env c =
     (case ce_parse_uri env (pv_url c) of
        Inl err \<Rightarrow> Inl (''failed parsing registry URL: '' @ err)
      | Inr u \<Rightarrow>
          Inr (if url_path u \<noteq> [] then path_Join [url_host u, url_path u] else url_host u))"

definition requiresStaticCredentials :: "credential_env \<Rightarrow> provider_config \<Rightarrow> string + bool" where
  "requiresStaticCredentials env c =
     (case registryHostWithPath env c of
        Inl err \<Rightarrow> Inl (''failed to get registry host with path: '' @ err)
      | Inr host \<Rightarrow>
          (case URLMatchesKnownRegistryProvider (ce_parse env) host of
             Inl err \<Rightarrow>
               Inl (''failed to check if registry matches a known registry provider: '' @ err)
           | Inr knownRegistryProvider \<Rightarrow> Inr (\<not> knownRegistryProvider)))"

fun providerConfigsThatNeedConfiguration ::
    "credential_env \<Rightarrow> provider_config list \<Rightarrow> string + provider_config list" where
  "providerConfigsThatNeedConfiguration env [] = Inr []"
| "providerConfigsThatNeedConfiguration env (c # cs) =
     (case requiresStaticCredentials env c of
        Inl err \<Rightarrow> Inl (''error determining if Image Registry is a supported provider: '' @ err)
      | Inr requiresStatic \<Rightarrow>
          if isCredentialsEmpty c \<and> requiresStatic then
            (if pv_mirror c \<or> pv_has_ca_cert c
             then providerConfigsThatNeedConfiguration env cs
             else Inl (''invalid image registry: '' @ pv_url c @ '': '' @
               ''registry credentials not found''))
          else case providerConfigsThatNeedConfiguration env cs of
            Inl err \<Rightarrow> Inl err
          | Inr needConfiguration \<Rightarrow> Inr (c # needConfiguration))"

section \<open>The provider of a registry\<close>

record provider =
  pr_binary :: string
  pr_args :: "string list"
  pr_api_version :: string
  pr_hosts :: "string list"

definition kubeletDynamicCredentialProviderConfigOnRemote :: string where
  "kubeletDynamicCredentialProviderConfigOnRemote =
     ''/etc/kubernetes/dynamic-credential-provider-config.yaml''"

definition kubeletStaticCredentialProviderCredentialsOnRemote :: string where
  "kubeletStaticCredentialProviderCredentialsOnRemote =
     ''/etc/kubernetes/static-image-credentials.json''"

definition kubeletCredentialProvider :: "credential_env \<Rightarrow> string \<times> string list \<times> string" where
  "kubeletCredentialProvider env =
     (''dynamic-credential-provider'',
      [''get-credentials'', ''-c'', kubeletDynamicCredentialProviderConfigOnRemote],
      ce_api_version env)"

definition dynamicCredentialProvider ::
    "credential_env \<Rightarrow> string \<Rightarrow> string + (string \<times> string list)" where
  "dynamicCredentialProvider env host =
     (case URLMatchesECR (ce_parse env) host of
        Inl err \<Rightarrow> Inl err
      | Inr True \<Rightarrow> Inr (''ecr-credential-provider'', [''get-credentials''])
      | Inr False \<Rightarrow>
     (case URLMatchesGCR (ce_parse env) host of
        Inl err \<Rightarrow> Inl err
      | Inr True \<Rightarrow> Inr (''gcr-credential-provider'', [''get-credentials''])
      | Inr False \<Rightarrow>
     (case URLMatchesACR (ce_parse env) host of
        Inl err \<Rightarrow> Inl err
      | Inr True \<Rightarrow> Inr (''acr-credential-provider'', [''/etc/kubernetes/azure.json''])
      | Inr False \<Rightarrow>
          Inr (''static-credential-provider'',
            [kubeletStaticCredentialProviderCredentialsOnRemote]))))"

text \<open>
  The map from the binary of a provider to its configuration, as an association list in the
  order of the first registries; a host is added to the provider of its registry.
\<close>

fun add_host :: "credential_env \<Rightarrow> string \<Rightarrow> string list \<Rightarrow> string \<Rightarrow> provider list \<Rightarrow> provider list"
  where
  "add_host env binary args host [] =
     [\<lparr>pr_binary = binary, pr_args = args, pr_api_version = ce_api_version env,
       pr_hosts = [host]\<rparr>]"
| "add_host env binary args host (p # ps) =
     (if pr_binary p = binary then p\<lparr>pr_hosts := pr_hosts p @ [host]\<rparr> # ps
      else p # add_host env binary args host ps)"

fun collect_providers ::
    "credential_env \<Rightarrow> provider_config list \<Rightarrow> string \<Rightarrow> provider list \<Rightarrow>
     string + (string \<times> provider list)" where
  "collect_providers env [] mirror ps = Inr (mirror, ps)"
| "collect_providers env (c # cs) mirror ps =
     (case registryHostWithPath env c of
        Inl err \<Rightarrow> Inl err
      | Inr host \<Rightarrow>
          (case dynamicCredentialProvider env host of
             Inl err \<Rightarrow> Inl err
           | Inr (binary, args) \<Rightarrow>
               collect_providers env cs (if pv_mirror c then host else mirror)
                 (add_host env binary args host ps)))"

text \<open>
  The input of the template: the mirror and the providers.  \<open>values\<close> is the arbitrary
  order in which the values of the map are listed, before they are sorted by their binary
  (\<open>sort.SliceStable\<close>).
\<close>

definition dynamic_template_input ::
    "credential_env \<Rightarrow> (provider list \<Rightarrow> provider list) \<Rightarrow> provider_config list \<Rightarrow>
     string + (string \<times> provider list)" where
  "dynamic_template_input env values configs =
     (case collect_providers env configs [] [] of
        Inl err \<Rightarrow> Inl err
      | Inr (mirror, ps) \<Rightarrow>
          Inr (mirror, sort_key pr_binary
            (map (\<lambda>p. p\<lparr>pr_hosts := sort (pr_hosts p)\<rparr>) (values ps))))"

section \<open>Files for the machines\<close>

text \<open>The templates, as functions of their inputs.\<close>

record credential_templates =
  tpl_install :: "string \<times> string \<Rightarrow> string + string"
  tpl_kubelet :: "string list \<times> string \<times> string list \<times> string \<Rightarrow> string + string"
  tpl_dynamic :: "string \<times> provider list \<Rightarrow> string + string"
  tpl_static :: "(string \<times> string \<times> string) list \<Rightarrow> string + string"

definition fileFromTemplate :: "('i \<Rightarrow> string + string) \<Rightarrow> 'i \<Rightarrow> string \<Rightarrow> string + machine_file" where
  "fileFromTemplate tpl templateInput fPath =
     (case tpl templateInput of
        Inl err \<Rightarrow> Inl (''failed executing template: '' @ err)
      | Inr b \<Rightarrow>
          Inr \<lparr>mf_path = fPath, mf_owner = [], mf_permissions = ''0600'', mf_content = b,
            mf_secret = None\<rparr>)"

fun registry_hosts :: "credential_env \<Rightarrow> provider_config list \<Rightarrow> string + string list" where
  "registry_hosts env [] = Inr []"
| "registry_hosts env (c # cs) =
     (case registryHostWithPath env c of
        Inl err \<Rightarrow> Inl err
      | Inr h \<Rightarrow> (case registry_hosts env cs of Inl err \<Rightarrow> Inl err | Inr hs \<Rightarrow> Inr (h # hs)))"

definition templateKubeletCredentialProviderConfig ::
    "credential_env \<Rightarrow> credential_templates \<Rightarrow> provider_config list \<Rightarrow> string + machine_file" where
  "templateKubeletCredentialProviderConfig env tpl configs =
     (let (providerBinary, providerArgs, providerAPIVersion) = kubeletCredentialProvider env
      in case registry_hosts env configs of
        Inl err \<Rightarrow> Inl err
      | Inr registryHosts \<Rightarrow>
          fileFromTemplate (tpl_kubelet tpl)
            (registryHosts, providerBinary, providerArgs, providerAPIVersion)
            ''/etc/kubernetes/image-credential-provider-config.yaml'')"

definition templateDynamicCredentialProviderConfig ::
    "credential_env \<Rightarrow> credential_templates \<Rightarrow> (provider list \<Rightarrow> provider list) \<Rightarrow>
     provider_config list \<Rightarrow> string + machine_file" where
  "templateDynamicCredentialProviderConfig env tpl values configs =
     (case dynamic_template_input env values configs of
        Inl err \<Rightarrow> Inl err
      | Inr templateInput \<Rightarrow>
          fileFromTemplate (tpl_dynamic tpl) templateInput
            kubeletDynamicCredentialProviderConfigOnRemote)"

definition templateFilesForImageCredentialProviderConfigs ::
    "credential_env \<Rightarrow> credential_templates \<Rightarrow> (provider list \<Rightarrow> provider list) \<Rightarrow>
     provider_config list \<Rightarrow> string + machine_file list" where
  "templateFilesForImageCredentialProviderConfigs env tpl values configs =
     (case templateKubeletCredentialProviderConfig env tpl configs of
        Inl err \<Rightarrow> Inl err
      | Inr kubeletFile \<Rightarrow>
          (case templateDynamicCredentialProviderConfig env tpl values configs of
             Inl err \<Rightarrow> Inl err
           | Inr dynamicFile \<Rightarrow> Inr [kubeletFile, dynamicFile]))"

section \<open>Static credentials\<close>

fun configsRequireStaticCredentials :: "credential_env \<Rightarrow> provider_config list \<Rightarrow> bool" where
  "configsRequireStaticCredentials env [] = False"
| "configsRequireStaticCredentials env (c # cs) =
     (case requiresStaticCredentials env c of
        Inl err \<Rightarrow> False
      | Inr r \<Rightarrow> if r then True else configsRequireStaticCredentials env cs)"

definition credentialSecretName :: "string \<Rightarrow> string" where
  "credentialSecretName clusterName = clusterName @ ''-static-credential-provider-response''"

definition generateCredentialsSecretFile ::
    "credential_env \<Rightarrow> provider_config list \<Rightarrow> string \<Rightarrow> machine_file option" where
  "generateCredentialsSecretFile env configs clusterName =
     (if \<not> configsRequireStaticCredentials env configs then None
      else Some \<lparr>mf_path = kubeletStaticCredentialProviderCredentialsOnRemote, mf_owner = [],
        mf_permissions = ''0600'', mf_content = [],
        mf_secret = Some (credentialSecretName clusterName, ''static-credential-provider'')\<rparr>)"

definition isDockerHubNutanixOrgURL :: "parsed_url \<Rightarrow> bool" where
  "isDockerHubNutanixOrgURL u \<longleftrightarrow>
     (url_host u = ''docker.io'' \<or> url_host u = ''registry-1.docker.io'') \<and>
     path_Clean (url_path u) = ''/nutanix''"

text \<open>The input of the template of the Secret: host, user name and password.\<close>

fun static_template_input ::
    "credential_env \<Rightarrow> provider_config list \<Rightarrow> string + (string \<times> string \<times> string) list" where
  "static_template_input env [] = Inr []"
| "static_template_input env (c # cs) =
     (case requiresStaticCredentials env c of
        Inl err \<Rightarrow> Inl (''error determining if Image Registry is a supported provider: '' @ err)
      | Inr False \<Rightarrow> static_template_input env cs
      | Inr True \<Rightarrow>
          (case ce_parse_uri env (pv_url c) of
             Inl err \<Rightarrow> Inl (''failed parsing registry URL: '' @ err)
           | Inr u \<Rightarrow>
               let pathPrefix = (if isDockerHubNutanixOrgURL u then url_path u else []);
                   login = (\<lambda>host. (path_Join [host, pathPrefix], pv_username c, pv_password c));
                   inputs = login (url_host u) #
                     (if url_host u = ''registry-1.docker.io'' then [login ''docker.io''] else [])
               in case static_template_input env cs of
                 Inl err \<Rightarrow> Inl err | Inr rest \<Rightarrow> Inr (inputs @ rest)))"

definition kubeletStaticCredentialProviderSecretContents ::
    "credential_env \<Rightarrow> credential_templates \<Rightarrow> provider_config list \<Rightarrow> string + string" where
  "kubeletStaticCredentialProviderSecretContents env tpl configs =
     (case static_template_input env configs of
        Inl err \<Rightarrow> Inl err
      | Inr [] \<Rightarrow> Inr []
      | Inr inputs \<Rightarrow>
          (case tpl_static tpl inputs of
             Inl err \<Rightarrow> Inl (''failed executing template: '' @ err)
           | Inr b \<Rightarrow> Inr (trim_space b)))"

text \<open>
  The Secret: its name, namespace and content.  Its labels (for moving it with the Cluster) are
  left out.
\<close>

definition generateCredentialsSecret ::
    "credential_env \<Rightarrow> credential_templates \<Rightarrow> provider_config list \<Rightarrow> string \<Rightarrow> string \<Rightarrow>
     string + (string \<times> string \<times> string) option" where
  "generateCredentialsSecret env tpl configs clusterName namespace =
     (if \<not> configsRequireStaticCredentials env configs then Inr None
      else case kubeletStaticCredentialProviderSecretContents env tpl configs of
        Inl err \<Rightarrow> Inl err
      | Inr contents \<Rightarrow> Inr (Some (credentialSecretName clusterName, namespace, contents)))"

section \<open>The registries that are configured\<close>

text \<open>
  An image registry or mirror: its URL and the name of its Secret, where \<open>Credentials\<close> and
  \<open>SecretRef\<close> may be nil.
\<close>

definition DefaultKubeletCredentialProviderRegistryURL :: string where
  "DefaultKubeletCredentialProviderRegistryURL = ''https://registry-1.docker.io''"

definition DockerHubRegistryURL :: string where
  "DockerHubRegistryURL = ''https://docker.io''"

definition SecretNameForImageRegistryCredentials :: "string option option \<Rightarrow> string" where
  "SecretNameForImageRegistryCredentials credentials =
     (case credentials of Some (Some n) \<Rightarrow> n | _ \<Rightarrow> [])"

definition SecretForImageRegistryCredentials ::
    "(string \<Rightarrow> string \<Rightarrow> string + secret) \<Rightarrow> string option option \<Rightarrow> string \<Rightarrow>
     string + secret option" where
  "SecretForImageRegistryCredentials get credentials objectNamespace =
     (let name = SecretNameForImageRegistryCredentials credentials
      in if name = [] then Inr None
         else case get objectNamespace name of
           Inl err \<Rightarrow> Inl err | Inr secret \<Rightarrow> Inr (Some secret))"

definition secretHasCACert :: "secret option \<Rightarrow> bool" where
  "secretHasCACert secret =
     (case secret of None \<Rightarrow> False | Some data \<Rightarrow> data ''ca.crt'' \<noteq> None)"

definition secret_value :: "secret \<Rightarrow> string \<Rightarrow> string" where
  "secret_value data key = (case data key of None \<Rightarrow> [] | Some v \<Rightarrow> v)"

text \<open>
  A registry with its credentials; \<open>origin\<close> is the variable that names it, and
  \<open>mirror\<close> whether it is the global mirror.
\<close>

definition with_credentials ::
    "(string \<Rightarrow> string \<Rightarrow> string + secret) \<Rightarrow> string \<Rightarrow> bool \<Rightarrow> string \<Rightarrow>
     string \<times> string option option \<Rightarrow> string + provider_config" where
  "with_credentials get origin mirror namespace registry =
     (let (url, credentials) = registry;
          config = \<lparr>pv_url = url, pv_username = [], pv_password = [], pv_has_ca_cert = False,
            pv_mirror = mirror\<rparr>
      in case SecretForImageRegistryCredentials get credentials namespace of
        Inl err \<Rightarrow>
          Inl (''error getting secret '' @ namespace @ ''/'' @
            SecretNameForImageRegistryCredentials credentials @ '' from '' @ origin @
            '' variable: '' @ err)
      | Inr None \<Rightarrow> Inr config
      | Inr (Some data) \<Rightarrow>
          Inr (config\<lparr>pv_username := secret_value data ''username'',
            pv_password := secret_value data ''password'',
            pv_has_ca_cert := secretHasCACert (Some data)\<rparr>))"

fun registries_with_credentials ::
    "(string \<Rightarrow> string \<Rightarrow> string + secret) \<Rightarrow> string \<Rightarrow> (string \<times> string option option) list \<Rightarrow>
     string + provider_config list" where
  "registries_with_credentials get namespace [] = Inr []"
| "registries_with_credentials get namespace (r # rs) =
     (case with_credentials get ''Image Registry'' False namespace r of
        Inl err \<Rightarrow> Inl err
      | Inr c \<Rightarrow>
          (case registries_with_credentials get namespace rs of
             Inl err \<Rightarrow> Inl err | Inr cs \<Rightarrow> Inr (c # cs)))"

definition hasDockerHubRegistry :: "(string \<times> string option option) list \<Rightarrow> bool" where
  "hasDockerHubRegistry registries =
     list_ex (\<lambda>(url, _). url = DefaultKubeletCredentialProviderRegistryURL \<or>
       url = DockerHubRegistryURL) registries"

text \<open>The registries that \<open>Mutate\<close> writes files for, once the variables are read.\<close>

definition registries_to_configure ::
    "credential_env \<Rightarrow> (string \<Rightarrow> string \<Rightarrow> string + secret) \<Rightarrow> string \<Rightarrow>
     (string \<times> string option option) list \<Rightarrow> (string \<times> string option option) option \<Rightarrow>
     string + provider_config list" where
  "registries_to_configure env get namespace imageRegistries globalMirror =
     (case registries_with_credentials get namespace imageRegistries of
        Inl err \<Rightarrow> Inl err
      | Inr registries \<Rightarrow>
     (case (case globalMirror of
              None \<Rightarrow> Inr registries
            | Some m \<Rightarrow>
                (case with_credentials get ''Global Image Registry Mirror'' True namespace m of
                   Inl err \<Rightarrow> Inl err | Inr c \<Rightarrow> Inr (registries @ [c]))) of
        Inl err \<Rightarrow> Inl err
      | Inr all_registries \<Rightarrow>
     (case providerConfigsThatNeedConfiguration env all_registries of
        Inl err \<Rightarrow> Inl err
      | Inr needed \<Rightarrow>
          Inr (if hasDockerHubRegistry imageRegistries then needed
               else needed @ [\<lparr>pv_url = DefaultKubeletCredentialProviderRegistryURL,
                 pv_username = [], pv_password = [], pv_has_ca_cert = False,
                 pv_mirror = False\<rparr>]))))"

text \<open>The install script, its command, the configuration files and the credentials file.\<close>

definition generateFilesAndCommands ::
    "credential_env \<Rightarrow> credential_templates \<Rightarrow> (provider list \<Rightarrow> provider list) \<Rightarrow> string \<Rightarrow>
     provider_config list \<Rightarrow> string \<Rightarrow> string + (machine_file list \<times> string list)" where
  "generateFilesAndCommands env tpl values script configs clusterName =
     (case tpl_install tpl (''ghcr.io/mesosphere/dynamic-credential-provider:v0.5.3'',
         ''/etc/kubernetes/image-credential-provider/'') of
        Inl err \<Rightarrow>
          Inl (''error generating install files and commands for Image Registry Credentials '' @
            ''variable: failed executing template: '' @ err)
      | Inr install \<Rightarrow>
          (case templateFilesForImageCredentialProviderConfigs env tpl values configs of
             Inl err \<Rightarrow>
               Inl (''error generating files for Image Registry Credentials variable: '' @ err)
           | Inr files \<Rightarrow>
               Inr (\<lparr>mf_path = script, mf_owner = [], mf_permissions = ''0700'', mf_content = install,
                   mf_secret = None\<rparr> # files @
                 (case generateCredentialsSecretFile env configs clusterName of
                    None \<Rightarrow> [] | Some f \<Rightarrow> [f]),
                 [''/bin/bash '' @ script])))"

text \<open>Arguments of the kubelet are only added where they are missing.\<close>

definition addImageCredentialProviderArgs :: "kubeadm_arg list \<Rightarrow> kubeadm_arg list" where
  "addImageCredentialProviderArgs args =
     (let given = fst ` set args;
          add = (\<lambda>name v as. if name \<notin> given then as @ [(name, Some v)] else as)
      in add ''image-credential-provider-config''
           ''/etc/kubernetes/image-credential-provider-config.yaml''
           (add ''image-credential-provider-bin-dir''
             ''/etc/kubernetes/image-credential-provider/'' args))"

section \<open>Every registry has one provider\<close>

text \<open>
  A registry needs static credentials exactly when its provider is the static one.
\<close>

lemma requiresStatic_iff:
  assumes "registryHostWithPath env c = Inr host"
    and "dynamicCredentialProvider env host = Inr (binary, args)"
  shows "requiresStaticCredentials env c = Inr (binary = ''static-credential-provider'')"
  using assms
  by (auto simp: requiresStaticCredentials_def dynamicCredentialProvider_def
      URLMatchesKnownRegistryProvider_def URLMatchesECR_def URLMatchesGCR_def URLMatchesACR_def
      URLMatchesOneOfGlobs_def match_globs_append split: sum.splits bool.splits)

lemma dynamicCredentialProvider_args:
  "dynamicCredentialProvider env host = Inr (b, args) \<Longrightarrow>
     dynamicCredentialProvider env host' = Inr (b, args') \<Longrightarrow> args = args'"
  by (auto simp: dynamicCredentialProvider_def split: sum.splits bool.splits)

section \<open>The order of the registries does not matter\<close>

definition provider_of ::
    "credential_env \<Rightarrow> provider_config \<Rightarrow> (string \<times> string \<times> string list) option" where
  "provider_of env c =
     (case registryHostWithPath env c of
        Inl err \<Rightarrow> None
      | Inr host \<Rightarrow>
          (case dynamicCredentialProvider env host of
             Inl err \<Rightarrow> None | Inr (binary, args) \<Rightarrow> Some (host, binary, args)))"

abbreviation config_host :: "credential_env \<Rightarrow> provider_config \<Rightarrow> string" where
  "config_host env c \<equiv> fst (the (provider_of env c))"

abbreviation config_binary :: "credential_env \<Rightarrow> provider_config \<Rightarrow> string" where
  "config_binary env c \<equiv> fst (snd (the (provider_of env c)))"

abbreviation config_args :: "credential_env \<Rightarrow> provider_config \<Rightarrow> string list" where
  "config_args env c \<equiv> snd (snd (the (provider_of env c)))"

definition mirror_of :: "credential_env \<Rightarrow> provider_config list \<Rightarrow> string \<Rightarrow> string" where
  "mirror_of env cs m = fold (\<lambda>c m. if pv_mirror c then config_host env c else m) cs m"

definition add_config :: "credential_env \<Rightarrow> provider_config \<Rightarrow> provider list \<Rightarrow> provider list" where
  "add_config env c = add_host env (config_binary env c) (config_args env c) (config_host env c)"

lemma collect_providers_iff:
  "collect_providers env cs m ps = Inr r \<longleftrightarrow>
     (\<forall>c \<in> set cs. provider_of env c \<noteq> None) \<and> r = (mirror_of env cs m, fold (add_config env) cs ps)"
proof (induction cs arbitrary: m ps)
  case Nil
  then show ?case by (auto simp: mirror_of_def)
next
  case (Cons c cs)
  show ?case
  proof (cases "provider_of env c")
    case None
    then show ?thesis by (auto simp: provider_of_def split: sum.splits)
  next
    case (Some t)
    obtain host binary args where t: "t = (host, binary, args)" by (cases t)
    then have "registryHostWithPath env c = Inr host"
      "dynamicCredentialProvider env host = Inr (binary, args)"
      using Some by (auto simp: provider_of_def split: sum.splits)
    then show ?thesis using Some t Cons.IH by (simp add: mirror_of_def add_config_def)
  qed
qed

text \<open>The provider with a binary that a list of registries has.\<close>

definition provider_for :: "credential_env \<Rightarrow> provider_config list \<Rightarrow> string \<Rightarrow> provider" where
  "provider_for env cs b =
     \<lparr>pr_binary = b, pr_args = config_args env (hd (filter (\<lambda>c. config_binary env c = b) cs)),
      pr_api_version = ce_api_version env,
      pr_hosts = map (config_host env) (filter (\<lambda>c. config_binary env c = b) cs)\<rparr>"

lemma add_host_binaries:
  "pr_binary ` set (add_host env b args host ps) = insert b (pr_binary ` set ps)"
  "distinct (map pr_binary ps) \<Longrightarrow> distinct (map pr_binary (add_host env b args host ps))"
proof -
  show *: "pr_binary ` set (add_host env b args host ps) = insert b (pr_binary ` set ps)" for ps
    by (induction ps) auto
  show "distinct (map pr_binary ps) \<Longrightarrow> distinct (map pr_binary (add_host env b args host ps))"
  proof (induction ps)
    case (Cons p ps)
    then show ?case using * [of ps] by (cases "pr_binary p = b") (auto simp: image_iff)
  qed simp
qed

lemma set_add_host:
  assumes "distinct (map pr_binary ps)"
  shows "set (add_host env b args host ps) =
    {p \<in> set ps. pr_binary p \<noteq> b} \<union>
    (if b \<in> pr_binary ` set ps
     then (\<lambda>p. p\<lparr>pr_hosts := pr_hosts p @ [host]\<rparr>) ` {p \<in> set ps. pr_binary p = b}
     else {\<lparr>pr_binary = b, pr_args = args, pr_api_version = ce_api_version env, pr_hosts = [host]\<rparr>})"
  using assms
proof (induction ps)
  case (Cons p ps)
  show ?case
  proof (cases "pr_binary p = b")
    case True
    have "pr_binary p \<notin> pr_binary ` set ps" using Cons.prems by simp
    then have "\<forall>q \<in> set ps. pr_binary q \<noteq> b" using True by (metis imageI)
    then show ?thesis using True by auto
  next
    case False
    then show ?thesis using Cons by auto
  qed
qed simp

lemma collected_providers:
  assumes "\<forall>c \<in> set cs. provider_of env c \<noteq> None"
  shows "distinct (map pr_binary (fold (add_config env) cs []))"
    "set (fold (add_config env) cs []) = provider_for env cs ` config_binary env ` set cs"
proof -
  have "distinct (map pr_binary (fold (add_config env) cs [])) \<and>
      set (fold (add_config env) cs []) = provider_for env cs ` config_binary env ` set cs"
  proof (induction cs rule: rev_induct)
    case (snoc c cs)
    let ?ps = "fold (add_config env) cs []"
    let ?b = "config_binary env c"
    have ps: "distinct (map pr_binary ?ps)"
      "set ?ps = provider_for env cs ` config_binary env ` set cs"
      using snoc by blast+
    have other: "provider_for env (cs @ [c]) b = provider_for env cs b" if "b \<noteq> ?b" for b
      using that by (simp add: provider_for_def)
    have binaries: "pr_binary ` set ?ps = config_binary env ` set cs"
      by (simp add: ps(2) image_image provider_for_def)
    have old: "{p \<in> set ?ps. pr_binary p \<noteq> ?b} =
        provider_for env (cs @ [c]) ` (config_binary env ` set cs - {?b})"
    proof -
      have "{p \<in> set ?ps. pr_binary p \<noteq> ?b} =
          provider_for env cs ` (config_binary env ` set cs - {?b})"
        unfolding ps(2) by (auto simp: provider_for_def)
      also have "\<dots> = provider_for env (cs @ [c]) ` (config_binary env ` set cs - {?b})"
        using other by (auto intro!: image_cong)
      finally show ?thesis .
    qed
    have new: "(if ?b \<in> pr_binary ` set ?ps
        then (\<lambda>p. p\<lparr>pr_hosts := pr_hosts p @ [config_host env c]\<rparr>) ` {p \<in> set ?ps. pr_binary p = ?b}
        else {\<lparr>pr_binary = ?b, pr_args = config_args env c, pr_api_version = ce_api_version env,
          pr_hosts = [config_host env c]\<rparr>}) = {provider_for env (cs @ [c]) ?b}"
    proof (cases "?b \<in> config_binary env ` set cs")
      case True
      then have "{p \<in> set ?ps. pr_binary p = ?b} = {provider_for env cs ?b}"
        unfolding ps(2) by (auto simp: provider_for_def)
      moreover have "filter (\<lambda>x. config_binary env x = ?b) cs \<noteq> []"
        using True by (auto simp: filter_empty_conv)
      ultimately show ?thesis using True binaries by (simp add: provider_for_def)
    next
      case False
      then have "\<forall>x \<in> set cs. config_binary env x \<noteq> ?b" by (metis imageI)
      then have "filter (\<lambda>x. config_binary env x = ?b) cs = []" by simp
      then show ?thesis using False binaries by (simp add: provider_for_def)
    qed
    have "set (add_config env c ?ps) =
        provider_for env (cs @ [c]) ` (config_binary env ` set cs - {?b}) \<union>
        {provider_for env (cs @ [c]) ?b}"
      unfolding add_config_def [of env c] set_add_host [OF ps(1)] old new ..
    also have "\<dots> = provider_for env (cs @ [c]) ` config_binary env ` set (cs @ [c])" by auto
    finally have s: "set (add_config env c ?ps) =
      provider_for env (cs @ [c]) ` config_binary env ` set (cs @ [c])" .
    have d: "distinct (map pr_binary (add_config env c ?ps))"
      unfolding add_config_def [of env c] by (rule add_host_binaries(2) [OF ps(1)])
    show ?case using s d by simp
  qed simp
  then show "distinct (map pr_binary (fold (add_config env) cs []))"
    "set (fold (add_config env) cs []) = provider_for env cs ` config_binary env ` set cs"
    by blast+
qed

lemma sort_key_same_set:
  assumes "distinct (map f xs)" "distinct (map f ys)" "set xs = set ys"
  shows "sort_key f xs = sort_key f ys"
proof (rule sort_key_inj_key_eq)
  have "distinct xs" "distinct ys" using assms(1,2) by (simp_all add: distinct_map)
  then show "mset xs = mset (sort_key f ys)"
    using assms(3) by (simp add: set_eq_iff_mset_eq_distinct)
  show "inj_on f (set xs)" using assms(1) by (simp add: distinct_map)
qed simp

text \<open>The mirror is that of the only registry that is one.\<close>

lemma mirror_of_perm:
  assumes "mset cs = mset cs'" and "length (filter pv_mirror cs) \<le> 1"
  shows "mirror_of env cs m = mirror_of env cs' m"
proof -
  have eq: "mirror_of env ds m =
      (case filter pv_mirror ds of [] \<Rightarrow> m | _ \<Rightarrow> config_host env (last (filter pv_mirror ds)))" for ds
    by (induction ds rule: rev_induct) (auto simp: mirror_of_def split: list.splits)
  have "mset (filter pv_mirror cs) = mset (filter pv_mirror cs')" using assms(1) by simp
  then have "filter pv_mirror cs = filter pv_mirror cs'"
    using assms(2) by (cases "filter pv_mirror cs"; cases "filter pv_mirror cs'") auto
  then show ?thesis unfolding eq by (rule arg_cong)
qed

lemma provider_of_Some:
  "provider_of env c = Some (h, b, args) \<Longrightarrow> dynamicCredentialProvider env h = Inr (b, args)"
  by (auto simp: provider_of_def split: sum.splits)

lemma sorted_providers_perm:
  assumes "mset cs = mset cs'" and "\<forall>c \<in> set cs. provider_of env c \<noteq> None" and "c \<in> set cs"
  defines "sorted_hosts \<equiv> \<lambda>p. p\<lparr>pr_hosts := sort (pr_hosts p)\<rparr>"
  shows "sorted_hosts (provider_for env cs (config_binary env c)) =
    sorted_hosts (provider_for env cs' (config_binary env c))"
proof -
  let ?b = "config_binary env c"
  let ?f = "filter (\<lambda>x. config_binary env x = ?b)"
  have sets: "set cs = set cs'" using assms(1) by (rule mset_eq_setD)
  have args: "config_args env x = config_args env y"
    if xy: "x \<in> set cs" "y \<in> set cs" "config_binary env x = ?b" "config_binary env y = ?b" for x y
  proof -
    obtain tx ty where t: "provider_of env x = Some tx" "provider_of env y = Some ty"
      using xy(1,2) assms(2) by blast
    obtain hx bx ax hy by' ay where p: "tx = (hx, bx, ax)" "ty = (hy, by', ay)"
      by (cases tx, cases ty) auto
    have "bx = by'" using xy(3,4) t p by simp
    then have "ax = ay"
      using dynamicCredentialProvider_args provider_of_Some t p by metis
    then show ?thesis using t p by simp
  qed
  have hd_in: "hd (?f ds) \<in> set cs \<and> config_binary env (hd (?f ds)) = ?b" if "set ds = set cs" for ds
  proof -
    have "?f ds \<noteq> []" using assms(3) that by (auto simp: filter_empty_conv)
    then have "hd (?f ds) \<in> set (?f ds)" by (rule hd_in_set)
    then show ?thesis using that by auto
  qed
  have "config_args env (hd (?f cs)) = config_args env (hd (?f cs'))"
    using args hd_in [OF refl] hd_in [OF sets [symmetric]] by blast
  moreover have "sort (map (config_host env) (?f cs)) = sort (map (config_host env) (?f cs'))"
    by (rule properties_for_sort) (simp_all add: assms(1))
  ultimately show ?thesis by (simp add: sorted_hosts_def provider_for_def)
qed

lemma dynamic_template_input_perm:
  assumes "dynamic_template_input env values cs = Inr r" and "mset cs = mset cs'"
    and "length (filter pv_mirror cs) \<le> 1"
    and "\<And>ps. mset (values ps) = mset ps" and "\<And>ps. mset (values' ps) = mset ps"
  shows "dynamic_template_input env values' cs' = Inr r"
proof -
  let ?sorted = "\<lambda>p. p\<lparr>pr_hosts := sort (pr_hosts p)\<rparr>"
  have sets: "set cs = set cs'" using assms(2) by (rule mset_eq_setD)
  obtain mirror ps where collected: "collect_providers env cs [] [] = Inr (mirror, ps)"
    "r = (mirror, sort_key pr_binary (map ?sorted (values ps)))"
    using assms(1) by (auto simp: dynamic_template_input_def split: sum.splits prod.splits)
  note c = collect_providers_iff [THEN iffD1, OF collected(1)]
  have ok: "\<forall>c \<in> set cs. provider_of env c \<noteq> None" using c by blast
  have r: "r = (mirror_of env cs [],
      sort_key pr_binary (map ?sorted (values (fold (add_config env) cs []))))"
    using c collected(2) by simp
  have ok': "\<forall>c \<in> set cs'. provider_of env c \<noteq> None" using ok by (simp add: sets)
  have c': "collect_providers env cs' [] [] = Inr (mirror_of env cs' [], fold (add_config env) cs' [])"
    using collect_providers_iff ok' by blast
  have dist: "distinct (map pr_binary (map ?sorted (v (fold (add_config env) ds []))))"
    if "\<forall>c \<in> set ds. provider_of env c \<noteq> None" "mset (v (fold (add_config env) ds [])) =
      mset (fold (add_config env) ds [])" for v ds
  proof -
    have "mset (map pr_binary (v (fold (add_config env) ds []))) =
        mset (map pr_binary (fold (add_config env) ds []))" using that(2) by simp
    then have "distinct (map pr_binary (v (fold (add_config env) ds [])))"
      using collected_providers(1) [OF that(1)] mset_eq_imp_distinct_iff by blast
    moreover have "map pr_binary (map ?sorted ps) = map pr_binary ps"
      for ps :: "provider list" by simp
    ultimately show ?thesis by (simp only:)
  qed
  have "sort_key pr_binary (map ?sorted (values (fold (add_config env) cs []))) =
      sort_key pr_binary (map ?sorted (values' (fold (add_config env) cs' [])))"
  proof (rule sort_key_same_set)
    show "distinct (map pr_binary (map ?sorted (values (fold (add_config env) cs []))))"
      by (rule dist [of cs "values", OF ok assms(4)])
    show "distinct (map pr_binary (map ?sorted (values' (fold (add_config env) cs' []))))"
      by (rule dist [of "cs'" "values'", OF ok' assms(5)])
    have "set (values (fold (add_config env) cs [])) = provider_for env cs ` config_binary env ` set cs"
      using mset_eq_setD [OF assms(4)] collected_providers(2) [OF ok] by simp
    moreover have "set (values' (fold (add_config env) cs' [])) =
        provider_for env cs' ` config_binary env ` set cs"
      using mset_eq_setD [OF assms(5)] collected_providers(2) [OF ok'] sets by simp
    ultimately show "set (map ?sorted (values (fold (add_config env) cs []))) =
        set (map ?sorted (values' (fold (add_config env) cs' [])))"
      using sorted_providers_perm [OF assms(2) ok] by (simp add: image_image)
  qed
  then show ?thesis
    using mirror_of_perm [OF assms(2,3)] by (simp add: dynamic_template_input_def c' r)
qed

section \<open>The registries in another order\<close>

lemma registries_with_credentials_iff:
  "registries_with_credentials get namespace rs = Inr cs \<longleftrightarrow>
     list_all2 (\<lambda>r c. with_credentials get ''Image Registry'' False namespace r = Inr c) rs cs"
proof (induction rs arbitrary: cs)
  case (Cons r rs)
  show ?case by (auto simp: list_all2_Cons1 Cons.IH [symmetric] split: sum.splits)
qed auto

definition configuration_ok :: "credential_env \<Rightarrow> provider_config \<Rightarrow> bool" where
  "configuration_ok env c \<longleftrightarrow>
     (\<exists>r. requiresStaticCredentials env c = Inr r \<and>
        (isCredentialsEmpty c \<and> r \<longrightarrow> pv_mirror c \<or> pv_has_ca_cert c))"

definition configuration_needed :: "credential_env \<Rightarrow> provider_config \<Rightarrow> bool" where
  "configuration_needed env c \<longleftrightarrow>
     \<not> (isCredentialsEmpty c \<and> requiresStaticCredentials env c = Inr True)"

lemma providerConfigsThatNeedConfiguration_ok:
  "\<forall>c \<in> set cs. configuration_ok env c \<Longrightarrow>
     providerConfigsThatNeedConfiguration env cs = Inr (filter (configuration_needed env) cs)"
  by (induction cs) (auto simp: configuration_ok_def configuration_needed_def split: if_splits)

lemma providerConfigsThatNeedConfiguration_bad:
  "\<not> (\<forall>c \<in> set cs. configuration_ok env c) \<Longrightarrow>
     \<exists>err. providerConfigsThatNeedConfiguration env cs = Inl err"
proof (induction cs)
  case (Cons a cs)
  show ?case
  proof (cases "configuration_ok env a")
    case True
    with Cons obtain err where "providerConfigsThatNeedConfiguration env cs = Inl err" by auto
    then show ?thesis by (auto split: sum.split)
  next
    case False
    then show ?thesis by (auto simp: configuration_ok_def split: sum.split)
  qed
qed simp

lemma providerConfigsThatNeedConfiguration_iff:
  "providerConfigsThatNeedConfiguration env cs = Inr needed \<longleftrightarrow>
     (\<forall>c \<in> set cs. configuration_ok env c) \<and> needed = filter (configuration_needed env) cs"
  using providerConfigsThatNeedConfiguration_ok [of cs env]
    providerConfigsThatNeedConfiguration_bad [of cs env]
  by (metis Inl_Inr_False sum.inject(2))

lemma providerConfigsThatNeedConfiguration_Inl:
  "providerConfigsThatNeedConfiguration env cs = Inl err \<Longrightarrow> \<exists>c \<in> set cs. \<not> configuration_ok env c"
  using providerConfigsThatNeedConfiguration_ok [of cs env] by fastforce

lemma with_credentials_mirror:
  "with_credentials get origin mirror namespace r = Inr c \<Longrightarrow> pv_mirror c = mirror"
  by (auto simp: with_credentials_def Let_def split: prod.splits sum.splits option.splits)

text \<open>The registries that \<open>Mutate\<close> reads, and those that it configures.\<close>

lemma registries_to_configure_iff:
  "registries_to_configure env get namespace rs m = Inr cs \<longleftrightarrow>
     (\<exists>registries mirror.
        list_all2 (\<lambda>r c. with_credentials get ''Image Registry'' False namespace r = Inr c) rs registries \<and>
        (case m of None \<Rightarrow> mirror = []
         | Some g \<Rightarrow> \<exists>c. with_credentials get ''Global Image Registry Mirror'' True namespace g = Inr c \<and>
             mirror = [c]) \<and>
        (\<forall>c \<in> set (registries @ mirror). configuration_ok env c) \<and>
        cs = filter (configuration_needed env) (registries @ mirror) @
          (if hasDockerHubRegistry rs then []
           else [\<lparr>pv_url = DefaultKubeletCredentialProviderRegistryURL, pv_username = [],
             pv_password = [], pv_has_ca_cert = False, pv_mirror = False\<rparr>]))"
  (is "?l \<longleftrightarrow> ?r")
proof (cases "registries_with_credentials get namespace rs")
  case (Inl err)
  then show ?thesis
    using registries_with_credentials_iff [of get namespace rs]
    by (simp add: registries_to_configure_def)
next
  case (Inr registries)
  have only: "list_all2 (\<lambda>r c. with_credentials get ''Image Registry'' False namespace r = Inr c) rs x \<longleftrightarrow>
      x = registries" for x
    using Inr registries_with_credentials_iff [of get namespace rs x] by auto
  show ?thesis
    unfolding only registries_to_configure_def Inr
    by (cases m)
      (auto simp: providerConfigsThatNeedConfiguration_iff
        dest!: providerConfigsThatNeedConfiguration_Inl split: sum.splits)
qed

lemma registries_to_configure_mirrors:
  assumes "registries_to_configure env get namespace rs m = Inr cs"
  shows "length (filter pv_mirror cs) \<le> 1"
proof -
  obtain registries mirror where c:
    "list_all2 (\<lambda>r c. with_credentials get ''Image Registry'' False namespace r = Inr c) rs registries"
    "case m of None \<Rightarrow> mirror = []
     | Some g \<Rightarrow> \<exists>c. with_credentials get ''Global Image Registry Mirror'' True namespace g = Inr c \<and>
         mirror = [c]"
    "cs = filter (configuration_needed env) (registries @ mirror) @
          (if hasDockerHubRegistry rs then []
           else [\<lparr>pv_url = DefaultKubeletCredentialProviderRegistryURL, pv_username = [],
             pv_password = [], pv_has_ca_cert = False, pv_mirror = False\<rparr>])"
    using assms [unfolded registries_to_configure_iff] by (elim exE conjE) (rule that)
  have one: "length mirror \<le> 1" using c(2) by (cases m) auto
  have "\<forall>c \<in> set registries. \<not> pv_mirror c"
    using c(1) by (induction rs registries rule: list_all2_induct) (auto dest: with_credentials_mirror)
  then have mirrors: "filter pv_mirror cs = filter pv_mirror (filter (configuration_needed env) mirror)"
    by (simp add: c(3) filter_empty_conv)
  show ?thesis
    unfolding mirrors
    using one length_filter_le [of pv_mirror "filter (configuration_needed env) mirror"]
      length_filter_le [of "configuration_needed env" mirror] by linarith
qed

lemma registries_to_configure_perm:
  assumes "registries_to_configure env get namespace rs m = Inr cs" and "mset rs' = mset rs"
  obtains cs' where "registries_to_configure env get namespace rs' m = Inr cs'" "mset cs' = mset cs"
proof -
  let ?R = "\<lambda>r c. with_credentials get ''Image Registry'' False namespace r = Inr c"
  let ?hub = "\<lambda>rs. if hasDockerHubRegistry rs then []
           else [\<lparr>pv_url = DefaultKubeletCredentialProviderRegistryURL, pv_username = [],
             pv_password = [], pv_has_ca_cert = False, pv_mirror = False\<rparr>]"
  obtain registries mirror where c: "list_all2 ?R rs registries"
    "case m of None \<Rightarrow> mirror = []
     | Some g \<Rightarrow> \<exists>c. with_credentials get ''Global Image Registry Mirror'' True namespace g = Inr c \<and>
         mirror = [c]"
    "\<forall>c \<in> set (registries @ mirror). configuration_ok env c"
    "cs = filter (configuration_needed env) (registries @ mirror) @ ?hub rs"
    using assms(1) [unfolded registries_to_configure_iff] by (elim exE conjE) (rule that)
  from list_all2_reorder_left_invariance [OF c(1) assms(2)] obtain registries' where
    r: "list_all2 ?R rs' registries'" "mset registries' = mset registries" by blast
  have ok: "\<forall>c \<in> set (registries' @ mirror). configuration_ok env c"
    using c(3) mset_eq_setD [OF r(2)] by simp
  have hub: "hasDockerHubRegistry rs' = hasDockerHubRegistry rs"
    using mset_eq_setD [OF assms(2)] by (simp add: hasDockerHubRegistry_def list_ex_iff)
  have "registries_to_configure env get namespace rs' m =
      Inr (filter (configuration_needed env) (registries' @ mirror) @ ?hub rs)"
    unfolding registries_to_configure_iff
    by (rule exI [of _ registries'], rule exI [of _ mirror]) (simp add: r(1) c(2) ok hub)
  moreover have "mset (filter (configuration_needed env) (registries' @ mirror) @ ?hub rs) = mset cs"
    by (simp add: c(4) r(2))
  ultimately show ?thesis using that by blast
qed

section \<open>The credentials file\<close>

lemma configsRequireStatic_iff:
  assumes "\<forall>c \<in> set cs. provider_of env c \<noteq> None"
  shows "configsRequireStaticCredentials env cs \<longleftrightarrow>
    ''static-credential-provider'' \<in> config_binary env ` set cs"
  using assms
proof (induction cs)
  case (Cons c cs)
  then obtain host binary args where c: "provider_of env c = Some (host, binary, args)"
    by (cases "provider_of env c") auto
  then have "registryHostWithPath env c = Inr host"
    "dynamicCredentialProvider env host = Inr (binary, args)"
    by (auto simp: provider_of_def split: sum.splits)
  note r = requiresStatic_iff [OF this]
  show ?case using Cons c r by auto
qed simp

lemma static_provider_iff:
  assumes "dynamic_template_input env values cs = Inr (mirror, ps)"
    and "\<And>ps. mset (values ps) = mset ps"
  shows "generateCredentialsSecretFile env cs n \<noteq> None \<longleftrightarrow>
    ''static-credential-provider'' \<in> pr_binary ` set ps"
proof -
  let ?sorted = "\<lambda>p. p\<lparr>pr_hosts := sort (pr_hosts p)\<rparr>"
  obtain m qs where q: "collect_providers env cs [] [] = Inr (m, qs)"
    "ps = sort_key pr_binary (map ?sorted (values qs))"
    using assms(1) by (auto simp: dynamic_template_input_def split: sum.splits prod.splits)
  note c = collect_providers_iff [THEN iffD1, OF q(1)]
  then have ok: "\<forall>c \<in> set cs. provider_of env c \<noteq> None" by blast
  have "set qs = provider_for env cs ` config_binary env ` set cs"
    using c collected_providers(2) [OF ok] by simp
  then have "pr_binary ` set ps = config_binary env ` set cs"
    using mset_eq_setD [OF assms(2), of qs]
    by (simp add: q(2) image_image provider_for_def)
  then show ?thesis
    by (simp add: generateCredentialsSecretFile_def configsRequireStatic_iff [OF ok])
qed

end
