(* ===== verification/ContainerdMirrors.thy ===== *)
theory ContainerdMirrors
  imports CredentialConfigs
begin

text \<open>
  \<open>pkg/handlers/generic/mutation/generic/mirrors\<close>: the files that make containerd use
  registry mirrors and trust the certificates of registries.  \<open>url.ParseRequestURI\<close>,
  reading Secrets and the address of the registry addon are parameters; the template of
  \<open>hosts.toml\<close> is written out.
\<close>

record containerd_config =
  ct_url :: string
  ct_ca_secret :: string
  ct_ca_cert :: string
  ct_mirror :: bool

definition filePathFromURL :: "url_parser \<Rightarrow> containerd_config \<Rightarrow> string + string" where
  "filePathFromURL parse_uri c =
     (case parse_uri (ct_url c) of
        Inl err \<Rightarrow> Inl (''failed parsing registry URL: '' @ err)
      | Inr registryURL \<Rightarrow>
          Inr (''/etc/containerd/certs.d/'' @ url_host registryURL @ ''/ca.crt''))"

definition needs_configuration :: "containerd_config \<Rightarrow> bool" where
  "needs_configuration c \<longleftrightarrow> ct_ca_cert c \<noteq> [] \<or> ct_mirror c"

definition needContainerdConfiguration :: "containerd_config list \<Rightarrow> bool" where
  "needContainerdConfiguration configs = list_ex needs_configuration configs"

definition formatURLForContainerd :: "url_parser \<Rightarrow> string \<Rightarrow> string + string" where
  "formatURLForContainerd parse_uri uri =
     (case parse_uri uri of
        Inl err \<Rightarrow> Inl (''failed parsing mirror: '' @ err)
      | Inr mirrorURL \<Rightarrow>
          let mirrorPath = (if url_path mirrorURL \<noteq> [] then path_Join [''v2'', url_path mirrorURL]
            else ''v2'')
          in Inr (url_scheme mirrorURL @ ''://'' @ url_host mirrorURL @ ''/'' @ mirrorPath))"

section \<open>The hosts file\<close>

text \<open>The URL of each mirror and the path of its certificate, which may be empty.\<close>

fun mirror_inputs :: "url_parser \<Rightarrow> containerd_config list \<Rightarrow> string + (string \<times> string) list" where
  "mirror_inputs parse_uri [] = Inr []"
| "mirror_inputs parse_uri (c # cs) =
     (if \<not> ct_mirror c then mirror_inputs parse_uri cs
      else case formatURLForContainerd parse_uri (ct_url c) of
        Inl err \<Rightarrow> Inl (''failed formatting image registry URL for Containerd: '' @ err)
      | Inr formattedURL \<Rightarrow>
          (case (if ct_ca_cert c \<noteq> [] then filePathFromURL parse_uri c else Inr []) of
             Inl err \<Rightarrow> Inl (''failed generating CA certificate file path from URL: '' @ err)
           | Inr caCertPath \<Rightarrow>
               (case mirror_inputs parse_uri cs of
                  Inl err \<Rightarrow> Inl err
                | Inr rest \<Rightarrow> Inr ((formattedURL, caCertPath) # rest))))"

definition newline :: string where
  "newline = [char_of (10 :: nat)]"

definition double_quote :: string where
  "double_quote = [char_of (34 :: nat)]"

definition hosts_entry :: "string \<times> string \<Rightarrow> string" where
  "hosts_entry entry =
     (let (url, caCertPath) = entry
      in newline @ ''[host.'' @ double_quote @ url @ double_quote @ '']'' @ newline @
         ''  capabilities = ['' @ double_quote @ ''pull'' @ double_quote @ '', '' @
         double_quote @ ''resolve'' @ double_quote @ '']'' @
         (if caCertPath \<noteq> []
          then newline @ ''  ca = '' @ double_quote @ caCertPath @ double_quote else []) @ newline @
         ''  # don'' @ [char_of (39 :: nat)] @ ''t rely on Containerd to add the v2/ suffix'' @
         newline @ ''  # there is a bug where it is added incorrectly for mirrors with a path'' @
         newline @ ''  override_path = true'')"

definition generateContainerdDefaultHostsFile ::
    "url_parser \<Rightarrow> containerd_config list \<Rightarrow> string + machine_file option" where
  "generateContainerdDefaultHostsFile parse_uri configs =
     (if configs = [] then Inr None
      else case mirror_inputs parse_uri configs of
        Inl err \<Rightarrow> Inl err
      | Inr inputs \<Rightarrow>
          if inputs = [] then Inr None
          else Inr (Some \<lparr>mf_path = ''/etc/containerd/certs.d/_default/hosts.toml'',
            mf_owner = [], mf_permissions = ''0600'',
            mf_content = trim_space (concat (map hosts_entry inputs) @ newline) @ newline, mf_secret = None\<rparr>))"

section \<open>Certificates\<close>

record ca_file =
  caf_path :: string
  caf_url :: string
  caf_secret :: string
  caf_cert :: string

definition find_ca_file :: "string \<Rightarrow> ca_file list \<Rightarrow> ca_file option" where
  "find_ca_file path files = find (\<lambda>f. path = caf_path f) files"

fun ca_files_loop ::
    "url_parser \<Rightarrow> containerd_config list \<Rightarrow> ca_file list \<Rightarrow> string + ca_file list" where
  "ca_files_loop parse_uri [] files = Inr files"
| "ca_files_loop parse_uri (c # cs) files =
     (if ct_ca_secret c = [] then ca_files_loop parse_uri cs files
      else case filePathFromURL parse_uri c of
        Inl err \<Rightarrow> Inl (''failed generating CA certificate file path from URL: '' @ err)
      | Inr path \<Rightarrow>
          (case find_ca_file path files of
             Some existing \<Rightarrow>
               if ct_ca_cert c \<noteq> caf_cert existing then
                 Inl (''conflicting CA certificate specified for registry host: '' @
                   quoted (ct_url c) @ '' (from secrets '' @ quoted (ct_ca_secret c) @ '' and '' @
                   quoted (caf_secret existing) @ '')'')
               else ca_files_loop parse_uri cs files
           | None \<Rightarrow>
               ca_files_loop parse_uri cs (files @
                 [\<lparr>caf_path = path, caf_url = ct_url c, caf_secret = ct_ca_secret c,
                   caf_cert = ct_ca_cert c\<rparr>])))"

definition registryCACertFiles :: "url_parser \<Rightarrow> containerd_config list \<Rightarrow> string + ca_file list" where
  "registryCACertFiles parse_uri configs = ca_files_loop parse_uri configs []"

definition generateRegistryCACertFiles ::
    "url_parser \<Rightarrow> containerd_config list \<Rightarrow> string + machine_file list" where
  "generateRegistryCACertFiles parse_uri configs =
     (if configs = [] then Inr []
      else case registryCACertFiles parse_uri configs of
        Inl err \<Rightarrow> Inl err
      | Inr files \<Rightarrow>
          Inr (map (\<lambda>f. \<lparr>mf_path = caf_path f, mf_owner = [], mf_permissions = ''0600'', mf_content = [],
            mf_secret = Some (caf_secret f, ''ca.crt'')\<rparr>) files))"

text \<open>
  All files; the drop-in that points containerd at the directory of the certificates is given.
\<close>

definition mirror_generateFiles ::
    "url_parser \<Rightarrow> machine_file \<Rightarrow> containerd_config list \<Rightarrow> string + machine_file list" where
  "mirror_generateFiles parse_uri dropIn configs =
     (case generateContainerdDefaultHostsFile parse_uri configs of
        Inl err \<Rightarrow> Inl err
      | Inr hostsFile \<Rightarrow>
          (case generateRegistryCACertFiles parse_uri configs of
             Inl err \<Rightarrow> Inl err
           | Inr caFiles \<Rightarrow>
               Inr ((case hostsFile of None \<Rightarrow> [] | Some f \<Rightarrow> [f]) @ caFiles @ [dropIn])))"

section \<open>The configurations\<close>

text \<open>The Secret has a name and data; \<open>origin\<close> is the variable that names it.\<close>

definition containerd_config_for ::
    "(string \<Rightarrow> string \<Rightarrow> string + (string \<times> secret)) \<Rightarrow> string \<Rightarrow> bool \<Rightarrow> string \<Rightarrow>
     string \<times> string option option \<Rightarrow> string + containerd_config" where
  "containerd_config_for get origin mirror namespace registry =
     (let (url, credentials) = registry;
          name = SecretNameForImageRegistryCredentials credentials;
          config = \<lparr>ct_url = url, ct_ca_secret = [], ct_ca_cert = [], ct_mirror = mirror\<rparr>
      in if name = [] then Inr config
         else case get namespace name of
           Inl err \<Rightarrow> Inl (''error getting secret '' @ namespace @ ''/'' @ name @ '' from '' @
             origin @ '' variable: '' @ err)
         | Inr (secretName, data) \<Rightarrow>
             (case data ''ca.crt'' of
                None \<Rightarrow> Inr config
              | Some cert \<Rightarrow> Inr (config\<lparr>ct_ca_secret := secretName, ct_ca_cert := cert\<rparr>)))"

definition containerdConfigFromRegistryAddon ::
    "string + string \<Rightarrow> string + (string \<times> secret) \<Rightarrow> string + containerd_config" where
  "containerdConfigFromRegistryAddon serviceIP caSecret =
     (case serviceIP of
        Inl err \<Rightarrow> Inl (''error getting service IP for the registry addon: '' @ err)
      | Inr ip \<Rightarrow>
          (case caSecret of
             Inl err \<Rightarrow> Inl (''error getting CA secret for registry addon: '' @ err)
           | Inr (secretName, data) \<Rightarrow>
               (case data ''ca.crt'' of
                  None \<Rightarrow> Inl ''CA certificate not found in the secret''
                | Some cert \<Rightarrow>
                    Inr \<lparr>ct_url = ''https://'' @ ip, ct_ca_secret = secretName,
                      ct_ca_cert = cert, ct_mirror = True\<rparr>)))"

section \<open>One certificate for each host\<close>

text \<open>
  The configurations that name a Secret, with the path of their certificate.
\<close>

definition named_configs :: "containerd_config list \<Rightarrow> containerd_config list" where
  "named_configs configs = filter (\<lambda>c. ct_ca_secret c \<noteq> []) configs"

text \<open>The files are those of a list of configurations read before.\<close>

definition files_match :: "url_parser \<Rightarrow> containerd_config list \<Rightarrow> ca_file list \<Rightarrow> bool" where
  "files_match parse_uri done files \<longleftrightarrow>
     distinct (map caf_path files) \<and>
     (\<forall>c \<in> set (named_configs done). \<exists>f \<in> set files.
        filePathFromURL parse_uri c = Inr (caf_path f) \<and> ct_ca_cert c = caf_cert f) \<and>
     (\<forall>f \<in> set files. \<exists>c \<in> set (named_configs done).
        filePathFromURL parse_uri c = Inr (caf_path f) \<and> ct_ca_cert c = caf_cert f \<and>
        ct_ca_secret c = caf_secret f)"

text \<open>All URLs parse, and no two configurations of a host disagree on the certificate.\<close>

definition certificates_agree :: "url_parser \<Rightarrow> containerd_config list \<Rightarrow> bool" where
  "certificates_agree parse_uri configs \<longleftrightarrow>
     (\<forall>c \<in> set (named_configs configs). \<exists>p. filePathFromURL parse_uri c = Inr p) \<and>
     (\<forall>c \<in> set (named_configs configs). \<forall>d \<in> set (named_configs configs).
        filePathFromURL parse_uri c = filePathFromURL parse_uri d \<longrightarrow> ct_ca_cert c = ct_ca_cert d)"

lemma find_ca_file_cases:
  "(find_ca_file path files = None \<and> path \<notin> caf_path ` set files) \<or>
   (\<exists>f. find_ca_file path files = Some f \<and> f \<in> set files \<and> caf_path f = path)"
  unfolding find_ca_file_def by (induction files) auto

definition ca_files_ok ::
    "url_parser \<Rightarrow> containerd_config list \<Rightarrow> string + ca_file list \<Rightarrow> bool" where
  "ca_files_ok parse_uri configs r \<longleftrightarrow>
     (case r of
        Inl err \<Rightarrow> \<not> certificates_agree parse_uri configs
      | Inr files \<Rightarrow> files_match parse_uri configs files \<and> certificates_agree parse_uri configs)"

lemma ca_files_loop_result:
  assumes "files_match parse_uri done files"
  shows "ca_files_ok parse_uri (done @ cs) (ca_files_loop parse_uri cs files)"
  using assms
proof (induction cs arbitrary: "done" files)
  case Nil
  have "certificates_agree parse_uri done"
    unfolding certificates_agree_def
  proof (intro conjI ballI impI)
    fix c d assume "c \<in> set (named_configs done)" "d \<in> set (named_configs done)"
      "filePathFromURL parse_uri c = filePathFromURL parse_uri d"
    with Nil obtain f g where "f \<in> set files" "g \<in> set files" "caf_path f = caf_path g"
      "ct_ca_cert c = caf_cert f" "ct_ca_cert d = caf_cert g" "distinct (map caf_path files)"
      unfolding files_match_def by (metis Inr_inject)
    then show "ct_ca_cert c = ct_ca_cert d" by (metis distinct_map inj_onD)
  qed (use Nil in \<open>auto simp: files_match_def\<close>)
  with Nil show ?case by (simp add: ca_files_ok_def)
next
  case (Cons c cs)
  show ?case
  proof (cases "ct_ca_secret c = []")
    case True
    then have "files_match parse_uri (done @ [c]) files"
      using Cons.prems by (simp add: files_match_def named_configs_def)
    from Cons.IH [OF this] True show ?thesis by simp
  next
    case named: False
    have c_in: "c \<in> set (named_configs (done @ c # cs))" using named by (simp add: named_configs_def)
    show ?thesis
    proof (cases "filePathFromURL parse_uri c")
      case (Inl err)
      have "\<not> certificates_agree parse_uri (done @ c # cs)"
      proof
        assume "certificates_agree parse_uri (done @ c # cs)"
        then have "\<exists>p. filePathFromURL parse_uri c = Inr p"
          using c_in unfolding certificates_agree_def by blast
        with Inl show False by simp
      qed
      with Inl named show ?thesis by (simp add: ca_files_ok_def)
    next
      case (Inr path)
      consider (new) "find_ca_file path files = None" "path \<notin> caf_path ` set files"
        | (old) f where "find_ca_file path files = Some f" "f \<in> set files" "caf_path f = path"
        using find_ca_file_cases [of path files] by (elim disjE exE conjE) auto
      then show ?thesis
      proof cases
        case new
        let ?new = "\<lparr>caf_path = path, caf_url = ct_url c, caf_secret = ct_ca_secret c,
          caf_cert = ct_ca_cert c\<rparr>"
        have "files_match parse_uri (done @ [c]) (files @ [?new])"
          unfolding files_match_def
        proof (intro conjI)
          show "distinct (map caf_path (files @ [?new]))"
            using Cons.prems new(2) by (simp add: files_match_def)
        qed (use Cons.prems Inr named in \<open>fastforce simp: files_match_def named_configs_def\<close>)+
        from Cons.IH [OF this] new(1) Inr named show ?thesis by simp
      next
        case old
        show ?thesis
        proof (cases "ct_ca_cert c = caf_cert f")
          case True
          have "files_match parse_uri (done @ [c]) files"
            using Cons.prems old Inr named True
            by (auto simp: files_match_def named_configs_def)
          from Cons.IH [OF this] old(1) Inr named True show ?thesis by simp
        next
          case False
          obtain d where "d \<in> set (named_configs done)" "filePathFromURL parse_uri d = Inr path"
            "ct_ca_cert d = caf_cert f"
            using Cons.prems old(2,3) unfolding files_match_def by blast
          then have "\<not> certificates_agree parse_uri (done @ c # cs)"
            using c_in Inr False unfolding certificates_agree_def named_configs_def
            by (metis UnCI filter_append set_append)
          with old(1) Inr named False show ?thesis by (simp add: ca_files_ok_def)
        qed
      qed
    qed
  qed
qed

lemma registryCACertFiles_result:
  "ca_files_ok parse_uri configs (registryCACertFiles parse_uri configs)"
  using ca_files_loop_result [of parse_uri "[]" "[]" configs]
  by (simp add: registryCACertFiles_def files_match_def named_configs_def)

end
