(* ===== verification/ExtensionProps.thy ===== *)
theory ExtensionProps
  imports NamespaceSync ParallelHooks ClusterUUID CiliumValidator RegistryEnabler
    ContainerdMirrors PatchFramework Samples
begin

text \<open>
  The properties of the namespace sync controller, of the hooks run in parallel, of the webhooks
  for UUIDs, Cilium and the registry addon, and of the files for image registries.
\<close>

section \<open>Syncing ClusterClasses\<close>

text \<open>
  C31. Whatever a reconciliation returns, it only adds objects, and only in the namespace it
  was asked for: no object that existed is changed or removed.
\<close>

theorem sync_only_adds:
  assumes "lawful_api api objects ref_gvk"
    and "sync_Reconcile api source_namespace namespace s = (err, s')"
  shows "objects s \<subseteq>\<^sub>m objects s' \<and>
    (\<forall>k \<in> dom (objects s') - dom (objects s). fst (snd k) = namespace)"
  using sync_grows [OF assms(1), of namespace s source_namespace] assms(2) by (simp add: grows_def)


text \<open>
  C40. A namespace that the selector matches now was sent to the controller at the event since
  which it has matched without a break.
\<close>

theorem namespace_enqueued:
  assumes "matches (last (l # ls))"
  shows "\<exists>i \<le> length ls. events_enqueued matches l ls ! i \<and>
    (\<forall>k. i \<le> k \<and> k \<le> length ls \<longrightarrow> matches ((l # ls) ! k))"
  using updates_enqueued_since [where l = l and ls = ls and matches = matches, OF assms]
proof (elim disjE exE conjE)
  assume "\<forall>k \<le> length ls. matches ((l # ls) ! k)"
  then show ?thesis
    by (intro exI [of _ 0]) (auto simp: events_enqueued_def namespace_created_def)
next
  fix i
  assume i: "i < length ls" "updates_enqueued matches l ls ! i"
    "\<forall>k. i < k \<and> k \<le> length ls \<longrightarrow> matches ((l # ls) ! k)"
  then show ?thesis
    by (intro exI [of _ "Suc i"]) (auto simp: events_enqueued_def Suc_le_eq)
qed

section \<open>Hooks in parallel\<close>

text \<open>
  C12. However the goroutines are scheduled, the aggregated response fails exactly when a hook
  fails; its message joins those of the failed hooks (of the successful ones when none fails) in
  some order; and it asks to be called again after the least time that a failed hook asks for.
\<close>

theorem parallel_result:
  assumes "lowest_nonzero lowest"
    and "hooks_reachable (parallel_responses hooks req fresh) s" and "hs_ended s"
  defines "rs \<equiv> parallel_responses hooks req fresh"
  defines "st \<equiv> if \<exists>r \<in> set rs. hr_status r = Failure then Failure else Success"
  defines "asked \<equiv> {i. i \<noteq> 0 \<and> (\<exists>r \<in> set rs. hr_status r = Failure \<and> hr_retry r = Some i)}"
  shows "hr_status (hooks_result lowest response s) = st \<and>
    (\<exists>ms. hr_message (hooks_result lowest response s) = join_with '', '' ms \<and>
       mset ms = {#m \<in># image_mset hr_message {#r \<in># mset rs. hr_status r = st#}. m \<noteq> []#}) \<and>
    hr_retry (hooks_result lowest response s) =
      (if asked \<noteq> {} \<and> 0 < Min asked then Some (Min asked) else hr_retry response)"
proof -
  have perm: "mset (hs_received s) = mset rs" unfolding rs_def by (rule ended_received [OF assms(2,3)])
  then have sets: "set (hs_received s) = set rs" by (rule mset_eq_setD)
  have "mset (messages st (hs_received s)) =
      {#m \<in># image_mset hr_message {#r \<in># mset rs. hr_status r = st#}. m \<noteq> []#}"
    using mset_messages [OF perm, of st] by (simp add: messages_def)
  moreover have "set (retries (hs_received s)) = asked"
    by (simp only: set_retries sets asked_def)
  moreover have "asked = {}" if "st = Success" using that by (auto simp: st_def asked_def split: if_splits)
  ultimately show ?thesis
    unfolding hooks_result_def aggregateResponses_eq [OF assms(1)] sets
    by (cases "\<exists>r \<in> set rs. hr_status r = Failure") (auto simp: st_def least_retry_def)
qed

text \<open>
  C32. No schedule goes on forever, and every schedule can be continued until the loop over the
  responses ends.
\<close>

theorem parallel_ends:
  "wfp (\<lambda>t s. hooks_reachable rs s \<and> hooks_step rs s t) \<and>
   (\<forall>s. hooks_reachable rs s \<longrightarrow> (\<exists>t. (hooks_step rs)\<^sup>*\<^sup>* s t \<and> hs_ended t))"
  using hooks_wf hooks_end by blast

section \<open>Webhooks\<close>

text \<open>
  C26. Through every sequence of admitted creations and updates, with whatever UUIDs are
  generated, a Cluster that keeps its topology keeps one UUID.
\<close>

theorem uuid_stable:
  assumes "cluster_history decode marshal raws" and "\<forall>raw \<in> set raws. topology_defined decode raw"
  shows "\<exists>u. \<forall>raw \<in> set raws. \<exists>c. decode raw = Inr c \<and>
    cl_annotations c ClusterUUIDAnnotationKey = Some u"
proof -
  obtain u where "\<forall>raw \<in> set raws. stored_uuid decode raw = Some u"
    using cluster_history_uuid [OF assms] ..
  moreover have "stored_uuid decode raw = Some u \<longleftrightarrow>
      (\<exists>c. decode raw = Inr c \<and> cl_annotations c ClusterUUIDAnnotationKey = Some u)" for raw
    by (cases "decode raw") (simp_all add: stored_uuid_def)
  ultimately show ?thesis by blast
qed

text \<open>
  The two webhooks together refuse a Cluster with a topology only when an update changes
  its UUID: leaving the annotation out is always admitted.
\<close>

theorem uuid_refused_iff:
  assumes "cluster_round_trip decode marshal" and "\<forall>c. \<exists>raw. marshal c = Inr raw"
    and "decode (req_object req) = Inr c" and "IsDefined (cl_topology c)"
    and "decode (req_old_object req) = Inr old"
    and "req_operation req = Create \<or> req_operation req = Update"
  shows "uuid_admit decode marshal fresh req = None \<longleftrightarrow>
    req_operation req = Update \<and>
    (\<exists>u u'. cl_annotations c ClusterUUIDAnnotationKey = Some u \<and>
       cl_annotations old ClusterUUIDAnnotationKey = Some u' \<and> u \<noteq> u')"
  using uuid_admit_iff [OF assms(1,3,4,2,6,5), of fresh] by blast

text \<open>
  A Cluster with a topology and without the skip annotation is accepted exactly when its
  configuration decodes and, if kube-proxy is disabled and Cilium has values in a ConfigMap, the
  ConfigMap does not exist, has no values, or its values parse, execute and enable the
  replacement of kube-proxy.
\<close>

theorem cilium_accepted_iff:
  assumes "req_operation req \<noteq> Delete" and "decode_req (req_object req) = Inr c"
    and "IsDefined (cl_topology c)"
    and "cl_annotations c SkipCiliumKubeProxyReplacementValidation \<noteq> Some ''true''"
  shows "resp_allowed (cilium_validate decode_req decode libs req) \<longleftrightarrow>
    (\<exists>cfg. UnmarshalClusterConfigVariable decode (top_variables (cl_topology c)) = Inr cfg \<and>
       (\<forall>spec addons cni n. cfg = Some spec \<and> ccs_kube_proxy spec = Some ''disabled'' \<and>
          ccs_addons spec = Some addons \<and> ad_cni addons = Some cni \<and>
          cni_provider cni = ''Cilium'' \<and> cni_values cni = Some (Some n) \<longrightarrow>
          (case cl_get_config_map libs (cl_namespace c) n of
             Inl e \<Rightarrow> IsNotFound e
           | Inr data \<Rightarrow> \<forall>v. data ''values.yaml'' = Some v \<longrightarrow> replacement_enabled libs c v)))"
proof (cases "UnmarshalClusterConfigVariable decode (top_variables (cl_topology c))")
  case (Inl err)
  then show ?thesis using assms
    by (simp add: cilium_validate_def CiliumValidator.hasSkipAnnotation_def)
next
  case (Inr cfg)
  have source: "cilium_source cfg = Some n \<longleftrightarrow> (\<exists>spec addons cni. cfg = Some spec \<and>
      ccs_kube_proxy spec = Some ''disabled'' \<and> ccs_addons spec = Some addons \<and>
      ad_cni addons = Some cni \<and> cni_provider cni = ''Cilium'' \<and> cni_values cni = Some (Some n))" for n
    by (auto simp: cilium_source_def KubeProxyModeDisabled_def CNIProviderCilium_def
        bind_eq_Some_conv split: option.splits if_splits)
  have "resp_allowed (cilium_validate decode_req decode libs req) \<longleftrightarrow>
      (\<forall>n. cilium_source cfg = Some n \<longrightarrow>
        (case getCiliumValues libs c n of
           Inl err \<Rightarrow> False | Inr None \<Rightarrow> True
         | Inr (Some r) \<Rightarrow> validateCiliumKubeProxyReplacement r (cl_namespace c) n = None))"
    using assms Inr
    by (auto simp: cilium_validate_def CiliumValidator.hasSkipAnnotation_def
        split: option.splits sum.splits)
  then show ?thesis
    unfolding cilium_values_checked source using Inr by auto
qed

text \<open>
  The webhook for the registry addon panics exactly when it would enable the addon in a
  Cluster without the clusterConfig variable.
\<close>

theorem registry_panics_iff:
  "registry_defaulter decode_req marshal decode encode r req = Panics m \<longleftrightarrow>
     m = nil_dereference \<and>
     (\<exists>c mc p. decode_req (req_object req) = Inr c \<and> \<not> skip_auto_enabling c \<and>
        IsDefined (cl_topology c) \<and>
        GetClusterVariableByName ClusterConfigVariableName (top_variables (cl_topology c)) = None \<and>
        ManagementCluster r = Inr (Some mc) \<and> IsDefined (cl_topology mc) \<and>
        RegistryAddon decode mc = Inr (Some p))"
  by (rule registry_defaulter_panics)

text \<open>
  When the webhook patches a Cluster, the patched Cluster has the registry addon of the
  management cluster, and otherwise the text of its own configuration; a second run leaves it
  alone.
\<close>

theorem registry_enabled:
  assumes "cluster_round_trip decode_req marshal"
    and "json_faithful (registry_configs decode) encode decode"
    and "registry_defaulter decode_req marshal decode encode r req = Returns (Patched raw new)"
  shows "\<exists>c mc p spec c' y. decode_req (req_object req) = Inr c \<and>
    UnmarshalClusterConfigVariable decode (top_variables (cl_topology c)) = Inr (Some spec) \<and>
    ManagementCluster r = Inr (Some mc) \<and> RegistryAddon decode mc = Inr (Some p) \<and>
    decode_req new = Inr c' \<and>
    UnmarshalClusterConfigVariable decode (top_variables (cl_topology c')) = Inr (Some y) \<and>
    same_json (with_registry p spec) y \<and>
    registry_defaulter decode_req marshal decode encode r' (req\<lparr>req_object := new\<rparr>) =
      Returns (Reply (admission_Allowed []))"
  by (rule registry_defaulter_enables [OF assms])

section \<open>Files for image registries\<close>

text \<open>
  C33. When the registries of a Cluster are read and the file
  \<open>dynamic-credential-provider-config.yaml\<close> is written, the same registries in another order,
  with the map of providers listed in any order, give the same file.  This is only said of that
  file: the kubelet's own \<open>CredentialProviderConfig\<close> and the Secret with the static
  credentials list the registries in their order.
\<close>

theorem credential_order_irrelevant:
  assumes "registries_to_configure env get namespace rs m = Inr cs"
    and "templateDynamicCredentialProviderConfig env tpl vals cs = Inr file"
    and "mset rs' = mset rs"
    and "\<And>ps. mset (vals ps) = mset ps" and "\<And>ps. mset (vals' ps) = mset ps"
  shows "\<exists>cs'. registries_to_configure env get namespace rs' m = Inr cs' \<and>
    templateDynamicCredentialProviderConfig env tpl vals' cs' = Inr file"
proof -
  obtain cs' where cs': "registries_to_configure env get namespace rs' m = Inr cs'"
    "mset cs' = mset cs"
    by (rule registries_to_configure_perm [OF assms(1,3)])
  obtain r where r: "dynamic_template_input env vals cs = Inr r"
    using assms(2) by (auto simp: templateDynamicCredentialProviderConfig_def split: sum.splits)
  have "dynamic_template_input env vals' cs' = Inr r"
    by (rule dynamic_template_input_perm [OF r cs'(2) [symmetric]
          registries_to_configure_mirrors [OF assms(1)] assms(4,5)])
  with r assms(2) have "templateDynamicCredentialProviderConfig env tpl vals' cs' = Inr file"
    by (simp add: templateDynamicCredentialProviderConfig_def)
  with cs'(1) show ?thesis by blast
qed

text \<open>
  The machines get the file with static credentials exactly when the configuration of the
  providers, on those machines, has the static one.
\<close>

theorem static_credentials_iff:
  assumes "dynamic_template_input env vals cs = Inr (mirror, ps)"
    and "\<And>ps. mset (vals ps) = mset ps"
  shows "generateCredentialsSecretFile env cs n \<noteq> None \<longleftrightarrow>
    (\<exists>p \<in> set ps. pr_binary p = ''static-credential-provider'')"
proof -
  have "b \<in> pr_binary ` set ps \<longleftrightarrow> (\<exists>p \<in> set ps. pr_binary p = b)" for b by blast
  then show ?thesis using static_provider_iff [OF assms, of n] by blast
qed

text \<open>
  The files with certificates are written exactly when the URLs parse and registries on
  one host have one certificate; then every path is written once, every registry with a
  certificate finds it at its path, and every file is that of a registry.
\<close>

theorem certificate_files:
  "certificates_agree parse_uri configs \<longleftrightarrow>
    (\<exists>files. registryCACertFiles parse_uri configs = Inr files \<and>
       distinct (map caf_path files) \<and>
       (\<forall>c \<in> set configs. ct_ca_secret c \<noteq> [] \<longrightarrow> (\<exists>f \<in> set files.
          filePathFromURL parse_uri c = Inr (caf_path f) \<and> ct_ca_cert c = caf_cert f)) \<and>
       (\<forall>f \<in> set files. \<exists>c \<in> set configs. ct_ca_secret c \<noteq> [] \<and>
          filePathFromURL parse_uri c = Inr (caf_path f) \<and> ct_ca_cert c = caf_cert f \<and>
          ct_ca_secret c = caf_secret f))"
proof (cases "registryCACertFiles parse_uri configs")
  case (Inl err)
  then show ?thesis
    using registryCACertFiles_result [of parse_uri configs] by (simp add: ca_files_ok_def)
next
  case (Inr files)
  have "files_match parse_uri configs files" "certificates_agree parse_uri configs"
    using registryCACertFiles_result [of parse_uri configs] Inr by (simp_all add: ca_files_ok_def)
  then show ?thesis
    unfolding files_match_def named_configs_def Inr by fastforce
qed

section \<open>Patches\<close>

text \<open>
  C37. When the reference to a template is matched by a selector for the control plane, no selector
  for workers or for the infrastructure of the Cluster matches it, whatever the document, so not
  after a first patch either.  Therefore a handler that makes one change to the templates of the
  control plane and then to those of the workers (\<open>patch_both\<close>) makes it once: it is the change
  of the control plane template when that selector matches, and otherwise that of the workers'.
\<close>

theorem selectors_exclusive:
  "(MatchesSelector unquote (ControlPlane_selector v) obj h class_of \<or>
     MatchesSelector unquote (InfrastructureControlPlaneMachines w k) obj h class_of \<longrightarrow>
    \<not> MatchesSelector unquote (WorkersKubeadmConfigTemplateSelector v') obj' h class_of \<and>
    \<not> MatchesSelector unquote (WorkersConfigTemplateSelector v' k') obj' h class_of \<and>
    \<not> MatchesSelector unquote (InfrastructureWorkerMachineTemplates v' k') obj' h class_of \<and>
    \<not> MatchesSelector unquote (InfrastructureCluster v' k') obj' h class_of) \<and>
   patch_both env f doc =
     (if is_control_plane env doc then patch_control_plane env (\<lambda>t. Inr (on_spec f t)) doc
      else patch_workers env (\<lambda>s. Inr (f s)) doc)"
proof (intro conjI [OF _ patch_both_one] impI)
  assume "MatchesSelector unquote (ControlPlane_selector v) obj h class_of \<or>
     MatchesSelector unquote (InfrastructureControlPlaneMachines w k) obj h class_of"
  then have "MatchesControlPlane h"
    by (auto simp: MatchesSelector_def ControlPlane_selector_def
        InfrastructureControlPlaneMachines_def split: if_splits)
  note other = control_plane_not_worker [OF this]
  show "\<not> MatchesSelector unquote (WorkersKubeadmConfigTemplateSelector v') obj' h class_of \<and>
    \<not> MatchesSelector unquote (WorkersConfigTemplateSelector v' k') obj' h class_of \<and>
    \<not> MatchesSelector unquote (InfrastructureWorkerMachineTemplates v' k') obj' h class_of \<and>
    \<not> MatchesSelector unquote (InfrastructureCluster v' k') obj' h class_of"
    using other by (simp add: MatchesSelector_def WorkersKubeadmConfigTemplateSelector_def
        WorkersConfigTemplateSelector_def InfrastructureWorkerMachineTemplates_def
        InfrastructureCluster_def)
qed

section \<open>Instances\<close>

text \<open>
  An API server whose state is the map of its objects, with one ClusterClass, which refers to
  one template.
\<close>

definition sample_object :: "string \<Rightarrow> string \<Rightarrow> string \<Rightarrow> kube_object" where
  "sample_object gvk namespace name =
     \<lparr>ob_gvk = gvk, ob_name = name, ob_namespace = namespace, ob_creation = Some 1, ob_grace = None,
      ob_deletion = None, ob_finalizers = [], ob_generate_name = [], ob_generation = 1,
      ob_labels = Map.empty, ob_annotations = Map.empty, ob_managed_fields = [],
      ob_owner_references = [], ob_resource_version = ''7'', ob_self_link = [], ob_uid = ''u'',
      ob_content = ''spec''\<rparr>"

definition sample_class :: cluster_class where
  "sample_class =
     \<lparr>cc_object = sample_object ''ClusterClass'' ''source'' ''class'',
      cc_infrastructure = \<lparr>tr_api_version = ''v1'', tr_kind = ''Template'', tr_name = ''t''\<rparr>,
      cc_control_plane = \<lparr>tr_api_version = [], tr_kind = [], tr_name = []\<rparr>,
      cc_machine_infrastructure = \<lparr>tr_api_version = [], tr_kind = [], tr_name = []\<rparr>,
      cc_workers = []\<rparr>"

definition store_api :: "(object_key \<rightharpoonup> kube_object) kube_api" where
  "store_api =
     \<lparr>ka_exists = (\<lambda>s gvk ns n. if s (gvk, ns, n) = None then Some (NotFound []) else None),
      ka_read = (\<lambda>s ref. case s (or_kind ref, or_namespace ref, or_name ref) of
        None \<Rightarrow> Inl ''not found''
      | Some obj \<Rightarrow> if ob_gvk obj = or_kind ref \<and> ob_name obj = or_name ref then Inr obj
          else Inl ''not found''),
      ka_create = (\<lambda>s obj. if s (key_of (ob_gvk obj) obj) = None
        then (None, s(key_of (ob_gvk obj) obj \<mapsto> obj)) else (Some ''exists'', s)),
      ka_gvk = (\<lambda>obj. Inr (ob_gvk obj)),
      ka_reference = (\<lambda>t ns. if tr_name t = [] then None
        else Some \<lparr>or_api_version = tr_api_version t, or_kind = tr_kind t, or_name = tr_name t,
          or_namespace = ns\<rparr>),
      ka_list_classes = (\<lambda>s ns. Inr (if ns = ''source'' then [sample_class] else []))\<rparr>"

definition sample_store :: "object_key \<rightharpoonup> kube_object" where
  "sample_store = [(''Template'', ''source'', ''t'') \<mapsto> sample_object ''Template'' ''source'' ''t'',
     (''ClusterClass'', ''source'', ''class'') \<mapsto> sample_object ''ClusterClass'' ''source'' ''class'']"

lemma store_api_lawful: "lawful_api store_api (\<lambda>s. s) or_kind"
  unfolding lawful_api_def store_api_def adds_object_def
  by (auto simp: copyObjectForCreate_def key_of_def split: option.splits if_splits)


theorem sync_only_adds_witness:
  "sample_store \<subseteq>\<^sub>m snd (sync_Reconcile store_api ''source'' ''target'' sample_store)"
  using sync_only_adds [OF store_api_lawful prod.collapse [symmetric]] by blast


theorem namespace_enqueued_witness:
  "\<exists>i \<le> 1. events_enqueued (\<lambda>l. l = ''target'') [] [''target''] ! i"
proof -
  have "(\<lambda>l. l = ''target'') (last ([] # [''target'']))" by simp
  from namespace_enqueued [where matches = "\<lambda>l. l = ''target''" and l = "[]" and ls = "[''target'']", OF this]
  show ?thesis by auto
qed

definition failing_hook :: "string \<Rightarrow> hook_response \<Rightarrow> hook_response" where
  "failing_hook req fresh = fresh\<lparr>hr_status := Failure, hr_message := req, hr_retry := Some 5\<rparr>"

definition fresh_response :: hook_response where
  "fresh_response = \<lparr>hr_status = StatusUnset, hr_message = [], hr_retry = Some 0\<rparr>"

theorem parallel_result_witness:
  "\<exists>s. hooks_reachable (parallel_responses [failing_hook, \<lambda>_ r. r] ''m'' fresh_response) s \<and> hs_ended s \<and>
     hr_retry (hooks_result (\<lambda>i j. if i = 0 then j else if j = 0 then i else min i j)
       fresh_response s) = Some 5"
proof -
  let ?rs = "parallel_responses [failing_hook, \<lambda>_ r. r] ''m'' fresh_response"
  obtain s where s: "hooks_reachable ?rs s" "hs_ended s"
    using hooks_end [OF hooks_start, of ?rs] by blast
  have lowest: "lowest_nonzero (\<lambda>i j. if i = 0 then j else if j = 0 then i else min i j)"
    by (simp add: lowest_nonzero_def)
  have "{i. i \<noteq> 0 \<and> (\<exists>r \<in> set ?rs. hr_status r = Failure \<and> hr_retry r = Some i)} = {5}"
    by (auto simp: parallel_responses_def failing_hook_def fresh_response_def)
  then show ?thesis
    using parallel_result [OF lowest s, of fresh_response] s by auto
qed

theorem parallel_ends_witness:
  "\<exists>t. (hooks_step [fresh_response, fresh_response])\<^sup>*\<^sup>* (initial_hooks_state 2) t \<and> hs_ended t"
proof -
  have "hooks_reachable [fresh_response, fresh_response] (initial_hooks_state 2)"
    using hooks_start [of "[fresh_response, fresh_response]"] by (simp add: numeral_2_eq_2)
  then show ?thesis using parallel_ends by blast
qed

text \<open>A Cluster that is its own document.\<close>

abbreviation same_document :: "cluster \<Rightarrow> string + cluster" where
  "same_document \<equiv> Inr"

lemma same_document_round_trip: "cluster_round_trip same_document same_document"
  by (simp add: cluster_round_trip_def)

lemma sample_topology_set [simp]:
  "cl_annotations (set_uuid u sample_cluster) ClusterUUIDAnnotationKey = Some u"
  "cl_topology (set_uuid u sample_cluster) = sample_topology"
  by (simp_all only: set_uuid_fields sample_cluster_fields)

theorem uuid_stable_witness:
  "cluster_history same_document same_document [set_uuid ''1'' sample_cluster, set_uuid ''1'' sample_cluster] \<and>
   (\<exists>u. \<forall>raw \<in> set [set_uuid ''1'' sample_cluster, set_uuid ''1'' sample_cluster].
      \<exists>c. same_document raw = Inr c \<and> cl_annotations c ClusterUUIDAnnotationKey = Some u)"
proof -
  have created: "uuid_admit same_document same_document ''1''
      \<lparr>req_operation = Create, req_object = sample_cluster, req_old_object = sample_cluster\<rparr> =
        Some (set_uuid ''1'' sample_cluster)"
    by (simp add: uuid_admit_def uuid_defaulter_def default_uuid_def defaulted_object_def
        uuid_validate_def)
  have updated: "uuid_admit same_document same_document ''2''
      \<lparr>req_operation = Update, req_object = sample_cluster,
       req_old_object = set_uuid ''1'' sample_cluster\<rparr> = Some (set_uuid ''1'' sample_cluster)"
    by (simp add: uuid_admit_def uuid_defaulter_def default_uuid_def defaulted_object_def
        uuid_validate_def)
  have h: "cluster_history same_document same_document
      [set_uuid ''1'' sample_cluster, set_uuid ''1'' sample_cluster]"
    by (rule history_updated [OF history_created [OF created] updated])
  moreover have "\<forall>raw \<in> set [set_uuid ''1'' sample_cluster, set_uuid ''1'' sample_cluster].
      topology_defined same_document raw"
    by (simp add: topology_defined_def)
  ultimately show ?thesis using uuid_stable [OF h] by blast
qed

theorem uuid_refused_iff_witness:
  "uuid_admit same_document same_document ''3''
     \<lparr>req_operation = Update, req_object = set_uuid ''2'' sample_cluster,
      req_old_object = set_uuid ''1'' sample_cluster\<rparr> = None"
  by (subst uuid_refused_iff [where c = "set_uuid ''2'' sample_cluster"
        and old = "set_uuid ''1'' sample_cluster"]) (simp_all add: same_document_round_trip)

definition cilium_config :: cluster_config_spec where
  "cilium_config = \<lparr>ccs_nutanix = None, ccs_control_plane = None,
     ccs_addons = Some (no_addons\<lparr>ad_cni := Some \<lparr>cni_provider = ''Cilium'',
       cni_values = Some (Some ''values'')\<rparr>\<rparr>), ccs_max_parallel = None,
     ccs_kube_proxy = Some ''disabled'', ccs_global_mirror = None, ccs_other = []\<rparr>"

definition sample_cilium_libs :: "string cilium_libs" where
  "sample_cilium_libs = \<lparr>cl_parse_template = Inr, cl_execute_template = (\<lambda>t _. Inr t),
     cl_unmarshal_values = (\<lambda>t. Inr (t = ''kubeProxyReplacement: true'')),
     cl_get_config_map = (\<lambda>_ _. Inr [''values.yaml'' \<mapsto> ''kubeProxyReplacement: false''])\<rparr>"

theorem cilium_accepted_iff_witness:
  "\<not> resp_allowed (cilium_validate Inr (\<lambda>_. (cilium_config, None)) sample_cilium_libs create_request)"
proof -
  have u: "UnmarshalClusterConfigVariable (\<lambda>_. (cilium_config, None))
      (top_variables (cl_topology sample_cluster)) = Inr (Some cilium_config)"
    by (simp add: UnmarshalClusterConfigVariable_def UnmarshalNamedVariable_def
        ClusterConfigVariableName_def sample_topology_def)
  have r: "req_operation create_request \<noteq> Delete" "Inr (req_object create_request) = Inr sample_cluster"
    "cl_annotations sample_cluster SkipCiliumKubeProxyReplacementValidation \<noteq> Some ''true''"
    by (simp_all add: create_request_def)
  have t: "IsDefined (cl_topology sample_cluster)" by simp
  show ?thesis
    unfolding cilium_accepted_iff [where decode_req = Inr, OF r(1,2) t r(3)] u
    by (simp add: cilium_config_def sample_cilium_libs_def replacement_enabled_def)
qed

text \<open>
  A workload cluster whose configuration has no addons, below a management cluster with the
  registry addon; the encoder writes the configuration with the addon only.
\<close>

definition plain_config :: cluster_config_spec where
  "plain_config = cilium_config\<lparr>ccs_addons := None, ccs_kube_proxy := None\<rparr>"

definition addon_config :: cluster_config_spec where
  "addon_config = plain_config\<lparr>ccs_addons := Some (no_addons\<lparr>ad_registry := Some ''CNCF''\<rparr>)\<rparr>"

definition addon_encode :: "cluster_config_spec json_encoder" where
  "addon_encode obj = (if same_json addon_config obj then Inr ''addon'' else Inl ''unsupported'')"

definition addon_decode :: "cluster_config_spec json_decoder" where
  "addon_decode raw = (if raw = ''addon'' then addon_config else plain_config, None)"

definition management_cluster :: cluster where
  "management_cluster = sample_cluster\<lparr>cl_spec := (cl_spec sample_cluster)\<lparr>
     cs_topology := sample_topology\<lparr>top_variables := [\<lparr>var_name = ''clusterConfig'',
       var_raw = ''addon''\<rparr>]\<rparr>\<rparr>\<rparr>"

definition sample_reader :: cluster_reader where
  "sample_reader = \<lparr>cr_nodes = Inr [[ClusterNameAnnotation \<mapsto> ''m'', ClusterNamespaceAnnotation \<mapsto> ''ns'']],
     cr_cluster = (\<lambda>_ _. Inr management_cluster), cr_clusters = Inr []\<rparr>"

theorem registry_enabled_witness:
  "\<exists>raw new y. registry_defaulter same_document same_document addon_decode addon_encode
       sample_reader create_request = Returns (Patched raw new) \<and>
     UnmarshalClusterConfigVariable addon_decode (top_variables (cl_topology new)) = Inr (Some y) \<and>
     same_json (with_registry ''CNCF'' plain_config) y"
proof -
  note eval = RegistryAddon_def UnmarshalClusterConfigVariable_def UnmarshalNamedVariable_def
    ClusterConfigVariableName_def addon_decode_def plain_config_def cilium_config_def
    addon_config_def addon_encode_def no_addons_def sample_topology_def
  have m: "ManagementCluster sample_reader = Inr (Some management_cluster)"
    by (simp add: ManagementCluster_def clusterAnnotationsFromNodes_def annotation_def Let_def
        managementClusterFromNodeAnnotations_def sample_reader_def ClusterNameAnnotation_def
        ClusterNamespaceAnnotation_def)
  have mt: "IsDefined (cl_topology management_cluster)"
    "RegistryAddon addon_decode management_cluster = Inr (Some ''CNCF'')"
    by (simp_all add: management_cluster_def IsDefined_def zero_topology_def eval)
  have c: "\<not> skip_auto_enabling sample_cluster" "RegistryAddon addon_decode sample_cluster = Inr None"
    "globalImageRegistryMirrorFromCluster addon_decode sample_cluster = Inr None"
    by (simp_all add: skip_auto_enabling_def globalImageRegistryMirrorFromCluster_def eval)
  have e: "\<exists>c'. enabledSameRegistryAddonInCluster addon_decode addon_encode sample_cluster ''CNCF'' =
      Returns (Inr c')"
    by (simp add: enabledSameRegistryAddonInCluster_def MarshalToClusterVariable_def Let_def eval)
  obtain raw new where d: "registry_defaulter same_document same_document addon_decode addon_encode
       sample_reader create_request = Returns (Patched raw new)"
    using m mt c e by (auto simp: registry_defaulter_def Let_def create_request_def)
  have rt: "json_faithful W addon_encode addon_decode" for W
    by (auto simp: json_faithful_def same_json_def addon_encode_def addon_decode_def split: if_splits)
  from registry_enabled [OF same_document_round_trip rt d] m mt(2)
  obtain y where "UnmarshalClusterConfigVariable addon_decode (top_variables (cl_topology new)) =
      Inr (Some y)" "same_json (with_registry ''CNCF'' plain_config) y"
    by (auto simp: create_request_def eval)
  with d show ?thesis by blast
qed

text \<open>URLs without ports, and two registries, one of them known.\<close>

definition host_url :: "string \<Rightarrow> parsed_url" where
  "host_url host = \<lparr>url_scheme = ''https'', url_host = host, url_hostname = host, url_port = [],
     url_path = []\<rparr>"

definition sample_credential_env :: credential_env where
  "sample_credential_env = \<lparr>ce_parse = (\<lambda>s. Inr (host_url (drop 8 s))),
     ce_parse_uri = (\<lambda>s. Inr (host_url (drop 8 s))), ce_api_version = ''v1''\<rparr>"

definition sample_registry :: "string \<Rightarrow> provider_config" where
  "sample_registry host = \<lparr>pv_url = ''https://'' @ host, pv_username = ''user'',
     pv_password = ''pass'', pv_has_ca_cert = False, pv_mirror = False\<rparr>"

lemma sample_template_input:
  "dynamic_template_input sample_credential_env (\<lambda>ps. ps)
     [sample_registry ''gcr.io'', sample_registry ''r.io''] =
   Inr ([], [\<lparr>pr_binary = ''gcr-credential-provider'', pr_args = [''get-credentials''],
       pr_api_version = ''v1'', pr_hosts = [''gcr.io'']\<rparr>,
     \<lparr>pr_binary = ''static-credential-provider'',
       pr_args = [''/etc/kubernetes/static-image-credentials.json''],
       pr_api_version = ''v1'', pr_hosts = [''r.io'']\<rparr>])"
  by code_simp

definition sample_credential_templates :: credential_templates where
  "sample_credential_templates = \<lparr>tpl_install = (\<lambda>_. Inr []), tpl_kubelet = (\<lambda>_. Inr []),
     tpl_dynamic = (\<lambda>(mirror, ps). Inr (join_with '','' (map pr_binary ps))), tpl_static = (\<lambda>_. Inr [])\<rparr>"

definition sample_registries :: "(string \<times> string option option) list" where
  "sample_registries = [(''https://gcr.io'', Some (Some ''login'')), (''https://r.io'', Some (Some ''login'')),
     (''https://docker.io'', Some (Some ''login''))]"

lemma sample_registries_configured:
  "\<exists>cs. registries_to_configure sample_credential_env
       (\<lambda>_ _. Inr [''username'' \<mapsto> ''user'', ''password'' \<mapsto> ''pass'']) ''ns'' sample_registries None = Inr cs \<and>
     templateDynamicCredentialProviderConfig sample_credential_env sample_credential_templates
       (\<lambda>ps. ps) cs = Inr \<lparr>mf_path = kubeletDynamicCredentialProviderConfigOnRemote, mf_owner = [],
         mf_permissions = ''0600'', mf_content = ''gcr-credential-provider,static-credential-provider'',
         mf_secret = None\<rparr>"
  by (intro exI conjI, code_simp, code_simp)

theorem credential_order_irrelevant_witness:
  "\<exists>cs file. registries_to_configure sample_credential_env
       (\<lambda>_ _. Inr [''username'' \<mapsto> ''user'', ''password'' \<mapsto> ''pass'']) ''ns''
       (rev sample_registries) None = Inr cs \<and>
     templateDynamicCredentialProviderConfig sample_credential_env sample_credential_templates
       rev cs = Inr file \<and>
     mf_content file = ''gcr-credential-provider,static-credential-provider''"
proof -
  obtain cs f where s: "registries_to_configure sample_credential_env
      (\<lambda>_ _. Inr [''username'' \<mapsto> ''user'', ''password'' \<mapsto> ''pass'']) ''ns'' sample_registries None = Inr cs"
    "templateDynamicCredentialProviderConfig sample_credential_env sample_credential_templates
      (\<lambda>ps. ps) cs = Inr f"
    "mf_content f = ''gcr-credential-provider,static-credential-provider''"
    using sample_registries_configured by (auto dest: sym)
  from credential_order_irrelevant [OF s(1,2), of "rev sample_registries" rev] s(3)
  show ?thesis by auto
qed

theorem static_credentials_iff_witness:
  "generateCredentialsSecretFile sample_credential_env
     [sample_registry ''gcr.io'', sample_registry ''r.io''] ''c'' \<noteq> None"
  using static_credentials_iff [OF sample_template_input refl, of "''c''"] by simp

theorem certificate_files_witness:
  "\<not> (\<exists>files. registryCACertFiles (\<lambda>s. Inr (host_url s))
     [\<lparr>ct_url = ''r.io'', ct_ca_secret = ''a'', ct_ca_cert = ''1'', ct_mirror = True\<rparr>,
      \<lparr>ct_url = ''r.io'', ct_ca_secret = ''b'', ct_ca_cert = ''2'', ct_mirror = False\<rparr>] = Inr files \<and>
     distinct (map caf_path files))"
proof -
  let ?cs = "[\<lparr>ct_url = ''r.io'', ct_ca_secret = ''a'', ct_ca_cert = ''1'', ct_mirror = True\<rparr>,
      \<lparr>ct_url = ''r.io'', ct_ca_secret = ''b'', ct_ca_cert = ''2'', ct_mirror = False\<rparr>]"
  have "\<not> certificates_agree (\<lambda>s. Inr (host_url s)) ?cs"
    by (auto simp: certificates_agree_def named_configs_def filePathFromURL_def)
  then show ?thesis
    unfolding certificate_files
    by (auto simp: registryCACertFiles_def find_ca_file_def filePathFromURL_def)
qed

theorem selectors_exclusive_witness:
  "\<not> MatchesSelector (\<lambda>s. s) (WorkersKubeadmConfigTemplateSelector ''v'')
     (''v'', ''KubeadmControlPlaneTemplate'')
     \<lparr>hold_kind = ''Cluster'', hold_field_path = ''spec.controlPlaneRef''\<rparr> (Inl [])"
proof -
  have "MatchesSelector (\<lambda>s. s) (ControlPlane_selector ''v'') (''v'', ''KubeadmControlPlaneTemplate'')
      \<lparr>hold_kind = ''Cluster'', hold_field_path = ''spec.controlPlaneRef''\<rparr> (Inl [])"
    by (simp add: MatchesSelector_def ControlPlane_selector_def MatchesGVK_def
        MatchesControlPlane_def)
  then show ?thesis using selectors_exclusive [THEN conjunct1, THEN mp, OF disjI1] by blast
qed

end
