(* ===== verification/ServiceLoadBalancer.thy ===== *)
theory ServiceLoadBalancer
  imports ParallelHooks ApiTypes
begin

text \<open>
  \<open>pkg/handlers/lifecycle/servicelbgc\<close>: before a cluster is deleted, its Services of type
  LoadBalancer are deleted, so that what they hold outside of the cluster is released.  The
  state is that of the API servers of the management and the workload cluster.  The client is
  stateful where it deletes; \<open>strconv.ParseBool\<close> is written out.
\<close>

section \<open>The Cluster and its Services\<close>

text \<open>
  A Cluster as it is read for the decision, with its phase (\<open>GetTypedPhase\<close> of Cluster API)
  and its conditions: type and status.
\<close>

record deleted_cluster =
  dc_cluster :: cluster
  dc_phase :: string
  dc_conditions :: "(string \<times> string) list"

record service =
  svc_namespace :: string
  svc_name :: string
  svc_type :: string
  svc_ingress :: "(string \<times> string) list"
  svc_deletion :: "int option"

text \<open>
  \<open>lb_remote\<close> is the error of making a client for the workload cluster; \<open>svc_ingress\<close>
  has the IP and the host name of each address.
\<close>

record 's lb_env =
  lb_cluster :: "'s \<Rightarrow> string \<Rightarrow> string \<Rightarrow> api_error + deleted_cluster"
  lb_remote :: "'s \<Rightarrow> string option"
  lb_services :: "'s \<Rightarrow> string + service list"
  lb_delete :: "service \<Rightarrow> 's \<Rightarrow> api_error option \<times> 's"

definition LoadBalancerGCAnnotation :: string where
  "LoadBalancerGCAnnotation = ''caren.nutanix.com/loadbalancer-gc''"

definition ControlPlaneInitialized :: string where
  "ControlPlaneInitialized = ''ControlPlaneInitialized''"

definition ParseBool :: "string \<Rightarrow> string + bool" where
  "ParseBool s =
     (if s \<in> {''1'', ''t'', ''T'', ''true'', ''TRUE'', ''True''} then Inr True
      else if s \<in> {''0'', ''f'', ''F'', ''false'', ''FALSE'', ''False''} then Inr False
      else Inl (''strconv.ParseBool: parsing '' @ quoted s @ '': invalid syntax''))"

definition isV1Beta2ConditionTrue :: "deleted_cluster \<Rightarrow> string \<Rightarrow> bool" where
  "isV1Beta2ConditionTrue c condType =
     list_ex (\<lambda>(t, status). t = condType \<and> status = ''True'') (dc_conditions c)"

definition shouldDeleteServicesWithLoadBalancer :: "deleted_cluster \<Rightarrow> string + bool" where
  "shouldDeleteServicesWithLoadBalancer c =
     (let val = (case cl_annotations (dc_cluster c) LoadBalancerGCAnnotation of
                   None \<Rightarrow> ''true'' | Some v \<Rightarrow> v)
      in case ParseBool val of
        Inl err \<Rightarrow>
          Inl (''failed to convert value '' @ val @ '' of annotation '' @ LoadBalancerGCAnnotation @
            '' to bool: '' @ err)
      | Inr shouldDeleteBasedOnAnnotation \<Rightarrow>
          let phase = dc_phase c;
              skipDeleteBasedOnPhase =
                (phase = ''Pending'' \<or> phase = ''Provisioning'' \<or> phase = ''Deleting'');
              controlPlaneReachable = isV1Beta2ConditionTrue c ControlPlaneInitialized
          in Inr (shouldDeleteBasedOnAnnotation \<and> controlPlaneReachable \<and>
               \<not> skipDeleteBasedOnPhase))"

definition needsDelete :: "service \<Rightarrow> bool" where
  "needsDelete svc =
     (if svc_type svc \<noteq> ''LoadBalancer'' \<or> svc_ingress svc = [] then False
      else fst (hd (svc_ingress svc)) \<noteq> [] \<or> snd (hd (svc_ingress svc)) \<noteq> [])"

section \<open>Deleting\<close>

definition service_key :: "service \<Rightarrow> string" where
  "service_key svc = svc_namespace svc @ ''/'' @ svc_name svc"

text \<open>The Services that could not be deleted and those that still exist, in their order.\<close>

fun delete_services ::
    "(service \<Rightarrow> 's \<Rightarrow> api_error option \<times> 's) \<Rightarrow> service list \<Rightarrow> string list \<Rightarrow> string list \<Rightarrow> 's \<Rightarrow>
     (string list \<times> string list) \<times> 's" where
  "delete_services delete [] failed existing s = ((failed, existing), s)"
| "delete_services delete (svc # svcs) failed existing s =
     (if needsDelete svc then
        let existing' = existing @ [service_key svc]
        in if svc_deletion svc \<noteq> None then delete_services delete svcs failed existing' s
           else case delete svc s of
             (None, s') \<Rightarrow> delete_services delete svcs failed existing' s'
           | (Some (NotFound _), s') \<Rightarrow> delete_services delete svcs failed existing' s'
           | (Some (OtherError _), s') \<Rightarrow>
               delete_services delete svcs (failed @ [service_key svc]) existing' s'
      else delete_services delete svcs failed existing s)"

datatype gc_error = FailedToDeleteService string | ServicesStillExist string | OtherGCError string

definition failedToDeleteServicesError :: "string list \<Rightarrow> gc_error" where
  "failedToDeleteServicesError svcs =
     FailedToDeleteService (''failed to delete kubernetes services: '' @
       ''the following Services could not be deleted '' @
       ''and must cleaned up manually before deleting the cluster: '' @ join_with '', '' svcs)"

definition servicesStillExistError :: "string list \<Rightarrow> gc_error" where
  "servicesStillExistError svcs =
     ServicesStillExist (''waiting for kubernetes services to be fully deleted: '' @
       ''waiting for the following services to be fully deleted: '' @ join_with '','' svcs)"

definition deleteServicesWithLoadBalancer :: "'s lb_env \<Rightarrow> 's \<Rightarrow> gc_error option \<times> 's" where
  "deleteServicesWithLoadBalancer env s =
     (case lb_services env s of
        Inl err \<Rightarrow> (Some (OtherGCError (''error listing Services: '' @ err)), s)
      | Inr items \<Rightarrow>
          (case delete_services (lb_delete env) items [] [] s of
             ((svcsFailedToBeDeleted, svcsStillExisting), s') \<Rightarrow>
               if svcsFailedToBeDeleted \<noteq> [] then
                 (Some (failedToDeleteServicesError svcsFailedToBeDeleted), s')
               else if svcsStillExisting \<noteq> [] then
                 (Some (servicesStillExistError svcsStillExisting), s')
               else (None, s')))"

text \<open>
  The hook.  An error that is neither of the two named ones takes the default branch.
\<close>

definition lb_BeforeClusterDelete ::
    "'s lb_env \<Rightarrow> cluster \<Rightarrow> hook_response \<Rightarrow> 's \<Rightarrow> hook_response \<times> 's" where
  "lb_BeforeClusterDelete env c resp s =
     (case lb_cluster env s (cl_namespace c) (cl_name c) of
        Inl (NotFound _) \<Rightarrow> (resp\<lparr>hr_status := Success\<rparr>, s)
      | Inl (OtherError err) \<Rightarrow>
          (resp\<lparr>hr_status := Failure, hr_message := ''failed to get cluster with status: '' @ err,
             hr_retry := Some 5\<rparr>, s)
      | Inr clusterWithStatus \<Rightarrow>
     (case shouldDeleteServicesWithLoadBalancer clusterWithStatus of
        Inl err \<Rightarrow>
          (resp\<lparr>hr_status := Failure, hr_message :=
             ''error determining if Services of type LoadBalancer should be deleted: '' @ err\<rparr>, s)
      | Inr False \<Rightarrow> (resp, s)
      | Inr True \<Rightarrow>
     (case lb_remote env s of
        Some err \<Rightarrow>
          (resp\<lparr>hr_status := Failure,
             hr_message := ''error creating remote cluster client: '' @ err\<rparr>, s)
      | None \<Rightarrow>
     (case deleteServicesWithLoadBalancer env s of
        (Some (FailedToDeleteService err), s') \<Rightarrow>
          (resp\<lparr>hr_status := Failure, hr_message := err, hr_retry := Some 5\<rparr>, s')
      | (Some (ServicesStillExist err), s') \<Rightarrow>
          (resp\<lparr>hr_status := Failure, hr_message := err, hr_retry := Some 5\<rparr>, s')
      | (Some (OtherGCError err), s') \<Rightarrow> (resp\<lparr>hr_status := Success\<rparr>, s')
      | (None, s') \<Rightarrow> (resp\<lparr>hr_status := Success\<rparr>, s')))))"

section \<open>When the hook blocks the deletion\<close>

lemma delete_services_existing:
  "snd (fst (delete_services delete svcs failed existing s)) =
     existing @ map service_key (filter needsDelete svcs)"
  by (induction svcs arbitrary: failed existing s)
    (auto simp: Let_def split: prod.splits option.splits api_error.splits)

lemma delete_services_failed:
  "set (fst (fst (delete_services delete svcs failed existing s))) \<subseteq>
     set failed \<union> service_key ` {svc \<in> set svcs. needsDelete svc \<and> svc_deletion svc = None}"
proof (induction svcs arbitrary: failed existing s)
  case (Cons svc svcs)
  define new where
    "new = service_key ` {x \<in> set (svc # svcs). needsDelete x \<and> svc_deletion x = None}"
  have sub: "set (fst (fst (delete_services delete svcs f e t))) \<subseteq> set f \<union> new" for f e t
    using Cons.IH [of f e t] unfolding new_def by auto
  have "set (fst (fst (delete_services delete (svc # svcs) failed existing s))) \<subseteq> set failed \<union> new"
  proof (cases "needsDelete svc \<and> svc_deletion svc = None")
    case True
    obtain r s' where r: "delete svc s = (r, s')" by (cases "delete svc s")
    have key: "service_key svc \<in> new" using True unfolding new_def by auto
    have "set (fst (fst (delete_services delete svcs (failed @ [service_key svc]) e t))) \<subseteq>
        set failed \<union> new" for e t
      using sub [of "failed @ [service_key svc]" e t] key by auto
    then show ?thesis
      using True r sub by (simp add: Let_def split: option.split api_error.split)
  next
    case False
    then show ?thesis using sub by (auto simp: Let_def)
  qed
  then show ?case unfolding new_def .
qed simp

text \<open>
  When the Services are to be deleted and the workload cluster is reached, the hook lets the
  deletion go on exactly when no Service needs to be deleted, or when they cannot be listed.
\<close>

lemma lb_hook_deletes:
  assumes "lb_cluster env s (cl_namespace c) (cl_name c) = Inr dc"
    and "shouldDeleteServicesWithLoadBalancer dc = Inr True" and "lb_remote env s = None"
  shows "lb_services env s = Inl err \<Longrightarrow>
      lb_BeforeClusterDelete env c resp s = (resp\<lparr>hr_status := Success\<rparr>, s)"
    "lb_services env s = Inr svcs \<Longrightarrow> \<forall>svc \<in> set svcs. \<not> needsDelete svc \<Longrightarrow>
      hr_status (fst (lb_BeforeClusterDelete env c resp s)) = Success"
    "lb_services env s = Inr svcs \<Longrightarrow> svc \<in> set svcs \<Longrightarrow> needsDelete svc \<Longrightarrow>
      hr_status (fst (lb_BeforeClusterDelete env c resp s)) = Failure \<and>
      hr_retry (fst (lb_BeforeClusterDelete env c resp s)) = Some 5"
proof -
  show "lb_services env s = Inl err \<Longrightarrow>
      lb_BeforeClusterDelete env c resp s = (resp\<lparr>hr_status := Success\<rparr>, s)"
    using assms by (simp add: lb_BeforeClusterDelete_def deleteServicesWithLoadBalancer_def)
  show "hr_status (fst (lb_BeforeClusterDelete env c resp s)) = Success"
    if l: "lb_services env s = Inr svcs" "\<forall>svc \<in> set svcs. \<not> needsDelete svc"
  proof -
    obtain failed existing s' where d: "delete_services (lb_delete env) svcs [] [] s = ((failed, existing), s')"
      by (metis prod.collapse)
    have none: "{svc \<in> set svcs. needsDelete svc \<and> svc_deletion svc = None} = {}" using l(2) by blast
    have "failed = []"
      using delete_services_failed [of "lb_delete env" svcs "[]" "[]" s] by (simp add: d none)
    moreover have "existing = []"
      using delete_services_existing [of "lb_delete env" svcs "[]" "[]" s] l(2)
      by (simp add: d filter_empty_conv)
    ultimately have "failed = []" "existing = []" by blast+
    then show ?thesis using assms l(1) d
      by (simp add: lb_BeforeClusterDelete_def deleteServicesWithLoadBalancer_def)
  qed
  show "hr_status (fst (lb_BeforeClusterDelete env c resp s)) = Failure \<and>
      hr_retry (fst (lb_BeforeClusterDelete env c resp s)) = Some 5"
    if l: "lb_services env s = Inr svcs" "svc \<in> set svcs" "needsDelete svc"
  proof -
    obtain failed existing s' where d: "delete_services (lb_delete env) svcs [] [] s = ((failed, existing), s')"
      by (metis prod.collapse)
    have "existing \<noteq> []"
      using delete_services_existing [of "lb_delete env" svcs "[]" "[]" s] l(2,3)
      by (auto simp: d filter_empty_conv)
    then show ?thesis using assms l(1) d
      by (simp add: lb_BeforeClusterDelete_def deleteServicesWithLoadBalancer_def
          failedToDeleteServicesError_def servicesStillExistError_def)
  qed
qed

text \<open>When the Services are to be deleted, and when the annotation cannot be read.\<close>

definition gc_applies :: "deleted_cluster \<Rightarrow> bool" where
  "gc_applies dc \<longleftrightarrow>
     (\<forall>v. cl_annotations (dc_cluster dc) LoadBalancerGCAnnotation = Some v \<longrightarrow> ParseBool v = Inr True) \<and>
     isV1Beta2ConditionTrue dc ControlPlaneInitialized \<and>
     dc_phase dc \<notin> {''Pending'', ''Provisioning'', ''Deleting''}"

definition gc_unreadable :: "deleted_cluster \<Rightarrow> bool" where
  "gc_unreadable dc \<longleftrightarrow>
     (\<exists>v err. cl_annotations (dc_cluster dc) LoadBalancerGCAnnotation = Some v \<and> ParseBool v = Inl err)"

lemma shouldDelete_cases:
  obtains (applies) "gc_applies dc" "\<not> gc_unreadable dc"
      "shouldDeleteServicesWithLoadBalancer dc = Inr True"
    | (unreadable) err where "\<not> gc_applies dc" "gc_unreadable dc"
      "shouldDeleteServicesWithLoadBalancer dc = Inl err"
    | (skipped) "\<not> gc_applies dc" "\<not> gc_unreadable dc"
      "shouldDeleteServicesWithLoadBalancer dc = Inr False"
proof (cases "cl_annotations (dc_cluster dc) LoadBalancerGCAnnotation")
  case None
  have "ParseBool ''true'' = Inr True" by (simp add: ParseBool_def)
  with None have "shouldDeleteServicesWithLoadBalancer dc = Inr (gc_applies dc)" "\<not> gc_unreadable dc"
    by (auto simp: shouldDeleteServicesWithLoadBalancer_def gc_applies_def gc_unreadable_def Let_def)
  then show ?thesis using applies skipped by (cases "gc_applies dc") auto
next
  case (Some v)
  show ?thesis
  proof (cases "ParseBool v")
    case (Inl err)
    then show ?thesis
      using Some unreadable
      by (auto simp: shouldDeleteServicesWithLoadBalancer_def gc_applies_def gc_unreadable_def Let_def)
  next
    case (Inr b)
    with Some have "shouldDeleteServicesWithLoadBalancer dc = Inr (gc_applies dc)" "\<not> gc_unreadable dc"
      by (auto simp: shouldDeleteServicesWithLoadBalancer_def gc_applies_def gc_unreadable_def Let_def)
    then show ?thesis using applies skipped by (cases "gc_applies dc") auto
  qed
qed

text \<open>
  The answer of the hook: the two conditions under which it fails, of which the first asks to be
  called again.
\<close>

definition services_left :: "'s lb_env \<Rightarrow> 's \<Rightarrow> bool" where
  "services_left env s \<longleftrightarrow> (\<exists>svcs. lb_services env s = Inr svcs \<and> (\<exists>svc \<in> set svcs. needsDelete svc))"

lemma lb_hook_result:
  assumes "lb_cluster env s (cl_namespace c) (cl_name c) = Inr dc"
  shows "hr_status (fst (lb_BeforeClusterDelete env c resp s)) =
      (if gc_unreadable dc \<or> gc_applies dc \<and> (lb_remote env s \<noteq> None \<or> services_left env s) then Failure
       else if gc_applies dc then Success else hr_status resp) \<and>
    hr_retry (fst (lb_BeforeClusterDelete env c resp s)) =
      (if gc_applies dc \<and> lb_remote env s = None \<and> services_left env s then Some 5 else hr_retry resp)"
proof (cases rule: shouldDelete_cases [of dc])
  case applies
  show ?thesis
  proof (cases "lb_remote env s")
    case None
    show ?thesis
    proof (cases "lb_services env s")
      case (Inl err)
      with lb_hook_deletes(1) [OF assms applies(3) None] applies None show ?thesis
        by (simp add: services_left_def)
    next
      case (Inr svcs)
      note hook = lb_hook_deletes(2,3) [OF assms applies(3) None Inr, where resp = resp]
      obtain failed existing s' where d: "delete_services (lb_delete env) svcs [] [] s = ((failed, existing), s')"
        by (metis prod.collapse)
      have "hr_retry (fst (lb_BeforeClusterDelete env c resp s)) = hr_retry resp"
        if "\<forall>svc \<in> set svcs. \<not> needsDelete svc"
      proof -
        have "fst (lb_BeforeClusterDelete env c resp s) = resp\<lparr>hr_status := Success\<rparr>"
          using hook(1) [OF that] assms applies(3) None Inr d
          by (auto simp: lb_BeforeClusterDelete_def deleteServicesWithLoadBalancer_def
              failedToDeleteServicesError_def servicesStillExistError_def split: if_splits)
        then show ?thesis by simp
      qed
      then show ?thesis
        using hook applies None Inr by (auto simp: services_left_def)
    qed
  next
    case (Some err)
    with assms applies show ?thesis by (simp add: lb_BeforeClusterDelete_def)
  qed
qed (use assms in \<open>simp_all add: lb_BeforeClusterDelete_def\<close>)

end
