(* ===== verification/KonnectorAgent.thy ===== *)
theory KonnectorAgent
  imports ServiceLoadBalancer ClusterConfig
begin

text \<open>
  \<open>pkg/handlers/lifecycle/konnectoragent\<close>: before a cluster is deleted, the Konnector Agent
  unregisters it from Prism Central, which the removal of its HelmChartProxy does; and the
  values of its Helm chart.  The state is that of the API servers and the clock.  Reading
  variables from JSON, \<open>text/template\<close> and the client of Prism Central are parameters.
\<close>

section \<open>What the handler reads\<close>

text \<open>
  The variable of the addon (\<open>ka_credentials\<close> is the name of the Secret, if
  \<open>Credentials\<close> is set) and the parts of the configuration variables: the categories of the
  machines are keys and values.
\<close>

record konnector_variable =
  ka_credentials :: "string option"
  ka_upload :: "bool option"

record konnector_config =
  kc_nutanix :: "nutanix_spec option"
  kc_categories :: "(string \<times> string) list option"

record pc_credentials =
  pcc_endpoint :: string
  pcc_url :: string
  pcc_username :: string
  pcc_password :: string
  pcc_insecure :: bool
  pcc_port :: string

record chart_proxy =
  cp_deletion :: "int option"
  cp_status :: string

record ('s, 'pc) konnector_env =
  ke_variable :: "cluster_variable list \<Rightarrow> api_error + konnector_variable"
  ke_config :: "cluster_variable list \<Rightarrow> api_error + konnector_config"
  ke_worker :: "cluster_variable list \<Rightarrow> api_error + (string \<times> string) list option"
  ke_parse_url :: url_parser
  ke_cluster :: "'s \<Rightarrow> string \<Rightarrow> string \<Rightarrow> api_error + deleted_cluster"
  ke_initialized :: "deleted_cluster \<Rightarrow> bool"
  ke_secret :: "'s \<Rightarrow> string \<Rightarrow> string \<Rightarrow> string + secret"
  ke_remote :: "'s \<Rightarrow> string \<Rightarrow> string \<Rightarrow> string option"
  ke_kube_system :: "'s \<Rightarrow> string + string"
  ke_pc_client :: "pc_credentials \<Rightarrow> string \<Rightarrow> string + 'pc"
  ke_registration :: "'pc \<Rightarrow> string \<Rightarrow> string option"
  ke_chart :: "'s \<Rightarrow> string \<Rightarrow> string \<Rightarrow> api_error + chart_proxy"
  ke_delete_chart :: "string \<Rightarrow> string \<Rightarrow> 's \<Rightarrow> api_error option \<times> 's"
  ke_now :: "'s \<Rightarrow> int"
  ke_duration :: "int \<Rightarrow> string"

text \<open>
  \<open>ke_initialized\<close> is \<open>conditions.IsTrue\<close> of Cluster API for the initialized control
  plane, \<open>ke_kube_system\<close> the UID of the namespace kube-system of the workload cluster,
  \<open>ke_registration\<close> the error of asking for the registration, and \<open>ke_duration\<close> prints
  a duration in nanoseconds.
\<close>

definition second_ns :: int where
  "second_ns = 1000000000"

definition helmUninstallTimeout :: int where
  "helmUninstallTimeout = 5 * 60 * second_ns"

definition maxClusterNameLength :: nat where
  "maxClusterNameLength = 40"

definition chart_name :: "string \<Rightarrow> string" where
  "chart_name clusterUUID = ''konnector-agent-'' @ clusterUUID"

abbreviation annotated_uuid :: "deleted_cluster \<Rightarrow> string option" where
  "annotated_uuid c \<equiv> cl_annotations (dc_cluster c) ''caren.nutanix.com/cluster-uuid''"

section \<open>Registration\<close>

definition isClusterRegisteredInPC ::
    "('s, 'pc) konnector_env \<Rightarrow> deleted_cluster \<Rightarrow> 's \<Rightarrow> string + bool" where
  "isClusterRegisteredInPC env dc s =
     (let c = dc_cluster dc; vars = top_variables (cl_topology c)
      in case ke_config env vars of
        Inl err \<Rightarrow> Inl (''failed to read clusterConfig variable: '' @ api_error_text err)
      | Inr cfg \<Rightarrow>
     (case kc_nutanix cfg of
        None \<Rightarrow> Inl ''prism central endpoint not configured''
      | Some spec \<Rightarrow>
     let ep = ns_pc_endpoint spec
     in if pce_url ep = [] then Inl ''prism central endpoint not configured''
     else case ParseURL (ke_parse_url env) ep of
        Inl err \<Rightarrow> Inl (''failed to parse prism central endpoint URL: '' @ err)
      | Inr (host, port) \<Rightarrow>
     (case ke_variable env vars of
        Inl err \<Rightarrow> Inl (''failed to read konnector agent variable: '' @ api_error_text err)
      | Inr k8sAgentVar \<Rightarrow>
     let secretName = (case ka_credentials k8sAgentVar of None \<Rightarrow> [] | Some n \<Rightarrow> n)
     in if secretName = [] then Inl ''konnector agent credentials secret not configured''
     else case ke_secret env s (cl_namespace c) secretName of
        Inl err \<Rightarrow> Inl (''failed to get credentials secret: '' @ err)
      | Inr data \<Rightarrow>
     (case data ''username'' of
        None \<Rightarrow> Inl ''credentials secret does not contain 'username' key''
      | Some username \<Rightarrow>
     (case data ''password'' of
        None \<Rightarrow> Inl ''credentials secret does not contain 'password' key''
      | Some password \<Rightarrow>
     let endpoint = host @ '':'' @ itoa (int port);
         credentials = \<lparr>pcc_endpoint = endpoint, pcc_url = ''https://'' @ endpoint,
           pcc_username = username, pcc_password = password, pcc_insecure = pce_insecure ep,
           pcc_port = itoa (int port)\<rparr>
     in case ke_remote env s (cl_namespace c) (cl_name c) of
        Some err \<Rightarrow> Inl (''failed to create remote cluster client: '' @ err)
      | None \<Rightarrow>
     (case ke_kube_system env s of
        Inl err \<Rightarrow>
          Inl (''failed to get kube-system namespace from cluster('' @ cl_name c @ ''): '' @ err)
      | Inr clusterUUID \<Rightarrow>
     let trustBundle = (if pce_insecure ep then [] else pce_trust_bundle ep)
     in case ke_pc_client env credentials trustBundle of
        Inl err \<Rightarrow> Inl (''failed to create prism central konnector client: '' @ err)
      | Inr client \<Rightarrow>
     (case ke_registration env client clusterUUID of
        Some err \<Rightarrow>
          Inl (''failed to get cluster('' @ clusterUUID @ '') registration: '' @ err)
      | None \<Rightarrow> Inr True)))))))"

section \<open>Removing the agent\<close>

datatype cleanup_status = Completed | InProgress | NotStarted | TimedOut

definition checkCleanupStatus ::
    "('s, 'pc) konnector_env \<Rightarrow> deleted_cluster \<Rightarrow> 's \<Rightarrow> string + (cleanup_status \<times> string)" where
  "checkCleanupStatus env dc s =
     (case annotated_uuid dc of
        None \<Rightarrow> Inr (Completed, ''No cluster UUID found, assuming no agent installed'')
      | Some clusterUUID \<Rightarrow>
          let namespace = cl_namespace (dc_cluster dc); name = chart_name clusterUUID;
              key = quoted (namespace @ ''/'' @ name)
          in case ke_chart env s namespace name of
            Inl (NotFound _) \<Rightarrow> Inr (Completed, ''HelmChartProxy successfully deleted'')
          | Inl (OtherError err) \<Rightarrow>
              Inl (''failed to get HelmChartProxy '' @ key @ '': '' @ err)
          | Inr hcp \<Rightarrow>
              (case cp_deletion hcp of
                 Some t \<Rightarrow>
                   let deletionDuration = ke_now env s - t
                   in if deletionDuration > helmUninstallTimeout then
                     Inr (TimedOut, ''HelmChartProxy '' @ key @
                       '' has been in deletion state for '' @ ke_duration env deletionDuration @
                       '' (timeout: '' @ ke_duration env helmUninstallTimeout @ ''). '' @
                       ''Possible causes: stuck finalizers, helm uninstall failure, or workload '' @
                       ''cluster unreachable. HelmChartProxy status: '' @ cp_status hcp)
                   else
                     Inr (InProgress, ''HelmChartProxy is being deleted (in progress for '' @
                       ke_duration env deletionDuration @ '', timeout in '' @
                       ke_duration env (helmUninstallTimeout - deletionDuration) @ '')'')
               | None \<Rightarrow> Inr (NotStarted, ''HelmChartProxy exists and needs to be deleted'')))"

definition deleteHelmChartProxy ::
    "('s, 'pc) konnector_env \<Rightarrow> deleted_cluster \<Rightarrow> 's \<Rightarrow> string option \<times> 's" where
  "deleteHelmChartProxy env dc s =
     (case annotated_uuid dc of
        None \<Rightarrow>
          (Some (''cluster UUID not found in cluster annotations - missing key '' @
             ''caren.nutanix.com/cluster-uuid''), s)
      | Some clusterUUID \<Rightarrow>
          let namespace = cl_namespace (dc_cluster dc); name = chart_name clusterUUID;
              key = quoted (namespace @ ''/'' @ name)
          in case ke_chart env s namespace name of
            Inl (NotFound _) \<Rightarrow> (None, s)
          | Inl (OtherError err) \<Rightarrow>
              (Some (''failed to get HelmChartProxy '' @ key @ '': '' @ err), s)
          | Inr currentHCP \<Rightarrow>
              (case ke_delete_chart env namespace name s of
                 (None, s') \<Rightarrow> (None, s')
               | (Some (NotFound _), s') \<Rightarrow> (None, s')
               | (Some (OtherError err), s') \<Rightarrow>
                   (Some (''failed to delete Konnector Agent HelmChartProxy '' @ key @ '': '' @ err),
                    s')))"

definition succeed :: "hook_response \<Rightarrow> hook_response" where
  "succeed resp = resp\<lparr>hr_status := Success\<rparr>"

definition fail_with :: "string \<Rightarrow> hook_response \<Rightarrow> hook_response" where
  "fail_with msg resp = resp\<lparr>hr_status := Failure, hr_message := msg\<rparr>"

definition retry_after :: "int \<Rightarrow> hook_response \<Rightarrow> hook_response" where
  "retry_after seconds resp = resp\<lparr>hr_retry := Some seconds\<rparr>"

text \<open>What is done once the cluster is known to be registered.\<close>

definition konnector_cleanup ::
    "('s, 'pc) konnector_env \<Rightarrow> deleted_cluster \<Rightarrow> hook_response \<Rightarrow> 's \<Rightarrow> hook_response \<times> 's" where
  "konnector_cleanup env dc resp s =
     (case checkCleanupStatus env dc s of
        Inl err \<Rightarrow> (fail_with err resp, s)
      | Inr (Completed, statusMsg) \<Rightarrow> (succeed resp, s)
      | Inr (TimedOut, statusMsg) \<Rightarrow>
          (fail_with (''Konnector Agent helm uninstallation timed out after '' @
             ke_duration env helmUninstallTimeout @ ''. '' @
             ''The HelmChartProxy is stuck in deletion state. '' @
             ''Manual intervention required: Check HelmChartProxy status and remove finalizers '' @
             ''if needed. Details: '' @ statusMsg) resp, s)
      | Inr (InProgress, statusMsg) \<Rightarrow>
          (fail_with (''Konnector Agent cleanup in progress. '' @
             ''Waiting for HelmChartProxy deletion to complete. '' @ statusMsg)
             (retry_after 5 resp), s)
      | Inr (NotStarted, statusMsg) \<Rightarrow>
          (case deleteHelmChartProxy env dc s of
             (Some err, s') \<Rightarrow>
               (fail_with (''Failed to delete Konnector Agent HelmChartProxy: '' @ err) resp, s')
           | (None, s') \<Rightarrow>
               (fail_with (''Konnector Agent cleanup initiated. '' @
                  ''Waiting for HelmChartProxy deletion to start.'') (retry_after 5 resp), s')))"

definition konnector_BeforeClusterDelete ::
    "('s, 'pc) konnector_env \<Rightarrow> cluster \<Rightarrow> hook_response \<Rightarrow> 's \<Rightarrow> hook_response \<times> 's" where
  "konnector_BeforeClusterDelete env c resp s =
     (if \<not> IsDefined (cl_topology c) then (succeed resp, s)
      else case ke_variable env (top_variables (cl_topology c)) of
        Inl (NotFound _) \<Rightarrow> (succeed resp, s)
      | Inl (OtherError err) \<Rightarrow>
          (fail_with (''failed to read Konnector Agent variable from cluster definition: '' @ err)
             resp, s)
      | Inr _ \<Rightarrow>
     (case ke_cluster env s (cl_namespace c) (cl_name c) of
        Inl (NotFound _) \<Rightarrow> (succeed resp, s)
      | Inl (OtherError err) \<Rightarrow>
          (fail_with (''failed to get cluster with status: '' @ err) (retry_after 5 resp), s)
      | Inr clusterWithStatus \<Rightarrow>
     if dc_phase clusterWithStatus = ''Pending'' \<or> dc_phase clusterWithStatus = ''Provisioning''
     then (succeed resp, s)
     else if \<not> ke_initialized env clusterWithStatus then (succeed resp, s)
     else case isClusterRegisteredInPC env clusterWithStatus s of
        Inl err \<Rightarrow> (succeed resp, s)
      | Inr False \<Rightarrow> (succeed resp, s)
      | Inr True \<Rightarrow> konnector_cleanup env clusterWithStatus resp s))"

section \<open>Values of the chart\<close>

definition formatCategoriesFromSlice :: "(string \<times> string) list \<Rightarrow> string list" where
  "formatCategoriesFromSlice categories =
     map (\<lambda>(k, v). k @ ''='' @ v) (filter (\<lambda>(k, v). k \<noteq> [] \<and> v \<noteq> []) categories)"

definition extractCategoriesFromVarMap ::
    "('s, 'pc) konnector_env \<Rightarrow> cluster_variable list \<Rightarrow> string list" where
  "extractCategoriesFromVarMap env vars =
     (case ke_config env vars of
        Inl err \<Rightarrow> []
      | Inr cfg \<Rightarrow> (case kc_categories cfg of None \<Rightarrow> [] | Some cs \<Rightarrow> formatCategoriesFromSlice cs)) @
     (case ke_worker env vars of
        Inl err \<Rightarrow> []
      | Inr w \<Rightarrow> (case w of None \<Rightarrow> [] | Some cs \<Rightarrow> formatCategoriesFromSlice cs))"

text \<open>The result so far is also the set of what was seen.\<close>

definition removeDuplicateCategories :: "string list \<Rightarrow> string list" where
  "removeDuplicateCategories categories =
     fold (\<lambda>cat res. if cat \<in> set res then res else res @ [cat]) categories []"

definition extractCategoryMappings :: "('s, 'pc) konnector_env \<Rightarrow> cluster \<Rightarrow> string" where
  "extractCategoryMappings env c =
     (let top = cl_topology c;
          categories =
            (if IsDefined top then extractCategoriesFromVarMap env (top_variables top) else []) @
            (if IsDefined top then
               concat (map (\<lambda>md. if mdep_overrides md = [] then []
                   else extractCategoriesFromVarMap env (mdep_overrides md))
                 (top_machine_deployments top))
             else [])
      in if categories = [] then [] else join_with '','' (removeDuplicateCategories categories))"

text \<open>
  The input of the template; its constant fields (\<open>AgentName\<close> and
  \<open>PrismCredentialsSecretName\<close>) are left out.
\<close>

record konnector_values =
  kv_host :: string
  kv_port :: nat
  kv_insecure :: bool
  kv_trust_bundle :: string
  kv_create_config_map :: bool
  kv_config_map :: string
  kv_cluster :: string
  kv_categories :: string
  kv_upload :: bool
  kv_endpoint :: string

definition konnector_values_of ::
    "('s, 'pc) konnector_env \<Rightarrow> prism_central_endpoint \<Rightarrow> cluster \<Rightarrow> konnector_variable \<Rightarrow>
     string \<times> nat \<Rightarrow> konnector_values" where
  "konnector_values_of env ep c var address =
     (let hasTrustBundle = (pce_trust_bundle ep \<noteq> []);
          insecure = (if \<not> pce_insecure ep \<and> \<not> hasTrustBundle then True else pce_insecure ep);
          bundled = (\<not> insecure \<and> hasTrustBundle)
      in \<lparr>kv_host = fst address, kv_port = snd address, kv_insecure = insecure,
          kv_trust_bundle = (if bundled then pce_trust_bundle ep else []),
          kv_create_config_map = bundled,
          kv_config_map = (if bundled then ''ntnx-additional-trust-bundle-konnector-agent'' else []),
          kv_cluster = (if length (cl_name c) > maxClusterNameLength
            then take maxClusterNameLength (cl_name c) else cl_name c),
          kv_categories = extractCategoryMappings env c,
          kv_upload = (case ka_upload var of None \<Rightarrow> True | Some b \<Rightarrow> b),
          kv_endpoint = (if cs_cp_host (cl_spec c) \<noteq> [] \<and> cs_cp_port (cl_spec c) > 0
            then ''https://'' @ cs_cp_host (cl_spec c) @ '':'' @ itoa (cs_cp_port (cl_spec c))
            else [])\<rparr>)"

text \<open>
  The template is parsed and executed by parameters.  The configuration of Nutanix may be nil,
  which only the call of \<open>ParseURL\<close> finds out.
\<close>

definition konnector_template_values ::
    "('s, 'pc) konnector_env \<Rightarrow> (string \<Rightarrow> string + 'tpl) \<Rightarrow>
     ('tpl \<Rightarrow> konnector_values \<Rightarrow> string + string) \<Rightarrow> nutanix_spec option \<Rightarrow> cluster \<Rightarrow>
     konnector_variable \<Rightarrow> string \<Rightarrow> (string + string) outcome" where
  "konnector_template_values env parse execute nutanixConfig c var valuesTemplate =
     (case parse valuesTemplate of
        Inl err \<Rightarrow> Returns (Inl (''failed to parse Helm values template: '' @ err))
      | Inr tpl \<Rightarrow>
          bind_outcome (deref nutanixConfig) (\<lambda>spec.
            case ParseURL (ke_parse_url env) (ns_pc_endpoint spec) of
              Inl err \<Rightarrow> Returns (Inl err)
            | Inr address \<Rightarrow>
                (case execute tpl (konnector_values_of env (ns_pc_endpoint spec) c var address) of
                   Inl err \<Rightarrow>
                     Returns (Inl (''failed setting PrismCentral configuration in template: '' @ err))
                 | Inr b \<Rightarrow> Returns (Inr b))))"

section \<open>Facts\<close>

lemma response_fields [simp]:
  "hr_status (succeed resp) = Success" "hr_status (fail_with msg resp) = Failure"
  "hr_retry (fail_with msg resp) = hr_retry resp" "hr_retry (succeed resp) = hr_retry resp"
  "hr_retry (retry_after n resp) = Some n" "hr_message (fail_with msg resp) = msg"
  by (simp_all add: succeed_def fail_with_def retry_after_def)

text \<open>Registration is confirmed or an error; it is never denied.\<close>

lemma registered_never_False: "isClusterRegisteredInPC env dc s \<noteq> Inr False"
  by (auto simp: isClusterRegisteredInPC_def Let_def split: sum.splits option.splits prod.splits)

lemma konnector_cleanup_success:
  "hr_status (fst (konnector_cleanup env dc resp s)) = Success \<longleftrightarrow>
     (\<forall>u. annotated_uuid dc = Some u \<longrightarrow>
        (\<exists>e. ke_chart env s (cl_namespace (dc_cluster dc)) (chart_name u) = Inl (NotFound e)))"
  by (auto simp: konnector_cleanup_def checkCleanupStatus_def Let_def
      split: sum.splits option.splits api_error.splits prod.splits cleanup_status.splits if_splits)

text \<open>A cleanup under way asks to be called again after five seconds.\<close>

lemma konnector_cleanup_deleting:
  assumes "annotated_uuid dc = Some u"
    and "ke_chart env s (cl_namespace (dc_cluster dc)) (chart_name u) = Inr hcp"
    and "cp_deletion hcp = Some t" and "ke_now env s - t \<le> helmUninstallTimeout"
  shows "hr_status (fst (konnector_cleanup env dc resp s)) = Failure \<and>
    hr_retry (fst (konnector_cleanup env dc resp s)) = Some 5 \<and>
    snd (konnector_cleanup env dc resp s) = s"
  using assms by (simp add: konnector_cleanup_def checkCleanupStatus_def Let_def)

lemma konnector_cleanup_starts:
  assumes "annotated_uuid dc = Some u"
    and "ke_chart env s (cl_namespace (dc_cluster dc)) (chart_name u) = Inr hcp"
    and "cp_deletion hcp = None"
  shows "snd (konnector_cleanup env dc resp s) =
      snd (ke_delete_chart env (cl_namespace (dc_cluster dc)) (chart_name u) s) \<and>
    hr_status (fst (konnector_cleanup env dc resp s)) = Failure"
  using assms
  by (auto simp: konnector_cleanup_def checkCleanupStatus_def deleteHelmChartProxy_def Let_def
      split: prod.splits option.splits api_error.splits)

lemma konnector_cleanup_times_out:
  assumes "annotated_uuid dc = Some u"
    and "ke_chart env s (cl_namespace (dc_cluster dc)) (chart_name u) = Inr hcp"
    and "cp_deletion hcp = Some t" and "helmUninstallTimeout < ke_now env s - t"
  shows "hr_status (fst (konnector_cleanup env dc resp s)) = Failure \<and>
    hr_retry (fst (konnector_cleanup env dc resp s)) = hr_retry resp \<and>
    snd (konnector_cleanup env dc resp s) = s"
  using assms by (simp add: konnector_cleanup_def checkCleanupStatus_def Let_def)

lemma removeDuplicates_fold:
  "distinct res \<Longrightarrow>
     distinct (fold (\<lambda>cat res. if cat \<in> set res then res else res @ [cat]) cats res) \<and>
     set (fold (\<lambda>cat res. if cat \<in> set res then res else res @ [cat]) cats res) = set res \<union> set cats"
  by (induction cats arbitrary: res) auto

lemma removeDuplicateCategories_set:
  "distinct (removeDuplicateCategories cats)" "set (removeDuplicateCategories cats) = set cats"
  using removeDuplicates_fold [of "[]" cats] by (simp_all add: removeDuplicateCategories_def)

lemma konnector_values_panics_iff:
  "konnector_template_values env parse execute nutanixConfig c var valuesTemplate = Panics m \<longleftrightarrow>
     m = nil_dereference \<and> nutanixConfig = None \<and> (\<exists>tpl. parse valuesTemplate = Inr tpl)"
  by (cases nutanixConfig) (auto simp: konnector_template_values_def split: sum.splits)

end
