(* ===== verification/LifecycleProps.thy ===== *)
theory LifecycleProps
  imports KonnectorAgent Samples
begin

text \<open>
  The properties of the hooks that run before a cluster is deleted.
\<close>

text \<open>
  C36. When exactly the Service hook fails.  It does, and asks to be called again after five
  seconds, when the Cluster cannot be read (other than that it is gone), or when the garbage
  collection applies (no annotation turns it off, the control plane is initialised and the phase is
  not Pending, Provisioning or Deleting), the workload cluster is reached, its Services are listed
  and one that has an address is among them.  It fails without asking when the annotation is no
  truth value, or the collection applies and no client can be made.  In every other case it does
  not block the deletion: the Cluster is gone, the collection does not apply, or it applies and
  either no such Service is left or the Services cannot be listed.
\<close>

theorem services_block_deletion:
  fixes env :: "'s lb_env" and s :: 's and c :: cluster
  assumes "hr_status resp \<noteq> Failure"
  defines "r \<equiv> fst (lb_BeforeClusterDelete env c resp s)"
    and "read \<equiv> lb_cluster env s (cl_namespace c) (cl_name c)"
  defines "retried \<equiv> (\<exists>err. read = Inl (OtherError err)) \<or>
      (\<exists>dc. read = Inr dc \<and> gc_applies dc \<and> lb_remote env s = None \<and> services_left env s)"
    and "refused \<equiv> \<exists>dc. read = Inr dc \<and>
      (gc_unreadable dc \<or> gc_applies dc \<and> lb_remote env s \<noteq> None)"
  shows "(hr_status r = Failure \<longleftrightarrow> retried \<or> refused) \<and>
    hr_retry r = (if retried then Some 5 else hr_retry resp)"
proof (cases "lb_cluster env s (cl_namespace c) (cl_name c)")
  case (Inl err)
  then show ?thesis
    using assms(1) unfolding r_def read_def retried_def refused_def
    by (cases err) (simp_all add: lb_BeforeClusterDelete_def)
next
  case (Inr dc)
  show ?thesis
    using assms(1) lb_hook_result [OF Inr, of resp] Inr
    unfolding r_def read_def retried_def refused_def by auto
qed

text \<open>
  For a cluster with the Konnector Agent whose control plane is up and whose registration
  is confirmed, the hook lets the deletion go on exactly when the HelmChartProxy of the agent is
  gone (or cannot be named, without a UUID); when the registration cannot be confirmed, for
  whatever reason, it always does.
\<close>

theorem konnector_blocks_deletion:
  assumes "IsDefined (cl_topology c)" and "ke_variable env (top_variables (cl_topology c)) = Inr v"
    and "ke_cluster env s (cl_namespace c) (cl_name c) = Inr dc"
    and "dc_phase dc \<noteq> ''Pending''" and "dc_phase dc \<noteq> ''Provisioning''"
    and "ke_initialized env dc"
  shows "hr_status (fst (konnector_BeforeClusterDelete env c resp s)) = Success \<longleftrightarrow>
    (\<exists>err. isClusterRegisteredInPC env dc s = Inl err) \<or>
    (\<forall>u. cl_annotations (dc_cluster dc) ''caren.nutanix.com/cluster-uuid'' = Some u \<longrightarrow>
       (\<exists>e. ke_chart env s (cl_namespace (dc_cluster dc)) (''konnector-agent-'' @ u) =
          Inl (NotFound e)))"
proof (cases "isClusterRegisteredInPC env dc s")
  case (Inl err)
  then show ?thesis using assms by (simp add: konnector_BeforeClusterDelete_def)
next
  case (Inr registered)
  then have "registered" using registered_never_False [of env dc s] by (cases registered) auto
  then show ?thesis
    using assms Inr konnector_cleanup_success [of env dc resp s]
    by (simp add: konnector_BeforeClusterDelete_def chart_name_def)
qed

text \<open>
  C30. The hooks before deletion run in parallel.  The aggregated response fails and asks to be
  called again within five seconds, whatever the other hooks answer and however they are scheduled,
  in two cases.  Either the Service hook waits: the Cluster was read, its garbage collection applies
  (not turned off by the annotation, control plane initialised, phase not Pending, Provisioning or
  Deleting), the workload cluster is reached and a Service with an address is listed.  Or the hook
  of the agent waits: its variable and the Cluster are read, the registration in Prism Central is
  confirmed, the control plane is initialised, the phase is not Pending or Provisioning, the
  Cluster has its UUID, and the HelmChartProxy has been in deletion for at most the time-out of five
  minutes.  Nothing is said of a deletion past the
  time-out, an unconfirmed registration or a collection that does not apply.
\<close>

theorem deletion_waits:
  assumes "lowest_nonzero lowest" and "hooks_reachable rs t" and "hs_ended t"
    and "\<forall>r \<in> set rs. \<forall>j. hr_retry r = Some j \<longrightarrow> 0 \<le> j"
    and "(fst (lb_BeforeClusterDelete lenv c fresh s) \<in> set rs \<and>
        lb_cluster lenv s (cl_namespace c) (cl_name c) = Inr dc \<and>
        shouldDeleteServicesWithLoadBalancer dc = Inr True \<and> lb_remote lenv s = None \<and>
        lb_services lenv s = Inr svcs \<and> (\<exists>svc \<in> set svcs. needsDelete svc)) \<or>
      (fst (konnector_BeforeClusterDelete kenv c fresh s') \<in> set rs \<and>
        IsDefined (cl_topology c) \<and> ke_variable kenv (top_variables (cl_topology c)) = Inr v \<and>
        ke_cluster kenv s' (cl_namespace c) (cl_name c) = Inr dc \<and>
        dc_phase dc \<notin> {''Pending'', ''Provisioning''} \<and> ke_initialized kenv dc \<and>
        isClusterRegisteredInPC kenv dc s' = Inr True \<and> annotated_uuid dc = Some u \<and>
        ke_chart kenv s' (cl_namespace (dc_cluster dc)) (chart_name u) = Inr hcp \<and>
        cp_deletion hcp = Some d \<and> ke_now kenv s' - d \<le> helmUninstallTimeout)"
  shows "hr_status (hooks_result lowest resp t) = Failure \<and>
    (\<exists>j. hr_retry (hooks_result lowest resp t) = Some j \<and> 0 < j \<and> j \<le> 5)"
proof -
  have "\<exists>r \<in> set rs. hr_status r = Failure \<and> hr_retry r = Some 5"
    using assms(5)
  proof (elim disjE conjE)
    assume l: "fst (lb_BeforeClusterDelete lenv c fresh s) \<in> set rs"
      "lb_cluster lenv s (cl_namespace c) (cl_name c) = Inr dc"
      "shouldDeleteServicesWithLoadBalancer dc = Inr True" "lb_remote lenv s = None"
      "lb_services lenv s = Inr svcs" "\<exists>svc \<in> set svcs. needsDelete svc"
    then show ?thesis using lb_hook_deletes(3) [OF l(2-5), where resp = fresh] by blast
  next
    assume k: "fst (konnector_BeforeClusterDelete kenv c fresh s') \<in> set rs"
      "IsDefined (cl_topology c)" "ke_variable kenv (top_variables (cl_topology c)) = Inr v"
      "ke_cluster kenv s' (cl_namespace c) (cl_name c) = Inr dc"
      "dc_phase dc \<notin> {''Pending'', ''Provisioning''}" "ke_initialized kenv dc"
      "isClusterRegisteredInPC kenv dc s' = Inr True"
      "annotated_uuid dc = Some u" "ke_chart kenv s' (cl_namespace (dc_cluster dc)) (chart_name u) = Inr hcp"
      "cp_deletion hcp = Some d" "ke_now kenv s' - d \<le> helmUninstallTimeout"
    have "konnector_BeforeClusterDelete kenv c fresh s' = konnector_cleanup kenv dc fresh s'"
      using k(2-7) by (simp add: konnector_BeforeClusterDelete_def)
    with konnector_cleanup_deleting [OF k(8-11), of fresh] k(1) show ?thesis by metis
  qed
  then obtain r where r: "r \<in> set rs" "hr_status r = Failure" "hr_retry r = Some 5" by blast
  from failed_hook_blocks [OF assms(1-3) r _ assms(4)] show ?thesis by simp
qed

section \<open>Instances\<close>

text \<open>
  A cluster with one Service that has an address, and with an agent whose HelmChartProxy is
  being removed for a minute.
\<close>

definition sample_deleted :: deleted_cluster where
  "sample_deleted = \<lparr>dc_cluster = sample_cluster\<lparr>cl_annotations :=
       [''caren.nutanix.com/cluster-uuid'' \<mapsto> ''u'']\<rparr>, dc_phase = ''Provisioned'',
     dc_conditions = [(''ControlPlaneInitialized'', ''True'')]\<rparr>"

definition sample_service :: service where
  "sample_service = \<lparr>svc_namespace = ''ns'', svc_name = ''lb'', svc_type = ''LoadBalancer'',
     svc_ingress = [(''10.0.0.9'', [])], svc_deletion = None\<rparr>"

definition sample_lb_env :: "unit lb_env" where
  "sample_lb_env = \<lparr>lb_cluster = (\<lambda>_ _ _. Inr sample_deleted), lb_remote = (\<lambda>_. None),
     lb_services = (\<lambda>_. Inr [sample_service]), lb_delete = (\<lambda>_ s. (None, s))\<rparr>"

definition sample_konnector_env :: "(unit, unit) konnector_env" where
  "sample_konnector_env = \<lparr>ke_variable = (\<lambda>_. Inr \<lparr>ka_credentials = Some ''secret'', ka_upload = None\<rparr>),
     ke_config = (\<lambda>_. Inr \<lparr>kc_nutanix = Some \<lparr>ns_cp_endpoint = \<lparr>cpe_host = [], cpe_port = 6443,
         cpe_virtual_ip = None\<rparr>, ns_pc_endpoint = sample_endpoint\<rparr>, kc_categories = None\<rparr>),
     ke_worker = (\<lambda>_. Inr None), ke_parse_url = (\<lambda>_. Inr \<lparr>url_scheme = ''https'', url_host = ''pc'',
       url_hostname = ''pc'', url_port = [], url_path = []\<rparr>),
     ke_cluster = (\<lambda>_ _ _. Inr sample_deleted), ke_initialized = (\<lambda>_. True),
     ke_secret = (\<lambda>_ _ _. Inr [''username'' \<mapsto> ''user'', ''password'' \<mapsto> ''pass'']),
     ke_remote = (\<lambda>_ _ _. None), ke_kube_system = (\<lambda>_. Inr ''uid''),
     ke_pc_client = (\<lambda>_ _. Inr ()), ke_registration = (\<lambda>_ _. None),
     ke_chart = (\<lambda>_ _ _. Inr \<lparr>cp_deletion = Some 0, cp_status = []\<rparr>),
     ke_delete_chart = (\<lambda>_ _ s. (None, s)), ke_now = (\<lambda>_. 60 * second_ns),
     ke_duration = (\<lambda>_. [])\<rparr>"

definition unset_response :: hook_response where
  "unset_response = \<lparr>hr_status = StatusUnset, hr_message = [], hr_retry = Some 0\<rparr>"

lemma sample_should_delete: "shouldDeleteServicesWithLoadBalancer sample_deleted = Inr True"
  by (simp add: shouldDeleteServicesWithLoadBalancer_def sample_deleted_def ParseBool_def Let_def
      LoadBalancerGCAnnotation_def isV1Beta2ConditionTrue_def ControlPlaneInitialized_def)

lemma sample_needs_delete: "needsDelete sample_service"
  by (simp add: needsDelete_def sample_service_def)

theorem services_block_deletion_witness:
  "hr_status (fst (lb_BeforeClusterDelete sample_lb_env sample_cluster unset_response ())) = Failure \<and>
   hr_retry (fst (lb_BeforeClusterDelete sample_lb_env sample_cluster unset_response ())) = Some 5"
proof -
  have "gc_applies sample_deleted"
    using sample_should_delete by (cases rule: shouldDelete_cases [of sample_deleted]) simp_all
  then show ?thesis
    using services_block_deletion [of unset_response sample_lb_env sample_cluster "()"]
      sample_needs_delete
    by (simp add: sample_lb_env_def unset_response_def services_left_def)
qed

lemma sample_registered: "isClusterRegisteredInPC sample_konnector_env sample_deleted () = Inr True"
  by (simp add: isClusterRegisteredInPC_def sample_konnector_env_def sample_deleted_def
      sample_endpoint_def ParseURL_def Let_def)

theorem konnector_blocks_deletion_witness:
  "hr_status (fst (konnector_BeforeClusterDelete sample_konnector_env sample_cluster
     unset_response ())) \<noteq> Success"
proof -
  have "hr_status (fst (konnector_BeforeClusterDelete sample_konnector_env sample_cluster
      unset_response ())) = Success \<longleftrightarrow>
      (\<exists>err. isClusterRegisteredInPC sample_konnector_env sample_deleted () = Inl err) \<or>
      (\<forall>u. cl_annotations (dc_cluster sample_deleted) ''caren.nutanix.com/cluster-uuid'' = Some u \<longrightarrow>
       (\<exists>e. ke_chart sample_konnector_env () (cl_namespace (dc_cluster sample_deleted))
          (''konnector-agent-'' @ u) = Inl (NotFound e)))"
    by (rule konnector_blocks_deletion) (simp_all add: sample_konnector_env_def sample_deleted_def)
  then show ?thesis
    using sample_registered by (simp add: sample_konnector_env_def sample_deleted_def)
qed

theorem deletion_waits_witness:
  "\<exists>t. hooks_reachable [fst (lb_BeforeClusterDelete sample_lb_env sample_cluster unset_response ()),
       succeed unset_response] t \<and> hs_ended t \<and>
     hr_status (hooks_result (\<lambda>i j. if i = 0 then j else if j = 0 then i else min i j)
       unset_response t) = Failure"
proof -
  let ?r = "fst (lb_BeforeClusterDelete sample_lb_env sample_cluster unset_response ())"
  let ?rs = "[?r, succeed unset_response]"
  obtain t where t: "hooks_reachable ?rs t" "hs_ended t"
    using hooks_end [OF hooks_start, of ?rs] by blast
  have lowest: "lowest_nonzero (\<lambda>i j. if i = 0 then j else if j = 0 then i else min i j)"
    by (simp add: lowest_nonzero_def)
  have lb: "lb_cluster sample_lb_env () (cl_namespace sample_cluster) (cl_name sample_cluster) =
      Inr sample_deleted" "lb_remote sample_lb_env () = None"
    "lb_services sample_lb_env () = Inr [sample_service]"
    by (simp_all add: sample_lb_env_def)
  have "hr_retry ?r = Some 5"
    using lb_hook_deletes(3) [OF lb(1) sample_should_delete lb(2,3), of sample_service unset_response]
      sample_needs_delete by simp
  then have nonneg: "\<forall>r \<in> set ?rs. \<forall>j. hr_retry r = Some j \<longrightarrow> 0 \<le> j"
    by (simp add: unset_response_def)
  have "hr_status (hooks_result (\<lambda>i j. if i = 0 then j else if j = 0 then i else min i j)
      unset_response t) = Failure"
    using deletion_waits [OF lowest t nonneg, of sample_lb_env sample_cluster unset_response "()"
        sample_deleted "[sample_service]" sample_konnector_env "()"] lb sample_should_delete
      sample_needs_delete by simp
  with t show ?thesis by blast
qed

end
