(* ===== verification/EncryptionAtRest.thy ===== *)
theory EncryptionAtRest
  imports KubeadmSpec
begin

text \<open>
  \<open>kubeadm/encryptionatrest\<close>: the Secret with the keys for encryption at rest, which is made
  once for a cluster, and its use in the control plane template.  The API server and the source
  of random tokens are calls on a state; base64 and YAML are parameters.
\<close>

section \<open>The calls\<close>

record 's key_api =
  ka_get :: "string \<times> string \<Rightarrow> 's \<Rightarrow> api_error + string"
  ka_create :: "string \<times> string \<Rightarrow> string \<Rightarrow> 's \<Rightarrow> string option \<times> 's"
  ka_token :: "'s \<Rightarrow> (string + string) \<times> 's"
  ka_owner_error :: "string option"

text \<open>A provider asks for a key of one or both kinds; a resource has the keys made for it.\<close>

record encryption_provider =
  ep_aescbc :: bool
  ep_secretbox :: bool

record resource_configuration =
  rc_resources :: "string list"
  rc_aescbc :: "(string \<times> string) option"
  rc_secretbox :: "(string \<times> string) option"

record encryption_codec =
  ec_base64 :: "string \<Rightarrow> string"
  ec_yaml :: "resource_configuration list \<Rightarrow> string + string"

section \<open>The configuration\<close>

text \<open>One key for each provider that is asked for.\<close>

definition new_key ::
    "'s key_api \<Rightarrow> encryption_codec \<Rightarrow> string \<Rightarrow> bool \<Rightarrow> 's \<Rightarrow> (string + (string \<times> string) option) \<times> 's" where
  "new_key api codec provider wanted s =
     (if \<not> wanted then (Inr None, s)
      else case ka_token api s of
        (Inl err, s') \<Rightarrow>
          (Inl (''could not create random encryption token for '' @ provider @ '' provider: '' @ err), s')
      | (Inr token, s') \<Rightarrow> (Inr (Some (''key1'', ec_base64 codec token)), s'))"

definition defaultEncryptionConfiguration ::
    "'s key_api \<Rightarrow> encryption_codec \<Rightarrow> encryption_provider \<Rightarrow> 's \<Rightarrow>
     (string + resource_configuration) \<times> 's" where
  "defaultEncryptionConfiguration api codec p s =
     (case new_key api codec ''aescbc'' (ep_aescbc p) s of
        (Inl err, s') \<Rightarrow> (Inl err, s')
      | (Inr aescbc, s') \<Rightarrow>
          (case new_key api codec ''secretbox'' (ep_secretbox p) s' of
             (Inl err, s'') \<Rightarrow> (Inl err, s'')
           | (Inr secretbox, s'') \<Rightarrow>
               (Inr \<lparr>rc_resources = [''secrets'', ''configmaps''], rc_aescbc = aescbc,
                  rc_secretbox = secretbox\<rparr>, s'')))"

fun generateEncryptionConfiguration ::
    "'s key_api \<Rightarrow> encryption_codec \<Rightarrow> encryption_provider list \<Rightarrow> 's \<Rightarrow>
     (string + resource_configuration list) \<times> 's" where
  "generateEncryptionConfiguration api codec [] s = (Inr [], s)"
| "generateEncryptionConfiguration api codec (p # ps) s =
     (case defaultEncryptionConfiguration api codec p s of
        (Inl err, s') \<Rightarrow> (Inl err, s')
      | (Inr r, s') \<Rightarrow>
          (case generateEncryptionConfiguration api codec ps s' of
             (Inl err, s'') \<Rightarrow> (Inl err, s'')
           | (Inr rs, s'') \<Rightarrow> (Inr (r # rs), s'')))"

section \<open>The Secret\<close>

definition defaultEncryptionSecretName :: "string \<Rightarrow> string" where
  "defaultEncryptionSecretName clusterName = clusterName @ ''-encryption-config''"

definition encryption_key :: "cluster \<Rightarrow> string \<times> string" where
  "encryption_key cluster = (cl_namespace cluster, defaultEncryptionSecretName (cl_name cluster))"

definition defaultEncryptionSecretExists :: "'s key_api \<Rightarrow> cluster \<Rightarrow> 's \<Rightarrow> string + bool" where
  "defaultEncryptionSecretExists api cluster s =
     (case ka_get api (encryption_key cluster) s of
        Inr _ \<Rightarrow> Inr True
      | Inl err \<Rightarrow> if IsNotFound err then Inr False else Inl (api_error_text err))"

definition createEncryptionConfigurationSecret ::
    "'s key_api \<Rightarrow> encryption_codec \<Rightarrow> resource_configuration list \<Rightarrow> cluster \<Rightarrow> 's \<Rightarrow>
     string option \<times> 's" where
  "createEncryptionConfigurationSecret api codec config cluster s =
     (case ec_yaml codec config of
        Inl err \<Rightarrow> (Some (''unable to marshal encryption configuration to YAML: '' @ err), s)
      | Inr dataYaml \<Rightarrow>
          (case ka_owner_error api of
             Some err \<Rightarrow>
               (Some (''failed to set owner reference on encryption configuration secret: '' @ err), s)
           | None \<Rightarrow>
               (case ka_create api (encryption_key cluster) (trim_space dataYaml) s of
                  (Some err, s') \<Rightarrow>
                    (Some (''failed to create encryption configuration secret: create object failed: '' @ err), s')
                | (None, s') \<Rightarrow> (None, s'))))"

section \<open>The template\<close>

definition encryptionConfigurationOnRemote :: string where
  "encryptionConfigurationOnRemote = ''/etc/kubernetes/pki/encryptionconfig.yaml''"

definition generateEncryptionCredentialsFile :: "cluster \<Rightarrow> machine_file" where
  "generateEncryptionCredentialsFile cluster =
     \<lparr>mf_path = encryptionConfigurationOnRemote, mf_owner = [], mf_permissions = ''0640'',
      mf_content = [], mf_secret = Some (defaultEncryptionSecretName (cl_name cluster), ''config'')\<rparr>"

definition encryption_change :: "cluster \<Rightarrow> kubeadm_config_spec \<Rightarrow> kubeadm_config_spec" where
  "encryption_change cluster s =
     on_api_server (\<lambda>a. a\<lparr>as_extra_args :=
         add_missing_args [(''encryption-provider-config'', Some encryptionConfigurationOnRemote)]
           (as_extra_args a)\<rparr>)
       (add_files [generateEncryptionCredentialsFile cluster] s)"

text \<open>The Secret is made if it is not found, never changed.\<close>

definition ensure_encryption_secret ::
    "'s key_api \<Rightarrow> encryption_codec \<Rightarrow> encryption_provider list \<Rightarrow> cluster \<Rightarrow> 's \<Rightarrow> string option \<times> 's" where
  "ensure_encryption_secret api codec providers cluster s =
     (case defaultEncryptionSecretExists api cluster s of
        Inl err \<Rightarrow> (Some err, s)
      | Inr found \<Rightarrow>
          if found then (None, s)
          else case generateEncryptionConfiguration api codec providers s of
            (Inl err, s') \<Rightarrow> (Some err, s')
          | (Inr config, s') \<Rightarrow> createEncryptionConfigurationSecret api codec config cluster s')"

definition encryption_mutFn ::
    "'s key_api \<Rightarrow> encryption_codec \<Rightarrow> string + cluster \<Rightarrow> encryption_provider list \<Rightarrow> kcp_template \<Rightarrow> 's \<Rightarrow>
     (string + kcp_template) \<times> 's" where
  "encryption_mutFn api codec clusterGetter providers t s =
     (case clusterGetter of
        Inl err \<Rightarrow> (Inl err, s)
      | Inr cluster \<Rightarrow>
          (case ensure_encryption_secret api codec providers cluster s of
             (Some err, s') \<Rightarrow> (Inl err, s')
           | (None, s') \<Rightarrow> (Inr (on_spec (encryption_change cluster) t), s')))"

definition encryption_Mutate ::
    "('doc, 'b, 'o, 'p) template_env \<Rightarrow> 's key_api \<Rightarrow> encryption_codec \<Rightarrow> string + cluster \<Rightarrow>
     encryption_provider list variable \<Rightarrow> 'doc \<Rightarrow> 's \<Rightarrow> (string + 'doc) \<times> 's" where
  "encryption_Mutate env api codec clusterGetter v obj s =
     (case v of
        Missing _ \<Rightarrow> (Inr obj, s)
      | Failed err \<Rightarrow> (Inl err, s)
      | Found providers \<Rightarrow>
          MutateWithEffect (te_cp env) (te_gvk_text env) (is_control_plane env obj)
            (encryption_mutFn api codec clusterGetter providers) obj s)"

section \<open>Keys stay\<close>

text \<open>
  What the API server promises: making an object that exists fails and changes nothing, making
  one that does not exist adds it alone, and drawing a token changes no object.
\<close>

definition lawful_key_api :: "'s key_api \<Rightarrow> bool" where
  "lawful_key_api api \<longleftrightarrow>
     (\<forall>k d s r s'. ka_create api k d s = (r, s') \<longrightarrow>
        (r = None \<longrightarrow> ka_get api k s' = Inr d) \<and>
        (\<forall>k' d'. ka_get api k' s = Inr d' \<longrightarrow> ka_get api k' s' = Inr d')) \<and>
     (\<forall>s r s'. ka_token api s = (r, s') \<longrightarrow>
        (\<forall>k d. ka_get api k s = Inr d \<longrightarrow> ka_get api k s' = Inr d))"

text \<open>Every Secret of the first state is in the second as it was.\<close>

definition keeps_secrets :: "'s key_api \<Rightarrow> 's \<Rightarrow> 's \<Rightarrow> bool" where
  "keeps_secrets api s s' \<longleftrightarrow> (\<forall>k d. ka_get api k s = Inr d \<longrightarrow> ka_get api k s' = Inr d)"

lemma keeps_secrets_refl [simp]: "keeps_secrets api s s"
  by (simp add: keeps_secrets_def)

lemma keeps_secrets_trans: "keeps_secrets api s s' \<Longrightarrow> keeps_secrets api s' s'' \<Longrightarrow> keeps_secrets api s s''"
  by (simp add: keeps_secrets_def)

lemma token_keeps: "lawful_key_api api \<Longrightarrow> ka_token api s = (r, s') \<Longrightarrow> keeps_secrets api s s'"
  unfolding lawful_key_api_def keeps_secrets_def by blast

lemma create_keeps:
  "lawful_key_api api \<Longrightarrow> ka_create api k d s = (r, s') \<Longrightarrow> keeps_secrets api s s'"
  unfolding lawful_key_api_def keeps_secrets_def by blast

lemma create_adds: "lawful_key_api api \<Longrightarrow> ka_create api k d s = (None, s') \<Longrightarrow> ka_get api k s' = Inr d"
  unfolding lawful_key_api_def by blast

lemma new_key_keeps:
  assumes "lawful_key_api api" "new_key api codec p w s = (r, s')"
  shows "keeps_secrets api s s'"
proof (cases w)
  case False
  then show ?thesis using assms(2) by (simp add: new_key_def)
next
  case True
  obtain t u where t: "ka_token api s = (t, u)" by fastforce
  then have "s' = u" using assms(2) True by (cases t) (simp_all add: new_key_def)
  then show ?thesis using token_keeps [OF assms(1) t] by simp
qed

lemma default_configuration_keeps:
  assumes "lawful_key_api api" "defaultEncryptionConfiguration api codec p s = (r, s')"
  shows "keeps_secrets api s s'"
proof -
  obtain a t where a: "new_key api codec ''aescbc'' (ep_aescbc p) s = (a, t)" by fastforce
  obtain b u where b: "new_key api codec ''secretbox'' (ep_secretbox p) t = (b, u)" by fastforce
  have "s' = t \<or> s' = u"
    using assms(2) b by (cases a; cases b) (simp_all add: defaultEncryptionConfiguration_def a)
  moreover note t = new_key_keeps [OF assms(1) a] and u = new_key_keeps [OF assms(1) b]
  ultimately show ?thesis using t keeps_secrets_trans [OF t u] by metis
qed

lemma generate_keeps:
  assumes "lawful_key_api api"
  shows "generateEncryptionConfiguration api codec ps s = (r, s') \<Longrightarrow> keeps_secrets api s s'"
proof (induction ps arbitrary: s r)
  case Nil
  then show ?case by simp
next
  case (Cons p ps)
  obtain a t where a: "defaultEncryptionConfiguration api codec p s = (a, t)" by fastforce
  obtain b u where b: "generateEncryptionConfiguration api codec ps t = (b, u)" by fastforce
  have "s' = t \<or> s' = u" using Cons.prems b by (cases a; cases b) (simp_all add: a)
  moreover note t = default_configuration_keeps [OF assms a]
  moreover have "keeps_secrets api t s'" if "s' = u" using Cons.IH [of t b] b that by simp
  ultimately show ?case using keeps_secrets_trans [OF t, of s'] by metis
qed

lemma create_secret_keeps:
  assumes "lawful_key_api api" "createEncryptionConfigurationSecret api codec config cluster s = (r, s')"
  shows "keeps_secrets api s s'" "r = None \<Longrightarrow> \<exists>d. ka_get api (encryption_key cluster) s' = Inr d"
proof -
  have "keeps_secrets api s s' \<and> (r = None \<longrightarrow> (\<exists>d. ka_get api (encryption_key cluster) s' = Inr d))"
  proof (cases "ec_yaml codec config")
    case (Inl err)
    then show ?thesis using assms(2) by (auto simp: createEncryptionConfigurationSecret_def)
  next
    case (Inr d)
    obtain q t where q: "ka_create api (encryption_key cluster) (trim_space d) s = (q, t)" by fastforce
    note k = create_keeps [OF assms(1) q]
    note e = assms(2) [unfolded createEncryptionConfigurationSecret_def Inr sum.case q prod.case]
    show ?thesis
    proof (cases "ka_owner_error api")
      case (Some err)
      then show ?thesis using e by auto
    next
      case None
      note e = e [unfolded None option.case]
      show ?thesis
      proof (cases q)
        case None
        then show ?thesis using e k create_adds [OF assms(1)] q by auto
      next
        case (Some err)
        then show ?thesis using e k by auto
      qed
    qed
  qed
  then show "keeps_secrets api s s'" "r = None \<Longrightarrow> \<exists>d. ka_get api (encryption_key cluster) s' = Inr d"
    by simp_all
qed

lemma ensure_secret_keeps:
  assumes "lawful_key_api api" "ensure_encryption_secret api codec ps cluster s = (r, s')"
  shows "keeps_secrets api s s'" "r = None \<Longrightarrow> \<exists>d. ka_get api (encryption_key cluster) s' = Inr d"
    "ka_get api (encryption_key cluster) s = Inr d \<Longrightarrow> s' = s"
proof -
  obtain c t where g: "generateEncryptionConfiguration api codec ps s = (c, t)" by fastforce
  note kt = generate_keeps [OF assms(1) g]
  have "keeps_secrets api s s' \<and> (r = None \<longrightarrow> (\<exists>d. ka_get api (encryption_key cluster) s' = Inr d))"
  proof (cases "ka_get api (encryption_key cluster) s")
    case (Inr d)
    then show ?thesis
      using assms(2) by (simp add: ensure_encryption_secret_def defaultEncryptionSecretExists_def)
  next
    case (Inl err)
    show ?thesis
    proof (cases "IsNotFound err")
      case False
      then show ?thesis
        using assms(2) Inl by (auto simp: ensure_encryption_secret_def defaultEncryptionSecretExists_def)
    next
      case True
      show ?thesis
      proof (cases c)
        case c: (Inl e)
        then show ?thesis
          using assms(2) Inl True g kt
          by (auto simp: ensure_encryption_secret_def defaultEncryptionSecretExists_def)
      next
        case c: (Inr config)
        then have e: "createEncryptionConfigurationSecret api codec config cluster t = (r, s')"
          using assms(2) Inl True g by (simp add: ensure_encryption_secret_def defaultEncryptionSecretExists_def)
        show ?thesis
          using create_secret_keeps [OF assms(1) e] keeps_secrets_trans [OF kt, of s'] by metis
      qed
    qed
  qed
  then show "keeps_secrets api s s'" "r = None \<Longrightarrow> \<exists>d. ka_get api (encryption_key cluster) s' = Inr d"
    by simp_all
  show "ka_get api (encryption_key cluster) s = Inr d \<Longrightarrow> s' = s"
    using assms(2) by (simp add: ensure_encryption_secret_def defaultEncryptionSecretExists_def)
qed

end
