(* ===== verification/RegistryHandlers.thy ===== *)
theory RegistryHandlers
  imports ContainerdMirrors EncryptionAtRest
begin

text \<open>
  The two handlers for image registries: \<open>generic/imageregistries/credentials\<close> writes the
  credentials and \<open>generic/mirrors\<close> the mirrors and certificates into the templates.  They
  read Secrets, and the first one makes the Cluster the owner of the Secrets it uses and applies
  one of its own.  The API server is a record of calls on a state; CIDRs of Kubernetes are read
  by a parameter.
\<close>

section \<open>The calls\<close>

text \<open>
  Reading a Secret (its name and data); reading, making owned and writing any object; applying
  the Secret with the static credentials (name, namespace and content), made owned before.
\<close>

record ('s, 'obj) registry_api =
  ra_secret :: "string \<Rightarrow> string \<Rightarrow> 's \<Rightarrow> string + (string \<times> secret)"
  ra_get :: "string \<Rightarrow> string \<Rightarrow> string \<Rightarrow> 's \<Rightarrow> string + 'obj"
  ra_set_owner :: "cluster \<Rightarrow> 'obj \<Rightarrow> string + 'obj"
  ra_update :: "'obj \<Rightarrow> 's \<Rightarrow> string option \<times> 's"
  ra_own_error :: "cluster \<Rightarrow> string option"
  ra_apply :: "string \<times> string \<times> string \<Rightarrow> 's \<Rightarrow> string option \<times> 's"

text \<open>\<open>pkg/handlers/utils/owner_reference.go\<close>: the object is in the namespace of the Cluster.\<close>

definition getResourceFromTypedLocalObjectReference ::
    "('s, 'obj) registry_api \<Rightarrow> string \<Rightarrow> string \<Rightarrow> string \<Rightarrow> 's \<Rightarrow> string + 'obj" where
  "getResourceFromTypedLocalObjectReference api kind name ns s =
     bind_sum ''failed to get resource from object reference: '' (ra_get api kind ns name s) Inr"

definition EnsureClusterOwnerReferenceForObject ::
    "('s, 'obj) registry_api \<Rightarrow> string \<Rightarrow> string \<Rightarrow> cluster \<Rightarrow> 's \<Rightarrow> string option \<times> 's" where
  "EnsureClusterOwnerReferenceForObject api kind name cluster s =
     (case getResourceFromTypedLocalObjectReference api kind name (cl_namespace cluster) s of
        Inl err \<Rightarrow> (Some err, s)
      | Inr targetObj \<Rightarrow>
          (case ra_set_owner api cluster targetObj of
             Inl err \<Rightarrow> (Some (''failed to set cluster's owner reference on object: '' @ err), s)
           | Inr owned \<Rightarrow>
               (case ra_update api owned s of
                  (Some err, s') \<Rightarrow>
                    (Some (''failed to update object with cluster's owner reference: '' @ err), s')
                | (None, s') \<Rightarrow> (None, s'))))"

section \<open>Credentials\<close>

text \<open>The loop over the credentials that name a Secret.\<close>

fun own_secrets ::
    "('s, 'obj) registry_api \<Rightarrow> cluster \<Rightarrow> string option option list \<Rightarrow> 's \<Rightarrow> string option \<times> 's" where
  "own_secrets api cluster [] s = (None, s)"
| "own_secrets api cluster (c # cs) s =
     (let secretName = SecretNameForImageRegistryCredentials c
      in if secretName = [] then own_secrets api cluster cs s
         else case EnsureClusterOwnerReferenceForObject api ''Secret'' secretName cluster s of
           (Some err, s') \<Rightarrow>
             (Some (''error updating owner references on image registry Secret: '' @ err), s')
         | (None, s') \<Rightarrow> own_secrets api cluster cs s')"

text \<open>A mirror that is not set is the zero value, without credentials.\<close>

definition ensureOwnerReferenceOnCredentialsSecrets ::
    "('s, 'obj) registry_api \<Rightarrow> (string \<times> string option option) list \<Rightarrow>
     (string \<times> string option option) option \<Rightarrow> cluster \<Rightarrow> 's \<Rightarrow> string option \<times> 's" where
  "ensureOwnerReferenceOnCredentialsSecrets api imageRegistries globalMirror cluster s =
     own_secrets api cluster
       (filter (\<lambda>c. c \<noteq> None) (map snd imageRegistries) @
        filter (\<lambda>c. c \<noteq> None) (case globalMirror of None \<Rightarrow> [] | Some m \<Rightarrow> [snd m])) s"

definition createSecretIfNeeded ::
    "('s, 'obj) registry_api \<Rightarrow> credential_env \<Rightarrow> credential_templates \<Rightarrow> provider_config list \<Rightarrow>
     cluster \<Rightarrow> 's \<Rightarrow> string option \<times> 's" where
  "createSecretIfNeeded api env tpl registries cluster s =
     (case generateCredentialsSecret env tpl registries (cl_name cluster) (cl_namespace cluster) of
        Inl err \<Rightarrow>
          (Some (''error generating credentials Secret for Image Registry Credentials variable: '' @ err), s)
      | Inr None \<Rightarrow> (None, s)
      | Inr (Some secret) \<Rightarrow>
          (case ra_own_error api cluster of
             Some err \<Rightarrow>
               (Some (''failed to set owner reference on Image Registry Credentials Secret: '' @ err), s)
           | None \<Rightarrow>
               (case ra_apply api secret s of
                  (Some err, s') \<Rightarrow>
                    (Some (''failed to apply Image Registry Credentials Secret: '' @ err), s')
                | (None, s') \<Rightarrow> (None, s'))))"

text \<open>What both templates need done at the API server; the Cluster, or an error.\<close>

definition prepare_credentials ::
    "('s, 'obj) registry_api \<Rightarrow> credential_env \<Rightarrow> credential_templates \<Rightarrow> string + cluster \<Rightarrow>
     (string \<times> string option option) list \<Rightarrow> (string \<times> string option option) option \<Rightarrow>
     provider_config list \<Rightarrow> 's \<Rightarrow> string option \<times> 's" where
  "prepare_credentials api env tpl clusterGetter imageRegistries globalMirror registries s =
     (case clusterGetter of
        Inl err \<Rightarrow> (Some err, s)
      | Inr cluster \<Rightarrow>
          (case ensureOwnerReferenceOnCredentialsSecrets api imageRegistries globalMirror cluster s of
             (Some err, s') \<Rightarrow> (Some err, s')
           | (None, s') \<Rightarrow> createSecretIfNeeded api env tpl registries cluster s'))"

definition credential_args :: "node_registration \<Rightarrow> node_registration" where
  "credential_args r = r\<lparr>nr_kubelet_args := addImageCredentialProviderArgs (nr_kubelet_args r)\<rparr>"

definition credentials_control_plane ::
    "machine_file list \<Rightarrow> string list \<Rightarrow> kubeadm_config_spec \<Rightarrow> kubeadm_config_spec" where
  "credentials_control_plane files commands s =
     (let s = add_pre_commands commands (add_files files s)
      in s\<lparr>ks_init_registration := credential_args (ks_init_registration s),
           ks_join_registration := credential_args (ks_join_registration s)\<rparr>)"

definition credentials_worker ::
    "machine_file list \<Rightarrow> string list \<Rightarrow> kubeadm_config_spec \<Rightarrow> kubeadm_config_spec" where
  "credentials_worker files commands s =
     (let s = add_pre_commands commands (add_files files s)
      in s\<lparr>ks_join_registration := credential_args (ks_join_registration s)\<rparr>)"

text \<open>
  A template is changed after the calls; the parameters \<open>values\<close> and \<open>script\<close> are
  those of the generation of the files.
\<close>

definition credentials_Mutate ::
    "('doc, 'b, 'o, 'p) template_env \<Rightarrow> ('s, 'obj) registry_api \<Rightarrow> credential_env \<Rightarrow>
     credential_templates \<Rightarrow> (provider list \<Rightarrow> provider list) \<Rightarrow> string \<Rightarrow> ('doc \<Rightarrow> string) \<Rightarrow>
     string \<Rightarrow> string + cluster \<Rightarrow> (string \<times> string option option) list variable \<Rightarrow>
     (string \<times> string option option) variable \<Rightarrow> 'doc \<Rightarrow> 's \<Rightarrow> (string + 'doc) \<times> 's" where
  "credentials_Mutate env api cenv tpl values script namespace_of clusterKeyName clusterGetter
     registriesVar mirrorVar obj s =
     (case registriesVar of
        Failed err \<Rightarrow> (Inl err, s)
      | _ \<Rightarrow>
     (case mirrorVar of
        Failed err \<Rightarrow> (Inl err, s)
      | _ \<Rightarrow>
          let imageRegistries = (case registriesVar of Found rs \<Rightarrow> rs | _ \<Rightarrow> []);
              globalMirror = (case mirrorVar of Found m \<Rightarrow> Some m | _ \<Rightarrow> None);
              get = (\<lambda>ns name. map_sum id snd (ra_secret api ns name s))
          in case registries_to_configure cenv get (namespace_of obj) imageRegistries globalMirror of
            Inl err \<Rightarrow> (Inl err, s)
          | Inr registries \<Rightarrow>
              (case generateFilesAndCommands cenv tpl values script registries clusterKeyName of
                 Inl err \<Rightarrow> (Inl err, s)
               | Inr (files, commands) \<Rightarrow>
                   let prepare = prepare_credentials api cenv tpl clusterGetter imageRegistries
                         globalMirror registries
                   in case MutateWithEffect (te_cp env) (te_gvk_text env) (is_control_plane env obj)
                        (\<lambda>t s. case prepare s of
                           (Some err, s') \<Rightarrow> (Inl err, s')
                         | (None, s') \<Rightarrow> (Inr (on_spec (credentials_control_plane files commands) t), s'))
                        obj s of
                        (Inl err, s') \<Rightarrow> (Inl err, s')
                      | (Inr obj', s') \<Rightarrow>
                          MutateWithEffect (te_worker env) (te_gvk_text env) (is_worker env obj')
                            (\<lambda>w s. case prepare s of
                               (Some err, s') \<Rightarrow> (Inl err, s')
                             | (None, s') \<Rightarrow> (Inr (credentials_worker files commands w), s'))
                            obj' s')))"

section \<open>Mirrors\<close>

text \<open>
  \<open>pkg/handlers/lifecycle/registry/utils/ip.go\<close>: the twentieth address of the first CIDR for
  Services; \<open>k8s.io/utils/net\<close> is a parameter.
\<close>

record 'net service_net =
  sn_parse :: "string list \<Rightarrow> string + 'net list"
  sn_indexed :: "'net \<Rightarrow> int \<Rightarrow> string + string"

definition getServiceIP :: "'net service_net \<Rightarrow> string list \<Rightarrow> string + string" where
  "getServiceIP net serviceSubnetStrings =
     bind_sum ''unable to parse service Subnets: '' (sn_parse net serviceSubnetStrings)
       (\<lambda>subnets. case subnets of
          [] \<Rightarrow> Inl ''unexpected empty service Subnets''
        | n # _ \<Rightarrow>
            (case sn_indexed net n 20 of
               Inl err \<Rightarrow>
                 Inl ''unable to get internal Kubernetes Service IP from the given service Subnets''
             | Inr ip \<Rightarrow> Inr ip))"

definition ServiceIPForCluster :: "'net service_net \<Rightarrow> cluster \<Rightarrow> string + string" where
  "ServiceIPForCluster net cluster =
     bind_sum ''error getting a service IP for a cluster: ''
       (getServiceIP net (cs_service_cidrs (cl_spec cluster))) Inr"

text \<open>\<open>SecretForClusterRegistryAddonCA\<close> of \<open>pkg/handlers/utils/secrets.go\<close>.\<close>

definition SecretNameForRegistryAddonCA :: "cluster \<Rightarrow> string" where
  "SecretNameForRegistryAddonCA cluster = cl_name cluster @ ''-registry-addon-ca''"

definition SecretForClusterRegistryAddonCA ::
    "(string \<Rightarrow> string \<Rightarrow> string + (string \<times> secret)) \<Rightarrow> cluster \<Rightarrow> string + (string \<times> secret)" where
  "SecretForClusterRegistryAddonCA get cluster =
     bind_sum ''error getting registry addon CA secret for cluster: ''
       (get (cl_namespace cluster) (SecretNameForRegistryAddonCA cluster)) Inr"

fun containerd_configs_for ::
    "(string \<Rightarrow> string \<Rightarrow> string + (string \<times> secret)) \<Rightarrow> string \<Rightarrow>
     (string \<times> string option option) list \<Rightarrow> string + containerd_config list" where
  "containerd_configs_for get namespace [] = Inr []"
| "containerd_configs_for get namespace (r # rs) =
     (case containerd_config_for get ''Image Registry'' False namespace r of
        Inl err \<Rightarrow> Inl err
      | Inr c \<Rightarrow>
          (case containerd_configs_for get namespace rs of Inl err \<Rightarrow> Inl err | Inr cs \<Rightarrow> Inr (c # cs)))"

text \<open>The configurations in the order in which the handler appends them.\<close>

definition mirror_configs ::
    "'net service_net \<Rightarrow> (string \<Rightarrow> string \<Rightarrow> string + (string \<times> secret)) \<Rightarrow> string \<Rightarrow> string + cluster \<Rightarrow>
     (string \<times> string option option) option \<Rightarrow> (string \<times> string option option) list \<Rightarrow> bool \<Rightarrow>
     string + containerd_config list" where
  "mirror_configs net get namespace clusterGetter globalMirror imageRegistries registryAddon =
     bind_sum []
       (case globalMirror of
          None \<Rightarrow> Inr []
        | Some m \<Rightarrow>
            bind_sum [] (containerd_config_for get ''Global Image Registry Mirror'' True namespace m)
              (\<lambda>c. Inr [c]))
       (\<lambda>mirrors. bind_sum [] (containerd_configs_for get namespace imageRegistries) (\<lambda>registries.
        if registryAddon then
          bind_sum [] clusterGetter (\<lambda>cluster.
          bind_sum []
            (containerdConfigFromRegistryAddon (ServiceIPForCluster net cluster)
              (SecretForClusterRegistryAddonCA get cluster))
            (\<lambda>c. Inr (mirrors @ registries @ [c])))
        else Inr (mirrors @ registries)))"

definition is_Missing :: "'a variable \<Rightarrow> bool" where
  "is_Missing v = (case v of Missing _ \<Rightarrow> True | _ \<Rightarrow> False)"

definition mirrors_Mutate ::
    "('doc, 'b, 'o, 'p) template_env \<Rightarrow> 'net service_net \<Rightarrow>
     (string \<Rightarrow> string \<Rightarrow> string + (string \<times> secret)) \<Rightarrow> url_parser \<Rightarrow> machine_file \<Rightarrow>
     ('doc \<Rightarrow> string) \<Rightarrow> string + cluster \<Rightarrow> (string \<times> string option option) variable \<Rightarrow>
     (string \<times> string option option) list variable \<Rightarrow> unit variable \<Rightarrow> 'doc \<Rightarrow> string + 'doc" where
  "mirrors_Mutate env net get parse_uri dropIn namespace_of clusterGetter mirrorVar registriesVar
     addonVar obj =
     (if is_Missing registriesVar \<and> is_Missing mirrorVar \<and> is_Missing addonVar then Inr obj
      else case registriesVar of
        Failed err \<Rightarrow> Inl err
      | _ \<Rightarrow>
     (case mirrorVar of
        Failed err \<Rightarrow> Inl err
      | _ \<Rightarrow>
     (case addonVar of
        Failed err \<Rightarrow> Inl err
      | _ \<Rightarrow>
          bind_sum []
            (mirror_configs net get (namespace_of obj) clusterGetter
              (case mirrorVar of Found m \<Rightarrow> Some m | _ \<Rightarrow> None)
              (case registriesVar of Found rs \<Rightarrow> rs | _ \<Rightarrow> []) (\<not> is_Missing addonVar))
            (\<lambda>configs.
               if \<not> needContainerdConfiguration configs then Inr obj
               else bind_sum [] (mirror_generateFiles parse_uri dropIn configs)
                 (\<lambda>files. patch_both env (add_files files) obj)))))"

end
