(* ===== verification/NodeMutations.thy ===== *)
theory NodeMutations
  imports KubeadmSpec
begin

text \<open>
  The patch handlers under \<open>pkg/handlers/generic/mutation\<close> that change the machines of the
  control plane and of the workers: users, taints, NTP, node registration, the mode of
  kube-proxy, the configuration files of containerd.  Each handler reads its variable and patches the
  templates; a variable that is not there leaves the document alone.
\<close>

section \<open>Users (\<open>generic/users\<close>)\<close>

record api_user =
  au_name :: string
  au_hashed_password :: string
  au_ssh_keys :: "string list"
  au_sudo :: string

definition generateBootstrapUser :: "api_user \<Rightarrow> boot_user" where
  "generateBootstrapUser u =
     (let user = \<lparr>bu_name = au_name u, bu_gecos = [], bu_groups = [], bu_home_dir = [],
            bu_inactive = None, bu_shell = [], bu_passwd = [], bu_passwd_from = ([], []),
            bu_primary_group = [], bu_lock_password = Some True, bu_sudo = [],
            bu_ssh_keys = au_ssh_keys u\<rparr>;
          user = (if au_hashed_password u \<noteq> []
            then user\<lparr>bu_lock_password := Some False, bu_passwd := au_hashed_password u\<rparr> else user)
      in if au_sudo u \<noteq> [] then user\<lparr>bu_sudo := au_sudo u\<rparr> else user)"

definition eks_user_of :: "boot_user \<Rightarrow> eks_user" where
  "eks_user_of u =
     \<lparr>eu_name = bu_name u, eu_gecos = Some (bu_gecos u), eu_groups = Some (bu_groups u),
      eu_home_dir = Some (bu_home_dir u), eu_inactive = bu_inactive u, eu_shell = Some (bu_shell u),
      eu_passwd = Some (bu_passwd u),
      eu_passwd_from = (if fst (bu_passwd_from u) \<noteq> [] then Some (bu_passwd_from u) else None),
      eu_primary_group = Some (bu_primary_group u), eu_lock_password = bu_lock_password u,
      eu_sudo = Some (bu_sudo u), eu_ssh_keys = bu_ssh_keys u\<rparr>"

definition users_Mutate ::
    "('doc, 'b, 'o, 'p) template_env \<Rightarrow> api_user list variable \<Rightarrow> 'doc \<Rightarrow> string + 'doc" where
  "users_Mutate env v obj =
     (case v of
        Missing _ \<Rightarrow> Inr obj
      | Failed err \<Rightarrow> Inl err
      | Found usersVariable \<Rightarrow>
          let bootstrapUsers = map generateBootstrapUser usersVariable
          in bind_sum [] (patch_both env (\<lambda>s. s\<lparr>ks_users := bootstrapUsers\<rparr>) obj)
               (patch_nodeadm env (\<lambda>t. Inr (t\<lparr>na_users := map eks_user_of bootstrapUsers\<rparr>))))"

section \<open>Taints (\<open>generic/taints\<close>)\<close>

text \<open>A slice that is nil is \<open>None\<close>.\<close>

definition toCoreTaints :: "node_taint list option \<Rightarrow> node_taint list option \<Rightarrow> node_taint list option" where
  "toCoreTaints existingTaints newTaints =
     (case newTaints of
        None \<Rightarrow> existingTaints
      | Some new \<Rightarrow>
          (case existingTaints of None \<Rightarrow> Some new | Some existing \<Rightarrow> Some (existing @ new)))"

definition taint_text :: "node_taint \<Rightarrow> string" where
  "taint_text t =
     taint_key t @ (if taint_value t \<noteq> [] then ''='' @ taint_value t else []) @ '':'' @ taint_effect t"

definition toEKSConfigTaints :: "node_taint list option \<Rightarrow> string" where
  "toEKSConfigTaints newTaints =
     join_with '','' (map taint_text (case newTaints of None \<Rightarrow> [] | Some ts \<Rightarrow> ts))"

definition add_taints :: "node_taint list option \<Rightarrow> node_registration \<Rightarrow> node_registration" where
  "add_taints new r =
     r\<lparr>nr_taints := Some (toCoreTaints (case nr_taints r of None \<Rightarrow> Some [] | Some ts \<Rightarrow> ts) new)\<rparr>"

definition taints_worker_Mutate ::
    "('doc, 'b, 'o, 'p) template_env \<Rightarrow> node_taint list option variable \<Rightarrow> 'doc \<Rightarrow> string + 'doc" where
  "taints_worker_Mutate env v obj =
     (case v of
        Missing _ \<Rightarrow> Inr obj
      | Failed err \<Rightarrow> Inl err
      | Found taintsVar \<Rightarrow>
          bind_sum []
            (patch_workers env
              (\<lambda>s. Inr (s\<lparr>ks_join_registration := add_taints taintsVar (ks_join_registration s)\<rparr>)) obj)
            (patch_nodeadm env (\<lambda>t. Inr (t\<lparr>na_kubelet_flags :=
               Some ((case na_kubelet_flags t of None \<Rightarrow> [] | Some fs \<Rightarrow> fs) @
                 [''--register-with-taints='' @ toEKSConfigTaints taintsVar])\<rparr>))))"

definition taints_control_plane_Mutate ::
    "('doc, 'b, 'o, 'p) template_env \<Rightarrow> node_taint list option variable \<Rightarrow> 'doc \<Rightarrow> string + 'doc" where
  "taints_control_plane_Mutate env v obj =
     (case v of
        Missing _ \<Rightarrow> Inr obj
      | Failed err \<Rightarrow> Inl err
      | Found taintsVar \<Rightarrow>
          patch_control_plane env
            (\<lambda>t. Inr (on_spec (\<lambda>s. s\<lparr>ks_init_registration := add_taints taintsVar (ks_init_registration s),
               ks_join_registration := add_taints taintsVar (ks_join_registration s)\<rparr>) t)) obj)"

section \<open>NTP (\<open>generic/ntp\<close>)\<close>

text \<open>The variable is a pointer to a struct with the servers.\<close>

definition ntp_Mutate ::
    "('doc, 'b, 'o, 'p) template_env \<Rightarrow> string list option variable \<Rightarrow> 'doc \<Rightarrow> string + 'doc" where
  "ntp_Mutate env v obj =
     (case v of
        Missing _ \<Rightarrow> Inr obj
      | Failed err \<Rightarrow> Inl err
      | Found ntp \<Rightarrow>
          (case ntp of
             None \<Rightarrow> Inr obj
           | Some servers \<Rightarrow>
               if servers = [] then Inr obj
               else
                 let cfg = \<lparr>ntp_enabled = Some True, ntp_servers = servers\<rparr>
                 in bind_sum [] (patch_both env (\<lambda>s. s\<lparr>ks_ntp := cfg\<rparr>) obj)
                      (patch_nodeadm env (\<lambda>t. Inr (t\<lparr>na_ntp := Some cfg\<rparr>)))))"

section \<open>Node registration (\<open>kubeadm/noderegistration\<close>)\<close>

definition ignore_errors :: "string list \<Rightarrow> node_registration \<Rightarrow> node_registration" where
  "ignore_errors errs r = r\<lparr>nr_ignore_preflight := nr_ignore_preflight r @ errs\<rparr>"

definition setIgnorePreflightErrorsForControlPlane :: "string list \<Rightarrow> kubeadm_config_spec \<Rightarrow> kubeadm_config_spec" where
  "setIgnorePreflightErrorsForControlPlane errs s =
     (if errs = [] then s
      else s\<lparr>ks_init_registration := ignore_errors errs (ks_init_registration s),
             ks_join_registration := ignore_errors errs (ks_join_registration s)\<rparr>)"

definition setIgnorePreflightErrorsForWorkers :: "string list \<Rightarrow> kubeadm_config_spec \<Rightarrow> kubeadm_config_spec" where
  "setIgnorePreflightErrorsForWorkers errs s =
     (if errs = [] then s else s\<lparr>ks_join_registration := ignore_errors errs (ks_join_registration s)\<rparr>)"

definition noderegistration_control_plane_Mutate ::
    "('doc, 'b, 'o, 'p) template_env \<Rightarrow> string list variable \<Rightarrow> 'doc \<Rightarrow> string + 'doc" where
  "noderegistration_control_plane_Mutate env v obj =
     (case v of
        Missing _ \<Rightarrow> Inr obj
      | Failed err \<Rightarrow> Inl err
      | Found errs \<Rightarrow>
          patch_control_plane env
            (\<lambda>t. Inr (on_spec (setIgnorePreflightErrorsForControlPlane errs) t)) obj)"

definition noderegistration_worker_Mutate ::
    "('doc, 'b, 'o, 'p) template_env \<Rightarrow> string list variable \<Rightarrow> 'doc \<Rightarrow> string + 'doc" where
  "noderegistration_worker_Mutate env v obj =
     (case v of
        Missing _ \<Rightarrow> Inr obj
      | Failed err \<Rightarrow> Inl err
      | Found errs \<Rightarrow> patch_workers env (\<lambda>s. Inr (setIgnorePreflightErrorsForWorkers errs s)) obj)"

section \<open>The mode of kube-proxy (\<open>generic/kubeproxymode\<close>)\<close>

definition kubeadmConfigFilePath :: string where
  "kubeadmConfigFilePath = ''/run/kubeadm/kubeadm.yaml''"

definition kube_proxy_config :: "string \<Rightarrow> string" where
  "kube_proxy_config mode =
     ''---'' @ [CHR 0x0A] @ ''apiVersion: kubeproxy.config.k8s.io/v1alpha1'' @ [CHR 0x0A] @
     ''kind: KubeProxyConfiguration'' @ [CHR 0x0A] @ ''mode: '' @ mode @ [CHR 0x0A]"

definition backslash :: string where
  "backslash = [CHR 0x5C]"

definition double_quote_char :: string where
  "double_quote_char = [CHR 0x22]"

text \<open>The shell command that adds the mode to the kubeadm file.\<close>

definition sed_command :: "string \<Rightarrow> string \<Rightarrow> string" where
  "sed_command path mode =
     ''grep -q '' @ double_quote_char @ ''^kind: KubeProxyConfiguration$'' @ double_quote_char @ '' '' @ path @
     '' && sed -i -e '' @ double_quote_char @ ''s/^'' @ backslash @ ''(kind: KubeProxyConfiguration'' @ backslash @
     '')$/'' @ backslash @ ''1'' @ backslash @ ''nmode: '' @ mode @ ''/'' @ double_quote_char @ '' '' @ path"

definition merge_command :: "string \<Rightarrow> string" where
  "merge_command mode =
     ''/bin/sh -ec '' @ [CHR 0x27] @ ''('' @ sed_command kubeadmConfigFilePath mode @ '') || ('' @
     ''cat /etc/kubernetes/kubeproxy-config.yaml >>'' @ kubeadmConfigFilePath @ '')'' @ [CHR 0x27]"

definition addKubeProxyConfigFileAndCommand :: "string \<Rightarrow> kubeadm_config_spec \<Rightarrow> kubeadm_config_spec" where
  "addKubeProxyConfigFileAndCommand mode s =
     add_pre_commands [merge_command mode]
       (add_files [\<lparr>mf_path = ''/etc/kubernetes/kubeproxy-config.yaml'', mf_owner = ''root:root'',
          mf_permissions = ''0644'', mf_content = kube_proxy_config mode, mf_secret = None\<rparr>] s)"

definition disable_kube_proxy :: "kubeadm_config_spec \<Rightarrow> kubeadm_config_spec" where
  "disable_kube_proxy s =
     (if ''addon/kube-proxy'' \<in> set (ks_skip_phases s) then s
      else s\<lparr>ks_skip_phases := ks_skip_phases s @ [''addon/kube-proxy'']\<rparr>)"

definition kube_proxy_mutFn :: "string \<Rightarrow> kcp_template \<Rightarrow> string + kcp_template" where
  "kube_proxy_mutFn mode t =
     (if mode = ''disabled'' then Inr (on_spec disable_kube_proxy t)
      else if mode = ''iptables'' \<or> mode = ''nftables'' then
        Inr (on_spec (addKubeProxyConfigFileAndCommand mode) t)
      else Inl (''unknown kube proxy mode '' @ quoted mode))"

definition kubeproxymode_Mutate ::
    "('doc, 'b, 'o, 'p) template_env \<Rightarrow> string variable \<Rightarrow> 'doc \<Rightarrow> string + 'doc" where
  "kubeproxymode_Mutate env v obj =
     (let patch = (\<lambda>mode.
            if mode = [] then Inr obj
            else bind_sum [] (patch_control_plane env (kube_proxy_mutFn mode) obj)
              (patch_managed env (\<lambda>disable. Inr (if mode = ''disabled'' then True else disable))))
      in case v of
           Failed err \<Rightarrow> Inl err
         | Missing _ \<Rightarrow> patch []
         | Found mode \<Rightarrow> patch mode)"

section \<open>The image repository (\<open>kubeadm/kubernetesimagerepository\<close>)\<close>

definition imagerepository_Mutate ::
    "('doc, 'b, 'o, 'p) template_env \<Rightarrow> string variable \<Rightarrow> 'doc \<Rightarrow> string + 'doc" where
  "imagerepository_Mutate env v obj =
     (case v of
        Missing _ \<Rightarrow> Inr obj
      | Failed err \<Rightarrow> Inl err
      | Found repository \<Rightarrow>
          patch_control_plane env (\<lambda>t. Inr (on_spec (\<lambda>s. s\<lparr>ks_image_repository := repository\<rparr>) t)) obj)"

section \<open>Files of containerd (\<open>kubeadm/containerd*\<close>, \<open>pkg/common\<close>)\<close>

text \<open>
  The contents of the embedded files are arguments.  \<open>filepath.Join\<close> is given two clean paths
  here, so it only puts a slash between them.
\<close>

definition ConfigFilePathOnRemote :: "string \<Rightarrow> string" where
  "ConfigFilePathOnRemote relativePath = ''/etc/caren/'' @ relativePath"

definition ContainerdScriptPathOnRemote :: "string \<Rightarrow> string" where
  "ContainerdScriptPathOnRemote relativePath = ''/etc/caren/containerd/'' @ relativePath"

definition ContainerdPatchPathOnRemote :: "string \<Rightarrow> string" where
  "ContainerdPatchPathOnRemote relativePath = ''/etc/caren/containerd/patches/'' @ relativePath"

definition script_file :: "string \<Rightarrow> string \<Rightarrow> string \<Rightarrow> machine_file" where
  "script_file path permissions content =
     \<lparr>mf_path = path, mf_owner = [], mf_permissions = permissions, mf_content = content, mf_secret = None\<rparr>"

definition generateMetricsConfigDropIn :: "string \<Rightarrow> machine_file" where
  "generateMetricsConfigDropIn content =
     script_file (ContainerdPatchPathOnRemote ''metrics-config.toml'') ''0600'' content"

definition generateUnprivilegedPortsConfigDropIn :: "string \<Rightarrow> machine_file" where
  "generateUnprivilegedPortsConfigDropIn content =
     script_file (ContainerdPatchPathOnRemote ''unprivileged-ports-config.toml'') ''0600'' content"

definition containerdmetrics_Mutate ::
    "('doc, 'b, 'o, 'p) template_env \<Rightarrow> string \<Rightarrow> 'doc \<Rightarrow> string + 'doc" where
  "containerdmetrics_Mutate env content obj =
     patch_both env (add_files [generateMetricsConfigDropIn content]) obj"

definition containerdunprivilegedports_Mutate ::
    "('doc, 'b, 'o, 'p) template_env \<Rightarrow> string \<Rightarrow> 'doc \<Rightarrow> string + 'doc" where
  "containerdunprivilegedports_Mutate env content obj =
     patch_both env (add_files [generateUnprivilegedPortsConfigDropIn content]) obj"

definition generateContainerdRestartScript :: "string \<Rightarrow> machine_file \<times> string" where
  "generateContainerdRestartScript content =
     (script_file (ContainerdScriptPathOnRemote ''restart.sh'') ''0700'' content,
      ''/bin/bash '' @ ContainerdScriptPathOnRemote ''restart.sh'')"

text \<open>
  The script template takes the image and the directory of the patches; it is a constant that
  parses, so only its execution may fail.
\<close>

definition generateContainerdApplyPatchesScript ::
    "(string \<times> string \<Rightarrow> string + string) \<Rightarrow> string + (machine_file \<times> string)" where
  "generateContainerdApplyPatchesScript tpl =
     (case tpl (''ghcr.io/mesosphere/toml-merge:v0.2.0'', ''/etc/caren/containerd/patches'') of
        Inl err \<Rightarrow> Inl (''failed executing template: '' @ err)
      | Inr content \<Rightarrow>
          Inr (script_file (ContainerdScriptPathOnRemote ''apply-patches.sh'') ''0700'' content,
            ''/bin/bash '' @ ContainerdScriptPathOnRemote ''apply-patches.sh''))"

definition containerd_restart_Mutate ::
    "('doc, 'b, 'o, 'p) template_env \<Rightarrow> (string \<times> string \<Rightarrow> string + string) \<Rightarrow> string \<Rightarrow> 'doc \<Rightarrow>
     string + 'doc" where
  "containerd_restart_Mutate env tpl restart obj =
     (case generateContainerdApplyPatchesScript tpl of
        Inl err \<Rightarrow> Inl err
      | Inr (applyFile, applyCommand) \<Rightarrow>
          let (restartFile, restartCommand) = generateContainerdRestartScript restart
          in patch_both env
               (\<lambda>s. add_pre_commands [applyCommand, restartCommand] (add_files [applyFile, restartFile] s)) obj)"

end
