(* ===== verification/InfraHandlers.thy ===== *)
theory InfraHandlers
  imports KubeadmSpec NodeMutations
begin

text \<open>
  The patch handlers of the infrastructure providers, \<open>pkg/handlers/nutanix\<close>, \<open>aws\<close>,
  \<open>eks\<close> and \<open>docker\<close> under \<open>mutation\<close>: each reads a variable and changes the
  template of the infrastructure cluster or of the machines.  Decoding base64 is a parameter, and
  so are the JSON libraries of each type of template.
\<close>

section \<open>Templates\<close>

record nutanix_prism_endpoint =
  npe_address :: string
  npe_port :: nat
  npe_insecure :: bool
  npe_secret_name :: string
  npe_secret_namespace :: string
  npe_trust_bundle :: "string option"

record nutanix_cluster_template =
  nct_endpoint :: "string \<times> int"
  nct_prism_central :: "nutanix_prism_endpoint option"
  nct_failure_domains :: "string list"

text \<open>Quantities are given by their printed form; a GPU by its type, device and name.\<close>

record nutanix_machine_template =
  nmt_boot_type :: string
  nmt_cluster :: resource_id
  nmt_image :: "resource_id option"
  nmt_image_lookup :: "image_lookup option"
  nmt_vcpu_sockets :: int
  nmt_vcpus_per_socket :: int
  nmt_memory :: string
  nmt_disk :: string
  nmt_subnets :: "resource_id list"
  nmt_categories :: "(string \<times> string) list"
  nmt_gpus :: "(string \<times> int option \<times> string option) list"
  nmt_project :: "resource_id option"

record cni_ingress_rule =
  ir_description :: string
  ir_protocol :: string
  ir_from :: int
  ir_to :: int

record aws_cluster_template =
  act_cni_rules :: "cni_ingress_rule list option"
  act_tags :: "(string \<times> string) list"
  act_region :: string
  act_vpc :: string
  act_subnets :: "string list"
  act_load_balancer :: "string option option"
  act_identity :: "(string \<times> string) option"

record aws_volume =
  vol_device :: string
  vol_size :: int
  vol_type :: string
  vol_iops :: int
  vol_throughput :: "int option"
  vol_encrypted :: "bool option"
  vol_key :: string

record aws_machine_template =
  amt_ami :: "string option"
  amt_lookup :: "string \<times> string \<times> string"
  amt_instance_profile :: string
  amt_instance_type :: string
  amt_placement_group :: string
  amt_security_groups :: "string list"
  amt_tags :: "(string \<times> string) list"
  amt_root_volume :: "aws_volume option"
  amt_volumes :: "aws_volume list"

record eks_control_plane_template =
  ect_region :: string
  ect_vpc :: string
  ect_subnets :: "string list"
  ect_identity :: "(string \<times> string) option"
  ect_tags :: "(string \<times> string) list"

record ('doc, 'b, 'o, 'p) infra_env =
  ie_base :: "('doc, 'b, 'o, 'p) template_env"
  ie_nutanix_cluster :: "('doc, nutanix_cluster_template, 'b, 'o, 'p) patch_libs"
  ie_nutanix_machine :: "('doc, nutanix_machine_template, 'b, 'o, 'p) patch_libs"
  ie_aws_cluster :: "('doc, aws_cluster_template, 'b, 'o, 'p) patch_libs"
  ie_aws_machine :: "('doc, aws_machine_template, 'b, 'o, 'p) patch_libs"
  ie_eks_control_plane :: "('doc, eks_control_plane_template, 'b, 'o, 'p) patch_libs"
  ie_docker_machine :: "('doc, string, 'b, 'o, 'p) patch_libs"

section \<open>A variable that is found\<close>

text \<open>
  What all handlers do first: a variable that is not there leaves the document alone, another
  error is returned.
\<close>

definition on_found :: "'a variable \<Rightarrow> ('a \<Rightarrow> 'doc \<Rightarrow> string + 'doc) \<Rightarrow> 'doc \<Rightarrow> string + 'doc" where
  "on_found v f obj =
     (case v of Missing _ \<Rightarrow> Inr obj | Failed err \<Rightarrow> Inl err | Found a \<Rightarrow> f a obj)"

definition patch_infra ::
    "('doc, 'b, 'o, 'p) infra_env \<Rightarrow> ('doc, 'typed, 'b, 'o, 'p) patch_libs \<Rightarrow> patch_selector \<Rightarrow>
     ('typed \<Rightarrow> string + 'typed) \<Rightarrow> 'doc \<Rightarrow> string + 'doc" where
  "patch_infra env libs sel mutFn obj =
     MutateIfApplicable libs (te_gvk_text (ie_base env)) (template_matches (ie_base env) sel obj) mutFn obj"

section \<open>Nutanix\<close>

definition nutanix_cluster_selector :: patch_selector where
  "nutanix_cluster_selector = InfrastructureCluster ''v1beta1'' ''NutanixClusterTemplate''"

definition controlplaneendpoint_Mutate ::
    "('doc, 'b, 'o, 'p) infra_env \<Rightarrow> control_plane_endpoint variable \<Rightarrow> 'doc \<Rightarrow> string + 'doc" where
  "controlplaneendpoint_Mutate env v =
     on_found v (\<lambda>e. patch_infra env (ie_nutanix_cluster env) nutanix_cluster_selector
       (\<lambda>t. Inr (t\<lparr>nct_endpoint := (cpe_host e, cpe_port e)\<rparr>)))"

definition prism_central_change ::
    "url_parser \<Rightarrow> (string \<Rightarrow> string + string) \<Rightarrow> string \<Rightarrow> prism_central_endpoint \<Rightarrow>
     nutanix_cluster_template \<Rightarrow> string + nutanix_cluster_template" where
  "prism_central_change parse_uri DecodeString namespace e t =
     bind_sum [] (ParseURL parse_uri e) (\<lambda>(address, port).
       let prismCentral = \<lparr>npe_address = address, npe_port = port, npe_insecure = pce_insecure e,
             npe_secret_name = pce_secret_name e, npe_secret_namespace = namespace,
             npe_trust_bundle = None\<rparr>
       in if pce_trust_bundle e \<noteq> [] then
            bind_sum ''error decoding additional trust bundle: '' (DecodeString (pce_trust_bundle e))
              (\<lambda>decoded. Inr (t\<lparr>nct_prism_central := Some (prismCentral\<lparr>npe_trust_bundle := Some decoded\<rparr>)\<rparr>))
          else Inr (t\<lparr>nct_prism_central := Some prismCentral\<rparr>))"

definition prismcentralendpoint_Mutate ::
    "('doc, 'b, 'o, 'p) infra_env \<Rightarrow> url_parser \<Rightarrow> (string \<Rightarrow> string + string) \<Rightarrow> string \<Rightarrow>
     prism_central_endpoint variable \<Rightarrow> 'doc \<Rightarrow> string + 'doc" where
  "prismcentralendpoint_Mutate env parse_uri DecodeString namespace v =
     on_found v (\<lambda>e. patch_infra env (ie_nutanix_cluster env) nutanix_cluster_selector
       (prism_central_change parse_uri DecodeString namespace e))"

definition controlplanefailuredomains_Mutate ::
    "('doc, 'b, 'o, 'p) infra_env \<Rightarrow> string list variable \<Rightarrow> 'doc \<Rightarrow> string + 'doc" where
  "controlplanefailuredomains_Mutate env v =
     on_found v (\<lambda>fds obj. if fds = [] then Inr obj
       else patch_infra env (ie_nutanix_cluster env) nutanix_cluster_selector
         (\<lambda>t. Inr (t\<lparr>nct_failure_domains := fds\<rparr>)) obj)"

text \<open>All fields of \<open>NutanixMachineDetails\<close>; the checks use those of its parent only.\<close>

record machine_details_all = machine_details +
  mda_boot_type :: string
  mda_vcpu_sockets :: int
  mda_vcpus_per_socket :: int
  mda_memory :: string
  mda_disk :: string
  mda_categories :: "(string \<times> string) list"
  mda_gpus :: "(string \<times> int option \<times> string option) list"
  mda_project :: "resource_id option"

definition set_image ::
    "machine_details_all \<Rightarrow> nutanix_machine_template \<Rightarrow> string + nutanix_machine_template" where
  "set_image d t =
     (case md_image d of
        Some img \<Rightarrow> Inr (t\<lparr>nmt_image := Some img, nmt_image_lookup := None\<rparr>)
      | None \<Rightarrow>
          (case md_image_lookup d of
             Some lookup \<Rightarrow> Inr (t\<lparr>nmt_image_lookup := Some lookup, nmt_image := None\<rparr>)
           | None \<Rightarrow> Inl ''image or image lookup must be set''))"

definition machine_details_change ::
    "machine_details_all \<Rightarrow> nutanix_machine_template \<Rightarrow> string + nutanix_machine_template" where
  "machine_details_change d t =
     (let t = t\<lparr>nmt_boot_type := mda_boot_type d\<rparr>;
          t = (case md_cluster d of None \<Rightarrow> t | Some c \<Rightarrow> t\<lparr>nmt_cluster := c\<rparr>)
      in bind_sum [] (set_image d t) (\<lambda>t.
           let t = t\<lparr>nmt_vcpu_sockets := mda_vcpu_sockets d, nmt_vcpus_per_socket := mda_vcpus_per_socket d,
                 nmt_memory := mda_memory d, nmt_disk := mda_disk d\<rparr>;
               t = (if md_subnets d \<noteq> [] then t\<lparr>nmt_subnets := md_subnets d\<rparr> else t)
           in Inr (t\<lparr>nmt_categories := mda_categories d, nmt_gpus := mda_gpus d, nmt_project := mda_project d\<rparr>)))"

definition machinedetails_Mutate ::
    "('doc, 'b, 'o, 'p) infra_env \<Rightarrow> patch_selector \<Rightarrow> machine_details_all variable \<Rightarrow> 'doc \<Rightarrow>
     string + 'doc" where
  "machinedetails_Mutate env sel v =
     on_found v (\<lambda>d. patch_infra env (ie_nutanix_machine env) sel (machine_details_change d))"

definition machinedetails_control_plane_selector :: patch_selector where
  "machinedetails_control_plane_selector =
     InfrastructureControlPlaneMachines ''v1beta1'' ''NutanixMachineTemplate''"

definition machinedetails_worker_selector :: patch_selector where
  "machinedetails_worker_selector =
     InfrastructureWorkerMachineTemplates ''v1beta1'' ''NutanixMachineTemplate''"

section \<open>The cluster template of AWS\<close>

definition aws_cluster_selector :: patch_selector where
  "aws_cluster_selector = InfrastructureCluster ''v1beta2'' ''AWSClusterTemplate''"

definition patch_aws_cluster ::
    "('doc, 'b, 'o, 'p) infra_env \<Rightarrow> (aws_cluster_template \<Rightarrow> aws_cluster_template) \<Rightarrow> 'doc \<Rightarrow>
     string + 'doc" where
  "patch_aws_cluster env f = patch_infra env (ie_aws_cluster env) aws_cluster_selector (\<lambda>t. Inr (f t))"

definition calico_rules :: "cni_ingress_rule list" where
  "calico_rules =
     [\<lparr>ir_description = ''typha (calico)'', ir_protocol = ''tcp'', ir_from = 5473, ir_to = 5473\<rparr>,
      \<lparr>ir_description = ''bgp (calico)'', ir_protocol = ''tcp'', ir_from = 179, ir_to = 179\<rparr>,
      \<lparr>ir_description = ''IP-in-IP (calico)'', ir_protocol = ''4'', ir_from = -1, ir_to = 65535\<rparr>,
      \<lparr>ir_description = ''node metrics (calico)'', ir_protocol = ''tcp'', ir_from = 9091, ir_to = 9091\<rparr>,
      \<lparr>ir_description = ''typha metrics (calico)'', ir_protocol = ''tcp'', ir_from = 9093, ir_to = 9093\<rparr>]"

definition addOrUpdateCNIIngressRules ::
    "cni_ingress_rule list \<Rightarrow> cni_ingress_rule list \<Rightarrow> cni_ingress_rule list" where
  "addOrUpdateCNIIngressRules rules newRules =
     fold (\<lambda>r rs. if r \<in> set rs then rs else rs @ [r]) newRules rules"

definition calico_change :: "aws_cluster_template \<Rightarrow> aws_cluster_template" where
  "calico_change t =
     t\<lparr>act_cni_rules := Some (addOrUpdateCNIIngressRules
       (case act_cni_rules t of None \<Rightarrow> [] | Some rs \<Rightarrow> rs) calico_rules)\<rparr>"

text \<open>The variable is the provider of the CNI.\<close>

definition calico_Mutate ::
    "('doc, 'b, 'o, 'p) infra_env \<Rightarrow> string variable \<Rightarrow> 'doc \<Rightarrow> string + 'doc" where
  "calico_Mutate env v =
     on_found v (\<lambda>provider obj.
       if provider \<noteq> ''Calico'' then Inr obj else patch_aws_cluster env calico_change obj)"

definition aws_load_balancer_Mutate ::
    "('doc, 'b, 'o, 'p) infra_env \<Rightarrow> string option variable \<Rightarrow> 'doc \<Rightarrow> string + 'doc" where
  "aws_load_balancer_Mutate env v =
     on_found v (\<lambda>scheme. patch_aws_cluster env (\<lambda>t. t\<lparr>act_load_balancer := Some scheme\<rparr>))"

definition aws_identity_Mutate ::
    "('doc, 'b, 'o, 'p) infra_env \<Rightarrow> (string \<times> string) variable \<Rightarrow> 'doc \<Rightarrow> string + 'doc" where
  "aws_identity_Mutate env v =
     on_found v (\<lambda>ref. patch_aws_cluster env (\<lambda>t. t\<lparr>act_identity := Some ref\<rparr>))"

definition aws_region_Mutate ::
    "('doc, 'b, 'o, 'p) infra_env \<Rightarrow> string variable \<Rightarrow> 'doc \<Rightarrow> string + 'doc" where
  "aws_region_Mutate env v = on_found v (\<lambda>r. patch_aws_cluster env (\<lambda>t. t\<lparr>act_region := r\<rparr>))"

definition aws_cluster_tags_Mutate ::
    "('doc, 'b, 'o, 'p) infra_env \<Rightarrow> (string \<times> string) list variable \<Rightarrow> 'doc \<Rightarrow> string + 'doc" where
  "aws_cluster_tags_Mutate env v = on_found v (\<lambda>tags. patch_aws_cluster env (\<lambda>t. t\<lparr>act_tags := tags\<rparr>))"

text \<open>The network: the ID of the VPC, where the VPC may be nil, and the IDs of the subnets.\<close>

definition network_vpc :: "string option \<times> string list \<Rightarrow> string \<Rightarrow> string" where
  "network_vpc net old = (case fst net of Some vpc \<Rightarrow> if vpc \<noteq> [] then vpc else old | None \<Rightarrow> old)"

definition network_subnets :: "string option \<times> string list \<Rightarrow> string list \<Rightarrow> string list" where
  "network_subnets net old = (if snd net \<noteq> [] then filter (\<lambda>s. s \<noteq> []) (snd net) else old)"

definition aws_network_Mutate ::
    "('doc, 'b, 'o, 'p) infra_env \<Rightarrow> (string option \<times> string list) variable \<Rightarrow> 'doc \<Rightarrow> string + 'doc" where
  "aws_network_Mutate env v =
     on_found v (\<lambda>net. patch_aws_cluster env
       (\<lambda>t. t\<lparr>act_vpc := network_vpc net (act_vpc t), act_subnets := network_subnets net (act_subnets t)\<rparr>))"

section \<open>The machine templates of AWS\<close>

definition aws_control_plane_selector :: patch_selector where
  "aws_control_plane_selector = InfrastructureControlPlaneMachines ''v1beta2'' ''AWSMachineTemplate''"

definition aws_worker_selector :: patch_selector where
  "aws_worker_selector = InfrastructureWorkerMachineTemplates ''v1beta2'' ''AWSMachineTemplate''"

definition patch_aws_machine ::
    "('doc, 'b, 'o, 'p) infra_env \<Rightarrow> patch_selector \<Rightarrow> (aws_machine_template \<Rightarrow> aws_machine_template) \<Rightarrow>
     'doc \<Rightarrow> string + 'doc" where
  "patch_aws_machine env sel f = patch_infra env (ie_aws_machine env) sel (\<lambda>t. Inr (f t))"

text \<open>The AMI: its ID, and the format, organisation and base system of its lookup.\<close>

definition ami_change ::
    "string \<times> (string \<times> string \<times> string) option \<Rightarrow> aws_machine_template \<Rightarrow> aws_machine_template" where
  "ami_change spec t =
     (let t = (if fst spec \<noteq> [] then t\<lparr>amt_ami := Some (fst spec)\<rparr> else t)
      in case snd spec of None \<Rightarrow> t | Some lookup \<Rightarrow> t\<lparr>amt_lookup := lookup\<rparr>)"

definition ami_Mutate ::
    "('doc, 'b, 'o, 'p) infra_env \<Rightarrow> patch_selector \<Rightarrow> (string \<times> (string \<times> string \<times> string) option) variable \<Rightarrow>
     'doc \<Rightarrow> string + 'doc" where
  "ami_Mutate env sel v = on_found v (\<lambda>spec. patch_aws_machine env sel (ami_change spec))"

definition iaminstanceprofile_Mutate ::
    "('doc, 'b, 'o, 'p) infra_env \<Rightarrow> patch_selector \<Rightarrow> string variable \<Rightarrow> 'doc \<Rightarrow> string + 'doc" where
  "iaminstanceprofile_Mutate env sel v =
     on_found v (\<lambda>p. patch_aws_machine env sel (\<lambda>t. t\<lparr>amt_instance_profile := p\<rparr>))"

definition instancetype_Mutate ::
    "('doc, 'b, 'o, 'p) infra_env \<Rightarrow> patch_selector \<Rightarrow> string variable \<Rightarrow> 'doc \<Rightarrow> string + 'doc" where
  "instancetype_Mutate env sel v =
     on_found v (\<lambda>p. patch_aws_machine env sel (\<lambda>t. t\<lparr>amt_instance_type := p\<rparr>))"

definition placementgroup_Mutate ::
    "('doc, 'b, 'o, 'p) infra_env \<Rightarrow> patch_selector \<Rightarrow> string variable \<Rightarrow> 'doc \<Rightarrow> string + 'doc" where
  "placementgroup_Mutate env sel v =
     on_found v (\<lambda>p. patch_aws_machine env sel (\<lambda>t. t\<lparr>amt_placement_group := p\<rparr>))"

definition securitygroups_Mutate ::
    "('doc, 'b, 'o, 'p) infra_env \<Rightarrow> patch_selector \<Rightarrow> string list variable \<Rightarrow> 'doc \<Rightarrow> string + 'doc" where
  "securitygroups_Mutate env sel v =
     on_found v (\<lambda>ids. patch_aws_machine env sel (\<lambda>t. t\<lparr>amt_security_groups := ids\<rparr>))"

definition aws_machine_tags_Mutate ::
    "('doc, 'b, 'o, 'p) infra_env \<Rightarrow> patch_selector \<Rightarrow> (string \<times> string) list variable \<Rightarrow> 'doc \<Rightarrow>
     string + 'doc" where
  "aws_machine_tags_Mutate env sel v =
     on_found v (\<lambda>tags. patch_aws_machine env sel (\<lambda>t. t\<lparr>amt_tags := tags\<rparr>))"

text \<open>A volume of the variable; the template has pointers for two of its fields.\<close>

record api_volume =
  av_device :: string
  av_size :: int
  av_type :: string
  av_iops :: int
  av_throughput :: int
  av_encrypted :: bool
  av_key :: string

definition toCAPAVolume :: "api_volume \<Rightarrow> aws_volume" where
  "toCAPAVolume v =
     \<lparr>vol_device = av_device v, vol_size = av_size v, vol_type = av_type v, vol_iops = av_iops v,
      vol_throughput = (if av_throughput v \<noteq> 0 then Some (av_throughput v) else None),
      vol_encrypted = (if av_encrypted v then Some True else None), vol_key = av_key v\<rparr>"

definition volumes_change ::
    "api_volume option \<times> api_volume list \<Rightarrow> aws_machine_template \<Rightarrow> aws_machine_template" where
  "volumes_change vols t =
     (let t = (case fst vols of None \<Rightarrow> t | Some r \<Rightarrow> t\<lparr>amt_root_volume := Some (toCAPAVolume r)\<rparr>)
      in if snd vols \<noteq> [] then t\<lparr>amt_volumes := map toCAPAVolume (snd vols)\<rparr> else t)"

definition volumes_Mutate ::
    "('doc, 'b, 'o, 'p) infra_env \<Rightarrow> patch_selector \<Rightarrow> (api_volume option \<times> api_volume list) variable \<Rightarrow>
     'doc \<Rightarrow> string + 'doc" where
  "volumes_Mutate env sel v = on_found v (\<lambda>vols. patch_aws_machine env sel (volumes_change vols))"

text \<open>The script that finds the placement group; its content is an argument.\<close>

definition PlacementGroupDiscoveryScriptFileOnRemote :: string where
  "PlacementGroupDiscoveryScriptFileOnRemote =
     ''/etc/kubernetes/node-feature-discovery/source.d/placementgroup_discovery.sh''"

definition add_discovery :: "string \<Rightarrow> kubeadm_config_spec \<Rightarrow> kubeadm_config_spec" where
  "add_discovery script s =
     add_pre_commands [PlacementGroupDiscoveryScriptFileOnRemote]
       (add_files [script_file PlacementGroupDiscoveryScriptFileOnRemote ''0700'' script] s)"

definition placementgroupnfd_control_plane_Mutate ::
    "('doc, 'b, 'o, 'p) infra_env \<Rightarrow> string \<Rightarrow> string variable \<Rightarrow> 'doc \<Rightarrow> string + 'doc" where
  "placementgroupnfd_control_plane_Mutate env script v =
     on_found v (\<lambda>_. patch_control_plane (ie_base env) (\<lambda>t. Inr (on_spec (add_discovery script) t)))"

definition placementgroupnfd_worker_Mutate ::
    "('doc, 'b, 'o, 'p) infra_env \<Rightarrow> string \<Rightarrow> string variable \<Rightarrow> 'doc \<Rightarrow> string + 'doc" where
  "placementgroupnfd_worker_Mutate env script v =
     on_found v (\<lambda>_. patch_workers (ie_base env) (\<lambda>s. Inr (add_discovery script s)))"

section \<open>EKS and Docker\<close>

definition patch_eks ::
    "('doc, 'b, 'o, 'p) infra_env \<Rightarrow> (eks_control_plane_template \<Rightarrow> eks_control_plane_template) \<Rightarrow> 'doc \<Rightarrow>
     string + 'doc" where
  "patch_eks env f =
     patch_infra env (ie_eks_control_plane env)
       \<lparr>ps_api_version = te_eks_control_plane_version (ie_base env), ps_kind = ''AWSManagedControlPlaneTemplate'',
        ps_infrastructure = None, ps_control_plane = Some True, ps_classes = None\<rparr>
       (\<lambda>t. Inr (f t))"

definition eks_region_Mutate ::
    "('doc, 'b, 'o, 'p) infra_env \<Rightarrow> string variable \<Rightarrow> 'doc \<Rightarrow> string + 'doc" where
  "eks_region_Mutate env v = on_found v (\<lambda>r. patch_eks env (\<lambda>t. t\<lparr>ect_region := r\<rparr>))"

definition eks_identity_Mutate ::
    "('doc, 'b, 'o, 'p) infra_env \<Rightarrow> (string \<times> string) variable \<Rightarrow> 'doc \<Rightarrow> string + 'doc" where
  "eks_identity_Mutate env v = on_found v (\<lambda>ref. patch_eks env (\<lambda>t. t\<lparr>ect_identity := Some ref\<rparr>))"

definition eks_tags_Mutate ::
    "('doc, 'b, 'o, 'p) infra_env \<Rightarrow> (string \<times> string) list variable \<Rightarrow> 'doc \<Rightarrow> string + 'doc" where
  "eks_tags_Mutate env v = on_found v (\<lambda>tags. patch_eks env (\<lambda>t. t\<lparr>ect_tags := tags\<rparr>))"

definition eks_network_Mutate ::
    "('doc, 'b, 'o, 'p) infra_env \<Rightarrow> (string option \<times> string list) variable \<Rightarrow> 'doc \<Rightarrow> string + 'doc" where
  "eks_network_Mutate env v =
     on_found v (\<lambda>net. patch_eks env
       (\<lambda>t. t\<lparr>ect_vpc := network_vpc net (ect_vpc t), ect_subnets := network_subnets net (ect_subnets t)\<rparr>))"

definition eks_placementgroupnfd_Mutate ::
    "('doc, 'b, 'o, 'p) infra_env \<Rightarrow> string \<Rightarrow> string variable \<Rightarrow> 'doc \<Rightarrow> string + 'doc" where
  "eks_placementgroupnfd_Mutate env script v =
     on_found v (\<lambda>_. patch_nodeadm (ie_base env)
       (\<lambda>t. Inr (t\<lparr>na_files := na_files t @
            [script_file PlacementGroupDiscoveryScriptFileOnRemote ''0700'' script],
          na_pre_commands := na_pre_commands t @ [PlacementGroupDiscoveryScriptFileOnRemote]\<rparr>)))"

text \<open>
  A variable without an image stands for the image of the version; the version that is not
  found is the empty text.  The two handlers differ in the selector and the version they read.
\<close>

definition customimage_Mutate ::
    "('doc, 'b, 'o, 'p) infra_env \<Rightarrow> patch_selector \<Rightarrow> string variable \<Rightarrow> string variable \<Rightarrow> 'doc \<Rightarrow>
     string + 'doc" where
  "customimage_Mutate env sel v version obj =
     (case v of
        Failed err \<Rightarrow> Inl err
      | _ \<Rightarrow>
          let customImage = (case v of Found img \<Rightarrow> img | _ \<Rightarrow> [])
          in patch_infra env (ie_docker_machine env) sel
               (\<lambda>_. if customImage \<noteq> [] then Inr customImage
                 else case version of
                   Failed err \<Rightarrow> Inl err
                 | Missing _ \<Rightarrow> Inr ''ghcr.io/mesosphere/kind-node:''
                 | Found kubernetesVersion \<Rightarrow> Inr (''ghcr.io/mesosphere/kind-node:'' @ kubernetesVersion)) obj)"

section \<open>Adding rules twice\<close>

lemma set_addOrUpdate: "set (addOrUpdateCNIIngressRules rules new) = set rules \<union> set new"
  unfolding addOrUpdateCNIIngressRules_def by (induction new arbitrary: rules) auto

lemma addOrUpdate_known: "set new \<subseteq> set rules \<Longrightarrow> addOrUpdateCNIIngressRules rules new = rules"
  unfolding addOrUpdateCNIIngressRules_def by (induction new arbitrary: rules) auto

lemma calico_change_idem: "calico_change (calico_change t) = calico_change t"
  by (simp add: calico_change_def addOrUpdate_known set_addOrUpdate)

end
