(* ===== verification/NetipText.thy ===== *)
theory NetipText
  imports Netip
begin

text \<open>
  Addresses and prefixes of \<open>Netip\<close> that were printed are read back as they were: IPv4 and
  IPv6 addresses (with the ellipsis for the longest run of zero groups, and the dotted form of
  an IPv4 address inside an IPv6 address) and prefixes.
\<close>

section \<open>Hexadecimal groups\<close>

lemma hex_value_hex_digit [simp]: "d < 16 \<Longrightarrow> hex_value (hex_digit d) = Some d"
  by (auto simp: hex_value_def hex_digit_def Let_def)

lemma hex_digits_hex: "list_all (\<lambda>c. hex_value c \<noteq> None) (hex_digits n)"
proof (induction n rule: hex_digits.induct)
  case (1 n)
  then show ?case by (cases "n < 16") (auto simp: hex_digits.simps [of n])
qed

lemma hex_digits_nonempty [simp]: "hex_digits n \<noteq> []"
  by (simp add: hex_digits.simps [of n])

lemma length_hex_digits: "0 < k \<Longrightarrow> n < 16 ^ k \<Longrightarrow> length (hex_digits n) \<le> k"
proof (induction k arbitrary: n)
  case 0
  then show ?case by simp
next
  case (Suc k)
  show ?case
  proof (cases "n < 16")
    case True
    then show ?thesis by (simp add: hex_digits.simps [of n])
  next
    case False
    then have "0 < k" using Suc.prems(2) by (cases k) auto
    moreover have "n div 16 < 16 ^ k" using Suc.prems(2) by (simp add: div_less_iff_less_mult mult.commute)
    ultimately have "length (hex_digits (n div 16)) \<le> k" by (rule Suc.IH)
    then show ?thesis using False by (simp add: hex_digits.simps [of n])
  qed
qed

lemma hex_group_digits:
  "n < 65536 \<Longrightarrow> hex_group (hex_digits n @ s) 0 0 = hex_group s (length (hex_digits n)) n"
proof (induction n arbitrary: s rule: hex_digits.induct)
  case (1 n)
  show ?case
  proof (cases "n < 16")
    case True
    then show ?thesis by (simp add: hex_digits.simps [of n])
  next
    case False
    have "n div 16 < 16 ^ 3" using 1(2) by simp
    then have "length (hex_digits (n div 16)) \<le> 3" by (intro length_hex_digits) simp_all
    moreover have "hex_group (hex_digits (n div 16) @ hex_digit (n mod 16) # s) 0 0 =
        hex_group (hex_digit (n mod 16) # s) (length (hex_digits (n div 16))) (n div 16)"
      using 1(2) by (intro 1(1) False) simp
    ultimately show ?thesis using False 1(2) by (simp add: hex_digits.simps [of n])
  qed
qed

lemma hex_value_marks [simp]: "hex_value (CHR '':'') = None" "hex_value (CHR ''.'') = None"
  "hex_value (CHR ''%'') = None" "hex_value (CHR ''-'') = None" "hex_value (CHR ''/'') = None"
  by (simp_all add: hex_value_def)

lemma digit_hex: "is_digit c \<Longrightarrow> hex_value c \<noteq> None"
  by (simp add: is_digit_def hex_value_def Let_def)

section \<open>The loop over the groups\<close>

lemma ipv6_loop_continue:
  assumes "length gs < 8" "g < 65536" "c \<noteq> CHR '':''"
  shows "ipv6_loop inp ell gs (hex_digits g @ CHR '':'' # c # s) = ipv6_loop inp ell (gs @ [g]) (c # s)"
  using assms by (subst ipv6_loop.simps) (simp add: hex_group_digits)

lemma ipv6_loop_last:
  assumes "length gs < 8" "g < 65536"
  shows "ipv6_loop inp ell gs (hex_digits g) = Inr (gs @ [g], ell, [])"
  using assms hex_group_digits [of g "[]"] by (subst ipv6_loop.simps) simp

lemma ipv6_loop_ellipsis:
  assumes "length gs < 8" "g < 65536"
  shows "ipv6_loop inp None gs (hex_digits g @ CHR '':'' # CHR '':'' # s) =
    (if s = [] then Inr (gs @ [g], Some (length gs + 1), [])
     else ipv6_loop inp (Some (length gs + 1)) (gs @ [g]) s)"
  using assms by (subst ipv6_loop.simps) (simp add: hex_group_digits)

lemma groups_text_Cons:
  "gs \<noteq> [] \<Longrightarrow> groups_text (g # gs) = hex_digits g @ CHR '':'' # groups_text gs"
  by (cases gs) (simp_all add: groups_text_def)

lemma groups_text_single [simp]: "groups_text [g] = hex_digits g"
  by (simp add: groups_text_def)

lemma groups_text_Nil_iff [simp]: "groups_text gs = [] \<longleftrightarrow> gs = []"
  by (cases gs; cases "tl gs") (simp_all add: groups_text_def)

lemma hex_digits_head: "\<exists>c s. hex_digits g = c # s \<and> hex_value c \<noteq> None"
proof (cases "hex_digits g")
  case (Cons c s)
  then show ?thesis using hex_digits_hex [of g] by auto
qed simp

lemma groups_text_head: "gs \<noteq> [] \<Longrightarrow> \<exists>c s. groups_text gs = c # s \<and> hex_value c \<noteq> None"
  using hex_digits_head [of "hd gs"]
  by (cases gs; cases "tl gs = []") (auto simp: groups_text_Cons)

lemma ipv6_loop_step:
  assumes "length acc < 8" "g < 65536" "gs \<noteq> []"
  shows "ipv6_loop inp ell acc (groups_text (g # gs) @ s) =
    ipv6_loop inp ell (acc @ [g]) (groups_text gs @ s)"
proof -
  obtain c t where c: "groups_text gs = c # t" "hex_value c \<noteq> None"
    using groups_text_head [OF assms(3)] by blast
  then have "c \<noteq> CHR '':''" by auto
  then show ?thesis using ipv6_loop_continue [OF assms(1,2)] c(1) assms(3)
    by (simp add: groups_text_Cons)
qed

lemma ipv6_loop_groups:
  "gs \<noteq> [] \<Longrightarrow> length acc + length gs \<le> 8 \<Longrightarrow> list_all (\<lambda>g. g < 65536) gs \<Longrightarrow>
     ipv6_loop inp ell acc (groups_text gs) = Inr (acc @ gs, ell, [])"
proof (induction gs arbitrary: acc)
  case Nil
  then show ?case by simp
next
  case (Cons g gs)
  show ?case
  proof (cases "gs = []")
    case True
    then show ?thesis using Cons.prems by (simp add: ipv6_loop_last)
  next
    case False
    then have "ipv6_loop inp ell acc (groups_text (g # gs)) = ipv6_loop inp ell (acc @ [g]) (groups_text gs)"
      using ipv6_loop_step [of acc g gs inp ell "[]"] Cons.prems by simp
    then show ?thesis using Cons.IH [of "acc @ [g]"] Cons.prems False by simp
  qed
qed

lemma ipv6_loop_groups_ellipsis:
  "gs \<noteq> [] \<Longrightarrow> length acc + length gs \<le> 8 \<Longrightarrow> list_all (\<lambda>g. g < 65536) gs \<Longrightarrow>
     ipv6_loop inp None acc (groups_text gs @ CHR '':'' # CHR '':'' # s) =
       (if s = [] then Inr (acc @ gs, Some (length acc + length gs), [])
        else ipv6_loop inp (Some (length acc + length gs)) (acc @ gs) s)"
proof (induction gs arbitrary: acc)
  case Nil
  then show ?case by simp
next
  case (Cons g gs)
  show ?case
  proof (cases "gs = []")
    case True
    then show ?thesis using Cons.prems by (simp add: ipv6_loop_ellipsis)
  next
    case False
    then show ?thesis
      using Cons.IH [of "acc @ [g]"] Cons.prems
        ipv6_loop_step [of acc g gs inp None "CHR '':'' # CHR '':'' # s"] by simp
  qed
qed

section \<open>The longest run of zeros\<close>

lemma zero_run_zeros: "l \<le> zero_run gs \<Longrightarrow> take l gs = replicate l 0 \<and> l \<le> length gs"
proof (induction gs arbitrary: l)
  case Nil
  then show ?case by (simp add: zero_run_def)
next
  case (Cons g gs)
  then show ?case by (cases l; cases "g = 0") (auto simp: zero_run_def)
qed

lemma longest_zero_run_zeros:
  assumes "longest_zero_run gs = Some (i, l)"
  shows "i + l \<le> length gs" "2 \<le> l" "gs = take i gs @ replicate l 0 @ drop (i + l) gs"
proof -
  let ?step = "\<lambda>i best. let l = zero_run (drop i gs)
        in if 2 \<le> l \<and> (case best of None \<Rightarrow> True | Some (_, l') \<Rightarrow> l' < l) then Some (i, l) else best"
  have "fold ?step is best = Some (i, l) \<Longrightarrow>
      (best = Some (i, l) \<longrightarrow> 2 \<le> l \<and> l = zero_run (drop i gs)) \<Longrightarrow>
      2 \<le> l \<and> l = zero_run (drop i gs)" for "is" best
  proof (induction "is" arbitrary: best)
    case (Cons j js)
    show ?case by (rule Cons.IH [OF Cons.prems(1) [simplified]]) (use Cons.prems(2) in \<open>auto simp: Let_def\<close>)
  qed simp
  from this [of "[0..<length gs]" None] assms have l: "2 \<le> l" "l = zero_run (drop i gs)"
    by (simp_all add: longest_zero_run_def)
  then have z: "take l (drop i gs) = replicate l 0" "l \<le> length (drop i gs)"
    using zero_run_zeros [of l "drop i gs"] by auto
  show "2 \<le> l" by (fact l)
  then show "i + l \<le> length gs" using z(2) by simp
  have "gs = take i gs @ take l (drop i gs) @ drop l (drop i gs)" by (simp only: append_take_drop_id)
  then show "gs = take i gs @ replicate l 0 @ drop (i + l) gs" by (simp only: z(1) drop_drop add.commute)
qed

section \<open>Addresses\<close>

lemma ip_groups_fields [simp]: "length (ip_groups w) = 8" "list_all (\<lambda>g. g < 65536) (ip_groups w)"
  by (simp_all add: ip_groups_def list_all_iff)

text \<open>The digits of a number in a base, the most significant first, give the number back.\<close>

lemma horner_digits:
  "horner b (map (\<lambda>i. n div b ^ (k - i) mod b) [0..<Suc k]) = n mod b ^ Suc k"
proof (induction k arbitrary: n)
  case 0
  then show ?case by (simp add: horner_def)
next
  case (Suc k)
  have "map (\<lambda>i. n div b ^ (Suc k - i) mod b) [0..<Suc k] =
      map (\<lambda>i. (n div b) div b ^ (k - i) mod b) [0..<Suc k]"
    by (intro map_cong refl) (auto simp: Suc_diff_le div_mult2_eq)
  then have "map (\<lambda>i. n div b ^ (Suc k - i) mod b) [0..<Suc (Suc k)] =
      map (\<lambda>i. (n div b) div b ^ (k - i) mod b) [0..<Suc k] @ [n mod b]"
    by (subst upt_Suc_append) simp_all
  then have "horner b (map (\<lambda>i. n div b ^ (Suc k - i) mod b) [0..<Suc (Suc k)]) =
      b * (n div b mod b ^ Suc k) + n mod b"
    using Suc.IH [of "n div b"] by (simp add: horner_def del: upt_Suc)
  then show ?case by (simp only: mod_mult2_eq [symmetric] power_Suc)
qed

lemma horner_ip_groups: "horner 65536 (ip_groups w) = unat w"
proof -
  have "unat w < 65536 ^ Suc 7" using unsigned_less [where 'a = nat and w = w] by simp
  then have "unat w mod 65536 ^ Suc 7 = unat w" by (rule mod_less)
  moreover have "Suc 7 = (8 :: nat)" by simp
  ultimately show ?thesis
    using horner_digits [of 65536 "unat w" 7] by (simp only: ip_groups_def)
qed

text \<open>The characters of a printed address.\<close>

definition addr_char :: "char \<Rightarrow> bool" where
  "addr_char c \<longleftrightarrow> hex_value c \<noteq> None \<or> c = CHR '':'' \<or> c = CHR ''.''"

lemma addr_char_marks [simp]: "addr_char (CHR '':'')" "addr_char (CHR ''.'')"
  "\<not> addr_char (CHR ''%'')" "\<not> addr_char (CHR ''-'')" "\<not> addr_char (CHR ''/'')"
  by (simp_all add: addr_char_def)

lemma addr_char_hex_digits: "list_all addr_char (hex_digits n)"
  using hex_digits_hex [of n] by (auto simp: list_all_iff addr_char_def)

lemma addr_char_nat_digits: "list_all addr_char (nat_digits n)"
  using list_all_is_digit_nat_digits [of n] by (auto simp: list_all_iff addr_char_def dest!: digit_hex)

lemma addr_char_groups_text: "list_all addr_char (groups_text gs)"
proof (induction gs)
  case Nil
  then show ?case by (simp add: groups_text_def)
next
  case (Cons g gs)
  then show ?case
    by (cases "gs = []") (simp_all add: groups_text_Cons addr_char_hex_digits)
qed

lemma addr_char_string4: "list_all addr_char (string4 w)"
  by (simp add: string4_def Let_def addr_char_nat_digits)

lemma addr_char_mapped: "list_all addr_char ''::ffff:''"
  by (simp add: addr_char_def hex_value_def)

lemma addr_char_string6: "list_all addr_char (string6 w)"
proof (cases "take 6 (ip_groups w) = [0, 0, 0, 0, 0, 65535]")
  case True
  then have "string6 w = ''::ffff:'' @ string4 (ucast w)" by (simp add: string6_def Let_def)
  then show ?thesis
    using addr_char_mapped addr_char_string4 by (simp only: list_all_append)
next
  case False
  then show ?thesis
    by (cases "longest_zero_run (ip_groups w)")
      (auto simp: string6_def Let_def addr_char_groups_text)
qed

lemma no_zone_mark:
  assumes "list_all addr_char s"
  shows "takeWhile (\<lambda>c. c \<noteq> CHR ''%'') s = s" "dropWhile (\<lambda>c. c \<noteq> CHR ''%'') s = []"
proof -
  have "c \<noteq> CHR ''%''" if "c \<in> set s" for c
    using assms that addr_char_marks(3) by (auto simp only: list_all_iff)
  then show "takeWhile (\<lambda>c. c \<noteq> CHR ''%'') s = s" "dropWhile (\<lambda>c. c \<noteq> CHR ''%'') s = []"
    by (simp_all add: takeWhile_eq_all_conv dropWhile_eq_Nil_conv)
qed

lemma parse_addr_scan_hex:
  "list_all (\<lambda>c. hex_value c \<noteq> None) ds \<Longrightarrow> parse_addr_scan s (ds @ CHR '':'' # cs) = parseIPv6 s"
  by (induction ds) auto

lemma parseIPv6_ellipsis_first:
  assumes "list_all addr_char s" "s \<noteq> []"
    and "ipv6_loop (CHR '':'' # CHR '':'' # s) (Some 0) [] s = Inr (gs, Some 0, [])"
    and "length gs < 8"
  shows "ParseAddr (CHR '':'' # CHR '':'' # s) =
    Inr (IP6 (word_of_nat (horner 65536 (replicate (8 - length gs) 0 @ gs))) [])"
  using assms
  by (simp add: ParseAddr_def parseIPv6_def no_zone_mark has_prefix_def expand_groups_def)

lemma parseIPv6_hex_first:
  assumes "list_all addr_char (hex_digits g @ CHR '':'' # s)"
    and "ipv6_loop (hex_digits g @ CHR '':'' # s) None [] (hex_digits g @ CHR '':'' # s) = Inr st"
    and "expand_groups (hex_digits g @ CHR '':'' # s) st = Inr gs"
  shows "ParseAddr (hex_digits g @ CHR '':'' # s) = Inr (IP6 (word_of_nat (horner 65536 gs)) [])"
proof -
  obtain c t where "hex_digits g = c # t" "hex_value c \<noteq> None" using hex_digits_head [of g] by blast
  then have "\<not> has_prefix (hex_digits g @ CHR '':'' # s) ''::''" by (auto simp: has_prefix_def)
  then show ?thesis
    using assms
    by (simp add: ParseAddr_def parse_addr_scan_hex [OF hex_digits_hex] parseIPv6_def no_zone_mark
        del: parse_addr_scan.simps)
qed

text \<open>The dotted form of an IPv4 address inside an IPv6 address.\<close>

definition octets4 :: "32 word \<Rightarrow> nat list" where
  "octets4 x = [unat x div 16777216, unat x div 65536 mod 256, unat x div 256 mod 256, unat x mod 256]"

lemma octets4_bound: "list_all (\<lambda>n. n < 256) (octets4 x)"
  using unsigned_less [where 'a = nat and w = x] by (simp add: octets4_def)

lemma string4_octets:
  "string4 x = nat_digits (octets4 x ! 0) @ CHR ''.'' # nat_digits (octets4 x ! 1) @ CHR ''.'' #
     nat_digits (octets4 x ! 2) @ CHR ''.'' # nat_digits (octets4 x ! 3)"
  by (simp add: string4_def octets4_def Let_def)

lemma ipv4_loop_string4: "ipv4_loop inp (string4 x) True False 0 0 [] = Inr (octets4 x)"
  using octets4_bound [of x] unfolding string4_octets
  by (subst ipv4_loop_dotted) (simp_all add: octets4_def)

lemma hex_value_itoa_digit [simp]: "d < 10 \<Longrightarrow> hex_value (itoa_digit d) = Some d"
  by (auto simp: hex_value_def itoa_digit_def Let_def)

lemma hex_group_octet:
  assumes "n < 256"
  shows "\<exists>off v. 0 < off \<and> hex_group (nat_digits n @ CHR ''.'' # s) 0 0 = Inr (off, v, CHR ''.'' # s)"
proof -
  have "n div 10 < 26" "n div 100 < 3" "n mod 10 < 10" "n div 10 mod 10 < 10"
    using assms by (simp_all add: div_less_iff_less_mult)
  then have "n div 10 * 16 + n mod 10 \<le> 65535" "256 * (n div 100) + n div 10 mod 10 * 16 + n mod 10 \<le> 65535"
    by simp_all
  then show ?thesis using assms by (simp add: octet_digits div_less_iff_less_mult)
qed

lemma hex_group_string4:
  "\<exists>off v s. 0 < off \<and> hex_group (string4 x) 0 0 = Inr (off, v, CHR ''.'' # s)"
  using octets4_bound [of x] hex_group_octet [of "octets4 x ! 0"]
  unfolding string4_octets by (simp add: octets4_def) blast

lemma ipv6_loop_dotted:
  "ipv6_loop inp (Some k) [g] (string4 x) =
     Inr ([g, octets4 x ! 0 * 256 + octets4 x ! 1, octets4 x ! 2 * 256 + octets4 x ! 3], Some k, [])"
proof -
  obtain off v s where "0 < off" "hex_group (string4 x) 0 0 = Inr (off, v, CHR ''.'' # s)"
    using hex_group_string4 by blast
  then show ?thesis by (subst ipv6_loop.simps) (simp add: ipv4_loop_string4)
qed

lemma octets4_groups:
  "octets4 (ucast w) ! 0 * 256 + octets4 (ucast w) ! 1 = ip_groups w ! 6"
  "octets4 (ucast w) ! 2 * 256 + octets4 (ucast w) ! 3 = ip_groups w ! 7"
proof -
  define n where "n = unat w"
  define m where "m = n mod 4294967296"
  have u: "unat (ucast w :: 32 word) = m"
    by (simp add: m_def n_def unsigned_ucast_eq take_bit_eq_mod)
  have "m div 16777216 * 256 + m div 65536 mod 256 = m div 65536"
    using div_mult_mod_eq [of "m div 65536" 256] by (simp add: div_mult2_eq [symmetric])
  moreover have "m div 65536 = n div 65536 mod 65536"
    using mod_mult2_eq [of n 65536 65536] by (simp add: m_def)
  ultimately show "octets4 (ucast w) ! 0 * 256 + octets4 (ucast w) ! 1 = ip_groups w ! 6"
    by (simp add: octets4_def u ip_groups_def n_def)
  have "m div 256 mod 256 * 256 + m mod 256 = m mod 65536"
    using mod_mult2_eq [of m 256 256] by simp
  moreover have "m mod 65536 = n mod 65536" by (simp add: m_def mod_mod_cancel)
  ultimately show "octets4 (ucast w) ! 2 * 256 + octets4 (ucast w) ! 3 = ip_groups w ! 7"
    by (simp add: octets4_def u ip_groups_def n_def)
qed

lemma string4_head: "\<exists>c s. string4 x = c # s \<and> c \<noteq> CHR '':''"
proof -
  obtain c t where "nat_digits (octets4 x ! 0) = c # t" by (cases "nat_digits (octets4 x ! 0)") auto
  moreover from this have "is_digit c" using list_all_is_digit_nat_digits [of "octets4 x ! 0"] by simp
  ultimately show ?thesis by (auto simp: string4_octets is_digit_def)
qed

lemma eight_ends: "length xs = 8 \<Longrightarrow> xs = take 6 xs @ [xs ! 6, xs ! 7]"
  using append_take_drop_id [of 6 xs] Cons_nth_drop_Suc [of 6 xs] Cons_nth_drop_Suc [of 7 xs] by simp

lemma replicate_five: "replicate 5 (0 :: nat) = [0, 0, 0, 0, 0]"
  by (simp add: eval_nat_numeral)

lemma horner_zeros: "horner b (replicate k 0) = 0"
  by (induction k) (simp_all add: horner_def)

lemma hex_digits_65535: "hex_digits 65535 = ''ffff''"
  by (simp add: hex_digits.simps hex_digit_def char_of_def bit_0)

lemma ParseAddr_string6_mapped:
  assumes "take 6 (ip_groups w) = [0, 0, 0, 0, 0, 65535]"
  shows "ParseAddr (string6 w) = Inr (IP6 w [])"
proof -
  let ?x = "ucast w :: 32 word"
  have printed: "string6 w = CHR '':'' # CHR '':'' # hex_digits 65535 @ CHR '':'' # string4 ?x"
    using assms hex_digits_65535 by (simp add: string6_def Let_def)
  obtain c s where c: "string4 ?x = c # s" "c \<noteq> CHR '':''" using string4_head by blast
  have gs: "ip_groups w = [0, 0, 0, 0, 0, 65535, ip_groups w ! 6, ip_groups w ! 7]"
    using eight_ends [of "ip_groups w"] assms ip_groups_fields(1) by (metis append_Cons append_Nil)
  have "ipv6_loop (string6 w) (Some 0) [] (hex_digits 65535 @ CHR '':'' # string4 ?x) =
      ipv6_loop (string6 w) (Some 0) [65535] (string4 ?x)"
    using c ipv6_loop_continue [of "[]" 65535 c "string6 w" "Some 0" s] by simp
  then have "ipv6_loop (string6 w) (Some 0) [] (hex_digits 65535 @ CHR '':'' # string4 ?x) =
      Inr ([65535, ip_groups w ! 6, ip_groups w ! 7], Some 0, [])"
    by (simp only: ipv6_loop_dotted octets4_groups)
  then show ?thesis
    unfolding printed
    using parseIPv6_ellipsis_first [of "hex_digits 65535 @ CHR '':'' # string4 ?x"
        "[65535, ip_groups w ! 6, ip_groups w ! 7]"] gs horner_ip_groups [of w]
    by (simp add: addr_char_hex_digits addr_char_string4 replicate_five)
qed

lemma list_all_split:
  "list_all P xs \<Longrightarrow> list_all P (take i xs)" "list_all P xs \<Longrightarrow> list_all P (drop i xs)"
  by (auto simp: list_all_iff dest: in_set_takeD in_set_dropD)

lemma word_of_ip_groups: "word_of_nat (horner 65536 (ip_groups w)) = (w :: 128 word)"
  by (simp add: horner_ip_groups)

lemma groups_text_hex_first:
  "gs \<noteq> [] \<Longrightarrow> \<exists>s. groups_text gs @ CHR '':'' # t = hex_digits (hd gs) @ CHR '':'' # s"
  by (cases gs; cases "tl gs = []") (auto simp: groups_text_Cons)

lemma ParseAddr_groups:
  assumes "gs \<noteq> []" "list_all addr_char t"
    and "ipv6_loop (groups_text gs @ CHR '':'' # t) None [] (groups_text gs @ CHR '':'' # t) = Inr st"
    and "expand_groups (groups_text gs @ CHR '':'' # t) st = Inr gs'"
  shows "ParseAddr (groups_text gs @ CHR '':'' # t) = Inr (IP6 (word_of_nat (horner 65536 gs')) [])"
proof -
  obtain s where s: "groups_text gs @ CHR '':'' # t = hex_digits (hd gs) @ CHR '':'' # s"
    using groups_text_hex_first [OF assms(1)] by blast
  have "list_all addr_char (groups_text gs @ CHR '':'' # t)"
    using assms(2) by (simp add: addr_char_groups_text)
  then show ?thesis using parseIPv6_hex_first [of "hd gs" s st gs'] assms(3,4) unfolding s by blast
qed

text \<open>Without a run of zeros all eight groups are printed.\<close>

lemma ParseAddr_all_groups:
  assumes "length gs = 8" "list_all (\<lambda>g. g < 65536) gs"
  shows "ParseAddr (groups_text gs) = Inr (IP6 (word_of_nat (horner 65536 gs)) [])"
proof -
  obtain g gs' where gs: "gs = g # gs'" "gs' \<noteq> []" using assms(1) by (cases gs; cases "tl gs") auto
  have split: "groups_text gs = groups_text [g] @ CHR '':'' # groups_text gs'"
    using gs by (simp add: groups_text_Cons)
  have "ipv6_loop (groups_text gs) None [] (groups_text gs) = Inr (gs, None, [])"
    using assms by (subst ipv6_loop_groups) auto
  moreover have "expand_groups (groups_text gs) (gs, None, []) = Inr gs"
    using assms(1) by (simp add: expand_groups_def)
  ultimately show ?thesis
    using ParseAddr_groups [of "[g]" "groups_text gs'"] addr_char_groups_text unfolding split by simp
qed

text \<open>With a run of \<open>l\<close> zeros, the ellipsis stands for it.\<close>

lemma ParseAddr_ellipsis:
  assumes "gs = xs @ replicate l 0 @ ys" "length gs = 8" "2 \<le> l" "list_all (\<lambda>g. g < 65536) gs"
  shows "ParseAddr (groups_text xs @ CHR '':'' # CHR '':'' # groups_text ys) =
    Inr (IP6 (word_of_nat (horner 65536 gs)) [])"
proof -
  let ?s = "groups_text xs @ CHR '':'' # CHR '':'' # groups_text ys"
  have l: "l = 8 - (length xs + length ys)" "length xs + length ys < 8" using assms(1-3) by auto
  have small: "list_all (\<lambda>g. g < 65536) xs" "list_all (\<lambda>g. g < 65536) ys" using assms(1,4) by auto
  have expand: "expand_groups ?s (xs @ ys, Some (length xs), []) = Inr gs"
    using l assms(1) by (simp add: expand_groups_def)
  show ?thesis
  proof (cases "xs = []")
    case False
    have "ipv6_loop ?s None [] ?s = Inr (xs @ ys, Some (length xs), [])"
    proof (cases "ys = []")
      case True
      then show ?thesis using False small l by (subst ipv6_loop_groups_ellipsis) (auto simp: groups_text_def)
    next
      case ys: False
      then show ?thesis
        using False small l
        by (subst ipv6_loop_groups_ellipsis) (auto simp: ipv6_loop_groups)
    qed
    then show ?thesis
      by (intro ParseAddr_groups [OF False _ _ expand]) (simp_all add: addr_char_groups_text)
  next
    case xs: True
    show ?thesis
    proof (cases "ys = []")
      case True
      then have "gs = replicate 8 0" using xs l assms(1) by simp
      then have "horner 65536 gs = 0" by (simp only: horner_zeros)
      moreover have "ParseAddr ''::'' = Inr (IP6 0 [])"
        by (simp add: ParseAddr_def parseIPv6_def has_prefix_def)
      ultimately show ?thesis using xs True by (simp add: groups_text_def)
    next
      case False
      then have "ipv6_loop ?s (Some 0) [] (groups_text ys) = Inr (ys, Some 0, [])"
        using small l by (subst ipv6_loop_groups) auto
      then show ?thesis
        using parseIPv6_ellipsis_first [of "groups_text ys" ys] xs False l assms(1)
        by (simp add: addr_char_groups_text groups_text_def [of "[]"])
    qed
  qed
qed

lemma ParseAddr_string6: "ParseAddr (string6 w) = Inr (IP6 w [])"
proof (cases "take 6 (ip_groups w) = [0, 0, 0, 0, 0, 65535]")
  case True
  then show ?thesis by (rule ParseAddr_string6_mapped)
next
  case False
  show ?thesis
  proof (cases "longest_zero_run (ip_groups w)")
    case None
    then show ?thesis
      using False ParseAddr_all_groups [of "ip_groups w"] by (simp add: string6_def Let_def word_of_ip_groups)
  next
    case (Some r)
    then obtain i l where r: "longest_zero_run (ip_groups w) = Some (i, l)" by (cases r) auto
    show ?thesis
      using False r longest_zero_run_zeros [OF r] word_of_ip_groups [of w]
        ParseAddr_ellipsis [of "ip_groups w" "take i (ip_groups w)" l "drop (i + l) (ip_groups w)"]
      by (simp add: string6_def Let_def)
  qed
qed

text \<open>Every address without a zone, and every valid prefix, is read back as it was.\<close>

definition zoneless :: "addr \<Rightarrow> bool" where
  "zoneless a \<longleftrightarrow> (case a of IP4 w \<Rightarrow> True | IP6 w z \<Rightarrow> z = [])"

lemma ParseAddr_String: "zoneless a \<Longrightarrow> ParseAddr (addr_String a) = Inr a"
  by (cases a) (simp_all add: zoneless_def ParseAddr_string4 ParseAddr_string6)

lemma addr_char_String: "zoneless a \<Longrightarrow> list_all addr_char (addr_String a)"
  by (cases a) (simp_all add: zoneless_def addr_char_string4 addr_char_string6)

text \<open>Prefixes: the digits after the last slash.\<close>

lemma after_last_slash_append:
  assumes "CHR ''/'' \<notin> set t"
  shows "after_last_slash (s @ CHR ''/'' # t) = t"
proof -
  have "takeWhile (\<lambda>c. c \<noteq> CHR ''/'') (rev t @ CHR ''/'' # rev s) = rev t"
    using assms by (subst takeWhile_append2) auto
  then show ?thesis by (simp add: after_last_slash_def)
qed

lemma is_digit_not_slash: "is_digit c \<Longrightarrow> c \<noteq> CHR ''/''"
  by (auto simp: is_digit_def)

lemma nat_digits_head:
  assumes "9 < n"
  shows "hd (nat_digits n) \<noteq> CHR ''0'' \<and> is_digit (hd (nat_digits n))"
  using assms
proof (induction n rule: nat_digits.induct)
  case (1 n)
  show ?case
  proof (cases "n div 10 < 10")
    case True
    then show ?thesis
      using 1(2) by (auto simp: nat_digits.simps [of n] nat_digits.simps [of "n div 10"]
          is_digit_def itoa_digit_def dest!: arg_cong [where f = "of_char :: char \<Rightarrow> nat"])
  next
    case False
    then show ?thesis using 1 by (simp add: nat_digits.simps [of n])
  qed
qed

lemma nat_digits_long: "1 < length (nat_digits n) \<Longrightarrow> 9 < n"
  by (rule ccontr) (simp add: nat_digits.simps [of n])

lemma atoi_nat_digits:
  assumes "n < 2 ^ 63"
  shows "atoi (nat_digits n) = Some (int n)"
proof -
  obtain c t where c: "nat_digits n = c # t" by (cases "nat_digits n") auto
  then have "is_digit c" using list_all_is_digit_nat_digits [of n] by simp
  then have "c \<noteq> CHR ''-''" "c \<noteq> CHR ''+''" by (auto simp: is_digit_def)
  then show ?thesis
    using c assms list_all_is_digit_nat_digits [of n] digits_value_nat_digits [of n]
    by (simp add: atoi_def Let_def)
qed

lemma ParsePrefix_String:
  assumes "prefix_valid p"
  shows "ParsePrefix (prefix_String p) = Inr p"
proof -
  let ?b = "nat_digits (pfx_bits p)" and ?a = "addr_String (pfx_addr p)"
  have slash: "CHR ''/'' \<notin> set ?b"
    using list_all_is_digit_nat_digits [of "pfx_bits p"] is_digit_not_slash by (auto simp: list_all_iff)
  have z: "zoneless (pfx_addr p)" and n: "pfx_bits p \<le> (if Is4 (pfx_addr p) then 32 else 128)"
    using assms by (auto simp: prefix_valid_def zoneless_def split: addr.splits)
  then have "atoi ?b = Some (int (pfx_bits p))" by (intro atoi_nat_digits) (auto split: if_splits)
  moreover have "\<not> (1 < length ?b \<and> \<not> (hd ?b \<noteq> CHR ''0'' \<and> is_digit (hd ?b)))"
    using nat_digits_head nat_digits_long by blast
  ultimately show ?thesis
    using z n by (cases "pfx_addr p")
      (simp_all add: ParsePrefix_def prefix_String_def after_last_slash_append [OF slash] Let_def
        ParseAddr_string4 ParseAddr_string6 zoneless_def)
qed

end
