(* ===== verification/NoProxy.thy ===== *)
theory NoProxy
  imports NetipText KubeadmSpec
begin

text \<open>
  \<open>api/v1alpha1/http_proxy.go\<close> and \<open>no_proxy_normalize.go\<close>: the list of hosts that
  bypass the proxy, written both as CIDRs and as ranges of addresses; and the systemd files of
  \<open>generic/mutation/generic/httpproxy\<close>.  The package \<open>go4.org/netipx\<close> is a
  parameter: the first and last address of a prefix, whether a range is valid, and the prefixes
  of a range.
\<close>

section \<open>Hosts that bypass the proxy\<close>

record http_proxy =
  px_http :: string
  px_https :: string
  px_additional_no :: "string list"

definition instanceMetadataIP :: string where
  "instanceMetadataIP = ''169.254.169.254''"

definition trim_left_dots :: "string \<Rightarrow> string" where
  "trim_left_dots s = dropWhile (\<lambda>c. c = CHR ''.'') s"

text \<open>The entries for the kind of the infrastructure cluster.\<close>

definition infrastructure_entries :: "string \<Rightarrow> string list" where
  "infrastructure_entries kind =
     (if kind = ''AWSCluster'' \<or> kind = ''AWSManagedCluster''
      then [instanceMetadataIP, ''.elb.amazonaws.com'']
      else if kind = ''AzureCluster'' \<or> kind = ''AzureManagedControlPlane''
      then [instanceMetadataIP]
      else if kind = ''GCPCluster''
      then [instanceMetadataIP, ''metadata'', ''metadata.google.internal'']
      else [])"

definition GenerateNoProxy :: "http_proxy \<Rightarrow> cluster \<Rightarrow> string list" where
  "GenerateNoProxy p cluster =
     (let spec = cl_spec cluster;
          serviceDomain = (if cs_service_domain spec \<noteq> [] then cs_service_domain spec
            else ''cluster.local'');
          noProxy = [''localhost'', ''127.0.0.1''] @ cs_pod_cidrs spec @ cs_service_cidrs spec @
            [''kubernetes'', ''kubernetes.default'', ''.svc'',
             ''.svc.'' @ trim_left_dots serviceDomain, ''.svc.'' @ trim_left_dots serviceDomain @ ''.'']
      in if cs_infrastructure_kind spec = [] then noProxy @ px_additional_no p
         else noProxy @ infrastructure_entries (cs_infrastructure_kind spec) @ px_additional_no p)"

section \<open>Both notations of an entry\<close>

record netipx =
  nx_range_of_prefix :: "ip_prefix \<Rightarrow> addr \<times> addr"
  nx_valid :: "addr \<times> addr \<Rightarrow> bool"
  nx_prefixes :: "addr \<times> addr \<Rightarrow> ip_prefix list"

definition range_text :: "addr \<times> addr \<Rightarrow> string" where
  "range_text r = addr_String (fst r) @ ''-'' @ addr_String (snd r)"

definition expandCIDR :: "netipx \<Rightarrow> string \<Rightarrow> string list option" where
  "expandCIDR nx entry =
     (case ParsePrefix entry of
        Inl err \<Rightarrow> None
      | Inr p \<Rightarrow>
          let r = nx_range_of_prefix nx p
          in if fst r = snd r then Some [addr_String (fst r)] else Some [range_text r])"

text \<open>\<open>strings.Cut\<close> at a character.\<close>

definition cut_on :: "char \<Rightarrow> string \<Rightarrow> (string \<times> string) option" where
  "cut_on c s =
     (if c \<in> set s
      then Some (takeWhile (\<lambda>d. d \<noteq> c) s, tl (dropWhile (\<lambda>d. d \<noteq> c) s))
      else None)"

text \<open>The range that an entry states, if it is valid.\<close>

definition entry_range :: "netipx \<Rightarrow> string \<Rightarrow> (addr \<times> addr) option" where
  "entry_range nx entry =
     (case cut_on (CHR ''-'') entry of
        None \<Rightarrow> None
      | Some (from, to) \<Rightarrow>
          (case ParseAddr (trim_space from) of
             Inl err \<Rightarrow> None
           | Inr fromAddr \<Rightarrow>
               (case ParseAddr (trim_space to) of
                  Inl err \<Rightarrow> None
                | Inr toAddr \<Rightarrow>
                    if nx_valid nx (fromAddr, toAddr) then Some (fromAddr, toAddr) else None)))"

definition expandIPRange :: "netipx \<Rightarrow> string \<Rightarrow> string list option" where
  "expandIPRange nx entry =
     map_option (\<lambda>r. map prefix_String (nx_prefixes nx r)) (entry_range nx entry)"

text \<open>The closure \<open>add\<close>: an entry is added unless it is there already.\<close>

definition add_entry :: "string \<Rightarrow> string list \<Rightarrow> string list" where
  "add_entry s result = (if s \<in> set result then result else result @ [s])"

definition normalize_entry :: "netipx \<Rightarrow> string \<Rightarrow> string list \<Rightarrow> string list" where
  "normalize_entry nx raw result =
     (let entry = trim_space raw
      in if entry = [] then result
         else case expandCIDR nx entry of
           Some expanded \<Rightarrow> fold add_entry (entry # expanded) result
         | None \<Rightarrow>
             (case expandIPRange nx entry of
                Some expanded \<Rightarrow> fold add_entry (entry # expanded) result
              | None \<Rightarrow> add_entry entry result))"

definition NormalizeNoProxyEntries :: "netipx \<Rightarrow> string list \<Rightarrow> string list" where
  "NormalizeNoProxyEntries nx entries = fold (normalize_entry nx) entries []"

definition GenerateNoProxyNormalized :: "netipx \<Rightarrow> http_proxy \<Rightarrow> cluster \<Rightarrow> string list" where
  "GenerateNoProxyNormalized nx p cluster = NormalizeNoProxyEntries nx (GenerateNoProxy p cluster)"

section \<open>The systemd files\<close>

text \<open>The template \<open>systemd.conf.tmpl\<close> on its input.\<close>

definition proxy_line :: "string \<Rightarrow> string \<Rightarrow> string" where
  "proxy_line name v = ''Environment='' @ [CHR 0x22] @ name @ ''='' @ v @ [CHR 0x22, CHR 0x0A]"

definition proxy_block :: "string \<Rightarrow> string \<Rightarrow> string \<Rightarrow> string" where
  "proxy_block upper lower v = (if v \<noteq> [] then proxy_line upper v @ proxy_line lower v else [])"

definition systemd_conf :: "string \<Rightarrow> string \<Rightarrow> string \<Rightarrow> string" where
  "systemd_conf http https no =
     ''[Service]'' @ [CHR 0x0A] @ proxy_block ''HTTP_PROXY'' ''http_proxy'' http @
     proxy_block ''HTTPS_PROXY'' ''https_proxy'' https @ proxy_block ''NO_PROXY'' ''no_proxy'' no"

definition systemdUnitPaths :: "string list" where
  "systemdUnitPaths =
     [''/etc/systemd/system/containerd.service.d/http-proxy.conf'',
      ''/etc/systemd/system/kubelet.service.d/http-proxy.conf'']"

definition GenerateSystemdFiles :: "http_proxy \<Rightarrow> string list \<Rightarrow> machine_file list" where
  "GenerateSystemdFiles p noProxy =
     (if px_http p = [] \<and> px_https p = [] \<and> px_additional_no p = [] then []
      else
        let content = systemd_conf (px_http p) (px_https p) (join_with '','' noProxy)
        in map (\<lambda>path. \<lparr>mf_path = path, mf_owner = ''root'', mf_permissions = ''0640'',
             mf_content = content, mf_secret = None\<rparr>) systemdUnitPaths)"

definition httpproxy_Mutate ::
    "('doc, 'b, 'o, 'p) template_env \<Rightarrow> netipx \<Rightarrow> string + cluster \<Rightarrow> http_proxy variable \<Rightarrow> 'doc \<Rightarrow>
     string + 'doc" where
  "httpproxy_Mutate env nx clusterGetter v obj =
     (case clusterGetter of
        Inl err \<Rightarrow> Inl err
      | Inr cluster \<Rightarrow>
          (case v of
             Missing _ \<Rightarrow> Inr obj
           | Failed err \<Rightarrow> Inl err
           | Found p \<Rightarrow>
               patch_both env
                 (add_files (GenerateSystemdFiles p (GenerateNoProxyNormalized nx p cluster))) obj))"

section \<open>Which addresses an entry stands for\<close>

text \<open>The addresses of a range, for addresses without a zone.\<close>

definition in_range :: "addr \<times> addr \<Rightarrow> addr \<Rightarrow> bool" where
  "in_range r x \<longleftrightarrow> Is4 (fst r) = Is4 x \<and> Is4 (snd r) = Is4 x \<and>
     addr_Compare (fst r) x \<le> 0 \<and> addr_Compare x (snd r) \<le> 0"

text \<open>
  What \<open>netipx\<close> documents, for addresses without a zone: the range of a prefix is valid
  and has the addresses of the prefix, and the prefixes of a valid range cover it exactly.
\<close>

definition netipx_laws :: "netipx \<Rightarrow> bool" where
  "netipx_laws nx \<longleftrightarrow>
     (\<forall>p. prefix_valid p \<longrightarrow>
        zoneless (fst (nx_range_of_prefix nx p)) \<and> zoneless (snd (nx_range_of_prefix nx p)) \<and>
        nx_valid nx (nx_range_of_prefix nx p) \<and>
        (\<forall>x. zoneless x \<longrightarrow> in_range (nx_range_of_prefix nx p) x = prefix_contains p x)) \<and>
     (\<forall>r. zoneless (fst r) \<and> zoneless (snd r) \<and> nx_valid nx r \<longrightarrow>
        (\<forall>p \<in> set (nx_prefixes nx r). prefix_valid p) \<and>
        (\<forall>x. zoneless x \<longrightarrow> (\<exists>p \<in> set (nx_prefixes nx r). prefix_contains p x) = in_range r x))"

text \<open>The readings of a list by a program that knows CIDRs only, and by one that knows ranges only.\<close>

definition cidr_entry :: "string \<Rightarrow> addr \<Rightarrow> bool" where
  "cidr_entry e x \<longleftrightarrow> (case ParsePrefix e of Inl err \<Rightarrow> False | Inr p \<Rightarrow> prefix_contains p x)"

definition range_entry :: "netipx \<Rightarrow> string \<Rightarrow> addr \<Rightarrow> bool" where
  "range_entry nx e x \<longleftrightarrow> (case entry_range nx e of None \<Rightarrow> False | Some r \<Rightarrow> in_range r x)"

definition bypassed_by_cidrs :: "string list \<Rightarrow> addr \<Rightarrow> bool" where
  "bypassed_by_cidrs es x \<longleftrightarrow> (\<exists>e \<in> set es. cidr_entry e x \<or> ParseAddr e = Inr x)"

definition bypassed_by_ranges :: "netipx \<Rightarrow> string list \<Rightarrow> addr \<Rightarrow> bool" where
  "bypassed_by_ranges nx es x \<longleftrightarrow> (\<exists>e \<in> set es. range_entry nx e x \<or> ParseAddr e = Inr x)"

definition meant :: "netipx \<Rightarrow> string \<Rightarrow> addr \<Rightarrow> bool" where
  "meant nx e x \<longleftrightarrow> cidr_entry e x \<or> range_entry nx e x \<or> ParseAddr e = Inr x"

section \<open>The characters of a text that parses\<close>

lemma ipv4_loop_chars:
  "ipv4_loop inp s f pd v dl octets = Inr os \<Longrightarrow> list_all addr_char s"
proof (induction inp s f pd v dl octets rule: ipv4_loop.induct)
  case (2 inp c s first prevDot val digLen octets)
  then show ?case
    by (auto simp: addr_char_def dest: digit_hex split: if_splits)
qed simp

lemma hex_group_chars:
  "hex_group s off acc = Inr (off', acc', rest) \<Longrightarrow> \<exists>t. s = t @ rest \<and> list_all addr_char t"
proof (induction s off acc rule: hex_group.induct)
  case (2 c s off acc)
  show ?case
  proof (cases "hex_value c")
    case None
    then show ?thesis using 2 by simp
  next
    case (Some d)
    then obtain t where "s = t @ rest" "list_all addr_char t"
      using 2 by (auto split: if_splits)
    moreover have "addr_char c" using Some by (simp add: addr_char_def)
    ultimately show ?thesis by (intro exI [of _ "c # t"]) simp
  qed
qed simp

lemma ipv6_loop_chars:
  "ipv6_loop inp ell gs s = Inr (gs', ell', rest) \<Longrightarrow> \<exists>t. s = t @ rest \<and> list_all addr_char t"
proof (induction "8 - length gs" arbitrary: ell gs s rule: less_induct)
  case less
  show ?case
  proof (cases "8 \<le> length gs")
    case True
    then show ?thesis using less.prems by (simp add: ipv6_loop.simps)
  next
    case False
    then obtain off acc r where h: "hex_group s 0 0 = Inr (off, acc, r)" and "off \<noteq> 0"
      using less.prems by (auto simp: ipv6_loop.simps [of inp ell gs s] split: sum.splits if_splits)
    then obtain t where t: "s = t @ r" "list_all addr_char t" using hex_group_chars by blast
    have rec: "\<exists>t. s' = t @ rest \<and> list_all addr_char t"
      if "ipv6_loop inp ell'' (gs @ [acc]) s' = Inr (gs', ell', rest)" for ell'' s'
      using less.hyps [OF _ that] False by simp
    note step = less.prems [unfolded ipv6_loop.simps [of inp ell gs s]]
    show ?thesis
    proof (cases r)
      case Nil
      then show ?thesis using step False h \<open>off \<noteq> 0\<close> t by simp
    next
      case (Cons c r')
      consider "c = CHR ''.''" | "c = CHR '':''" "r' = []" | c' r'' where "c = CHR '':''" "r' = c' # r''"
        using step False h \<open>off \<noteq> 0\<close> Cons by (cases r') (auto split: if_splits)
      then show ?thesis
      proof cases
        case 1
        then show ?thesis
          using step False h \<open>off \<noteq> 0\<close> Cons ipv4_loop_chars [of inp s]
          by (auto split: if_splits sum.splits)
      next
        case 2
        then show ?thesis using step False h \<open>off \<noteq> 0\<close> Cons by simp
      next
        case 3
        show ?thesis
        proof (cases "c' = CHR '':'' \<and> r'' = []")
          case True
          then show ?thesis
            using step False h \<open>off \<noteq> 0\<close> Cons 3 t by (auto split: if_splits intro!: exI [of _ s])
        next
          case other: False
          then obtain ell'' s' u where "ipv6_loop inp ell'' (gs @ [acc]) s' = Inr (gs', ell', rest)"
            "r' = u @ s'" "list_all addr_char u"
            using step False h \<open>off \<noteq> 0\<close> Cons 3
            by (cases "c' = CHR '':''") (fastforce split: if_splits)+
          moreover from rec [OF this(1)] obtain v where "s' = v @ rest" "list_all addr_char v" by blast
          ultimately show ?thesis
            using t Cons 3(1) by (intro exI [of _ "t @ [c] @ u @ v"]) simp
        qed
      qed
    qed
  qed
qed

lemma parseIPv4_chars: "parseIPv4 s = Inr a \<Longrightarrow> list_all addr_char s \<and> zoneless a"
  using ipv4_loop_chars [of s s] by (auto simp: parseIPv4_def zoneless_def split: sum.splits)

lemma has_prefix_split: "has_prefix s p \<Longrightarrow> s = p @ drop (length p) s"
  by (auto simp: has_prefix_def) (metis append_take_drop_id)

lemma parseIPv6_chars:
  assumes "parseIPv6 s = Inr a" "CHR ''%'' \<notin> set s"
  shows "list_all addr_char s \<and> zoneless a"
proof -
  have z: "takeWhile (\<lambda>c. c \<noteq> CHR ''%'') s = s" "dropWhile (\<lambda>c. c \<noteq> CHR ''%'') s = []"
    using assms(2) by (auto simp: takeWhile_eq_all_conv dropWhile_eq_Nil_conv)
  have rest: "rest = []" if "expand_groups s (gs, ell, rest) = Inr gs'" for gs ell rest gs'
    using that by (auto simp: expand_groups_def split: if_splits)
  have loop: "list_all addr_char t"
    if "ipv6_loop s ell [] t = Inr st" "expand_groups s st = Inr gs" for ell t st gs
  proof -
    obtain gs' ell' r where st: "st = (gs', ell', r)" by (cases st) auto
    then have "r = []" using rest that(2) by blast
    then show ?thesis using ipv6_loop_chars [of s ell "[]" t gs' ell' r] that(1) st by auto
  qed
  note parse = assms(1) [unfolded parseIPv6_def Let_def z, simplified]
  show ?thesis
  proof (cases "has_prefix s ''::''")
    case True
    have s: "s = ''::'' @ drop 2 s" using has_prefix_split [OF True] by (simp add: numeral_2_eq_2)
    have "list_all addr_char (drop 2 s) \<and> zoneless a"
      using parse True loop [of "Some 0" "drop 2 s"]
      by (cases "drop 2 s = []") (auto simp: zoneless_def split: sum.splits)
    then show ?thesis by (subst s) simp
  next
    case False
    then show ?thesis using parse loop [of None s] by (auto simp: zoneless_def split: sum.splits)
  qed
qed

lemma parse_addr_scan_chars:
  "parse_addr_scan s cs = Inr a \<Longrightarrow> CHR ''%'' \<notin> set s \<Longrightarrow> list_all addr_char s \<and> zoneless a"
  by (induction cs) (auto split: if_splits dest: parseIPv4_chars parseIPv6_chars)

lemma ParseAddr_chars:
  "ParseAddr s = Inr a \<Longrightarrow> CHR ''%'' \<notin> set s \<Longrightarrow> list_all addr_char s \<and> zoneless a"
  unfolding ParseAddr_def by (rule parse_addr_scan_chars)

lemma ParseAddr_not:
  assumes "CHR ''%'' \<notin> set s" "c \<in> set s" "\<not> addr_char c"
  shows "ParseAddr s \<noteq> Inr a"
  using ParseAddr_chars [of s a] assms by (auto simp: list_all_iff)

section \<open>What the printed entries stand for\<close>

lemma addr_char_not: "list_all addr_char s \<Longrightarrow> \<not> addr_char c \<Longrightarrow> c \<notin> set s"
  by (auto simp: list_all_iff)

lemma ParsePrefix_no_slash: "CHR ''/'' \<notin> set s \<Longrightarrow> \<not> cidr_entry s x"
  by (simp add: cidr_entry_def ParsePrefix_def)

lemma entry_range_no_dash: "CHR ''-'' \<notin> set s \<Longrightarrow> entry_range nx s = None"
  by (simp add: entry_range_def cut_on_def)

lemma trim_space_id: "list_all addr_char s \<Longrightarrow> trim_space s = s"
proof -
  have sp: "\<not> addr_char c" if "is_space c" for c
    using that by (auto simp: is_space_def addr_char_def hex_value_def Let_def)
  assume s: "list_all addr_char s"
  then have "dropWhile is_space s = s" using sp by (cases s) auto
  moreover have "dropWhile is_space (rev s) = rev s" using s sp by (cases "rev s") (auto simp: list_all_iff)
  ultimately show ?thesis by (simp add: trim_space_def)
qed

lemma cut_on_append:
  assumes "c \<notin> set s"
  shows "cut_on c (s @ c # t) = Some (s, t)"
proof -
  have "takeWhile (\<lambda>d. d \<noteq> c) (s @ c # t) = s" "dropWhile (\<lambda>d. d \<noteq> c) (s @ c # t) = c # t"
    using assms by (induction s) auto
  then show ?thesis by (simp add: cut_on_def)
qed

text \<open>A printed range is read back.\<close>

lemma entry_range_text:
  assumes "zoneless (fst r)" "zoneless (snd r)" "nx_valid nx r"
  shows "entry_range nx (range_text r) = Some r"
  using assms
  by (simp add: entry_range_def range_text_def cut_on_append addr_char_String addr_char_not
      trim_space_id ParseAddr_String)

lemma prefix_valid_zoneless: "prefix_valid p \<Longrightarrow> zoneless (pfx_addr p)"
  by (auto simp: prefix_valid_def zoneless_def split: addr.splits)

lemma prefix_String_chars:
  assumes "prefix_valid p"
  shows "CHR ''-'' \<notin> set (prefix_String p)" "CHR ''%'' \<notin> set (prefix_String p)"
    "CHR ''/'' \<in> set (prefix_String p)"
  using addr_char_String [OF prefix_valid_zoneless [OF assms]] addr_char_nat_digits [of "pfx_bits p"]
  by (simp_all add: prefix_String_def addr_char_not)

lemma printed_prefix:
  assumes "prefix_valid p"
  shows "cidr_entry (prefix_String p) x = prefix_contains p x" "entry_range nx (prefix_String p) = None"
    "ParseAddr (prefix_String p) \<noteq> Inr x"
  using prefix_String_chars [OF assms]
  by (simp_all add: cidr_entry_def ParsePrefix_String [OF assms] entry_range_no_dash ParseAddr_not)

lemma printed_range:
  assumes "zoneless (fst r)" "zoneless (snd r)" "nx_valid nx r"
  shows "\<not> cidr_entry (range_text r) x" "range_entry nx (range_text r) x = in_range r x"
    "ParseAddr (range_text r) \<noteq> Inr x"
proof -
  have c: "list_all addr_char (addr_String (fst r))" "list_all addr_char (addr_String (snd r))"
    using assms by (simp_all add: addr_char_String)
  have "CHR ''/'' \<notin> set (range_text r)" "CHR ''%'' \<notin> set (range_text r)" "CHR ''-'' \<in> set (range_text r)"
    using c by (simp_all add: range_text_def addr_char_not)
  then show "\<not> cidr_entry (range_text r) x" "ParseAddr (range_text r) \<noteq> Inr x"
    by (simp_all add: ParsePrefix_no_slash ParseAddr_not)
  show "range_entry nx (range_text r) x = in_range r x"
    by (simp add: range_entry_def entry_range_text [OF assms])
qed

lemma printed_addr:
  assumes "zoneless a"
  shows "\<not> cidr_entry (addr_String a) x" "entry_range nx (addr_String a) = None"
    "ParseAddr (addr_String a) = Inr a"
  using addr_char_not [OF addr_char_String [OF assms]]
  by (simp_all add: ParsePrefix_no_slash entry_range_no_dash ParseAddr_String [OF assms])

section \<open>The entries of the result\<close>

definition entry_texts :: "netipx \<Rightarrow> string \<Rightarrow> string list" where
  "entry_texts nx e =
     e # (case expandCIDR nx e of
            Some expanded \<Rightarrow> expanded
          | None \<Rightarrow> (case expandIPRange nx e of Some expanded \<Rightarrow> expanded | None \<Rightarrow> []))"

lemma set_add_entry [simp]: "set (add_entry s result) = insert s (set result)"
  by (auto simp: add_entry_def)

lemma distinct_add_entry: "distinct result \<Longrightarrow> distinct (add_entry s result)"
  by (simp add: add_entry_def)

lemma set_fold_add_entry [simp]: "set (fold add_entry ss result) = set ss \<union> set result"
  by (induction ss arbitrary: result) auto

lemma distinct_fold_add_entry: "distinct result \<Longrightarrow> distinct (fold add_entry ss result)"
  by (induction ss arbitrary: result) (auto simp: distinct_add_entry)

lemma normalize_entry_fold:
  "normalize_entry nx raw result =
     (if trim_space raw = [] then result else fold add_entry (entry_texts nx (trim_space raw)) result)"
  by (auto simp: normalize_entry_def entry_texts_def Let_def split: option.splits)

lemma set_fold_normalize:
  "set (fold (normalize_entry nx) entries result) =
     set result \<union> (\<Union>e \<in> set entries. if trim_space e = [] then {} else set (entry_texts nx (trim_space e)))"
  by (induction entries arbitrary: result) (auto simp: normalize_entry_fold)

lemma set_normalize:
  "set (NormalizeNoProxyEntries nx entries) =
     (\<Union>e \<in> {e \<in> trim_space ` set entries. e \<noteq> []}. set (entry_texts nx e))"
  unfolding NormalizeNoProxyEntries_def set_fold_normalize by auto

lemma distinct_normalize: "distinct (NormalizeNoProxyEntries nx entries)"
proof -
  have "distinct result \<Longrightarrow> distinct (fold (normalize_entry nx) entries result)" for result
    by (induction entries arbitrary: result) (auto simp: normalize_entry_fold distinct_fold_add_entry)
  then show ?thesis by (simp add: NormalizeNoProxyEntries_def)
qed

section \<open>One entry in both notations\<close>

text \<open>A CIDR is neither an address nor a range.\<close>

lemma ParsePrefix_slash: "ParsePrefix e = Inr p \<Longrightarrow> CHR ''/'' \<in> set e"
  by (auto simp: ParsePrefix_def split: if_splits)

lemma set_cut_on: "cut_on c s = Some (a, b) \<Longrightarrow> set a \<subseteq> set s \<and> set b \<subseteq> set s \<and> s = a @ c # b"
proof -
  assume "cut_on c s = Some (a, b)"
  then have ab: "c \<in> set s" "a = takeWhile (\<lambda>d. d \<noteq> c) s" "b = tl (dropWhile (\<lambda>d. d \<noteq> c) s)"
    by (auto simp: cut_on_def split: if_splits)
  then have "dropWhile (\<lambda>d. d \<noteq> c) s \<noteq> []" "hd (dropWhile (\<lambda>d. d \<noteq> c) s) = c"
    using hd_dropWhile [of "\<lambda>d. d \<noteq> c" s] by (auto simp: dropWhile_eq_Nil_conv)
  then have "dropWhile (\<lambda>d. d \<noteq> c) s = c # b" using ab(3) by (metis list.collapse)
  then have "s = a @ c # b" unfolding ab(2) by (metis takeWhile_dropWhile_id)
  then show ?thesis by auto
qed

lemma set_trim_space: "set (trim_space s) \<subseteq> set s"
  by (auto simp: trim_space_def dest!: set_dropWhileD)

lemma set_trim_space_keeps: "c \<in> set s \<Longrightarrow> \<not> is_space c \<Longrightarrow> c \<in> set (trim_space s)"
proof -
  have d: "c \<in> set (dropWhile is_space t)" if "c \<in> set t" "\<not> is_space c" for t
    using that by (induction t) auto
  assume "c \<in> set s" "\<not> is_space c"
  then show ?thesis unfolding trim_space_def by (simp add: d)
qed

lemma not_in_trimmed:
  "list_all addr_char (trim_space s) \<Longrightarrow> \<not> addr_char c \<Longrightarrow> \<not> is_space c \<Longrightarrow> c \<notin> set s"
  using addr_char_not set_trim_space_keeps by blast

lemma entry_range_zoneless:
  assumes "entry_range nx e = Some r" "CHR ''%'' \<notin> set e"
  shows "zoneless (fst r)" "zoneless (snd r)" "nx_valid nx r" "CHR ''-'' \<in> set e" "CHR ''/'' \<notin> set e"
proof -
  obtain lo hi where c: "cut_on (CHR ''-'') e = Some (lo, hi)"
    and a: "ParseAddr (trim_space lo) = Inr (fst r)" "ParseAddr (trim_space hi) = Inr (snd r)"
    and v: "nx_valid nx r"
    using assms(1) by (auto simp: entry_range_def split: option.splits sum.splits if_splits)
  note s = set_cut_on [OF c]
  have "CHR ''%'' \<notin> set (trim_space lo)" "CHR ''%'' \<notin> set (trim_space hi)"
    using s assms(2) set_trim_space [of lo] set_trim_space [of hi] by blast+
  then have f: "list_all addr_char (trim_space lo) \<and> zoneless (fst r)"
    and t: "list_all addr_char (trim_space hi) \<and> zoneless (snd r)"
    using a ParseAddr_chars by blast+
  then show "zoneless (fst r)" "zoneless (snd r)" "nx_valid nx r" using v by simp_all
  show "CHR ''-'' \<in> set e" using s by simp
  have "\<not> is_space (CHR ''/'')" by (simp add: is_space_def)
  then have "CHR ''/'' \<notin> set lo" "CHR ''/'' \<notin> set hi"
    using f t not_in_trimmed [OF _ addr_char_marks(5)] by simp_all
  then show "CHR ''/'' \<notin> set e" using s by auto
qed

lemma range_of_prefix_laws:
  assumes "netipx_laws nx" "prefix_valid p"
  shows "zoneless (fst (nx_range_of_prefix nx p))" "zoneless (snd (nx_range_of_prefix nx p))"
    "nx_valid nx (nx_range_of_prefix nx p)"
    "zoneless x \<Longrightarrow> in_range (nx_range_of_prefix nx p) x = prefix_contains p x"
  using assms by (simp_all add: netipx_laws_def)

lemma prefixes_laws:
  assumes "netipx_laws nx" "zoneless (fst r)" "zoneless (snd r)" "nx_valid nx r"
  shows "p \<in> set (nx_prefixes nx r) \<Longrightarrow> prefix_valid p"
    "zoneless x \<Longrightarrow> (\<exists>p \<in> set (nx_prefixes nx r). prefix_contains p x) = in_range r x"
  using assms unfolding netipx_laws_def by blast+

lemma in_range_single: "zoneless x \<Longrightarrow> zoneless a \<Longrightarrow> in_range (a, a) x \<longleftrightarrow> x = a"
  by (cases a; cases x) (auto simp: in_range_def zoneless_def split: if_splits)

text \<open>The texts of a CIDR: the CIDR and its range, or its only address.\<close>

lemma cidr_texts:
  assumes "netipx_laws nx" "CHR ''%'' \<notin> set e" "zoneless x" "ParsePrefix e = Inr p"
  shows "(\<exists>s \<in> set (entry_texts nx e). cidr_entry s x \<or> ParseAddr s = Inr x) = prefix_contains p x"
    "(\<exists>s \<in> set (entry_texts nx e). range_entry nx s x \<or> ParseAddr s = Inr x) = prefix_contains p x"
    "meant nx e x = prefix_contains p x"
proof -
  let ?r = "nx_range_of_prefix nx p"
  have p: "prefix_valid p" using assms(4) by (rule ParsePrefix_valid)
  note r = range_of_prefix_laws [OF assms(1) p]
  have slash: "CHR ''/'' \<in> set e" using assms(4) by (rule ParsePrefix_slash)
  then have "entry_range nx e = None"
    using assms(2) entry_range_zoneless(5) [of nx e] by (cases "entry_range nx e") auto
  then have e: "cidr_entry e x = prefix_contains p x" "ParseAddr e \<noteq> Inr x" "entry_range nx e = None"
    using assms(4) ParseAddr_not [OF assms(2) slash] by (simp_all add: cidr_entry_def)
  then show "meant nx e x = prefix_contains p x" by (simp add: meant_def range_entry_def)
  have "((\<exists>s \<in> set (entry_texts nx e). cidr_entry s x \<or> ParseAddr s = Inr x) = prefix_contains p x) \<and>
      ((\<exists>s \<in> set (entry_texts nx e). range_entry nx s x \<or> ParseAddr s = Inr x) = prefix_contains p x)"
  proof (cases "fst ?r = snd ?r")
    case True
    then have t: "entry_texts nx e = [e, addr_String (fst ?r)]"
      using assms(4) by (simp add: entry_texts_def expandCIDR_def Let_def)
    have "?r = (fst ?r, fst ?r)" using True by (simp add: prod_eq_iff)
    then have "x = fst ?r \<longleftrightarrow> prefix_contains p x"
      using in_range_single [OF assms(3) r(1)] r(4) [OF assms(3)] by metis
    then show ?thesis using e printed_addr [OF r(1)] by (auto simp: t range_entry_def)
  next
    case False
    then have t: "entry_texts nx e = [e, range_text ?r]"
      using assms(4) by (simp add: entry_texts_def expandCIDR_def Let_def)
    show ?thesis
      using e printed_range [OF r(1-3)] r(4) [OF assms(3)] by (simp add: t range_entry_def)
  qed
  then show "(\<exists>s \<in> set (entry_texts nx e). cidr_entry s x \<or> ParseAddr s = Inr x) = prefix_contains p x"
    "(\<exists>s \<in> set (entry_texts nx e). range_entry nx s x \<or> ParseAddr s = Inr x) = prefix_contains p x"
    by simp_all
qed

text \<open>The texts of a range: the range and its prefixes.\<close>

lemma range_texts:
  assumes "netipx_laws nx" "CHR ''%'' \<notin> set e" "zoneless x" "ParsePrefix e = Inl err"
    and "entry_range nx e = Some r"
  shows "(\<exists>s \<in> set (entry_texts nx e). cidr_entry s x \<or> ParseAddr s = Inr x) = in_range r x"
    "(\<exists>s \<in> set (entry_texts nx e). range_entry nx s x \<or> ParseAddr s = Inr x) = in_range r x"
    "meant nx e x = in_range r x"
proof -
  note z = entry_range_zoneless [OF assms(5,2)]
  note p = prefixes_laws [OF assms(1) z(1-3)]
  have e: "\<not> cidr_entry e x" "ParseAddr e \<noteq> Inr x" "range_entry nx e x = in_range r x"
    using assms(4,5) ParseAddr_not [OF assms(2) z(4)] by (simp_all add: cidr_entry_def range_entry_def)
  then show "meant nx e x = in_range r x" by (simp add: meant_def)
  have t: "set (entry_texts nx e) = insert e (prefix_String ` set (nx_prefixes nx r))"
    using assms(4,5) by (simp add: entry_texts_def expandCIDR_def expandIPRange_def)
  show "(\<exists>s \<in> set (entry_texts nx e). cidr_entry s x \<or> ParseAddr s = Inr x) = in_range r x"
    using e printed_prefix p(1) p(2) [OF assms(3)] by (simp add: t)
  show "(\<exists>s \<in> set (entry_texts nx e). range_entry nx s x \<or> ParseAddr s = Inr x) = in_range r x"
    using e printed_prefix p(1) by (simp add: t range_entry_def)
qed

lemma entry_both_notations:
  assumes "netipx_laws nx" "CHR ''%'' \<notin> set e" "zoneless x"
  shows "(\<exists>s \<in> set (entry_texts nx e). cidr_entry s x \<or> ParseAddr s = Inr x) = meant nx e x"
    "(\<exists>s \<in> set (entry_texts nx e). range_entry nx s x \<or> ParseAddr s = Inr x) = meant nx e x"
proof -
  consider p where "ParsePrefix e = Inr p" | err r where "ParsePrefix e = Inl err" "entry_range nx e = Some r"
    | err where "ParsePrefix e = Inl err" "entry_range nx e = None"
    by (cases "ParsePrefix e"; cases "entry_range nx e") auto
  then have "(\<exists>s \<in> set (entry_texts nx e). cidr_entry s x \<or> ParseAddr s = Inr x) = meant nx e x \<and>
    (\<exists>s \<in> set (entry_texts nx e). range_entry nx s x \<or> ParseAddr s = Inr x) = meant nx e x"
  proof cases
    case 1
    then show ?thesis using cidr_texts [OF assms] by simp
  next
    case 2
    then show ?thesis using range_texts [OF assms] by simp
  next
    case 3
    then show ?thesis
      by (simp add: entry_texts_def expandCIDR_def expandIPRange_def meant_def cidr_entry_def range_entry_def)
  qed
  then show "(\<exists>s \<in> set (entry_texts nx e). cidr_entry s x \<or> ParseAddr s = Inr x) = meant nx e x"
    "(\<exists>s \<in> set (entry_texts nx e). range_entry nx s x \<or> ParseAddr s = Inr x) = meant nx e x"
    by simp_all
qed

lemma meant_Nil: "\<not> meant nx [] x"
  by (simp add: meant_def cidr_entry_def ParsePrefix_def range_entry_def entry_range_no_dash ParseAddr_def)

lemma normalized_bypassed:
  assumes "netipx_laws nx" "\<forall>e \<in> set entries. CHR ''%'' \<notin> set e" "zoneless x"
  shows "bypassed_by_cidrs (NormalizeNoProxyEntries nx entries) x \<longleftrightarrow>
      (\<exists>e \<in> set entries. meant nx (trim_space e) x)"
    "bypassed_by_ranges nx (NormalizeNoProxyEntries nx entries) x \<longleftrightarrow>
      (\<exists>e \<in> set entries. meant nx (trim_space e) x)"
proof -
  have z: "CHR ''%'' \<notin> set (trim_space e)" if "e \<in> set entries" for e
    using assms(2) that set_trim_space by fastforce
  note both = entry_both_notations [OF assms(1) z assms(3)]
  show "bypassed_by_cidrs (NormalizeNoProxyEntries nx entries) x \<longleftrightarrow>
      (\<exists>e \<in> set entries. meant nx (trim_space e) x)"
    unfolding bypassed_by_cidrs_def set_normalize using both(1) meant_Nil [of nx x] by fastforce
  show "bypassed_by_ranges nx (NormalizeNoProxyEntries nx entries) x \<longleftrightarrow>
      (\<exists>e \<in> set entries. meant nx (trim_space e) x)"
    unfolding bypassed_by_ranges_def set_normalize using both(2) meant_Nil [of nx x] by fastforce
qed

end
