(* ===== verification/KubeletConfiguration.thy ===== *)
theory KubeletConfiguration
  imports KubeadmSpec
begin

text \<open>
  \<open>kubeadm/kubeletconfiguration\<close>: the patch of the kubelet configuration that is written to
  a machine, and the script that computes reservations at boot.  Quantities and durations are
  given by their printed form.
\<close>

section \<open>The configuration\<close>

record kubelet_settings =
  kl_max_pods :: "int option"
  kl_automatic_reservations :: "string option"
  kl_system_reserved :: "(string \<times> string) list"
  kl_kube_reserved :: "(string \<times> string) list"
  kl_eviction_hard :: "(string \<times> string) list"
  kl_eviction_soft :: "(string \<times> string) list"
  kl_eviction_soft_grace :: "(string \<times> string) list"
  kl_protect_kernel_defaults :: "bool option"
  kl_topology_policy :: "string option"
  kl_cpu_policy :: "string option"
  kl_memory_policy :: "string option"
  kl_pod_pids_limit :: "int option"
  kl_log_max_size :: "string option"
  kl_log_max_files :: "int option"
  kl_image_gc_high :: "int option"
  kl_image_gc_low :: "int option"
  kl_max_parallel_pulls :: "int option"
  kl_shutdown_grace :: "string option"
  kl_shutdown_grace_critical :: "string option"
  kl_seccomp_default :: "bool option"
  kl_enforce_allocatable :: "string list"

definition zero_kubelet_settings :: kubelet_settings where
  "zero_kubelet_settings =
     \<lparr>kl_max_pods = None, kl_automatic_reservations = None, kl_system_reserved = [],
      kl_kube_reserved = [], kl_eviction_hard = [], kl_eviction_soft = [],
      kl_eviction_soft_grace = [], kl_protect_kernel_defaults = None, kl_topology_policy = None,
      kl_cpu_policy = None, kl_memory_policy = None, kl_pod_pids_limit = None,
      kl_log_max_size = None, kl_log_max_files = None, kl_image_gc_high = None,
      kl_image_gc_low = None, kl_max_parallel_pulls = None, kl_shutdown_grace = None,
      kl_shutdown_grace_critical = None, kl_seccomp_default = None, kl_enforce_allocatable = []\<rparr>"

text \<open>A pointer to a configuration is empty if it is nil or points to the zero value.\<close>

definition kubelet_IsEmpty :: "kubelet_settings option \<Rightarrow> bool" where
  "kubelet_IsEmpty c = (case c of None \<Rightarrow> True | Some s \<Rightarrow> s = zero_kubelet_settings)"

section \<open>The input of the template\<close>

text \<open>The two cgroups are the empty text when they are not set.\<close>

record kubelet_template_input =
  ki_settings :: kubelet_settings
  ki_enforce :: "string list"
  ki_system_cgroup :: string
  ki_kube_cgroup :: string

definition toTemplateInput :: "kubelet_settings option \<Rightarrow> kubelet_template_input" where
  "toTemplateInput cfg =
     (case cfg of
        None \<Rightarrow> \<lparr>ki_settings = zero_kubelet_settings, ki_enforce = [], ki_system_cgroup = [],
          ki_kube_cgroup = []\<rparr>
      | Some c \<Rightarrow>
          let sorted = sort (kl_enforce_allocatable c)
          in \<lparr>ki_settings = c, ki_enforce = sorted,
              ki_system_cgroup =
                (if ''system-reserved'' \<in> set sorted \<or> ''system-reserved-compressible'' \<in> set sorted
                 then ''/system.slice'' else []),
              ki_kube_cgroup =
                (if ''kube-reserved'' \<in> set sorted \<or> ''kube-reserved-compressible'' \<in> set sorted
                 then ''/system.slice/kubelet.service'' else [])\<rparr>)"

section \<open>The template\<close>

text \<open>
  A field is on a line of its own; a map has its keys in order, as templates range over maps.
\<close>

definition yaml_line :: "string \<Rightarrow> string \<Rightarrow> string" where
  "yaml_line name v = [CHR 0x0A] @ name @ '': '' @ v"

definition bool_text :: "bool \<Rightarrow> string" where
  "bool_text b = (if b then ''true'' else ''false'')"

definition yaml_field :: "string \<Rightarrow> string option \<Rightarrow> string" where
  "yaml_field name v = (case v of None \<Rightarrow> [] | Some x \<Rightarrow> yaml_line name x)"

definition yaml_map :: "string \<Rightarrow> (string \<times> string) list \<Rightarrow> string" where
  "yaml_map name m =
     (if m = [] then []
      else [CHR 0x0A] @ name @ '':'' @
        concat (map (\<lambda>(k, v). [CHR 0x0A] @ ''  '' @ k @ '': '' @ [CHR 0x22] @ v @ [CHR 0x22])
          (sort_key fst m)))"

definition yaml_list :: "string \<Rightarrow> string list \<Rightarrow> string" where
  "yaml_list name xs =
     (if xs = [] then []
      else [CHR 0x0A] @ name @ '':'' @ concat (map (\<lambda>x. [CHR 0x0A] @ ''  - '' @ x) xs))"

definition nonempty :: "string \<Rightarrow> string option" where
  "nonempty s = (if s = [] then None else Some s)"

definition kubeletConfigPatch :: "kubelet_template_input \<Rightarrow> string" where
  "kubeletConfigPatch i =
     (let c = ki_settings i
      in ''---'' @ [CHR 0x0A] @ ''apiVersion: kubelet.config.k8s.io/v1beta1'' @ [CHR 0x0A] @
         ''kind: KubeletConfiguration'' @
         yaml_field ''maxPods'' (map_option itoa (kl_max_pods c)) @
         yaml_map ''systemReserved'' (kl_system_reserved c) @
         yaml_map ''kubeReserved'' (kl_kube_reserved c) @
         yaml_map ''evictionHard'' (kl_eviction_hard c) @
         yaml_map ''evictionSoft'' (kl_eviction_soft c) @
         yaml_map ''evictionSoftGracePeriod'' (kl_eviction_soft_grace c) @
         yaml_field ''protectKernelDefaults'' (map_option bool_text (kl_protect_kernel_defaults c)) @
         yaml_field ''topologyManagerPolicy'' (kl_topology_policy c) @
         yaml_field ''cpuManagerPolicy'' (kl_cpu_policy c) @
         yaml_field ''memoryManagerPolicy'' (kl_memory_policy c) @
         yaml_field ''podPidsLimit'' (map_option itoa (kl_pod_pids_limit c)) @
         yaml_field ''containerLogMaxSize'' (kl_log_max_size c) @
         yaml_field ''containerLogMaxFiles'' (map_option itoa (kl_log_max_files c)) @
         yaml_field ''imageGCHighThresholdPercent'' (map_option itoa (kl_image_gc_high c)) @
         yaml_field ''imageGCLowThresholdPercent'' (map_option itoa (kl_image_gc_low c)) @
         (case kl_max_parallel_pulls c of None \<Rightarrow> []
          | Some n \<Rightarrow> yaml_line ''serializeImagePulls'' ''false'' @ yaml_line ''maxParallelImagePulls'' (itoa n)) @
         yaml_field ''shutdownGracePeriod'' (kl_shutdown_grace c) @
         yaml_field ''shutdownGracePeriodCriticalPods'' (kl_shutdown_grace_critical c) @
         yaml_field ''seccompDefault'' (map_option bool_text (kl_seccomp_default c)) @
         yaml_list ''enforceNodeAllocatable'' (ki_enforce i) @
         yaml_field ''systemReservedCgroup'' (nonempty (ki_system_cgroup i)) @
         yaml_field ''kubeReservedCgroup'' (nonempty (ki_kube_cgroup i)) @ [CHR 0x0A])"

definition renderKubeletConfigPatch :: "kubelet_settings option \<Rightarrow> machine_file" where
  "renderKubeletConfigPatch cfg =
     \<lparr>mf_path = ''/etc/kubernetes/patches/kubeletconfiguration99+strategic.json'',
      mf_owner = ''root:root'', mf_permissions = ''0644'',
      mf_content = kubeletConfigPatch (toTemplateInput cfg), mf_secret = None\<rparr>"

section \<open>The handlers\<close>

definition hasRenderableKubeletFields :: "kubelet_settings option \<Rightarrow> bool" where
  "hasRenderableKubeletFields cfg =
     (case cfg of
        None \<Rightarrow> False
      | Some c \<Rightarrow> \<not> kubelet_IsEmpty (Some (c\<lparr>kl_automatic_reservations := None\<rparr>)))"

text \<open>The deprecated value is used unless the new field is set.\<close>

definition applyDeprecatedMaxParallelImagePulls ::
    "kubelet_settings option \<Rightarrow> int variable \<Rightarrow> string + kubelet_settings option" where
  "applyDeprecatedMaxParallelImagePulls cfg v =
     (case v of
        Missing _ \<Rightarrow> Inr cfg
      | Failed err \<Rightarrow> Inl err
      | Found n \<Rightarrow>
          (case cfg of
             None \<Rightarrow> Inr (Some (zero_kubelet_settings\<lparr>kl_max_parallel_pulls := Some n\<rparr>))
           | Some c \<Rightarrow>
               if kl_max_parallel_pulls c \<noteq> None then Inr cfg
               else Inr (Some (c\<lparr>kl_max_parallel_pulls := Some n\<rparr>))))"

definition automaticReservationsEnabled :: "kubelet_settings option \<Rightarrow> bool" where
  "automaticReservationsEnabled cfg =
     (case cfg of None \<Rightarrow> False | Some c \<Rightarrow> kl_automatic_reservations c \<noteq> None)"

definition computeReservationsScriptFile :: "string \<Rightarrow> machine_file" where
  "computeReservationsScriptFile content =
     \<lparr>mf_path = ''/etc/caren/compute-kubelet-reservations.sh'', mf_owner = ''root:root'',
      mf_permissions = ''0755'', mf_content = content, mf_secret = None\<rparr>"

definition computeReservationsCommand :: string where
  "computeReservationsCommand = ''/bin/sh /etc/caren/compute-kubelet-reservations.sh''"

text \<open>\<open>getWorkerKubeletConfiguration\<close> and its twin of the control plane.\<close>

definition getKubeletConfiguration :: "kubelet_settings variable \<Rightarrow> string + kubelet_settings option" where
  "getKubeletConfiguration v =
     (case v of
        Failed err \<Rightarrow> Inl err
      | Missing _ \<Rightarrow> Inr None
      | Found c \<Rightarrow> if \<not> kubelet_IsEmpty (Some c) then Inr (Some c) else Inr None)"

definition final_kubelet_settings ::
    "kubelet_settings variable \<Rightarrow> int variable \<Rightarrow> string + kubelet_settings option" where
  "final_kubelet_settings v deprecated =
     bind_sum [] (getKubeletConfiguration v) (\<lambda>c. applyDeprecatedMaxParallelImagePulls c deprecated)"

text \<open>The change of the template for a configuration that is not empty.\<close>

definition add_kubelet_files ::
    "string \<Rightarrow> kubelet_settings option \<Rightarrow> kubeadm_config_spec \<Rightarrow> kubeadm_config_spec" where
  "add_kubelet_files script cfg s =
     (let s = (if hasRenderableKubeletFields cfg then add_files [renderKubeletConfigPatch cfg] s else s)
      in if automaticReservationsEnabled cfg
         then add_pre_commands [computeReservationsCommand]
           (add_files [computeReservationsScriptFile script] s)
         else s)"

definition kubelet_control_plane_Mutate ::
    "('doc, 'b, 'o, 'p) template_env \<Rightarrow> string \<Rightarrow> kubelet_settings variable \<Rightarrow> int variable \<Rightarrow> 'doc \<Rightarrow>
     string + 'doc" where
  "kubelet_control_plane_Mutate env script v deprecated obj =
     (case final_kubelet_settings v deprecated of
        Inl err \<Rightarrow> Inl err
      | Inr cfg \<Rightarrow>
          if kubelet_IsEmpty cfg then Inr obj
          else patch_control_plane env (\<lambda>t. Inr (on_spec (add_kubelet_files script cfg) t)) obj)"

definition kubelet_worker_Mutate ::
    "('doc, 'b, 'o, 'p) template_env \<Rightarrow> string \<Rightarrow> kubelet_settings variable \<Rightarrow> int variable \<Rightarrow> 'doc \<Rightarrow>
     string + 'doc" where
  "kubelet_worker_Mutate env script v deprecated obj =
     (case final_kubelet_settings v deprecated of
        Inl err \<Rightarrow> Inl err
      | Inr cfg \<Rightarrow>
          if kubelet_IsEmpty cfg then Inr obj
          else patch_workers env (\<lambda>s. Inr (add_kubelet_files script cfg s)) obj)"

section \<open>What is written\<close>

lemma final_kubelet_settings_Found:
  "final_kubelet_settings (Found c) (Found n) =
     Inr (Some (if c = zero_kubelet_settings then zero_kubelet_settings\<lparr>kl_max_parallel_pulls := Some n\<rparr>
       else if kl_max_parallel_pulls c = None then c\<lparr>kl_max_parallel_pulls := Some n\<rparr> else c))"
  by (simp add: final_kubelet_settings_def getKubeletConfiguration_def kubelet_IsEmpty_def
      applyDeprecatedMaxParallelImagePulls_def)

text \<open>A configuration that is not empty has fields to write or asks for reservations.\<close>

lemma kubelet_nonempty:
  "\<not> kubelet_IsEmpty cfg \<Longrightarrow> hasRenderableKubeletFields cfg \<or> automaticReservationsEnabled cfg"
proof (cases cfg)
  case None
  then show "\<not> kubelet_IsEmpty cfg \<Longrightarrow> ?thesis" by (simp add: kubelet_IsEmpty_def)
next
  case (Some c)
  assume "\<not> kubelet_IsEmpty cfg"
  then have c: "c \<noteq> zero_kubelet_settings" using Some by (simp add: kubelet_IsEmpty_def)
  show ?thesis
  proof (cases "kl_automatic_reservations c")
    case None
    then have "c\<lparr>kl_automatic_reservations := None\<rparr> = c" by (cases c) simp
    then show ?thesis using c Some by (simp only: hasRenderableKubeletFields_def kubelet_IsEmpty_def
          option.case not_False_eq_True simp_thms)
  next
    case (Some r)
    then show ?thesis using \<open>cfg = Some c\<close> by (simp add: automaticReservationsEnabled_def)
  qed
qed

lemma cgroups_iff:
  "ki_system_cgroup (toTemplateInput (Some c)) \<noteq> [] \<longleftrightarrow>
     ''system-reserved'' \<in> set (kl_enforce_allocatable c) \<or>
     ''system-reserved-compressible'' \<in> set (kl_enforce_allocatable c)"
  "ki_kube_cgroup (toTemplateInput (Some c)) \<noteq> [] \<longleftrightarrow>
     ''kube-reserved'' \<in> set (kl_enforce_allocatable c) \<or>
     ''kube-reserved-compressible'' \<in> set (kl_enforce_allocatable c)"
  by (simp_all add: toTemplateInput_def Let_def)

text \<open>The order of the entries of a map and of the enforced names does not change the file.\<close>

lemma yaml_map_perm:
  "mset m = mset m' \<Longrightarrow> distinct (map fst m) \<Longrightarrow> yaml_map name m = yaml_map name m'"
proof -
  assume m: "mset m = mset m'" "distinct (map fst m)"
  have "sort_key fst m = sort_key fst m'"
    using m by (intro sort_key_eq_sort_key) (auto simp: distinct_map)
  moreover have "m = [] \<longleftrightarrow> m' = []" using m(1) by (metis mset_zero_iff)
  ultimately show ?thesis by (simp add: yaml_map_def)
qed

end
