(* ===== verification/ControlPlaneMutations.thy ===== *)
theory ControlPlaneMutations
  imports KubeadmSpec NodeMutations
begin

text \<open>
  The patch handlers under \<open>pkg/handlers/generic/mutation/kubeadm\<close> that change the control
  plane template only: certificate names, etcd, CoreDNS, the audit policy, renewal of
  certificates, the cloud provider, the virtual IP; and the handler that sorts the arguments.
  Parameters: the semver package, the execution of templates.
\<close>

section \<open>Names in the certificate of the API server (\<open>extraapiservercertsans\<close>)\<close>

definition GetProvider :: "cluster option \<Rightarrow> string" where
  "GetProvider cluster =
     (case cluster of
        None \<Rightarrow> []
      | Some c \<Rightarrow> (case cl_labels c ''cluster.x-k8s.io/provider'' of None \<Rightarrow> [] | Some p \<Rightarrow> p))"

definition DefaultDockerCertSANs :: "string list" where
  "DefaultDockerCertSANs = [''localhost'', ''127.0.0.1'', ''0.0.0.0'', ''host.docker.internal'']"

definition DefaultNutanixCertSANs :: "string list" where
  "DefaultNutanixCertSANs = [''localhost'', ''127.0.0.1'', ''0.0.0.0'']"

definition getDefaultAPIServerSANs :: "cluster \<Rightarrow> string list" where
  "getDefaultAPIServerSANs cluster =
     (if GetProvider (Some cluster) = ''docker'' then DefaultDockerCertSANs
      else if GetProvider (Some cluster) = ''nutanix'' then DefaultNutanixCertSANs
      else [])"

text \<open>The names are sorted, and equal neighbours are joined.\<close>

definition apiCertSANs :: "string list \<Rightarrow> cluster \<Rightarrow> string list" where
  "apiCertSANs extra cluster = remdups_adj (sort (extra @ getDefaultAPIServerSANs cluster))"

definition certsans_Mutate ::
    "('doc, 'b, 'o, 'p) template_env \<Rightarrow> string + cluster \<Rightarrow> string list variable \<Rightarrow> 'doc \<Rightarrow>
     string + 'doc" where
  "certsans_Mutate env clusterGetter v obj =
     (case v of
        Failed err \<Rightarrow> Inl err
      | _ \<Rightarrow>
          (case clusterGetter of
             Inl err \<Rightarrow> Inl err
           | Inr cluster \<Rightarrow>
               let sans = apiCertSANs (case v of Found extra \<Rightarrow> extra | _ \<Rightarrow> []) cluster
               in if sans = [] then Inr obj
                  else patch_control_plane env
                    (\<lambda>t. Inr (on_spec (on_api_server (\<lambda>a. a\<lparr>as_cert_sans := sans\<rparr>)) t)) obj))"

section \<open>etcd and CoreDNS\<close>

record image_spec =
  is_repository :: string
  is_tag :: string

definition defaultEtcdExtraArgs :: "(string \<times> string) list" where
  "defaultEtcdExtraArgs =
     [(''auto-tls'', ''false''), (''peer-auto-tls'', ''false''),
      (''cipher-suites'', join_with '','' [''TLS_ECDHE_ECDSA_WITH_AES_128_GCM_SHA256'',
         ''TLS_ECDHE_RSA_WITH_AES_128_GCM_SHA256'', ''TLS_ECDHE_RSA_WITH_AES_256_GCM_SHA384'',
         ''TLS_ECDHE_ECDSA_WITH_AES_256_GCM_SHA384'']),
      (''tls-min-version'', ''TLS1.2'')]"

definition etcd_default_args :: "kubeadm_arg list" where
  "etcd_default_args =
     map (\<lambda>k. (k, map_of defaultEtcdExtraArgs k)) (sort (map fst defaultEtcdExtraArgs))"

definition etcd_change :: "image_spec option \<Rightarrow> kubeadm_config_spec \<Rightarrow> kubeadm_config_spec" where
  "etcd_change img s =
     (let e = (ks_etcd s)\<lparr>etcd_extra_args := add_missing_args etcd_default_args (etcd_extra_args (ks_etcd s))\<rparr>;
          e = (case img of
            None \<Rightarrow> e
          | Some i \<Rightarrow>
              let e = (if is_tag i \<noteq> [] then e\<lparr>etcd_image_tag := is_tag i\<rparr> else e)
              in if is_repository i \<noteq> [] then e\<lparr>etcd_image_repository := is_repository i\<rparr> else e)
      in s\<lparr>ks_etcd := e\<rparr>)"

definition etcd_Mutate ::
    "('doc, 'b, 'o, 'p) template_env \<Rightarrow> image_spec option variable \<Rightarrow> 'doc \<Rightarrow> string + 'doc" where
  "etcd_Mutate env v obj =
     (case v of
        Failed err \<Rightarrow> Inl err
      | Missing _ \<Rightarrow> patch_control_plane env (\<lambda>t. Inr (on_spec (etcd_change None) t)) obj
      | Found img \<Rightarrow> patch_control_plane env (\<lambda>t. Inr (on_spec (etcd_change img) t)) obj)"

text \<open>\<open>api/versions/coredns.go\<close>: the table, and the lookup by major and minor version.\<close>

record semver =
  sv_major :: nat
  sv_minor :: nat
  sv_patch :: nat
  sv_prerelease :: "string list"

definition kubernetesToCoreDNSVersion :: "string \<rightharpoonup> string" where
  "kubernetesToCoreDNSVersion = map_of
    [(''v1.22'', ''v1.8.4''), (''v1.23'', ''v1.8.6''), (''v1.24'', ''v1.8.6''),
     (''v1.25'', ''v1.9.3''), (''v1.26'', ''v1.9.3''), (''v1.27'', ''v1.10.1''),
     (''v1.28'', ''v1.10.1''), (''v1.29'', ''v1.11.1''), (''v1.30'', ''v1.11.3''),
     (''v1.31'', ''v1.11.3''), (''v1.32'', ''v1.11.3''), (''v1.33'', ''v1.12.0''),
     (''v1.34'', ''v1.12.1''), (''v1.35'', ''v1.13.1''), (''v1.36'', ''v1.14.2''),
     (''v1.37'', ''v1.14.6'')]"

definition GetCoreDNSVersion :: "(string \<Rightarrow> string + semver) \<Rightarrow> string \<Rightarrow> string option" where
  "GetCoreDNSVersion ParseTolerant kubernetesVersion =
     (case ParseTolerant kubernetesVersion of
        Inl err \<Rightarrow> None
      | Inr v \<Rightarrow> kubernetesToCoreDNSVersion
          (''v'' @ nat_digits (sv_major v) @ ''.'' @ nat_digits (sv_minor v)))"

text \<open>There is a version of CoreDNS exactly for Kubernetes 1.22 to 1.37.\<close>

lemma nat_digits_no_dot: "CHR ''.'' \<notin> set (nat_digits n)"
  using list_all_is_digit_nat_digits [of n] by (auto simp: is_digit_def list_all_iff)

lemma major_minor_inject:
  "nat_digits a @ ''.'' @ nat_digits b = nat_digits c @ ''.'' @ nat_digits d \<longleftrightarrow> a = c \<and> b = d"
proof
  assume eq: "nat_digits a @ ''.'' @ nat_digits b = nat_digits c @ ''.'' @ nat_digits d"
  have before: "takeWhile (\<lambda>x. x \<noteq> CHR ''.'') (nat_digits n @ CHR ''.'' # t) = nat_digits n" for n t
    using nat_digits_no_dot [of n] by (subst takeWhile_append2) auto
  have "nat_digits a = nat_digits c"
    using arg_cong [OF eq, of "takeWhile (\<lambda>x. x \<noteq> CHR ''.'')"] by (simp add: before)
  with eq show "a = c \<and> b = d" by (metis append_Cons append_Nil append_same_eq digits_value_nat_digits same_append_eq list.inject)
qed simp

lemma GetCoreDNSVersion_found:
  "GetCoreDNSVersion parse version \<noteq> None \<longleftrightarrow>
     (\<exists>v. parse version = Inr v \<and> sv_major v = 1 \<and> sv_minor v \<in> {22..37})"
proof (cases "parse version")
  case (Inr v)
  let ?keys = "map (\<lambda>m. ''v'' @ nat_digits 1 @ ''.'' @ nat_digits m) [22..<38]"
  have dom: "dom kubernetesToCoreDNSVersion = set ?keys"
    unfolding kubernetesToCoreDNSVersion_def dom_map_of_conv_image_fst set_map [symmetric]
    by (rule arg_cong [of _ _ set]) code_simp
  have "GetCoreDNSVersion parse version \<noteq> None \<longleftrightarrow>
      ''v'' @ nat_digits (sv_major v) @ ''.'' @ nat_digits (sv_minor v) \<in> dom kubernetesToCoreDNSVersion"
    using Inr by (simp add: GetCoreDNSVersion_def domIff)
  also have "\<dots> \<longleftrightarrow>
      (\<exists>m \<in> {22..<38}. nat_digits (sv_major v) @ ''.'' @ nat_digits (sv_minor v) = nat_digits 1 @ ''.'' @ nat_digits m)"
    unfolding dom set_map set_upt image_iff by simp
  also have "\<dots> \<longleftrightarrow> sv_major v = 1 \<and> sv_minor v \<in> {22..37}"
    unfolding major_minor_inject by auto
  finally show ?thesis using Inr by simp
qed (simp add: GetCoreDNSVersion_def)

definition coredns_change ::
    "(string \<Rightarrow> string + semver) \<Rightarrow> string \<Rightarrow> image_spec option \<Rightarrow> kubeadm_config_spec \<Rightarrow>
     string + kubeadm_config_spec" where
  "coredns_change ParseTolerant version img s =
     (let dns = ks_dns s;
          dns = (case img of
            None \<Rightarrow> dns
          | Some i \<Rightarrow>
              let dns = (if is_tag i \<noteq> [] then dns\<lparr>dns_image_tag := is_tag i\<rparr> else dns)
              in if is_repository i \<noteq> [] then dns\<lparr>dns_image_repository := is_repository i\<rparr> else dns)
      in if dns_image_tag dns = [] then
           (case GetCoreDNSVersion ParseTolerant version of
              None \<Rightarrow> Inl ''could not determine default CoreDNS version based on the Kubernetes version''
            | Some tag \<Rightarrow> Inr (s\<lparr>ks_dns := dns\<lparr>dns_image_tag := tag\<rparr>\<rparr>))
         else Inr (s\<lparr>ks_dns := dns\<rparr>))"

definition coredns_Mutate ::
    "('doc, 'b, 'o, 'p) template_env \<Rightarrow> (string \<Rightarrow> string + semver) \<Rightarrow> string + cluster \<Rightarrow>
     image_spec option variable \<Rightarrow> 'doc \<Rightarrow> string + 'doc" where
  "coredns_Mutate env ParseTolerant clusterGetter v obj =
     (case v of
        Missing _ \<Rightarrow> Inr obj
      | Failed err \<Rightarrow> Inl err
      | Found img \<Rightarrow>
          (case clusterGetter of
             Inl err \<Rightarrow> Inl err
           | Inr cluster \<Rightarrow>
               patch_control_plane env
                 (\<lambda>t. map_sum id (\<lambda>s. t\<lparr>kcp_spec := s\<rparr>)
                    (coredns_change ParseTolerant (top_version (cl_topology cluster)) img (kcp_spec t)))
                 obj))"

section \<open>The audit policy and the cloud provider\<close>

definition auditPolicyPath :: string where
  "auditPolicyPath = ''/etc/kubernetes/audit-policy.yaml''"

definition auditArgs :: "kubeadm_arg list" where
  "auditArgs =
     [(''audit-log-path'', Some ''/var/log/audit/kube-apiserver-audit.log''),
      (''audit-log-maxage'', Some ''30''), (''audit-log-maxbackup'', Some ''90''),
      (''audit-log-maxsize'', Some ''100''), (''audit-log-compress'', Some ''true''),
      (''audit-policy-file'', Some auditPolicyPath)]"

definition auditVolumes :: "host_path_mount list" where
  "auditVolumes =
     [\<lparr>hp_name = ''audit-policy'', hp_host_path = auditPolicyPath, hp_mount_path = auditPolicyPath,
       hp_read_only = Some True, hp_path_type = ''File''\<rparr>,
      \<lparr>hp_name = ''audit-logs'', hp_host_path = ''/var/log/kubernetes/audit'',
       hp_mount_path = ''/var/log/audit/'', hp_read_only = None, hp_path_type = ''DirectoryOrCreate''\<rparr>]"

definition audit_change :: "string \<Rightarrow> kubeadm_config_spec \<Rightarrow> kubeadm_config_spec" where
  "audit_change policy s =
     on_api_server (\<lambda>a. a\<lparr>as_extra_args := add_missing_args auditArgs (as_extra_args a),
         as_extra_volumes := as_extra_volumes a @ auditVolumes\<rparr>)
       (add_files [script_file auditPolicyPath ''0600'' policy] s)"

definition auditpolicy_Mutate ::
    "('doc, 'b, 'o, 'p) template_env \<Rightarrow> string \<Rightarrow> 'doc \<Rightarrow> string + 'doc" where
  "auditpolicy_Mutate env policy obj =
     patch_control_plane env (\<lambda>t. Inr (on_spec (audit_change policy) t)) obj"

text \<open>The version of the control plane; \<open>Missing\<close> is the error for a field that is not found.\<close>

definition cloud_provider_change :: "kubeadm_config_spec \<Rightarrow> kubeadm_config_spec" where
  "cloud_provider_change =
     on_api_server (\<lambda>a. a\<lparr>as_extra_args :=
       add_missing_args [(''cloud-provider'', Some ''external'')] (as_extra_args a)\<rparr>)"

definition externalcloudprovider_Mutate ::
    "('doc, 'b, 'o, 'p) template_env \<Rightarrow> (string \<Rightarrow> string + semver) \<Rightarrow> (semver \<Rightarrow> bool) \<Rightarrow>
     string variable \<Rightarrow> 'doc \<Rightarrow> string + 'doc" where
  "externalcloudprovider_Mutate env ParseTolerant versionGreaterOrEqualTo133Range v obj =
     (case v of
        Missing _ \<Rightarrow> Inr obj
      | Failed err \<Rightarrow>
          Inl (''failed to get control plane Kubernetes version from builtin variable: '' @ err)
      | Found cpVersion \<Rightarrow>
          (case ParseTolerant cpVersion of
             Inl err \<Rightarrow> Inl (''failed to parse control plane Kubernetes version: '' @ err)
           | Inr kubernetesVersion \<Rightarrow>
               if versionGreaterOrEqualTo133Range kubernetesVersion then Inr obj
               else patch_control_plane env (\<lambda>t. Inr (on_spec cloud_provider_change t)) obj))"

section \<open>Renewal of certificates (\<open>autorenewcerts\<close>)\<close>

definition autorenew_change :: "int \<Rightarrow> kcp_template \<Rightarrow> kcp_template" where
  "autorenew_change days t =
     (if days = 0 then t\<lparr>kcp_expiry_days := 0\<rparr> else t\<lparr>kcp_expiry_days := days\<rparr>)"

definition autorenewcerts_Mutate ::
    "('doc, 'b, 'o, 'p) template_env \<Rightarrow> int variable \<Rightarrow> 'doc \<Rightarrow> string + 'doc" where
  "autorenewcerts_Mutate env v obj =
     (case v of
        Failed err \<Rightarrow> Inl err
      | Missing _ \<Rightarrow> patch_control_plane env (\<lambda>t. Inr (autorenew_change 0 t)) obj
      | Found days \<Rightarrow> patch_control_plane env (\<lambda>t. Inr (autorenew_change days t)) obj)"

section \<open>Sorting the arguments (\<open>sortextraargs\<close>)\<close>

text \<open>
  \<open>slices.SortFunc\<close> by the names of the arguments is not stable, so the sort is an argument;
  \<open>sorts_args\<close> is what it promises.
\<close>

definition sorts_args :: "(kubeadm_arg list \<Rightarrow> kubeadm_arg list) \<Rightarrow> bool" where
  "sorts_args sortArgs \<longleftrightarrow>
     (\<forall>args. mset (sortArgs args) = mset args \<and> sorted (map fst (sortArgs args)))"

definition sort_registration ::
    "(kubeadm_arg list \<Rightarrow> kubeadm_arg list) \<Rightarrow> node_registration \<Rightarrow> node_registration" where
  "sort_registration sortArgs r = r\<lparr>nr_kubelet_args := sortArgs (nr_kubelet_args r)\<rparr>"

definition sort_control_plane ::
    "(kubeadm_arg list \<Rightarrow> kubeadm_arg list) \<Rightarrow> kubeadm_config_spec \<Rightarrow> kubeadm_config_spec" where
  "sort_control_plane sortArgs s =
     s\<lparr>ks_api_server := (ks_api_server s)\<lparr>as_extra_args := sortArgs (as_extra_args (ks_api_server s))\<rparr>,
       ks_controller_manager_args := sortArgs (ks_controller_manager_args s),
       ks_scheduler_args := sortArgs (ks_scheduler_args s),
       ks_etcd := (ks_etcd s)\<lparr>etcd_extra_args := sortArgs (etcd_extra_args (ks_etcd s))\<rparr>,
       ks_init_registration := sort_registration sortArgs (ks_init_registration s),
       ks_join_registration := sort_registration sortArgs (ks_join_registration s)\<rparr>"

definition sort_worker ::
    "(kubeadm_arg list \<Rightarrow> kubeadm_arg list) \<Rightarrow> kubeadm_config_spec \<Rightarrow> kubeadm_config_spec" where
  "sort_worker sortArgs s = s\<lparr>ks_join_registration := sort_registration sortArgs (ks_join_registration s)\<rparr>"

definition sortextraargs_Mutate ::
    "('doc, 'b, 'o, 'p) template_env \<Rightarrow> (kubeadm_arg list \<Rightarrow> kubeadm_arg list) \<Rightarrow> 'doc \<Rightarrow>
     string + 'doc" where
  "sortextraargs_Mutate env sortArgs obj =
     bind_sum [] (patch_control_plane env (\<lambda>t. Inr (on_spec (sort_control_plane sortArgs) t)) obj)
       (patch_workers env (\<lambda>s. Inr (sort_worker sortArgs s)))"

end
