(* ===== verification/VirtualIP.thy ===== *)
theory VirtualIP
  imports NodeMutations ControlPlaneMutations
begin

text \<open>
  \<open>kubeadm/controlplanevirtualip\<close>: the static Pod of kube-vip in the files of the control
  plane template.  Parameters: parsing and executing a template, and the semver package.
\<close>

section \<open>The endpoint\<close>

record vip_spec =
  vs_provider :: string
  vs_configuration :: "(string \<times> int) option"

record endpoint_spec =
  es_host :: string
  es_port :: int
  es_virtual_ip :: "vip_spec option"

text \<open>A parsed template takes an address and a port.\<close>

record vip_libs =
  vl_parse :: "string \<Rightarrow> string + (string \<times> int \<Rightarrow> string + string)"
  vl_semver :: "string \<Rightarrow> string + semver"
  vl_script :: string

definition vip_template_input :: "endpoint_spec \<Rightarrow> string \<times> int" where
  "vip_template_input e =
     (let (address, port) = (case es_virtual_ip e of
            None \<Rightarrow> ([], 0)
          | Some v \<Rightarrow> (case vs_configuration v of None \<Rightarrow> ([], 0) | Some c \<Rightarrow> c))
      in (if address \<noteq> [] then address else es_host e, if port \<noteq> 0 then port else es_port e))"

definition vip_templateValues :: "vip_libs \<Rightarrow> endpoint_spec \<Rightarrow> string \<Rightarrow> string + string" where
  "vip_templateValues libs e txt =
     bind_sum ''failed to parse template: '' (vl_parse libs txt) (\<lambda>execute.
     bind_sum ''failed setting API endpoint configuration in template: ''
       (execute (vip_template_input e)) Inr)"

section \<open>Files and commands of kube-vip\<close>

definition kubeVIPFilePath :: string where
  "kubeVIPFilePath = ''/etc/kubernetes/manifests/kube-vip.yaml''"

definition VirtualIPProviderFileNames :: "string list" where
  "VirtualIPProviderFileNames = [kubeVIPFilePath]"

definition configureForKubeVIPScriptOnRemote :: string where
  "configureForKubeVIPScriptOnRemote = ConfigFilePathOnRemote ''configure-for-kube-vip.sh''"

definition getTemplate :: "machine_file list \<Rightarrow> string + string" where
  "getTemplate files =
     (case find (\<lambda>f. mf_path f = kubeVIPFilePath \<and> mf_content f \<noteq> []) files of
        Some f \<Rightarrow> Inr (mf_content f)
      | None \<Rightarrow> Inl (''did not find kube-vip template file '' @ quoted kubeVIPFilePath @
          '' in KubeadmControlPlaneTemplate''))"

definition needHackCommands :: "vip_libs \<Rightarrow> string \<Rightarrow> string + bool" where
  "needHackCommands libs version =
     bind_sum ''failed to parse version from cluster: '' (vl_semver libs version)
       (\<lambda>v. Inr (29 \<le> sv_minor v))"

definition GenerateFilesAndCommands ::
    "vip_libs \<Rightarrow> endpoint_spec \<Rightarrow> string \<Rightarrow> machine_file list \<Rightarrow>
     string + (machine_file list \<times> string list \<times> string list)" where
  "GenerateFilesAndCommands libs e version files =
     bind_sum ''failed getting template data: '' (getTemplate files) (\<lambda>data.
     bind_sum ''failed templating static Pod: '' (vip_templateValues libs e data) (\<lambda>pod.
     bind_sum ''failed to determine if kube-vip commands are needed: '' (needHackCommands libs version)
       (\<lambda>needCommands.
          let podFile = \<lparr>mf_path = kubeVIPFilePath, mf_owner = ''root:root'', mf_permissions = ''0600'',
                mf_content = pod, mf_secret = None\<rparr>
          in if \<not> needCommands then Inr ([podFile], [], [])
             else Inr ([podFile, script_file configureForKubeVIPScriptOnRemote ''0700'' (vl_script libs)],
               [''/bin/bash '' @ configureForKubeVIPScriptOnRemote @ '' set-host-aliases use-super-admin.conf''],
               [''/bin/bash '' @ configureForKubeVIPScriptOnRemote @ '' use-admin.conf'']))))"

section \<open>Deleting and merging files\<close>

definition deleteFiles :: "machine_file list \<Rightarrow> string list \<Rightarrow> machine_file list" where
  "deleteFiles files paths = filter (\<lambda>f. mf_path f \<notin> set paths) files"

text \<open>
  The inner loop of \<open>mergeFiles\<close>: the first file with the path is replaced, and whether
  there was one.
\<close>

fun replace_file :: "machine_file \<Rightarrow> machine_file list \<Rightarrow> machine_file list \<times> bool" where
  "replace_file f [] = ([], False)"
| "replace_file f (g # gs) =
     (if mf_path g = mf_path f then (f # gs, True)
      else case replace_file f gs of (gs', found) \<Rightarrow> (g # gs', found))"

text \<open>The outer loop runs from the last file to the first; what finds no place is appended.\<close>

definition merge_step ::
    "machine_file \<Rightarrow> machine_file list \<times> machine_file list \<Rightarrow> machine_file list \<times> machine_file list" where
  "merge_step f st =
     (case st of (files, rest) \<Rightarrow>
        (case replace_file f files of
           (files', True) \<Rightarrow> (files', rest)
         | (files', False) \<Rightarrow> (files, f # rest)))"

definition mergeFiles :: "machine_file list \<Rightarrow> machine_file list \<Rightarrow> machine_file list" where
  "mergeFiles files filesToMerge =
     (case foldr merge_step filesToMerge (files, []) of (files', rest) \<Rightarrow> files' @ rest)"

section \<open>The handler\<close>

text \<open>
  The provider is only set for kube-vip; for any other the call on the nil interface panics.
\<close>

definition virtual_ip_change ::
    "vip_libs \<Rightarrow> endpoint_spec \<Rightarrow> string \<Rightarrow> kubeadm_config_spec \<Rightarrow> (string + kubeadm_config_spec) outcome" where
  "virtual_ip_change libs e version s =
     (case es_virtual_ip e of
        None \<Rightarrow> Returns (Inr (s\<lparr>ks_files := deleteFiles (ks_files s) VirtualIPProviderFileNames\<rparr>))
      | Some vip \<Rightarrow>
          if vs_provider vip \<noteq> ''KubeVIP'' then Panics nil_dereference
          else Returns
            (bind_sum [] (GenerateFilesAndCommands libs e version (ks_files s))
              (\<lambda>(files, pre, post).
                 Inr (s\<lparr>ks_files := mergeFiles (ks_files s) files,
                   ks_pre_commands := ks_pre_commands s @ pre,
                   ks_post_commands := ks_post_commands s @ post\<rparr>))))"

definition virtual_ip_Mutate ::
    "('doc, 'b, 'o, 'p) template_env \<Rightarrow> vip_libs \<Rightarrow> string + cluster \<Rightarrow> endpoint_spec variable \<Rightarrow> 'doc \<Rightarrow>
     (string + 'doc) outcome" where
  "virtual_ip_Mutate env libs clusterGetter v obj =
     (case v of
        Missing _ \<Rightarrow> Returns (Inr obj)
      | Failed err \<Rightarrow> Returns (Inl err)
      | Found e \<Rightarrow>
          (case clusterGetter of
             Inl err \<Rightarrow> Returns (Inl err)
           | Inr cluster \<Rightarrow>
               if is_control_plane env obj then
                 (case pl_convert (te_cp env) obj of
                    Inl err \<Rightarrow> Returns (patch_control_plane env Inr obj)
                  | Inr t \<Rightarrow>
                      bind_outcome
                        (virtual_ip_change libs e (top_version (cl_topology cluster)) (kcp_spec t))
                        (\<lambda>r. Returns (patch_control_plane env
                           (\<lambda>_. map_sum id (\<lambda>s. t\<lparr>kcp_spec := s\<rparr>) r) obj)))
               else Returns (Inr obj)))"

section \<open>Merging by paths\<close>

abbreviation file_paths :: "machine_file list \<Rightarrow> string list" where
  "file_paths fs \<equiv> map mf_path fs"

text \<open>The first file with a path, as the machine gets it.\<close>

definition file_at :: "machine_file list \<Rightarrow> string \<Rightarrow> machine_file option" where
  "file_at fs path = find (\<lambda>f. mf_path f = path) fs"

lemma file_at_simps [simp]:
  "file_at [] p = None"
  "file_at (f # fs) p = (if mf_path f = p then Some f else file_at fs p)"
  by (simp_all add: file_at_def)

lemma file_at_append: "file_at (xs @ ys) p = (case file_at xs p of Some f \<Rightarrow> Some f | None \<Rightarrow> file_at ys p)"
  by (induction xs) auto

lemma file_at_None_iff: "file_at fs p = None \<longleftrightarrow> p \<notin> set (file_paths fs)"
  by (induction fs) auto

lemma replace_file_found: "snd (replace_file f fs) \<longleftrightarrow> mf_path f \<in> set (file_paths fs)"
  by (induction fs) (auto split: prod.splits)

lemma replace_file_paths: "file_paths (fst (replace_file f fs)) = file_paths fs"
  by (induction fs) (auto split: prod.splits)

lemma replace_file_at:
  "file_at (fst (replace_file f fs)) p =
     (if p = mf_path f \<and> p \<in> set (file_paths fs) then Some f else file_at fs p)"
  by (induction fs) (auto split: prod.splits)

lemma merge_step_eq:
  "merge_step f (files, rest) =
     (if mf_path f \<in> set (file_paths files) then (fst (replace_file f files), rest) else (files, f # rest))"
  using replace_file_found [of f files]
  by (auto simp: merge_step_def split: prod.splits bool.splits)

lemma merge_fold:
  assumes "foldr merge_step new (files, []) = (files', rest)"
  shows "file_paths files' = file_paths files"
    "rest = filter (\<lambda>f. mf_path f \<notin> set (file_paths files)) new"
    "file_at files' p = (if p \<in> set (file_paths files) then
       (case file_at new p of Some f \<Rightarrow> Some f | None \<Rightarrow> file_at files p) else None)"
proof -
  have "file_paths files' = file_paths files \<and>
      rest = filter (\<lambda>f. mf_path f \<notin> set (file_paths files)) new \<and>
      (\<forall>p. file_at files' p = (if p \<in> set (file_paths files) then
         (case file_at new p of Some f \<Rightarrow> Some f | None \<Rightarrow> file_at files p) else None))"
    using assms
  proof (induction new arbitrary: files' rest)
    case Nil
    then show ?case by (auto simp: file_at_None_iff)
  next
    case (Cons f new)
    obtain fs r where f: "foldr merge_step new (files, []) = (fs, r)" by fastforce
    note IH = Cons.IH [OF f]
    have m: "merge_step f (fs, r) = (files', rest)" using Cons.prems f by simp
    have same: "set (file_paths fs) = set (file_paths files)" using IH by metis
    show ?case
    proof (cases "mf_path f \<in> set (file_paths fs)")
      case True
      then have e: "files' = fst (replace_file f fs)" "rest = r" using m by (simp_all add: merge_step_eq)
      show ?thesis using IH True same by (simp add: e replace_file_paths replace_file_at)
    next
      case False
      then have e: "files' = fs" "rest = f # r" using m by (simp_all add: merge_step_eq)
      show ?thesis using IH False same by (auto simp: e)
    qed
  qed
  then show "file_paths files' = file_paths files"
    "rest = filter (\<lambda>f. mf_path f \<notin> set (file_paths files)) new"
    "file_at files' p = (if p \<in> set (file_paths files) then
       (case file_at new p of Some f \<Rightarrow> Some f | None \<Rightarrow> file_at files p) else None)"
    by simp_all
qed

lemma merged_paths:
  "file_paths (mergeFiles files new) =
     file_paths files @ filter (\<lambda>p. p \<notin> set (file_paths files)) (file_paths new)"
proof -
  obtain fs r where f: "foldr merge_step new (files, []) = (fs, r)" by fastforce
  show ?thesis
    using merge_fold(1,2) [OF f] by (simp add: mergeFiles_def f filter_map o_def)
qed

lemma file_at_filter: "file_at (filter (\<lambda>f. P (mf_path f)) fs) p = (if P p then file_at fs p else None)"
  by (induction fs) auto

lemma merged_file:
  "file_at (mergeFiles files new) p = (case file_at new p of Some f \<Rightarrow> Some f | None \<Rightarrow> file_at files p)"
proof -
  obtain fs r where f: "foldr merge_step new (files, []) = (fs, r)" by fastforce
  have r: "file_at r p = (if p \<notin> set (file_paths files) then file_at new p else None)"
    unfolding merge_fold(2) [OF f] by (rule file_at_filter)
  show ?thesis
    using merge_fold(3) [OF f, of p] r file_at_None_iff [of files p] file_at_None_iff [of new p]
    by (auto simp: mergeFiles_def f file_at_append split: option.splits if_splits)
qed

lemma file_at_find: "find (\<lambda>f. mf_path f = path \<and> mf_content f \<noteq> []) fs = Some f \<Longrightarrow>
    path \<in> set (file_paths fs)"
  by (auto simp: find_Some_iff)

end
