(* ===== verification/AdmissionPlugins.thy ===== *)
theory AdmissionPlugins
  imports VirtualIP
begin

text \<open>
  \<open>kubeadm/admissionconfiguration\<close>: adding an admission plugin to the API server (its entry in
  the AdmissionConfiguration, its own file, the mounts, the arguments), and
  \<open>kubeadm/podsecurityadmission\<close>, the handler that does so for PodSecurity.  Parameters:
  writing and reading an AdmissionConfiguration as YAML.
\<close>

section \<open>The configuration\<close>

text \<open>
  The Go type of an entry of an AdmissionConfiguration has its name and path only
  (\<open>admissionConfigPlugin\<close>): an inline \<open>configuration\<close> of an entry in an existing file is
  not read, and is gone when the file is written again with a plugin added.
\<close>

record admission_plugin =
  pg_name :: string
  pg_config_path :: string
  pg_config_content :: string

record admission_configuration =
  ac_api_version :: string
  ac_kind :: string
  ac_plugins :: "(string \<times> string) list"

record admission_yaml =
  ay_marshal :: "admission_configuration \<Rightarrow> string + string"
  ay_unmarshal :: "string \<Rightarrow> string + admission_configuration"

definition DefaultAdmissionConfigPath :: string where
  "DefaultAdmissionConfigPath = ''/etc/kubernetes/admission.yaml''"

definition getAdmissionConfigPath :: "kubeadm_arg list \<Rightarrow> string" where
  "getAdmissionConfigPath args =
     (case find (\<lambda>a. fst a = ''admission-control-config-file'' \<and> snd a \<noteq> None) args of
        Some (_, Some path) \<Rightarrow> path
      | _ \<Rightarrow> DefaultAdmissionConfigPath)"

definition appendPluginToExistingConfig ::
    "admission_yaml \<Rightarrow> admission_plugin \<Rightarrow> machine_file \<Rightarrow> string + machine_file" where
  "appendPluginToExistingConfig yaml plugin f =
     bind_sum ''failed to parse existing admission configuration: '' (ay_unmarshal yaml (mf_content f))
       (\<lambda>config.
          if pg_name plugin \<in> fst ` set (ac_plugins config) then Inr f
          else bind_sum ''failed to marshal updated admission configuration: ''
            (ay_marshal yaml (config\<lparr>ac_plugins := ac_plugins config @ [(pg_name plugin, pg_config_path plugin)]\<rparr>))
            (\<lambda>content. Inr (f\<lparr>mf_content := content\<rparr>)))"

text \<open>The loop over the files: the first one with the path is changed; \<open>None\<close> if there is none.\<close>

fun update_config_file ::
    "admission_yaml \<Rightarrow> admission_plugin \<Rightarrow> string \<Rightarrow> machine_file list \<Rightarrow>
     (string + machine_file list) option" where
  "update_config_file yaml plugin path [] = None"
| "update_config_file yaml plugin path (f # fs) =
     (if mf_path f = path then
        Some (bind_sum [] (appendPluginToExistingConfig yaml plugin f) (\<lambda>f'. Inr (f' # fs)))
      else map_option (map_sum id (\<lambda>fs'. f # fs')) (update_config_file yaml plugin path fs))"

definition addOrUpdateAdmissionConfig ::
    "admission_yaml \<Rightarrow> string \<Rightarrow> admission_plugin \<Rightarrow> kubeadm_config_spec \<Rightarrow>
     string + kubeadm_config_spec" where
  "addOrUpdateAdmissionConfig yaml path plugin s =
     (case update_config_file yaml plugin path (ks_files s) of
        Some r \<Rightarrow> bind_sum [] r (\<lambda>fs. Inr (s\<lparr>ks_files := fs\<rparr>))
      | None \<Rightarrow>
          bind_sum ''failed to marshal admission configuration: ''
            (ay_marshal yaml \<lparr>ac_api_version = ''apiserver.config.k8s.io/v1'',
               ac_kind = ''AdmissionConfiguration'', ac_plugins = [(pg_name plugin, pg_config_path plugin)]\<rparr>)
            (\<lambda>content. Inr (add_files [script_file path ''0600'' content] s)))"

section \<open>Files, mounts and arguments\<close>

definition addPluginConfigFile :: "admission_plugin \<Rightarrow> kubeadm_config_spec \<Rightarrow> kubeadm_config_spec" where
  "addPluginConfigFile plugin s =
     (if pg_config_path plugin \<in> set (file_paths (ks_files s)) then s
      else add_files [script_file (pg_config_path plugin) ''0600'' (pg_config_content plugin)] s)"

definition addVolumeMountIfMissing :: "string \<Rightarrow> string \<Rightarrow> api_server \<Rightarrow> api_server" where
  "addVolumeMountIfMissing path name a =
     (if path \<in> hp_mount_path ` set (as_extra_volumes a) then a
      else a\<lparr>as_extra_volumes := as_extra_volumes a @
        [\<lparr>hp_name = name, hp_host_path = path, hp_mount_path = path, hp_read_only = Some True,
          hp_path_type = ''File''\<rparr>]\<rparr>)"

definition setAdmissionConfigArg :: "string \<Rightarrow> api_server \<Rightarrow> api_server" where
  "setAdmissionConfigArg path a =
     a\<lparr>as_extra_args := add_missing_args [(''admission-control-config-file'', Some path)] (as_extra_args a)\<rparr>"

text \<open>The first argument with a value is extended; without one an argument is appended.\<close>

fun enable_plugin :: "string \<Rightarrow> kubeadm_arg list \<Rightarrow> kubeadm_arg list" where
  "enable_plugin name [] = [(''enable-admission-plugins'', Some name)]"
| "enable_plugin name ((n, v) # args) =
     (case v of
        None \<Rightarrow> (n, v) # enable_plugin name args
      | Some plugins \<Rightarrow>
          if n = ''enable-admission-plugins'' then
            (if name \<in> trim_space ` set (split_on (CHR '','') plugins) then (n, v) # args
             else (n, Some (plugins @ '','' @ name)) # args)
          else (n, v) # enable_plugin name args)"

definition addToEnabledPlugins :: "string \<Rightarrow> api_server \<Rightarrow> api_server" where
  "addToEnabledPlugins name a = a\<lparr>as_extra_args := enable_plugin name (as_extra_args a)\<rparr>"

definition sanitizeVolumeName :: "string \<Rightarrow> string" where
  "sanitizeVolumeName name =
     to_lower (map (\<lambda>c. if c = CHR '' '' then CHR ''-'' else c) name) @ ''-config''"

definition AddPlugin ::
    "admission_yaml \<Rightarrow> admission_plugin \<Rightarrow> kubeadm_config_spec \<Rightarrow> string + kubeadm_config_spec" where
  "AddPlugin yaml plugin s =
     (let path = getAdmissionConfigPath (as_extra_args (ks_api_server s))
      in bind_sum ''failed to update admission configuration: ''
           (addOrUpdateAdmissionConfig yaml path plugin s)
           (\<lambda>s. Inr (on_api_server (\<lambda>a.
                addToEnabledPlugins (pg_name plugin)
                  (setAdmissionConfigArg path
                    (addVolumeMountIfMissing (pg_config_path plugin) (sanitizeVolumeName (pg_name plugin))
                      (addVolumeMountIfMissing path ''admission-config'' a))))
              (addPluginConfigFile plugin s))))"

section \<open>PodSecurity (\<open>podsecurityadmission\<close>)\<close>

record pod_security =
  psa_enforce :: string
  psa_audit :: string
  psa_warn :: string
  psa_namespaces :: "string list"
  psa_usernames :: "string list"
  psa_runtime_classes :: "string list"

definition psa_line :: "string \<Rightarrow> string \<Rightarrow> string" where
  "psa_line name v = ''  '' @ name @ '': '' @ [CHR 0x22] @ v @ [CHR 0x22, CHR 0x0A]"

definition psa_exemptions :: "string \<Rightarrow> string list \<Rightarrow> string" where
  "psa_exemptions name xs =
     (if xs = [] then []
      else [CHR 0x0A] @ ''  '' @ name @ '':'' @
        concat (map (\<lambda>x. [CHR 0x0A] @ ''    - '' @ [CHR 0x22] @ x @ [CHR 0x22]) xs))"

definition generatePSAConfig :: "pod_security \<Rightarrow> string" where
  "generatePSAConfig psa =
     ''apiVersion: pod-security.admission.config.k8s.io/v1'' @ [CHR 0x0A] @
     ''kind: PodSecurityConfiguration'' @ [CHR 0x0A] @ ''defaults:'' @ [CHR 0x0A] @
     psa_line ''enforce'' (psa_enforce psa) @ psa_line ''enforce-version'' ''latest'' @
     psa_line ''audit'' (psa_audit psa) @ psa_line ''audit-version'' ''latest'' @
     psa_line ''warn'' (psa_warn psa) @ psa_line ''warn-version'' ''latest'' @ ''exemptions:'' @
     psa_exemptions ''namespaces'' (psa_namespaces psa) @
     psa_exemptions ''usernames'' (psa_usernames psa) @
     psa_exemptions ''runtimeClassNames'' (psa_runtime_classes psa) @ [CHR 0x0A]"

definition psa_plugin :: "pod_security \<Rightarrow> admission_plugin" where
  "psa_plugin psa =
     \<lparr>pg_name = ''PodSecurity'', pg_config_path = ''/etc/kubernetes/pod-security-admission.yaml'',
      pg_config_content = generatePSAConfig psa\<rparr>"

text \<open>The variable is a pointer.\<close>

definition psa_Mutate ::
    "('doc, 'b, 'o, 'p) template_env \<Rightarrow> admission_yaml \<Rightarrow> pod_security option variable \<Rightarrow> 'doc \<Rightarrow>
     string + 'doc" where
  "psa_Mutate env yaml v obj =
     (case v of
        Missing _ \<Rightarrow> Inr obj
      | Failed err \<Rightarrow> Inl err
      | Found psa \<Rightarrow>
          (case psa of
             None \<Rightarrow> Inr obj
           | Some p \<Rightarrow>
               patch_control_plane env
                 (\<lambda>t. map_sum id (\<lambda>s. t\<lparr>kcp_spec := s\<rparr>) (AddPlugin yaml (psa_plugin p) (kcp_spec t))) obj))"

section \<open>Adding a plugin twice\<close>

text \<open>What is written is read back.\<close>

definition admission_yaml_ok :: "admission_yaml \<Rightarrow> bool" where
  "admission_yaml_ok yaml \<longleftrightarrow>
     (\<forall>c content. ay_marshal yaml c = Inr content \<longrightarrow> ay_unmarshal yaml content = Inr c)"

text \<open>The AdmissionConfiguration among some files lists the plugin.\<close>

definition config_lists :: "admission_yaml \<Rightarrow> string \<Rightarrow> string \<Rightarrow> machine_file list \<Rightarrow> bool" where
  "config_lists yaml path name fs \<longleftrightarrow>
     (case file_at fs path of
        None \<Rightarrow> False
      | Some f \<Rightarrow>
          (case ay_unmarshal yaml (mf_content f) of
             Inl err \<Rightarrow> False
           | Inr c \<Rightarrow> name \<in> fst ` set (ac_plugins c)))"

lemma appended_lists:
  assumes "admission_yaml_ok yaml" "appendPluginToExistingConfig yaml plugin f = Inr f'"
  shows "mf_path f' = mf_path f"
    "\<exists>c. ay_unmarshal yaml (mf_content f') = Inr c \<and> pg_name plugin \<in> fst ` set (ac_plugins c)"
proof -
  obtain c where c: "ay_unmarshal yaml (mf_content f) = Inr c"
    using assms(2) by (auto simp: appendPluginToExistingConfig_def bind_sum_Inr_iff)
  let ?c = "c\<lparr>ac_plugins := ac_plugins c @ [(pg_name plugin, pg_config_path plugin)]\<rparr>"
  have "mf_path f' = mf_path f \<and>
      (\<exists>c. ay_unmarshal yaml (mf_content f') = Inr c \<and> pg_name plugin \<in> fst ` set (ac_plugins c))"
  proof (cases "pg_name plugin \<in> fst ` set (ac_plugins c)")
    case True
    then have "f' = f" using assms(2) c by (simp add: appendPluginToExistingConfig_def)
    then show ?thesis using c True by blast
  next
    case False
    then obtain content where "ay_marshal yaml ?c = Inr content" "f' = f\<lparr>mf_content := content\<rparr>"
      using assms(2) c by (auto simp: appendPluginToExistingConfig_def bind_sum_Inr_iff)
    then show ?thesis using assms(1) by (auto simp: admission_yaml_ok_def intro!: exI [of _ ?c])
  qed
  then show "mf_path f' = mf_path f"
    "\<exists>c. ay_unmarshal yaml (mf_content f') = Inr c \<and> pg_name plugin \<in> fst ` set (ac_plugins c)"
    by blast+
qed

lemma update_config_file_cases:
  assumes "admission_yaml_ok yaml"
  shows "case update_config_file yaml plugin path fs of
      None \<Rightarrow> path \<notin> set (file_paths fs)
    | Some (Inl err) \<Rightarrow> True
    | Some (Inr fs') \<Rightarrow> file_paths fs' = file_paths fs \<and> config_lists yaml path (pg_name plugin) fs'"
proof (induction fs)
  case Nil
  then show ?case by simp
next
  case (Cons f fs)
  show ?case
  proof (cases "mf_path f = path")
    case True
    show ?thesis
    proof (cases "appendPluginToExistingConfig yaml plugin f")
      case (Inl err)
      then show ?thesis using True by simp
    next
      case (Inr f')
      note a = appended_lists [OF assms Inr]
      obtain c where "ay_unmarshal yaml (mf_content f') = Inr c" "pg_name plugin \<in> fst ` set (ac_plugins c)"
        using a(2) by blast
      then show ?thesis using True Inr a(1) by (simp add: config_lists_def)
    qed
  next
    case False
    show ?thesis
    proof (cases "update_config_file yaml plugin path fs")
      case None
      then show ?thesis using Cons.IH False by simp
    next
      case (Some r)
      then show ?thesis using Cons.IH False by (cases r) (auto simp: config_lists_def)
    qed
  qed
qed

lemma update_config_file_listed:
  assumes "config_lists yaml path (pg_name plugin) fs"
  shows "update_config_file yaml plugin path fs = Some (Inr fs)"
  using assms
proof (induction fs)
  case Nil
  then show ?case by (simp add: config_lists_def)
next
  case (Cons f fs)
  show ?case
  proof (cases "mf_path f = path")
    case True
    then obtain c where "ay_unmarshal yaml (mf_content f) = Inr c" "pg_name plugin \<in> fst ` set (ac_plugins c)"
      using Cons.prems by (auto simp: config_lists_def split: sum.splits)
    then show ?thesis using True by (simp add: appendPluginToExistingConfig_def)
  next
    case False
    then show ?thesis using Cons by (simp add: config_lists_def)
  qed
qed

lemma config_lists_append:
  "config_lists yaml path name fs \<Longrightarrow> config_lists yaml path name (fs @ gs)"
  by (simp add: config_lists_def file_at_append split: option.splits)

lemma addOrUpdate_lists:
  assumes "admission_yaml_ok yaml" "addOrUpdateAdmissionConfig yaml path plugin s = Inr s'"
  shows "config_lists yaml path (pg_name plugin) (ks_files s')" "ks_api_server s' = ks_api_server s"
proof -
  have "config_lists yaml path (pg_name plugin) (ks_files s') \<and> ks_api_server s' = ks_api_server s"
  proof (cases "update_config_file yaml plugin path (ks_files s)")
    case None
    then have "path \<notin> set (file_paths (ks_files s))"
      using update_config_file_cases [OF assms(1), where plugin = plugin and path = path and fs = "ks_files s"] by simp
    then have "file_at (ks_files s) path = None" by (simp add: file_at_None_iff)
    moreover obtain content where
      "ay_marshal yaml \<lparr>ac_api_version = ''apiserver.config.k8s.io/v1'', ac_kind = ''AdmissionConfiguration'',
         ac_plugins = [(pg_name plugin, pg_config_path plugin)]\<rparr> = Inr content"
      "s' = add_files [script_file path ''0600'' content] s"
      using assms(2) None by (auto simp: addOrUpdateAdmissionConfig_def bind_sum_Inr_iff)
    ultimately show ?thesis
      using assms(1) by (simp add: admission_yaml_ok_def add_files_def config_lists_def file_at_append
          script_file_def)
  next
    case (Some r)
    then obtain fs where "r = Inr fs" "s' = s\<lparr>ks_files := fs\<rparr>"
      using assms(2) by (auto simp: addOrUpdateAdmissionConfig_def bind_sum_Inr_iff)
    then show ?thesis
      using update_config_file_cases [OF assms(1), where plugin = plugin and path = path and fs = "ks_files s"] Some by simp
  qed
  then show "config_lists yaml path (pg_name plugin) (ks_files s')" "ks_api_server s' = ks_api_server s"
    by simp_all
qed

lemma addOrUpdate_listed:
  "config_lists yaml path (pg_name plugin) (ks_files s) \<Longrightarrow>
     addOrUpdateAdmissionConfig yaml path plugin s = Inr s"
  by (simp add: addOrUpdateAdmissionConfig_def update_config_file_listed)

text \<open>The plugin is among the enabled ones.\<close>

fun enables :: "string \<Rightarrow> kubeadm_arg list \<Rightarrow> bool" where
  "enables name [] = False"
| "enables name ((n, v) # args) =
     (case v of
        None \<Rightarrow> enables name args
      | Some plugins \<Rightarrow>
          if n = ''enable-admission-plugins''
          then name \<in> trim_space ` set (split_on (CHR '','') plugins) else enables name args)"

lemma split_on_none: "c \<notin> set s \<Longrightarrow> split_on c s = [s]"
  by (induction s) auto

lemma split_on_snoc: "c \<notin> set t \<Longrightarrow> split_on c (s @ c # t) = split_on c s @ [t]"
  by (induction s) (auto simp: split_on_none split: list.splits)

lemma enable_plugin_enables:
  assumes "CHR '','' \<notin> set name" "trim_space name = name"
  shows "enables name (enable_plugin name args)"
proof -
  have last: "name \<in> trim_space ` set (split_on (CHR '','') (plugins @ CHR '','' # name))" for plugins
    using assms by (simp add: split_on_snoc image_iff)
  have alone: "name \<in> trim_space ` set (split_on (CHR '','') name)"
    using assms by (simp add: split_on_none)
  show ?thesis
  proof (induction args)
    case Nil
    then show ?case using alone by simp
  next
    case (Cons a args)
    obtain n v where a: "a = (n, v)" by (cases a) auto
    show ?case using Cons last by (cases v) (simp_all add: a)
  qed
qed

lemma enable_plugin_enabled: "enables name args \<Longrightarrow> enable_plugin name args = args"
  by (induction name args rule: enable_plugin.induct) (auto split: option.splits if_splits)

text \<open>The path of the configuration stays the same.\<close>

lemma path_enable_plugin: "getAdmissionConfigPath (enable_plugin name args) = getAdmissionConfigPath args"
  unfolding getAdmissionConfigPath_def
  by (induction name args rule: enable_plugin.induct) (auto split: option.splits)

lemma find_append_None: "find P xs = None \<Longrightarrow> find P (xs @ ys) = find P ys"
  by (induction xs) (auto split: if_splits)

lemma path_add_missing:
  "getAdmissionConfigPath (add_missing_args [(''admission-control-config-file'', Some
     (getAdmissionConfigPath args))] args) = getAdmissionConfigPath args"
proof (cases "''admission-control-config-file'' \<in> fst ` set args")
  case True
  then show ?thesis by simp
next
  case False
  then have "find (\<lambda>a. fst a = ''admission-control-config-file'' \<and> snd a \<noteq> None) args = None"
    by (auto simp: find_None_iff image_iff)
  then show ?thesis using False
    by (simp add: getAdmissionConfigPath_def find_append_None)
qed

lemma names_enable_plugin: "fst ` set args \<subseteq> fst ` set (enable_plugin name args)"
  by (induction name args rule: enable_plugin.induct) (auto split: option.splits)

definition plugin_mounts :: "string \<Rightarrow> string \<Rightarrow> admission_plugin \<Rightarrow> api_server \<Rightarrow> api_server" where
  "plugin_mounts path configPath plugin a =
     addVolumeMountIfMissing configPath (sanitizeVolumeName (pg_name plugin))
       (addVolumeMountIfMissing path ''admission-config'' a)"

lemma plugin_mounts_args [simp]:
  "as_extra_args (plugin_mounts path configPath plugin a) = as_extra_args a"
  by (simp add: plugin_mounts_def addVolumeMountIfMissing_def)

lemma plugin_mounts_paths:
  "{path, configPath} \<subseteq> hp_mount_path ` set (as_extra_volumes (plugin_mounts path configPath plugin a))"
  by (auto simp: plugin_mounts_def addVolumeMountIfMissing_def)

lemma plugin_mounts_same:
  "{path, configPath} \<subseteq> hp_mount_path ` set (as_extra_volumes a) \<Longrightarrow> plugin_mounts path configPath plugin a = a"
  by (simp add: plugin_mounts_def addVolumeMountIfMissing_def)

lemma AddPlugin_eq:
  "AddPlugin yaml plugin s =
     (let path = getAdmissionConfigPath (as_extra_args (ks_api_server s))
      in bind_sum ''failed to update admission configuration: ''
           (addOrUpdateAdmissionConfig yaml path plugin s)
           (\<lambda>s. Inr (on_api_server (\<lambda>a.
                addToEnabledPlugins (pg_name plugin) (setAdmissionConfigArg path
                  (plugin_mounts path (pg_config_path plugin) plugin a)))
              (addPluginConfigFile plugin s))))"
  by (simp add: AddPlugin_def plugin_mounts_def Let_def)

text \<open>What a template has when a plugin was added.\<close>

definition plugin_added :: "admission_yaml \<Rightarrow> admission_plugin \<Rightarrow> kubeadm_config_spec \<Rightarrow> bool" where
  "plugin_added yaml plugin s \<longleftrightarrow>
     (let a = ks_api_server s; path = getAdmissionConfigPath (as_extra_args a)
      in config_lists yaml path (pg_name plugin) (ks_files s) \<and>
         pg_config_path plugin \<in> set (file_paths (ks_files s)) \<and>
         {path, pg_config_path plugin} \<subseteq> hp_mount_path ` set (as_extra_volumes a) \<and>
         ''admission-control-config-file'' \<in> fst ` set (as_extra_args a) \<and>
         enables (pg_name plugin) (as_extra_args a))"

lemma AddPlugin_added:
  assumes "admission_yaml_ok yaml" "CHR '','' \<notin> set (pg_name plugin)"
    "trim_space (pg_name plugin) = pg_name plugin" "AddPlugin yaml plugin s = Inr s'"
  shows "plugin_added yaml plugin s'"
proof -
  let ?path = "getAdmissionConfigPath (as_extra_args (ks_api_server s))"
  obtain t where t: "addOrUpdateAdmissionConfig yaml ?path plugin s = Inr t"
    and s': "s' = on_api_server (\<lambda>a. addToEnabledPlugins (pg_name plugin) (setAdmissionConfigArg ?path
        (plugin_mounts ?path (pg_config_path plugin) plugin a))) (addPluginConfigFile plugin t)"
    using assms(4) by (auto simp: AddPlugin_eq Let_def bind_sum_Inr_iff)
  note lists = addOrUpdate_lists [OF assms(1) t]
  let ?args = "add_missing_args [(''admission-control-config-file'', Some ?path)] (as_extra_args (ks_api_server s))"
  have api: "ks_api_server (addPluginConfigFile plugin t) = ks_api_server s"
    using lists(2) by (simp add: addPluginConfigFile_def add_files_def)
  have args: "as_extra_args (ks_api_server s') = enable_plugin (pg_name plugin) ?args"
    by (simp add: s' on_api_server_def addToEnabledPlugins_def setAdmissionConfigArg_def api)
  have vols: "as_extra_volumes (ks_api_server s') =
      as_extra_volumes (plugin_mounts ?path (pg_config_path plugin) plugin (ks_api_server s))"
    by (simp add: s' on_api_server_def addToEnabledPlugins_def setAdmissionConfigArg_def api)
  have path: "getAdmissionConfigPath (as_extra_args (ks_api_server s')) = ?path"
    unfolding args path_enable_plugin by (rule path_add_missing)
  have files: "ks_files s' = ks_files (addPluginConfigFile plugin t)"
    by (simp add: s' on_api_server_def)
  have "config_lists yaml ?path (pg_name plugin) (ks_files s')"
    using lists(1) unfolding files by (simp add: addPluginConfigFile_def add_files_def config_lists_append)
  moreover have "pg_config_path plugin \<in> set (file_paths (ks_files s'))"
    unfolding files by (simp add: addPluginConfigFile_def add_files_def script_file_def)
  moreover have "''admission-control-config-file'' \<in> fst ` set (as_extra_args (ks_api_server s'))"
    unfolding args using names_enable_plugin [of ?args "pg_name plugin"]
      names_add_missing_args [of "[(''admission-control-config-file'', Some ?path)]"] by auto
  moreover have "enables (pg_name plugin) (as_extra_args (ks_api_server s'))"
    unfolding args by (rule enable_plugin_enables [OF assms(2,3)])
  ultimately show ?thesis
    unfolding plugin_added_def Let_def path vols using plugin_mounts_paths by blast
qed

lemma AddPlugin_again:
  assumes "plugin_added yaml plugin s"
  shows "AddPlugin yaml plugin s = Inr s"
proof -
  let ?a = "ks_api_server s"
  let ?path = "getAdmissionConfigPath (as_extra_args ?a)"
  have added: "config_lists yaml ?path (pg_name plugin) (ks_files s)"
    "pg_config_path plugin \<in> set (file_paths (ks_files s))"
    "{?path, pg_config_path plugin} \<subseteq> hp_mount_path ` set (as_extra_volumes ?a)"
    "''admission-control-config-file'' \<in> fst ` set (as_extra_args ?a)"
    "enables (pg_name plugin) (as_extra_args ?a)"
    using assms unfolding plugin_added_def Let_def by blast+
  have "addToEnabledPlugins (pg_name plugin)
      (setAdmissionConfigArg ?path (plugin_mounts ?path (pg_config_path plugin) plugin ?a)) = ?a"
    using added(4,5) by (simp add: plugin_mounts_same [OF added(3)] setAdmissionConfigArg_def
        addToEnabledPlugins_def enable_plugin_enabled)
  then show ?thesis
    using added(2) by (simp add: AddPlugin_eq Let_def addOrUpdate_listed [OF added(1)] addPluginConfigFile_def
        on_api_server_def)
qed

end
