(* ===== verification/PatchPipeline.thy ===== *)
theory PatchPipeline
  imports RegistryHandlers InfraHandlers NoProxy KubeletConfiguration AdmissionPlugins
begin

text \<open>
  The composition of the patch handlers: \<open>generic/mutation/handlers.go\<close> and the
  \<open>metapatch_handler.go\<close> of each provider.  A handler is a function of the document of a
  template and of the state of the management cluster; the pipeline stops at the first error.
  The variables of a request and the libraries are collected in two records.
\<close>

section \<open>What the handlers are given\<close>

text \<open>The variables of a request, by the handler that reads them.\<close>

record patch_variables =
  v_etcd :: "image_spec option variable"
  v_dns :: "image_spec option variable"
  v_cert_sans :: "string list variable"
  v_proxy :: "http_proxy variable"
  v_image_repository :: "string variable"
  v_registries :: "(string \<times> string option option) list variable"
  v_mirror :: "(string \<times> string option option) variable"
  v_registry_addon :: "unit variable"
  v_cni :: "string variable"
  v_users :: "api_user list variable"
  v_encryption :: "encryption_provider list variable"
  v_autorenew :: "int variable"
  v_proxy_mode :: "string variable"
  v_psa :: "pod_security option variable"
  v_ntp :: "string list option variable"
  v_cp_taints :: "node_taint list option variable"
  v_cp_ignore :: "string list variable"
  v_cp_version :: "string variable"
  v_cp_kubelet :: "kubelet_settings variable"
  v_worker_taints :: "node_taint list option variable"
  v_worker_ignore :: "string list variable"
  v_worker_kubelet :: "kubelet_settings variable"
  v_max_pulls :: "int variable"

record nutanix_variables =
  nv_endpoint :: "control_plane_endpoint variable"
  nv_virtual_ip :: "endpoint_spec variable"
  nv_prism_central :: "prism_central_endpoint variable"
  nv_cp_machine :: "machine_details_all variable"
  nv_failure_domains :: "string list variable"
  nv_worker_machine :: "machine_details_all variable"

text \<open>The libraries, embedded files and calls.\<close>

record ('doc, 'b, 'o, 'p, 's, 'obj, 'net) pipeline_env =
  pe_infra :: "('doc, 'b, 'o, 'p) infra_env"
  pe_cluster :: "'s \<Rightarrow> string + cluster"
  pe_cluster_name :: string
  pe_cluster_namespace :: string
  pe_namespace_of :: "'doc \<Rightarrow> string"
  pe_keys :: "'s key_api"
  pe_codec :: encryption_codec
  pe_registry :: "('s, 'obj) registry_api"
  pe_credentials :: credential_env
  pe_templates :: credential_templates
  pe_values :: "provider list \<Rightarrow> provider list"
  pe_install_script :: string
  pe_service_net :: "'net service_net"
  pe_parse_uri :: url_parser
  pe_drop_in :: machine_file
  pe_netipx :: netipx
  pe_coredns :: "string \<Rightarrow> string + semver"
  pe_audit_policy :: string
  pe_metrics :: string
  pe_ports :: string
  pe_apply_patches :: "string \<times> string \<Rightarrow> string + string"
  pe_restart :: string
  pe_admission :: admission_yaml
  pe_semver :: "string \<Rightarrow> string + semver"
  pe_from_133 :: "semver \<Rightarrow> bool"
  pe_sort_args :: "kubeadm_arg list \<Rightarrow> kubeadm_arg list"
  pe_kubelet_script :: string
  pe_vip :: vip_libs
  pe_base64 :: "string \<Rightarrow> string + string"

type_synonym ('doc, 's) mutator = "'doc \<Rightarrow> 's \<Rightarrow> ((string + 'doc) \<times> 's) outcome"

section \<open>The pipeline\<close>

text \<open>\<open>GeneratePatches\<close> on one template.\<close>

fun run_pipeline :: "('doc, 's) mutator list \<Rightarrow> ('doc, 's) mutator" where
  "run_pipeline [] obj s = Returns (Inr obj, s)"
| "run_pipeline (m # ms) obj s =
     bind_outcome (m obj s)
       (\<lambda>(r, s'). case r of Inl err \<Rightarrow> Returns (Inl err, s') | Inr obj' \<Rightarrow> run_pipeline ms obj' s')"

text \<open>A handler that does not change the state, and one that cannot panic.\<close>

definition stateless :: "('doc \<Rightarrow> string + 'doc) \<Rightarrow> ('doc, 's) mutator" where
  "stateless f obj s = Returns (f obj, s)"

definition effectful :: "('doc \<Rightarrow> 's \<Rightarrow> (string + 'doc) \<times> 's) \<Rightarrow> ('doc, 's) mutator" where
  "effectful f obj s = Returns (f obj s)"

text \<open>The getter of the Cluster, which every call asks the API server for; and a handler that uses it.\<close>

definition fetched_cluster ::
    "('doc, 'b, 'o, 'p, 's, 'obj, 'net) pipeline_env \<Rightarrow> 's \<Rightarrow> string + cluster" where
  "fetched_cluster pe s = fst (CreateClusterGetter (\<lambda>s. (pe_cluster pe s, s)) s)"

definition reading_cluster ::
    "('doc, 'b, 'o, 'p, 's, 'obj, 'net) pipeline_env \<Rightarrow> (string + cluster \<Rightarrow> 'doc \<Rightarrow> string + 'doc) \<Rightarrow>
     ('doc, 's) mutator" where
  "reading_cluster pe f obj s = Returns (f (fetched_cluster pe s) obj, s)"

definition pe_env ::
    "('doc, 'b, 'o, 'p, 's, 'obj, 'net) pipeline_env \<Rightarrow> ('doc, 'b, 'o, 'p) template_env" where
  "pe_env pe = ie_base (pe_infra pe)"

text \<open>The handler for mirrors reads the Cluster and Secrets.\<close>

definition mirrors_step ::
    "('doc, 'b, 'o, 'p, 's, 'obj, 'net) pipeline_env \<Rightarrow> patch_variables \<Rightarrow> ('doc, 's) mutator" where
  "mirrors_step pe v obj s =
     Returns
       (mirrors_Mutate (pe_env pe) (pe_service_net pe) (\<lambda>ns n. ra_secret (pe_registry pe) ns n s)
         (pe_parse_uri pe) (pe_drop_in pe) (pe_namespace_of pe) (fetched_cluster pe s) (v_mirror v)
         (v_registries v) (v_registry_addon v) obj, s)"

definition MetaMutators ::
    "('doc, 'b, 'o, 'p, 's, 'obj, 'net) pipeline_env \<Rightarrow> patch_variables \<Rightarrow> ('doc, 's) mutator list" where
  "MetaMutators pe v =
     (let env = pe_env pe in
      [stateless (auditpolicy_Mutate env (pe_audit_policy pe)),
       stateless (etcd_Mutate env (v_etcd v)),
       reading_cluster pe (\<lambda>c. coredns_Mutate env (pe_coredns pe) c (v_dns v)),
       reading_cluster pe (\<lambda>c. certsans_Mutate env c (v_cert_sans v)),
       reading_cluster pe (\<lambda>c. httpproxy_Mutate env (pe_netipx pe) c (v_proxy v)),
       stateless (imagerepository_Mutate env (v_image_repository v)),
       effectful (\<lambda>obj s. credentials_Mutate env (pe_registry pe) (pe_credentials pe) (pe_templates pe)
         (pe_values pe) (pe_install_script pe) (pe_namespace_of pe) (pe_cluster_name pe)
         (fetched_cluster pe s) (v_registries v) (v_mirror v) obj s),
       mirrors_step pe v,
       stateless (calico_Mutate (pe_infra pe) (v_cni v)),
       stateless (users_Mutate env (v_users v)),
       stateless (containerdmetrics_Mutate env (pe_metrics pe)),
       stateless (containerdunprivilegedports_Mutate env (pe_ports pe)),
       effectful (\<lambda>obj s. encryption_Mutate env (pe_keys pe) (pe_codec pe) (fetched_cluster pe s)
         (v_encryption v) obj s),
       stateless (autorenewcerts_Mutate env (v_autorenew v)),
       stateless (kubeproxymode_Mutate env (v_proxy_mode v)),
       stateless (psa_Mutate env (pe_admission pe) (v_psa v)),
       stateless (ntp_Mutate env (v_ntp v)),
       stateless (containerd_restart_Mutate env (pe_apply_patches pe) (pe_restart pe))])"

definition ControlPlaneMetaMutators ::
    "('doc, 'b, 'o, 'p, 's, 'obj, 'net) pipeline_env \<Rightarrow> patch_variables \<Rightarrow> ('doc, 's) mutator list" where
  "ControlPlaneMetaMutators pe v =
     (let env = pe_env pe in
      [stateless (taints_control_plane_Mutate env (v_cp_taints v)),
       stateless (noderegistration_control_plane_Mutate env (v_cp_ignore v)),
       stateless (externalcloudprovider_Mutate env (pe_semver pe) (pe_from_133 pe) (v_cp_version v)),
       stateless (kubelet_control_plane_Mutate env (pe_kubelet_script pe) (v_cp_kubelet v) (v_max_pulls v)),
       stateless (sortextraargs_Mutate env (pe_sort_args pe))])"

definition WorkerMetaMutators ::
    "('doc, 'b, 'o, 'p, 's, 'obj, 'net) pipeline_env \<Rightarrow> patch_variables \<Rightarrow> ('doc, 's) mutator list" where
  "WorkerMetaMutators pe v =
     (let env = pe_env pe in
      [stateless (taints_worker_Mutate env (v_worker_taints v)),
       stateless (noderegistration_worker_Mutate env (v_worker_ignore v)),
       stateless (kubelet_worker_Mutate env (pe_kubelet_script pe) (v_worker_kubelet v) (v_max_pulls v)),
       stateless (sortextraargs_Mutate env (pe_sort_args pe))])"

section \<open>The handlers of a provider\<close>

definition generic_cluster_patch ::
    "('doc, 'b, 'o, 'p, 's, 'obj, 'net) pipeline_env \<Rightarrow> patch_variables \<Rightarrow> ('doc, 's) mutator" where
  "generic_cluster_patch pe v = run_pipeline (MetaMutators pe v @ ControlPlaneMetaMutators pe v)"

definition generic_worker_patch ::
    "('doc, 'b, 'o, 'p, 's, 'obj, 'net) pipeline_env \<Rightarrow> patch_variables \<Rightarrow> ('doc, 's) mutator" where
  "generic_worker_patch pe v = run_pipeline (WorkerMetaMutators pe v)"

definition virtual_ip_step ::
    "('doc, 'b, 'o, 'p, 's, 'obj, 'net) pipeline_env \<Rightarrow> endpoint_spec variable \<Rightarrow> ('doc, 's) mutator" where
  "virtual_ip_step pe v obj s =
     bind_outcome (virtual_ip_Mutate (pe_env pe) (pe_vip pe) (fetched_cluster pe s) v obj)
       (\<lambda>r. Returns (r, s))"

definition nutanix_mutators ::
    "('doc, 'b, 'o, 'p, 's, 'obj, 'net) pipeline_env \<Rightarrow> nutanix_variables \<Rightarrow> ('doc, 's) mutator list" where
  "nutanix_mutators pe nv =
     [stateless (controlplaneendpoint_Mutate (pe_infra pe) (nv_endpoint nv)),
      virtual_ip_step pe (nv_virtual_ip nv),
      stateless (prismcentralendpoint_Mutate (pe_infra pe) (pe_parse_uri pe) (pe_base64 pe)
        (pe_cluster_namespace pe) (nv_prism_central nv)),
      stateless (machinedetails_Mutate (pe_infra pe) machinedetails_control_plane_selector (nv_cp_machine nv)),
      stateless (controlplanefailuredomains_Mutate (pe_infra pe) (nv_failure_domains nv))]"

definition nutanix_cluster_patch ::
    "('doc, 'b, 'o, 'p, 's, 'obj, 'net) pipeline_env \<Rightarrow> nutanix_variables \<Rightarrow> patch_variables \<Rightarrow>
     ('doc, 's) mutator" where
  "nutanix_cluster_patch pe nv v =
     run_pipeline (nutanix_mutators pe nv @ MetaMutators pe v @ ControlPlaneMetaMutators pe v)"

definition nutanix_worker_patch ::
    "('doc, 'b, 'o, 'p, 's, 'obj, 'net) pipeline_env \<Rightarrow> nutanix_variables \<Rightarrow> patch_variables \<Rightarrow>
     ('doc, 's) mutator" where
  "nutanix_worker_patch pe nv v =
     run_pipeline
       (stateless (machinedetails_Mutate (pe_infra pe) machinedetails_worker_selector (nv_worker_machine nv)) #
        WorkerMetaMutators pe v)"

text \<open>AWS and EKS read variables of the same types, from different paths.\<close>

record aws_machine_variables =
  mv_tags :: "(string \<times> string) list variable"
  mv_profile :: "string variable"
  mv_type :: "string variable"
  mv_ami :: "(string \<times> (string \<times> string \<times> string) option) variable"
  mv_groups :: "string list variable"
  mv_volumes :: "(api_volume option \<times> api_volume list) variable"
  mv_placement :: "string variable"

record aws_variables =
  xv_tags :: "(string \<times> string) list variable"
  xv_region :: "string variable"
  xv_network :: "(string option \<times> string list) variable"
  xv_load_balancer :: "string option variable"
  xv_identity :: "(string \<times> string) variable"
  xv_control_plane :: aws_machine_variables
  xv_workers :: aws_machine_variables

definition aws_mutators ::
    "('doc, 'b, 'o, 'p) infra_env \<Rightarrow> string \<Rightarrow> string variable \<Rightarrow> aws_variables \<Rightarrow> ('doc, 's) mutator list" where
  "aws_mutators env script cni xv =
     (let m = xv_control_plane xv; sel = aws_control_plane_selector in
      map stateless
       [calico_Mutate env cni, aws_cluster_tags_Mutate env (xv_tags xv), aws_region_Mutate env (xv_region xv),
        aws_network_Mutate env (xv_network xv), aws_load_balancer_Mutate env (xv_load_balancer xv),
        aws_machine_tags_Mutate env sel (mv_tags m), aws_identity_Mutate env (xv_identity xv),
        iaminstanceprofile_Mutate env sel (mv_profile m), instancetype_Mutate env sel (mv_type m),
        ami_Mutate env sel (mv_ami m), securitygroups_Mutate env sel (mv_groups m),
        volumes_Mutate env sel (mv_volumes m), placementgroup_Mutate env sel (mv_placement m),
        placementgroupnfd_control_plane_Mutate env script (mv_placement m)])"

definition aws_cluster_patch ::
    "('doc, 'b, 'o, 'p, 's, 'obj, 'net) pipeline_env \<Rightarrow> string \<Rightarrow> aws_variables \<Rightarrow> patch_variables \<Rightarrow>
     ('doc, 's) mutator" where
  "aws_cluster_patch pe script xv v =
     run_pipeline
       (aws_mutators (pe_infra pe) script (v_cni v) xv @ MetaMutators pe v @ ControlPlaneMetaMutators pe v)"

definition aws_worker_patch ::
    "('doc, 'b, 'o, 'p, 's, 'obj, 'net) pipeline_env \<Rightarrow> string \<Rightarrow> aws_variables \<Rightarrow> patch_variables \<Rightarrow>
     ('doc, 's) mutator" where
  "aws_worker_patch pe script xv v =
     (let env = pe_infra pe; m = xv_workers xv; sel = aws_worker_selector in
      run_pipeline
       (map stateless
         [aws_machine_tags_Mutate env sel (mv_tags m), iaminstanceprofile_Mutate env sel (mv_profile m),
          instancetype_Mutate env sel (mv_type m), ami_Mutate env sel (mv_ami m),
          securitygroups_Mutate env sel (mv_groups m), volumes_Mutate env sel (mv_volumes m),
          placementgroup_Mutate env sel (mv_placement m),
          placementgroupnfd_worker_Mutate env script (mv_placement m)] @
        WorkerMetaMutators pe v))"

definition eks_cluster_patch ::
    "('doc, 'b, 'o, 'p, 's, 'obj, 'net) pipeline_env \<Rightarrow> aws_variables \<Rightarrow> patch_variables \<Rightarrow>
     ('doc, 's) mutator" where
  "eks_cluster_patch pe xv v =
     (let env = pe_infra pe in
      run_pipeline (map stateless
       [eks_region_Mutate env (xv_region xv), eks_network_Mutate env (xv_network xv),
        eks_identity_Mutate env (xv_identity xv), eks_tags_Mutate env (xv_tags xv),
        users_Mutate (pe_env pe) (v_users v), kubeproxymode_Mutate (pe_env pe) (v_proxy_mode v),
        ntp_Mutate (pe_env pe) (v_ntp v)]))"

definition eks_worker_patch ::
    "('doc, 'b, 'o, 'p, 's, 'obj, 'net) pipeline_env \<Rightarrow> string \<Rightarrow> aws_variables \<Rightarrow> patch_variables \<Rightarrow>
     ('doc, 's) mutator" where
  "eks_worker_patch pe script xv v =
     (let env = pe_infra pe; m = xv_workers xv; sel = aws_worker_selector in
      run_pipeline (map stateless
       [iaminstanceprofile_Mutate env sel (mv_profile m), instancetype_Mutate env sel (mv_type m),
        ami_Mutate env sel (mv_ami m), securitygroups_Mutate env sel (mv_groups m),
        volumes_Mutate env sel (mv_volumes m), placementgroup_Mutate env sel (mv_placement m),
        eks_placementgroupnfd_Mutate env script (mv_placement m), aws_machine_tags_Mutate env sel (mv_tags m),
        taints_worker_Mutate (pe_env pe) (v_worker_taints v)]))"

text \<open>Docker: the image and the version of Kubernetes of the control plane or of the workers.\<close>

definition docker_control_plane_selector :: patch_selector where
  "docker_control_plane_selector = InfrastructureControlPlaneMachines ''v1beta2'' ''DockerMachineTemplate''"

definition docker_worker_selector :: patch_selector where
  "docker_worker_selector = InfrastructureWorkerMachineTemplates ''v1beta2'' ''DockerMachineTemplate''"

definition docker_cluster_patch ::
    "('doc, 'b, 'o, 'p, 's, 'obj, 'net) pipeline_env \<Rightarrow> string variable \<Rightarrow> patch_variables \<Rightarrow>
     ('doc, 's) mutator" where
  "docker_cluster_patch pe customImage v =
     run_pipeline
       (stateless (customimage_Mutate (pe_infra pe) docker_control_plane_selector customImage (v_cp_version v)) #
        MetaMutators pe v @ ControlPlaneMetaMutators pe v)"

definition docker_worker_patch ::
    "('doc, 'b, 'o, 'p, 's, 'obj, 'net) pipeline_env \<Rightarrow> string variable \<Rightarrow> string variable \<Rightarrow>
     patch_variables \<Rightarrow> ('doc, 's) mutator" where
  "docker_worker_patch pe customImage version v =
     run_pipeline
       (stateless (customimage_Mutate (pe_infra pe) docker_worker_selector customImage version) #
        WorkerMetaMutators pe v)"

end
