(* ===== verification/PipelineLemmas.thy ===== *)
theory PipelineLemmas
  imports PatchPipeline
begin

text \<open>
  What the pipeline keeps of a control plane template: a relation between the template before and
  after, which every handler has and which is carried along the pipeline.
\<close>

section \<open>What is kept\<close>

text \<open>Arguments are in order if no name is given twice and every value is set.\<close>

definition args_ok :: "kubeadm_arg list \<Rightarrow> bool" where
  "args_ok args \<longleftrightarrow> distinct (map fst args) \<and> None \<notin> snd ` set args"

text \<open>
  The arguments are kept with their values, but for the list of enabled admission plugins, whose
  value may grow.
\<close>

definition args_kept :: "kubeadm_arg list \<Rightarrow> kubeadm_arg list \<Rightarrow> bool" where
  "args_kept args args' \<longleftrightarrow>
     fst ` set args \<subseteq> fst ` set args' \<and>
     {a \<in> set args. fst a \<noteq> ''enable-admission-plugins''} \<subseteq> set args' \<and>
     (args_ok args \<longrightarrow> args_ok args')"

definition spec_kept :: "kubeadm_config_spec \<Rightarrow> kubeadm_config_spec \<Rightarrow> bool" where
  "spec_kept s s' \<longleftrightarrow>
     args_kept (as_extra_args (ks_api_server s)) (as_extra_args (ks_api_server s')) \<and>
     args_kept (ks_controller_manager_args s) (ks_controller_manager_args s') \<and>
     args_kept (ks_scheduler_args s) (ks_scheduler_args s') \<and>
     args_kept (etcd_extra_args (ks_etcd s)) (etcd_extra_args (ks_etcd s')) \<and>
     (\<exists>ps. file_paths (ks_files s') = file_paths (ks_files s) @ ps) \<and>
     (\<exists>cs. ks_pre_commands s' = ks_pre_commands s @ cs) \<and>
     (\<exists>cs. ks_post_commands s' = ks_post_commands s @ cs) \<and>
     (\<exists>vs. as_extra_volumes (ks_api_server s') = as_extra_volumes (ks_api_server s) @ vs)"

lemma args_kept_refl [simp]: "args_kept args args"
  by (simp add: args_kept_def)

lemma args_kept_trans: "args_kept a b \<Longrightarrow> args_kept b c \<Longrightarrow> args_kept a c"
proof -
  assume "args_kept a b" "args_kept b c"
  note a = this(1) [unfolded args_kept_def] and b = this(2) [unfolded args_kept_def]
  show "args_kept a c"
    unfolding args_kept_def
  proof (intro conjI)
    show "fst ` set a \<subseteq> fst ` set c" using a b by (meson order_trans)
    show "{x \<in> set a. fst x \<noteq> ''enable-admission-plugins''} \<subseteq> set c" using a b by auto
    show "args_ok a \<longrightarrow> args_ok c" using a b by simp
  qed
qed

lemma spec_kept_refl [simp]: "spec_kept s s"
  by (simp add: spec_kept_def)

lemma lists_grow_trans: "\<exists>u. y = x @ u \<Longrightarrow> \<exists>v. z = y @ v \<Longrightarrow> \<exists>w. z = x @ w"
  by auto

lemma spec_kept_trans:
  assumes "spec_kept s s'" "spec_kept s' s''"
  shows "spec_kept s s''"
proof -
  note a = assms(1) [unfolded spec_kept_def] and b = assms(2) [unfolded spec_kept_def]
  show ?thesis
    unfolding spec_kept_def
  proof (intro conjI)
    show "args_kept (as_extra_args (ks_api_server s)) (as_extra_args (ks_api_server s''))"
      using a b by (blast intro: args_kept_trans)
    show "args_kept (etcd_extra_args (ks_etcd s)) (etcd_extra_args (ks_etcd s''))"
      using a b by (blast intro: args_kept_trans)
    show "args_kept (ks_controller_manager_args s) (ks_controller_manager_args s'')"
      "args_kept (ks_scheduler_args s) (ks_scheduler_args s'')"
      using a b by (blast intro: args_kept_trans)+
    show "\<exists>ps. file_paths (ks_files s'') = file_paths (ks_files s) @ ps"
      by (rule lists_grow_trans [where y = "file_paths (ks_files s')"]) (use a b in blast)+
    show "\<exists>cs. ks_pre_commands s'' = ks_pre_commands s @ cs"
      by (rule lists_grow_trans [where y = "ks_pre_commands s'"]) (use a b in blast)+
    show "\<exists>cs. ks_post_commands s'' = ks_post_commands s @ cs"
      by (rule lists_grow_trans [where y = "ks_post_commands s'"]) (use a b in blast)+
    show "\<exists>vs. as_extra_volumes (ks_api_server s'') = as_extra_volumes (ks_api_server s) @ vs"
      by (rule lists_grow_trans [where y = "as_extra_volumes (ks_api_server s')"]) (use a b in blast)+
  qed
qed

lemma args_ok_append:
  "args_ok args \<Longrightarrow> n \<notin> fst ` set args \<Longrightarrow> v \<noteq> None \<Longrightarrow> args_ok (args @ [(n, v)])"
  by (auto simp: args_ok_def)

lemma add_missing_kept: "None \<notin> snd ` set new \<Longrightarrow> args_kept args (add_missing_args new args)"
proof (induction new arbitrary: args)
  case Nil
  then show ?case by simp
next
  case (Cons a new)
  have "args_kept args (args @ [a])" if "fst a \<notin> fst ` set args"
  proof -
    have "snd a \<noteq> None" using Cons.prems by auto
    then have "args_ok args \<longrightarrow> args_ok (args @ [a])"
      using that args_ok_append [of args "fst a" "snd a"] by simp
    then show ?thesis by (auto simp: args_kept_def)
  qed
  then show ?case using Cons args_kept_trans [of args "args @ [a]"] by auto
qed

lemma enable_plugin_kept: "args_kept args (enable_plugin name args)"
proof -
  have ok: "fst ` set (enable_plugin name args) \<subseteq> insert ''enable-admission-plugins'' (fst ` set args) \<and>
      (None \<notin> snd ` set args \<longrightarrow> None \<notin> snd ` set (enable_plugin name args)) \<and>
      (args_ok args \<longrightarrow> distinct (map fst (enable_plugin name args)))" for args
    by (induction name args rule: enable_plugin.induct)
      (auto simp: args_ok_def split: option.splits if_splits)
  have keep: "{a \<in> set args. fst a \<noteq> ''enable-admission-plugins''} \<subseteq> set (enable_plugin name args)" for args
    by (induction name args rule: enable_plugin.induct) (auto split: option.splits if_splits)
  show ?thesis
    using ok [of args] keep [of args] names_enable_plugin [of args name] by (auto simp: args_kept_def args_ok_def)
qed

lemma sort_kept: "sorts_args f \<Longrightarrow> args_kept args (f args)"
proof -
  assume "sorts_args f"
  then have m: "mset (f args) = mset args" by (simp add: sorts_args_def)
  then have "mset (map fst (f args)) = mset (map fst args)" by (metis mset_map)
  then have "distinct (map fst (f args)) = distinct (map fst args)" by (rule mset_eq_imp_distinct_iff)
  then show ?thesis using mset_eq_setD [OF m] by (auto simp: args_kept_def args_ok_def)
qed

section \<open>Patching a control plane template\<close>

text \<open>
  What the JSON libraries promise together: the patch between two written objects, applied to
  the document that was read as the first, gives a document of the same kind that is read as the
  second.
\<close>

definition patch_faithful ::
    "('doc \<Rightarrow> string \<times> string) \<Rightarrow> ('doc, 'typed, 'b, 'o, 'p) patch_libs \<Rightarrow> bool" where
  "patch_faithful gvk libs \<longleftrightarrow>
     (\<forall>obj t t' old new ops bytes patch input patched obj'.
        pl_convert libs obj = Inr t \<and> pl_serialize libs t = Inr old \<and> pl_serialize libs t' = Inr new \<and>
        pl_create_patch libs old new = Inr ops \<and> pl_marshal_ops libs ops = Inr bytes \<and>
        pl_decode_patch libs bytes = Inr patch \<and> pl_marshal_doc libs obj = Inr input \<and>
        pl_apply libs patch input = Inr patched \<and> pl_unmarshal_doc libs patched = Inr obj' \<longrightarrow>
        pl_convert libs obj' = Inr t' \<and> gvk obj' = gvk obj)"

lemma MutateIfApplicable_faithful:
  assumes "patch_faithful gvk libs" "MutateIfApplicable libs gvk_text True f obj = Inr obj'"
  obtains t t' where "pl_convert libs obj = Inr t" "f t = Inr t'" "pl_convert libs obj' = Inr t'"
    "gvk obj' = gvk obj"
proof -
  obtain t t' old new ops bytes patch input patched where
    "pl_convert libs obj = Inr t" "f t = Inr t'" "pl_serialize libs t = Inr old"
    "pl_serialize libs t' = Inr new" "pl_create_patch libs old new = Inr ops"
    "pl_marshal_ops libs ops = Inr bytes" "pl_decode_patch libs bytes = Inr patch"
    "pl_marshal_doc libs obj = Inr input" "pl_apply libs patch input = Inr patched"
    "pl_unmarshal_doc libs patched = Inr obj'"
    using assms(2) by (auto simp: MutateIfApplicable_def bind_sum_Inr_iff)
  moreover from this have "pl_convert libs obj' = Inr t' \<and> gvk obj' = gvk obj"
    using assms(1) unfolding patch_faithful_def by blast
  ultimately show ?thesis using that by blast
qed

text \<open>A document that is a control plane template, and what it reads as.\<close>

definition cp_at :: "('doc, 'b, 'o, 'p) template_env \<Rightarrow> 'doc \<Rightarrow> kcp_template \<Rightarrow> bool" where
  "cp_at env obj t \<longleftrightarrow>
     patch_faithful (te_gvk env) (te_cp env) \<and> is_control_plane env obj \<and> pl_convert (te_cp env) obj = Inr t"

text \<open>A result is an error, or a control plane template with a property.\<close>

definition cp_result ::
    "('doc, 'b, 'o, 'p) template_env \<Rightarrow> (kcp_template \<Rightarrow> bool) \<Rightarrow> string + 'doc \<Rightarrow> bool" where
  "cp_result env Q r \<longleftrightarrow> (\<forall>obj'. r = Inr obj' \<longrightarrow> (\<exists>t'. cp_at env obj' t' \<and> Q t'))"

named_theorems cp_intros \<open>results of handlers on a control plane template\<close>

lemma cp_result_Inl [cp_intros]: "cp_result env Q (Inl err)"
  by (simp add: cp_result_def)

lemma cp_result_same [cp_intros]: "cp_at env obj t \<Longrightarrow> Q t \<Longrightarrow> cp_result env Q (Inr obj)"
  by (auto simp: cp_result_def)

lemma cp_kind: "cp_at env obj t \<Longrightarrow> snd (te_gvk env obj) = ''KubeadmControlPlaneTemplate''"
  by (simp add: cp_at_def is_control_plane_def template_matches_def MatchesSelector_def MatchesGVK_def
      ControlPlane_selector_def split: if_splits)

lemma other_kind:
  "cp_at env obj t \<Longrightarrow> ps_kind sel \<noteq> ''KubeadmControlPlaneTemplate'' \<Longrightarrow> \<not> template_matches env sel obj"
  using cp_kind [of env obj t] by (auto simp: template_matches_def MatchesSelector_def MatchesGVK_def)

lemma not_applicable: "MutateIfApplicable libs gvk_text False f obj = Inr obj"
  by (simp add: MutateIfApplicable_def)

text \<open>The handlers of other kinds leave a control plane template alone.\<close>

lemma other_patches [simp]:
  assumes "cp_at env obj t"
  shows "patch_workers env f obj = Inr obj" "patch_nodeadm env g obj = Inr obj"
    "patch_managed env h obj = Inr obj" "is_worker env obj = False"
  using other_kind [OF assms]
  by (simp_all add: patch_workers_def patch_nodeadm_def patch_managed_def is_worker_def not_applicable
      WorkersKubeadmConfigTemplateSelector_def WorkersConfigTemplateSelector_def)

lemma other_infra [simp]:
  "cp_at (ie_base env) obj t \<Longrightarrow> ps_kind sel \<noteq> ''KubeadmControlPlaneTemplate'' \<Longrightarrow>
     patch_infra env libs sel f obj = Inr obj"
  by (simp add: patch_infra_def other_kind not_applicable)

lemma infra_kinds [simp]:
  "ps_kind (InfrastructureCluster ver k) = k" "ps_kind (InfrastructureControlPlaneMachines ver k) = k"
  "ps_kind (InfrastructureWorkerMachineTemplates ver k) = k"
  by (simp_all add: InfrastructureCluster_def InfrastructureControlPlaneMachines_def
      InfrastructureWorkerMachineTemplates_def)

lemma cp_result_patch [cp_intros]:
  assumes "cp_at env obj t" "\<And>t'. f t = Inr t' \<Longrightarrow> Q t'"
  shows "cp_result env Q (patch_control_plane env f obj)"
  unfolding cp_result_def
proof (intro allI impI)
  fix obj'
  have cp: "patch_faithful (te_gvk env) (te_cp env)" "is_control_plane env obj"
    "pl_convert (te_cp env) obj = Inr t"
    using assms(1) by (simp_all add: cp_at_def)
  assume "patch_control_plane env f obj = Inr obj'"
  then have m: "MutateIfApplicable (te_cp env) (te_gvk_text env) True f obj = Inr obj'"
    using cp(2) by (simp add: patch_control_plane_def)
  obtain t' where "f t = Inr t'" "pl_convert (te_cp env) obj' = Inr t'" "te_gvk env obj' = te_gvk env obj"
    using MutateIfApplicable_faithful [OF cp(1) m] cp(3) by (metis sum.inject(2))
  then show "\<exists>t'. cp_at env obj' t' \<and> Q t'"
    using cp assms(2) by (auto simp: cp_at_def is_control_plane_def template_matches_def)
qed

lemma cp_result_bind [cp_intros]:
  assumes "cp_result env Q r" "\<And>obj' t'. cp_at env obj' t' \<Longrightarrow> g obj' = Inr obj'"
  shows "cp_result env Q (bind_sum c r g)"
  using assms by (cases r) (auto simp: cp_result_def)

lemma cp_result_both [cp_intros]:
  assumes "cp_at env obj t" "Q (on_spec f t)"
  shows "cp_result env Q (patch_both env f obj)"
  unfolding patch_both_def
  by (rule cp_result_bind, rule cp_result_patch [OF assms(1)]) (use assms in auto)

section \<open>Each handler keeps the template\<close>

abbreviation keeps :: "kcp_template \<Rightarrow> kcp_template \<Rightarrow> bool" where
  "keeps t t' \<equiv> spec_kept (kcp_spec t) (kcp_spec t')"

lemma keeps_on_spec [simp]: "keeps t (on_spec f t) \<longleftrightarrow> spec_kept (kcp_spec t) (f (kcp_spec t))"
  by (simp add: on_spec_def)

text \<open>The changes of the handlers.\<close>

declare add_missing_args.simps [simp del]

lemma files_and_commands_kept [simp]:
  "spec_kept s (add_files fs s)" "spec_kept s (add_pre_commands cs s)"
  "spec_kept s (add_pre_commands cs (add_files fs s))"
  by (simp_all add: spec_kept_def add_files_def add_pre_commands_def)

lemma api_args_kept:
  "(\<And>a. args_kept (as_extra_args a) (as_extra_args (f a))) \<Longrightarrow>
   (\<And>a. \<exists>vs. as_extra_volumes (f a) = as_extra_volumes a @ vs) \<Longrightarrow>
   spec_kept s (on_api_server f s)"
  by (simp add: spec_kept_def on_api_server_def)

lemma audit_kept [simp]: "spec_kept s (audit_change policy s)"
  unfolding audit_change_def
  by (rule spec_kept_trans [OF files_and_commands_kept(1)], rule api_args_kept)
    (simp_all add: add_missing_kept auditArgs_def)

lemma etcd_kept [simp]: "spec_kept s (etcd_change img s)"
proof -
  have "None \<notin> snd ` set etcd_default_args"
    by (auto simp: etcd_default_args_def map_of_eq_None_iff dest!: sym [where s = None]) (metis fst_conv image_eqI)
  then show ?thesis
    by (auto simp: spec_kept_def etcd_change_def Let_def add_missing_kept split: option.splits)
qed

lemma coredns_kept: "coredns_change f ver img s = Inr s' \<Longrightarrow> spec_kept s s'"
  by (auto simp: coredns_change_def Let_def spec_kept_def split: option.splits if_splits)

lemma cloud_provider_kept [simp]: "spec_kept s (cloud_provider_change s)"
  unfolding cloud_provider_change_def by (rule api_args_kept) (simp_all add: add_missing_kept)

lemma encryption_kept [simp]: "spec_kept s (encryption_change cluster s)"
  unfolding encryption_change_def
  by (rule spec_kept_trans [OF files_and_commands_kept(1)], rule api_args_kept)
    (simp_all add: add_missing_kept)

lemma credentials_kept [simp]: "spec_kept s (credentials_control_plane files commands s)"
  by (simp add: credentials_control_plane_def spec_kept_def add_files_def add_pre_commands_def Let_def)

lemma kubelet_kept [simp]: "spec_kept s (add_kubelet_files script cfg s)"
  by (auto simp: add_kubelet_files_def spec_kept_def add_files_def add_pre_commands_def Let_def)

lemma sort_control_plane_kept [simp]: "sorts_args f \<Longrightarrow> spec_kept s (sort_control_plane f s)"
  by (simp add: sort_control_plane_def spec_kept_def sort_kept)

lemma update_config_file_paths:
  "update_config_file yaml plugin path fs = Some (Inr fs') \<Longrightarrow> file_paths fs' = file_paths fs"
proof (induction fs arbitrary: fs')
  case (Cons f fs)
  show ?case
  proof (cases "mf_path f = path")
    case True
    then obtain f' where "appendPluginToExistingConfig yaml plugin f = Inr f'" "fs' = f' # fs"
      using Cons.prems by (auto simp: bind_sum_Inr_iff)
    then show ?thesis by (auto simp: appendPluginToExistingConfig_def bind_sum_Inr_iff split: if_splits)
  next
    case False
    then obtain r where "update_config_file yaml plugin path fs = Some r" "map_sum id (\<lambda>fs'. f # fs') r = Inr fs'"
      using Cons.prems by auto
    then show ?thesis using Cons.IH by (cases r) auto
  qed
qed simp

lemma map_sum_Inr_iff: "map_sum id f r = Inr y \<longleftrightarrow> (\<exists>x. r = Inr x \<and> y = f x)"
  by (cases r) auto

lemma admission_configuration_kept:
  "addOrUpdateAdmissionConfig yaml path plugin s = Inr s' \<Longrightarrow> spec_kept s s'"
  using update_config_file_paths [of yaml plugin path "ks_files s"]
  by (auto simp: addOrUpdateAdmissionConfig_def bind_sum_Inr_iff spec_kept_def add_files_def
      split: option.splits)

lemma mounts_grow: "\<exists>vs. as_extra_volumes (addVolumeMountIfMissing p n a) = as_extra_volumes a @ vs"
  by (simp add: addVolumeMountIfMissing_def)

lemma mounts_args [simp]: "as_extra_args (addVolumeMountIfMissing p n a) = as_extra_args a"
  by (simp add: addVolumeMountIfMissing_def)

lemma AddPlugin_kept:
  assumes "AddPlugin yaml plugin s = Inr s'"
  shows "spec_kept s s'"
proof -
  obtain path u where u: "addOrUpdateAdmissionConfig yaml path plugin s = Inr u"
    and s': "s' = on_api_server (\<lambda>a. addToEnabledPlugins (pg_name plugin) (setAdmissionConfigArg path
        (addVolumeMountIfMissing (pg_config_path plugin) (sanitizeVolumeName (pg_name plugin))
          (addVolumeMountIfMissing path ''admission-config'' a)))) (addPluginConfigFile plugin u)"
    using assms by (auto simp: AddPlugin_def Let_def bind_sum_Inr_iff)
  have "spec_kept u (addPluginConfigFile plugin u)" by (simp add: addPluginConfigFile_def)
  moreover have "spec_kept (addPluginConfigFile plugin u) s'"
    unfolding s'
  proof (rule api_args_kept)
    fix a
    show "\<exists>vs. as_extra_volumes (addToEnabledPlugins (pg_name plugin) (setAdmissionConfigArg path
        (addVolumeMountIfMissing (pg_config_path plugin) (sanitizeVolumeName (pg_name plugin))
          (addVolumeMountIfMissing path ''admission-config'' a)))) = as_extra_volumes a @ vs"
      by (simp add: addToEnabledPlugins_def setAdmissionConfigArg_def addVolumeMountIfMissing_def)
    show "args_kept (as_extra_args a) (as_extra_args (addToEnabledPlugins (pg_name plugin)
        (setAdmissionConfigArg path
        (addVolumeMountIfMissing (pg_config_path plugin) (sanitizeVolumeName (pg_name plugin))
          (addVolumeMountIfMissing path ''admission-config'' a)))))"
      by (simp add: addToEnabledPlugins_def setAdmissionConfigArg_def
          args_kept_trans [OF add_missing_kept enable_plugin_kept])
  qed
  ultimately show ?thesis
    using admission_configuration_kept [OF u] by (blast intro: spec_kept_trans)
qed

lemma other_fields_kept [simp]:
  "spec_kept s (on_api_server (\<lambda>a. a\<lparr>as_cert_sans := sans\<rparr>) s)" "spec_kept s (s\<lparr>ks_users := users\<rparr>)"
  "spec_kept s (s\<lparr>ks_ntp := ntp\<rparr>)" "spec_kept s (s\<lparr>ks_image_repository := repository\<rparr>)"
  "spec_kept s (disable_kube_proxy s)" "spec_kept s (addKubeProxyConfigFileAndCommand mode s)"
  "spec_kept s (setIgnorePreflightErrorsForControlPlane errs s)"
  "spec_kept s (s\<lparr>ks_init_registration := i, ks_join_registration := j\<rparr>)"
  by (simp_all add: spec_kept_def on_api_server_def disable_kube_proxy_def addKubeProxyConfigFileAndCommand_def
      add_files_def add_pre_commands_def setIgnorePreflightErrorsForControlPlane_def)

section \<open>The results of the handlers\<close>

lemma cp_result_effect [cp_intros]:
  assumes "cp_at env obj t" "\<And>t' s'. mutFn t s = (Inr t', s') \<Longrightarrow> Q t'"
  shows "cp_result env Q
    (fst (MutateWithEffect (te_cp env) (te_gvk_text env) (is_control_plane env obj) mutFn obj s))"
proof -
  have cp: "is_control_plane env obj" "pl_convert (te_cp env) obj = Inr t"
    using assms(1) by (simp_all add: cp_at_def)
  obtain r s' where r: "mutFn t s = (r, s')" by fastforce
  have "cp_result env Q (patch_control_plane env (\<lambda>_. r) obj)"
    by (rule cp_result_patch [OF assms(1)]) (use assms(2) r in blast)
  then show ?thesis using cp r by (simp add: MutateWithEffect_def patch_control_plane_def)
qed

lemma no_effect [simp]: "MutateWithEffect libs gvk_text False mutFn obj s = (Inr obj, s)"
  by (simp add: MutateWithEffect_def)

lemma generic_handlers_keep:
  assumes cp: "cp_at env obj t"
  shows "cp_result env (keeps t) (auditpolicy_Mutate env policy obj)"
    "cp_result env (keeps t) (etcd_Mutate env v1 obj)"
    "cp_result env (keeps t) (coredns_Mutate env f cluster v1 obj)"
    "cp_result env (keeps t) (certsans_Mutate env cluster v2 obj)"
    "cp_result env (keeps t) (httpproxy_Mutate env nx cluster v3 obj)"
    "cp_result env (keeps t) (imagerepository_Mutate env v4 obj)"
    "cp_result env (keeps t) (users_Mutate env v5 obj)"
    "cp_result env (keeps t) (containerdmetrics_Mutate env content obj)"
    "cp_result env (keeps t) (containerdunprivilegedports_Mutate env content obj)"
    "cp_result env (keeps t) (autorenewcerts_Mutate env v6 obj)"
    "cp_result env (keeps t) (kubeproxymode_Mutate env v4 obj)"
    "cp_result env (keeps t) (psa_Mutate env yaml v7 obj)"
    "cp_result env (keeps t) (ntp_Mutate env v8 obj)"
    "cp_result env (keeps t) (containerd_restart_Mutate env tpl restart obj)"
proof -
  note patch = cp_result_patch [OF cp] and both = cp_result_both [OF cp] and same = cp_result_same [OF cp]
  show "cp_result env (keeps t) (auditpolicy_Mutate env policy obj)"
    unfolding auditpolicy_Mutate_def by (rule patch) auto
  show "cp_result env (keeps t) (etcd_Mutate env v1 obj)"
    unfolding etcd_Mutate_def by (cases v1) (auto intro!: patch cp_result_Inl)
  show "cp_result env (keeps t) (coredns_Mutate env f cluster v1 obj)"
    unfolding coredns_Mutate_def
    by (cases v1; cases cluster) (auto intro!: patch same cp_result_Inl elim!: coredns_kept
        simp: map_sum_Inr_iff)
  show "cp_result env (keeps t) (certsans_Mutate env cluster v2 obj)"
    unfolding certsans_Mutate_def Let_def
    by (cases v2; cases cluster) (auto intro!: patch same cp_result_Inl)
  show "cp_result env (keeps t) (httpproxy_Mutate env nx cluster v3 obj)"
    unfolding httpproxy_Mutate_def by (cases v3; cases cluster) (auto intro!: both same cp_result_Inl)
  show "cp_result env (keeps t) (imagerepository_Mutate env v4 obj)"
    unfolding imagerepository_Mutate_def
    by (cases v4) (auto intro!: patch same cp_result_Inl)
  show "cp_result env (keeps t) (users_Mutate env v5 obj)"
    unfolding users_Mutate_def Let_def
    by (cases v5) (auto intro!: cp_result_bind both same cp_result_Inl)
  show "cp_result env (keeps t) (containerdmetrics_Mutate env content obj)"
    unfolding containerdmetrics_Mutate_def by (rule both) simp
  show "cp_result env (keeps t) (containerdunprivilegedports_Mutate env content obj)"
    unfolding containerdunprivilegedports_Mutate_def by (rule both) simp
  show "cp_result env (keeps t) (autorenewcerts_Mutate env v6 obj)"
    unfolding autorenewcerts_Mutate_def
    by (cases v6) (auto intro!: patch cp_result_Inl simp: autorenew_change_def)
  show "cp_result env (keeps t) (kubeproxymode_Mutate env v4 obj)"
    unfolding kubeproxymode_Mutate_def Let_def
    by (cases v4) (auto intro!: cp_result_bind patch same cp_result_Inl
        simp: kube_proxy_mutFn_def split: if_splits)
  show "cp_result env (keeps t) (psa_Mutate env yaml v7 obj)"
    unfolding psa_Mutate_def
    by (cases v7) (auto intro!: patch same cp_result_Inl elim!: AddPlugin_kept simp: map_sum_Inr_iff
        split: option.splits)
  show "cp_result env (keeps t) (ntp_Mutate env v8 obj)"
    unfolding ntp_Mutate_def Let_def
    by (cases v8) (auto intro!: cp_result_bind both same cp_result_Inl split: option.splits)
  show "cp_result env (keeps t) (containerd_restart_Mutate env tpl restart obj)"
    unfolding containerd_restart_Mutate_def
    by (auto intro!: both cp_result_Inl split: sum.splits prod.splits)
qed

lemma control_plane_handlers_keep:
  assumes cp: "cp_at env obj t"
  shows "cp_result env (keeps t) (taints_control_plane_Mutate env v1 obj)"
    "cp_result env (keeps t) (noderegistration_control_plane_Mutate env v2 obj)"
    "cp_result env (keeps t) (externalcloudprovider_Mutate env parse from133 v3 obj)"
    "cp_result env (keeps t) (kubelet_control_plane_Mutate env script v4 v5 obj)"
    "sorts_args f \<Longrightarrow> cp_result env (keeps t) (sortextraargs_Mutate env f obj)"
proof -
  note patch = cp_result_patch [OF cp] and same = cp_result_same [OF cp]
  show "cp_result env (keeps t) (taints_control_plane_Mutate env v1 obj)"
    unfolding taints_control_plane_Mutate_def by (cases v1) (auto intro!: patch same cp_result_Inl)
  show "cp_result env (keeps t) (noderegistration_control_plane_Mutate env v2 obj)"
    unfolding noderegistration_control_plane_Mutate_def by (cases v2) (auto intro!: patch same cp_result_Inl)
  show "cp_result env (keeps t) (externalcloudprovider_Mutate env parse from133 v3 obj)"
    unfolding externalcloudprovider_Mutate_def
    by (cases v3) (auto intro!: patch same cp_result_Inl split: sum.splits)
  show "cp_result env (keeps t) (kubelet_control_plane_Mutate env script v4 v5 obj)"
    unfolding kubelet_control_plane_Mutate_def by (auto intro!: patch same cp_result_Inl split: sum.splits)
  show "cp_result env (keeps t) (sortextraargs_Mutate env f obj)" if "sorts_args f"
    unfolding sortextraargs_Mutate_def using that by (auto intro!: cp_result_bind patch)
qed

lemma encryption_handler_keeps:
  assumes cp: "cp_at env obj t"
  shows "cp_result env (keeps t) (fst (encryption_Mutate env keys codec cluster v obj s))"
  unfolding encryption_Mutate_def
  by (cases v) (auto intro!: cp_result_effect [OF cp] cp_result_same [OF cp] cp_result_Inl
      simp: encryption_mutFn_def split: sum.splits prod.splits option.splits)

lemma mirrors_handler_keeps:
  assumes cp: "cp_at env obj t"
  shows "cp_result env (keeps t) (mirrors_Mutate env net get uri dropin ns cluster v2 v1 v3 obj)"
proof -
  have r: "cp_result env (keeps t) (bind_sum [] r (\<lambda>configs. if \<not> needContainerdConfiguration configs then Inr obj
      else bind_sum [] (mirror_generateFiles uri dropin configs) (\<lambda>files. patch_both env (add_files files) obj)))" for r
    by (cases r) (auto intro!: cp_result_both [OF cp] cp_result_same [OF cp] cp_result_Inl
        simp: bind_sum_def split: sum.splits)
  show ?thesis
    unfolding mirrors_Mutate_def
    by (auto intro: r cp_result_same [OF cp] cp_result_Inl split: variable.splits)
qed

text \<open>The two patches of the handler for credentials.\<close>

lemma credential_patches_keep:
  assumes cp: "cp_at env obj t"
  shows "cp_result env (keeps t) (fst (case MutateWithEffect (te_cp env) (te_gvk_text env)
        (is_control_plane env obj) (\<lambda>t s. case prepare s of (Some err, s') \<Rightarrow> (Inl err, s')
           | (None, s') \<Rightarrow> (Inr (on_spec (credentials_control_plane files commands) t), s')) obj s of
        (Inl err, s') \<Rightarrow> (Inl err, s')
      | (Inr obj', s') \<Rightarrow> MutateWithEffect libs (te_gvk_text env) (is_worker env obj') worker obj' s'))"
proof -
  let ?r = "MutateWithEffect (te_cp env) (te_gvk_text env)
      (is_control_plane env obj) (\<lambda>t s. case prepare s of (Some err, s') \<Rightarrow> (Inl err, s')
         | (None, s') \<Rightarrow> (Inr (on_spec (credentials_control_plane files commands) t), s')) obj s"
  obtain r s' where r: "?r = (r, s')" by fastforce
  have k: "cp_result env (keeps t) (fst ?r)"
    by (rule cp_result_effect [OF cp]) (auto split: prod.splits option.splits)
  show ?thesis
  proof (cases r)
    case (Inl err)
    then show ?thesis by (simp add: r cp_result_Inl)
  next
    case (Inr obj')
    then obtain t' where t': "cp_at env obj' t'" "keeps t t'" using k r by (auto simp: cp_result_def)
    then show ?thesis using Inr by (simp add: r cp_result_same)
  qed
qed

lemma credentials_handler_keeps:
  assumes cp: "cp_at env obj t"
  shows "cp_result env (keeps t)
    (fst (credentials_Mutate env api cenv tpl values script ns name cluster v1 v2 obj s))"
proof -
  let ?get = "\<lambda>ns name. map_sum id snd (ra_secret api ns name s)"
  have found: "cp_result env (keeps t)
      (fst (credentials_Mutate env api cenv tpl values script ns name cluster v1 v2 obj s))"
    if v: "\<not> (\<exists>err. v1 = Failed err)" "\<not> (\<exists>err. v2 = Failed err)"
      and rs: "rs = (case v1 of Found rs \<Rightarrow> rs | _ \<Rightarrow> [])" and m: "m = (case v2 of Found m \<Rightarrow> Some m | _ \<Rightarrow> None)" for rs m
  proof -
    have e: "credentials_Mutate env api cenv tpl values script ns name cluster v1 v2 obj s =
        (case registries_to_configure cenv ?get (ns obj) rs m of
            Inl err \<Rightarrow> (Inl err, s)
          | Inr registries \<Rightarrow>
              (case generateFilesAndCommands cenv tpl values script registries name of
                 Inl err \<Rightarrow> (Inl err, s)
               | Inr (files, commands) \<Rightarrow>
                   let prepare = prepare_credentials api cenv tpl cluster rs m registries
                   in case MutateWithEffect (te_cp env) (te_gvk_text env) (is_control_plane env obj)
                        (\<lambda>t s. case prepare s of
                           (Some err, s') \<Rightarrow> (Inl err, s')
                         | (None, s') \<Rightarrow> (Inr (on_spec (credentials_control_plane files commands) t), s'))
                        obj s of
                        (Inl err, s') \<Rightarrow> (Inl err, s')
                      | (Inr obj', s') \<Rightarrow>
                          MutateWithEffect (te_worker env) (te_gvk_text env) (is_worker env obj')
                            (\<lambda>w s. case prepare s of
                               (Some err, s') \<Rightarrow> (Inl err, s')
                             | (None, s') \<Rightarrow> (Inr (credentials_worker files commands w), s'))
                            obj' s'))"
      using v unfolding credentials_Mutate_def Let_def rs m by (cases v1; cases v2) simp_all
    show ?thesis
    proof (cases "registries_to_configure cenv ?get (ns obj) rs m")
      case (Inl err)
      then show ?thesis unfolding e by (simp add: cp_result_Inl)
    next
      case r: (Inr registries)
      show ?thesis
      proof (cases "generateFilesAndCommands cenv tpl values script registries name")
        case (Inl err)
        then show ?thesis unfolding e r by (simp add: cp_result_Inl)
      next
        case (Inr fc)
        then show ?thesis unfolding e r
          by (cases fc) (simp only: sum.case prod.case Let_def credential_patches_keep [OF cp])
      qed
    qed
  qed
  show ?thesis
  proof (cases "(\<exists>err. v1 = Failed err) \<or> (\<exists>err. v2 = Failed err)")
    case True
    then show ?thesis
      by (cases v1) (auto simp: credentials_Mutate_def cp_result_Inl)
  next
    case False
    then show ?thesis using found by blast
  qed
qed

section \<open>Along the pipeline\<close>

definition keeping :: "('doc, 'b, 'o, 'p) template_env \<Rightarrow> ('doc, 's) mutator \<Rightarrow> bool" where
  "keeping env m \<longleftrightarrow>
     (\<forall>obj t s r s'. cp_at env obj t \<and> m obj s = Returns (r, s') \<longrightarrow> cp_result env (keeps t) r)"

lemma keeping_run:
  "list_all (keeping env) ms \<Longrightarrow> keeping env (run_pipeline ms)"
proof (induction ms)
  case Nil
  then show ?case by (auto simp: keeping_def intro: cp_result_same)
next
  case (Cons m ms)
  then have m: "keeping env m" and ms: "keeping env (run_pipeline ms)" by simp_all
  show ?case
    unfolding keeping_def
  proof (intro allI impI)
    fix obj t s r s'
    assume a: "cp_at env obj t \<and> run_pipeline (m # ms) obj s = Returns (r, s')"
    then obtain r1 s1 where r1: "m obj s = Returns (r1, s1)"
      by (auto simp: bind_outcome_Returns_iff)
    then have k: "cp_result env (keeps t) r1" using m a unfolding keeping_def by blast
    show "cp_result env (keeps t) r"
    proof (cases r1)
      case (Inl err)
      then show ?thesis using a r1 by (auto intro: cp_result_Inl)
    next
      case (Inr obj1)
      then obtain t1 where t1: "cp_at env obj1 t1" "keeps t t1" using k by (auto simp: cp_result_def)
      then have "cp_result env (keeps t1) r" using ms a r1 Inr unfolding keeping_def by fastforce
      then show ?thesis using spec_kept_trans [OF t1(2)] by (auto simp: cp_result_def)
    qed
  qed
qed

lemma keeping_stateless:
  "(\<And>obj t. cp_at env obj t \<Longrightarrow> cp_result env (keeps t) (f obj)) \<Longrightarrow> keeping env (stateless f)"
  by (auto simp: keeping_def stateless_def)

lemma keeping_reading:
  "(\<And>cluster obj t. cp_at env obj t \<Longrightarrow> cp_result env (keeps t) (f cluster obj)) \<Longrightarrow>
     keeping env (reading_cluster pe f)"
  by (auto simp: keeping_def reading_cluster_def)

lemma keeping_effectful:
  "(\<And>obj t s. cp_at env obj t \<Longrightarrow> cp_result env (keeps t) (fst (f obj s))) \<Longrightarrow> keeping env (effectful f)"
  unfolding keeping_def effectful_def by (metis fst_conv outcome.inject(1))

lemma calico_other [simp]: "cp_at (ie_base env) obj t \<Longrightarrow> cp_result (ie_base env) (keeps t) (calico_Mutate env v obj)"
  unfolding calico_Mutate_def on_found_def
  by (cases v) (auto intro: cp_result_same cp_result_Inl
      simp: patch_aws_cluster_def aws_cluster_selector_def)

lemma keeping_mirrors: "keeping (pe_env pe) (mirrors_step pe v)"
  by (auto simp: keeping_def mirrors_step_def mirrors_handler_keeps)

lemma keeping_generic:
  assumes "sorts_args (pe_sort_args pe)"
  shows "list_all (keeping (pe_env pe)) (MetaMutators pe v @ ControlPlaneMetaMutators pe v)"
  unfolding MetaMutators_def ControlPlaneMetaMutators_def Let_def
  using assms
  by (auto intro!: keeping_stateless keeping_reading keeping_effectful keeping_mirrors generic_handlers_keep
      control_plane_handlers_keep encryption_handler_keeps credentials_handler_keeps calico_other
      [where env = "pe_infra pe", folded pe_env_def])

end
