(* ===== verification/PipelineSamples.thy ===== *)
theory PipelineSamples
  imports PipelineLemmas Samples
begin

text \<open>
  A concrete pipeline for the theorems on the composed handlers: a document is a control plane
  template, and the libraries read and write it as it is.  At the end there is an instance of the
  parameter \<open>netipx\<close> that has the laws stated of it, for the hosts that bypass the proxy.
\<close>

section \<open>A concrete pipeline\<close>

text \<open>A document is a control plane template, and a patch is the new document.\<close>

definition sample_libs_of ::
    "('doc \<Rightarrow> string + 'typed) \<Rightarrow> ('typed \<Rightarrow> string + 'doc) \<Rightarrow> ('doc, 'typed, 'doc, 'doc, 'doc) patch_libs" where
  "sample_libs_of convert serialize =
     \<lparr>pl_convert = convert, pl_serialize = serialize, pl_create_patch = (\<lambda>old new. Inr new),
      pl_marshal_ops = Inr, pl_decode_patch = Inr, pl_marshal_doc = Inr, pl_apply = (\<lambda>p _. Inr p),
      pl_unmarshal_doc = Inr\<rparr>"

definition no_libs :: "('doc, 'typed, 'doc, 'doc, 'doc) patch_libs" where
  "no_libs = sample_libs_of (\<lambda>_. Inl ''wrong kind'') (\<lambda>_. Inl ''wrong kind'')"

type_synonym cp_doc = kcp_template

definition sample_template_env :: "(cp_doc, cp_doc, cp_doc, cp_doc) template_env" where
  "sample_template_env =
     \<lparr>te_cp = sample_libs_of Inr Inr, te_worker = no_libs, te_nodeadm = no_libs, te_managed = no_libs,
      te_gvk = (\<lambda>_. (''v'', ''KubeadmControlPlaneTemplate'')),
      te_gvk_text = (\<lambda>_. ''v''), te_unquote = (\<lambda>s. s),
      te_holder = \<lparr>hold_kind = ''Cluster'', hold_field_path = ''spec.controlPlaneRef''\<rparr>,
      te_class_of = Inl ''no class'', te_cp_version = ''v'', te_bootstrap_version = ''v'',
      te_eks_version = ''v'', te_eks_control_plane_version = ''v''\<rparr>"

definition sample_infra_env :: "(cp_doc, cp_doc, cp_doc, cp_doc) infra_env" where
  "sample_infra_env =
     \<lparr>ie_base = sample_template_env, ie_nutanix_cluster = no_libs, ie_nutanix_machine = no_libs,
      ie_aws_cluster = no_libs, ie_aws_machine = no_libs, ie_eks_control_plane = no_libs,
      ie_docker_machine = no_libs\<rparr>"

definition sample_url :: url_parser where
  "sample_url s = Inr \<lparr>url_scheme = ''https'', url_host = drop 8 s, url_hostname = drop 8 s,
     url_port = [], url_path = []\<rparr>"

definition sample_semver :: semver where
  "sample_semver = \<lparr>sv_major = 1, sv_minor = 30, sv_patch = 5, sv_prerelease = []\<rparr>"

definition sample_pipeline_env ::
    "(cp_doc, cp_doc, cp_doc, cp_doc, unit, unit, unit) pipeline_env" where
  "sample_pipeline_env =
     \<lparr>pe_infra = sample_infra_env, pe_cluster = (\<lambda>_. Inr sample_cluster), pe_cluster_name = ''c'',
      pe_cluster_namespace = ''ns'', pe_namespace_of = (\<lambda>_. ''ns''),
      pe_keys = \<lparr>ka_get = (\<lambda>_ _. Inr ''keys''), ka_create = (\<lambda>_ _ s. (Some ''exists'', s)),
        ka_token = (\<lambda>s. (Inr ''token'', s)), ka_owner_error = None\<rparr>,
      pe_codec = \<lparr>ec_base64 = (\<lambda>s. s), ec_yaml = (\<lambda>_. Inr ''yaml'')\<rparr>,
      pe_registry = \<lparr>ra_secret = (\<lambda>_ _ _. Inl ''not found''), ra_get = (\<lambda>_ _ _ _. Inr ()),
        ra_set_owner = (\<lambda>_ o'. Inr o'), ra_update = (\<lambda>_ s. (None, s)), ra_own_error = (\<lambda>_. None),
        ra_apply = (\<lambda>_ s. (None, s))\<rparr>,
      pe_credentials = \<lparr>ce_parse = sample_url, ce_parse_uri = sample_url, ce_api_version = ''v1''\<rparr>,
      pe_templates = \<lparr>tpl_install = (\<lambda>_. Inr ''install''), tpl_kubelet = (\<lambda>_. Inr ''kubelet''),
        tpl_dynamic = (\<lambda>_. Inr ''dynamic''), tpl_static = (\<lambda>_. Inr ''static'')\<rparr>,
      pe_values = (\<lambda>ps. ps), pe_install_script = ''/install.sh'',
      pe_service_net = \<lparr>sn_parse = (\<lambda>_. Inr [()]), sn_indexed = (\<lambda>_ _. Inr ''10.96.0.20'')\<rparr>,
      pe_parse_uri = sample_url, pe_drop_in = script_file ''/drop-in'' ''0600'' [],
      pe_netipx = \<lparr>nx_range_of_prefix = (\<lambda>p. (pfx_addr p, pfx_addr p)), nx_valid = (\<lambda>_. True),
        nx_prefixes = (\<lambda>_. [])\<rparr>,
      pe_coredns = (\<lambda>_. Inr sample_semver), pe_audit_policy = ''policy'', pe_metrics = ''metrics'',
      pe_ports = ''ports'', pe_apply_patches = (\<lambda>_. Inr ''apply''), pe_restart = ''restart'',
      pe_admission = \<lparr>ay_marshal = (\<lambda>_. Inl ''none''), ay_unmarshal = (\<lambda>_. Inl ''none'')\<rparr>,
      pe_semver = (\<lambda>_. Inr sample_semver), pe_from_133 = (\<lambda>_. False), pe_sort_args = sort_key fst,
      pe_kubelet_script = ''script'',
      pe_vip = \<lparr>vl_parse = (\<lambda>_. Inl ''none''), vl_semver = (\<lambda>_. Inr sample_semver), vl_script = []\<rparr>,
      pe_base64 = Inr\<rparr>"

definition no_variable :: "'a variable" where
  "no_variable = Missing ''not found''"

definition sample_patch_variables :: patch_variables where
  "sample_patch_variables =
     \<lparr>v_etcd = no_variable, v_dns = no_variable, v_cert_sans = Found [''api.example.org''],
      v_proxy = no_variable, v_image_repository = no_variable, v_registries = no_variable,
      v_mirror = no_variable, v_registry_addon = no_variable, v_cni = no_variable,
      v_users = no_variable, v_encryption = Found [\<lparr>ep_aescbc = True, ep_secretbox = False\<rparr>],
      v_autorenew = no_variable, v_proxy_mode = Found ''disabled'', v_psa = no_variable, v_ntp = no_variable,
      v_cp_taints = no_variable, v_cp_ignore = no_variable, v_cp_version = Found ''v1.30.5'',
      v_cp_kubelet = no_variable, v_worker_taints = no_variable, v_worker_ignore = no_variable,
      v_worker_kubelet = no_variable, v_max_pulls = no_variable\<rparr>"

definition sample_registration :: node_registration where
  "sample_registration = \<lparr>nr_taints = None, nr_ignore_preflight = [], nr_kubelet_args = []\<rparr>"

definition sample_template :: kcp_template where
  "sample_template =
     \<lparr>kcp_spec =
        \<lparr>ks_files = [script_file ''/first'' ''0600'' ''x''], ks_pre_commands = [''first''], ks_post_commands = [],
         ks_users = [], ks_ntp = \<lparr>ntp_enabled = None, ntp_servers = []\<rparr>,
         ks_api_server = \<lparr>as_extra_args = [(''profiling'', Some ''false''), (''audit-log-maxage'', Some ''7'')],
           as_extra_volumes = [], as_cert_sans = []\<rparr>,
         ks_controller_manager_args = [], ks_scheduler_args = [],
         ks_etcd = \<lparr>etcd_extra_args = [], etcd_image_tag = [], etcd_image_repository = []\<rparr>,
         ks_dns = \<lparr>dns_image_tag = [], dns_image_repository = []\<rparr>, ks_image_repository = [],
         ks_skip_phases = [], ks_init_registration = sample_registration,
         ks_join_registration = sample_registration\<rparr>,
      kcp_expiry_days = 0\<rparr>"

definition finished :: "((string + 'doc) \<times> 's) outcome \<Rightarrow> bool" where
  "finished r = (case r of Returns (Inr _, _) \<Rightarrow> True | _ \<Rightarrow> False)"

lemma sample_pipeline_finished:
  "finished (generic_cluster_patch sample_pipeline_env sample_patch_variables sample_template ())"
  by code_simp

lemma sample_libs_faithful: "patch_faithful gvk (sample_libs_of Inr Inr)" if "\<And>a b. gvk a = gvk b"
  using that by (auto simp: patch_faithful_def sample_libs_of_def)

lemma sample_env_simps [simp]:
  "pe_env sample_pipeline_env = sample_template_env" "te_cp sample_template_env = sample_libs_of Inr Inr"
  "pe_sort_args sample_pipeline_env = sort_key fst"
  by (simp_all add: pe_env_def sample_pipeline_env_def sample_infra_env_def sample_template_env_def)

lemma sort_key_sorts_args: "sorts_args (sort_key fst)"
  by (simp add: sorts_args_def)

lemma sample_is_control_plane: "is_control_plane sample_template_env obj"
  by (simp add: is_control_plane_def template_matches_def sample_template_env_def MatchesSelector_def
      MatchesGVK_def ControlPlane_selector_def MatchesControlPlane_def)

section \<open>An instance of \<open>netipx\<close>\<close>

text \<open>
  The first and the last address of a prefix, and a range as the prefixes of its single
  addresses; the real package finds fewer prefixes for the same addresses.
\<close>

definition block_start :: "nat \<Rightarrow> 'a::len word \<Rightarrow> nat" where
  "block_start k w = unat w div 2 ^ k * 2 ^ k"

definition block_end :: "nat \<Rightarrow> 'a::len word \<Rightarrow> nat" where
  "block_end k w = block_start k w + (2 ^ k - 1)"

definition sample_range :: "ip_prefix \<Rightarrow> addr \<times> addr" where
  "sample_range p =
     (case pfx_addr p of
        IP4 w \<Rightarrow>
          let k = 32 - pfx_bits p
          in (IP4 (word_of_nat (block_start k w)), IP4 (word_of_nat (block_end k w)))
      | IP6 w z \<Rightarrow>
          let k = 128 - pfx_bits p
          in (IP6 (word_of_nat (block_start k w)) [],
              IP6 (word_of_nat (block_end k w)) []))"

definition sample_netipx :: netipx where
  "sample_netipx =
     \<lparr>nx_range_of_prefix = sample_range,
      nx_valid = (\<lambda>(lo, hi). Is4 lo = Is4 hi \<and> addr_Compare lo hi \<le> 0),
      nx_prefixes = (\<lambda>(lo, hi). case (lo, hi) of
          (IP4 v, IP4 w) \<Rightarrow>
            map (\<lambda>n. \<lparr>pfx_addr = IP4 (word_of_nat n), pfx_bits = 32\<rparr>) [unat v..<Suc (unat w)]
        | (IP6 v _, IP6 w _) \<Rightarrow>
            map (\<lambda>n. \<lparr>pfx_addr = IP6 (word_of_nat n) [], pfx_bits = 128\<rparr>) [unat v..<Suc (unat w)]
        | _ \<Rightarrow> [])\<rparr>"

lemma block_bounds:
  fixes w :: "'a::len word"
  assumes "k \<le> LENGTH('a)"
  shows "block_end k w < 2 ^ LENGTH('a)"
proof -
  have "unat w < 2 ^ (LENGTH('a) - k) * 2 ^ k"
    using unsigned_less [where 'a = nat and w = w] assms by (simp flip: power_add)
  then have "unat w div 2 ^ k < 2 ^ (LENGTH('a) - k)" by (simp add: less_mult_imp_div_less)
  then have "Suc (unat w div 2 ^ k) * 2 ^ k \<le> 2 ^ (LENGTH('a) - k) * 2 ^ k" by (intro mult_le_mono1) simp
  then have "2 ^ k + block_start k w \<le> 2 ^ LENGTH('a)"
    using assms by (simp add: block_start_def flip: power_add)
  moreover have "(0 :: nat) < 2 ^ k" by simp
  ultimately show ?thesis unfolding block_end_def by linarith
qed

lemma div_eq_block: "(0 :: nat) < m \<Longrightarrow> x div m = q \<longleftrightarrow> q * m \<le> x \<and> x \<le> q * m + (m - 1)"
proof -
  assume m: "0 < m"
  show ?thesis
  proof
    assume "x div m = q"
    then have "x = q * m + x mod m" using div_mult_mod_eq [of x m] by simp
    moreover have "x mod m \<le> m - 1" using mod_less_divisor [OF m, of x] by linarith
    ultimately show "q * m \<le> x \<and> x \<le> q * m + (m - 1)" by linarith
  next
    assume "q * m \<le> x \<and> x \<le> q * m + (m - 1)"
    then have "m * q \<le> x" "x < m * Suc q" using m by (auto simp: mult.commute)
    then show "x div m = q" by (rule div_nat_eqI)
  qed
qed

lemma block_iff:
  fixes x w :: "'a::len word"
  assumes "k \<le> LENGTH('a)"
  shows "word_of_nat (block_start k w) \<le> x \<and> x \<le> word_of_nat (block_end k w) \<longleftrightarrow>
    drop_bit k x = drop_bit k w"
proof -
  have "block_start k w < 2 ^ LENGTH('a)"
    using block_bounds [OF assms, of w] unfolding block_end_def by linarith
  then have b: "unat (word_of_nat (block_start k w) :: 'a word) = block_start k w"
    "unat (word_of_nat (block_end k w) :: 'a word) = block_end k w"
    using block_bounds [OF assms, of w] by (simp_all only: unat_of_nat mod_less)
  have "drop_bit k x = drop_bit k w \<longleftrightarrow> unat x div 2 ^ k = unat w div 2 ^ k"
    by (simp only: word_unat_eq_iff unat_drop_bit_eq) (simp only: drop_bit_eq_div)
  also have "\<dots> \<longleftrightarrow> block_start k w \<le> unat x \<and> unat x \<le> block_end k w"
    unfolding block_start_def block_end_def by (rule div_eq_block) simp
  finally show ?thesis unfolding word_le_nat_alt b by simp
qed

lemma block_le:
  fixes w :: "'a::len word"
  shows "k \<le> LENGTH('a) \<Longrightarrow>
    word_of_nat (block_start k w) \<le> (word_of_nat (block_end k w) :: 'a word)"
  using block_iff [of k w w] by (meson order_trans)

text \<open>A single address as a prefix, and those of a range.\<close>

lemma single_contains:
  "prefix_contains \<lparr>pfx_addr = IP4 v, pfx_bits = 32\<rparr> x \<longleftrightarrow> x = IP4 v"
  "zoneless x \<Longrightarrow> prefix_contains \<lparr>pfx_addr = IP6 w [], pfx_bits = 128\<rparr> x \<longleftrightarrow> x = IP6 w []"
  by (cases x; simp add: zoneless_def)+

lemma word_in_range:
  fixes v w x :: "'a::len word"
  shows "(\<exists>n \<in> set [unat v..<Suc (unat w)]. x = word_of_nat n) \<longleftrightarrow> v \<le> x \<and> x \<le> w"
proof
  assume "\<exists>n \<in> set [unat v..<Suc (unat w)]. x = word_of_nat n"
  then obtain n where n: "unat v \<le> n" "n \<le> unat w" "x = word_of_nat n" by auto
  then have "n < 2 ^ LENGTH('a)" using unsigned_less [where 'a = nat and w = w] by linarith
  then have "unat x = n" using n(3) by (simp only: unat_of_nat mod_less)
  then show "v \<le> x \<and> x \<le> w" using n by (simp add: word_le_nat_alt)
next
  assume "v \<le> x \<and> x \<le> w"
  then have "unat x \<in> set [unat v..<Suc (unat w)]" by (simp add: word_le_nat_alt less_Suc_eq_le del: upt_Suc)
  then show "\<exists>n \<in> set [unat v..<Suc (unat w)]. x = word_of_nat n" by (intro bexI [of _ "unat x"]) simp_all
qed

lemma in_range_words:
  "in_range (IP4 v, IP4 w) (IP4 x) \<longleftrightarrow> v \<le> x \<and> x \<le> w"
  "in_range (IP6 v' [], IP6 w' []) (IP6 x' []) \<longleftrightarrow> v' \<le> x' \<and> x' \<le> w'"
  "\<not> in_range (IP4 v, IP4 w) (IP6 x' z)" "\<not> in_range (IP6 v' y, IP6 w' y') (IP4 x)"
  by (auto simp: in_range_def)

lemma sample_netipx_laws: "netipx_laws sample_netipx"
  unfolding netipx_laws_def
proof (intro conjI allI impI)
  fix p
  assume p: "prefix_valid p"
  show "zoneless (fst (nx_range_of_prefix sample_netipx p))" "zoneless (snd (nx_range_of_prefix sample_netipx p))"
    by (auto simp: sample_netipx_def sample_range_def zoneless_def Let_def split: addr.splits)
  show "nx_valid sample_netipx (nx_range_of_prefix sample_netipx p)"
    using p
    by (auto simp: sample_netipx_def sample_range_def Let_def prefix_valid_def not_less block_le
        simp flip: not_le split: addr.splits)
  fix x
  assume x: "zoneless x"
  show "in_range (nx_range_of_prefix sample_netipx p) x = prefix_contains p x"
  proof (cases "pfx_addr p")
    case (IP4 w)
    then have "in_range (nx_range_of_prefix sample_netipx p) x = (case x of IP4 u \<Rightarrow> 
        drop_bit (32 - pfx_bits p) u = drop_bit (32 - pfx_bits p) w | _ \<Rightarrow> False)"
      using block_iff [of "32 - pfx_bits p" w]
      by (cases x) (simp_all add: sample_netipx_def sample_range_def Let_def in_range_words)
    then show ?thesis using IP4 by (cases x) simp_all
  next
    case (IP6 w z)
    then have "in_range (nx_range_of_prefix sample_netipx p) x = (case x of IP6 u _ \<Rightarrow> 
        drop_bit (128 - pfx_bits p) u = drop_bit (128 - pfx_bits p) w | _ \<Rightarrow> False)"
      using block_iff [of "128 - pfx_bits p" w] x
      by (cases x) (simp_all add: sample_netipx_def sample_range_def Let_def in_range_words zoneless_def)
    then show ?thesis using IP6 p x by (cases x) (simp_all add: prefix_valid_def zoneless_def)
  qed
next
  fix r :: "addr \<times> addr"
  assume r: "zoneless (fst r) \<and> zoneless (snd r) \<and> nx_valid sample_netipx r"
  then consider v w where "r = (IP4 v, IP4 w)" | v w where "r = (IP6 v [], IP6 w [])"
    by (cases r; cases "fst r"; cases "snd r") (auto simp: sample_netipx_def zoneless_def)
  note r = this
  show "\<forall>p \<in> set (nx_prefixes sample_netipx r). prefix_valid p"
    using r by cases (auto simp: sample_netipx_def prefix_valid_def)
  fix x
  assume x: "zoneless x"
  show "(\<exists>p \<in> set (nx_prefixes sample_netipx r). prefix_contains p x) = in_range r x"
    using r
  proof cases
    case (1 v w)
    then have "(\<exists>p \<in> set (nx_prefixes sample_netipx r). prefix_contains p x) \<longleftrightarrow>
        (\<exists>n \<in> set [unat v..<Suc (unat w)]. x = IP4 (word_of_nat n))"
      by (simp add: sample_netipx_def single_contains del: set_upt upt_Suc prefix_contains.simps)
    then show ?thesis using 1 word_in_range [of v w]
      by (cases x) (simp_all add: in_range_words del: set_upt upt_Suc)
  next
    case (2 v w)
    then have "(\<exists>p \<in> set (nx_prefixes sample_netipx r). prefix_contains p x) \<longleftrightarrow>
        (\<exists>n \<in> set [unat v..<Suc (unat w)]. x = IP6 (word_of_nat n) [])"
      using x by (simp add: sample_netipx_def single_contains del: set_upt upt_Suc prefix_contains.simps)
    then show ?thesis using 2 x word_in_range [of v w]
      by (cases x) (auto simp: in_range_words zoneless_def simp del: set_upt upt_Suc prefix_contains.simps)
  qed
qed

end
