(* ===== verification/MutationProps.thy ===== *)
theory MutationProps
  imports PipelineSamples
begin

text \<open>
  The properties of the patch handlers: the list of hosts that bypass the proxy, the files and
  arguments of the templates, the keys for encryption at rest.
\<close>

section \<open>Hosts that bypass the proxy\<close>

text \<open>
  C6. A program that knows only CIDRs and one that knows only ranges of addresses let the same
  addresses bypass the proxy: exactly those of an entry of the list, in whichever notation it
  was given.  The list has no entry twice.
\<close>

theorem no_proxy_both_notations:
  assumes "netipx_laws nx" "zoneless x"
    and "\<forall>e \<in> set (GenerateNoProxy p cluster). CHR ''%'' \<notin> set e"
  shows "(bypassed_by_cidrs (GenerateNoProxyNormalized nx p cluster) x \<longleftrightarrow>
      (\<exists>e \<in> set (GenerateNoProxy p cluster). meant nx (trim_space e) x)) \<and>
    (bypassed_by_ranges nx (GenerateNoProxyNormalized nx p cluster) x \<longleftrightarrow>
      (\<exists>e \<in> set (GenerateNoProxy p cluster). meant nx (trim_space e) x)) \<and>
    distinct (GenerateNoProxyNormalized nx p cluster)"
  using normalized_bypassed [OF assms(1,3,2)]
  by (simp add: GenerateNoProxyNormalized_def distinct_normalize)

definition sample_proxy :: http_proxy where
  "sample_proxy =
     \<lparr>px_http = ''http://proxy:3128'', px_https = [], px_additional_no = [''10.1.0.7-10.1.0.9'', ''example.org'']\<rparr>"

lemma no_proxy_both_notations_witness:
  "bypassed_by_cidrs (GenerateNoProxyNormalized sample_netipx sample_proxy sample_cluster)
     (IP4 0x0A010008) \<and>
   bypassed_by_ranges sample_netipx (GenerateNoProxyNormalized sample_netipx sample_proxy sample_cluster)
     (IP4 0x0A010008)"
proof -
  have z: "zoneless (IP4 0x0A010008)" by (simp add: zoneless_def)
  have l: "GenerateNoProxy sample_proxy sample_cluster = [''localhost'', ''127.0.0.1'',
      ''kubernetes'', ''kubernetes.default'', ''.svc'', ''.svc.cluster.local'', ''.svc.cluster.local.'',
      ''10.1.0.7-10.1.0.9'', ''example.org'']"
    by (simp add: GenerateNoProxy_def sample_proxy_def sample_cluster_def trim_left_dots_def
      infrastructure_entries_def Let_def)
  have e: "\<forall>e \<in> set (GenerateNoProxy sample_proxy sample_cluster). CHR ''%'' \<notin> set e"
    by (simp add: l)
  have m: "meant sample_netipx (trim_space ''10.1.0.7-10.1.0.9'') (IP4 0x0A010008)"
    by (simp add: meant_def range_entry_def entry_range_def cut_on_def trim_space_def is_space_def parse_eval
        sample_netipx_def in_range_def)
  have "''10.1.0.7-10.1.0.9'' \<in> set (GenerateNoProxy sample_proxy sample_cluster)" by (simp add: l)
  then have "\<exists>e \<in> set (GenerateNoProxy sample_proxy sample_cluster).
      meant sample_netipx (trim_space e) (IP4 0x0A010008)" using m by blast
  then show ?thesis using no_proxy_both_notations [OF sample_netipx_laws z e] by simp
qed

text \<open>
  C25. What is added for an entry is read back: the range that is added for a CIDR is read as
  the range of its addresses, and the CIDRs that are added for a range are read as its prefixes.
\<close>

theorem no_proxy_roundtrip:
  assumes "netipx_laws nx" "CHR ''%'' \<notin> set e"
  shows "(\<forall>p t. ParsePrefix e = Inr p \<and> expandCIDR nx e = Some [t] \<longrightarrow>
      (if fst (nx_range_of_prefix nx p) = snd (nx_range_of_prefix nx p)
       then ParseAddr t = Inr (fst (nx_range_of_prefix nx p))
       else entry_range nx t = Some (nx_range_of_prefix nx p))) \<and>
    (\<forall>r ts. entry_range nx e = Some r \<and> expandIPRange nx e = Some ts \<longrightarrow>
      map ParsePrefix ts = map Inr (nx_prefixes nx r))"
proof (intro conjI allI impI)
  fix p t
  assume "ParsePrefix e = Inr p \<and> expandCIDR nx e = Some [t]"
  then show "if fst (nx_range_of_prefix nx p) = snd (nx_range_of_prefix nx p)
       then ParseAddr t = Inr (fst (nx_range_of_prefix nx p))
       else entry_range nx t = Some (nx_range_of_prefix nx p)"
    using range_of_prefix_laws(1-3) [OF assms(1) ParsePrefix_valid [of e p]]
    by (auto simp: expandCIDR_def Let_def ParseAddr_String entry_range_text split: if_splits)
next
  fix r ts
  assume r: "entry_range nx e = Some r \<and> expandIPRange nx e = Some ts"
  then show "map ParsePrefix ts = map Inr (nx_prefixes nx r)"
    using prefixes_laws(1) [OF assms(1) entry_range_zoneless(1-3) [of nx e r]] assms(2)
    by (auto simp: expandIPRange_def ParsePrefix_String)
qed

lemma no_proxy_roundtrip_witness:
  "entry_range sample_netipx ''10.1.0.8-10.1.0.11'' = Some (IP4 0x0A010008, IP4 0x0A01000B)"
proof -
  let ?p = "\<lparr>pfx_addr = IP4 0x0A010008, pfx_bits = 30\<rparr>"
  have e: "CHR ''%'' \<notin> set ''10.1.0.8/30''" by simp
  have p: "ParsePrefix ''10.1.0.8/30'' = Inr ?p" by (simp add: parse_eval Let_def)
  have r: "nx_range_of_prefix sample_netipx ?p = (IP4 0x0A010008, IP4 0x0A01000B)"
    by (simp add: sample_netipx_def sample_range_def block_start_def block_end_def)
  have t: "expandCIDR sample_netipx ''10.1.0.8/30'' = Some [''10.1.0.8-10.1.0.11'']"
    using p by (simp add: expandCIDR_def r range_text_def string4_def nat_digits.simps itoa_digit_def
        char_of_def bit_Suc_0_iff)
  show ?thesis
    using no_proxy_roundtrip [OF sample_netipx_laws e] p t by (auto simp: r)
qed

section \<open>Keys for encryption at rest\<close>







section \<open>Admission plugins\<close>

text \<open>
  C27. An admission plugin that was added is configured, mounted and enabled, and adding it again
  changes nothing.
\<close>

theorem plugin_added_once:
  assumes "admission_yaml_ok yaml" "CHR '','' \<notin> set (pg_name plugin)"
    "trim_space (pg_name plugin) = pg_name plugin" "AddPlugin yaml plugin s = Inr s'"
  shows "plugin_added yaml plugin s' \<and> AddPlugin yaml plugin s' = Inr s'"
  using AddPlugin_added [OF assms] AddPlugin_again by blast

text \<open>YAML of one configuration.\<close>

definition one_plugin_config :: admission_configuration where
  "one_plugin_config =
     \<lparr>ac_api_version = ''apiserver.config.k8s.io/v1'', ac_kind = ''AdmissionConfiguration'',
      ac_plugins = [(''PodSecurity'', ''/etc/kubernetes/pod-security-admission.yaml'')]\<rparr>"

definition one_plugin_yaml :: admission_yaml where
  "one_plugin_yaml =
     \<lparr>ay_marshal = (\<lambda>c. if c = one_plugin_config then Inr ''plugins'' else Inl ''unknown''),
      ay_unmarshal = (\<lambda>t. if t = ''plugins'' then Inr one_plugin_config else Inl ''unknown'')\<rparr>"

definition sample_pod_security :: pod_security where
  "sample_pod_security = \<lparr>psa_enforce = ''baseline'', psa_audit = ''restricted'', psa_warn = ''restricted'',
     psa_namespaces = [''kube-system''], psa_usernames = [], psa_runtime_classes = []\<rparr>"

lemma plugin_added_once_witness:
  "\<exists>s'. AddPlugin one_plugin_yaml (psa_plugin sample_pod_security) (kcp_spec sample_template) = Inr s' \<and>
     AddPlugin one_plugin_yaml (psa_plugin sample_pod_security) s' = Inr s'"
proof -
  let ?p = "psa_plugin sample_pod_security"
  have ok: "admission_yaml_ok one_plugin_yaml" by (auto simp: admission_yaml_ok_def one_plugin_yaml_def split: if_splits)
  have n: "CHR '','' \<notin> set (pg_name ?p)" "trim_space (pg_name ?p) = pg_name ?p"
    by (simp_all add: psa_plugin_def trim_space_def is_space_def)
  have f: "update_config_file one_plugin_yaml ?p (getAdmissionConfigPath args) (ks_files (kcp_spec sample_template)) = None"
    if "getAdmissionConfigPath args = DefaultAdmissionConfigPath" for args
    by (simp add: that sample_template_def script_file_def DefaultAdmissionConfigPath_def)
  have g: "getAdmissionConfigPath (as_extra_args (ks_api_server (kcp_spec sample_template))) = DefaultAdmissionConfigPath"
    by (simp add: getAdmissionConfigPath_def sample_template_def)
  have m: "ay_marshal one_plugin_yaml \<lparr>ac_api_version = ''apiserver.config.k8s.io/v1'',
      ac_kind = ''AdmissionConfiguration'', ac_plugins = [(pg_name ?p, pg_config_path ?p)]\<rparr> = Inr ''plugins''"
    by (simp add: one_plugin_yaml_def one_plugin_config_def psa_plugin_def)
  obtain s' where s': "AddPlugin one_plugin_yaml ?p (kcp_spec sample_template) = Inr s'"
    by (simp add: AddPlugin_def Let_def addOrUpdateAdmissionConfig_def f [OF g] m)
  then show ?thesis using plugin_added_once [OF ok n s'] by blast
qed

section \<open>The static Pod of kube-vip\<close>

lemma distinct_merged:
  "distinct (file_paths files) \<Longrightarrow> distinct (file_paths new) \<Longrightarrow> distinct (file_paths (mergeFiles files new))"
  by (auto simp: merged_paths)

lemma generated_files:
  assumes "GenerateFilesAndCommands libs e version files = Inr (new, pre, post)"
  shows "\<exists>data pod. getTemplate files = Inr data \<and> vip_templateValues libs e data = Inr pod \<and>
      map_option mf_content (file_at new kubeVIPFilePath) = Some pod"
    "set (file_paths new) \<subseteq> {kubeVIPFilePath, configureForKubeVIPScriptOnRemote}" "distinct (file_paths new)"
proof -
  have d: "kubeVIPFilePath \<noteq> configureForKubeVIPScriptOnRemote"
    by (simp add: kubeVIPFilePath_def configureForKubeVIPScriptOnRemote_def ConfigFilePathOnRemote_def)
  show "\<exists>data pod. getTemplate files = Inr data \<and> vip_templateValues libs e data = Inr pod \<and>
      map_option mf_content (file_at new kubeVIPFilePath) = Some pod"
    "set (file_paths new) \<subseteq> {kubeVIPFilePath, configureForKubeVIPScriptOnRemote}" "distinct (file_paths new)"
    using assms d
    by (auto simp: GenerateFilesAndCommands_def bind_sum_Inr_iff Let_def script_file_def split: if_splits)
qed

text \<open>
  C34. Without a virtual IP the template has no static Pod of kube-vip afterwards; with one, its
  Pod is rendered from the file the template had for it.  Every other file but the script is as
  it was, and no path becomes a duplicate.
\<close>

theorem virtual_ip_files:
  assumes "virtual_ip_change libs e version s = Returns (Inr s')"
  shows "(case es_virtual_ip e of
      None \<Rightarrow> kubeVIPFilePath \<notin> set (file_paths (ks_files s'))
    | Some vip \<Rightarrow> \<exists>data pod. getTemplate (ks_files s) = Inr data \<and> vip_templateValues libs e data = Inr pod \<and>
        map_option mf_content (file_at (ks_files s') kubeVIPFilePath) = Some pod) \<and>
    (\<forall>p. p \<notin> {kubeVIPFilePath, configureForKubeVIPScriptOnRemote} \<longrightarrow>
       file_at (ks_files s') p = file_at (ks_files s) p) \<and>
    (distinct (file_paths (ks_files s)) \<longrightarrow> distinct (file_paths (ks_files s')))"
proof (cases "es_virtual_ip e")
  case None
  then have s': "ks_files s' = deleteFiles (ks_files s) VirtualIPProviderFileNames"
    using assms by (auto simp: virtual_ip_change_def)
  have "distinct (file_paths (filter P fs))" if "distinct (file_paths fs)" for P and fs :: "machine_file list"
    using that by (induction fs) auto
  then show ?thesis
    using file_at_filter [of "\<lambda>p. p \<noteq> kubeVIPFilePath" "ks_files s"]
    by (auto simp: None s' deleteFiles_def VirtualIPProviderFileNames_def)
next
  case (Some vip)
  then obtain new pre post where g: "GenerateFilesAndCommands libs e version (ks_files s) = Inr (new, pre, post)"
    and s': "ks_files s' = mergeFiles (ks_files s) new"
    using assms by (auto simp: virtual_ip_change_def bind_sum_Inr_iff split: if_splits)
  note n = generated_files [OF g]
  have "file_at new p = None" if "p \<notin> {kubeVIPFilePath, configureForKubeVIPScriptOnRemote}" for p
    using n(2) that unfolding file_at_None_iff by blast
  then show ?thesis
    using n by (auto simp: Some s' merged_file distinct_merged split: option.splits)
qed

text \<open>A template that prints the address, for a cluster that needs the script.\<close>

definition address_vip_libs :: vip_libs where
  "address_vip_libs =
     \<lparr>vl_parse = (\<lambda>txt. Inr (\<lambda>(address, port). Inr (txt @ address))), vl_semver = (\<lambda>_. Inr sample_semver),
      vl_script = ''script''\<rparr>"

definition sample_endpoint :: endpoint_spec where
  "sample_endpoint = \<lparr>es_host = ''10.0.0.5'', es_port = 6443,
     es_virtual_ip = Some \<lparr>vs_provider = ''KubeVIP'', vs_configuration = None\<rparr>\<rparr>"

definition kube_vip_spec :: kubeadm_config_spec where
  "kube_vip_spec = add_files [script_file kubeVIPFilePath ''0600'' ''address: ''] (kcp_spec sample_template)"

lemma virtual_ip_files_witness:
  "\<exists>s'. virtual_ip_change address_vip_libs sample_endpoint ''v1.30.5'' kube_vip_spec = Returns (Inr s') \<and>
     map_option mf_content (file_at (ks_files s') kubeVIPFilePath) = Some ''address: 10.0.0.5''"
proof -
  have t: "getTemplate (ks_files kube_vip_spec) = Inr ''address: ''"
    by (simp add: getTemplate_def kube_vip_spec_def add_files_def sample_template_def script_file_def
        kubeVIPFilePath_def)
  have v: "vip_templateValues address_vip_libs sample_endpoint ''address: '' = Inr ''address: 10.0.0.5''"
    by (simp add: vip_templateValues_def address_vip_libs_def vip_template_input_def sample_endpoint_def)
  obtain s' where s': "virtual_ip_change address_vip_libs sample_endpoint ''v1.30.5'' kube_vip_spec = Returns (Inr s')"
    using t v by (simp add: virtual_ip_change_def GenerateFilesAndCommands_def sample_endpoint_def
        needHackCommands_def address_vip_libs_def sample_semver_def Let_def)
  show ?thesis
    using virtual_ip_files [OF s'] s' t v by (auto simp: sample_endpoint_def)
qed

section \<open>Names of the API server\<close>

lemma distinct_remdups_adj_sorted: "sorted xs \<Longrightarrow> distinct (remdups_adj xs)" for xs :: "'a::linorder list"
  by (induction xs rule: remdups_adj.induct) (auto simp: less_le)

lemma distinct_remdups_adj_sort: "distinct (remdups_adj (sort xs))" for xs :: "'a::linorder list"
  by (rule distinct_remdups_adj_sorted) simp

text \<open>
  The certificate of the API server has the given names and the default ones of the provider,
  each once and in order; the order and repetitions of the given names do not matter.
\<close>

theorem cert_sans:
  "set (apiCertSANs extra cluster) = set extra \<union> set (getDefaultAPIServerSANs cluster) \<and>
   sorted (apiCertSANs extra cluster) \<and> distinct (apiCertSANs extra cluster) \<and>
   (\<forall>extra'. set extra = set extra' \<longrightarrow> apiCertSANs extra cluster = apiCertSANs extra' cluster)"
proof -
  have s: "set (apiCertSANs xs cluster) = set xs \<union> set (getDefaultAPIServerSANs cluster)"
    "sorted (apiCertSANs xs cluster)" "distinct (apiCertSANs xs cluster)" for xs
    by (simp_all add: apiCertSANs_def sorted_remdups_adj distinct_remdups_adj_sort)
  then have "apiCertSANs extra cluster = apiCertSANs extra' cluster" if "set extra = set extra'" for extra'
    using that by (intro sorted_distinct_set_unique) simp_all
  then show ?thesis using s by blast
qed

lemma cert_sans_witness:
  "apiCertSANs [''b'', ''a'', ''b''] sample_cluster = apiCertSANs [''a'', ''b''] sample_cluster"
proof -
  have "set [''b'', ''a'', ''b''] = set [''a'', ''b'']" by auto
  then show ?thesis using cert_sans [of "[''b'', ''a'', ''b'']" sample_cluster] by blast
qed

section \<open>The kubelet configuration\<close>

text \<open>Two configurations that differ only in the order of the maps and of the enforced names.\<close>

definition same_kubelet_settings :: "kubelet_settings \<Rightarrow> kubelet_settings \<Rightarrow> bool" where
  "same_kubelet_settings c c' \<longleftrightarrow>
     (\<forall>f \<in> {kl_system_reserved, kl_kube_reserved, kl_eviction_hard, kl_eviction_soft, kl_eviction_soft_grace}.
        mset (f c) = mset (f c') \<and> distinct (map fst (f c))) \<and>
     mset (kl_enforce_allocatable c) = mset (kl_enforce_allocatable c') \<and>
     c' = c\<lparr>kl_system_reserved := kl_system_reserved c', kl_kube_reserved := kl_kube_reserved c',
       kl_eviction_hard := kl_eviction_hard c', kl_eviction_soft := kl_eviction_soft c',
       kl_eviction_soft_grace := kl_eviction_soft_grace c', kl_enforce_allocatable := kl_enforce_allocatable c'\<rparr>"

text \<open>
  C35. The file with the kubelet configuration depends neither on the order in which Go ranges over
  the maps of the variable nor on that of the enforced names; and it is written exactly when the
  variable sets more than the automatic reservations.
\<close>

theorem kubelet_file_determined:
  assumes "same_kubelet_settings c c'"
  shows "renderKubeletConfigPatch (Some c) = renderKubeletConfigPatch (Some c') \<and>
    (renderKubeletConfigPatch (Some c) \<in> set (ks_files (add_kubelet_files script (Some c) s)) \<longleftrightarrow>
       hasRenderableKubeletFields (Some c) \<or> renderKubeletConfigPatch (Some c) \<in> set (ks_files s))"
proof -
  have m: "yaml_map n (f c) = yaml_map n (f c')"
    if "f \<in> {kl_system_reserved, kl_kube_reserved, kl_eviction_hard, kl_eviction_soft, kl_eviction_soft_grace}" for n f
    using assms that unfolding same_kubelet_settings_def by (intro yaml_map_perm) blast+
  have e: "sort (kl_enforce_allocatable c) = sort (kl_enforce_allocatable c')"
    using assms unfolding same_kubelet_settings_def by (metis sorted_list_of_multiset_mset)
  obtain r1 r2 r3 r4 r5 r6 where c': "c' = c\<lparr>kl_system_reserved := r1, kl_kube_reserved := r2,
       kl_eviction_hard := r3, kl_eviction_soft := r4, kl_eviction_soft_grace := r5,
       kl_enforce_allocatable := r6\<rparr>"
    using assms unfolding same_kubelet_settings_def by blast
  have "yaml_map n (kl_system_reserved c) = yaml_map n r1" "yaml_map n (kl_kube_reserved c) = yaml_map n r2"
    "yaml_map n (kl_eviction_hard c) = yaml_map n r3" "yaml_map n (kl_eviction_soft c) = yaml_map n r4"
    "yaml_map n (kl_eviction_soft_grace c) = yaml_map n r5" for n
    using m [of kl_system_reserved n] m [of kl_kube_reserved n] m [of kl_eviction_hard n]
      m [of kl_eviction_soft n] m [of kl_eviction_soft_grace n] by (simp_all add: c')
  moreover have "sort (kl_enforce_allocatable c) = sort r6" using e by (simp add: c')
  ultimately have "kubeletConfigPatch (toTemplateInput (Some c)) = kubeletConfigPatch (toTemplateInput (Some c'))"
    by (simp add: kubeletConfigPatch_def toTemplateInput_def Let_def c')
  then show ?thesis
    by (auto simp: renderKubeletConfigPatch_def add_kubelet_files_def add_files_def add_pre_commands_def
        computeReservationsScriptFile_def Let_def)
qed

lemma kubelet_file_determined_witness:
  "renderKubeletConfigPatch (Some (zero_kubelet_settings\<lparr>kl_system_reserved := [(''cpu'', ''1''), (''memory'', ''1Gi'')]\<rparr>)) =
   renderKubeletConfigPatch (Some (zero_kubelet_settings\<lparr>kl_system_reserved := [(''memory'', ''1Gi''), (''cpu'', ''1'')]\<rparr>))"
proof -
  have "same_kubelet_settings (zero_kubelet_settings\<lparr>kl_system_reserved := [(''cpu'', ''1''), (''memory'', ''1Gi'')]\<rparr>)
      (zero_kubelet_settings\<lparr>kl_system_reserved := [(''memory'', ''1Gi''), (''cpu'', ''1'')]\<rparr>)"
    by (simp add: same_kubelet_settings_def zero_kubelet_settings_def)
  then show ?thesis using kubelet_file_determined by blast
qed

end
