(* ===== verification/PipelineProps.thy ===== *)
theory PipelineProps
  imports PipelineLemmas PipelineSamples
begin

text \<open>
  The properties of the composed patch handlers: what a control plane template has when all
  handlers have run, and when the handlers of a Nutanix cluster panic.
\<close>

section \<open>One handler among others\<close>

text \<open>
  A handler run on a control plane template with one property returns an error or a control
  plane template with another one, unless it panics.
\<close>

definition step ::
    "('doc, 'b, 'o, 'p) template_env \<Rightarrow> (kcp_template \<Rightarrow> bool) \<Rightarrow> ('doc, 's) mutator \<Rightarrow>
     (kcp_template \<Rightarrow> bool) \<Rightarrow> bool" where
  "step env Q m P \<longleftrightarrow>
     (\<forall>obj t s r s'. cp_at env obj t \<and> Q t \<and> m obj s = Returns (r, s') \<longrightarrow> cp_result env P r)"

lemma stepD:
  "step env Q m P \<Longrightarrow> cp_at env obj t \<Longrightarrow> Q t \<Longrightarrow> m obj s = Returns (r, s') \<Longrightarrow> cp_result env P r"
  unfolding step_def by blast

lemma stepI:
  "(\<And>obj t s r s'. cp_at env obj t \<Longrightarrow> Q t \<Longrightarrow> m obj s = Returns (r, s') \<Longrightarrow> cp_result env P r) \<Longrightarrow> step env Q m P"
  unfolding step_def by blast

lemma run_pipeline_append:
  "run_pipeline (ms @ ms') obj s =
     bind_outcome (run_pipeline ms obj s)
       (\<lambda>(r, s'). case r of Inl err \<Rightarrow> Returns (Inl err, s') | Inr obj' \<Rightarrow> run_pipeline ms' obj' s')"
proof (induction ms arbitrary: obj s)
  case Nil
  then show ?case by simp
next
  case (Cons m ms)
  show ?case by (cases "m obj s") (auto simp: Cons.IH split: sum.splits)
qed

lemma step_append:
  assumes "step env Q (run_pipeline ms) R" "step env R (run_pipeline ms') P"
  shows "step env Q (run_pipeline (ms @ ms')) P"
proof (rule stepI)
  fix obj t s r s'
  assume t: "cp_at env obj t" "Q t" "run_pipeline (ms @ ms') obj s = Returns (r, s')"
  then obtain r1 s1 where r1: "run_pipeline ms obj s = Returns (r1, s1)"
    unfolding run_pipeline_append by (cases "run_pipeline ms obj s") auto
  note q = stepD [OF assms(1) t(1,2) r1]
  show "cp_result env P r"
  proof (cases r1)
    case (Inl err)
    then show ?thesis using t(3) r1 by (auto simp: run_pipeline_append intro: cp_result_Inl)
  next
    case (Inr obj1)
    then obtain t1 where "cp_at env obj1 t1" "R t1" using q by (auto simp: cp_result_def)
    then show ?thesis using stepD [OF assms(2)] t(3) r1 Inr by (auto simp: run_pipeline_append)
  qed
qed

lemma step_single: "step env Q m P \<Longrightarrow> step env Q (run_pipeline [m]) P"
proof (rule stepI)
  fix obj t s r s'
  assume "step env Q m P" and t: "cp_at env obj t" "Q t" "run_pipeline [m] obj s = Returns (r, s')"
  moreover from t(3) have "m obj s = Returns (r, s')"
    by (cases "m obj s") (auto split: sum.splits)
  ultimately show "cp_result env P r" by (blast dest: stepD)
qed

text \<open>What every handler keeps, the pipeline keeps.\<close>

lemma step_keeping:
  assumes "list_all (keeping env) ms" "\<And>t t'. P t \<Longrightarrow> keeps t t' \<Longrightarrow> P t'"
  shows "step env P (run_pipeline ms) P"
proof (rule stepI)
  fix obj t s r s'
  assume "cp_at env obj t" "P t" "run_pipeline ms obj s = Returns (r, s')"
  then have "cp_result env (keeps t) r" "P t"
    using keeping_run [OF assms(1)] unfolding keeping_def by blast+
  then show "cp_result env P r" using assms(2) unfolding cp_result_def by blast
qed

text \<open>A handler in the middle establishes what those after it keep.\<close>

lemma step_between:
  assumes "list_all (keeping env) (ms @ m # ms')" "step env (\<lambda>_. True) m P"
    and "\<And>t t'. P t \<Longrightarrow> keeps t t' \<Longrightarrow> P t'"
  shows "step env (\<lambda>_. True) (run_pipeline (ms @ m # ms')) P"
proof -
  have "step env (\<lambda>_. True) (run_pipeline ms) (\<lambda>_. True)"
    using assms(1) by (intro step_keeping) simp_all
  moreover have "step env (\<lambda>_. True) (run_pipeline ([m] @ ms')) P"
    using assms by (intro step_append [OF step_single [OF assms(2)]] step_keeping) simp_all
  ultimately show ?thesis using step_append [of env _ ms _ "m # ms'"] by simp
qed

section \<open>What the handlers establish\<close>

lemma step_stateless:
  "(\<And>obj t. cp_at env obj t \<Longrightarrow> Q t \<Longrightarrow> cp_result env P (f obj)) \<Longrightarrow> step env Q (stateless f) P"
  by (auto simp: step_def stateless_def)

definition has_audit_args :: "kcp_template \<Rightarrow> bool" where
  "has_audit_args t \<longleftrightarrow> fst ` set auditArgs \<subseteq> fst ` set (as_extra_args (ks_api_server (kcp_spec t)))"

definition restarts_containerd :: "kcp_template \<Rightarrow> bool" where
  "restarts_containerd t \<longleftrightarrow>
     {''/bin/bash '' @ ContainerdScriptPathOnRemote ''apply-patches.sh'',
      ''/bin/bash '' @ ContainerdScriptPathOnRemote ''restart.sh''} \<subseteq> set (ks_pre_commands (kcp_spec t))"

definition args_sorted :: "kcp_template \<Rightarrow> bool" where
  "args_sorted t \<longleftrightarrow>
     sorted (map fst (as_extra_args (ks_api_server (kcp_spec t)))) \<and>
     sorted (map fst (ks_controller_manager_args (kcp_spec t))) \<and>
     sorted (map fst (ks_scheduler_args (kcp_spec t))) \<and>
     sorted (map fst (etcd_extra_args (ks_etcd (kcp_spec t))))"

lemma audit_step: "step env (\<lambda>_. True) (stateless (auditpolicy_Mutate env policy)) has_audit_args"
proof (rule step_stateless)
  fix obj t
  assume "cp_at env obj t"
  then show "cp_result env has_audit_args (auditpolicy_Mutate env policy obj)"
    unfolding auditpolicy_Mutate_def
    by (rule cp_result_patch)
      (auto simp: has_audit_args_def on_spec_def audit_change_def on_api_server_def add_files_def
        names_add_missing_args)
qed

lemma restart_step:
  "step env (\<lambda>_. True) (stateless (containerd_restart_Mutate env tpl restart)) restarts_containerd"
proof (rule step_stateless)
  fix obj t
  assume cp: "cp_at env obj t"
  show "cp_result env restarts_containerd (containerd_restart_Mutate env tpl restart obj)"
    unfolding containerd_restart_Mutate_def
    by (auto intro!: cp_result_both [OF cp] cp_result_Inl split: sum.splits prod.splits
        simp: restarts_containerd_def on_spec_def add_pre_commands_def add_files_def
          generateContainerdApplyPatchesScript_def generateContainerdRestartScript_def)
qed

lemma sort_step:
  "sorts_args f \<Longrightarrow> step env (\<lambda>_. True) (stateless (sortextraargs_Mutate env f)) args_sorted"
proof (rule step_stateless)
  fix obj t
  assume "sorts_args f" and cp: "cp_at env obj t"
  then show "cp_result env args_sorted (sortextraargs_Mutate env f obj)"
    unfolding sortextraargs_Mutate_def
    by (auto intro!: cp_result_bind cp_result_patch [OF cp]
        simp: args_sorted_def on_spec_def sort_control_plane_def sorts_args_def)
qed

section \<open>The control plane template after all handlers\<close>

lemma generic_cluster_patch_establishes:
  assumes "sorts_args (pe_sort_args pe)"
  shows "step (pe_env pe) (\<lambda>_. True) (generic_cluster_patch pe v)
    (\<lambda>t. has_audit_args t \<and> restarts_containerd t \<and> args_sorted t)"
proof -
  let ?ms = "MetaMutators pe v @ ControlPlaneMetaMutators pe v"
  let ?restart = "stateless (containerd_restart_Mutate (pe_env pe) (pe_apply_patches pe) (pe_restart pe))"
  let ?audit = "stateless (auditpolicy_Mutate (pe_env pe) (pe_audit_policy pe))"
  let ?sort = "stateless (sortextraargs_Mutate (pe_env pe) (pe_sort_args pe))"
  have k: "list_all (keeping (pe_env pe)) ?ms" by (rule keeping_generic [OF assms])
  have audit: "?ms = [] @ ?audit # tl ?ms" by (simp add: MetaMutators_def Let_def)
  have restart: "?ms = butlast (MetaMutators pe v) @ ?restart # ControlPlaneMetaMutators pe v"
    by (simp add: MetaMutators_def Let_def)
  have sort: "?ms = (MetaMutators pe v @ butlast (ControlPlaneMetaMutators pe v)) @ [?sort]"
    by (simp add: ControlPlaneMetaMutators_def Let_def)
  have a: "step (pe_env pe) (\<lambda>_. True) (run_pipeline ?ms) has_audit_args"
    by (subst audit, rule step_between [OF _ audit_step])
      (use k audit in \<open>auto simp: has_audit_args_def spec_kept_def args_kept_def\<close>)
  have r: "step (pe_env pe) (\<lambda>_. True) (run_pipeline ?ms) restarts_containerd"
    by (subst restart, rule step_between [OF _ restart_step])
      (use k restart in \<open>auto simp: restarts_containerd_def spec_kept_def\<close>)
  have "list_all (keeping (pe_env pe)) (MetaMutators pe v @ butlast (ControlPlaneMetaMutators pe v))"
    using k unfolding sort by simp
  then have "step (pe_env pe) (\<lambda>_. True) (run_pipeline (MetaMutators pe v @ butlast (ControlPlaneMetaMutators pe v)))
      (\<lambda>_. True)" by (rule step_keeping) simp
  then have s: "step (pe_env pe) (\<lambda>_. True) (run_pipeline ?ms) args_sorted"
    by (subst sort, rule step_append [OF _ step_single [OF sort_step [OF assms]]])
  show ?thesis
    unfolding generic_cluster_patch_def step_def
  proof (intro allI impI)
    fix obj t s' r' s''
    assume b: "cp_at (pe_env pe) obj t \<and> True \<and> run_pipeline ?ms obj s' = Returns (r', s'')"
    then have "cp_result (pe_env pe) has_audit_args r'" "cp_result (pe_env pe) restarts_containerd r'"
      "cp_result (pe_env pe) args_sorted r'"
      using a r s unfolding step_def by blast+
    then show "cp_result (pe_env pe) (\<lambda>t. has_audit_args t \<and> restarts_containerd t \<and> args_sorted t) r'"
      unfolding cp_result_def cp_at_def by fastforce
  qed
qed

text \<open>
  C5. When the generic handlers, those that every provider has, have run without an error on a
  control plane template, the result reads as a control plane template again.  For the API
  server, the controller manager, the scheduler and etcd: arguments that were well-formed (each name
  once, with a value) still are, and each keeps its value, except for
  \<open>enable-admission-plugins\<close>, whose list may grow.  The paths of files, the commands and the mounts
  of the API server are only added to, after those that were there.  The arguments of the
  audit log are there, containerd is restarted, and these arguments are sorted by their names.
  Nothing is said of the arguments of the kubelet, nor of the handlers of one provider: the
  virtual IP handler of Nutanix, for one, may remove a file.
\<close>

theorem control_plane_template_kept:
  assumes "patch_faithful (te_gvk (pe_env pe)) (te_cp (pe_env pe))" "sorts_args (pe_sort_args pe)"
    and "is_control_plane (pe_env pe) obj" "pl_convert (te_cp (pe_env pe)) obj = Inr t"
    and "generic_cluster_patch pe v obj s = Returns (Inr obj', s')"
  shows "\<exists>t'. pl_convert (te_cp (pe_env pe)) obj' = Inr t' \<and> is_control_plane (pe_env pe) obj' \<and>
    spec_kept (kcp_spec t) (kcp_spec t') \<and> has_audit_args t' \<and> restarts_containerd t' \<and> args_sorted t'"
proof -
  have cp: "cp_at (pe_env pe) obj t" using assms(1,3,4) by (simp add: cp_at_def)
  have "cp_result (pe_env pe) (keeps t) (Inr obj')"
    using keeping_run [OF keeping_generic [OF assms(2)]] cp assms(5)
    unfolding keeping_def generic_cluster_patch_def by blast
  moreover have "cp_result (pe_env pe) (\<lambda>t. has_audit_args t \<and> restarts_containerd t \<and> args_sorted t) (Inr obj')"
    using stepD [OF generic_cluster_patch_establishes [OF assms(2)] cp _ assms(5)] by simp
  ultimately show ?thesis unfolding cp_result_def cp_at_def by fastforce
qed

lemma control_plane_template_kept_witness:
  "\<exists>t' s'. generic_cluster_patch sample_pipeline_env sample_patch_variables sample_template () =
       Returns (Inr t', s') \<and>
     (''audit-log-maxage'', Some ''7'') \<in> set (as_extra_args (ks_api_server (kcp_spec t'))) \<and>
     sorted (map fst (as_extra_args (ks_api_server (kcp_spec t')))) \<and>
     ''audit-policy-file'' \<in> fst ` set (as_extra_args (ks_api_server (kcp_spec t')))"
proof -
  obtain obj' s' where r: "generic_cluster_patch sample_pipeline_env sample_patch_variables sample_template () =
      Returns (Inr obj', s')"
    using sample_pipeline_finished by (auto simp: finished_def split: outcome.splits prod.splits sum.splits)
  have f: "patch_faithful (te_gvk (pe_env sample_pipeline_env)) (te_cp (pe_env sample_pipeline_env))"
    by (simp add: sample_libs_faithful sample_template_env_def)
  have t: "pl_convert (te_cp (pe_env sample_pipeline_env)) sample_template = Inr sample_template"
    by (simp add: sample_libs_of_def)
  obtain t' where t': "pl_convert (te_cp (pe_env sample_pipeline_env)) obj' = Inr t'"
    "spec_kept (kcp_spec sample_template) (kcp_spec t')" "has_audit_args t'" "args_sorted t'"
    using control_plane_template_kept [OF f _ _ t r] sample_is_control_plane sort_key_sorts_args by auto
  have "obj' = t'" using t'(1) by (simp add: sample_libs_of_def)
  moreover have "(''audit-log-maxage'', Some ''7'') \<in> set (as_extra_args (ks_api_server (kcp_spec t')))"
  proof -
    have "{a \<in> set (as_extra_args (ks_api_server (kcp_spec sample_template))). fst a \<noteq> ''enable-admission-plugins''}
        \<subseteq> set (as_extra_args (ks_api_server (kcp_spec t')))"
      using t'(2) unfolding spec_kept_def args_kept_def by (elim conjE)
    then show ?thesis by (rule subsetD) (simp add: sample_template_def)
  qed
  moreover have "''audit-policy-file'' \<in> fst ` set (as_extra_args (ks_api_server (kcp_spec t')))"
    using t'(3) by (simp add: has_audit_args_def auditArgs_def)
  ultimately show ?thesis using r t'(4) unfolding args_sorted_def by blast
qed

section \<open>When the handlers of a Nutanix cluster panic\<close>

definition returns :: "('doc, 's) mutator \<Rightarrow> bool" where
  "returns m \<longleftrightarrow> (\<forall>obj s. \<exists>r s'. m obj s = Returns (r, s'))"

lemma returns_run: "list_all returns ms \<Longrightarrow> returns (run_pipeline ms)"
proof (induction ms)
  case Nil
  then show ?case by (simp add: returns_def)
next
  case (Cons m ms)
  then have IH: "returns (run_pipeline ms)" and m: "returns m" by simp_all
  show ?case
    unfolding returns_def
  proof (intro allI)
    fix obj s
    obtain r s' where r: "m obj s = Returns (r, s')" using m unfolding returns_def by blast
    show "\<exists>r s'. run_pipeline (m # ms) obj s = Returns (r, s')"
      using IH r unfolding returns_def by (cases r) simp_all
  qed
qed

lemma returns_steps [simp]:
  "returns (stateless f)" "returns (effectful g)" "returns (reading_cluster pe h)"
  "returns (mirrors_step pe v)"
  by (simp_all add: returns_def stateless_def effectful_def reading_cluster_def mirrors_step_def split_paired_Ex)

lemma returns_generic: "list_all returns (MetaMutators pe v @ ControlPlaneMetaMutators pe v)"
  by (simp add: MetaMutators_def ControlPlaneMetaMutators_def Let_def)

lemma returns_not_panics: "returns m \<Longrightarrow> m obj s \<noteq> Panics msg"
  unfolding returns_def by (metis outcome.distinct(1))

lemma is_control_plane_kind:
  "is_control_plane env obj \<Longrightarrow> snd (te_gvk env obj) = ''KubeadmControlPlaneTemplate''"
  by (simp add: is_control_plane_def template_matches_def MatchesSelector_def MatchesGVK_def
      ControlPlane_selector_def split: if_splits)

lemma endpoint_other:
  assumes "is_control_plane (ie_base env) obj" "\<not> (\<exists>err. v = Failed err)"
  shows "controlplaneendpoint_Mutate env v obj = Inr obj"
proof -
  have "\<not> template_matches (ie_base env) nutanix_cluster_selector obj"
    using is_control_plane_kind [OF assms(1)]
    by (simp add: template_matches_def MatchesSelector_def MatchesGVK_def nutanix_cluster_selector_def
        InfrastructureCluster_def)
  then show ?thesis
    using assms(2) by (cases v) (simp_all add: controlplaneendpoint_Mutate_def on_found_def patch_infra_def
        not_applicable)
qed

lemma virtual_ip_panics_iff:
  "(\<exists>msg. virtual_ip_Mutate env libs cluster v obj = Panics msg) \<longleftrightarrow>
     is_control_plane env obj \<and>
     (\<exists>e vip c t. v = Found e \<and> es_virtual_ip e = Some vip \<and> vs_provider vip \<noteq> ''KubeVIP'' \<and>
       cluster = Inr c \<and> pl_convert (te_cp env) obj = Inr t)"
  by (cases v; cases cluster)
    (auto simp: virtual_ip_Mutate_def virtual_ip_change_def split: sum.splits option.splits)

text \<open>
  C15. The handlers of a Nutanix cluster panic on a control plane template exactly when the
  virtual IP has a provider other than kube-vip, the variable of the endpoint can be read, the
  Cluster can be fetched and the template can be read.  Only the schema of the variable, which
  is not checked here, excludes other providers.
\<close>

theorem nutanix_patch_panics_iff:
  assumes "is_control_plane (pe_env pe) obj"
  shows "(\<exists>msg. nutanix_cluster_patch pe nv v obj s = Panics msg) \<longleftrightarrow>
    \<not> (\<exists>err. nv_endpoint nv = Failed err) \<and>
    (\<exists>e vip c t. nv_virtual_ip nv = Found e \<and> es_virtual_ip e = Some vip \<and> vs_provider vip \<noteq> ''KubeVIP'' \<and>
       pe_cluster pe s = Inr c \<and> pl_convert (te_cp (pe_env pe)) obj = Inr t)"
proof -
  let ?rest = "drop 2 (nutanix_mutators pe nv) @ MetaMutators pe v @ ControlPlaneMetaMutators pe v"
  have ms: "nutanix_mutators pe nv @ MetaMutators pe v @ ControlPlaneMetaMutators pe v =
      stateless (controlplaneendpoint_Mutate (pe_infra pe) (nv_endpoint nv)) #
      virtual_ip_step pe (nv_virtual_ip nv) # ?rest"
    by (simp add: nutanix_mutators_def)
  have "list_all returns ?rest" using returns_generic [of pe v] by (simp add: nutanix_mutators_def)
  then have rest: "run_pipeline ?rest obj' s' \<noteq> Panics msg" for obj' s' msg
    by (rule returns_not_panics [OF returns_run])
  have cluster: "(\<exists>c. fetched_cluster pe s = Inr c) \<longleftrightarrow> (\<exists>c. pe_cluster pe s = Inr c)"
    by (auto simp: fetched_cluster_def CreateClusterGetter_def split: sum.splits)
  show ?thesis
  proof (cases "\<exists>err. nv_endpoint nv = Failed err")
    case True
    then show ?thesis
      by (auto simp: nutanix_cluster_patch_def ms stateless_def controlplaneendpoint_Mutate_def on_found_def)
  next
    case False
    then have e: "controlplaneendpoint_Mutate (pe_infra pe) (nv_endpoint nv) obj = Inr obj"
      using endpoint_other [of "pe_infra pe" obj "nv_endpoint nv"] assms by (simp add: pe_env_def)
    define rp where "rp = run_pipeline ?rest"
    have "nutanix_cluster_patch pe nv v obj s =
        bind_outcome (virtual_ip_Mutate (pe_env pe) (pe_vip pe) (fetched_cluster pe s) (nv_virtual_ip nv) obj)
          (\<lambda>r. case r of Inl err \<Rightarrow> Returns (Inl err, s) | Inr obj' \<Rightarrow> rp obj' s)"
      unfolding nutanix_cluster_patch_def ms run_pipeline.simps rp_def [symmetric]
      by (cases "virtual_ip_Mutate (pe_env pe) (pe_vip pe) (fetched_cluster pe s) (nv_virtual_ip nv) obj")
        (simp_all add: stateless_def e virtual_ip_step_def)
    moreover have "rp obj' s' \<noteq> Panics msg" for obj' s' msg unfolding rp_def by (rule rest)
    ultimately have "(\<exists>msg. nutanix_cluster_patch pe nv v obj s = Panics msg) \<longleftrightarrow>
        (\<exists>msg. virtual_ip_Mutate (pe_env pe) (pe_vip pe) (fetched_cluster pe s) (nv_virtual_ip nv) obj = Panics msg)"
      by (cases "virtual_ip_Mutate (pe_env pe) (pe_vip pe) (fetched_cluster pe s) (nv_virtual_ip nv) obj")
        (simp_all split: sum.split)
    then show ?thesis using False assms cluster unfolding virtual_ip_panics_iff by blast
  qed
qed

definition other_virtual_ip :: nutanix_variables where
  "other_virtual_ip =
     \<lparr>nv_endpoint = no_variable,
      nv_virtual_ip = Found \<lparr>es_host = ''10.0.0.5'', es_port = 6443,
        es_virtual_ip = Some \<lparr>vs_provider = ''Other'', vs_configuration = None\<rparr>\<rparr>,
      nv_prism_central = no_variable, nv_cp_machine = no_variable, nv_failure_domains = no_variable,
      nv_worker_machine = no_variable\<rparr>"

lemma nutanix_patch_panics_iff_witness:
  "\<exists>msg. nutanix_cluster_patch sample_pipeline_env other_virtual_ip sample_patch_variables sample_template () =
     Panics msg"
proof -
  have "is_control_plane (pe_env sample_pipeline_env) sample_template" by (simp add: sample_is_control_plane)
  moreover have "pe_cluster sample_pipeline_env () = Inr sample_cluster" by (simp add: sample_pipeline_env_def)
  ultimately show ?thesis
    by (subst nutanix_patch_panics_iff) (simp_all add: other_virtual_ip_def no_variable_def sample_libs_of_def)
qed

end
