(* ===== verification/AddonApi.thy ===== *)
theory AddonApi
  imports RegistryHandlers KonnectorAgent RegistryEnabler
begin

text \<open>
  What the handlers of addons share: \<open>pkg/handlers/utils\<close> and \<open>pkg/wait\<close>.  An
  operation takes the state of the API servers (of the management cluster and of the workload
  clusters) and gives a reply, which is a value, an error or a panic, with the new state.  The API
  is a record of calls; \<open>recording\<close> wraps it so that the state also holds the calls made.
\<close>

section \<open>Operations\<close>

datatype 'a reply = Ok 'a | Err string | Panic string

type_synonym ('s, 'a) operation = "'s \<Rightarrow> 'a reply \<times> 's"

named_theorems op_simps \<open>what the combinators of operations do on each reply\<close>

definition return_op :: "'a \<Rightarrow> ('s, 'a) operation" where
  "return_op x s = (Ok x, s)"

definition error_op :: "string \<Rightarrow> ('s, 'a) operation" where
  "error_op err s = (Err err, s)"

definition panic_op :: "string \<Rightarrow> ('s, 'a) operation" where
  "panic_op msg s = (Panic msg, s)"

definition bind_op ::
    "('s, 'a) operation \<Rightarrow> ('a \<Rightarrow> ('s, 'b) operation) \<Rightarrow> ('s, 'b) operation" where
  "bind_op m k s =
     (case m s of
        (Ok x, s') \<Rightarrow> k x s'
      | (Err err, s') \<Rightarrow> (Err err, s')
      | (Panic msg, s') \<Rightarrow> (Panic msg, s'))"

text \<open>\<open>fmt.Errorf\<close> with a context before the error.\<close>

definition wrap_op :: "string \<Rightarrow> ('s, 'a) operation \<Rightarrow> ('s, 'a) operation" where
  "wrap_op context m s =
     (case m s of (Err err, s') \<Rightarrow> (Err (context @ err), s') | r \<Rightarrow> r)"

text \<open>A call that reports an error or gives a value; a function without effects.\<close>

definition call_op :: "('s \<Rightarrow> (api_error + 'a) \<times> 's) \<Rightarrow> ('s, 'a) operation" where
  "call_op f s =
     (case f s of
        (Inl err, s') \<Rightarrow> (Err (api_error_text err), s')
      | (Inr x, s') \<Rightarrow> (Ok x, s'))"

definition unit_op :: "('s \<Rightarrow> string option \<times> 's) \<Rightarrow> ('s, unit) operation" where
  "unit_op f s =
     (case f s of (Some err, s') \<Rightarrow> (Err err, s') | (None, s') \<Rightarrow> (Ok (), s'))"

definition sum_op :: "string + 'a \<Rightarrow> ('s, 'a) operation" where
  "sum_op r = (case r of Inl err \<Rightarrow> error_op err | Inr x \<Rightarrow> return_op x)"

definition reply_op :: "'a reply \<Rightarrow> ('s, 'a) operation" where
  "reply_op r s = (r, s)"

fun each_op :: "('a \<Rightarrow> ('s, unit) operation) \<Rightarrow> 'a list \<Rightarrow> ('s, unit) operation" where
  "each_op f [] = return_op ()"
| "each_op f (x # xs) = bind_op (f x) (\<lambda>_. each_op f xs)"

lemma bind_op_simps [op_simps]:
  "m s = (Ok x, s') \<Longrightarrow> bind_op m k s = k x s'"
  "m s = (Err err, s') \<Longrightarrow> bind_op m k s = (Err err, s')"
  "m s = (Panic msg, s') \<Longrightarrow> bind_op m k s = (Panic msg, s')"
  by (simp_all add: bind_op_def)

lemma wrap_op_simps [op_simps]:
  "m s = (Ok x, s') \<Longrightarrow> wrap_op c m s = (Ok x, s')"
  "m s = (Err err, s') \<Longrightarrow> wrap_op c m s = (Err (c @ err), s')"
  "m s = (Panic msg, s') \<Longrightarrow> wrap_op c m s = (Panic msg, s')"
  by (simp_all add: wrap_op_def)

lemma unit_ops [simp]:
  "bind_op (return_op x) k = k x" "bind_op (error_op e) k = error_op e"
  "bind_op (panic_op p) k = panic_op p" "bind_op m return_op = m"
  "wrap_op c (return_op x) = return_op x" "wrap_op c (error_op e) = error_op (c @ e)"
  "wrap_op c (panic_op p) = panic_op p"
  by (auto simp: fun_eq_iff bind_op_def return_op_def error_op_def panic_op_def wrap_op_def
      split: reply.split prod.split)

lemma bind_op_assoc: "bind_op (bind_op m k) l = bind_op m (\<lambda>x. bind_op (k x) l)"
  by (auto simp: fun_eq_iff bind_op_def split: reply.split prod.split)

lemma wrap_bind_op: "wrap_op c (bind_op m k) = bind_op (wrap_op c m) (\<lambda>x. wrap_op c (k x))"
  by (auto simp: fun_eq_iff bind_op_def wrap_op_def split: reply.split prod.split)

section \<open>Objects\<close>

text \<open>
  The contents of a ConfigMap are in the order in which a run goes through the map.  The labels and
  annotations of an object are maps; \<open>None\<close> is nil.
\<close>

record config_map =
  cm_namespace :: string
  cm_name :: string
  cm_data :: "(string \<times> string) list"
  cm_binary :: "(string \<times> string) list"

record secret_object =
  sec_namespace :: string
  sec_name :: string
  sec_data :: secret
  sec_string_data :: secret
  sec_type :: string

record resource_set =
  rs_namespace :: string
  rs_name :: string
  rs_resources :: "(string \<times> string) list"
  rs_strategy :: string
  rs_cluster_name :: string

record helm_proxy =
  hp_namespace :: string
  hp_name :: string
  hp_repo :: string
  hp_chart :: string
  hp_cluster_name :: string
  hp_release_namespace :: string
  hp_release :: string
  hp_version :: string
  hp_values :: string
  hp_take_ownership :: bool
  hp_tls :: "(string \<times> string) option"

record storage_class =
  sto_name :: string
  sto_annotations :: "(string \<rightharpoonup> string) option"
  sto_provisioner :: string
  sto_parameters :: "string \<rightharpoonup> string"
  sto_binding_mode :: "string option"
  sto_reclaim_policy :: "string option"
  sto_expansion :: bool

text \<open>What is applied: the last two have namespace, name and addresses or pools.\<close>

datatype addon_object =
    ConfigMapObject config_map
  | SecretObject secret_object
  | ResourceSetObject resource_set
  | HelmProxyObject helm_proxy
  | NamespaceObject string "(string \<rightharpoonup> string) option" "(string \<rightharpoonup> string) option"
  | StorageClassObject storage_class
  | AddressPoolObject string string "string list"
  | AdvertisementObject string string "string list"

fun addon_key :: "addon_object \<Rightarrow> string \<times> string \<times> string" where
  "addon_key (ConfigMapObject cm) = (''ConfigMap'', cm_namespace cm, cm_name cm)"
| "addon_key (SecretObject sec) = (''Secret'', sec_namespace sec, sec_name sec)"
| "addon_key (ResourceSetObject rs) = (''ClusterResourceSet'', rs_namespace rs, rs_name rs)"
| "addon_key (HelmProxyObject hp) = (''HelmChartProxy'', hp_namespace hp, hp_name hp)"
| "addon_key (NamespaceObject name labels annotations) = (''Namespace'', [], name)"
| "addon_key (StorageClassObject sc) = (''StorageClass'', [], sto_name sc)"
| "addon_key (AddressPoolObject ns name addresses) = (''IPAddressPool'', ns, name)"
| "addon_key (AdvertisementObject ns name pools) = (''L2Advertisement'', ns, name)"

text \<open>The parts of workloads that are read; \<open>ds_other\<close> is the rest of a DaemonSet.\<close>

record daemon_set =
  ds_generation :: int
  ds_observed :: int
  ds_desired :: int
  ds_ready :: int
  ds_available :: int
  ds_updated :: int
  ds_template_annotations :: "(string \<rightharpoonup> string) option"
  ds_other :: string

record deployment =
  dp_generation :: int
  dp_observed :: int
  dp_replicas :: "int option"
  dp_available :: int

record proxy_status =
  ps_generation :: int
  ps_observed :: int
  ps_conditions :: "(string \<times> string) list"

text \<open>A claim is read with the amount of its storage request, if it has requests.\<close>

record volume_claim =
  pv_namespace :: string
  pv_name :: string
  pv_request :: "int option"

section \<open>The API servers\<close>

text \<open>
  A client is for the management cluster or for a workload cluster, by namespace and name.  An
  error of an apply is told apart where the code does.
\<close>

datatype api_client = Management | Workload string string

datatype apply_error = InternalError string | Conflict string | OtherApplyError string

fun apply_error_text :: "apply_error \<Rightarrow> string" where
  "apply_error_text (InternalError t) = t"
| "apply_error_text (Conflict t) = t"
| "apply_error_text (OtherApplyError t) = t"

text \<open>
  Reads take namespace and name (a list of ConfigMaps: namespace, label and value; a list of
  claims: namespace and release).  \<open>ad_remote\<close> is \<open>remote.NewClusterClient\<close>,
  \<open>ad_own_error\<close> the error of \<open>controllerutil.SetOwnerReference\<close>, which depends on
  the owner and the kind and namespace of the object; an apply takes the owner set before.
  \<open>ad_pass\<close> is what happens in an interval, \<open>ad_polls\<close> how often a condition is
  called again within a time-out, by interval and time-out in seconds; \<open>ad_deadline\<close> is the
  error of a time-out and \<open>ad_interrupted\<close> tells such errors.
\<close>

record ('s, 'obj) addon_api =
  ad_config_map :: "api_client \<Rightarrow> string \<Rightarrow> string \<Rightarrow> 's \<Rightarrow> (api_error + config_map) \<times> 's"
  ad_config_maps :: "string \<Rightarrow> string \<Rightarrow> string \<Rightarrow> 's \<Rightarrow> (api_error + config_map list) \<times> 's"
  ad_secret :: "string \<Rightarrow> string \<Rightarrow> 's \<Rightarrow> (api_error + secret_object) \<times> 's"
  ad_daemon_set :: "api_client \<Rightarrow> string \<Rightarrow> string \<Rightarrow> 's \<Rightarrow> (api_error + daemon_set) \<times> 's"
  ad_deployment :: "api_client \<Rightarrow> string \<Rightarrow> string \<Rightarrow> 's \<Rightarrow> (api_error + deployment) \<times> 's"
  ad_stateful_set :: "api_client \<Rightarrow> string \<Rightarrow> string \<Rightarrow> 's \<Rightarrow> (api_error + string list) \<times> 's"
  ad_claims :: "api_client \<Rightarrow> string \<Rightarrow> string \<Rightarrow> 's \<Rightarrow> (api_error + volume_claim list) \<times> 's"
  ad_proxy :: "string \<Rightarrow> string \<Rightarrow> 's \<Rightarrow> (api_error + proxy_status) \<times> 's"
  ad_clusters :: "'s \<Rightarrow> cluster_reader"
  ad_remote :: "string \<Rightarrow> string \<Rightarrow> 's \<Rightarrow> string option \<times> 's"
  ad_own_error :: "cluster \<Rightarrow> string \<Rightarrow> string \<Rightarrow> string option"
  ad_apply :: "api_client \<Rightarrow> bool \<Rightarrow> (string \<times> string) option \<Rightarrow> addon_object \<Rightarrow> 's \<Rightarrow>
     apply_error option \<times> 's"
  ad_update_daemon_set :: "api_client \<Rightarrow> string \<Rightarrow> string \<Rightarrow> daemon_set \<Rightarrow> 's \<Rightarrow>
     string option \<times> 's"
  ad_update_claim :: "api_client \<Rightarrow> volume_claim \<Rightarrow> 's \<Rightarrow> string option \<times> 's"
  ad_delete :: "api_client \<Rightarrow> string \<times> string \<times> string \<Rightarrow> bool \<Rightarrow> 's \<Rightarrow> api_error option \<times> 's"
  ad_owners :: "('s, 'obj) registry_api"
  ad_pass :: "'s \<Rightarrow> 's"
  ad_polls :: "int \<Rightarrow> int \<Rightarrow> nat"
  ad_deadline :: string
  ad_interrupted :: "string \<Rightarrow> bool"
  ad_now :: "'s \<Rightarrow> string"

text \<open>
  \<open>ad_stateful_set\<close> gives the storage request of each volume claim template, as it is
  printed; the flag of \<open>ad_delete\<close> is the propagation policy \<open>Orphan\<close>.
\<close>

definition object_text :: "string \<Rightarrow> string \<Rightarrow> string" where
  "object_text ns name = ns @ ''/'' @ name"

definition owner_of :: "cluster \<Rightarrow> string \<times> string" where
  "owner_of c = (cl_namespace c, cl_name c)"

definition apply_op ::
    "('s, 'obj) addon_api \<Rightarrow> api_client \<Rightarrow> bool \<Rightarrow> (string \<times> string) option \<Rightarrow> addon_object \<Rightarrow>
     ('s, unit) operation" where
  "apply_op api client force owner obj s =
     (case ad_apply api client force owner obj s of
        (Some err, s') \<Rightarrow> (Err (apply_error_text err), s')
      | (None, s') \<Rightarrow> (Ok (), s'))"

definition set_owner_op ::
    "('s, 'obj) addon_api \<Rightarrow> cluster \<Rightarrow> addon_object \<Rightarrow> ('s, unit) operation" where
  "set_owner_op api owner obj =
     (case addon_key obj of (kind, ns, name) \<Rightarrow>
        (case ad_own_error api owner kind ns of
           Some err \<Rightarrow> error_op err
         | None \<Rightarrow> return_op ()))"

text \<open>\<open>ctrlclient.IgnoreNotFound\<close> of a deletion.\<close>

definition delete_ignoring_op ::
    "('s, 'obj) addon_api \<Rightarrow> api_client \<Rightarrow> string \<times> string \<times> string \<Rightarrow> ('s, unit) operation" where
  "delete_ignoring_op api client key s =
     (case ad_delete api client key False s of
        (Some (OtherError err), s') \<Rightarrow> (Err err, s')
      | (_, s') \<Rightarrow> (Ok (), s'))"

definition remote_client_op ::
    "('s, 'obj) addon_api \<Rightarrow> cluster \<Rightarrow> ('s, api_client) operation" where
  "remote_client_op api c =
     bind_op (unit_op (ad_remote api (cl_namespace c) (cl_name c)))
       (\<lambda>_. return_op (Workload (cl_namespace c) (cl_name c)))"

definition own_op ::
    "('s, 'obj) addon_api \<Rightarrow> string \<Rightarrow> string \<Rightarrow> cluster \<Rightarrow> ('s, unit) operation" where
  "own_op api kind name cluster =
     unit_op (EnsureClusterOwnerReferenceForObject (ad_owners api) kind name cluster)"

section \<open>\<open>pkg/handlers/utils/utils.go\<close>\<close>

definition PrivilegedPodSecurityEnforceLabels :: "string \<rightharpoonup> string" where
  "PrivilegedPodSecurityEnforceLabels = [''pod-security.kubernetes.io/enforce'' \<mapsto> ''privileged'']"

text \<open>The kind and name of an object that a ClusterResourceSet can hold.\<close>

fun resource_ref :: "addon_object \<Rightarrow> (string \<times> string) option" where
  "resource_ref (ConfigMapObject cm) = Some (''ConfigMap'', cm_name cm)"
| "resource_ref (SecretObject sec) = Some (''Secret'', sec_name sec)"
| "resource_ref _ = None"

fun resource_refs :: "(addon_object \<Rightarrow> string) \<Rightarrow> addon_object list \<Rightarrow> string + (string \<times> string) list" where
  "resource_refs show [] = Inr []"
| "resource_refs show (obj # objs) =
     (case resource_ref obj of
        None \<Rightarrow>
          Inl (''cannot create ClusterResourceSet with obj '' @ show obj @
            '' only secrets and configmaps are supported'')
      | Some ref \<Rightarrow> bind_sum [] (resource_refs show objs) (\<lambda>refs. Inr (ref # refs)))"

text \<open>\<open>show\<close> prints an object with \<open>%v\<close>; \<open>ownerCluster\<close> is an option.\<close>

definition EnsureCRSForClusterFromObjects ::
    "('s, 'obj) addon_api \<Rightarrow> (addon_object \<Rightarrow> string) \<Rightarrow> string \<Rightarrow> cluster \<Rightarrow> cluster option \<Rightarrow>
     addon_object list \<Rightarrow> ('s, unit) operation" where
  "EnsureCRSForClusterFromObjects api show crsName cluster optsOwner objects =
     bind_op (sum_op (resource_refs show objects)) (\<lambda>resources.
       let crs = ResourceSetObject \<lparr>rs_namespace = cl_namespace cluster, rs_name = crsName,
             rs_resources = map (\<lambda>(kind, name). (name, kind)) resources, rs_strategy = ''Reconcile'',
             rs_cluster_name = cl_name cluster\<rparr>;
           ownerCluster = (case optsOwner of None \<Rightarrow> cluster | Some c \<Rightarrow> c)
       in bind_op (wrap_op ''failed to set owner reference: '' (set_owner_op api ownerCluster crs)) (\<lambda>_.
          wrap_op ''failed to server side apply: ''
            (apply_op api Management True (Some (owner_of ownerCluster)) crs)))"

text \<open>Namespaces are applied without forcing ownership of fields.\<close>

definition EnsureNamespace ::
    "('s, 'obj) addon_api \<Rightarrow> api_client \<Rightarrow> addon_object \<Rightarrow> ('s, unit) operation" where
  "EnsureNamespace api client ns =
     wrap_op ''failed to server side apply: '' (apply_op api client False None ns)"

definition EnsureNamespaceWithName ::
    "('s, 'obj) addon_api \<Rightarrow> api_client \<Rightarrow> string \<Rightarrow> ('s, unit) operation" where
  "EnsureNamespaceWithName api client name =
     EnsureNamespace api client (NamespaceObject name None None)"

definition EnsureNamespaceWithMetadata ::
    "('s, 'obj) addon_api \<Rightarrow> api_client \<Rightarrow> string \<Rightarrow> (string \<rightharpoonup> string) option \<Rightarrow>
     (string \<rightharpoonup> string) option \<Rightarrow> ('s, unit) operation" where
  "EnsureNamespaceWithMetadata api client name labels annotations =
     EnsureNamespace api client (NamespaceObject name labels annotations)"

definition RetrieveValuesTemplateConfigMap ::
    "('s, 'obj) addon_api \<Rightarrow> string \<Rightarrow> string \<Rightarrow> ('s, config_map) operation" where
  "RetrieveValuesTemplateConfigMap api configMapName namespace =
     wrap_op (''failed to retrieve installation values template ConfigMap '' @
         quoted (object_text namespace configMapName) @ '': '')
       (call_op (ad_config_map api Management namespace configMapName))"

text \<open>A missing key gives the empty string.\<close>

definition RetrieveValuesTemplate ::
    "('s, 'obj) addon_api \<Rightarrow> string \<Rightarrow> string \<Rightarrow> string \<Rightarrow> ('s, string) operation" where
  "RetrieveValuesTemplate api configMapName configMapKey namespace =
     bind_op (RetrieveValuesTemplateConfigMap api configMapName namespace) (\<lambda>configMap.
       return_op (case map_of (cm_data configMap) configMapKey of None \<Rightarrow> [] | Some v \<Rightarrow> v))"

text \<open>\<open>podNamespace\<close> is the environment variable \<open>POD_NAMESPACE\<close>.\<close>

definition GetDeploymentNamespace :: "string \<Rightarrow> string" where
  "GetDeploymentNamespace podNamespace = (if podNamespace = [] then ''default'' else podNamespace)"

definition SetTLSConfigForHelmChartProxyIfNeeded :: "string \<Rightarrow> helm_proxy \<Rightarrow> helm_proxy" where
  "SetTLSConfigForHelmChartProxyIfNeeded podNamespace hcp =
     (if contains_str (hp_repo hcp) ''helm-repository''
      then hcp\<lparr>hp_tls := Some (GetDeploymentNamespace podNamespace, ''helm-repository-tls'')\<rparr>
      else hcp)"

section \<open>\<open>pkg/handlers/utils/secrets.go\<close>\<close>

definition getSecretForCluster ::
    "('s, 'obj) addon_api \<Rightarrow> string \<Rightarrow> cluster \<Rightarrow> ('s, secret_object) operation" where
  "getSecretForCluster api secretName cluster =
     call_op (ad_secret api (cl_namespace cluster) secretName)"

text \<open>The Namespace of the Secret and then the Secret itself, on the workload cluster.\<close>

definition EnsureSecretOnRemoteCluster ::
    "('s, 'obj) addon_api \<Rightarrow> secret_object \<Rightarrow> cluster \<Rightarrow> ('s, unit) operation" where
  "EnsureSecretOnRemoteCluster api secret cluster =
     bind_op (wrap_op ''error creating client for remote cluster: '' (remote_client_op api cluster))
       (\<lambda>remoteClient.
     bind_op (wrap_op ''error creating namespace on the remote cluster: ''
         (EnsureNamespaceWithName api remoteClient (sec_namespace secret))) (\<lambda>_.
     wrap_op ''error creating Secret on the remote cluster: ''
       (apply_op api remoteClient True None (SecretObject secret))))"

definition CopySecretToRemoteCluster ::
    "('s, 'obj) addon_api \<Rightarrow> string \<Rightarrow> string \<times> string \<Rightarrow> cluster \<Rightarrow> ('s, unit) operation" where
  "CopySecretToRemoteCluster api srcSecretName dstSecretKey cluster =
     bind_op (getSecretForCluster api srcSecretName cluster) (\<lambda>sourceSecret.
       let secretOnRemote = \<lparr>sec_namespace = fst dstSecretKey, sec_name = snd dstSecretKey,
             sec_data = sec_data sourceSecret, sec_string_data = sec_string_data sourceSecret,
             sec_type = sec_type sourceSecret\<rparr>
       in bind_op (wrap_op ''error creating client for remote cluster: ''
              (remote_client_op api cluster)) (\<lambda>remoteClient.
          bind_op (wrap_op ''error creating namespace on the remote cluster: ''
              (EnsureNamespaceWithName api remoteClient (fst dstSecretKey))) (\<lambda>_.
          wrap_op ''error creating Secret on the remote cluster: ''
            (apply_op api remoteClient True None (SecretObject secretOnRemote)))))"

definition EnsureSecretForLocalCluster ::
    "('s, 'obj) addon_api \<Rightarrow> secret_object \<Rightarrow> cluster \<Rightarrow> ('s, unit) operation" where
  "EnsureSecretForLocalCluster api secret cluster =
     (if sec_namespace secret \<noteq> [] \<and> sec_namespace secret \<noteq> cl_namespace cluster then
        error_op (''secret namespace '' @ quoted (sec_namespace secret) @
          '' does not match cluster namespace '' @ quoted (cl_namespace cluster))
      else
        bind_op (wrap_op ''failed to set cluster's owner reference on Secret: ''
            (set_owner_op api cluster (SecretObject secret))) (\<lambda>_.
        wrap_op ''error creating Secret for cluster: ''
          (apply_op api Management True (Some (owner_of cluster)) (SecretObject secret))))"

text \<open>
  The Secret, if there is one.  The flag of an error says whether the Secret, or the Cluster that
  the annotations name, does not exist; the error of a list is not of this kind.
\<close>

definition future_cluster_missing :: "cluster_reader \<Rightarrow> bool" where
  "future_cluster_missing r =
     (case clusterAnnotationsFromNodes r of
        Inl err \<Rightarrow> False
      | Inr (clusterName, clusterNamespace) \<Rightarrow>
          clusterName \<noteq> [] \<and> clusterNamespace \<noteq> [] \<and>
          (case cr_cluster r clusterNamespace clusterName of
             Inl (MissingObject e) \<Rightarrow> True
           | _ \<Rightarrow> False))"

definition RegistryAddonRootCASecretName :: string where
  "RegistryAddonRootCASecretName = ''registry-addon-root-ca''"

definition SecretForRegistryAddonRootCA ::
    "('s, 'obj) addon_api \<Rightarrow> ('s, (bool \<times> string) + secret_object) operation" where
  "SecretForRegistryAddonRootCA api s =
     (case ManagementOrFutureManagementCluster (ad_clusters api s) of
        Inl err \<Rightarrow>
          (Ok (Inl (future_cluster_missing (ad_clusters api s),
             ''error getting management cluster: '' @ err)), s)
      | Inr managementCluster \<Rightarrow>
          (case ad_secret api (cl_namespace managementCluster) RegistryAddonRootCASecretName s of
             (Inl err, s') \<Rightarrow>
               (Ok (Inl (IsNotFound err,
                  ''error getting registry addon root CA secret: '' @ api_error_text err)), s')
           | (Inr secret, s') \<Rightarrow> (Ok (Inr secret), s')))"

section \<open>\<open>pkg/wait/wait.go\<close>\<close>

text \<open>
  \<open>PollUntilContextTimeout\<close> with an immediate first call: the condition is called, and
  after every interval again, until it holds, fails or the time is up.  A condition works on a
  variable of its closure, which is read when the poll has ended.
\<close>

fun poll_until ::
    "string \<Rightarrow> ('s \<Rightarrow> 's) \<Rightarrow> nat \<Rightarrow> ('v \<Rightarrow> 's \<Rightarrow> (bool reply \<times> 'v) \<times> 's) \<Rightarrow> 'v \<Rightarrow> 's \<Rightarrow>
     (unit reply \<times> 'v) \<times> 's" where
  "poll_until deadline pass 0 cond v s =
     (case cond v s of
        ((Ok True, v'), s') \<Rightarrow> ((Ok (), v'), s')
      | ((Ok False, v'), s') \<Rightarrow> ((Err deadline, v'), pass s')
      | ((Err err, v'), s') \<Rightarrow> ((Err err, v'), s')
      | ((Panic msg, v'), s') \<Rightarrow> ((Panic msg, v'), s'))"
| "poll_until deadline pass (Suc n) cond v s =
     (case cond v s of
        ((Ok True, v'), s') \<Rightarrow> ((Ok (), v'), s')
      | ((Ok False, v'), s') \<Rightarrow> poll_until deadline pass n cond v' (pass s')
      | ((Err err, v'), s') \<Rightarrow> ((Err err, v'), s')
      | ((Panic msg, v'), s') \<Rightarrow> ((Panic msg, v'), s'))"

definition CheckFailedError :: "string \<Rightarrow> string" where
  "CheckFailedError cause = ''check failed: '' @ cause"

text \<open>The variable of the closure is the last error of the read, if it failed.\<close>

definition object_condition ::
    "('s \<Rightarrow> (api_error + 'x) \<times> 's) \<Rightarrow> ('x \<Rightarrow> bool reply) \<Rightarrow> string option \<Rightarrow> 's \<Rightarrow>
     (bool reply \<times> string option) \<times> 's" where
  "object_condition get check getErr s =
     (case get s of
        (Inl (NotFound err), s') \<Rightarrow> ((Ok False, Some err), s')
      | (Inl (OtherError err), s') \<Rightarrow> ((Err err, Some err), s')
      | (Inr x, s') \<Rightarrow>
          (case check x of
             Ok ok \<Rightarrow> ((Ok ok, None), s')
           | Err err \<Rightarrow> ((Err (CheckFailedError err), None), s')
           | Panic msg \<Rightarrow> ((Panic msg, None), s')))"

text \<open>\<open>interrupted\<close> looks through the error of a check to its cause.\<close>

definition ForObject ::
    "('s, 'obj) addon_api \<Rightarrow> ('s \<Rightarrow> (api_error + 'x) \<times> 's) \<Rightarrow> ('x \<Rightarrow> bool reply) \<Rightarrow> int \<Rightarrow> int \<Rightarrow>
     ('s, unit) operation" where
  "ForObject api get check interval timeout s =
     (case poll_until (ad_deadline api) (ad_pass api) (ad_polls api interval timeout)
        (object_condition get check) None s of
        ((Err waitErr, getErr), s') \<Rightarrow>
          (if ad_interrupted api waitErr then
             (case getErr of
                Some e \<Rightarrow> (Err (waitErr @ ''; last get error: '' @ e), s')
              | None \<Rightarrow> (Err (waitErr @ '': check never passed''), s'))
           else (Err waitErr, s'))
      | ((r, getErr), s') \<Rightarrow> (r, s'))"

section \<open>Recording the calls\<close>

text \<open>
  The state is paired with the calls made so far, oldest first.  A read is recorded with what it
  gave, a change with its error.
\<close>

datatype api_call =
    ReadConfigMap api_client string string "api_error + config_map"
  | ReadDaemonSet api_client string string "api_error + daemon_set"
  | Applied api_client bool "(string \<times> string) option" addon_object "apply_error option"
  | UpdatedDaemonSet api_client string string daemon_set "string option"
  | Deleted api_client "string \<times> string \<times> string" bool "api_error option"

definition quiet_call :: "('s \<Rightarrow> 'a \<times> 's) \<Rightarrow> 's \<times> api_call list \<Rightarrow> 'a \<times> ('s \<times> api_call list)" where
  "quiet_call f s = (case f (fst s) of (x, s') \<Rightarrow> (x, (s', snd s)))"

definition noted_call ::
    "('a \<Rightarrow> api_call) \<Rightarrow> ('s \<Rightarrow> 'a \<times> 's) \<Rightarrow> 's \<times> api_call list \<Rightarrow> 'a \<times> ('s \<times> api_call list)" where
  "noted_call note f s = (case f (fst s) of (x, s') \<Rightarrow> (x, (s', snd s @ [note x])))"

definition recording_registry ::
    "('s, 'obj) registry_api \<Rightarrow> ('s \<times> api_call list, 'obj) registry_api" where
  "recording_registry api =
     \<lparr>ra_secret = (\<lambda>ns name s. ra_secret api ns name (fst s)),
      ra_get = (\<lambda>kind ns name s. ra_get api kind ns name (fst s)),
      ra_set_owner = ra_set_owner api,
      ra_update = (\<lambda>obj. quiet_call (ra_update api obj)),
      ra_own_error = ra_own_error api,
      ra_apply = (\<lambda>x. quiet_call (ra_apply api x))\<rparr>"

definition recording :: "('s, 'obj) addon_api \<Rightarrow> ('s \<times> api_call list, 'obj) addon_api" where
  "recording api =
     \<lparr>ad_config_map = (\<lambda>client ns name.
        noted_call (ReadConfigMap client ns name) (ad_config_map api client ns name)),
      ad_config_maps = (\<lambda>ns label value. quiet_call (ad_config_maps api ns label value)),
      ad_secret = (\<lambda>ns name. quiet_call (ad_secret api ns name)),
      ad_daemon_set = (\<lambda>client ns name.
        noted_call (ReadDaemonSet client ns name) (ad_daemon_set api client ns name)),
      ad_deployment = (\<lambda>client ns name. quiet_call (ad_deployment api client ns name)),
      ad_stateful_set = (\<lambda>client ns name. quiet_call (ad_stateful_set api client ns name)),
      ad_claims = (\<lambda>client ns release. quiet_call (ad_claims api client ns release)),
      ad_proxy = (\<lambda>ns name. quiet_call (ad_proxy api ns name)),
      ad_clusters = (\<lambda>s. ad_clusters api (fst s)),
      ad_remote = (\<lambda>ns name. quiet_call (ad_remote api ns name)),
      ad_own_error = ad_own_error api,
      ad_apply = (\<lambda>client force owner obj.
        noted_call (Applied client force owner obj) (ad_apply api client force owner obj)),
      ad_update_daemon_set = (\<lambda>client ns name ds.
        noted_call (UpdatedDaemonSet client ns name ds) (ad_update_daemon_set api client ns name ds)),
      ad_update_claim = (\<lambda>client claim. quiet_call (ad_update_claim api client claim)),
      ad_delete = (\<lambda>client key orphan.
        noted_call (Deleted client key orphan) (ad_delete api client key orphan)),
      ad_owners = recording_registry (ad_owners api),
      ad_pass = (\<lambda>s. (ad_pass api (fst s), snd s)),
      ad_polls = ad_polls api, ad_deadline = ad_deadline api,
      ad_interrupted = ad_interrupted api, ad_now = (\<lambda>s. ad_now api (fst s))\<rparr>"

end
