(* ===== verification/HelmAddon.thy ===== *)
theory HelmAddon
  imports AddonApi
begin

text \<open>
  \<open>pkg/handlers/lifecycle/config/cm.go\<close> and
  \<open>pkg/handlers/lifecycle/addons/helmaddon.go\<close>: the settings of a Helm chart, and the
  HelmChartProxy that installs it on a cluster.  \<open>yaml.Unmarshal\<close> is a parameter; values are
  templated by a function of the addon.
\<close>

section \<open>Settings of charts\<close>

record helm_chart =
  hc_name :: string
  hc_version :: string
  hc_repository :: string

text \<open>Where the settings are: name and namespace of the ConfigMap, and how they are decoded.\<close>

record chart_getter =
  hg_name :: string
  hg_namespace :: string
  hg_decode :: "string \<Rightarrow> string + helm_chart"

definition chart_For :: "('s, 'obj) addon_api \<Rightarrow> chart_getter \<Rightarrow> string \<Rightarrow> ('s, helm_chart) operation" where
  "chart_For api h name =
     bind_op (call_op (ad_config_map api Management (hg_namespace h) (hg_name h))) (\<lambda>cm.
       case map_of (cm_data cm) name of
         None \<Rightarrow>
           error_op (''did not find key '' @ quoted name @ '' in configmap '' @
             object_text (hg_namespace h) (hg_name h))
       | Some d \<Rightarrow> sum_op (hg_decode h d))"

section \<open>The applier\<close>

record helm_addon_config =
  ha_template :: string
  ha_namespace :: string
  ha_release :: string

text \<open>The options of an application, with \<open>waiter\<close> and hooks as operations.\<close>

record 's apply_options =
  ao_templater :: "(cluster \<Rightarrow> string \<Rightarrow> string reply) option"
  ao_target :: "cluster option"
  ao_release :: string
  ao_preflight :: bool
  ao_waiter :: "(helm_proxy \<Rightarrow> ('s, unit) operation) option"
  ao_hooks :: "(api_client \<Rightarrow> cluster \<Rightarrow> helm_proxy \<Rightarrow> ('s, unit) operation) list"
  ao_take_ownership :: bool

definition no_options :: "'s apply_options" where
  "no_options = \<lparr>ao_templater = None, ao_target = None, ao_release = [], ao_preflight = False,
     ao_waiter = None, ao_hooks = [], ao_take_ownership = False\<rparr>"

text \<open>
  The name of the deployment's namespace is read from the environment when the proxy is made; the
  options are functions that are run one after the other.
\<close>

record ('s, 'obj) helm_applier =
  ap_config :: helm_addon_config
  ap_api :: "('s, 'obj) addon_api"
  ap_chart :: helm_chart
  ap_pod_namespace :: string
  ap_opts :: "('s apply_options \<Rightarrow> 's apply_options) list"

definition NewHelmAddonApplier ::
    "helm_addon_config \<Rightarrow> ('s, 'obj) addon_api \<Rightarrow> string \<Rightarrow> helm_chart \<Rightarrow> ('s, 'obj) helm_applier" where
  "NewHelmAddonApplier config api podNamespace chart =
     \<lparr>ap_config = config, ap_api = api, ap_chart = chart, ap_pod_namespace = podNamespace,
      ap_opts = []\<rparr>"

definition with_option ::
    "('s apply_options \<Rightarrow> 's apply_options) \<Rightarrow> ('s, 'obj) helm_applier \<Rightarrow> ('s, 'obj) helm_applier" where
  "with_option f a = a\<lparr>ap_opts := ap_opts a @ [f]\<rparr>"

definition WithValueTemplater ::
    "(cluster \<Rightarrow> string \<Rightarrow> string reply) \<Rightarrow> ('s, 'obj) helm_applier \<Rightarrow> ('s, 'obj) helm_applier" where
  "WithValueTemplater t = with_option (\<lambda>opts. opts\<lparr>ao_templater := Some t\<rparr>)"

definition WithTargetCluster ::
    "cluster option \<Rightarrow> ('s, 'obj) helm_applier \<Rightarrow> ('s, 'obj) helm_applier" where
  "WithTargetCluster c = with_option (\<lambda>opts. opts\<lparr>ao_target := c\<rparr>)"

definition WithHelmReleaseName ::
    "string \<Rightarrow> ('s, 'obj) helm_applier \<Rightarrow> ('s, 'obj) helm_applier" where
  "WithHelmReleaseName name = with_option (\<lambda>opts. opts\<lparr>ao_release := name\<rparr>)"

definition WithPreflightEnabled :: "('s, 'obj) helm_applier \<Rightarrow> ('s, 'obj) helm_applier" where
  "WithPreflightEnabled = with_option (\<lambda>opts. opts\<lparr>ao_preflight := True\<rparr>)"

definition WithTakeOwnership :: "('s, 'obj) helm_applier \<Rightarrow> ('s, 'obj) helm_applier" where
  "WithTakeOwnership = with_option (\<lambda>opts. opts\<lparr>ao_take_ownership := True\<rparr>)"

definition WithPostApplyHook ::
    "(api_client \<Rightarrow> cluster \<Rightarrow> helm_proxy \<Rightarrow> ('s, unit) operation) list \<Rightarrow>
     ('s, 'obj) helm_applier \<Rightarrow> ('s, 'obj) helm_applier" where
  "WithPostApplyHook hooks = with_option (\<lambda>opts. opts\<lparr>ao_hooks := hooks\<rparr>)"

text \<open>The waiter: the proxy is ready when the condition is true at the current generation.\<close>

definition proxy_is_ready :: "proxy_status \<Rightarrow> bool reply" where
  "proxy_is_ready p =
     (if ps_generation p \<noteq> ps_observed p then Ok False
      else Ok (map_of (ps_conditions p) ''Ready'' = Some ''True''))"

definition waitToBeReady :: "('s, 'obj) addon_api \<Rightarrow> helm_proxy \<Rightarrow> ('s, unit) operation" where
  "waitToBeReady api hcp =
     wrap_op (''failed to wait for addon '' @ object_text (hp_namespace hcp) (hp_name hcp) @
         '' to deploy: '')
       (ForObject api (ad_proxy api (hp_namespace hcp) (hp_name hcp)) proxy_is_ready 5 30)"

definition WithDefaultWaiter :: "('s, 'obj) helm_applier \<Rightarrow> ('s, 'obj) helm_applier" where
  "WithDefaultWaiter a = with_option (\<lambda>opts. opts\<lparr>ao_waiter := Some (waitToBeReady (ap_api a))\<rparr>) a"

section \<open>Applying and deleting\<close>

definition applied_options :: "('s, 'obj) helm_applier \<Rightarrow> 's apply_options" where
  "applied_options a = fold (\<lambda>opt opts. opt opts) (ap_opts a) no_options"

definition uuid_of :: "cluster \<Rightarrow> string option" where
  "uuid_of c = cl_annotations c ''caren.nutanix.com/cluster-uuid''"

definition no_uuid_error :: string where
  "no_uuid_error = ''cluster UUID not found in cluster annotations - missing key '' @
     ''caren.nutanix.com/cluster-uuid''"

definition target_of :: "'s apply_options \<Rightarrow> cluster \<Rightarrow> cluster" where
  "target_of opts c = (case ao_target opts of None \<Rightarrow> c | Some t \<Rightarrow> t)"

definition proxy_name :: "helm_addon_config \<Rightarrow> string \<Rightarrow> string" where
  "proxy_name config clusterUUID = ha_release config @ ''-'' @ clusterUUID"

definition chart_proxy_for ::
    "('s, 'obj) helm_applier \<Rightarrow> 's apply_options \<Rightarrow> cluster \<Rightarrow> string \<Rightarrow> string \<Rightarrow> helm_proxy" where
  "chart_proxy_for a opts targetCluster clusterUUID values =
     SetTLSConfigForHelmChartProxyIfNeeded (ap_pod_namespace a)
       \<lparr>hp_namespace = cl_namespace targetCluster,
        hp_name = proxy_name (ap_config a) clusterUUID,
        hp_repo = hc_repository (ap_chart a), hp_chart = hc_name (ap_chart a),
        hp_cluster_name = cl_name targetCluster,
        hp_release_namespace = ha_namespace (ap_config a),
        hp_release = (if ao_release opts \<noteq> [] then ao_release opts else ha_release (ap_config a)),
        hp_version = hc_version (ap_chart a), hp_values = values,
        hp_take_ownership = ao_take_ownership opts, hp_tls = None\<rparr>"

definition run_hooks ::
    "('s, 'obj) helm_applier \<Rightarrow> 's apply_options \<Rightarrow> cluster \<Rightarrow> helm_proxy \<Rightarrow> ('s, unit) operation" where
  "run_hooks a opts cluster hcp =
     (if ao_hooks opts = [] then return_op ()
      else bind_op (wrap_op ''error creating remote cluster client: ''
             (remote_client_op (ap_api a) cluster)) (\<lambda>remoteClient.
           each_op (\<lambda>hook. wrap_op ''failed to run post apply hook: '' (hook remoteClient cluster hcp))
             (ao_hooks opts)))"

definition helm_Apply ::
    "('s, 'obj) helm_applier \<Rightarrow> cluster \<Rightarrow> string \<Rightarrow> ('s, unit) operation" where
  "helm_Apply a cluster defaultsNamespace =
     (case uuid_of cluster of
        None \<Rightarrow> error_op no_uuid_error
      | Some clusterUUID \<Rightarrow>
     let api = ap_api a; opts = applied_options a;
         key = (if ao_preflight opts then ''preflight-values.yaml'' else ''values.yaml'')
     in bind_op (wrap_op ''failed to retrieve installation values template for cluster: ''
            (RetrieveValuesTemplate api (ha_template (ap_config a)) key defaultsNamespace)) (\<lambda>template.
        bind_op (case ao_templater opts of
            None \<Rightarrow> return_op template
          | Some t \<Rightarrow> wrap_op ''failed to template Helm values: '' (reply_op (t cluster template)))
          (\<lambda>values.
        let targetCluster = target_of opts cluster;
            hcp = chart_proxy_for a opts targetCluster clusterUUID values
        in bind_op (wrap_op (''failed to set owner reference on HelmChartProxy '' @
                quoted (hp_name hcp) @ '': '') (set_owner_op api targetCluster (HelmProxyObject hcp)))
             (\<lambda>_.
           bind_op (wrap_op (''failed to apply HelmChartProxy '' @ quoted (hp_name hcp) @ '': '')
                (apply_op api Management True (Some (owner_of targetCluster)) (HelmProxyObject hcp)))
             (\<lambda>_.
           bind_op (run_hooks a opts cluster hcp) (\<lambda>_.
             case ao_waiter opts of None \<Rightarrow> return_op () | Some w \<Rightarrow> w hcp))))))"

definition helm_Delete :: "('s, 'obj) helm_applier \<Rightarrow> cluster \<Rightarrow> ('s, unit) operation" where
  "helm_Delete a cluster =
     (case uuid_of cluster of
        None \<Rightarrow> error_op no_uuid_error
      | Some clusterUUID \<Rightarrow>
          let targetCluster = target_of (applied_options a) cluster;
              ns = cl_namespace targetCluster; name = proxy_name (ap_config a) clusterUUID
          in wrap_op (''failed to delete HelmChartProxy '' @ quoted (object_text ns name) @ '': '')
               (delete_ignoring_op (ap_api a) Management (''HelmChartProxy'', ns, name)))"

end
