(* ===== verification/AddonStrategies.thy ===== *)
theory AddonStrategies
  imports HelmAddon
begin

text \<open>
  What the lifecycle handlers of addons have in common: how a handler answers a hook, and the
  strategies \<open>ClusterResourceSet\<close> (\<open>strategy_crs.go\<close> of the addons), which copy a
  ConfigMap with manifests into the namespace of the Cluster and refer to it in a
  ClusterResourceSet.
\<close>

section \<open>Answering a hook\<close>

text \<open>
  What handlers are made with: the API, the settings of charts, the namespace of the deployment
  and of the defaults, and how an object is printed.
\<close>

record ('s, 'obj) addon_env =
  en_api :: "('s, 'obj) addon_api"
  en_charts :: chart_getter
  en_pod_namespace :: string
  en_defaults :: string
  en_show :: "addon_object \<Rightarrow> string"

text \<open>An error of the work becomes the message of a failure; success leaves the message.\<close>

definition on_error ::
    "(string \<Rightarrow> 'a) \<Rightarrow> ('s, 'a) operation \<Rightarrow> ('s, 'a) operation" where
  "on_error f m s = (case m s of (Err err, s') \<Rightarrow> (Ok (f err), s') | r \<Rightarrow> r)"

definition answer :: "hook_response \<Rightarrow> ('s, unit) operation \<Rightarrow> ('s, hook_response) operation" where
  "answer resp m =
     on_error (\<lambda>err. fail_with err resp) (bind_op m (\<lambda>_. return_op (succeed resp)))"

text \<open>
  \<open>AfterControlPlaneInitialized\<close> and \<open>BeforeClusterUpgrade\<close> of a handler run its
  \<open>apply\<close> on a new response and copy status and message.
\<close>

definition new_response :: hook_response where
  "new_response = \<lparr>hr_status = StatusUnset, hr_message = [], hr_retry = None\<rparr>"

definition common_hook ::
    "(hook_response \<Rightarrow> ('s, hook_response) operation) \<Rightarrow> hook_response \<Rightarrow>
     ('s, hook_response) operation" where
  "common_hook apply_to resp =
     bind_op (apply_to new_response)
       (\<lambda>r. return_op (resp\<lparr>hr_status := hr_status r, hr_message := hr_message r\<rparr>))"

lemma on_error_simps [op_simps]:
  "m s = (Ok r, s') \<Longrightarrow> on_error f m s = (Ok r, s')"
  "m s = (Err err, s') \<Longrightarrow> on_error f m s = (Ok (f err), s')"
  "m s = (Panic msg, s') \<Longrightarrow> on_error f m s = (Panic msg, s')"
  by (simp_all add: on_error_def)

definition HelmAddonStrategy :: string where
  "HelmAddonStrategy = ''HelmAddon''"

definition ResourceSetStrategy :: string where
  "ResourceSetStrategy = ''ClusterResourceSet''"

text \<open>The applier that a handler makes for the settings of a chart.\<close>

definition new_applier ::
    "('s, 'obj) addon_env \<Rightarrow> helm_addon_config \<Rightarrow> helm_chart \<Rightarrow> ('s, 'obj) helm_applier" where
  "new_applier env config chart =
     NewHelmAddonApplier config (en_api env) (en_pod_namespace env) chart"

section \<open>ClusterResourceSets\<close>

text \<open>The ConfigMap for a Cluster, and applying it with a ClusterResourceSet of its name.\<close>

definition config_map_for :: "cluster \<Rightarrow> string \<Rightarrow> config_map \<Rightarrow> config_map" where
  "config_map_for cluster name defaultCM =
     \<lparr>cm_namespace = cl_namespace cluster, cm_name = name, cm_data = cm_data defaultCM,
      cm_binary = cm_binary defaultCM\<rparr>"

definition apply_config_map ::
    "('s, 'obj) addon_env \<Rightarrow> string \<Rightarrow> string \<Rightarrow> cluster \<Rightarrow> config_map \<Rightarrow> ('s, unit) operation" where
  "apply_config_map env applyContext crsContext cluster cm =
     bind_op (wrap_op applyContext (apply_op (en_api env) Management True None (ConfigMapObject cm)))
       (\<lambda>_. wrap_op crsContext
          (EnsureCRSForClusterFromObjects (en_api env) (en_show env) (cm_name cm) cluster None
             [ConfigMapObject cm]))"

text \<open>Snapshot controller; the flag is the name of the ConfigMap.\<close>

definition snapshot_crs_Apply ::
    "('s, 'obj) addon_env \<Rightarrow> string \<Rightarrow> cluster \<Rightarrow> string \<Rightarrow> ('s, unit) operation" where
  "snapshot_crs_Apply env configMapName cluster defaultsNamespace =
     bind_op (wrap_op ''failed to get default snapshot-controller ConfigMap: ''
         (call_op (ad_config_map (en_api env) Management defaultsNamespace configMapName)))
       (\<lambda>defaultCM.
          apply_config_map env ''failed to apply snapshot-controller installation ConfigMap: ''
            ''failed to apply snapshot-controller installation ClusterResourceSet: '' cluster
            (config_map_for cluster (''snapshot-controller-'' @ cl_name cluster) defaultCM))"

text \<open>The local path provisioner.\<close>

definition local_path_crs_Apply ::
    "('s, 'obj) addon_env \<Rightarrow> string \<Rightarrow> cluster \<Rightarrow> string \<Rightarrow> ('s, unit) operation" where
  "local_path_crs_Apply env configMapName cluster defaultsNamespace =
     bind_op (wrap_op ''failed to get default local-path CSI ConfigMap: ''
         (call_op (ad_config_map (en_api env) Management defaultsNamespace configMapName)))
       (\<lambda>defaultCM.
          apply_config_map env ''failed to apply local-path CSI installation ConfigMap: ''
            ''failed to apply local-path CSI installation ClusterResourceSet: '' cluster
            (config_map_for cluster (''local-path-provisioner-csi-'' @ cl_name cluster) defaultCM))"

text \<open>AWS EBS: the name of the default ConfigMap is kept, and errors of the set have no context.\<close>

definition generateAWSEBSCSIConfigMap :: "config_map \<Rightarrow> cluster \<Rightarrow> config_map" where
  "generateAWSEBSCSIConfigMap defaultCM cluster =
     config_map_for cluster (cm_name defaultCM @ ''-'' @ cl_name cluster) defaultCM"

definition ebs_crs_Apply ::
    "('s, 'obj) addon_env \<Rightarrow> string \<Rightarrow> cluster \<Rightarrow> string \<Rightarrow> ('s, unit) operation" where
  "ebs_crs_Apply env configMapName cluster defaultsNamespace =
     bind_op (wrap_op (''failed to retrieve default AWS EBS CSI manifests ConfigMap '' @
           quoted (object_text defaultsNamespace configMapName) @ '': '')
         (call_op (ad_config_map (en_api env) Management defaultsNamespace configMapName)))
       (\<lambda>defaultCM.
          apply_config_map env ''failed to apply AWS EBS CSI manifests ConfigMap: '' [] cluster
            (generateAWSEBSCSIConfigMap defaultCM cluster))"

text \<open>Node Feature Discovery.\<close>

definition nfd_crs_Apply ::
    "('s, 'obj) addon_env \<Rightarrow> string \<Rightarrow> cluster \<Rightarrow> string \<Rightarrow> ('s, unit) operation" where
  "nfd_crs_Apply env configMapName cluster defaultsNamespace =
     bind_op (wrap_op ''failed to get default NFD ConfigMap: ''
         (call_op (ad_config_map (en_api env) Management defaultsNamespace configMapName)))
       (\<lambda>defaultCM.
          apply_config_map env ''failed to apply NFD installation ConfigMap: ''
            ''failed to apply NFD installation ClusterResourceSet: '' cluster
            (config_map_for cluster (cm_name defaultCM @ ''-'' @ cl_name cluster) defaultCM))"

text \<open>Cilium.\<close>

definition cilium_crs_Apply ::
    "('s, 'obj) addon_env \<Rightarrow> string \<Rightarrow> cluster \<Rightarrow> string \<Rightarrow> ('s, unit) operation" where
  "cilium_crs_Apply env configMapName cluster defaultsNamespace =
     bind_op (wrap_op ''failed to get default Cilium ConfigMap: ''
         (call_op (ad_config_map (en_api env) Management defaultsNamespace configMapName)))
       (\<lambda>defaultCM.
          apply_config_map env ''failed to apply Cilium CNI installation ConfigMap: ''
            ''failed to apply Cilium CNI installation ClusterResourceSet: '' cluster
            (config_map_for cluster (''cilium-cni-installation-'' @ cl_name cluster) defaultCM))"

text \<open>
  The cloud controller manager of AWS has a ConfigMap for each minor version of Kubernetes;
  \<open>semver.ParseTolerant\<close> gives major and minor.  The binary data are not copied, and a minor
  version without an entry gives an empty version.
\<close>

definition awsCCMPrefix :: string where
  "awsCCMPrefix = ''aws-ccm-''"

definition generateCCMConfigMapForCluster :: "config_map \<Rightarrow> cluster \<Rightarrow> config_map" where
  "generateCCMConfigMapForCluster ccmConfigMapForVersion cluster =
     \<lparr>cm_namespace = cl_namespace cluster, cm_name = awsCCMPrefix @ cl_name cluster,
      cm_data = cm_data ccmConfigMapForVersion, cm_binary = []\<rparr>"

definition aws_ccm_crs_Apply ::
    "('s, 'obj) addon_env \<Rightarrow> (string \<Rightarrow> string + (nat \<times> nat)) \<Rightarrow> (string \<rightharpoonup> string) \<Rightarrow> cluster \<Rightarrow> string \<Rightarrow>
     ('s, unit) operation" where
  "aws_ccm_crs_Apply env parse_version ccmVersions cluster defaultsNamespace =
     bind_op (wrap_op ''failed to parse version from cluster: ''
         (sum_op (parse_version (top_version (cl_topology cluster))))) (\<lambda>(major, minor).
       let minorVersion = itoa (int major) @ ''.'' @ itoa (int minor);
           name = awsCCMPrefix @ (case ccmVersions minorVersion of None \<Rightarrow> [] | Some v \<Rightarrow> v)
       in bind_op (wrap_op (''failed to retrieve default AWS CCM manifests ConfigMap '' @
              quoted (object_text defaultsNamespace name) @ '': '')
            (call_op (ad_config_map (en_api env) Management defaultsNamespace name)))
          (\<lambda>ccmConfigMapForMinorVersion.
             apply_config_map env ''failed to apply AWS CCM manifests ConfigMap: ''
               ''failed to generate CCM CRS for cluster: '' cluster
               (generateCCMConfigMapForCluster ccmConfigMapForMinorVersion cluster)))"

end
