(* ===== verification/CsiAddons.thy ===== *)
theory CsiAddons
  imports AddonStrategies
begin

text \<open>
  \<open>pkg/handlers/lifecycle/csi\<close>: the handlers that install storage drivers (Nutanix, AWS EBS,
  local path), create their StorageClasses on the workload cluster and install the snapshot
  controller.  The maps of providers and of storage classes are lists of distinct keys in the
  order in which a run goes through them.
\<close>

section \<open>Variables\<close>

record csi_class_config =
  scc_parameters :: "string \<rightharpoonup> string"
  scc_reclaim_policy :: "string option"
  scc_binding_mode :: "string option"
  scc_expansion :: bool

text \<open>\<open>csp_credentials\<close> is the name of the Secret, if \<open>Credentials\<close> is set.\<close>

record csi_provider_spec =
  csp_classes :: "(string \<times> csi_class_config) list"
  csp_strategy :: string
  csp_credentials :: "string option"

record default_storage =
  dst_provider :: string
  dst_class :: string

record csi_variable =
  csv_default :: default_storage
  csv_providers :: "(string \<times> csi_provider_spec) list"

section \<open>\<open>utils/scs.go\<close>\<close>

definition isDefaultStorageClassAnnotation :: string where
  "isDefaultStorageClassAnnotation = ''storageclass.kubernetes.io/is-default-class''"

definition CreateStorageClass ::
    "string \<Rightarrow> string \<Rightarrow> csi_class_config \<Rightarrow> string \<Rightarrow> bool \<Rightarrow> (string \<rightharpoonup> string) \<Rightarrow> storage_class" where
  "CreateStorageClass providerName storageClassName config provisioner isDefault defaultParameters =
     \<lparr>sto_name = providerName @ ''-'' @ storageClassName,
      sto_annotations =
        (if isDefault then Some [isDefaultStorageClassAnnotation \<mapsto> ''true''] else None),
      sto_provisioner = provisioner, sto_parameters = defaultParameters ++ scc_parameters config,
      sto_binding_mode = scc_binding_mode config, sto_reclaim_policy = scc_reclaim_policy config,
      sto_expansion = scc_expansion config\<rparr>"

definition class_for ::
    "default_storage \<Rightarrow> string \<Rightarrow> string \<Rightarrow> (string \<rightharpoonup> string) \<Rightarrow> string \<times> csi_class_config \<Rightarrow>
     storage_class" where
  "class_for defaultStorage csiProvider provisioner defaultParameters nc =
     CreateStorageClass csiProvider (fst nc) (snd nc) provisioner
       (csiProvider = dst_provider defaultStorage \<and> fst nc = dst_class defaultStorage)
       defaultParameters"

definition CreateStorageClassesOnRemote ::
    "('s, 'obj) addon_env \<Rightarrow> (string \<times> csi_class_config) list \<Rightarrow> cluster \<Rightarrow> default_storage \<Rightarrow>
     string \<Rightarrow> string \<Rightarrow> (string \<rightharpoonup> string) \<Rightarrow> ('s, unit) operation" where
  "CreateStorageClassesOnRemote env configs cluster defaultStorage csiProvider provisioner
     defaultParameters =
     bind_op (wrap_op ''error creating client for remote cluster: ''
         (remote_client_op (en_api env) cluster)) (\<lambda>remoteClient.
       each_op (\<lambda>nc.
          let obj = StorageClassObject
                (class_for defaultStorage csiProvider provisioner defaultParameters nc)
          in wrap_op (''error creating storage class '' @ en_show env obj @ '' on remote cluster: '')
               (apply_op (en_api env) remoteClient True None obj))
         configs)"

section \<open>AWS EBS\<close>

definition ebs_helm_config :: helm_addon_config where
  "ebs_helm_config = \<lparr>ha_template = ''default-aws-ebs-csi-helm-values-template'',
     ha_namespace = ''kube-system'', ha_release = ''aws-ebs-csi-driver''\<rparr>"

definition ebs_default_parameters :: "string \<rightharpoonup> string" where
  "ebs_default_parameters = [''csi.storage.k8s.io/fstype'' \<mapsto> ''ext4'', ''type'' \<mapsto> ''gp3'']"

text \<open>
  What a handler is set up with by its flags: the configuration of the chart and the name of the
  ConfigMap for ClusterResourceSets.
\<close>

definition ebs_Apply ::
    "('s, 'obj) addon_env \<Rightarrow> helm_addon_config \<Rightarrow> string \<Rightarrow> csi_provider_spec \<Rightarrow> default_storage \<Rightarrow>
     cluster \<Rightarrow> ('s, unit) operation" where
  "ebs_Apply env helmConfig configMapName provider defaultStorage cluster =
     bind_op
       (if csp_strategy provider = HelmAddonStrategy then
          bind_op (wrap_op ''failed to get configuration to create helm addon: ''
              (chart_For (en_api env) (en_charts env) ''aws-ebs-csi''))
            (\<lambda>chart. return_op (helm_Apply (new_applier env helmConfig chart)))
        else if csp_strategy provider = ResourceSetStrategy then
          return_op (ebs_crs_Apply env configMapName)
        else if csp_strategy provider = [] then
          error_op ''strategy not specified for AWS EBS CSI driver''
        else error_op (''strategy '' @ csp_strategy provider @ '' not implemented''))
       (\<lambda>strategy.
     bind_op (wrap_op ''failed to apply aws-ebs CSI addon: '' (strategy cluster (en_defaults env))) (\<lambda>_.
     wrap_op ''error creating StorageClasses for the AWS EBS CSI driver: ''
       (CreateStorageClassesOnRemote env (csp_classes provider) cluster defaultStorage ''aws-ebs''
          ''ebs.csi.aws.com'' ebs_default_parameters)))"

section \<open>Local path\<close>

definition local_path_helm_config :: helm_addon_config where
  "local_path_helm_config =
     \<lparr>ha_template = ''default-local-path-provisioner-csi-helm-values-template'',
      ha_namespace = ''kube-system'', ha_release = ''local-path-provisioner-csi''\<rparr>"

definition local_path_Apply ::
    "('s, 'obj) addon_env \<Rightarrow> helm_addon_config \<Rightarrow> string \<Rightarrow> csi_provider_spec \<Rightarrow> default_storage \<Rightarrow>
     cluster \<Rightarrow> ('s, unit) operation" where
  "local_path_Apply env helmConfig configMapName provider defaultStorage cluster =
     bind_op
       (if csp_strategy provider = HelmAddonStrategy then
          bind_op (wrap_op ''failed to get configuration to create helm addon: ''
              (chart_For (en_api env) (en_charts env) ''local-path-provisioner-csi''))
            (\<lambda>chart. return_op (helm_Apply (new_applier env helmConfig chart)))
        else if csp_strategy provider = ResourceSetStrategy then
          return_op (local_path_crs_Apply env configMapName)
        else if csp_strategy provider = [] then
          error_op ''strategy not provided for local-path CSI addon''
        else error_op (''strategy '' @ csp_strategy provider @ '' not implemented''))
       (\<lambda>strategy.
     bind_op (wrap_op ''failed to apply local-path CSI addon: '' (strategy cluster (en_defaults env))) (\<lambda>_.
     wrap_op ''error creating StorageClasses for the local-path CSI driver: ''
       (CreateStorageClassesOnRemote env (csp_classes provider) cluster defaultStorage ''local-path''
          ''rancher.io/local-path'' Map.empty)))"

section \<open>Nutanix\<close>

definition csi_namespace :: string where
  "csi_namespace = ''ntnx-system''"

definition csi_credentials_secret :: string where
  "csi_credentials_secret = ''nutanix-csi-credentials''"

definition nutanix_csi_helm_config :: helm_addon_config where
  "nutanix_csi_helm_config = \<lparr>ha_template = ''default-nutanix-csi-helm-values-template'',
     ha_namespace = csi_namespace, ha_release = ''nutanix-csi''\<rparr>"

definition nutanix_default_parameters :: "string \<rightharpoonup> string" where
  "nutanix_default_parameters =
     [''storageType'' \<mapsto> ''NutanixVolumes'', ''csi.storage.k8s.io/fstype'' \<mapsto> ''xfs'',
      ''csi.storage.k8s.io/provisioner-secret-name'' \<mapsto> csi_credentials_secret,
      ''csi.storage.k8s.io/provisioner-secret-namespace'' \<mapsto> csi_namespace,
      ''csi.storage.k8s.io/node-publish-secret-name'' \<mapsto> csi_credentials_secret,
      ''csi.storage.k8s.io/node-publish-secret-namespace'' \<mapsto> csi_namespace,
      ''csi.storage.k8s.io/controller-expand-secret-name'' \<mapsto> csi_credentials_secret,
      ''csi.storage.k8s.io/controller-expand-secret-namespace'' \<mapsto> csi_namespace]"

definition nutanix_csi_credentials ::
    "('s, 'obj) addon_env \<Rightarrow> string option \<Rightarrow> cluster \<Rightarrow> ('s, unit) operation" where
  "nutanix_csi_credentials env credentials cluster =
     (case credentials of
        None \<Rightarrow> return_op ()
      | Some name \<Rightarrow>
          bind_op (wrap_op ''error updating owner references on Nutanix CSI driver source Secret: ''
              (own_op (en_api env) ''Secret'' name cluster)) (\<lambda>_.
          wrap_op ''error creating credentials Secret for the Nutanix CSI driver: ''
            (CopySecretToRemoteCluster (en_api env) name (csi_namespace, csi_credentials_secret)
               cluster)))"

definition nutanix_csi_Apply ::
    "('s, 'obj) addon_env \<Rightarrow> helm_addon_config \<Rightarrow> csi_provider_spec \<Rightarrow> default_storage \<Rightarrow> cluster \<Rightarrow>
     ('s, unit) operation" where
  "nutanix_csi_Apply env helmConfig provider defaultStorage cluster =
     bind_op
       (if csp_strategy provider = HelmAddonStrategy then
          bind_op (wrap_op (''failed to get configuration for Nutanix storage chart '' @
                ''to create helm addon: '')
              (chart_For (en_api env) (en_charts env) ''nutanix-storage-csi''))
            (\<lambda>chart. return_op (helm_Apply (new_applier env helmConfig chart)))
        else if csp_strategy provider = [] then
          error_op ''strategy not provided for Nutanix CSI driver''
        else error_op (''strategy '' @ csp_strategy provider @ '' not implemented''))
       (\<lambda>strategy.
     bind_op (nutanix_csi_credentials env (csp_credentials provider) cluster) (\<lambda>_.
     bind_op (wrap_op ''error creating remote cluster client: ''
         (remote_client_op (en_api env) cluster)) (\<lambda>remoteClient.
     bind_op (wrap_op (''failed to ensure '' @ quoted csi_namespace @
           '' namespace on the remote cluster: '')
         (EnsureNamespaceWithMetadata (en_api env) remoteClient csi_namespace
            (Some PrivilegedPodSecurityEnforceLabels) None)) (\<lambda>_.
     bind_op (wrap_op ''failed to apply nutanix CSI addon: '' (strategy cluster (en_defaults env))) (\<lambda>_.
     wrap_op ''error creating StorageClasses for the Nutanix CSI driver: ''
       (CreateStorageClassesOnRemote env (csp_classes provider) cluster defaultStorage ''nutanix''
          ''csi.nutanix.com'' nutanix_default_parameters))))))"

section \<open>The handler\<close>

type_synonym 's csi_handlers =
  "string \<rightharpoonup> (csi_provider_spec \<Rightarrow> default_storage \<Rightarrow> cluster \<Rightarrow> ('s, unit) operation)"

definition validateDefaultStorage :: "csi_variable \<Rightarrow> string option" where
  "validateDefaultStorage csi =
     (case map_of (csv_providers csi) (dst_provider (csv_default csi)) of
        Some provider \<Rightarrow>
          (case map_of (csp_classes provider) (dst_class (csv_default csi)) of
             Some _ \<Rightarrow> None
           | None \<Rightarrow>
               Some (''the DefaultStorage StorageClassConfig name must match a configured '' @
                 ''StorageClassConfig''))
      | None \<Rightarrow>
          Some (''the DefaultStorage StorageClassConfig name must match a configured '' @
            ''StorageClassConfig''))"

text \<open>The loop goes on after a provider that fails, and stops at an unknown one.\<close>

fun csi_providers_loop ::
    "'s csi_handlers \<Rightarrow> default_storage \<Rightarrow> cluster \<Rightarrow> (string \<times> csi_provider_spec) list \<Rightarrow> hook_response \<Rightarrow>
     ('s, hook_response) operation" where
  "csi_providers_loop handlers defaultStorage cluster [] resp = return_op resp"
| "csi_providers_loop handlers defaultStorage cluster ((providerName, provider) # rest) resp =
     (case handlers providerName of
        None \<Rightarrow>
          return_op (fail_with (''CSI provider '' @ quoted providerName @ '' is unknown'') resp)
      | Some handler \<Rightarrow>
          bind_op (on_error (\<lambda>err. fail_with (''failed to deploy CSI driver: '' @ err) resp)
              (bind_op (handler provider defaultStorage cluster) (\<lambda>_. return_op resp)))
            (csi_providers_loop handlers defaultStorage cluster rest))"

definition csi_apply ::
    "'s csi_handlers \<Rightarrow> csi_variable variable \<Rightarrow> cluster \<Rightarrow> hook_response \<Rightarrow>
     ('s, hook_response) operation" where
  "csi_apply handlers var cluster resp =
     (case var of
        Missing _ \<Rightarrow> return_op (succeed resp)
      | Failed err \<Rightarrow>
          return_op (fail_with (''failed to read the CSI variable from the cluster: '' @ err) resp)
      | Found csi \<Rightarrow>
          if csv_providers csi = [] then
            return_op (fail_with
              ''The list of CSI providers must include at least one provider'' resp)
          else case validateDefaultStorage csi of
            Some err \<Rightarrow> return_op (fail_with err resp)
          | None \<Rightarrow>
              csi_providers_loop handlers (csv_default csi) cluster (csv_providers csi)
                (succeed resp))"

definition csi_AfterControlPlaneInitialized ::
    "'s csi_handlers \<Rightarrow> csi_variable variable \<Rightarrow> cluster \<Rightarrow> hook_response \<Rightarrow>
     ('s, hook_response) operation" where
  "csi_AfterControlPlaneInitialized handlers var cluster =
     common_hook (csi_apply handlers var cluster)"

definition csi_BeforeClusterUpgrade ::
    "'s csi_handlers \<Rightarrow> csi_variable variable \<Rightarrow> cluster \<Rightarrow> hook_response \<Rightarrow>
     ('s, hook_response) operation" where
  "csi_BeforeClusterUpgrade handlers var cluster = common_hook (csi_apply handlers var cluster)"

text \<open>The providers as \<open>AllHandlers\<close> of \<open>pkg/handlers/lifecycle/handlers.go\<close> sets them up.\<close>

definition csi_handlers_of ::
    "('s, 'obj) addon_env \<Rightarrow> helm_addon_config \<Rightarrow> string \<Rightarrow> helm_addon_config \<Rightarrow> helm_addon_config \<Rightarrow> string \<Rightarrow>
     's csi_handlers" where
  "csi_handlers_of env ebsConfig ebsConfigMap nutanixConfig localPathConfig localPathConfigMap =
     [''aws-ebs'' \<mapsto> ebs_Apply env ebsConfig ebsConfigMap,
      ''nutanix'' \<mapsto> nutanix_csi_Apply env nutanixConfig,
      ''local-path'' \<mapsto> local_path_Apply env localPathConfig localPathConfigMap]"

section \<open>Snapshot controller\<close>

definition snapshot_helm_config :: helm_addon_config where
  "snapshot_helm_config = \<lparr>ha_template = ''default-snapshot-controller-helm-values-template'',
     ha_namespace = ''kube-system'', ha_release = ''snapshot-controller''\<rparr>"

text \<open>
  A strategy that is empty or unknown leaves the interface nil, and the call on it panics.
\<close>

definition snapshot_apply ::
    "('s, 'obj) addon_env \<Rightarrow> helm_addon_config \<Rightarrow> string \<Rightarrow> string variable \<Rightarrow> cluster \<Rightarrow> hook_response \<Rightarrow>
     ('s, hook_response) operation" where
  "snapshot_apply env helmConfig configMapName var cluster resp =
     (let finish = (\<lambda>m. answer (succeed resp)
            (wrap_op ''failed to apply snapshot-controller addon: '' m))
      in case var of
        Missing _ \<Rightarrow> return_op (succeed resp)
      | Failed err \<Rightarrow>
          return_op (fail_with
            (''failed to read the snapshot-controller variable from the cluster: '' @ err) resp)
      | Found strategy \<Rightarrow>
          if strategy = HelmAddonStrategy then
            on_error (\<lambda>err. fail_with err resp)
              (bind_op (wrap_op ''failed to get configuration to create helm addon: ''
                   (chart_For (en_api env) (en_charts env) ''snapshot-controller'')) (\<lambda>chart.
                 finish (helm_Apply (WithTakeOwnership (new_applier env helmConfig chart)) cluster
                   (en_defaults env))))
          else if strategy = ResourceSetStrategy then
            finish (snapshot_crs_Apply env configMapName cluster (en_defaults env))
          else panic_op nil_dereference)"

definition snapshot_AfterControlPlaneInitialized ::
    "('s, 'obj) addon_env \<Rightarrow> helm_addon_config \<Rightarrow> string \<Rightarrow> string variable \<Rightarrow> cluster \<Rightarrow> hook_response \<Rightarrow>
     ('s, hook_response) operation" where
  "snapshot_AfterControlPlaneInitialized env helmConfig configMapName var cluster =
     common_hook (snapshot_apply env helmConfig configMapName var cluster)"

definition snapshot_BeforeClusterUpgrade ::
    "('s, 'obj) addon_env \<Rightarrow> helm_addon_config \<Rightarrow> string \<Rightarrow> string variable \<Rightarrow> cluster \<Rightarrow> hook_response \<Rightarrow>
     ('s, hook_response) operation" where
  "snapshot_BeforeClusterUpgrade env helmConfig configMapName var cluster =
     common_hook (snapshot_apply env helmConfig configMapName var cluster)"

end
