(* ===== verification/SimpleAddons.thy ===== *)
theory SimpleAddons
  imports AddonStrategies
begin

text \<open>
  The addons with one strategy or two and nothing else to do: Node Feature Discovery
  (\<open>pkg/handlers/lifecycle/nfd\<close>), the COSI controller (\<open>cosi\<close>) and the AWS Load
  Balancer Controller (\<open>ingress/awsloadbalancercontroller\<close>).  The variable is the strategy,
  or the provider.
\<close>

section \<open>Node Feature Discovery\<close>

definition nfd_namespace :: string where
  "nfd_namespace = ''node-feature-discovery''"

definition nfd_helm_config :: helm_addon_config where
  "nfd_helm_config = \<lparr>ha_template = ''default-nfd-helm-values-template'',
     ha_namespace = nfd_namespace, ha_release = ''node-feature-discovery''\<rparr>"

text \<open>
  The namespace is labelled before the chart is installed.  An empty strategy sets a failure but
  does not return, so that the call on the nil interface panics.
\<close>

definition nfd_apply ::
    "('s, 'obj) addon_env \<Rightarrow> helm_addon_config \<Rightarrow> string \<Rightarrow> string variable \<Rightarrow> cluster \<Rightarrow> hook_response \<Rightarrow>
     ('s, hook_response) operation" where
  "nfd_apply env helmConfig configMapName var cluster resp =
     (let finish = wrap_op ''failed to apply NFD addon: ''
      in case var of
        Missing _ \<Rightarrow> return_op resp
      | Failed err \<Rightarrow>
          return_op (fail_with (''failed to read NFD variable from cluster definition: '' @ err) resp)
      | Found strategy \<Rightarrow>
          if strategy = ResourceSetStrategy then
            answer resp (finish (nfd_crs_Apply env configMapName cluster (en_defaults env)))
          else if strategy = HelmAddonStrategy then
            answer resp
              (bind_op (wrap_op ''failed to get configuration to create helm addon: ''
                   (chart_For (en_api env) (en_charts env) ''nfd'')) (\<lambda>chart.
               bind_op (wrap_op ''error creating remote cluster client: ''
                   (remote_client_op (en_api env) cluster)) (\<lambda>remoteClient.
               bind_op (wrap_op (''failed to ensure '' @ quoted nfd_namespace @
                     '' namespace on the remote cluster: '')
                   (EnsureNamespaceWithMetadata (en_api env) remoteClient nfd_namespace
                      (Some PrivilegedPodSecurityEnforceLabels) None)) (\<lambda>_.
               finish (helm_Apply (new_applier env helmConfig chart) cluster (en_defaults env))))))
          else if strategy = [] then panic_op nil_dereference
          else return_op (fail_with
            (''unknown NFD addon deployment strategy '' @ quoted strategy) resp))"

definition nfd_AfterControlPlaneInitialized ::
    "('s, 'obj) addon_env \<Rightarrow> helm_addon_config \<Rightarrow> string \<Rightarrow> string variable \<Rightarrow> cluster \<Rightarrow> hook_response \<Rightarrow>
     ('s, hook_response) operation" where
  "nfd_AfterControlPlaneInitialized env helmConfig configMapName var cluster =
     common_hook (nfd_apply env helmConfig configMapName var cluster)"

definition nfd_BeforeClusterUpgrade ::
    "('s, 'obj) addon_env \<Rightarrow> helm_addon_config \<Rightarrow> string \<Rightarrow> string variable \<Rightarrow> cluster \<Rightarrow> hook_response \<Rightarrow>
     ('s, hook_response) operation" where
  "nfd_BeforeClusterUpgrade env helmConfig configMapName var cluster =
     common_hook (nfd_apply env helmConfig configMapName var cluster)"

section \<open>COSI controller\<close>

definition cosi_helm_config :: helm_addon_config where
  "cosi_helm_config = \<lparr>ha_template = ''default-cosi-controller-helm-values-template'',
     ha_namespace = ''container-object-storage-system'', ha_release = ''cosi-controller''\<rparr>"

definition cosi_apply ::
    "('s, 'obj) addon_env \<Rightarrow> helm_addon_config \<Rightarrow> string variable \<Rightarrow> cluster \<Rightarrow> hook_response \<Rightarrow>
     ('s, hook_response) operation" where
  "cosi_apply env helmConfig var cluster resp =
     (case var of
        Missing _ \<Rightarrow> return_op resp
      | Failed err \<Rightarrow>
          return_op (fail_with (''failed to read COSI variable from cluster definition: '' @ err) resp)
      | Found strategy \<Rightarrow>
          if strategy = HelmAddonStrategy then
            answer resp
              (bind_op (wrap_op ''failed to get configuration to create helm addon: ''
                   (chart_For (en_api env) (en_charts env) ''cosi-controller'')) (\<lambda>chart.
               wrap_op ''failed to apply COSI addon: ''
                 (helm_Apply (new_applier env helmConfig chart) cluster (en_defaults env))))
          else if strategy = ResourceSetStrategy then
            return_op (fail_with
              (''strategy '' @ quoted ResourceSetStrategy @ '' not provided for COSI'') resp)
          else if strategy = [] then return_op (fail_with ''strategy not provided for COSI'' resp)
          else return_op (fail_with
            (''unknown COSI addon deployment strategy '' @ quoted strategy) resp))"

definition cosi_AfterControlPlaneInitialized ::
    "('s, 'obj) addon_env \<Rightarrow> helm_addon_config \<Rightarrow> string variable \<Rightarrow> cluster \<Rightarrow> hook_response \<Rightarrow>
     ('s, hook_response) operation" where
  "cosi_AfterControlPlaneInitialized env helmConfig var cluster =
     common_hook (cosi_apply env helmConfig var cluster)"

definition cosi_BeforeClusterUpgrade ::
    "('s, 'obj) addon_env \<Rightarrow> helm_addon_config \<Rightarrow> string variable \<Rightarrow> cluster \<Rightarrow> hook_response \<Rightarrow>
     ('s, hook_response) operation" where
  "cosi_BeforeClusterUpgrade env helmConfig var cluster =
     common_hook (cosi_apply env helmConfig var cluster)"

section \<open>AWS Load Balancer Controller\<close>

definition aws_lb_helm_config :: helm_addon_config where
  "aws_lb_helm_config = \<lparr>ha_template = ''default-aws-load-balancer-controller-helm-values-template'',
     ha_namespace = ''kube-system'', ha_release = ''aws-lb-controller''\<rparr>"

definition aws_lb_apply ::
    "('s, 'obj) addon_env \<Rightarrow> helm_addon_config \<Rightarrow> string variable \<Rightarrow> cluster \<Rightarrow> hook_response \<Rightarrow>
     ('s, hook_response) operation" where
  "aws_lb_apply env helmConfig var cluster resp =
     (case var of
        Missing _ \<Rightarrow> return_op resp
      | Failed err \<Rightarrow>
          return_op (fail_with
            (''failed to read ingress variable from cluster definition: '' @ err) resp)
      | Found provider \<Rightarrow>
          if provider \<noteq> ''aws-lb-controller'' then return_op resp
          else answer resp
            (bind_op (wrap_op ''failed to get configuration to create helm addon: ''
                 (chart_For (en_api env) (en_charts env) ''aws-load-balancer-controller'')) (\<lambda>chart.
             wrap_op ''failed to apply AWS Load Balancer Controller addon: ''
               (helm_Apply (new_applier env helmConfig chart) cluster (en_defaults env)))))"

definition aws_lb_AfterControlPlaneInitialized ::
    "('s, 'obj) addon_env \<Rightarrow> helm_addon_config \<Rightarrow> string variable \<Rightarrow> cluster \<Rightarrow> hook_response \<Rightarrow>
     ('s, hook_response) operation" where
  "aws_lb_AfterControlPlaneInitialized env helmConfig var cluster =
     common_hook (aws_lb_apply env helmConfig var cluster)"

definition aws_lb_BeforeClusterUpgrade ::
    "('s, 'obj) addon_env \<Rightarrow> helm_addon_config \<Rightarrow> string variable \<Rightarrow> cluster \<Rightarrow> hook_response \<Rightarrow>
     ('s, hook_response) operation" where
  "aws_lb_BeforeClusterUpgrade env helmConfig var cluster =
     common_hook (aws_lb_apply env helmConfig var cluster)"

end
