(* ===== verification/CcmAddons.thy ===== *)
theory CcmAddons
  imports AddonStrategies
begin

text \<open>
  \<open>pkg/handlers/lifecycle/ccm\<close>: the cloud controller manager, for AWS or Nutanix according
  to the kind of the infrastructure.  A template of \<open>text/template\<close> is parsed by a parameter
  into a function of its input.
\<close>

section \<open>Variables\<close>

text \<open>
  The parts of the \<open>clusterConfig\<close> variable: \<open>cfg_ccm\<close> nests \<open>Addons\<close> and its
  \<open>CCM\<close>; the credentials are the name of the Secret.
\<close>

record ccm_variable =
  ccm_strategy :: string
  ccm_credentials :: "string option"

record ccm_config =
  cfg_ccm :: "ccm_variable option option"
  cfg_nutanix :: "nutanix_spec option"

type_synonym 'in template_parser = "string \<Rightarrow> string + ('in \<Rightarrow> string + string)"

section \<open>AWS\<close>

definition aws_ccm_helm_config :: helm_addon_config where
  "aws_ccm_helm_config = \<lparr>ha_template = ''default-aws-ccm-helm-values-template'',
     ha_namespace = ''kube-system'', ha_release = ''aws-cloud-controller-manager''\<rparr>"

definition aws_ccm_Apply ::
    "('s, 'obj) addon_env \<Rightarrow> (string \<Rightarrow> string + (nat \<times> nat)) \<Rightarrow> helm_addon_config \<Rightarrow>
     (string \<rightharpoonup> string) \<Rightarrow> cluster \<Rightarrow> ccm_config \<Rightarrow> ('s, unit) operation" where
  "aws_ccm_Apply env parse_version helmConfig ccmVersions cluster clusterConfig =
     (case cfg_ccm clusterConfig of
        None \<Rightarrow> return_op ()
      | Some None \<Rightarrow> return_op ()
      | Some (Some ccm) \<Rightarrow>
          bind_op
            (if ccm_strategy ccm = HelmAddonStrategy then
               bind_op (wrap_op ''failed to get configuration to create helm addon: ''
                   (chart_For (en_api env) (en_charts env) ''aws-ccm''))
                 (\<lambda>chart. return_op (helm_Apply (new_applier env helmConfig chart)))
             else if ccm_strategy ccm = ResourceSetStrategy then
               return_op (aws_ccm_crs_Apply env parse_version ccmVersions)
             else if ccm_strategy ccm = [] then error_op ''strategy not specified for AWS CCM''
             else error_op (''strategy '' @ ccm_strategy ccm @ '' not implemented''))
            (\<lambda>strategy.
               wrap_op ''failed to apply local-path CSI addon: ''
                 (strategy cluster (en_defaults env))))"

section \<open>Nutanix\<close>

record ccm_input =
  ci_host :: string
  ci_port :: nat
  ci_insecure :: bool
  ci_trust_bundle :: string
  ci_ignore :: "string list"
  ci_endpoint :: control_plane_endpoint

definition ipsToIgnore :: "nutanix_spec \<Rightarrow> string list" where
  "ipsToIgnore nutanixConfig =
     cpe_host (ns_cp_endpoint nutanixConfig) #
     (case cpe_virtual_ip (ns_cp_endpoint nutanixConfig) of
        Some (Some address) \<Rightarrow> (if address \<noteq> [] then [address] else [])
      | _ \<Rightarrow> [])"

text \<open>A configuration that is nil is found out after the template has been parsed.\<close>

definition ccm_templateValuesFunc ::
    "url_parser \<Rightarrow> ccm_input template_parser \<Rightarrow> nutanix_spec option \<Rightarrow> cluster \<Rightarrow> string \<Rightarrow> string reply" where
  "ccm_templateValuesFunc parse_url parse nutanixConfig cluster valuesTemplate =
     (case parse valuesTemplate of
        Inl err \<Rightarrow> Err (''failed to parse Helm values template: '' @ err)
      | Inr helmValuesTemplate \<Rightarrow>
          (case nutanixConfig of
             None \<Rightarrow> Panic nil_dereference
           | Some spec \<Rightarrow>
               (case ParseURL parse_url (ns_pc_endpoint spec) of
                  Inl err \<Rightarrow> Err err
                | Inr (address, port) \<Rightarrow>
                    (case helmValuesTemplate
                        \<lparr>ci_host = address, ci_port = port,
                         ci_insecure = pce_insecure (ns_pc_endpoint spec),
                         ci_trust_bundle = pce_trust_bundle (ns_pc_endpoint spec),
                         ci_ignore = ipsToIgnore spec, ci_endpoint = ns_cp_endpoint spec\<rparr> of
                       Inl err \<Rightarrow>
                         Err (''failed setting PrismCentral configuration in template: '' @ err)
                     | Inr b \<Rightarrow> Ok b))))"

text \<open>\<open>configMapName\<close> is the flag; nothing is checked for nil before the first access.\<close>

definition nutanix_ccm_Apply ::
    "('s, 'obj) addon_env \<Rightarrow> url_parser \<Rightarrow> ccm_input template_parser \<Rightarrow> string \<Rightarrow> cluster \<Rightarrow> ccm_config \<Rightarrow>
     ('s, unit) operation" where
  "nutanix_ccm_Apply env parse_url parse configMapName cluster clusterConfig =
     (case cfg_ccm clusterConfig of
        Some (Some ccm) \<Rightarrow>
          (case ccm_credentials ccm of
             None \<Rightarrow> error_op ''name of the Secret containing PC credentials must be set''
           | Some secretName \<Rightarrow>
               bind_op (wrap_op ''error updating owner references on Nutanix CCM source Secret: ''
                   (own_op (en_api env) ''Secret'' secretName cluster)) (\<lambda>_.
               bind_op (wrap_op
                   ''error creating Nutanix CCM Credentials Secret on the remote cluster: ''
                   (CopySecretToRemoteCluster (en_api env) secretName
                      (''kube-system'', ''nutanix-ccm-credentials'') cluster)) (\<lambda>_.
               bind_op (wrap_op ''failed to get values for nutanix-ccm-config: ''
                   (chart_For (en_api env) (en_charts env) ''nutanix-ccm'')) (\<lambda>chart.
               wrap_op ''failed to apply nutanix-ccm installation HelmChartProxy: ''
                 (helm_Apply
                    (WithValueTemplater
                       (ccm_templateValuesFunc parse_url parse (cfg_nutanix clusterConfig))
                       (new_applier env \<lparr>ha_template = configMapName,
                          ha_namespace = ''kube-system'', ha_release = ''nutanix-ccm''\<rparr> chart))
                    cluster (en_defaults env))))))
      | _ \<Rightarrow> panic_op nil_dereference)"

section \<open>The handler\<close>

text \<open>
  The variable \<open>ccmVar\<close> is read only to see that it is there; the providers are those of
  \<open>AllHandlers\<close>, and a provider that the map lacks is nil.
\<close>

definition ccm_apply ::
    "(string \<rightharpoonup> (cluster \<Rightarrow> ccm_config \<Rightarrow> ('s, unit) operation)) \<Rightarrow> ccm_variable variable \<Rightarrow>
     ccm_config variable \<Rightarrow> cluster \<Rightarrow> hook_response \<Rightarrow> ('s, hook_response) operation" where
  "ccm_apply handlers ccmVar configVar cluster resp =
     (case ccmVar of
        Missing _ \<Rightarrow> return_op resp
      | Failed err \<Rightarrow>
          return_op (fail_with (''failed to read CCM from cluster definition: '' @ err) resp)
      | Found _ \<Rightarrow>
     let read_failed = (\<lambda>err. return_op (fail_with
           (''failed to read clusterConfig variable from cluster definition: '' @ err) resp))
     in case configVar of
        Missing err \<Rightarrow> read_failed err
      | Failed err \<Rightarrow> read_failed err
      | Found clusterConfig \<Rightarrow>
     let infraKind = to_lower (cs_infrastructure_kind (cl_spec cluster));
         deploy = (\<lambda>handler. case handler of
             None \<Rightarrow> panic_op nil_dereference
           | Some apply_handler \<Rightarrow>
               on_error (\<lambda>err. fail_with (''failed to deploy CCM for cluster: '' @ err) resp)
                 (bind_op (apply_handler cluster clusterConfig) (\<lambda>_. return_op resp)))
     in if contains_str infraKind ''aws'' then deploy (handlers ''aws'')
        else if contains_str infraKind ''nutanix'' then deploy (handlers ''nutanix'')
        else return_op resp)"

definition ccm_AfterControlPlaneInitialized ::
    "(string \<rightharpoonup> (cluster \<Rightarrow> ccm_config \<Rightarrow> ('s, unit) operation)) \<Rightarrow> ccm_variable variable \<Rightarrow>
     ccm_config variable \<Rightarrow> cluster \<Rightarrow> hook_response \<Rightarrow> ('s, hook_response) operation" where
  "ccm_AfterControlPlaneInitialized handlers ccmVar configVar cluster =
     common_hook (ccm_apply handlers ccmVar configVar cluster)"

definition ccm_BeforeClusterUpgrade ::
    "(string \<rightharpoonup> (cluster \<Rightarrow> ccm_config \<Rightarrow> ('s, unit) operation)) \<Rightarrow> ccm_variable variable \<Rightarrow>
     ccm_config variable \<Rightarrow> cluster \<Rightarrow> hook_response \<Rightarrow> ('s, hook_response) operation" where
  "ccm_BeforeClusterUpgrade handlers ccmVar configVar cluster =
     common_hook (ccm_apply handlers ccmVar configVar cluster)"

definition ccm_handlers_of ::
    "('s, 'obj) addon_env \<Rightarrow> (string \<Rightarrow> string + (nat \<times> nat)) \<Rightarrow> helm_addon_config \<Rightarrow>
     (string \<rightharpoonup> string) \<Rightarrow> url_parser \<Rightarrow> ccm_input template_parser \<Rightarrow> string \<Rightarrow>
     string \<rightharpoonup> (cluster \<Rightarrow> ccm_config \<Rightarrow> ('s, unit) operation)" where
  "ccm_handlers_of env parse_version awsConfig ccmVersions parse_url parse nutanixConfigMap =
     [''aws'' \<mapsto> aws_ccm_Apply env parse_version awsConfig ccmVersions,
      ''nutanix'' \<mapsto> nutanix_ccm_Apply env parse_url parse nutanixConfigMap]"

end
