(* ===== verification/CniAddons.thy ===== *)
theory CniAddons
  imports CcmAddons ControlPlaneMutations
begin

text \<open>
  \<open>pkg/handlers/lifecycle/cni\<close>, without Cilium: Calico by the Tigera operator, Multus, which
  is installed on top of another network plugin, and the Flow plugin of Nutanix.  Parsing and
  printing manifests and templates are parameters.
\<close>

section \<open>Variables\<close>

text \<open>
  \<open>cni_source\<close> is the kind and name of \<open>Values.SourceRef\<close>, if both are set;
  \<open>cni_pull_secret\<close> the name of the Secret of \<open>ImagePullCredentials\<close>.
\<close>

record cni_variable =
  cni_provider :: string
  cni_strategy :: string
  cni_source :: "(string \<times> string) option"
  cni_pull_secret :: "string option"

text \<open>\<open>cni/cluster.go\<close> and \<open>cni/socket.go\<close>.\<close>

definition PodCIDR :: "cluster \<Rightarrow> string + string" where
  "PodCIDR cluster =
     (case cs_pod_cidrs (cl_spec cluster) of
        [] \<Rightarrow> Inr []
      | [c] \<Rightarrow> Inr c
      | _ \<Rightarrow> Inl ''cluster has more than 1 Pods network CIDR blocks'')"

definition ReadinessSocketPath :: "string \<Rightarrow> string + string" where
  "ReadinessSocketPath provider =
     (if provider = ''Cilium'' then Inr ''/run/cilium/cilium.sock''
      else if provider = ''Calico'' then Inr ''/var/run/calico/cni-server.sock''
      else if provider = ''Flow'' then Inr ''/var/run/ovn-kubernetes/cni/ovn-cni-server.sock''
      else Inl (''could not determine CNI socket, unsupported provider: '' @ provider))"

section \<open>Calico\<close>

text \<open>
  The library for manifests: parsing the documents of some texts, the group and kind of a
  document, its field \<open>spec.calicoNetwork.ipPools\<close> (which may be missing or not be a list),
  setting \<open>cidr\<close> in a pool, if the pool is a map, and the pools in a document, and printing a
  document.
\<close>

datatype 'p pools_field = NoPools | OtherField | PoolList "'p list"

record ('y, 'p) manifest_lib =
  ml_parse :: "string list \<Rightarrow> string + 'y list"
  ml_kind :: "'y \<Rightarrow> string \<times> string"
  ml_pools :: "'y \<Rightarrow> string + 'p pools_field"
  ml_is_map :: "'p \<Rightarrow> bool"
  ml_set_cidr :: "'p \<Rightarrow> string \<Rightarrow> string + 'p"
  ml_set_pools :: "'y \<Rightarrow> 'p list \<Rightarrow> string + 'y"
  ml_encode :: "'y \<Rightarrow> string + string"

text \<open>
  The pod network goes into the first pool of the Installation; a list or a map that is neither,
  and an empty list, panic.
\<close>

definition set_pod_subnet :: "('y, 'p) manifest_lib \<Rightarrow> string \<Rightarrow> 'y \<Rightarrow> 'y reply" where
  "set_pod_subnet lib podSubnet obj =
     (if podSubnet = [] \<or> ml_kind lib obj \<noteq> (''operator.tigera.io'', ''Installation'') then Ok obj
      else case ml_pools lib obj of
        Inl err \<Rightarrow> Err (''failed to get ipPools from unstructured object: '' @ err)
      | Inr NoPools \<Rightarrow> Err ''missing ipPools in unstructured object''
      | Inr OtherField \<Rightarrow> Panic ''interface conversion''
      | Inr (PoolList []) \<Rightarrow> Panic ''index out of range''
      | Inr (PoolList (pool # pools)) \<Rightarrow>
          if \<not> ml_is_map lib pool then Panic ''interface conversion''
          else case ml_set_cidr lib pool podSubnet of
            Inl err \<Rightarrow> Err (''failed to set default pod subnet: '' @ err)
          | Inr pool' \<Rightarrow>
              (case ml_set_pools lib obj (pool' # pools) of
                 Inl err \<Rightarrow> Err (''failed to update ipPools: '' @ err)
               | Inr obj' \<Rightarrow> Ok obj'))"

fun encode_manifests :: "('y, 'p) manifest_lib \<Rightarrow> string \<Rightarrow> 'y list \<Rightarrow> string reply" where
  "encode_manifests lib podSubnet [] = Ok []"
| "encode_manifests lib podSubnet (obj # objs) =
     (case set_pod_subnet lib podSubnet obj of
        Ok obj' \<Rightarrow>
          (case ml_encode lib obj' of
             Inl err \<Rightarrow> Err (''failed to serialize manifests: '' @ err)
           | Inr text \<Rightarrow>
               (case encode_manifests lib podSubnet objs of
                  Ok rest \<Rightarrow> Ok (text @ [CHR 0x0A] @ ''---'' @ [CHR 0x0A] @ rest)
                | Err err \<Rightarrow> Err err
                | Panic msg \<Rightarrow> Panic msg))
      | Err err \<Rightarrow> Err err
      | Panic msg \<Rightarrow> Panic msg)"

definition generateProviderCNIManifestsConfigMap ::
    "('y, 'p) manifest_lib \<Rightarrow> config_map \<Rightarrow> cluster \<Rightarrow> config_map reply" where
  "generateProviderCNIManifestsConfigMap lib installationConfigMap cluster =
     (case ml_parse lib (map snd (cm_data installationConfigMap)) of
        Inl err \<Rightarrow> Err (''failed to parse embedded manifests: '' @ err)
      | Inr parsed \<Rightarrow>
          (case PodCIDR cluster of
             Inl err \<Rightarrow> Err err
           | Inr podSubnet \<Rightarrow>
               (case encode_manifests lib podSubnet parsed of
                  Ok b \<Rightarrow> Ok \<lparr>cm_namespace = cl_namespace cluster,
                    cm_name = ''calico-cni-installation-'' @ cl_name cluster,
                    cm_data = [(''manifests'', b)], cm_binary = []\<rparr>
                | Err err \<Rightarrow> Err err
                | Panic msg \<Rightarrow> Panic msg)))"

definition generateTigeraOperatorConfigMap :: "config_map \<Rightarrow> cluster \<Rightarrow> config_map" where
  "generateTigeraOperatorConfigMap defaultCM cluster =
     config_map_for cluster (cm_name defaultCM @ ''-'' @ cl_name cluster) defaultCM"

definition tigeraOperatorConfigMapLabel :: string where
  "tigeraOperatorConfigMapLabel = ''caren.nutanix.com/tigera-operator-manifests''"

text \<open>
  The ConfigMaps with the manifests of the operator, by name; \<open>tigeraName\<close> is the flag.
\<close>

definition ensureTigeraOperatorConfigMaps ::
    "('s, 'obj) addon_env \<Rightarrow> string \<Rightarrow> cluster \<Rightarrow> string \<Rightarrow> ('s, config_map list) operation" where
  "ensureTigeraOperatorConfigMaps env tigeraName cluster defaultsNamespace =
     (let place = tigeraOperatorConfigMapLabel @ ''='' @ tigeraName @ '' in namespace '' @
            defaultsNamespace
      in bind_op (wrap_op (''failed to list default Tigera Operator manifests ConfigMaps '' @
             ''with label '' @ place @ '': '')
           (call_op (ad_config_maps (en_api env) defaultsNamespace tigeraOperatorConfigMapLabel
              tigeraName))) (\<lambda>items.
         if items = [] then
           error_op (''no default Tigera Operator manifests ConfigMaps found with label '' @ place)
         else
           let cms = map (\<lambda>cm. generateTigeraOperatorConfigMap cm cluster) (sort_key cm_name items)
           in bind_op (each_op (\<lambda>cm.
                  wrap_op (''failed to apply Tigera Operator manifests ConfigMap '' @
                      quoted (cm_name cm) @ '': '')
                    (apply_op (en_api env) Management True None (ConfigMapObject cm))) cms)
                (\<lambda>_. return_op cms)))"

definition ensureCNICRSForCluster ::
    "('s, 'obj) addon_env \<Rightarrow> ('y, 'p) manifest_lib \<Rightarrow> cluster \<Rightarrow> string \<Rightarrow> string \<Rightarrow> config_map list \<Rightarrow>
     ('s, unit) operation" where
  "ensureCNICRSForCluster env lib cluster defaultsNamespace installationName tigeraConfigMaps =
     bind_op (wrap_op (''failed to retrieve default installation ConfigMap '' @
           quoted (object_text defaultsNamespace installationName) @ '': '')
         (call_op (ad_config_map (en_api env) Management defaultsNamespace installationName)))
       (\<lambda>defaultInstallationConfigMap.
     bind_op (wrap_op ''failed to generate Calico provider CNI manifests ConfigMap: ''
         (reply_op (generateProviderCNIManifestsConfigMap lib defaultInstallationConfigMap cluster)))
       (\<lambda>cm.
     bind_op (wrap_op ''failed to apply Calico CNI installation manifests ConfigMap: ''
         (apply_op (en_api env) Management True None (ConfigMapObject cm))) (\<lambda>_.
     wrap_op ''failed to apply Calico CNI installation ClusterResourceSet: ''
       (EnsureCRSForClusterFromObjects (en_api env) (en_show env) (cm_name cm) cluster None
          (map ConfigMapObject (tigeraConfigMaps @ [cm]))))))"

definition calico_installation_names :: "string \<rightharpoonup> string" where
  "calico_installation_names =
     [''DockerCluster'' \<mapsto> ''calico-cni-crs-installation-dockercluster'',
      ''AWSCluster'' \<mapsto> ''calico-cni-crs-installation-awscluster'',
      ''NutanixCluster'' \<mapsto> ''calico-cni-crs-installation-nutanixcluster'']"

definition calico_crs_apply ::
    "('s, 'obj) addon_env \<Rightarrow> ('y, 'p) manifest_lib \<Rightarrow> string \<Rightarrow> (string \<rightharpoonup> string) \<Rightarrow> cluster \<Rightarrow> string \<Rightarrow>
     ('s, unit) operation" where
  "calico_crs_apply env lib tigeraName installationNames cluster defaultsNamespace =
     (case installationNames (cs_infrastructure_kind (cl_spec cluster)) of
        None \<Rightarrow> return_op ()
      | Some installationName \<Rightarrow>
          bind_op (wrap_op (''failed to ensure Tigera Operator manifests ConfigMaps exist '' @
                ''in cluster namespace: '')
              (ensureTigeraOperatorConfigMaps env tigeraName cluster defaultsNamespace))
            (\<lambda>tigeraCMs.
               wrap_op (''failed to ensure Tigera Operator manifests ConfigMap exists '' @
                   ''in cluster namespace: '')
                 (ensureCNICRSForCluster env lib cluster defaultsNamespace installationName
                    tigeraCMs)))"

definition calico_values_names :: "string \<rightharpoonup> string" where
  "calico_values_names =
     [''DockerCluster'' \<mapsto> ''calico-cni-helm-values-template-dockercluster'',
      ''AWSCluster'' \<mapsto> ''calico-cni-helm-values-template-awscluster'',
      ''NutanixCluster'' \<mapsto> ''calico-cni-helm-values-template-nutanixcluster'']"

definition calico_helm_apply ::
    "('s, 'obj) addon_env \<Rightarrow> (string \<rightharpoonup> string) \<Rightarrow> helm_chart \<Rightarrow> cluster \<Rightarrow> string \<Rightarrow>
     ('s, unit) operation" where
  "calico_helm_apply env valuesNames chart cluster defaultsNamespace =
     (case valuesNames (cs_infrastructure_kind (cl_spec cluster)) of
        None \<Rightarrow> return_op ()
      | Some valuesName \<Rightarrow>
          wrap_op ''failed to apply Calico addon: ''
            (helm_Apply (new_applier env \<lparr>ha_template = valuesName,
               ha_namespace = ''tigera-operator'', ha_release = ''tigera-operator''\<rparr> chart)
               cluster defaultsNamespace))"

definition calico_apply ::
    "('s, 'obj) addon_env \<Rightarrow> ('y, 'p) manifest_lib \<Rightarrow> string \<Rightarrow> (string \<rightharpoonup> string) \<Rightarrow>
     (string \<rightharpoonup> string) \<Rightarrow> cni_variable variable \<Rightarrow> cluster \<Rightarrow> hook_response \<Rightarrow>
     ('s, hook_response) operation" where
  "calico_apply env lib tigeraName installationNames valuesNames var cluster resp =
     (case var of
        Missing _ \<Rightarrow> return_op resp
      | Failed err \<Rightarrow>
          return_op (fail_with
            (''failed to read CNI provider from cluster definition: '' @ err) resp)
      | Found cniVar \<Rightarrow>
          if cni_provider cniVar \<noteq> ''Calico'' then return_op resp
          else if cni_strategy cniVar = ResourceSetStrategy then
            answer resp
              (calico_crs_apply env lib tigeraName installationNames cluster (en_defaults env))
          else if cni_strategy cniVar = HelmAddonStrategy then
            answer resp
              (bind_op (wrap_op ''failed to get configuration to create helm addon: ''
                   (chart_For (en_api env) (en_charts env) ''tigera-operator'')) (\<lambda>chart.
               calico_helm_apply env valuesNames chart cluster (en_defaults env)))
          else if cni_strategy cniVar = [] then panic_op nil_dereference
          else return_op (fail_with
            (''unknown CNI addon deployment strategy '' @ quoted (cni_strategy cniVar)) resp))"

definition calico_AfterControlPlaneInitialized ::
    "('s, 'obj) addon_env \<Rightarrow> ('y, 'p) manifest_lib \<Rightarrow> string \<Rightarrow> (string \<rightharpoonup> string) \<Rightarrow>
     (string \<rightharpoonup> string) \<Rightarrow> cni_variable variable \<Rightarrow> cluster \<Rightarrow> hook_response \<Rightarrow>
     ('s, hook_response) operation" where
  "calico_AfterControlPlaneInitialized env lib tigeraName installationNames valuesNames var cluster =
     common_hook (calico_apply env lib tigeraName installationNames valuesNames var cluster)"

definition calico_BeforeClusterUpgrade ::
    "('s, 'obj) addon_env \<Rightarrow> ('y, 'p) manifest_lib \<Rightarrow> string \<Rightarrow> (string \<rightharpoonup> string) \<Rightarrow>
     (string \<rightharpoonup> string) \<Rightarrow> cni_variable variable \<Rightarrow> cluster \<Rightarrow> hook_response \<Rightarrow>
     ('s, hook_response) operation" where
  "calico_BeforeClusterUpgrade env lib tigeraName installationNames valuesNames var cluster =
     common_hook (calico_apply env lib tigeraName installationNames valuesNames var cluster)"

end
