(* ===== verification/FlowAddons.thy ===== *)
theory FlowAddons
  imports CniAddons
begin

text \<open>
  \<open>pkg/handlers/lifecycle/cni/multus\<close> and \<open>cni/nutanixflow\<close>: the second network plugin
  of a cluster and the Flow plugin of Nutanix.
\<close>

section \<open>Multus\<close>

definition multus_helm_config :: helm_addon_config where
  "multus_helm_config = \<lparr>ha_template = ''default-multus-values-template'',
     ha_namespace = ''kube-system'', ha_release = ''multus''\<rparr>"

text \<open>The input of the template is the path of the socket.\<close>

definition multus_templateValuesFunc ::
    "string template_parser \<Rightarrow> cni_variable \<Rightarrow> cluster \<Rightarrow> string \<Rightarrow> string reply" where
  "multus_templateValuesFunc parse cniVar cluster valuesTemplate =
     (case ReadinessSocketPath (cni_provider cniVar) of
        Inl err \<Rightarrow>
          Err (''failed to get readiness socket path for CNI provider '' @ cni_provider cniVar @
            '': '' @ err)
      | Inr readinessSocketPath \<Rightarrow>
          (case parse valuesTemplate of
             Inl err \<Rightarrow> Err (''failed to parse Multus values template: '' @ err)
           | Inr t \<Rightarrow>
               (case t readinessSocketPath of
                  Inl err \<Rightarrow> Err (''failed to template Multus values: '' @ err)
                | Inr b \<Rightarrow> Ok b)))"

definition multus_apply ::
    "('s, 'obj) addon_env \<Rightarrow> string template_parser \<Rightarrow> helm_addon_config \<Rightarrow> cni_variable variable \<Rightarrow>
     cluster \<Rightarrow> hook_response \<Rightarrow> ('s, hook_response) operation" where
  "multus_apply env parse helmConfig var cluster resp =
     (let provider = ControlPlaneMutations.GetProvider (Some cluster)
      in if provider \<noteq> ''eks'' \<and> provider \<noteq> ''nutanix'' then return_op resp
         else case var of
           Missing _ \<Rightarrow> return_op resp
         | Failed err \<Rightarrow> return_op (fail_with (''failed to read CNI configuration: '' @ err) resp)
         | Found cniVar \<Rightarrow>
             answer (resp\<lparr>hr_message := ''Multus deployed successfully''\<rparr>)
               (bind_op (wrap_op ''failed to get configuration to create helm addon: ''
                    (chart_For (en_api env) (en_charts env) ''multus'')) (\<lambda>chart.
                wrap_op ''failed to deploy Multus: ''
                  (helm_Apply
                     (WithDefaultWaiter
                        (WithValueTemplater (multus_templateValuesFunc parse cniVar)
                           (new_applier env helmConfig chart)))
                     cluster (en_defaults env)))))"

definition multus_AfterControlPlaneInitialized ::
    "('s, 'obj) addon_env \<Rightarrow> string template_parser \<Rightarrow> helm_addon_config \<Rightarrow> cni_variable variable \<Rightarrow>
     cluster \<Rightarrow> hook_response \<Rightarrow> ('s, hook_response) operation" where
  "multus_AfterControlPlaneInitialized env parse helmConfig var cluster =
     common_hook (multus_apply env parse helmConfig var cluster)"

definition multus_BeforeClusterUpgrade ::
    "('s, 'obj) addon_env \<Rightarrow> string template_parser \<Rightarrow> helm_addon_config \<Rightarrow> cni_variable variable \<Rightarrow>
     cluster \<Rightarrow> hook_response \<Rightarrow> ('s, hook_response) operation" where
  "multus_BeforeClusterUpgrade env parse helmConfig var cluster =
     common_hook (multus_apply env parse helmConfig var cluster)"

section \<open>Nutanix Flow\<close>

text \<open>The endpoint of the control plane is its host and port.\<close>

record flow_input =
  fi_endpoint :: "string \<times> int"
  fi_pod_cidr :: string
  fi_service_cidr :: string
  fi_pull_secret :: string

definition first_or_empty :: "string list \<Rightarrow> string" where
  "first_or_empty xs = (case xs of [] \<Rightarrow> [] | x # _ \<Rightarrow> x)"

definition flow_templateValues ::
    "flow_input template_parser \<Rightarrow> string \<Rightarrow> cluster \<Rightarrow> string \<Rightarrow> string reply" where
  "flow_templateValues parse imagePullSecretName cluster text =
     (case parse text of
        Inl err \<Rightarrow> Err (''failed to parse template: '' @ err)
      | Inr t \<Rightarrow>
          (case t \<lparr>fi_endpoint = (cs_cp_host (cl_spec cluster), cs_cp_port (cl_spec cluster)),
               fi_pod_cidr = first_or_empty (cs_pod_cidrs (cl_spec cluster)),
               fi_service_cidr = first_or_empty (cs_service_cidrs (cl_spec cluster)),
               fi_pull_secret = imagePullSecretName\<rparr> of
             Inl err \<Rightarrow> Err (''failed templating Nutanix Flow CNI values: '' @ err)
           | Inr b \<Rightarrow> Ok b))"

definition imagePullSecretNamespaces :: "string list" where
  "imagePullSecretNamespaces = [''flow-cni-system'', ''flow-cns-system'', ''ovn-kubernetes'']"

definition defaultImagePullSecretName :: string where
  "defaultImagePullSecretName = ''flow-cni-image-pull-secret''"

text \<open>The Secret is owned by the Cluster and copied; the name that the values get.\<close>

definition flow_pull_secret ::
    "('s, 'obj) addon_env \<Rightarrow> string option \<Rightarrow> cluster \<Rightarrow> ('s, string) operation" where
  "flow_pull_secret env pullSecret cluster =
     (case pullSecret of
        None \<Rightarrow> return_op []
      | Some name \<Rightarrow>
          bind_op (wrap_op (''failed to set Cluster's owner reference on Flow CNI image pull '' @
                ''Secret: '') (own_op (en_api env) ''Secret'' name cluster)) (\<lambda>_.
          bind_op (each_op (\<lambda>ns.
                wrap_op (''failed to copy image pull Secret for Flow CNI to namespace '' @
                    quoted ns @ '' on remote cluster: '')
                  (CopySecretToRemoteCluster (en_api env) name (ns, defaultImagePullSecretName)
                     cluster))
              imagePullSecretNamespaces) (\<lambda>_.
          return_op defaultImagePullSecretName)))"

text \<open>The name of the values and the namespace where they are.\<close>

definition flow_values_source ::
    "('s, 'obj) addon_env \<Rightarrow> string \<Rightarrow> (string \<times> string) option \<Rightarrow> cluster \<Rightarrow>
     ('s, string \<times> string) operation" where
  "flow_values_source env configMapName source cluster =
     (case source of
        None \<Rightarrow> return_op (configMapName, en_defaults env)
      | Some (kind, name) \<Rightarrow>
          bind_op (wrap_op (''failed to set Cluster's owner reference on Flow CNI helm values '' @
                ''source object: '') (own_op (en_api env) kind name cluster)) (\<lambda>_.
          return_op (name, cl_namespace cluster)))"

definition flow_apply ::
    "('s, 'obj) addon_env \<Rightarrow> flow_input template_parser \<Rightarrow> string \<Rightarrow> cni_variable variable \<Rightarrow> cluster \<Rightarrow>
     hook_response \<Rightarrow> ('s, hook_response) operation" where
  "flow_apply env parse configMapName var cluster resp =
     (if cs_infrastructure_kind (cl_spec cluster) \<noteq> ''NutanixCluster'' then return_op resp
      else case var of
        Missing _ \<Rightarrow> return_op resp
      | Failed err \<Rightarrow>
          return_op (fail_with
            (''failed to read CNI provider from cluster definition: '' @ err) resp)
      | Found cniVar \<Rightarrow>
          if cni_provider cniVar \<noteq> ''Flow'' then return_op resp
          else if cni_strategy cniVar \<noteq> HelmAddonStrategy then
            return_op (fail_with (''Nutanix Flow CNI only supports '' @ quoted HelmAddonStrategy @
              '' addon strategy'') resp)
          else answer resp
            (bind_op (wrap_op ''failed to get configuration to create helm addon: ''
                 (chart_For (en_api env) (en_charts env) ''nutanix-flow-cni'')) (\<lambda>chart.
             bind_op (flow_pull_secret env (cni_pull_secret cniVar) cluster) (\<lambda>pullSecretName.
             bind_op (flow_values_source env configMapName (cni_source cniVar) cluster)
               (\<lambda>(valuesName, targetNamespace).
             helm_Apply
               (WithTakeOwnership (WithDefaultWaiter
                  (WithValueTemplater (flow_templateValues parse pullSecretName)
                     (new_applier env \<lparr>ha_template = valuesName, ha_namespace = ''kube-system'',
                        ha_release = ''flow-cni''\<rparr> chart))))
               cluster targetNamespace)))))"

definition flow_AfterControlPlaneInitialized ::
    "('s, 'obj) addon_env \<Rightarrow> flow_input template_parser \<Rightarrow> string \<Rightarrow> cni_variable variable \<Rightarrow> cluster \<Rightarrow>
     hook_response \<Rightarrow> ('s, hook_response) operation" where
  "flow_AfterControlPlaneInitialized env parse configMapName var cluster =
     common_hook (flow_apply env parse configMapName var cluster)"

definition flow_BeforeClusterUpgrade ::
    "('s, 'obj) addon_env \<Rightarrow> flow_input template_parser \<Rightarrow> string \<Rightarrow> cni_variable variable \<Rightarrow> cluster \<Rightarrow>
     hook_response \<Rightarrow> ('s, hook_response) operation" where
  "flow_BeforeClusterUpgrade env parse configMapName var cluster =
     common_hook (flow_apply env parse configMapName var cluster)"

end
