(* ===== verification/CiliumAddon.thy ===== *)
theory CiliumAddon
  imports CniAddons
begin

text \<open>
  \<open>pkg/handlers/lifecycle/cni/cilium\<close>: Cilium is installed, before an upgrade after a
  pre-flight release that pulls its images; when the Cluster disables kube-proxy, Cilium takes
  over its work and is restarted before kube-proxy is removed from the workload cluster.
\<close>

section \<open>Values\<close>

text \<open>The endpoint of the control plane is its host and port.\<close>

record cilium_input =
  cni_in_provider :: string
  cni_in_endpoint :: "string \<times> int"
  cni_in_replacement :: bool

record cilium_preflight_input =
  cpi_endpoint :: "string \<times> int"
  cpi_replacement :: bool

definition cilium_templateValues ::
    "cluster_config_spec json_decoder \<Rightarrow> cilium_input template_parser \<Rightarrow> cluster \<Rightarrow> string \<Rightarrow>
     string reply" where
  "cilium_templateValues decode parse cluster text =
     (case KubeProxyIsDisabled decode cluster of
        Inl err \<Rightarrow> Err (''failed to check if kube-proxy is disabled: '' @ err)
      | Inr kubeProxyIsDisabled \<Rightarrow>
          (case parse text of
             Inl err \<Rightarrow> Err (''failed to parse template: '' @ err)
           | Inr t \<Rightarrow>
               (case t \<lparr>cni_in_provider = ControlPlaneMutations.GetProvider (Some cluster),
                    cni_in_endpoint = (cs_cp_host (cl_spec cluster), cs_cp_port (cl_spec cluster)),
                    cni_in_replacement = kubeProxyIsDisabled\<rparr> of
                  Inl err \<Rightarrow> Err (''failed templating Cilium values: '' @ err)
                | Inr b \<Rightarrow> Ok b)))"

definition cilium_preflightTemplateValues ::
    "cluster_config_spec json_decoder \<Rightarrow> cilium_preflight_input template_parser \<Rightarrow> cluster \<Rightarrow> string \<Rightarrow>
     string reply" where
  "cilium_preflightTemplateValues decode parse cluster text =
     (case KubeProxyIsDisabled decode cluster of
        Inl err \<Rightarrow> Err (''failed to check if kube-proxy is disabled: '' @ err)
      | Inr kubeProxyIsDisabled \<Rightarrow>
          (case parse text of
             Inl err \<Rightarrow> Err (''failed to parse cilium preflight template: '' @ err)
           | Inr t \<Rightarrow>
               (case t \<lparr>cpi_endpoint = (cs_cp_host (cl_spec cluster), cs_cp_port (cl_spec cluster)),
                    cpi_replacement = kubeProxyIsDisabled\<rparr> of
                  Inl err \<Rightarrow> Err (''failed templating Cilium preflight values: '' @ err)
                | Inr b \<Rightarrow> Ok b)))"

section \<open>Replacing kube-proxy\<close>

abbreviation kube_system :: string where
  "kube_system \<equiv> ''kube-system''"

definition replacement_configured :: "config_map \<Rightarrow> bool reply" where
  "replacement_configured cm = Ok (map_of (cm_data cm) ''kube-proxy-replacement'' = Some ''true'')"

definition waitForCiliumConfigMapToBeUpdatedWithKubeProxyReplacement ::
    "('s, 'obj) addon_api \<Rightarrow> api_client \<Rightarrow> ('s, unit) operation" where
  "waitForCiliumConfigMapToBeUpdatedWithKubeProxyReplacement api c =
     wrap_op (''failed to wait for ConfigMap '' @ object_text kube_system ''cilium-config'' @
         '' to be updated: '')
       (ForObject api (ad_config_map api c kube_system ''cilium-config'') replacement_configured 1 30)"

definition restartedAtAnnotation :: string where
  "restartedAtAnnotation = ''caren.nutanix.com/restartedAt''"

text \<open>The annotation that restarts the Pods is set once; the time is read when it is set.\<close>

definition restart_annotated :: "string \<Rightarrow> daemon_set \<Rightarrow> daemon_set" where
  "restart_annotated now ds =
     (let annotations =
            (case ds_template_annotations ds of None \<Rightarrow> Map.empty | Some m \<Rightarrow> m)
      in ds\<lparr>ds_template_annotations := Some
           (if annotations restartedAtAnnotation = None
            then annotations(restartedAtAnnotation \<mapsto> now) else annotations)\<rparr>)"

definition rolled_out :: "daemon_set \<Rightarrow> bool reply" where
  "rolled_out ds =
     (if ds_generation ds \<noteq> ds_observed ds then Ok False
      else Ok (ds_available ds = ds_desired ds \<and> ds_updated ds = ds_desired ds))"

definition forceCiliumRollout ::
    "('s, 'obj) addon_api \<Rightarrow> api_client \<Rightarrow> ('s, unit) operation" where
  "forceCiliumRollout api c =
     bind_op (wrap_op ''failed to get cilium daemon set: ''
         (call_op (ad_daemon_set api c kube_system ''cilium''))) (\<lambda>ds.
     bind_op (wrap_op ''failed to update cilium daemon set: ''
         (\<lambda>s. unit_op (ad_update_daemon_set api c kube_system ''cilium''
            (restart_annotated (ad_now api s) ds)) s)) (\<lambda>_.
     wrap_op (''failed to wait for DaemonSet '' @ object_text kube_system ''cilium'' @
         '' to be Ready: '')
       (ForObject api (ad_daemon_set api c kube_system ''cilium'') rolled_out 1 30)))"

definition cleanupKubeProxy :: "('s, 'obj) addon_api \<Rightarrow> api_client \<Rightarrow> ('s, unit) operation" where
  "cleanupKubeProxy api c =
     each_op (\<lambda>kind.
        wrap_op (''failed to delete '' @ object_text kube_system ''kube-proxy'' @ '': '')
          (delete_ignoring_op api c (kind, kube_system, ''kube-proxy'')))
       [''DaemonSet'', ''ConfigMap'']"

definition isKubeProxyInstalled :: "('s, 'obj) addon_api \<Rightarrow> api_client \<Rightarrow> ('s, bool) operation" where
  "isKubeProxyInstalled api c s =
     (case ad_daemon_set api c kube_system ''kube-proxy'' s of
        (Inl (NotFound err), s') \<Rightarrow> (Ok False, s')
      | (Inl (OtherError err), s') \<Rightarrow> (Err err, s')
      | (Inr ds, s') \<Rightarrow> (Ok True, s'))"

definition replaceKubeProxy ::
    "('s, 'obj) addon_api \<Rightarrow> api_client \<Rightarrow> ('s, unit) operation" where
  "replaceKubeProxy api c =
     bind_op (wrap_op ''failed to wait for Cilium ConfigMap to be updated: ''
         (waitForCiliumConfigMapToBeUpdatedWithKubeProxyReplacement api c)) (\<lambda>_.
     bind_op (wrap_op ''failed to force trigger a rollout of Cilium DaemonSet Pods: ''
         (forceCiliumRollout api c)) (\<lambda>_.
     wrap_op ''failed to cleanup kube-proxy: '' (cleanupKubeProxy api c)))"

definition runApply ::
    "('s, 'obj) addon_api \<Rightarrow> cluster_config_spec json_decoder \<Rightarrow> cluster \<Rightarrow>
     (cluster \<Rightarrow> string \<Rightarrow> ('s, unit) operation) \<Rightarrow> string \<Rightarrow> ('s, unit) operation" where
  "runApply api decode cluster strategy targetNamespace =
     bind_op (strategy cluster targetNamespace) (\<lambda>_.
     bind_op (wrap_op ''failed to get kube proxy mode: ''
         (sum_op (KubeProxyIsDisabled decode cluster))) (\<lambda>kubeProxyIsDisabled.
     if \<not> kubeProxyIsDisabled then return_op ()
     else bind_op (wrap_op ''error creating remote cluster client: '' (remote_client_op api cluster))
       (\<lambda>remoteClient.
     bind_op (wrap_op ''failed to check if kube-proxy is installed: ''
         (isKubeProxyInstalled api remoteClient)) (\<lambda>isKubeProxyInstalled.
     if \<not> isKubeProxyInstalled then return_op () else replaceKubeProxy api remoteClient))))"

section \<open>The pre-flight release\<close>

definition preflight_daemon_set_ready :: "daemon_set \<Rightarrow> bool reply" where
  "preflight_daemon_set_ready ds =
     (if ds_generation ds \<noteq> ds_observed ds then Ok False else Ok (ds_ready ds = ds_desired ds))"

text \<open>\<open>Spec.Replicas\<close> is a pointer.\<close>

definition preflight_deployment_ready :: "deployment \<Rightarrow> bool reply" where
  "preflight_deployment_ready d =
     (if dp_generation d \<noteq> dp_observed d then Ok False
      else case dp_replicas d of
        None \<Rightarrow> Panic nil_dereference
      | Some replicas \<Rightarrow> Ok (dp_available d = replicas))"

definition waitForCiliumPreflightDaemonset ::
    "('s, 'obj) addon_api \<Rightarrow> api_client \<Rightarrow> ('s, unit) operation" where
  "waitForCiliumPreflightDaemonset api c =
     wrap_op (''failed to wait for cilium preflight DaemonSet '' @
         object_text kube_system ''cilium-pre-flight-check'' @ '' to be Ready: '')
       (ForObject api (ad_daemon_set api c kube_system ''cilium-pre-flight-check'')
          preflight_daemon_set_ready 1 30)"

definition waitForCiliumPreflightDeployment ::
    "('s, 'obj) addon_api \<Rightarrow> api_client \<Rightarrow> ('s, unit) operation" where
  "waitForCiliumPreflightDeployment api c =
     wrap_op (''failed to wait for cilium preflight Deployment  '' @
         object_text kube_system ''cilium-pre-flight-check'' @ '' to be Ready: '')
       (ForObject api (ad_deployment api c kube_system ''cilium-pre-flight-check'')
          preflight_deployment_ready 1 30)"

definition waitForCiliumPreflightResources ::
    "('s, 'obj) addon_api \<Rightarrow> cluster \<Rightarrow> ('s, unit) operation" where
  "waitForCiliumPreflightResources api cluster =
     bind_op (wrap_op ''error creating remote cluster client: '' (remote_client_op api cluster))
       (\<lambda>remoteClient.
     bind_op (wrap_op ''failed to wait for Cilium preflight DaemonSet to be ready: ''
         (waitForCiliumPreflightDaemonset api remoteClient)) (\<lambda>_.
     wrap_op ''failed to wait for Cilium preflight Deployment to be ready: ''
       (waitForCiliumPreflightDeployment api remoteClient)))"

section \<open>The handler\<close>

text \<open>An annotation that is not a boolean does not skip.\<close>

definition skipCiliumPreflight :: "cluster \<Rightarrow> bool" where
  "skipCiliumPreflight cluster =
     (case cl_annotations cluster ''caren.nutanix.com/skip-cilium-preflight'' of
        None \<Rightarrow> False
      | Some val \<Rightarrow>
          if val = [] then False
          else (case ParseBool val of Inl err \<Rightarrow> False | Inr skip \<Rightarrow> skip))"

text \<open>
  How the handler is set up: the flags (names of ConfigMaps) and the parameters for the variables
  of the Cluster and the templates.
\<close>

record cilium_setup =
  cil_crs_name :: string
  cil_values_name :: string
  cil_decode :: "cluster_config_spec json_decoder"
  cil_parse :: "cilium_input template_parser"
  cil_parse_preflight :: "cilium_preflight_input template_parser"

text \<open>
  The name of the values, their namespace and the response.  When the owner cannot be set, the
  response becomes a failure and the handler goes on.
\<close>

definition cilium_values_source ::
    "('s, 'obj) addon_env \<Rightarrow> cilium_setup \<Rightarrow> (string \<times> string) option \<Rightarrow> cluster \<Rightarrow> hook_response \<Rightarrow>
     ('s, string \<times> string \<times> hook_response) operation" where
  "cilium_values_source env setup source cluster resp =
     (case source of
        None \<Rightarrow> return_op (cil_values_name setup, en_defaults env, resp)
      | Some (kind, name) \<Rightarrow>
          on_error (\<lambda>err. (name, cl_namespace cluster, fail_with
              (''failed to set Cluster's owner reference on Cilium helm values source object: '' @ err)
              resp))
            (bind_op (own_op (en_api env) kind name cluster)
               (\<lambda>_. return_op (name, cl_namespace cluster, resp))))"

definition preflight_applier ::
    "('s, 'obj) addon_env \<Rightarrow> cilium_setup \<Rightarrow> string \<Rightarrow> helm_chart \<Rightarrow> ('s, 'obj) helm_applier" where
  "preflight_applier env setup valuesName chart =
     WithDefaultWaiter (WithPreflightEnabled (WithValueTemplater
       (cilium_preflightTemplateValues (cil_decode setup) (cil_parse_preflight setup))
       (new_applier env \<lparr>ha_template = valuesName, ha_namespace = kube_system,
          ha_release = ''cilium-preflight''\<rparr> chart)))"

definition cilium_applier ::
    "('s, 'obj) addon_env \<Rightarrow> cilium_setup \<Rightarrow> string \<Rightarrow> helm_chart \<Rightarrow> ('s, 'obj) helm_applier" where
  "cilium_applier env setup valuesName chart =
     WithDefaultWaiter (WithValueTemplater (cilium_templateValues (cil_decode setup) (cil_parse setup))
       (new_applier env \<lparr>ha_template = valuesName, ha_namespace = kube_system,
          ha_release = ''cilium''\<rparr> chart))"

text \<open>The steps of the Helm strategy, of which the first three are for a pre-flight release.\<close>

definition cilium_helm_steps ::
    "('s, 'obj) addon_env \<Rightarrow> cilium_setup \<Rightarrow> bool \<Rightarrow> string \<Rightarrow> string \<Rightarrow> helm_chart \<Rightarrow> cluster \<Rightarrow>
     ('s, unit) operation" where
  "cilium_helm_steps env setup preflight valuesName targetNamespace chart cluster =
     (let preflightStrategy = preflight_applier env setup valuesName chart
      in bind_op (if preflight then
             bind_op (helm_Apply preflightStrategy cluster targetNamespace)
               (\<lambda>_. waitForCiliumPreflightResources (en_api env) cluster)
           else return_op ()) (\<lambda>_.
         bind_op (runApply (en_api env) (cil_decode setup) cluster
             (helm_Apply (cilium_applier env setup valuesName chart)) targetNamespace) (\<lambda>_.
         if preflight then
           wrap_op ''failed to delete Cilium preflight release: ''
             (helm_Delete preflightStrategy cluster)
         else return_op ())))"

definition cilium_apply ::
    "('s, 'obj) addon_env \<Rightarrow> cilium_setup \<Rightarrow> bool \<Rightarrow> cni_variable variable \<Rightarrow> cluster \<Rightarrow> hook_response \<Rightarrow>
     ('s, hook_response) operation" where
  "cilium_apply env setup preflight var cluster resp =
     (case var of
        Missing _ \<Rightarrow> return_op resp
      | Failed err \<Rightarrow>
          return_op (fail_with
            (''failed to read CNI provider from cluster definition: '' @ err) resp)
      | Found cniVar \<Rightarrow>
          if cni_provider cniVar \<noteq> ''Cilium'' then return_op resp
          else if cni_strategy cniVar = ResourceSetStrategy then
            answer resp (runApply (en_api env) (cil_decode setup) cluster
              (cilium_crs_Apply env (cil_crs_name setup)) (en_defaults env))
          else if cni_strategy cniVar = HelmAddonStrategy then
            on_error (\<lambda>err. fail_with err resp)
              (bind_op (wrap_op ''failed to get configuration to create helm addon: ''
                   (chart_For (en_api env) (en_charts env) ''cilium'')) (\<lambda>chart.
               bind_op (cilium_values_source env setup (cni_source cniVar) cluster resp)
                 (\<lambda>(valuesName, targetNamespace, resp).
               answer resp
                 (cilium_helm_steps env setup preflight valuesName targetNamespace chart cluster))))
          else if cni_strategy cniVar = [] then panic_op nil_dereference
          else return_op (fail_with
            (''unknown CNI addon deployment strategy '' @ quoted (cni_strategy cniVar)) resp))"

definition cilium_AfterControlPlaneInitialized ::
    "('s, 'obj) addon_env \<Rightarrow> cilium_setup \<Rightarrow> cni_variable variable \<Rightarrow> cluster \<Rightarrow> hook_response \<Rightarrow>
     ('s, hook_response) operation" where
  "cilium_AfterControlPlaneInitialized env setup var cluster =
     common_hook (cilium_apply env setup False var cluster)"

definition cilium_BeforeClusterUpgrade ::
    "('s, 'obj) addon_env \<Rightarrow> cilium_setup \<Rightarrow> cni_variable variable \<Rightarrow> cluster \<Rightarrow> hook_response \<Rightarrow>
     ('s, hook_response) operation" where
  "cilium_BeforeClusterUpgrade env setup var cluster =
     common_hook (cilium_apply env setup (\<not> skipCiliumPreflight cluster) var cluster)"

end
