(* ===== verification/AutoscalerAddon.thy ===== *)
theory AutoscalerAddon
  imports CcmAddons
begin

text \<open>
  \<open>pkg/handlers/lifecycle/clusterautoscaler\<close>: the cluster autoscaler of a workload cluster
  runs on the management cluster, so that its objects are made for that cluster, which cannot own
  what belongs to another namespace; the hook before the deletion of the Cluster removes them.
\<close>

section \<open>Templates\<close>

text \<open>The input of a template is the Cluster.\<close>

definition autoscaler_templateValues ::
    "cluster template_parser \<Rightarrow> cluster \<Rightarrow> string \<Rightarrow> string reply" where
  "autoscaler_templateValues parse cluster text =
     (case parse text of
        Inl err \<Rightarrow> Err (''failed to parse template: '' @ err)
      | Inr t \<Rightarrow>
          (case t cluster of
             Inl err \<Rightarrow>
               Err (''failed setting target Cluster name and namespace in template: '' @ err)
           | Inr b \<Rightarrow> Ok b))"

fun templateData ::
    "cluster template_parser \<Rightarrow> cluster \<Rightarrow> (string \<times> string) list \<Rightarrow>
     (string \<times> string) list reply" where
  "templateData parse cluster [] = Ok []"
| "templateData parse cluster ((k, v) # data) =
     (case autoscaler_templateValues parse cluster v of
        Ok templatedV \<Rightarrow>
          (case templateData parse cluster data of
             Ok templated \<Rightarrow> Ok ((k, templatedV) # templated)
           | r \<Rightarrow> r)
      | Err err \<Rightarrow> Err (''failed to template values: '' @ err)
      | Panic msg \<Rightarrow> Panic msg)"

section \<open>The target\<close>

text \<open>The management cluster, or the Cluster that will become one.\<close>

definition findTargetCluster :: "('s, 'obj) addon_api \<Rightarrow> cluster \<Rightarrow> ('s, cluster) operation" where
  "findTargetCluster api cluster s =
     (case ManagementCluster (ad_clusters api s) of
        Inl err \<Rightarrow> (Err (''failed to get management Cluster: '' @ err), s)
      | Inr existing \<Rightarrow> (Ok (case existing of None \<Rightarrow> cluster | Some c \<Rightarrow> c), s))"

definition autoscaler_addonName :: string where
  "autoscaler_addonName = ''ca''"

text \<open>A missing annotation gives the empty UUID.\<close>

definition addonResourceNameForCluster :: "cluster \<Rightarrow> string" where
  "addonResourceNameForCluster cluster =
     autoscaler_addonName @ ''-'' @ (case uuid_of cluster of None \<Rightarrow> [] | Some u \<Rightarrow> u)"

section \<open>ClusterResourceSet\<close>

definition autoscaler_crs_apply ::
    "('s, 'obj) addon_env \<Rightarrow> cluster template_parser \<Rightarrow> string \<Rightarrow> cluster \<Rightarrow> string \<Rightarrow>
     ('s, unit) operation" where
  "autoscaler_crs_apply env parse configMapName cluster defaultsNamespace =
     bind_op (wrap_op ''failed to get default cluster-autoscaler ConfigMap: ''
         (call_op (ad_config_map (en_api env) Management defaultsNamespace configMapName)))
       (\<lambda>defaultCM.
     bind_op (wrap_op ''failed to template cluster-autoscaler configuration: ''
         (reply_op (templateData parse cluster (cm_data defaultCM)))) (\<lambda>data.
     let cm = \<lparr>cm_namespace = cl_namespace cluster,
           cm_name = addonResourceNameForCluster cluster, cm_data = data, cm_binary = []\<rparr>
     in bind_op (wrap_op ''failed to apply cluster-autoscaler installation ConfigMap: ''
            (apply_op (en_api env) Management True None (ConfigMapObject cm))) (\<lambda>_.
        bind_op (findTargetCluster (en_api env) cluster) (\<lambda>targetCluster.
        bind_op (wrap_op ''error creating remote cluster client: ''
            (remote_client_op (en_api env) targetCluster)) (\<lambda>remoteClient.
        bind_op (wrap_op ''failed to create Namespace in remote cluster: ''
            (EnsureNamespaceWithName (en_api env) remoteClient (cl_namespace cluster))) (\<lambda>_.
        wrap_op ''failed to apply cluster-autoscaler installation ClusterResourceSet: ''
          (EnsureCRSForClusterFromObjects (en_api env) (en_show env) (cm_name cm) targetCluster
             (Some targetCluster) [ConfigMapObject cm])))))))"

definition autoscaler_crs_delete ::
    "('s, 'obj) addon_env \<Rightarrow> cluster \<Rightarrow> ('s, unit) operation" where
  "autoscaler_crs_delete env cluster =
     bind_op (findTargetCluster (en_api env) cluster) (\<lambda>targetCluster.
     wrap_op ''failed to delete cluster-autoscaler installation ClusterResourceSet: ''
       (delete_ignoring_op (en_api env) Management
          (''ClusterResourceSet'', cl_namespace targetCluster, addonResourceNameForCluster cluster)))"

section \<open>Helm\<close>

definition autoscaler_helm_apply ::
    "('s, 'obj) addon_env \<Rightarrow> cluster template_parser \<Rightarrow> string \<Rightarrow> helm_chart \<Rightarrow> cluster \<Rightarrow> string \<Rightarrow>
     ('s, unit) operation" where
  "autoscaler_helm_apply env parse valuesName chart cluster defaultsNamespace =
     bind_op (findTargetCluster (en_api env) cluster) (\<lambda>targetCluster.
     wrap_op ''failed to apply cluster-autoscaler installation HelmChartProxy: ''
       (helm_Apply
          (WithHelmReleaseName (addonResourceNameForCluster cluster)
             (WithValueTemplater (autoscaler_templateValues parse)
                (WithTargetCluster (Some targetCluster)
                   (new_applier env \<lparr>ha_template = valuesName, ha_namespace = cl_namespace cluster,
                      ha_release = autoscaler_addonName\<rparr> chart))))
          cluster defaultsNamespace))"

definition autoscaler_helm_delete ::
    "('s, 'obj) addon_env \<Rightarrow> cluster \<Rightarrow> ('s, unit) operation" where
  "autoscaler_helm_delete env cluster =
     bind_op (findTargetCluster (en_api env) cluster) (\<lambda>targetCluster.
     wrap_op ''failed to delete cluster-autoscaler installation HelmChartProxy: ''
       (delete_ignoring_op (en_api env) Management
          (''HelmChartProxy'', cl_namespace targetCluster, addonResourceNameForCluster cluster)))"

section \<open>The handler\<close>

text \<open>The flags: the names of the ConfigMaps for both strategies.\<close>

record autoscaler_setup =
  aut_crs_name :: string
  aut_values_name :: string
  aut_parse :: "cluster template_parser"

text \<open>\<open>getCAVariable\<close>: the strategy, or nothing when the variable is not there.\<close>

definition getCAVariable :: "string variable \<Rightarrow> string + string option" where
  "getCAVariable var =
     (case var of Missing _ \<Rightarrow> Inr None | Failed err \<Rightarrow> Inl err | Found strategy \<Rightarrow> Inr (Some strategy))"

definition autoscaler_apply ::
    "('s, 'obj) addon_env \<Rightarrow> autoscaler_setup \<Rightarrow> string variable \<Rightarrow> cluster \<Rightarrow> hook_response \<Rightarrow>
     ('s, hook_response) operation" where
  "autoscaler_apply env setup var cluster resp =
     (case getCAVariable var of
        Inl err \<Rightarrow> return_op (fail_with err resp)
      | Inr None \<Rightarrow> return_op (succeed resp)
      | Inr (Some strategy) \<Rightarrow>
          if strategy = ResourceSetStrategy then
            answer resp (autoscaler_crs_apply env (aut_parse setup) (aut_crs_name setup) cluster
              (en_defaults env))
          else if strategy = HelmAddonStrategy then
            answer resp
              (bind_op (wrap_op ''failed to get config to create helm addon: ''
                   (chart_For (en_api env) (en_charts env) ''cluster-autoscaler'')) (\<lambda>chart.
               autoscaler_helm_apply env (aut_parse setup) (aut_values_name setup) chart cluster
                 (en_defaults env)))
          else if strategy = [] then panic_op nil_dereference
          else return_op (fail_with
            (''unknown cluster-autoscaler addon deployment strategy '' @ quoted strategy) resp))"

definition autoscaler_AfterControlPlaneInitialized ::
    "('s, 'obj) addon_env \<Rightarrow> autoscaler_setup \<Rightarrow> string variable \<Rightarrow> cluster \<Rightarrow> hook_response \<Rightarrow>
     ('s, hook_response) operation" where
  "autoscaler_AfterControlPlaneInitialized env setup var cluster =
     common_hook (autoscaler_apply env setup var cluster)"

definition autoscaler_BeforeClusterUpgrade ::
    "('s, 'obj) addon_env \<Rightarrow> autoscaler_setup \<Rightarrow> string variable \<Rightarrow> cluster \<Rightarrow> hook_response \<Rightarrow>
     ('s, hook_response) operation" where
  "autoscaler_BeforeClusterUpgrade env setup var cluster =
     common_hook (autoscaler_apply env setup var cluster)"

definition autoscaler_BeforeClusterDelete ::
    "('s, 'obj) addon_env \<Rightarrow> string variable \<Rightarrow> cluster \<Rightarrow> hook_response \<Rightarrow>
     ('s, hook_response) operation" where
  "autoscaler_BeforeClusterDelete env var cluster resp =
     (case getCAVariable var of
        Inl err \<Rightarrow> return_op (fail_with err resp)
      | Inr None \<Rightarrow> return_op (succeed resp)
      | Inr (Some strategy) \<Rightarrow>
          if strategy = ResourceSetStrategy then answer resp (autoscaler_crs_delete env cluster)
          else if strategy = HelmAddonStrategy then answer resp (autoscaler_helm_delete env cluster)
          else if strategy = [] then
            return_op (fail_with ''strategy not specified for cluster-autoscaler addon'' resp)
          else return_op (fail_with
            (''unknown cluster-autoscaler addon deployment strategy '' @ quoted strategy) resp))"

end
