(* ===== verification/LoadBalancerAddon.thy ===== *)
theory LoadBalancerAddon
  imports AddonStrategies
begin

text \<open>
  \<open>pkg/handlers/lifecycle/serviceloadbalancer\<close>: MetalLB is installed on the workload
  cluster, and then the pool of its addresses and their advertisement are applied there, again
  and again while the webhooks of MetalLB are not yet registered.
\<close>

section \<open>Configuration\<close>

text \<open>\<open>slb_ranges\<close> has start and end of each range of \<open>Configuration\<close>, if it is set.\<close>

record load_balancer_variable =
  slb_provider :: string
  slb_ranges :: "(string \<times> string) list option"

definition metallb_release :: string where
  "metallb_release = ''metallb''"

definition metallb_namespace :: string where
  "metallb_namespace = ''metallb-system''"

definition ConfigurationObjects ::
    "string \<Rightarrow> string \<Rightarrow> (string \<times> string) list \<Rightarrow> string + addon_object list" where
  "ConfigurationObjects name namespace addressRanges =
     (if addressRanges = [] then Inl ''must define one or more AddressRanges''
      else Inr [AddressPoolObject namespace name (map (\<lambda>(start, end). start @ ''-'' @ end) addressRanges),
        AdvertisementObject namespace name [name]])"

definition podSecurityReleaseNamespaceLabels :: "string \<rightharpoonup> string" where
  "podSecurityReleaseNamespaceLabels =
     [''pod-security.kubernetes.io/enforce'' \<mapsto> ''privileged'',
      ''pod-security.kubernetes.io/enforce-version'' \<mapsto> ''latest'']"

text \<open>What a conflict says, by the type of the object.\<close>

fun conflict_text :: "addon_object \<Rightarrow> string \<Rightarrow> string" where
  "conflict_text (AddressPoolObject ns name addresses) err =
     err @ ''. This resource has been modified in the workload cluster: it must contain '' @
       ''exactly the addresses listed in the Cluster configuration''"
| "conflict_text (AdvertisementObject ns name pools) err =
     err @ ''. This resource has been modified in the workload cluster, it must only contain '' @
       ''the '' @ quoted metallb_release @ '' IP Address Pool''"
| "conflict_text obj err = err"

text \<open>
  One call of the condition: the objects are applied in order without forcing ownership.  An
  internal error is tried again, a conflict is kept in the variable \<open>applyErr\<close> and ends the
  wait, as does any other error.
\<close>

fun apply_configuration ::
    "('s, 'obj) addon_api \<Rightarrow> api_client \<Rightarrow> addon_object list \<Rightarrow> string option \<Rightarrow> 's \<Rightarrow>
     (bool reply \<times> string option) \<times> 's" where
  "apply_configuration api client [] applyErr s = ((Ok True, applyErr), s)"
| "apply_configuration api client (obj # objs) applyErr s =
     (case ad_apply api client False None obj s of
        (None, s') \<Rightarrow> apply_configuration api client objs applyErr s'
      | (Some (InternalError err), s') \<Rightarrow> ((Ok False, applyErr), s')
      | (Some (Conflict err), s') \<Rightarrow>
          (case addon_key obj of (kind, ns, name) \<Rightarrow>
             let e = ''failed to apply MetalLB configuration '' @ kind @ '' '' @
                   object_text ns name @ '': '' @ conflict_text obj err
             in ((Err e, Some e), s'))
      | (Some (OtherApplyError err), s') \<Rightarrow> ((Err err, applyErr), s'))"

definition configure_metallb ::
    "('s, 'obj) addon_api \<Rightarrow> api_client \<Rightarrow> addon_object list \<Rightarrow> ('s, unit) operation" where
  "configure_metallb api client cos s =
     (case poll_until (ad_deadline api) (ad_pass api) (ad_polls api 2 10)
        (apply_configuration api client cos) None s of
        ((Err waitErr, Some applyErr), s') \<Rightarrow> (Err (waitErr @ '': last apply error: '' @ applyErr), s')
      | ((Err waitErr, None), s') \<Rightarrow> (Err (''failed to apply MetalLB configuration: '' @ waitErr), s')
      | ((r, _), s') \<Rightarrow> (r, s'))"

text \<open>The error of the namespace names the release.\<close>

definition metallb_Apply ::
    "('s, 'obj) addon_env \<Rightarrow> string \<Rightarrow> load_balancer_variable \<Rightarrow> cluster \<Rightarrow> ('s, unit) operation" where
  "metallb_Apply env configMapName slb cluster =
     bind_op (wrap_op ''error creating remote cluster client: ''
         (remote_client_op (en_api env) cluster)) (\<lambda>remoteClient.
     bind_op (wrap_op (''failed to ensure release namespace '' @ quoted metallb_release @
           '' exists: '')
         (EnsureNamespaceWithMetadata (en_api env) remoteClient metallb_namespace
            (Some podSecurityReleaseNamespaceLabels) None)) (\<lambda>_.
     bind_op (wrap_op ''failed to get MetalLB helm chart: ''
         (chart_For (en_api env) (en_charts env) ''metallb'')) (\<lambda>chart.
     bind_op (wrap_op ''failed to apply MetalLB addon: ''
         (helm_Apply (WithDefaultWaiter (new_applier env \<lparr>ha_template = configMapName,
              ha_namespace = metallb_namespace, ha_release = metallb_release\<rparr> chart))
            cluster (en_defaults env))) (\<lambda>_.
     case slb_ranges slb of
       None \<Rightarrow> return_op ()
     | Some ranges \<Rightarrow>
         bind_op (wrap_op ''failed to generate MetalLB configuration: ''
             (sum_op (ConfigurationObjects metallb_release metallb_namespace ranges)))
           (configure_metallb (en_api env) remoteClient)))))"

section \<open>The handler\<close>

definition load_balancer_apply ::
    "(string \<rightharpoonup> (load_balancer_variable \<Rightarrow> cluster \<Rightarrow> ('s, unit) operation)) \<Rightarrow>
     load_balancer_variable variable \<Rightarrow> cluster \<Rightarrow> hook_response \<Rightarrow> ('s, hook_response) operation" where
  "load_balancer_apply handlers var cluster resp =
     (case var of
        Missing _ \<Rightarrow> return_op resp
      | Failed err \<Rightarrow>
          return_op (fail_with
            (''failed to read ServiceLoadBalancer provider from cluster definition: '' @ err) resp)
      | Found slb \<Rightarrow>
          (case handlers (slb_provider slb) of
             None \<Rightarrow>
               return_op (fail_with
                 (''unknown ServiceLoadBalancer Provider '' @ slb_provider slb) resp)
           | Some handler \<Rightarrow>
               answer (resp\<lparr>hr_message := ''deployed ServiceLoadBalancer provider '' @
                   slb_provider slb\<rparr>)
                 (wrap_op ''failed to deploy ServiceLoadBalancer provider: ''
                   (handler slb cluster))))"

definition load_balancer_AfterControlPlaneInitialized ::
    "(string \<rightharpoonup> (load_balancer_variable \<Rightarrow> cluster \<Rightarrow> ('s, unit) operation)) \<Rightarrow>
     load_balancer_variable variable \<Rightarrow> cluster \<Rightarrow> hook_response \<Rightarrow> ('s, hook_response) operation" where
  "load_balancer_AfterControlPlaneInitialized handlers var cluster =
     common_hook (load_balancer_apply handlers var cluster)"

definition load_balancer_BeforeClusterUpgrade ::
    "(string \<rightharpoonup> (load_balancer_variable \<Rightarrow> cluster \<Rightarrow> ('s, unit) operation)) \<Rightarrow>
     load_balancer_variable variable \<Rightarrow> cluster \<Rightarrow> hook_response \<Rightarrow> ('s, hook_response) operation" where
  "load_balancer_BeforeClusterUpgrade handlers var cluster =
     common_hook (load_balancer_apply handlers var cluster)"

definition load_balancer_handlers_of ::
    "('s, 'obj) addon_env \<Rightarrow> string \<Rightarrow>
     string \<rightharpoonup> (load_balancer_variable \<Rightarrow> cluster \<Rightarrow> ('s, unit) operation)" where
  "load_balancer_handlers_of env configMapName = [''MetalLB'' \<mapsto> metallb_Apply env configMapName]"

end
