(* ===== verification/RegistryCerts.thy ===== *)
theory RegistryCerts
  imports AddonStrategies
begin

text \<open>
  \<open>pkg/handlers/lifecycle/registry/utils\<close>: the names and addresses of the registry of a
  cluster, and its certificates: a root in the namespace of the management cluster, whose
  certificate is copied for every Cluster, and one for the server of every workload cluster,
  signed by the root.  Keys, random numbers, PEM and X.509 are parameters.
\<close>

section \<open>\<open>registry_metadata.go\<close>\<close>

record registry_metadata =
  rm_release :: string
  rm_release_namespace :: string
  rm_replicas :: nat
  rm_namespace :: string
  rm_stateful_set :: string
  rm_any_pod :: string
  rm_service :: string
  rm_headless_service :: string
  rm_service_ip :: string
  rm_service_port :: int
  rm_headless_port :: int
  rm_address :: string
  rm_tls_secret :: string
  rm_ca_secret :: string
  rm_dns_names :: "string list"
  rm_ip_addresses :: "string list"

definition numbered :: "string \<Rightarrow> nat \<Rightarrow> string" where
  "numbered name i = name @ ''-'' @ itoa (int i)"

definition getCertificateDNSNames :: "string \<Rightarrow> string \<Rightarrow> string \<Rightarrow> nat \<Rightarrow> string list" where
  "getCertificateDNSNames workloadName headlessServiceName namespace replicas =
     [workloadName, workloadName @ ''.'' @ namespace, workloadName @ ''.'' @ namespace @ ''.svc'',
      workloadName @ ''.'' @ namespace @ ''.svc.cluster.local''] @
     concat (map (\<lambda>i.
        let pod = numbered workloadName i;
            host = pod @ ''.'' @ headlessServiceName @ ''.'' @ namespace
        in [pod, host, host @ ''.svc'', host @ ''.svc.cluster.local'']) [0..<replicas])"

definition getCertificateIPAddresses :: "string \<Rightarrow> string list" where
  "getCertificateIPAddresses serviceIP = [serviceIP, ''127.0.0.1'']"

definition registry_workload :: string where
  "registry_workload = ''cncf-distribution-registry-docker-registry''"

definition registry_namespace :: string where
  "registry_namespace = ''registry-system''"

definition GetRegistryMetadata :: "'net service_net \<Rightarrow> cluster \<Rightarrow> string + registry_metadata" where
  "GetRegistryMetadata net cluster =
     bind_sum ''error getting service IP for the CNCF distribution registry: ''
       (ServiceIPForCluster net cluster)
       (\<lambda>serviceIP. Inr \<lparr>rm_release = ''cncf-distribution-registry'',
          rm_release_namespace = registry_namespace, rm_replicas = 2,
          rm_namespace = registry_namespace, rm_stateful_set = registry_workload,
          rm_any_pod = numbered registry_workload 0, rm_service = registry_workload,
          rm_headless_service = registry_workload @ ''-headless'', rm_service_ip = serviceIP,
          rm_service_port = 443, rm_headless_port = 5000,
          rm_address = registry_workload @ ''.'' @ registry_namespace @
            ''.svc.cluster.local:'' @ itoa 443,
          rm_tls_secret = ''registry-tls'',
          rm_ca_secret = SecretNameForRegistryAddonCA cluster,
          rm_dns_names = getCertificateDNSNames registry_workload (registry_workload @ ''-headless'')
            registry_namespace 2,
          rm_ip_addresses = getCertificateIPAddresses serviceIP\<rparr>)"

section \<open>Certificates\<close>

text \<open>
  A template for a certificate: times in nanoseconds, uses as the names of the flags.
\<close>

record certificate =
  ct_serial :: nat
  ct_common_name :: string
  ct_not_before :: int
  ct_not_after :: int
  ct_key_usage :: "string list"
  ct_ext_usage :: "string list"
  ct_is_ca :: bool
  ct_basic_constraints :: bool
  ct_dns_names :: "string list"
  ct_ips :: "string list"

text \<open>
  \<open>cb_sign\<close> makes a certificate from a template: the parent (\<open>None\<close> when it signs
  itself), the key of the subject and the key that signs.  A key that was parsed is of type
  \<open>'p\<close>; \<open>cb_own\<close> is a generated key as such.
\<close>

record ('s, 'k, 'p, 'c) cert_lib =
  cb_generate :: "'s \<Rightarrow> (string + 'k) \<times> 's"
  cb_serial :: "'s \<Rightarrow> (string + nat) \<times> 's"
  cb_sign :: "certificate \<Rightarrow> 'c option \<Rightarrow> 'k \<Rightarrow> 'p \<Rightarrow> 's \<Rightarrow> (string + string) \<times> 's"
  cb_own :: "'k \<Rightarrow> 'p"
  cb_marshal :: "'k \<Rightarrow> string"
  cb_encode :: "string \<Rightarrow> string \<Rightarrow> string"
  cb_decode :: "string \<Rightarrow> (string \<times> string) option"
  cb_parse_certificate :: "string \<Rightarrow> string + 'c"
  cb_parse_pkcs1 :: "string \<Rightarrow> string + 'p"
  cb_parse_pkcs8 :: "string \<Rightarrow> string + 'p"
  cb_parse_ip :: "string \<Rightarrow> string option"
  cb_now :: "'s \<Rightarrow> int"

definition try_op :: "('s \<Rightarrow> (string + 'a) \<times> 's) \<Rightarrow> ('s, 'a) operation" where
  "try_op f s = (case f s of (Inl err, s') \<Rightarrow> (Err err, s') | (Inr x, s') \<Rightarrow> (Ok x, s'))"

definition hour_ns :: int where
  "hour_ns = 3600 * second_ns"

definition defaultRootCADuration :: int where
  "defaultRootCADuration = 10 * 365 * 24 * hour_ns"

definition defaultCertificateNotBeforeSkew :: int where
  "defaultCertificateNotBeforeSkew = 5 * 60 * second_ns"

definition defaultCertificateDuration :: int where
  "defaultCertificateDuration = 2 * 365 * 24 * hour_ns"

text \<open>Certificate and key of the root, in PEM.\<close>

definition generateRegistryAddonRootCAData ::
    "('s, 'k, 'p, 'c) cert_lib \<Rightarrow> ('s, string \<times> string) operation" where
  "generateRegistryAddonRootCAData lib =
     bind_op (wrap_op ''failed to generate private key: '' (try_op (cb_generate lib))) (\<lambda>privateKey.
     bind_op (wrap_op ''failed to generate serial number: '' (try_op (cb_serial lib))) (\<lambda>serialNumber.
     bind_op (\<lambda>s. (Ok (cb_now lib s), s)) (\<lambda>now.
     bind_op (wrap_op ''failed to create certificate: ''
         (try_op (cb_sign lib
            \<lparr>ct_serial = serialNumber, ct_common_name = ''registry-addon'',
             ct_not_before = now - defaultCertificateNotBeforeSkew,
             ct_not_after = now + defaultRootCADuration,
             ct_key_usage = [''DigitalSignature'', ''KeyEncipherment'', ''CertSign''],
             ct_ext_usage = [], ct_is_ca = True, ct_basic_constraints = True, ct_dns_names = [],
             ct_ips = []\<rparr> None privateKey (cb_own lib privateKey)))) (\<lambda>certDER.
     return_op (cb_encode lib ''CERTIFICATE'' certDER,
       cb_encode lib ''RSA PRIVATE KEY'' (cb_marshal lib privateKey))))))"

definition buildRegistryAddonRootCASecret :: "string \<Rightarrow> string \<Rightarrow> string \<Rightarrow> secret_object" where
  "buildRegistryAddonRootCASecret certPEM keyPEM namespace =
     \<lparr>sec_namespace = namespace, sec_name = RegistryAddonRootCASecretName,
      sec_data = [''ca.crt'' \<mapsto> certPEM, ''tls.crt'' \<mapsto> certPEM, ''tls.key'' \<mapsto> keyPEM],
      sec_string_data = Map.empty, sec_type = []\<rparr>"

text \<open>
  The root is made once: an error that the Secret does not exist goes on.
\<close>

definition EnsureRegistryAddonRootCASecret ::
    "('s, 'obj) addon_api \<Rightarrow> ('s, 'k, 'p, 'c) cert_lib \<Rightarrow> ('s, unit) operation" where
  "EnsureRegistryAddonRootCASecret api lib =
     bind_op (SecretForRegistryAddonRootCA api) (\<lambda>found.
     case found of
       Inr secret \<Rightarrow> return_op ()
     | Inl (missing, err) \<Rightarrow>
         if \<not> missing then error_op err
         else bind_op (wrap_op ''failed to get management cluster: ''
                (\<lambda>s. sum_op (ManagementOrFutureManagementCluster (ad_clusters api s)) s))
              (\<lambda>managementCluster.
              bind_op (wrap_op ''failed to generate registry addon root CA data: ''
                (generateRegistryAddonRootCAData lib)) (\<lambda>(certPEM, keyPEM).
              wrap_op ''failed to ensure registry addon root CA secret: ''
                (EnsureSecretForLocalCluster api
                   (buildRegistryAddonRootCASecret certPEM keyPEM (cl_namespace managementCluster))
                   managementCluster))))"

text \<open>Only \<open>ca.crt\<close> is copied; a missing key gives an empty value.\<close>

definition buildClusterCASecret :: "secret_object \<Rightarrow> cluster \<Rightarrow> secret_object" where
  "buildClusterCASecret globalTLSCertificateSecret cluster =
     \<lparr>sec_namespace = cl_namespace cluster, sec_name = SecretNameForRegistryAddonCA cluster,
      sec_data = [''ca.crt'' \<mapsto> (case sec_data globalTLSCertificateSecret ''ca.crt'' of
        None \<Rightarrow> [] | Some v \<Rightarrow> v)],
      sec_string_data = Map.empty, sec_type = []\<rparr>"

definition root_ca_op :: "('s, 'obj) addon_api \<Rightarrow> ('s, secret_object) operation" where
  "root_ca_op api =
     bind_op (SecretForRegistryAddonRootCA api) (\<lambda>found.
     case found of Inr secret \<Rightarrow> return_op secret | Inl (missing, err) \<Rightarrow> error_op err)"

definition EnsureCASecretForCluster ::
    "('s, 'obj) addon_api \<Rightarrow> cluster \<Rightarrow> ('s, unit) operation" where
  "EnsureCASecretForCluster api cluster =
     bind_op (root_ca_op api) (\<lambda>globalTLSCertificateSecret.
     wrap_op ''failed to ensure cluster CA secret for cluster: ''
       (EnsureSecretForLocalCluster api (buildClusterCASecret globalTLSCertificateSecret cluster)
          cluster))"

text \<open>What the certificate of a server is to have; a duration of zero is the default.\<close>

record certificate_opts =
  eo_secret_key :: "string \<times> string"
  eo_common_name :: string
  eo_dns_names :: "string list"
  eo_ips :: "string list"
  eo_duration :: int

definition parse_private_key ::
    "('s, 'k, 'p, 'c) cert_lib \<Rightarrow> string \<times> string \<Rightarrow> string + 'p" where
  "parse_private_key lib block =
     (if fst block = ''RSA PRIVATE KEY'' then cb_parse_pkcs1 lib (snd block)
      else if fst block = ''PRIVATE KEY'' then cb_parse_pkcs8 lib (snd block)
      else Inl (''unsupported private key encoding type '' @ quoted (fst block)))"

text \<open>The CA of the Secret: the PEM of its certificate, the certificate and the key.\<close>

definition load_ca ::
    "('s, 'k, 'p, 'c) cert_lib \<Rightarrow> secret_object \<Rightarrow> string + (string \<times> 'c \<times> 'p)" where
  "load_ca lib globalCASecret =
     (case sec_data globalCASecret ''tls.crt'' of
        None \<Rightarrow> Inl ''tls.crt not found in Secret''
      | Some caCertPEM \<Rightarrow>
     (case sec_data globalCASecret ''tls.key'' of
        None \<Rightarrow> Inl ''tls.key not found in Secret''
      | Some caKeyPEM \<Rightarrow>
     (case cb_decode lib caCertPEM of
        None \<Rightarrow> Inl ''failed to decode CA certificate PEM''
      | Some caBlock \<Rightarrow>
     if fst caBlock \<noteq> ''CERTIFICATE'' then Inl ''failed to decode CA certificate PEM''
     else bind_sum ''failed to parse CA cert: '' (cb_parse_certificate lib (snd caBlock)) (\<lambda>caCert.
     case cb_decode lib caKeyPEM of
        None \<Rightarrow> Inl ''failed to decode CA private key PEM''
      | Some keyBlock \<Rightarrow>
          bind_sum ''failed to parse CA private key: '' (parse_private_key lib keyBlock)
            (\<lambda>caPriv. Inr (caCertPEM, caCert, caPriv))))))"

definition server_template ::
    "('s, 'k, 'p, 'c) cert_lib \<Rightarrow> certificate_opts \<Rightarrow> nat \<Rightarrow> int \<Rightarrow> certificate" where
  "server_template lib opts serial now =
     \<lparr>ct_serial = serial, ct_common_name = eo_common_name opts,
      ct_not_before = now - defaultCertificateNotBeforeSkew,
      ct_not_after = now + (if eo_duration opts \<noteq> 0 then eo_duration opts
        else defaultCertificateDuration),
      ct_key_usage = [''DigitalSignature'', ''KeyEncipherment''], ct_ext_usage = [''ServerAuth''],
      ct_is_ca = False, ct_basic_constraints = True, ct_dns_names = eo_dns_names opts,
      ct_ips = List.map_filter (cb_parse_ip lib) (eo_ips opts)\<rparr>"

text \<open>Certificate and key of the server and the certificate of the CA, in PEM.\<close>

definition generateCertificateData ::
    "('s, 'k, 'p, 'c) cert_lib \<Rightarrow> secret_object \<Rightarrow> certificate_opts \<Rightarrow>
     ('s, string \<times> string \<times> string) operation" where
  "generateCertificateData lib globalCASecret opts =
     bind_op (sum_op (load_ca lib globalCASecret)) (\<lambda>(caCertPEM, caCert, caPriv).
     bind_op (wrap_op ''failed to generate server key: '' (try_op (cb_generate lib))) (\<lambda>serverKey.
     bind_op (wrap_op ''failed to generate serial: '' (try_op (cb_serial lib))) (\<lambda>serial.
     bind_op (\<lambda>s. (Ok (cb_now lib s), s)) (\<lambda>now.
     bind_op (wrap_op ''failed to create certificate: ''
         (try_op (cb_sign lib (server_template lib opts serial now) (Some caCert) serverKey caPriv)))
       (\<lambda>derBytes.
     return_op (cb_encode lib ''CERTIFICATE'' derBytes,
       cb_encode lib ''RSA PRIVATE KEY'' (cb_marshal lib serverKey), caCertPEM))))))"

definition buildRegistryTLSCertificateSecret ::
    "string \<times> string \<Rightarrow> string \<Rightarrow> string \<Rightarrow> string \<Rightarrow> secret_object" where
  "buildRegistryTLSCertificateSecret key certPEM keyPEM caPEM =
     \<lparr>sec_namespace = fst key, sec_name = snd key,
      sec_data = [''tls.crt'' \<mapsto> certPEM, ''tls.key'' \<mapsto> keyPEM, ''ca.crt'' \<mapsto> caPEM],
      sec_string_data = Map.empty, sec_type = ''kubernetes.io/tls''\<rparr>"

definition copyTLSCertificateSecretToRemoteCluster ::
    "('s, 'obj) addon_api \<Rightarrow> cluster \<Rightarrow> string \<times> string \<Rightarrow> string \<Rightarrow> string \<Rightarrow> string \<Rightarrow>
     ('s, unit) operation" where
  "copyTLSCertificateSecretToRemoteCluster api cluster key certPEM keyPEM caPEM =
     wrap_op ''failed to create registry addon TLS secret on remote cluster: ''
       (EnsureSecretOnRemoteCluster api (buildRegistryTLSCertificateSecret key certPEM keyPEM caPEM)
          cluster)"

definition EnsureRegistryServerCertificateSecretOnRemoteCluster ::
    "('s, 'obj) addon_api \<Rightarrow> ('s, 'k, 'p, 'c) cert_lib \<Rightarrow> cluster \<Rightarrow> certificate_opts \<Rightarrow>
     ('s, unit) operation" where
  "EnsureRegistryServerCertificateSecretOnRemoteCluster api lib cluster opts =
     bind_op (wrap_op ''failed to get TLS secret used to sign the certificate: '' (root_ca_op api))
       (\<lambda>globalTLSCertificateSecret.
     bind_op (wrap_op ''failed to generate new certificate: ''
         (generateCertificateData lib globalTLSCertificateSecret opts)) (\<lambda>(certPEM, keyPEM, caPEM).
     copyTLSCertificateSecretToRemoteCluster api cluster (eo_secret_key opts) certPEM keyPEM caPEM))"

end
