(* ===== verification/RegistryAddons.thy ===== *)
theory RegistryAddons
  imports RegistryCerts CcmAddons
begin

text \<open>
  \<open>pkg/handlers/lifecycle/registry\<close>: the registry addon.  Before a Cluster is created its CA
  is set up; afterwards the registry is installed with its certificate, its volumes are resized
  when the values ask for it, and a syncer on the management cluster copies images into it.
\<close>

section \<open>\<open>cncfdistribution/pvc_resizer.go\<close>\<close>

text \<open>
  The library for values: \<open>vl_parse\<close> parses YAML, \<open>vl_bool\<close> and \<open>vl_string\<close>
  give a nested field, whether it exists, and an error.  \<open>vl_quantity\<close> parses a quantity into
  its amount.
\<close>

record 'y values_lib =
  vl_parse :: "string \<Rightarrow> string + 'y"
  vl_bool :: "'y \<Rightarrow> string list \<Rightarrow> bool \<times> bool \<times> string option"
  vl_string :: "'y \<Rightarrow> string list \<Rightarrow> string \<times> bool \<times> string option"
  vl_quantity :: "string \<Rightarrow> string + int"

definition expectedPersistenceSize :: "'y values_lib \<Rightarrow> helm_proxy \<Rightarrow> string + string" where
  "expectedPersistenceSize lib hcp =
     (if hp_values hcp = [] then Inr []
      else bind_sum ''failed to parse values: '' (vl_parse lib (hp_values hcp)) (\<lambda>valuesObj.
        case vl_bool lib valuesObj [''persistence'', ''enabled''] of
          (persistenceEnabled, exists, err) \<Rightarrow>
            if \<not> exists then Inr []
            else (case err of
               Some e \<Rightarrow> Inl (''failed to get expected persistence enabled: '' @ e)
             | None \<Rightarrow>
                 if \<not> persistenceEnabled then Inr []
                 else (case vl_string lib valuesObj [''persistence'', ''size''] of
                   (size_text, exists', err') \<Rightarrow>
                     if \<not> exists' then Inr []
                     else (case err' of
                        Some e \<Rightarrow> Inl (''failed to get expected disk size: '' @ e)
                      | None \<Rightarrow> Inr size_text)))))"

text \<open>The call of \<open>Delete\<close> orphans what the StatefulSet owns.\<close>

definition updateStatefulSetVolumeClaimTemplate ::
    "('s, 'obj) addon_api \<Rightarrow> 'y values_lib \<Rightarrow> 'net service_net \<Rightarrow> api_client \<Rightarrow> cluster \<Rightarrow> helm_proxy \<Rightarrow>
     ('s, unit) operation" where
  "updateStatefulSetVolumeClaimTemplate api lib net remoteClient cluster hcp =
     bind_op (wrap_op ''failed to get expected persistence size from Helm values: ''
         (sum_op (expectedPersistenceSize lib hcp))) (\<lambda>expected.
     if expected = [] then return_op ()
     else bind_op (wrap_op ''failed to get registry metadata: ''
         (sum_op (GetRegistryMetadata net cluster))) (\<lambda>metadata.
     \<lambda>s. case ad_stateful_set api remoteClient (rm_namespace metadata) (rm_stateful_set metadata) s of
       (Inl (NotFound err), s') \<Rightarrow> (Ok (), s')
     | (Inl (OtherError err), s') \<Rightarrow> (Err (''failed to get StatefulSet: '' @ err), s')
     | (Inr [], s') \<Rightarrow> (Ok (), s')
     | (Inr (current # rest), s') \<Rightarrow>
         if current = expected then (Ok (), s')
         else (case ad_delete api remoteClient
             (''StatefulSet'', rm_namespace metadata, rm_stateful_set metadata) True s' of
            (None, s'') \<Rightarrow> (Ok (), s'')
          | (Some err, s'') \<Rightarrow>
              (Err (''failed to delete StatefulSet '' @
                 object_text (rm_namespace metadata) (rm_stateful_set metadata) @ '': '' @
                 api_error_text err), s''))))"

text \<open>A claim without requests, or with the expected amount, is left as it is.\<close>

fun expand_claims ::
    "('s, 'obj) addon_api \<Rightarrow> api_client \<Rightarrow> int \<Rightarrow> volume_claim list \<Rightarrow> ('s, unit) operation" where
  "expand_claims api remoteClient expected [] = return_op ()"
| "expand_claims api remoteClient expected (pvc # pvcs) =
     (case pv_request pvc of
        None \<Rightarrow> expand_claims api remoteClient expected pvcs
      | Some storageRequest \<Rightarrow>
          if storageRequest = expected then expand_claims api remoteClient expected pvcs
          else bind_op (wrap_op (''failed to update PVC '' @
                  object_text (pv_namespace pvc) (pv_name pvc) @ '': '')
                (unit_op (ad_update_claim api remoteClient (pvc\<lparr>pv_request := Some expected\<rparr>))))
              (\<lambda>_. expand_claims api remoteClient expected pvcs))"

definition expandPersistentVolumeClaims ::
    "('s, 'obj) addon_api \<Rightarrow> 'y values_lib \<Rightarrow> 'net service_net \<Rightarrow> api_client \<Rightarrow> cluster \<Rightarrow> helm_proxy \<Rightarrow>
     ('s, unit) operation" where
  "expandPersistentVolumeClaims api lib net remoteClient cluster hcp =
     bind_op (wrap_op ''failed to get expected persistence size from Helm values: ''
         (sum_op (expectedPersistenceSize lib hcp))) (\<lambda>expected.
     if expected = [] then return_op ()
     else bind_op (wrap_op ''failed to get registry metadata: ''
         (sum_op (GetRegistryMetadata net cluster))) (\<lambda>metadata.
     bind_op (wrap_op ''failed to list PVCs: ''
         (call_op (ad_claims api remoteClient (rm_namespace metadata) (rm_release metadata))))
       (\<lambda>items.
     if items = [] then return_op ()
     else bind_op (wrap_op ''failed to parse expected persistence size: ''
         (sum_op (vl_quantity lib expected)))
       (\<lambda>quantity. expand_claims api remoteClient quantity items))))"

section \<open>\<open>syncer/syncer.go\<close>\<close>

text \<open>\<open>gate\<close> is the feature gate \<open>SynchronizeWorkloadClusterRegistry\<close>.\<close>

definition hasRegistrySyncerSkipAnnotation :: "cluster \<Rightarrow> bool" where
  "hasRegistrySyncerSkipAnnotation cluster \<longleftrightarrow>
     cl_annotations cluster ''caren.nutanix.com/skip-synchronizing-workload-cluster-registry'' \<noteq> None"

definition shouldApplyRegistrySyncer ::
    "bool \<Rightarrow> cluster_config_spec json_decoder \<Rightarrow> cluster \<Rightarrow> cluster option \<Rightarrow> string + bool" where
  "shouldApplyRegistrySyncer gate decode cluster managementCluster =
     (case managementCluster of
        None \<Rightarrow> Inr False
      | Some m \<Rightarrow>
          if cl_name m = cl_name cluster \<and> cl_namespace m = cl_namespace cluster then Inr False
          else if \<not> gate then Inr False
          else if hasRegistrySyncerSkipAnnotation cluster then Inr False
          else bind_sum ''failed to check if registry addon is enabled in the cluster: ''
            (RegistryAddon decode cluster) (\<lambda>clusterAddon.
          if clusterAddon = None then Inr False
          else bind_sum ''failed to check if registry addon is enabled in management cluster: ''
            (RegistryAddon decode m) (\<lambda>managementClusterAddon.
          Inr (managementClusterAddon \<noteq> None))))"

record syncer_input =
  si_cluster :: string
  si_source :: string
  si_pod :: string
  si_namespace :: string
  si_service :: string
  si_port :: int
  si_ca_secret :: string

definition syncer_templateValues ::
    "syncer_input template_parser \<Rightarrow> 'net service_net \<Rightarrow> cluster \<Rightarrow> string \<Rightarrow> string reply" where
  "syncer_templateValues parse net cluster text =
     (case parse text of
        Inl err \<Rightarrow> Err (''failed to parse template: '' @ err)
      | Inr valuesTemplate \<Rightarrow>
          (case GetRegistryMetadata net cluster of
             Inl err \<Rightarrow> Err (''failed to get registry metadata: '' @ err)
           | Inr m \<Rightarrow>
               (case valuesTemplate \<lparr>si_cluster = cl_name cluster, si_source = rm_address m,
                    si_pod = rm_any_pod m, si_namespace = rm_namespace m,
                    si_service = rm_headless_service m, si_port = rm_headless_port m,
                    si_ca_secret = SecretNameForRegistryAddonCA cluster\<rparr> of
                  Inl err \<Rightarrow> Err (''failed template values: '' @ err)
                | Inr b \<Rightarrow> Ok b)))"

definition syncer_resource_name :: "cluster \<Rightarrow> string" where
  "syncer_resource_name cluster =
     ''registry-syncer-'' @ (case uuid_of cluster of None \<Rightarrow> [] | Some u \<Rightarrow> u)"

text \<open>The registry addon as it is set up: flags, the gate and the libraries.\<close>

record ('s, 'y, 'net, 'k, 'p, 'c) registry_setup =
  reg_values_name :: string
  reg_gate :: bool
  reg_decode :: "cluster_config_spec json_decoder"
  reg_net :: "'net service_net"
  reg_values :: "'y values_lib"
  reg_certs :: "('s, 'k, 'p, 'c) cert_lib"
  reg_parse :: "(string \<times> nat \<times> string) template_parser"
  reg_parse_syncer :: "syncer_input template_parser"

definition management_cluster_op :: "('s, 'obj) addon_api \<Rightarrow> ('s, cluster option) operation" where
  "management_cluster_op api s =
     wrap_op ''failed to get management cluster: '' (sum_op (ManagementCluster (ad_clusters api s))) s"

definition syncer_Apply ::
    "('s, 'obj) addon_env \<Rightarrow> ('s, 'y, 'net, 'k, 'p, 'c) registry_setup \<Rightarrow> cluster \<Rightarrow>
     ('s, unit) operation" where
  "syncer_Apply env setup cluster =
     bind_op (management_cluster_op (en_api env)) (\<lambda>managementCluster.
     bind_op (wrap_op ''failed to check if registry syncer should be applied: ''
         (sum_op (shouldApplyRegistrySyncer (reg_gate setup) (reg_decode setup) cluster
            managementCluster))) (\<lambda>shouldApply.
     if \<not> shouldApply then return_op ()
     else bind_op (wrap_op ''failed to get registry syncer helm chart: ''
         (chart_For (en_api env) (en_charts env) ''registry-syncer'')) (\<lambda>chart.
     wrap_op ''failed to apply registry syncer addon: ''
       (helm_Apply
          (WithHelmReleaseName (syncer_resource_name cluster)
             (WithValueTemplater (syncer_templateValues (reg_parse_syncer setup) (reg_net setup))
                (WithTargetCluster managementCluster
                   (new_applier env \<lparr>ha_template = ''default-registry-syncer-helm-values-template'',
                      ha_namespace = cl_namespace cluster, ha_release = ''registry-syncer''\<rparr> chart))))
          cluster (en_defaults env)))))"

definition syncer_Cleanup ::
    "('s, 'obj) addon_env \<Rightarrow> ('s, 'y, 'net, 'k, 'p, 'c) registry_setup \<Rightarrow> cluster \<Rightarrow>
     ('s, unit) operation" where
  "syncer_Cleanup env setup cluster =
     bind_op (management_cluster_op (en_api env)) (\<lambda>managementCluster.
     bind_op (wrap_op ''failed to check if registry syncer should be cleaned up: ''
         (sum_op (shouldApplyRegistrySyncer (reg_gate setup) (reg_decode setup) cluster
            managementCluster))) (\<lambda>shouldApply.
     if \<not> shouldApply then return_op ()
     else case managementCluster of
       None \<Rightarrow> panic_op nil_dereference
     | Some m \<Rightarrow>
         wrap_op ''failed to delete regystry syncer installation HelmChartProxy: ''
           (delete_ignoring_op (en_api env) Management
              (''HelmChartProxy'', cl_namespace m, syncer_resource_name cluster))))"

section \<open>\<open>cncfdistribution/handler.go\<close>\<close>

text \<open>The input is the address of the Service, the replicas and the name of the Secret.\<close>

definition registry_templateValues ::
    "(string \<times> nat \<times> string) template_parser \<Rightarrow> 'net service_net \<Rightarrow> cluster \<Rightarrow> string \<Rightarrow>
     string reply" where
  "registry_templateValues parse net cluster text =
     (case parse text of
        Inl err \<Rightarrow> Err (''failed to parse template: '' @ err)
      | Inr valuesTemplate \<Rightarrow>
          (case GetRegistryMetadata net cluster of
             Inl err \<Rightarrow> Err (''failed to get registry metadata: '' @ err)
           | Inr m \<Rightarrow>
               (case valuesTemplate (rm_service_ip m, rm_replicas m, rm_tls_secret m) of
                  Inl err \<Rightarrow> Err (''failed template values: '' @ err)
                | Inr b \<Rightarrow> Ok b)))"

definition cncf_Setup ::
    "('s, 'obj) addon_env \<Rightarrow> ('s, 'y, 'net, 'k, 'p, 'c) registry_setup \<Rightarrow> cluster \<Rightarrow>
     ('s, unit) operation" where
  "cncf_Setup env setup cluster =
     bind_op (wrap_op ''failed to ensure root CA secret for CNCF Distribution registry addon: ''
         (EnsureRegistryAddonRootCASecret (en_api env) (reg_certs setup))) (\<lambda>_.
     wrap_op ''failed to ensure CA secret for CNCF Distribution registry addon: ''
       (EnsureCASecretForCluster (en_api env) cluster))"

definition registry_certificate_opts :: "registry_metadata \<Rightarrow> certificate_opts" where
  "registry_certificate_opts m =
     \<lparr>eo_secret_key = (rm_namespace m, rm_tls_secret m), eo_common_name = rm_service m,
      eo_dns_names = rm_dns_names m, eo_ips = rm_ip_addresses m, eo_duration = 0\<rparr>"

definition cncf_Apply ::
    "('s, 'obj) addon_env \<Rightarrow> ('s, 'y, 'net, 'k, 'p, 'c) registry_setup \<Rightarrow> cluster \<Rightarrow>
     ('s, unit) operation" where
  "cncf_Apply env setup cluster =
     bind_op (wrap_op ''failed to get registry metadata for CNCF Distribution registry addon: ''
         (sum_op (GetRegistryMetadata (reg_net setup) cluster))) (\<lambda>metadata.
     bind_op (wrap_op (''failed to copy certificate secret for CNCF Distribution registry addon '' @
           ''to remote cluster: '')
         (EnsureRegistryServerCertificateSecretOnRemoteCluster (en_api env) (reg_certs setup) cluster
            (registry_certificate_opts metadata))) (\<lambda>_.
     bind_op (wrap_op ''failed to get CNCF Distribution registry helm chart: ''
         (chart_For (en_api env) (en_charts env) ''cncf-distribution-registry'')) (\<lambda>chart.
     bind_op (wrap_op ''failed to apply CNCF Distribution registry addon: ''
         (helm_Apply
            (WithPostApplyHook
               [updateStatefulSetVolumeClaimTemplate (en_api env) (reg_values setup) (reg_net setup),
                expandPersistentVolumeClaims (en_api env) (reg_values setup) (reg_net setup)]
               (WithValueTemplater (registry_templateValues (reg_parse setup) (reg_net setup))
                  (WithDefaultWaiter
                     (new_applier env \<lparr>ha_template = reg_values_name setup,
                        ha_namespace = rm_release_namespace metadata,
                        ha_release = rm_release metadata\<rparr> chart))))
            cluster (en_defaults env))) (\<lambda>_.
     wrap_op ''failed to apply CNCF Distribution registry syncer: ''
       (syncer_Apply env setup cluster)))))"

definition cncf_Cleanup ::
    "('s, 'obj) addon_env \<Rightarrow> ('s, 'y, 'net, 'k, 'p, 'c) registry_setup \<Rightarrow> cluster \<Rightarrow>
     ('s, unit) operation" where
  "cncf_Cleanup env setup cluster =
     wrap_op ''failed to clean up CNCF Distribution registry syncer: ''
       (syncer_Cleanup env setup cluster)"

section \<open>\<open>handler.go\<close>\<close>

record 's registry_provider =
  rp_setup :: "cluster \<Rightarrow> ('s, unit) operation"
  rp_apply :: "cluster \<Rightarrow> ('s, unit) operation"
  rp_cleanup :: "cluster \<Rightarrow> ('s, unit) operation"

text \<open>The variable is the name of the provider; an unknown one is an error.\<close>

definition registry_provider_of ::
    "(string \<rightharpoonup> 's registry_provider) \<Rightarrow> string variable \<Rightarrow>
     string + (string \<times> 's registry_provider) option" where
  "registry_provider_of handlers var =
     (case var of
        Missing _ \<Rightarrow> Inr None
      | Failed err \<Rightarrow>
          Inl (''failed to read RegistryAddon provider from cluster definition: '' @ err)
      | Found provider \<Rightarrow>
          (case handlers provider of
             None \<Rightarrow> Inl (''unknown RegistryAddon Provider '' @ provider)
           | Some h \<Rightarrow> Inr (Some (provider, h))))"

definition registry_setup_hook ::
    "(string \<rightharpoonup> 's registry_provider) \<Rightarrow> string variable \<Rightarrow> cluster \<Rightarrow> hook_response \<Rightarrow>
     ('s, hook_response) operation" where
  "registry_setup_hook handlers var cluster resp =
     (case registry_provider_of handlers var of
        Inl err \<Rightarrow> return_op (fail_with err resp)
      | Inr None \<Rightarrow> return_op resp
      | Inr (Some (provider, h)) \<Rightarrow>
          answer (resp\<lparr>hr_message := ''Set up RegistryAddon provider prerequisites '' @ provider\<rparr>)
            (wrap_op ''failed to set up RegistryAddon provider prerequisites: '' (rp_setup h cluster)))"

definition registry_apply ::
    "(string \<rightharpoonup> 's registry_provider) \<Rightarrow> string variable \<Rightarrow> cluster \<Rightarrow> hook_response \<Rightarrow>
     ('s, hook_response) operation" where
  "registry_apply handlers var cluster resp =
     (case registry_provider_of handlers var of
        Inl err \<Rightarrow> return_op (fail_with err resp)
      | Inr None \<Rightarrow> return_op resp
      | Inr (Some (provider, h)) \<Rightarrow>
          answer (resp\<lparr>hr_message := ''Deployed RegistryAddon provider '' @ provider\<rparr>)
            (wrap_op ''failed to deploy RegistryAddon provider: '' (rp_apply h cluster)))"

definition registry_BeforeClusterCreate ::
    "(string \<rightharpoonup> 's registry_provider) \<Rightarrow> string variable \<Rightarrow> cluster \<Rightarrow> hook_response \<Rightarrow>
     ('s, hook_response) operation" where
  "registry_BeforeClusterCreate handlers var cluster =
     common_hook (registry_setup_hook handlers var cluster)"

definition registry_AfterControlPlaneInitialized ::
    "(string \<rightharpoonup> 's registry_provider) \<Rightarrow> string variable \<Rightarrow> cluster \<Rightarrow> hook_response \<Rightarrow>
     ('s, hook_response) operation" where
  "registry_AfterControlPlaneInitialized handlers var cluster =
     common_hook (registry_apply handlers var cluster)"

definition registry_BeforeClusterUpgrade ::
    "(string \<rightharpoonup> 's registry_provider) \<Rightarrow> string variable \<Rightarrow> cluster \<Rightarrow> hook_response \<Rightarrow>
     ('s, hook_response) operation" where
  "registry_BeforeClusterUpgrade handlers var cluster =
     common_hook (registry_apply handlers var cluster)"

definition registry_BeforeClusterDelete ::
    "(string \<rightharpoonup> 's registry_provider) \<Rightarrow> string variable \<Rightarrow> cluster \<Rightarrow> hook_response \<Rightarrow>
     ('s, hook_response) operation" where
  "registry_BeforeClusterDelete handlers var cluster resp =
     (case registry_provider_of handlers var of
        Inl err \<Rightarrow> return_op (fail_with err resp)
      | Inr None \<Rightarrow> return_op resp
      | Inr (Some (provider, h)) \<Rightarrow>
          answer resp
            (wrap_op ''failed to clean up RegistryAddon provider: '' (rp_cleanup h cluster)))"

definition registry_handlers_of ::
    "('s, 'obj) addon_env \<Rightarrow> ('s, 'y, 'net, 'k, 'p, 'c) registry_setup \<Rightarrow>
     string \<rightharpoonup> 's registry_provider" where
  "registry_handlers_of env setup =
     [''CNCF Distribution'' \<mapsto> \<lparr>rp_setup = cncf_Setup env setup, rp_apply = cncf_Apply env setup,
        rp_cleanup = cncf_Cleanup env setup\<rparr>]"

end
