(* ===== verification/LifecycleHandlers.thy ===== *)
theory LifecycleHandlers
  imports CsiAddons SimpleAddons FlowAddons CiliumAddon AutoscalerAddon LoadBalancerAddon
    RegistryAddons
begin

text \<open>
  The installation of the Konnector Agent (\<open>konnectoragent/handler.go\<close>) and the list of all
  lifecycle handlers (\<open>pkg/handlers/lifecycle/handlers.go\<close>), from which the handlers of each
  hook are taken and run in parallel.
\<close>

section \<open>Installing the Konnector Agent\<close>

definition konnector_helm_config :: helm_addon_config where
  "konnector_helm_config = \<lparr>ha_template = ''default-konnector-agent-helm-values-template'',
     ha_namespace = ''ntnx-system'', ha_release = ''konnector-agent''\<rparr>"

fun outcome_reply :: "(string + 'a) outcome \<Rightarrow> 'a reply" where
  "outcome_reply (Returns (Inl err)) = Err err"
| "outcome_reply (Returns (Inr x)) = Ok x"
| "outcome_reply (Panics msg) = Panic msg"

text \<open>
  \<open>kenv\<close> is the environment of the Konnector Agent, from which the values are computed; the
  template is parsed and executed by parameters.
\<close>

definition konnector_apply ::
    "('s, 'obj) addon_env \<Rightarrow> ('s, 'pc) konnector_env \<Rightarrow> konnector_values template_parser \<Rightarrow>
     helm_addon_config \<Rightarrow> konnector_variable variable \<Rightarrow> konnector_config variable \<Rightarrow> cluster \<Rightarrow>
     hook_response \<Rightarrow> ('s, hook_response) operation" where
  "konnector_apply env kenv parse helmConfig var configVar cluster resp =
     (case var of
        Missing _ \<Rightarrow> return_op (succeed resp)
      | Failed err \<Rightarrow>
          return_op (fail_with
            (''failed to read Konnector Agent variable from cluster definition: '' @ err) resp)
      | Found k8sAgentVar \<Rightarrow>
     (case ka_credentials k8sAgentVar of
        None \<Rightarrow>
          return_op (fail_with
            ''name of the Secret containing PC credentials must be set'' resp)
      | Some secretName \<Rightarrow>
     answer resp
       (bind_op (wrap_op ''error updating owner references on Nutanix k8s agent source Secret: ''
            (own_op (en_api env) ''Secret'' secretName cluster)) (\<lambda>_.
        bind_op (wrap_op (''error creating Nutanix k8s agent Credentials Secret on the remote '' @
              ''cluster: '')
            (CopySecretToRemoteCluster (en_api env) secretName (''ntnx-system'', ''konnector-agent'')
               cluster)) (\<lambda>_.
        bind_op (wrap_op ''error creating remote cluster client: ''
            (remote_client_op (en_api env) cluster)) (\<lambda>remoteClient.
        bind_op (wrap_op (''failed to ensure '' @ quoted ''ntnx-system'' @
              '' namespace on the remote cluster: '')
            (EnsureNamespaceWithMetadata (en_api env) remoteClient ''ntnx-system''
               (Some PrivilegedPodSecurityEnforceLabels) None)) (\<lambda>_.
        bind_op (wrap_op ''failed to get configuration to create helm addon: ''
            (chart_For (en_api env) (en_charts env) ''konnector-agent'')) (\<lambda>chart.
        bind_op (wrap_op ''failed to read clusterConfig variable from cluster definition: ''
            (case configVar of
               Found config \<Rightarrow> return_op config
             | Missing err \<Rightarrow> error_op err
             | Failed err \<Rightarrow> error_op err)) (\<lambda>config.
        wrap_op ''failed to apply Konnector Agent addon: ''
          (helm_Apply
             (WithValueTemplater
                (\<lambda>_ valuesTemplate. outcome_reply
                   (konnector_template_values kenv parse (\<lambda>tpl. tpl) (kc_nutanix config) cluster
                      k8sAgentVar valuesTemplate))
                (new_applier env helmConfig chart))
             cluster (en_defaults env)))))))))))"

definition konnector_AfterControlPlaneInitialized ::
    "('s, 'obj) addon_env \<Rightarrow> ('s, 'pc) konnector_env \<Rightarrow> konnector_values template_parser \<Rightarrow>
     helm_addon_config \<Rightarrow> konnector_variable variable \<Rightarrow> konnector_config variable \<Rightarrow> cluster \<Rightarrow>
     hook_response \<Rightarrow> ('s, hook_response) operation" where
  "konnector_AfterControlPlaneInitialized env kenv parse helmConfig var configVar cluster =
     common_hook (konnector_apply env kenv parse helmConfig var configVar cluster)"

definition konnector_BeforeClusterUpgrade ::
    "('s, 'obj) addon_env \<Rightarrow> ('s, 'pc) konnector_env \<Rightarrow> konnector_values template_parser \<Rightarrow>
     helm_addon_config \<Rightarrow> konnector_variable variable \<Rightarrow> konnector_config variable \<Rightarrow> cluster \<Rightarrow>
     hook_response \<Rightarrow> ('s, hook_response) operation" where
  "konnector_BeforeClusterUpgrade env kenv parse helmConfig var configVar cluster =
     common_hook (konnector_apply env kenv parse helmConfig var configVar cluster)"

section \<open>All handlers\<close>

text \<open>
  How each variable is read from a Cluster, and everything the handlers are set up with: the flags
  and the parameters.
\<close>

record addon_variables =
  av_cni :: "cluster \<Rightarrow> cni_variable variable"
  av_ccm :: "cluster \<Rightarrow> ccm_variable variable"
  av_ccm_config :: "cluster \<Rightarrow> ccm_config variable"
  av_nfd :: "cluster \<Rightarrow> string variable"
  av_autoscaler :: "cluster \<Rightarrow> string variable"
  av_csi :: "cluster \<Rightarrow> csi_variable variable"
  av_snapshot :: "cluster \<Rightarrow> string variable"
  av_cosi :: "cluster \<Rightarrow> string variable"
  av_konnector :: "cluster \<Rightarrow> konnector_variable variable"
  av_konnector_config :: "cluster \<Rightarrow> konnector_config variable"
  av_ingress :: "cluster \<Rightarrow> string variable"
  av_registry :: "cluster \<Rightarrow> string variable"
  av_load_balancer :: "cluster \<Rightarrow> load_balancer_variable variable"

record ('s, 'obj, 'pc, 'y, 'p, 'v, 'net, 'k, 'q, 'c) all_setup =
  al_env :: "('s, 'obj) addon_env"
  al_variables :: addon_variables
  al_manifests :: "('y, 'p) manifest_lib"
  al_tigera :: string
  al_calico_crs :: "string \<rightharpoonup> string"
  al_calico_values :: "string \<rightharpoonup> string"
  al_cilium :: cilium_setup
  al_flow_parse :: "flow_input template_parser"
  al_flow_values :: string
  al_multus_parse :: "string template_parser"
  al_parse_version :: "string \<Rightarrow> string + (nat \<times> nat)"
  al_ccm_versions :: "string \<rightharpoonup> string"
  al_parse_url :: url_parser
  al_ccm_parse :: "ccm_input template_parser"
  al_ccm_values :: string
  al_nfd_crs :: string
  al_autoscaler :: autoscaler_setup
  al_ebs_crs :: string
  al_local_path_crs :: string
  al_snapshot_crs :: string
  al_konnector :: "('s, 'pc) konnector_env"
  al_konnector_parse :: "konnector_values template_parser"
  al_lb :: "'s lb_env"
  al_registry :: "('s, 'v, 'net, 'k, 'q, 'c) registry_setup"
  al_metallb_values :: string

text \<open>A handler has the hooks it implements.\<close>

type_synonym 's hook_function = "cluster \<Rightarrow> hook_response \<Rightarrow> ('s, hook_response) operation"

record 's lifecycle_handler =
  lh_name :: string
  lh_create :: "'s hook_function option"
  lh_initialized :: "'s hook_function option"
  lh_upgrade :: "'s hook_function option"
  lh_upgraded :: "'s hook_function option"
  lh_delete :: "'s hook_function option"

definition installer :: "string \<Rightarrow> 's hook_function \<Rightarrow> 's hook_function \<Rightarrow> 's lifecycle_handler" where
  "installer name initialized upgrade =
     \<lparr>lh_name = name, lh_create = None, lh_initialized = Some initialized,
      lh_upgrade = Some upgrade, lh_upgraded = None, lh_delete = None\<rparr>"

definition returning ::
    "(cluster \<Rightarrow> hook_response \<Rightarrow> 's \<Rightarrow> hook_response \<times> 's) \<Rightarrow> 's hook_function" where
  "returning f c resp s = (case f c resp s of (r, s') \<Rightarrow> (Ok r, s'))"

definition all_lifecycle_handlers ::
    "('s, 'obj, 'pc, 'y, 'p, 'v, 'net, 'k, 'q, 'c) all_setup \<Rightarrow> 's lifecycle_handler list" where
  "all_lifecycle_handlers a =
     (let env = al_env a; v = al_variables a;
          calico = (\<lambda>hook c. hook env (al_manifests a) (al_tigera a) (al_calico_crs a)
            (al_calico_values a) (av_cni v c) c);
          konnector = (\<lambda>hook c. hook env (al_konnector a) (al_konnector_parse a)
            konnector_helm_config (av_konnector v c) (av_konnector_config v c) c);
          ccm = ccm_handlers_of env (al_parse_version a) aws_ccm_helm_config (al_ccm_versions a)
            (al_parse_url a) (al_ccm_parse a) (al_ccm_values a);
          csi = csi_handlers_of env ebs_helm_config (al_ebs_crs a) nutanix_csi_helm_config
            local_path_helm_config (al_local_path_crs a);
          registries = registry_handlers_of env (al_registry a);
          slb = load_balancer_handlers_of env (al_metallb_values a)
      in
     [installer ''CalicoCNI'' (calico calico_AfterControlPlaneInitialized)
        (calico calico_BeforeClusterUpgrade),
      installer ''CiliumCNI''
        (\<lambda>c. cilium_AfterControlPlaneInitialized env (al_cilium a) (av_cni v c) c)
        (\<lambda>c. cilium_BeforeClusterUpgrade env (al_cilium a) (av_cni v c) c),
      installer ''NutanixFlowCNI''
        (\<lambda>c. flow_AfterControlPlaneInitialized env (al_flow_parse a) (al_flow_values a) (av_cni v c) c)
        (\<lambda>c. flow_BeforeClusterUpgrade env (al_flow_parse a) (al_flow_values a) (av_cni v c) c),
      installer ''MultusHandler''
        (\<lambda>c. multus_AfterControlPlaneInitialized env (al_multus_parse a) multus_helm_config
          (av_cni v c) c)
        (\<lambda>c. multus_BeforeClusterUpgrade env (al_multus_parse a) multus_helm_config (av_cni v c) c),
      installer ''CCMHandler''
        (\<lambda>c. ccm_AfterControlPlaneInitialized ccm (av_ccm v c) (av_ccm_config v c) c)
        (\<lambda>c. ccm_BeforeClusterUpgrade ccm (av_ccm v c) (av_ccm_config v c) c),
      installer ''NFDHandler''
        (\<lambda>c. nfd_AfterControlPlaneInitialized env nfd_helm_config (al_nfd_crs a) (av_nfd v c) c)
        (\<lambda>c. nfd_BeforeClusterUpgrade env nfd_helm_config (al_nfd_crs a) (av_nfd v c) c),
      (installer ''ClusterAutoscalerHandler''
        (\<lambda>c. autoscaler_AfterControlPlaneInitialized env (al_autoscaler a) (av_autoscaler v c) c)
        (\<lambda>c. autoscaler_BeforeClusterUpgrade env (al_autoscaler a) (av_autoscaler v c) c))
        \<lparr>lh_delete := Some (\<lambda>c. autoscaler_BeforeClusterDelete env (av_autoscaler v c) c)\<rparr>,
      installer ''CSIHandler'' (\<lambda>c. csi_AfterControlPlaneInitialized csi (av_csi v c) c)
        (\<lambda>c. csi_BeforeClusterUpgrade csi (av_csi v c) c),
      installer ''SnapshotControllerHandler''
        (\<lambda>c. snapshot_AfterControlPlaneInitialized env snapshot_helm_config (al_snapshot_crs a)
          (av_snapshot v c) c)
        (\<lambda>c. snapshot_BeforeClusterUpgrade env snapshot_helm_config (al_snapshot_crs a)
          (av_snapshot v c) c),
      installer ''COSIControllerHandler''
        (\<lambda>c. cosi_AfterControlPlaneInitialized env cosi_helm_config (av_cosi v c) c)
        (\<lambda>c. cosi_BeforeClusterUpgrade env cosi_helm_config (av_cosi v c) c),
      (installer ''KonnectorAgentHandler'' (konnector konnector_AfterControlPlaneInitialized)
        (konnector konnector_BeforeClusterUpgrade))
        \<lparr>lh_delete := Some (returning (konnector_BeforeClusterDelete (al_konnector a)))\<rparr>,
      installer ''AWSLoadBalancerControllerHandler''
        (\<lambda>c. aws_lb_AfterControlPlaneInitialized env aws_lb_helm_config (av_ingress v c) c)
        (\<lambda>c. aws_lb_BeforeClusterUpgrade env aws_lb_helm_config (av_ingress v c) c),
      \<lparr>lh_name = ''ServiceLoadBalancerGC'', lh_create = None, lh_initialized = None,
       lh_upgrade = None, lh_upgraded = None,
       lh_delete = Some (returning (lb_BeforeClusterDelete (al_lb a)))\<rparr>,
      (installer ''RegistryHandler''
        (\<lambda>c. registry_AfterControlPlaneInitialized registries (av_registry v c) c)
        (\<lambda>c. registry_BeforeClusterUpgrade registries (av_registry v c) c))
        \<lparr>lh_create := Some (\<lambda>c. registry_BeforeClusterCreate registries (av_registry v c) c),
         lh_delete := Some (\<lambda>c. registry_BeforeClusterDelete registries (av_registry v c) c)\<rparr>,
      installer ''ServiceLoadBalancerHandler''
        (\<lambda>c. load_balancer_AfterControlPlaneInitialized slb (av_load_balancer v c) c)
        (\<lambda>c. load_balancer_BeforeClusterUpgrade slb (av_load_balancer v c) c)])"

datatype lifecycle_hook =
    BeforeClusterCreate
  | AfterControlPlaneInitialized
  | BeforeClusterUpgrade
  | AfterControlPlaneUpgrade
  | BeforeClusterDelete

fun implemented :: "lifecycle_hook \<Rightarrow> 's lifecycle_handler \<Rightarrow> 's hook_function option" where
  "implemented BeforeClusterCreate h = lh_create h"
| "implemented AfterControlPlaneInitialized h = lh_initialized h"
| "implemented BeforeClusterUpgrade h = lh_upgrade h"
| "implemented AfterControlPlaneUpgrade h = lh_upgraded h"
| "implemented BeforeClusterDelete h = lh_delete h"

text \<open>
  \<open>AllHandlers\<close>: for every hook that some handler implements, one handler that runs these in
  parallel.  It is given by the names and functions of those it runs.
\<close>

definition hook_implementations ::
    "lifecycle_hook \<Rightarrow> 's lifecycle_handler list \<Rightarrow> (string \<times> 's hook_function) list" where
  "hook_implementations hook handlers =
     List.map_filter (\<lambda>h. map_option (Pair (lh_name h)) (implemented hook h)) handlers"

definition AllHandlers ::
    "'s lifecycle_handler list \<Rightarrow> (lifecycle_hook \<times> (string \<times> 's hook_function) list) list" where
  "AllHandlers handlers =
     filter (\<lambda>(hook, fs). fs \<noteq> [])
       (map (\<lambda>hook. (hook, hook_implementations hook handlers))
          [BeforeClusterCreate, AfterControlPlaneInitialized, BeforeClusterUpgrade,
           AfterControlPlaneUpgrade, BeforeClusterDelete])"

end
