(* ===== verification/AddonTraces.thy ===== *)
theory AddonTraces
  imports LifecycleHandlers
begin

text \<open>
  Reasoning about the operations of addons: which calls an operation adds to the record
  (\<open>appends\<close>) and what holds of the record after it (\<open>triple\<close>, with a condition for
  values and one for errors and panics), and that an operation does not panic
  (\<open>no_panic\<close>).  The rules follow the structure of the operations.
\<close>

named_theorems panic_intros \<open>operations that do not panic\<close>
named_theorems call_intros \<open>which calls an operation adds\<close>

section \<open>Calls that an operation adds\<close>

definition appends ::
    "(api_call \<Rightarrow> bool) \<Rightarrow> ('s \<times> api_call list \<Rightarrow> 'x \<times> ('s \<times> api_call list)) \<Rightarrow> bool" where
  "appends A f \<longleftrightarrow>
     (\<forall>s t. \<exists>t'. snd (snd (f (s, t))) = t @ t' \<and> (\<forall>call \<in> set t'. A call))"

lemma appendsI:
  assumes "\<And>s t. \<exists>t'. snd (snd (f (s, t))) = t @ t' \<and> (\<forall>call \<in> set t'. A call)"
  shows "appends A f"
  using assms by (auto simp: appends_def)

lemma appendsE:
  assumes "appends A f" "f (s, t) = (x, (s', u))"
  obtains t' where "u = t @ t'" "\<forall>call \<in> set t'. A call"
proof -
  from assms(1) obtain t' where "snd (snd (f (s, t))) = t @ t'" "\<forall>call \<in> set t'. A call"
    unfolding appends_def by blast
  then show thesis using assms(2) by (intro that) auto
qed

lemma appends_unchanged: "(\<And>s. snd (snd (f s)) = snd s) \<Longrightarrow> appends A f"
  by (rule appendsI) auto

lemma appends_map:
  assumes "appends A f" "\<And>s. snd (snd (g s)) = snd (snd (f s))"
  shows "appends A g"
  using assms by (simp add: appends_def)

lemma appends_basic [call_intros]:
  "appends A (return_op x)" "appends A (error_op e)" "appends A (panic_op p)"
  "appends A (sum_op r)" "appends A (reply_op q)" "appends A (quiet_call f)"
  by (auto intro!: appends_unchanged simp: return_op_def error_op_def panic_op_def sum_op_def
      reply_op_def quiet_call_def split: sum.split prod.split)

lemma appends_noted [call_intros]:
  assumes "\<And>x. A (note x)"
  shows "appends A (noted_call note f)"
  using assms by (intro appendsI) (auto simp: noted_call_def split: prod.split)

lemma appends_bind [call_intros]:
  assumes m: "appends A m" and k: "\<And>x. appends A (k x)"
  shows "appends A (bind_op m k)"
proof (rule appendsI)
  fix s t
  obtain r s' u where r: "m (s, t) = (r, (s', u))" by (metis prod.collapse)
  obtain t' where t': "u = t @ t'" "\<forall>call \<in> set t'. A call"
    using m r by (rule appendsE)
  show "\<exists>t'. snd (snd (bind_op m k (s, t))) = t @ t' \<and> (\<forall>call \<in> set t'. A call)"
  proof (cases r)
    case (Ok x)
    obtain r2 s2 u2 where r2: "k x (s', u) = (r2, (s2, u2))" by (metis prod.collapse)
    obtain t2 where "u2 = u @ t2" "\<forall>call \<in> set t2. A call"
      using k [of x] r2 by (rule appendsE)
    then show ?thesis
      using r r2 Ok t' by (intro exI [of _ "t' @ t2"]) (auto simp: op_simps)
  qed (use r t' in \<open>auto simp: op_simps\<close>)
qed

lemma appends_wrap [call_intros]: "appends A m \<Longrightarrow> appends A (wrap_op c m)"
  by (erule appends_map) (auto simp: wrap_op_def split: prod.split reply.split)

lemma appends_on_error [call_intros]: "appends A m \<Longrightarrow> appends A (on_error f m)"
  by (erule appends_map) (auto simp: on_error_def split: prod.split reply.split)

lemma appends_call [call_intros]: "appends A f \<Longrightarrow> appends A (call_op f)"
  by (erule appends_map) (auto simp: call_op_def split: prod.split sum.split)

lemma appends_unit [call_intros]: "appends A f \<Longrightarrow> appends A (unit_op f)"
  by (erule appends_map) (auto simp: unit_op_def split: prod.split option.split)

lemma appends_each [call_intros]:
  "(\<And>x. x \<in> set xs \<Longrightarrow> appends A (f x)) \<Longrightarrow> appends A (each_op f xs)"
  by (induction xs) (auto intro!: call_intros)

lemma appends_answer [call_intros]: "appends A m \<Longrightarrow> appends A (answer resp m)"
  unfolding answer_def by (intro call_intros)

lemma appends_common [call_intros]: "appends A (f new_response) \<Longrightarrow> appends A (common_hook f resp)"
  unfolding common_hook_def by (intro call_intros)

lemma recording_fields [simp]:
  "ad_config_map (recording api) client ns name =
     noted_call (ReadConfigMap client ns name) (ad_config_map api client ns name)"
  "ad_config_maps (recording api) ns label v = quiet_call (ad_config_maps api ns label v)"
  "ad_secret (recording api) ns name = quiet_call (ad_secret api ns name)"
  "ad_daemon_set (recording api) client ns name =
     noted_call (ReadDaemonSet client ns name) (ad_daemon_set api client ns name)"
  "ad_deployment (recording api) client ns name = quiet_call (ad_deployment api client ns name)"
  "ad_stateful_set (recording api) client ns name = quiet_call (ad_stateful_set api client ns name)"
  "ad_claims (recording api) client ns release = quiet_call (ad_claims api client ns release)"
  "ad_proxy (recording api) ns name = quiet_call (ad_proxy api ns name)"
  "ad_clusters (recording api) st = ad_clusters api (fst st)"
  "ad_remote (recording api) ns name = quiet_call (ad_remote api ns name)"
  "ad_own_error (recording api) = ad_own_error api"
  "ad_apply (recording api) client force owner obj =
     noted_call (Applied client force owner obj) (ad_apply api client force owner obj)"
  "ad_update_daemon_set (recording api) client ns name ds =
     noted_call (UpdatedDaemonSet client ns name ds) (ad_update_daemon_set api client ns name ds)"
  "ad_update_claim (recording api) client claim = quiet_call (ad_update_claim api client claim)"
  "ad_delete (recording api) client key orphan =
     noted_call (Deleted client key orphan) (ad_delete api client key orphan)"
  "ad_owners (recording api) = recording_registry (ad_owners api)"
  "ad_pass (recording api) st = (ad_pass api (fst st), snd st)"
  "ad_polls (recording api) = ad_polls api" "ad_deadline (recording api) = ad_deadline api"
  "ad_interrupted (recording api) = ad_interrupted api"
  "ad_now (recording api) st = ad_now api (fst st)"
  by (simp_all add: recording_def)

lemma appends_api [call_intros]:
  "(\<And>err. A (Applied client force owner obj err)) \<Longrightarrow>
     appends A (apply_op (recording api) client force owner obj)"
  "appends A (set_owner_op (recording api) c obj)"
  "appends A (remote_client_op (recording api) c)"
  "(\<And>err. A (Deleted client key False err)) \<Longrightarrow>
     appends A (delete_ignoring_op (recording api) client key)"
proof -
  assume "\<And>err. A (Applied client force owner obj err)"
  then have "appends A (noted_call (Applied client force owner obj) (ad_apply api client force owner obj))"
    by (rule appends_noted)
  then show "appends A (apply_op (recording api) client force owner obj)"
    by (rule appends_map) (simp add: apply_op_def split: prod.split option.split)
next
  show "appends A (set_owner_op (recording api) c obj)"
    by (rule appends_unchanged)
      (simp add: set_owner_op_def error_op_def return_op_def split: prod.split option.split)
next
  show "appends A (remote_client_op (recording api) c)"
    unfolding remote_client_op_def by (intro call_intros) (simp add: call_intros)
next
  assume "\<And>err. A (Deleted client key False err)"
  then have "appends A (noted_call (Deleted client key False) (ad_delete api client key False))"
    by (rule appends_noted)
  then show "appends A (delete_ignoring_op (recording api) client key)"
    by (rule appends_map)
      (auto simp: delete_ignoring_op_def split: prod.split option.split api_error.split)
qed

lemma appends_own [call_intros]: "appends A (own_op (recording api) kind name c)"
  unfolding own_op_def
  by (intro call_intros appends_unchanged)
    (auto simp: EnsureClusterOwnerReferenceForObject_def recording_registry_def bind_sum_def
      getResourceFromTypedLocalObjectReference_def quiet_call_def split: sum.split prod.split option.split)

text \<open>A poll adds what its condition adds.\<close>

lemma appends_poll:
  assumes "\<And>v. appends A (cond v)" and "\<And>s. snd (pass s) = snd s"
  shows "appends A (poll_until deadline pass n cond v)"
proof (induction n arbitrary: v)
  case 0
  show ?case
    by (rule appends_map [OF assms(1) [of v]])
      (auto simp: assms(2) split: prod.split reply.split bool.split)
next
  case (Suc n)
  show ?case
  proof (rule appendsI)
    fix s t
    obtain r v' s' u where r: "cond v (s, t) = ((r, v'), (s', u))" by (metis prod.collapse)
    obtain t' where t': "u = t @ t'" "\<forall>call \<in> set t'. A call"
      using assms(1) r by (rule appendsE)
    obtain s2 where p: "pass (s', u) = (s2, u)" using assms(2) [of "(s', u)"] by (metis prod.collapse snd_conv)
    obtain x s3 u3 where q: "poll_until deadline pass n cond v' (s2, u) = (x, (s3, u3))"
      by (metis prod.collapse)
    obtain t2 where t2: "u3 = u @ t2" "\<forall>call \<in> set t2. A call"
      using Suc.IH [of v'] q by (rule appendsE)
    show "\<exists>t'. snd (snd (poll_until deadline pass (Suc n) cond v (s, t))) = t @ t' \<and>
        (\<forall>call \<in> set t'. A call)"
    proof (cases "r = Ok False")
      case True
      then show ?thesis
        using r t' p q t2 by (intro exI [of _ "t' @ t2"]) auto
    next
      case False
      then show ?thesis
        using r t' by (intro exI [of _ t']) (auto split: reply.split bool.split)
    qed
  qed
qed

lemma appends_condition:
  "appends A get \<Longrightarrow> appends A (object_condition get check v)"
  by (erule appends_map)
    (auto simp: object_condition_def split: prod.split sum.split api_error.split reply.split)

lemma appends_ForObject [call_intros]:
  assumes "appends A get"
  shows "appends A (ForObject (recording api) get check interval timeout)"
proof -
  have "appends A (poll_until (ad_deadline api) (ad_pass (recording api)) (ad_polls api interval timeout)
      (object_condition get check) None)"
    by (intro appends_poll appends_condition assms) simp
  then show ?thesis
    by (rule appends_map) (auto simp: ForObject_def split: prod.split reply.split option.split)
qed

section \<open>The shared operations\<close>

text \<open>Calls that every addon may make: reading ConfigMaps of the management cluster.\<close>

lemma appends_read [call_intros]:
  "(\<And>x. A (ReadConfigMap client ns name x)) \<Longrightarrow>
     appends A (call_op (ad_config_map (recording api) client ns name))"
  by (simp add: call_intros)

lemma appends_chart [call_intros]:
  "(\<And>ns name x. A (ReadConfigMap Management ns name x)) \<Longrightarrow>
     appends A (chart_For (recording api) h component)"
  unfolding chart_For_def by (intro call_intros) (auto intro!: call_intros split: option.split)

lemma appends_template [call_intros]:
  "(\<And>ns name x. A (ReadConfigMap Management ns name x)) \<Longrightarrow>
     appends A (RetrieveValuesTemplate (recording api) name key ns)"
  unfolding RetrieveValuesTemplate_def RetrieveValuesTemplateConfigMap_def by (intro call_intros)

lemma appends_namespace [call_intros]:
  "(\<And>labels annotations err. A (Applied client False None (NamespaceObject name labels annotations) err)) \<Longrightarrow>
     appends A (EnsureNamespaceWithMetadata (recording api) client name labels annotations)"
  "(\<And>err. A (Applied client False None (NamespaceObject name None None) err)) \<Longrightarrow>
     appends A (EnsureNamespaceWithName (recording api) client name)"
  unfolding EnsureNamespaceWithMetadata_def EnsureNamespaceWithName_def EnsureNamespace_def
  by (intro call_intros; assumption)+

lemma appends_copy_secret [call_intros]:
  assumes "\<And>client ns err. A (Applied client False None (NamespaceObject ns None None) err)"
    and "\<And>client sec err. A (Applied client True None (SecretObject sec) err)"
  shows "appends A (CopySecretToRemoteCluster (recording api) name key c)"
  unfolding CopySecretToRemoteCluster_def getSecretForCluster_def Let_def
  by (intro call_intros) (auto intro!: call_intros assms)

lemma appends_resource_set [call_intros]:
  assumes "\<And>owner rs err. A (Applied Management True owner (ResourceSetObject rs) err)"
  shows "appends A (EnsureCRSForClusterFromObjects (recording api) show name c opt objects)"
  unfolding EnsureCRSForClusterFromObjects_def Let_def by (intro call_intros assms)

section \<open>Appliers\<close>

lemma applied_options_simps [simp]:
  "applied_options (new_applier env config chart) = no_options"
  "applied_options (WithValueTemplater t a) = (applied_options a)\<lparr>ao_templater := Some t\<rparr>"
  "applied_options (WithTargetCluster c a) = (applied_options a)\<lparr>ao_target := c\<rparr>"
  "applied_options (WithHelmReleaseName name a) = (applied_options a)\<lparr>ao_release := name\<rparr>"
  "applied_options (WithPreflightEnabled a) = (applied_options a)\<lparr>ao_preflight := True\<rparr>"
  "applied_options (WithTakeOwnership a) = (applied_options a)\<lparr>ao_take_ownership := True\<rparr>"
  "applied_options (WithPostApplyHook hooks a) = (applied_options a)\<lparr>ao_hooks := hooks\<rparr>"
  "applied_options (WithDefaultWaiter a) =
     (applied_options a)\<lparr>ao_waiter := Some (waitToBeReady (ap_api a))\<rparr>"
  by (simp_all add: applied_options_def new_applier_def NewHelmAddonApplier_def with_option_def
      WithValueTemplater_def WithTargetCluster_def WithHelmReleaseName_def WithPreflightEnabled_def
      WithTakeOwnership_def WithPostApplyHook_def WithDefaultWaiter_def)

lemma applier_fields [simp]:
  "ap_api (new_applier env config chart) = en_api env"
  "ap_config (new_applier env config chart) = config"
  "ap_api (WithValueTemplater t a) = ap_api a" "ap_config (WithValueTemplater t a) = ap_config a"
  "ap_api (WithTargetCluster c a) = ap_api a" "ap_config (WithTargetCluster c a) = ap_config a"
  "ap_api (WithHelmReleaseName name a) = ap_api a"
  "ap_config (WithHelmReleaseName name a) = ap_config a"
  "ap_api (WithPreflightEnabled a) = ap_api a" "ap_config (WithPreflightEnabled a) = ap_config a"
  "ap_api (WithTakeOwnership a) = ap_api a" "ap_config (WithTakeOwnership a) = ap_config a"
  "ap_api (WithPostApplyHook hooks a) = ap_api a"
  "ap_config (WithPostApplyHook hooks a) = ap_config a"
  "ap_api (WithDefaultWaiter a) = ap_api a" "ap_config (WithDefaultWaiter a) = ap_config a"
  by (simp_all add: new_applier_def NewHelmAddonApplier_def with_option_def
      WithValueTemplater_def WithTargetCluster_def WithHelmReleaseName_def WithPreflightEnabled_def
      WithTakeOwnership_def WithPostApplyHook_def WithDefaultWaiter_def)

lemma no_options_fields [simp]:
  "ao_templater no_options = None" "ao_target no_options = None" "ao_release no_options = []"
  "ao_preflight no_options = False" "ao_waiter no_options = None" "ao_hooks no_options = []"
  by (simp_all add: no_options_def)

lemma chart_proxy_fields [simp]:
  "hp_namespace (chart_proxy_for a opts target u values) = cl_namespace target"
  "hp_name (chart_proxy_for a opts target u values) = proxy_name (ap_config a) u"
  "hp_release_namespace (chart_proxy_for a opts target u values) = ha_namespace (ap_config a)"
  by (simp_all add: chart_proxy_for_def SetTLSConfigForHelmChartProxyIfNeeded_def)

lemma appends_ready [call_intros]: "appends A (waitToBeReady (recording api) hcp)"
  unfolding waitToBeReady_def by (intro call_intros) (simp add: call_intros)

lemma appends_hooks:
  assumes "ap_api a = recording api"
    and "\<And>hook client hcp. hook \<in> set (ao_hooks opts) \<Longrightarrow> appends A (hook client c hcp)"
  shows "appends A (run_hooks a opts c hcp)"
  using assms unfolding run_hooks_def by (auto intro!: call_intros)

lemma appends_helm_Apply [call_intros]:
  assumes api: "ap_api a = recording api"
    and reads: "\<And>ns name x. A (ReadConfigMap Management ns name x)"
    and applied: "\<And>target u values err. A (Applied Management True (Some (owner_of target))
      (HelmProxyObject (chart_proxy_for a (applied_options a) target u values)) err)"
    and hooks: "\<And>hook client hcp. hook \<in> set (ao_hooks (applied_options a)) \<Longrightarrow>
      appends A (hook client c hcp)"
    and waiter: "\<And>w hcp. ao_waiter (applied_options a) = Some w \<Longrightarrow> appends A (w hcp)"
  shows "appends A (helm_Apply a c ns)"
proof (cases "uuid_of c")
  case None
  then show ?thesis by (simp add: helm_Apply_def call_intros)
next
  case (Some u)
  have templated: "appends A (case t of None \<Rightarrow> return_op x
      | Some f \<Rightarrow> wrap_op e (reply_op (f c x)))" for t x e
    by (cases t) (auto intro!: call_intros)
  have waited: "appends A (case ao_waiter (applied_options a) of None \<Rightarrow> return_op ()
      | Some w \<Rightarrow> w hcp)" for hcp
    using waiter by (cases "ao_waiter (applied_options a)") (auto intro!: call_intros)
  show ?thesis
    unfolding helm_Apply_def Let_def Some option.case api
    by (intro call_intros appends_hooks templated waited api reads applied) (rule api | erule hooks)+
qed

lemma appends_helm_Delete [call_intros]:
  assumes "ap_api a = recording api"
    and "\<And>ns name err. A (Deleted Management (''HelmChartProxy'', ns, name) False err)"
  shows "appends A (helm_Delete a c)"
  using assms unfolding helm_Delete_def Let_def
  by (auto intro!: call_intros split: option.split)

section \<open>What holds of the record\<close>

definition triple ::
    "(api_call list \<Rightarrow> bool) \<Rightarrow> ('s \<times> api_call list, 'a) operation \<Rightarrow>
     ('a \<Rightarrow> api_call list \<Rightarrow> bool) \<Rightarrow> (api_call list \<Rightarrow> bool) \<Rightarrow> bool" where
  "triple P m Q E \<longleftrightarrow>
     (\<forall>s t. P t \<longrightarrow>
        (case m (s, t) of (r, (s', t')) \<Rightarrow> (case r of Ok x \<Rightarrow> Q x t' | _ \<Rightarrow> E t')))"

lemma tripleI:
  assumes "\<And>s t r s' t'. P t \<Longrightarrow> m (s, t) = (r, (s', t')) \<Longrightarrow> (case r of Ok x \<Rightarrow> Q x t' | _ \<Rightarrow> E t')"
  shows "triple P m Q E"
  using assms by (auto simp: triple_def split: prod.split)

lemma tripleD:
  assumes "triple P m Q E" "P t" "m (s, t) = (r, (s', t'))"
  shows "case r of Ok x \<Rightarrow> Q x t' | _ \<Rightarrow> E t'"
  using assms by (fastforce simp: triple_def split: prod.splits)

lemma triple_weaken:
  assumes "triple P m Q E" "\<And>t. P' t \<Longrightarrow> P t" "\<And>x t. Q x t \<Longrightarrow> Q' x t" "\<And>t. E t \<Longrightarrow> E' t"
  shows "triple P' m Q' E'"
  using assms(2-4) tripleD [OF assms(1)] by (intro tripleI) (fastforce split: reply.splits)

lemma triple_return: "triple P (return_op x) (\<lambda>y t. y = x \<and> P t) E"
  by (rule tripleI) (auto simp: return_op_def)

lemma triple_error: "triple P (error_op e) Q P" "triple P (panic_op p) Q P"
  by (rule tripleI, auto simp: error_op_def panic_op_def)+

lemma triple_bind:
  assumes m: "triple P m R E" and k: "\<And>x. triple (R x) (k x) Q E"
  shows "triple P (bind_op m k) Q E"
proof (rule tripleI)
  fix s t r s' t'
  assume P: "P t" and run: "bind_op m k (s, t) = (r, (s', t'))"
  obtain r1 s1 t1 where r1: "m (s, t) = (r1, (s1, t1))" by (metis prod.collapse)
  have "case r1 of Ok x \<Rightarrow> R x t1 | _ \<Rightarrow> E t1" using tripleD [OF m P r1] .
  then show "case r of Ok x \<Rightarrow> Q x t' | _ \<Rightarrow> E t'"
    using run r1 tripleD [OF k] by (cases r1) (auto simp: op_simps)
qed

lemma triple_wrap:
  assumes m: "triple P m Q E"
  shows "triple P (wrap_op c m) Q E"
proof (rule tripleI)
  fix s t r s' t'
  assume P: "P t" and run: "wrap_op c m (s, t) = (r, (s', t'))"
  obtain r1 s1 t1 where r1: "m (s, t) = (r1, (s1, t1))" by (metis prod.collapse)
  have "case r1 of Ok x \<Rightarrow> Q x t1 | _ \<Rightarrow> E t1" using tripleD [OF m P r1] .
  then show "case r of Ok x \<Rightarrow> Q x t' | _ \<Rightarrow> E t'"
    using run r1 by (cases r1) (auto simp: op_simps)
qed

lemma triple_each:
  assumes "\<And>x. x \<in> set xs \<Longrightarrow> triple P (f x) (\<lambda>_. P) E"
  shows "triple P (each_op f xs) (\<lambda>_. P) E"
  using assms
proof (induction xs)
  case Nil
  then show ?case by (simp add: triple_def return_op_def)
next
  case (Cons x xs)
  have "triple P (f x) (\<lambda>_. P) E" "triple P (each_op f xs) (\<lambda>_. P) E"
    using Cons by simp_all
  then show ?case by (simp add: triple_bind [of P "f x" "\<lambda>_. P"])
qed

text \<open>A condition that the calls of an operation keep.\<close>

lemma triple_keeps:
  assumes "appends A m" and "\<And>t call. P t \<Longrightarrow> A call \<Longrightarrow> P (t @ [call])"
  shows "triple P m (\<lambda>_. P) P"
proof (rule tripleI)
  fix s t r s' t'
  assume P: "P t" and run: "m (s, t) = (r, (s', t'))"
  obtain u where "t' = t @ u" "\<forall>call \<in> set u. A call" using assms(1) run by (rule appendsE)
  moreover have "P (t @ u)" if "\<forall>call \<in> set u. A call" for u
    using that by (induction u rule: rev_induct) (use P assms(2) in \<open>auto simp flip: append_assoc\<close>)
  ultimately show "case r of Ok x \<Rightarrow> P t' | _ \<Rightarrow> P t'" by (auto split: reply.split)
qed

text \<open>A wait that ends well has just read an object that passes the check.\<close>

lemma triple_poll:
  assumes "\<And>t x. P t \<Longrightarrow> P (t @ [note x])" and "\<And>s. snd (pass s) = snd s" and "P t"
    and "poll_until deadline pass n (object_condition (noted_call note f) check) v (s, t) =
      ((r, v'), (s', t'))"
  shows "case r of Ok _ \<Rightarrow> \<exists>u x. t' = u @ [note (Inr x)] \<and> P u \<and> check x = Ok True | _ \<Rightarrow> P t'"
  using assms(3,4)
proof (induction n arbitrary: v s t)
  case 0
  obtain x s1 where x: "f s = (x, s1)" by (cases "f s")
  obtain s2 where s2: "pass (s1, t @ [note x]) = (s2, t @ [note x])"
    using assms(2) [of "(s1, t @ [note x])"] by (metis prod.collapse snd_conv)
  have P: "P (t @ [note x])" using 0(1) assms(1) by simp
  show ?case
    using 0 x s2 P
    by (auto simp: object_condition_def noted_call_def
        split: sum.splits api_error.splits reply.splits bool.splits)
next
  case (Suc n)
  obtain x s1 where x: "f s = (x, s1)" by (cases "f s")
  obtain s2 where s2: "pass (s1, t @ [note x]) = (s2, t @ [note x])"
    using assms(2) [of "(s1, t @ [note x])"] by (metis prod.collapse snd_conv)
  have P: "P (t @ [note x])" using Suc.prems(1) assms(1) by simp
  note IH = Suc.IH [OF P, of _ s2]
  show ?case
    using Suc.prems x s2 P IH
    by (auto simp: object_condition_def noted_call_def
        split: sum.splits api_error.splits reply.splits bool.splits)
qed

lemma triple_ForObject:
  assumes "\<And>t x. P t \<Longrightarrow> P (t @ [note x])"
  shows "triple P (ForObject (recording api) (noted_call note f) check interval timeout)
    (\<lambda>_ t. \<exists>u x. t = u @ [note (Inr x)] \<and> P u \<and> check x = Ok True) P"
proof (rule tripleI)
  fix s t r s' t'
  assume P: "P t"
    and run: "ForObject (recording api) (noted_call note f) check interval timeout (s, t) = (r, (s', t'))"
  obtain q v s1 t1 where q: "poll_until (ad_deadline api) (ad_pass (recording api))
      (ad_polls api interval timeout) (object_condition (noted_call note f) check) None (s, t) =
      ((q, v), (s1, t1))"
    by (metis prod.collapse)
  have "case q of Ok _ \<Rightarrow> \<exists>u x. t1 = u @ [note (Inr x)] \<and> P u \<and> check x = Ok True | _ \<Rightarrow> P t1"
    by (rule triple_poll [OF assms _ P q]) auto
  then show "case r of Ok _ \<Rightarrow> \<exists>u x. t' = u @ [note (Inr x)] \<and> P u \<and> check x = Ok True | _ \<Rightarrow> P t'"
    using run q by (auto simp: ForObject_def split: reply.splits option.splits if_splits)
qed

lemma triple_on_error:
  assumes m: "triple P m (\<lambda>_. Q) Q"
  shows "triple P (on_error f m) (\<lambda>_. Q) Q"
proof (rule tripleI)
  fix s t r s' t'
  assume P: "P t" and run: "on_error f m (s, t) = (r, (s', t'))"
  obtain r1 s1 t1 where r1: "m (s, t) = (r1, (s1, t1))" by (metis prod.collapse)
  have "case r1 of Ok x \<Rightarrow> Q t1 | _ \<Rightarrow> Q t1" using tripleD [OF m P r1] .
  then show "case r of Ok x \<Rightarrow> Q t' | _ \<Rightarrow> Q t'"
    using run r1 by (cases r1) (auto simp: op_simps)
qed

lemma triple_answer: "triple P m (\<lambda>_. Q) Q \<Longrightarrow> triple P (answer resp m) (\<lambda>_. Q) Q"
  unfolding answer_def
  by (intro triple_on_error triple_bind [of P m "\<lambda>_. Q"])
    (auto simp: triple_def return_op_def)

lemma triple_noted_call:
  "triple P (call_op (noted_call note f)) (\<lambda>x t. \<exists>u. P u \<and> t = u @ [note (Inr x)])
     (\<lambda>t. \<exists>u err. P u \<and> t = u @ [note (Inl err)])"
  by (rule tripleI) (auto simp: call_op_def noted_call_def split: prod.splits sum.splits)

lemma triple_noted_unit:
  "triple P (unit_op (noted_call note f)) (\<lambda>_ t. \<exists>u. P u \<and> t = u @ [note None])
     (\<lambda>t. \<exists>u err. P u \<and> t = u @ [note (Some err)])"
  by (rule tripleI) (auto simp: unit_op_def noted_call_def split: prod.splits option.splits)

lemma triple_apply:
  "triple P (apply_op (recording api) client force owner obj)
     (\<lambda>_ t. \<exists>u. P u \<and> t = u @ [Applied client force owner obj None])
     (\<lambda>t. \<exists>u err. P u \<and> t = u @ [Applied client force owner obj (Some err)])"
  by (rule tripleI) (auto simp: apply_op_def noted_call_def split: prod.splits option.splits)

lemma triple_delete:
  "triple P (delete_ignoring_op (recording api) client key)
     (\<lambda>_ t. \<exists>u err. P u \<and> t = u @ [Deleted client key False err])
     (\<lambda>t. \<exists>u err. P u \<and> t = u @ [Deleted client key False err])"
  by (rule tripleI)
    (auto simp: delete_ignoring_op_def noted_call_def
      split: prod.splits option.splits api_error.splits)

lemma triple_remote_client:
  "triple P (remote_client_op (recording api) c)
     (\<lambda>client t. P t \<and> client = Workload (cl_namespace c) (cl_name c)) P"
  by (rule tripleI)
    (auto simp: remote_client_op_def bind_op_def unit_op_def return_op_def quiet_call_def
      split: prod.splits option.splits)

lemma triple_pure: "(c \<Longrightarrow> triple P m Q E) \<Longrightarrow> triple (\<lambda>t. P t \<and> c) m Q E"
  by (auto simp: triple_def)

lemma triple_return_same: "triple P (return_op x) (\<lambda>_. P) P"
  by (simp add: triple_def return_op_def)

text \<open>An operation may depend on the state that it starts in.\<close>

lemma triple_state:
  assumes "\<And>s. triple P (f s) Q E"
  shows "triple P (\<lambda>s. f s s) Q E"
  by (rule tripleI) (rule tripleD [OF assms])

section \<open>Calls that need others before them\<close>

definition preceded :: "(api_call \<Rightarrow> api_call list \<Rightarrow> bool) \<Rightarrow> api_call list \<Rightarrow> bool" where
  "preceded G t \<longleftrightarrow> (\<forall>i < length t. G (t ! i) (take i t))"

lemma preceded_simps [simp]:
  "preceded G []" "preceded G (t @ [call]) \<longleftrightarrow> preceded G t \<and> G call t"
  unfolding preceded_def by (auto simp: nth_append less_Suc_eq)

lemma triple_preceded:
  assumes "appends A m" and "\<And>call t. A call \<Longrightarrow> G call t"
  shows "triple (preceded G) m (\<lambda>_. preceded G) (preceded G)"
  by (rule triple_keeps [OF assms(1)]) (simp add: assms(2))

section \<open>Operations that do not panic\<close>

definition no_panic :: "('s \<Rightarrow> 'a reply \<times> 's) \<Rightarrow> bool" where
  "no_panic m \<longleftrightarrow> (\<forall>s msg. fst (m s) \<noteq> Panic msg)"

lemma no_panic_basic [panic_intros]:
  "no_panic (return_op x)" "no_panic (error_op e)" "no_panic (sum_op r)" "no_panic (call_op f)"
  "no_panic (unit_op g)" "no_panic (apply_op api client force owner obj)"
  "no_panic (set_owner_op api c obj)" "no_panic (delete_ignoring_op api client key)"
  by (auto simp: no_panic_def return_op_def error_op_def sum_op_def call_op_def unit_op_def
      apply_op_def set_owner_op_def delete_ignoring_op_def
      split: sum.splits prod.splits option.splits api_error.splits)

lemma no_panic_bind [panic_intros]:
  "no_panic m \<Longrightarrow> (\<And>x. no_panic (k x)) \<Longrightarrow> no_panic (bind_op m k)"
  by (auto simp: no_panic_def bind_op_def split: prod.split reply.split) (metis fst_conv)

lemma no_panic_wrap [panic_intros]: "no_panic m \<Longrightarrow> no_panic (wrap_op c m)"
  by (auto simp: no_panic_def wrap_op_def split: prod.split reply.split) (metis fst_conv)

lemma no_panic_on_error [panic_intros]: "no_panic m \<Longrightarrow> no_panic (on_error f m)"
  by (auto simp: no_panic_def on_error_def split: prod.split reply.split) (metis fst_conv)

lemma no_panic_answer [panic_intros]: "no_panic m \<Longrightarrow> no_panic (answer resp m)"
  unfolding answer_def by (intro panic_intros)

lemma no_panic_reply [panic_intros]: "(\<And>msg. q \<noteq> Panic msg) \<Longrightarrow> no_panic (reply_op q)"
  by (auto simp: no_panic_def reply_op_def)

lemma no_panic_each [panic_intros]:
  "(\<And>x. x \<in> set xs \<Longrightarrow> no_panic (f x)) \<Longrightarrow> no_panic (each_op f xs)"
  by (induction xs) (auto intro!: panic_intros)

lemma not_no_panic: "panic_op msg s = (Panic msg, s)"
  by (simp add: panic_op_def)

lemma no_panicD: "no_panic m \<Longrightarrow> m s \<noteq> (Panic msg, s')"
  by (auto simp: no_panic_def) (metis fst_conv)

lemma no_panic_poll:
  assumes "\<And>v s msg. fst (fst (cond v s)) \<noteq> Panic msg"
  shows "fst (fst (poll_until deadline pass n cond v s)) \<noteq> Panic msg"
proof (induction n arbitrary: v s)
  case 0
  show ?case using assms [of v s msg] by (auto split: prod.split reply.split bool.split)
next
  case (Suc n)
  show ?case using assms [of v s msg] Suc.IH by (auto split: prod.split reply.split bool.split)
qed

lemma no_panic_ForObject [panic_intros]:
  assumes "\<And>x msg. check x \<noteq> Panic msg"
  shows "no_panic (ForObject api get check interval timeout)"
proof -
  have "fst (fst (poll_until (ad_deadline api) (ad_pass api) (ad_polls api interval timeout)
      (object_condition get check) None s)) \<noteq> Panic msg" for s msg
    by (rule no_panic_poll)
      (use assms in \<open>auto simp: object_condition_def split: prod.split sum.split api_error.split reply.split\<close>)
  then show ?thesis
    by (auto simp: no_panic_def ForObject_def split: prod.split reply.split option.split) (metis fst_conv)
qed

lemma no_panic_shared [panic_intros]:
  "no_panic (remote_client_op api c)" "no_panic (own_op api kind name c)"
  "no_panic (chart_For api h component)" "no_panic (RetrieveValuesTemplate api name key ns)"
  "no_panic (EnsureNamespaceWithMetadata api client name labels annotations)"
  "no_panic (EnsureNamespaceWithName api client name)"
  "no_panic (CopySecretToRemoteCluster api name key' c)"
  "no_panic (EnsureCRSForClusterFromObjects api show name c opt objects)"
  "no_panic (waitToBeReady api hcp)"
  unfolding remote_client_op_def own_op_def chart_For_def RetrieveValuesTemplate_def
    RetrieveValuesTemplateConfigMap_def EnsureNamespaceWithMetadata_def EnsureNamespaceWithName_def
    EnsureNamespace_def CopySecretToRemoteCluster_def getSecretForCluster_def Let_def
    EnsureCRSForClusterFromObjects_def waitToBeReady_def proxy_is_ready_def
  by (auto intro!: panic_intros split: option.split if_splits)

lemma no_panic_helm_Apply:
  assumes "\<And>t x msg. ao_templater (applied_options a) = Some t \<Longrightarrow> t c x \<noteq> Panic msg"
    and "\<And>hook client hcp. hook \<in> set (ao_hooks (applied_options a)) \<Longrightarrow> no_panic (hook client c hcp)"
    and "\<And>w hcp. ao_waiter (applied_options a) = Some w \<Longrightarrow> no_panic (w hcp)"
  shows "no_panic (helm_Apply a c ns)"
  unfolding helm_Apply_def Let_def run_hooks_def
  using assms by (auto intro!: panic_intros split: option.split)

end
