(* ===== verification/AddonSamples.thy ===== *)
theory AddonSamples
  imports LifecycleHandlers Samples
begin

text \<open>
  API servers that answer every call, for the witnesses of the properties of addons: a ConfigMap
  has every key that is looked up, workloads are ready, and every change succeeds.
\<close>

definition sample_config_map :: config_map where
  "sample_config_map = \<lparr>cm_namespace = ''defaults'', cm_name = ''cm'',
     cm_data = [(''kube-proxy-replacement'', ''true''), (''values.yaml'', ''values''),
       (''nfd'', ''chart''), (''nutanix-storage-csi'', ''chart''),
       (''cluster-autoscaler'', ''chart'')], cm_binary = []\<rparr>"

definition sample_daemon_set :: daemon_set where
  "sample_daemon_set = \<lparr>ds_generation = 1, ds_observed = 1, ds_desired = 3, ds_ready = 3,
     ds_available = 3, ds_updated = 3, ds_template_annotations = None, ds_other = []\<rparr>"

definition sample_secret :: secret_object where
  "sample_secret = \<lparr>sec_namespace = ''ns'', sec_name = ''secret'', sec_data = Map.empty,
     sec_string_data = Map.empty, sec_type = []\<rparr>"

definition sample_registry_api :: "(unit, unit) registry_api" where
  "sample_registry_api = \<lparr>ra_secret = (\<lambda>_ _ _. Inl ''not found''), ra_get = (\<lambda>_ _ _ _. Inr ()),
     ra_set_owner = (\<lambda>_ _. Inr ()), ra_update = (\<lambda>_ s. (None, s)), ra_own_error = (\<lambda>_. None),
     ra_apply = (\<lambda>_ s. (None, s))\<rparr>"

definition sample_addon_api :: "(unit, unit) addon_api" where
  "sample_addon_api =
     \<lparr>ad_config_map = (\<lambda>_ _ _ s. (Inr sample_config_map, s)),
      ad_config_maps = (\<lambda>_ _ _ s. (Inr [], s)), ad_secret = (\<lambda>_ _ s. (Inr sample_secret, s)),
      ad_daemon_set = (\<lambda>_ _ _ s. (Inr sample_daemon_set, s)),
      ad_deployment = (\<lambda>_ _ _ s. (Inl (NotFound ''not found''), s)),
      ad_stateful_set = (\<lambda>_ _ _ s. (Inr [''10Gi''], s)), ad_claims = (\<lambda>_ _ _ s. (Inr [], s)),
      ad_proxy = (\<lambda>_ _ s. (Inr \<lparr>ps_generation = 1, ps_observed = 1,
        ps_conditions = [(''Ready'', ''True'')]\<rparr>, s)),
      ad_clusters = (\<lambda>_. \<lparr>cr_nodes = Inr [], cr_cluster = (\<lambda>_ _. Inr sample_cluster),
        cr_clusters = Inr []\<rparr>),
      ad_remote = (\<lambda>_ _ s. (None, s)), ad_own_error = (\<lambda>_ _ _. None),
      ad_apply = (\<lambda>_ _ _ _ s. (None, s)), ad_update_daemon_set = (\<lambda>_ _ _ _ s. (None, s)),
      ad_update_claim = (\<lambda>_ _ s. (None, s)), ad_delete = (\<lambda>_ _ _ s. (None, s)),
      ad_owners = sample_registry_api, ad_pass = id, ad_polls = (\<lambda>_ _. 0),
      ad_deadline = ''context deadline exceeded'', ad_interrupted = (\<lambda>_. False),
      ad_now = (\<lambda>_. ''now'')\<rparr>"

definition addon_env_of :: "('s, unit) addon_api \<Rightarrow> ('s, unit) addon_env" where
  "addon_env_of api = \<lparr>en_api = api,
     en_charts = \<lparr>hg_name = ''charts'', hg_namespace = ''defaults'',
       hg_decode = (\<lambda>_. Inr \<lparr>hc_name = ''chart'', hc_version = ''1'', hc_repository = ''repo''\<rparr>)\<rparr>,
     en_pod_namespace = ''caren'', en_defaults = ''defaults'', en_show = (\<lambda>_. ''object'')\<rparr>"

lemma sample_addon_api_fields [simp]:
  "ad_config_map sample_addon_api client ns name s = (Inr sample_config_map, s)"
  "ad_config_maps sample_addon_api ns label v s = (Inr [], s)"
  "ad_secret sample_addon_api ns name s = (Inr sample_secret, s)"
  "ad_daemon_set sample_addon_api client ns name s = (Inr sample_daemon_set, s)"
  "ad_stateful_set sample_addon_api client ns name s = (Inr [''10Gi''], s)"
  "ad_remote sample_addon_api ns name s = (None, s)"
  "ad_own_error sample_addon_api c kind ns = None"
  "ad_apply sample_addon_api client force owner obj s = (None, s)"
  "ad_update_daemon_set sample_addon_api client ns name ds s = (None, s)"
  "ad_delete sample_addon_api client key orphan s = (None, s)"
  "ad_polls sample_addon_api i n = 0" "ad_now sample_addon_api s = ''now''"
  "ad_owners sample_addon_api = sample_registry_api"
  by (simp_all add: sample_addon_api_def)

lemma addon_env_of_fields [simp]:
  "en_api (addon_env_of api) = api" "en_defaults (addon_env_of api) = ''defaults''"
  "en_show (addon_env_of api) obj = ''object''"
  by (simp_all add: addon_env_of_def)

text \<open>Evaluation of operations.\<close>

lemmas operation_evals = bind_op_def return_op_def error_op_def panic_op_def wrap_op_def call_op_def
  unit_op_def sum_op_def reply_op_def on_error_def answer_def common_hook_def quiet_call_def
  noted_call_def apply_op_def set_owner_op_def delete_ignoring_op_def remote_client_op_def

definition initialized_cluster :: cluster where
  "initialized_cluster = sample_cluster\<lparr>cl_annotations := [''caren.nutanix.com/cluster-uuid'' \<mapsto> ''u'']\<rparr>"

lemma initialized_cluster_fields [simp]:
  "cl_name initialized_cluster = ''c''" "cl_namespace initialized_cluster = ''ns''"
  "uuid_of initialized_cluster = Some ''u''"
  "cl_spec initialized_cluster = cl_spec sample_cluster"
  by (simp_all add: initialized_cluster_def uuid_of_def)

end
