(* ===== verification/AddonProps.thy ===== *)
theory AddonProps
  imports AddonTraces AddonSamples
begin

text \<open>
  Properties of the addons: when a wait succeeds, that namespaces are labelled before what needs
  the label is installed, which handlers panic, and that the cluster autoscaler is removed by the
  name under which it was installed.
\<close>

section \<open>Waiting\<close>

text \<open>
  The object passes at the poll \<open>k\<close>, and at the polls before it did not exist or did not pass.
\<close>

fun passes_at ::
    "('s \<Rightarrow> (api_error + 'x) \<times> 's) \<Rightarrow> ('x \<Rightarrow> bool reply) \<Rightarrow> ('s \<Rightarrow> 's) \<Rightarrow> nat \<Rightarrow> 's \<Rightarrow> bool" where
  "passes_at get check pass 0 s =
     (case fst (get s) of Inr x \<Rightarrow> check x = Ok True | Inl err \<Rightarrow> False)"
| "passes_at get check pass (Suc k) s =
     ((case fst (get s) of Inr x \<Rightarrow> check x = Ok False | Inl err \<Rightarrow> IsNotFound err) \<and>
      passes_at get check pass k (pass (snd (get s))))"

lemma passes_at_le_Suc:
  "(\<exists>k \<le> Suc n. passes_at get check pass k s) \<longleftrightarrow> passes_at get check pass 0 s \<or>
     (case fst (get s) of Inr x \<Rightarrow> check x = Ok False | Inl err \<Rightarrow> IsNotFound err) \<and>
     (\<exists>k \<le> n. passes_at get check pass k (pass (snd (get s))))"
proof -
  have "(\<exists>k \<le> Suc n. P k) \<longleftrightarrow> P 0 \<or> (\<exists>k \<le> n. P (Suc k))" for P :: "nat \<Rightarrow> bool"
    by (metis Suc_le_mono le0 not0_implies_Suc)
  then show ?thesis by (simp add: passes_at.simps(2) del: passes_at.simps(1)) blast
qed

lemma poll_succeeds:
  "fst (fst (poll_until deadline pass n (object_condition get check) v s)) = Ok () \<longleftrightarrow>
     (\<exists>k \<le> n. passes_at get check pass k s)"
proof (induction n arbitrary: v s)
  case 0
  show ?case
    by (auto simp: object_condition_def split: prod.splits sum.splits api_error.splits reply.splits
        bool.splits)
next
  case (Suc n)
  show ?case
    unfolding passes_at_le_Suc
    using Suc.IH
    by (auto simp: object_condition_def
        split: prod.splits sum.splits api_error.splits reply.splits bool.splits)
qed

text \<open>
  C17. A wait for an object succeeds exactly when the object passes the check at one of the polls
  within the time-out, and before that does not exist or does not pass; an error of the read or of
  the check ends it.
\<close>

theorem wait_succeeds_iff:
  "fst (ForObject api get check interval timeout s) = Ok () \<longleftrightarrow>
     (\<exists>k \<le> ad_polls api interval timeout. passes_at get check (ad_pass api) k s)"
  unfolding poll_succeeds [of "ad_deadline api" _ _ _ _ None, symmetric]
  by (auto simp: ForObject_def split: prod.splits reply.splits option.splits)

definition third_poll :: "unit \<times> api_call list \<Rightarrow> (api_error + nat) \<times> (unit \<times> api_call list)" where
  "third_poll s = (if length (snd s) < 2 then Inl (NotFound []) else Inr (length (snd s)),
     (fst s, snd s @ [Deleted Management ([], [], []) False None]))"

theorem wait_succeeds_iff_witness:
  "fst (ForObject ((recording sample_addon_api)\<lparr>ad_polls := \<lambda>interval timeout. nat (timeout div interval)\<rparr>)
     third_poll (\<lambda>n. Ok (n = 2)) 1 3 ((), [])) = Ok ()"
proof -
  have "passes_at third_poll (\<lambda>n. Ok (n = 2)) (ad_pass (recording sample_addon_api)) 2 ((), [])"
    by (simp add: numeral_2_eq_2 third_poll_def sample_addon_api_def)
  then show ?thesis
    by (subst wait_succeeds_iff) (auto intro!: exI [of _ "2::nat"])
qed

section \<open>Namespaces with privileges\<close>

definition labelled :: "cluster \<Rightarrow> string \<Rightarrow> api_call list \<Rightarrow> bool" where
  "labelled cluster ns t \<longleftrightarrow>
     (\<exists>labels. Applied (Workload (cl_namespace cluster) (cl_name cluster)) False None
          (NamespaceObject ns (Some labels) None) None \<in> set t \<and>
        labels ''pod-security.kubernetes.io/enforce'' = Some ''privileged'')"

definition after_label :: "cluster \<Rightarrow> api_call \<Rightarrow> api_call list \<Rightarrow> bool" where
  "after_label cluster call t \<longleftrightarrow>
     (\<forall>owner hp err. call = Applied Management True owner (HelmProxyObject hp) err \<longrightarrow>
        labelled cluster (hp_release_namespace hp) t)"

fun no_proxy_call :: "api_call \<Rightarrow> bool" where
  "no_proxy_call (Applied client force owner (HelmProxyObject hp) err) = False"
| "no_proxy_call _ = True"

lemma triple_no_proxy:
  assumes "appends no_proxy_call m"
  shows "triple (preceded (after_label cluster)) m (\<lambda>_. preceded (after_label cluster))
    (preceded (after_label cluster))"
  by (rule triple_preceded [OF assms]) (auto simp: after_label_def)

text \<open>The namespace is labelled, and then the chart is installed into it.\<close>

lemma triple_label:
  assumes "labels ''pod-security.kubernetes.io/enforce'' = Some ''privileged''"
  shows "triple (preceded (after_label cluster))
    (EnsureNamespaceWithMetadata (recording api) (Workload (cl_namespace cluster) (cl_name cluster)) ns
       (Some labels) None)
    (\<lambda>_ t. preceded (after_label cluster) t \<and> labelled cluster ns t) (preceded (after_label cluster))"
  unfolding EnsureNamespaceWithMetadata_def EnsureNamespace_def
  by (rule triple_wrap, rule triple_weaken [OF triple_apply [where P = "preceded (after_label cluster)"]])
    (use assms in \<open>auto simp: after_label_def labelled_def\<close>)

lemma triple_remote_labelled:
  assumes "labels ''pod-security.kubernetes.io/enforce'' = Some ''privileged''"
    and "\<And>client. triple (\<lambda>t. preceded (after_label cluster) t \<and> labelled cluster ns t) (k client)
      (\<lambda>_. preceded (after_label cluster)) (preceded (after_label cluster))"
  shows "triple (preceded (after_label cluster))
    (bind_op (wrap_op a (remote_client_op (recording api) cluster)) (\<lambda>client.
       bind_op (wrap_op b (EnsureNamespaceWithMetadata (recording api) client ns (Some labels) None))
         (\<lambda>_. k client)))
    (\<lambda>_. preceded (after_label cluster)) (preceded (after_label cluster))"
proof (rule triple_bind [OF triple_wrap [OF triple_remote_client]], rule triple_pure, hypsubst)
  show "triple (preceded (after_label cluster))
      (bind_op (wrap_op b (EnsureNamespaceWithMetadata (recording api)
         (Workload (cl_namespace cluster) (cl_name cluster)) ns (Some labels) None))
         (\<lambda>_. k (Workload (cl_namespace cluster) (cl_name cluster))))
      (\<lambda>_. preceded (after_label cluster)) (preceded (after_label cluster))"
    by (rule triple_bind [OF triple_wrap [OF triple_label [where labels = labels, OF assms(1)]] assms(2)])
qed

fun release_in :: "string \<Rightarrow> api_call \<Rightarrow> bool" where
  "release_in ns (Applied client force owner (HelmProxyObject hp) err) = (hp_release_namespace hp = ns)"
| "release_in ns _ = True"

lemma triple_labelled:
  assumes "appends (release_in ns) m"
  shows "triple (\<lambda>t. preceded (after_label cluster) t \<and> labelled cluster ns t) m
    (\<lambda>_. preceded (after_label cluster)) (preceded (after_label cluster))"
  by (rule triple_weaken [OF triple_keeps [OF assms,
        where P = "\<lambda>t. preceded (after_label cluster) t \<and> labelled cluster ns t"]])
    (auto simp: after_label_def labelled_def)

lemma appends_release:
  assumes "ap_api a = recording api" "ha_namespace (ap_config a) = ns"
    and "ao_hooks (applied_options a) = []"
    and "\<And>w hcp A. ao_waiter (applied_options a) = Some w \<Longrightarrow> appends A (w hcp)"
  shows "appends (release_in ns) (helm_Apply a cluster dns)"
  by (rule appends_helm_Apply [OF assms(1)]) (use assms in auto)

lemma appends_apply_configuration:
  assumes "\<And>obj err. obj \<in> set objs \<Longrightarrow> A (Applied client False None obj err)"
  shows "appends A (apply_configuration (recording api) client objs v)"
  using assms
proof (induction objs)
  case Nil
  show ?case by (rule appends_unchanged) simp
next
  case (Cons obj objs)
  show ?case
  proof (rule appendsI)
    fix s t
    obtain err s' where e: "ad_apply api client False None obj s = (err, s')" by (metis prod.collapse)
    let ?call = "Applied client False None obj err"
    have call: "A ?call" using Cons.prems by simp
    obtain x s2 t2 where rest: "apply_configuration (recording api) client objs v (s', t @ [?call]) =
        (x, (s2, t2))"
      by (metis prod.collapse)
    have "appends A (apply_configuration (recording api) client objs v)" using Cons by simp
    then obtain u where "t2 = (t @ [?call]) @ u" "\<forall>call \<in> set u. A call"
      using rest by (rule appendsE)
    then show "\<exists>t'. snd (snd (apply_configuration (recording api) client (obj # objs) v (s, t))) =
        t @ t' \<and> (\<forall>call \<in> set t'. A call)"
      using e rest call
      by (auto simp: noted_call_def Let_def split: option.split apply_error.split prod.split)
  qed
qed

lemma appends_configure:
  assumes "\<And>obj err. obj \<in> set objs \<Longrightarrow> A (Applied client False None obj err)"
  shows "appends A (configure_metallb (recording api) client objs)"
proof -
  have "appends A (poll_until (ad_deadline api) (ad_pass (recording api)) (ad_polls api 2 10)
      (apply_configuration (recording api) client objs) None)"
    by (intro appends_poll appends_apply_configuration assms) auto
  then show ?thesis
    by (rule appends_map)
      (auto simp: configure_metallb_def split: prod.split reply.split option.split)
qed

lemma configuration_objects_no_proxy:
  "ConfigurationObjects name ns ranges = Inr objs \<Longrightarrow> obj \<in> set objs \<Longrightarrow>
     release_in rns (Applied client False None obj err)"
  by (auto simp: ConfigurationObjects_def split: if_splits)

section \<open>The handlers with privileged namespaces\<close>

abbreviation kept :: "cluster \<Rightarrow> ('s \<times> api_call list, 'a) operation \<Rightarrow> bool" where
  "kept cluster m \<equiv> triple (preceded (after_label cluster)) m (\<lambda>_. preceded (after_label cluster))
     (preceded (after_label cluster))"

lemma kept_no_proxy: "appends no_proxy_call m \<Longrightarrow> kept cluster m"
  by (rule triple_no_proxy)

lemma kept_return: "kept cluster (return_op x)"
  by (rule triple_return_same)

lemma kept_bind: "kept cluster m \<Longrightarrow> (\<And>x. kept cluster (k x)) \<Longrightarrow> kept cluster (bind_op m k)"
  by (rule triple_bind)

lemma privileged_labels:
  "PrivilegedPodSecurityEnforceLabels ''pod-security.kubernetes.io/enforce'' = Some ''privileged''"
  "podSecurityReleaseNamespaceLabels ''pod-security.kubernetes.io/enforce'' = Some ''privileged''"
  by (simp_all add: PrivilegedPodSecurityEnforceLabels_def podSecurityReleaseNamespaceLabels_def)

lemma kept_chart: "kept cluster (wrap_op e (chart_For (recording api) h name))"
  by (intro kept_no_proxy call_intros) simp

lemma kept_nfd:
  assumes env: "en_api env = recording api"
  shows "kept cluster (nfd_apply env nfd_helm_config configMapName var cluster resp)"
proof -
  have crs: "appends no_proxy_call (nfd_crs_Apply env configMapName cluster ns)" for ns
    unfolding nfd_crs_Apply_def apply_config_map_def env by (intro call_intros) simp_all
  have helm: "triple (\<lambda>t. preceded (after_label cluster) t \<and> labelled cluster nfd_namespace t)
      (wrap_op e (helm_Apply (new_applier env nfd_helm_config chart) cluster ns))
      (\<lambda>_. preceded (after_label cluster)) (preceded (after_label cluster))" for e chart ns
    by (intro triple_wrap triple_labelled appends_release) (simp_all add: env nfd_helm_config_def)
  note label = triple_remote_labelled [where labels = PrivilegedPodSecurityEnforceLabels,
      OF privileged_labels(1)]
  show ?thesis
    unfolding nfd_apply_def Let_def env
    by (cases var)
      (auto simp: kept_return triple_error intro!: triple_answer kept_bind [OF kept_chart] label helm
        kept_no_proxy [OF appends_wrap [OF crs]])
qed

lemma kept_nutanix_csi:
  assumes env: "en_api env = recording api"
  shows "kept cluster (nutanix_csi_Apply env nutanix_csi_helm_config provider dst cluster)"
proof -
  have creds: "appends no_proxy_call (nutanix_csi_credentials env (csp_credentials provider) cluster)"
    unfolding nutanix_csi_credentials_def env
    by (cases "csp_credentials provider") (auto intro!: call_intros)
  have classes: "appends (release_in csi_namespace)
      (wrap_op e (CreateStorageClassesOnRemote env classes cluster dst name provisioner defaults))"
    for e classes name provisioner defaults
    unfolding CreateStorageClassesOnRemote_def Let_def env by (intro call_intros) simp_all
  have helm: "appends (release_in csi_namespace)
      (helm_Apply (new_applier env nutanix_csi_helm_config chart) cluster ns)" for chart ns
    by (rule appends_release) (simp_all add: env nutanix_csi_helm_config_def)
  note label = triple_remote_labelled [where labels = PrivilegedPodSecurityEnforceLabels,
      OF privileged_labels(1)]
  have rest: "kept cluster (bind_op (nutanix_csi_credentials env (csp_credentials provider) cluster) (\<lambda>_.
     bind_op (wrap_op a (remote_client_op (recording api) cluster)) (\<lambda>remoteClient.
     bind_op (wrap_op b (EnsureNamespaceWithMetadata (recording api) remoteClient csi_namespace
            (Some PrivilegedPodSecurityEnforceLabels) None)) (\<lambda>_.
     bind_op (wrap_op c (helm_Apply (new_applier env nutanix_csi_helm_config chart) cluster ns)) (\<lambda>_.
     wrap_op e (CreateStorageClassesOnRemote env classes cluster dst name provisioner defaults))))))"
    for a b c e chart ns classes name provisioner defaults
    by (intro kept_bind [OF kept_no_proxy [OF creds]] label triple_labelled appends_bind appends_wrap
        helm classes)
  show ?thesis
    unfolding nutanix_csi_Apply_def env
    by (auto simp: bind_op_assoc triple_error intro!: kept_bind [OF kept_chart] rest)
qed

lemma kept_metallb:
  assumes env: "en_api env = recording api"
  shows "kept cluster (metallb_Apply env configMapName slb cluster)"
proof -
  let ?A = "release_in metallb_namespace"
  have chart: "appends ?A (wrap_op e (chart_For (recording api) h name))" for e h name
    by (intro call_intros) simp
  have helm: "appends ?A (wrap_op e (helm_Apply (WithDefaultWaiter (new_applier env
      \<lparr>ha_template = m, ha_namespace = metallb_namespace, ha_release = metallb_release\<rparr> chart)) cluster ns))"
    for e m chart ns
    by (intro appends_wrap appends_release) (auto simp: env intro: call_intros)
  have config: "appends ?A (case slb_ranges slb of None \<Rightarrow> return_op ()
      | Some ranges \<Rightarrow> bind_op (wrap_op e (sum_op (ConfigurationObjects metallb_release metallb_namespace ranges)))
           (configure_metallb (recording api) client))" for e client
  proof (cases "slb_ranges slb")
    case (Some ranges)
    show ?thesis
      by (cases "ConfigurationObjects metallb_release metallb_namespace ranges")
        (auto simp: Some sum_op_def configuration_objects_no_proxy
          intro!: call_intros appends_configure)
  qed (simp add: call_intros)
  note label = triple_remote_labelled [where labels = podSecurityReleaseNamespaceLabels,
      OF privileged_labels(2)]
  show ?thesis
    unfolding metallb_Apply_def env
    by (intro label triple_labelled appends_bind chart helm config)
qed

lemma kept_konnector:
  assumes env: "en_api env = recording api"
  shows "kept cluster (konnector_apply env kenv parse konnector_helm_config var configVar cluster resp)"
proof -
  let ?A = "release_in ''ntnx-system''"
  have copy: "kept cluster (wrap_op e (CopySecretToRemoteCluster (recording api) name key cluster))"
    for e name key
    by (intro kept_no_proxy call_intros) simp_all
  have own: "kept cluster (wrap_op e (own_op (recording api) kind name cluster))" for e kind name
    by (intro kept_no_proxy call_intros)
  have chart: "appends ?A (wrap_op e (chart_For (recording api) h name))" for e h name
    by (intro call_intros) simp
  have config: "appends ?A (wrap_op e (case configVar of Found config \<Rightarrow> return_op config
      | Missing err \<Rightarrow> error_op err | Failed err \<Rightarrow> error_op err))" for e
    by (cases configVar) (auto intro!: call_intros)
  have helm: "appends ?A (wrap_op e (helm_Apply (WithValueTemplater t
      (new_applier env konnector_helm_config chart)) cluster ns))" for e t chart ns
    by (intro appends_wrap appends_release) (auto simp: env konnector_helm_config_def)
  note label = triple_remote_labelled [where labels = PrivilegedPodSecurityEnforceLabels,
      OF privileged_labels(1)]
  have steps: "kept cluster (answer resp m)" if "kept cluster m" for m
    using that by (rule triple_answer)
  show ?thesis
    unfolding konnector_apply_def env
    by (cases var; cases "ka_credentials (case var of Found v \<Rightarrow> v)")
      (auto simp: kept_return intro!: steps kept_bind [OF own] kept_bind [OF copy] label triple_labelled appends_bind chart
          config helm)
qed

text \<open>
  C10. Before a chart with privileged Pods is installed - Node Feature Discovery, the Nutanix storage
  driver, MetalLB, the Konnector Agent - the namespace of its release was applied successfully on
  the workload cluster with the label that admits such Pods.
\<close>

theorem privileged_before_chart:
  assumes "en_api env = recording api"
    and "(\<exists>r. nfd_AfterControlPlaneInitialized env nfd_helm_config nfdMap nfdVar cluster resp (s, []) =
           (r, (s', t))) \<or>
         (\<exists>r. nutanix_csi_Apply env nutanix_csi_helm_config provider dst cluster (s, []) = (r, (s', t))) \<or>
         (\<exists>r. metallb_Apply env metallbMap slb cluster (s, []) = (r, (s', t))) \<or>
         (\<exists>r. konnector_AfterControlPlaneInitialized env kenv parse konnector_helm_config agentVar configVar
           cluster resp (s, []) = (r, (s', t)))"
    and "i < length t" and "t ! i = Applied Management True owner (HelmProxyObject hp) err"
  shows "\<exists>j < i. \<exists>labels. t ! j = Applied (Workload (cl_namespace cluster) (cl_name cluster)) False None
      (NamespaceObject (hp_release_namespace hp) (Some labels) None) None \<and>
    labels ''pod-security.kubernetes.io/enforce'' = Some ''privileged''"
proof -
  have ended: "preceded (after_label cluster) t"
    if "kept cluster m" "m (s, []) = (r, (s', t))"
    for m :: "('a \<times> api_call list, 'z) operation" and r
    using tripleD [OF that(1) _ that(2)] by (cases r) simp_all
  have hooks: "kept cluster (common_hook f resp)" if "kept cluster (f new_response)" for f
    unfolding common_hook_def by (intro kept_bind that kept_return)
  have "kept cluster (nfd_AfterControlPlaneInitialized env nfd_helm_config nfdMap nfdVar cluster resp)"
    unfolding nfd_AfterControlPlaneInitialized_def by (rule hooks [OF kept_nfd [OF assms(1)]])
  moreover have "kept cluster (konnector_AfterControlPlaneInitialized env kenv parse
      konnector_helm_config agentVar configVar cluster resp)"
    unfolding konnector_AfterControlPlaneInitialized_def
    by (rule hooks [OF kept_konnector [OF assms(1)]])
  ultimately have "preceded (after_label cluster) t"
    using assms(2) kept_nutanix_csi [OF assms(1)] kept_metallb [OF assms(1)]
    by (elim disjE exE) (erule ended [rotated], assumption)+
  then have "labelled cluster (hp_release_namespace hp) (take i t)"
    using assms(3,4) by (auto simp: preceded_def after_label_def)
  then show ?thesis
    using assms(3) by (fastforce simp: labelled_def in_set_conv_nth)
qed

theorem privileged_before_chart_witness:
  "\<exists>r t hp. nfd_AfterControlPlaneInitialized (addon_env_of (recording sample_addon_api)) nfd_helm_config ''nfd''
       (Found HelmAddonStrategy) initialized_cluster new_response ((), []) = (r, ((), t)) \<and>
     t ! 3 = Applied Management True (Some (''ns'', ''c'')) (HelmProxyObject hp) None \<and>
     hp_release_namespace hp = nfd_namespace \<and>
     (\<exists>j < 3. \<exists>labels. t ! j = Applied (Workload ''ns'' ''c'') False None
        (NamespaceObject nfd_namespace (Some labels) None) None)"
proof -
  let ?hook = "nfd_AfterControlPlaneInitialized (addon_env_of (recording sample_addon_api)) nfd_helm_config
    ''nfd'' (Found HelmAddonStrategy) initialized_cluster"
  obtain r s t where run: "?hook new_response ((), []) = (r, (s, t))" by (metis prod.collapse)
  note evals = nfd_AfterControlPlaneInitialized_def nfd_apply_def HelmAddonStrategy_def
    ResourceSetStrategy_def chart_For_def EnsureNamespaceWithMetadata_def EnsureNamespace_def
    helm_Apply_def RetrieveValuesTemplate_def RetrieveValuesTemplateConfigMap_def run_hooks_def
    target_of_def owner_of_def nfd_helm_config_def sample_config_map_def addon_env_of_def operation_evals
  have "\<exists>hp. t ! 3 = Applied Management True (Some (''ns'', ''c'')) (HelmProxyObject hp) None \<and>
      hp_release_namespace hp = nfd_namespace" and len: "length t = 4"
    using run by (auto simp: evals)
  then obtain hp where hp: "t ! 3 = Applied Management True (Some (''ns'', ''c'')) (HelmProxyObject hp) None"
    "hp_release_namespace hp = nfd_namespace" by blast
  have some: "\<exists>r. ?hook new_response ((), []) = (r, (s, t))" using run by blast
  have "\<exists>j < 3. \<exists>labels. t ! j = Applied (Workload ''ns'' ''c'') False None
      (NamespaceObject nfd_namespace (Some labels) None) None"
    using privileged_before_chart [OF addon_env_of_fields(1) disjI1 [OF some] _ hp(1)] len hp(2)
    by auto
  then show ?thesis using run hp by auto
qed

section \<open>Handlers that panic\<close>

definition panics :: "('s, 'a) operation \<Rightarrow> 's \<Rightarrow> bool" where
  "panics m s \<longleftrightarrow> (\<exists>msg s'. m s = (Panic msg, s'))"

lemma panics_simps [simp]: "panics (panic_op msg) s" "\<not> panics (return_op x) s"
  by (simp_all add: panics_def panic_op_def return_op_def)

lemma no_panic_panics: "no_panic m \<Longrightarrow> \<not> panics m s"
  by (auto simp: panics_def dest: no_panicD)

lemma panics_common: "panics (common_hook f resp) s \<longleftrightarrow> panics (f new_response) s"
  by (auto simp: panics_def common_hook_def bind_op_def return_op_def split: prod.split reply.split)

lemma no_panic_config_map [panic_intros]: "no_panic (apply_config_map env a b cluster cm)"
  unfolding apply_config_map_def by (intro panic_intros)

lemma no_panic_sets [panic_intros]:
  "no_panic (snapshot_crs_Apply env m cluster ns)" "no_panic (nfd_crs_Apply env m cluster ns)"
  "no_panic (cilium_crs_Apply env m cluster ns)"
  unfolding snapshot_crs_Apply_def nfd_crs_Apply_def cilium_crs_Apply_def by (intro panic_intros)+

lemma no_panic_new_applier [panic_intros]:
  "no_panic (helm_Apply (new_applier env config chart) cluster ns)"
  by (rule no_panic_helm_Apply) simp_all

lemma no_panic_autoscaler_values [panic_intros]:
  "autoscaler_templateValues parse cluster text \<noteq> Panic msg"
  by (simp add: autoscaler_templateValues_def split: sum.split)

lemma no_panic_autoscaler_data [panic_intros]: "templateData parse cluster data \<noteq> Panic msg"
  by (induction data)
    (auto split: reply.splits simp: no_panic_autoscaler_values)

lemma no_panic_autoscaler_applier [panic_intros]:
  "no_panic (helm_Apply (WithHelmReleaseName name (WithValueTemplater (autoscaler_templateValues parse)
     (WithTargetCluster target (new_applier env config chart)))) cluster ns)"
  by (rule no_panic_helm_Apply) (auto intro: no_panic_autoscaler_values [THEN notE])

lemma no_panic_target [panic_intros]: "no_panic (findTargetCluster api cluster)"
  by (auto simp: no_panic_def findTargetCluster_def split: sum.split)

lemma no_panic_autoscaler [panic_intros]:
  "no_panic (autoscaler_crs_apply env parse m cluster ns)"
  "no_panic (autoscaler_helm_apply env parse m chart cluster ns)"
  unfolding autoscaler_crs_apply_def autoscaler_helm_apply_def Let_def
  by (auto intro!: panic_intros)

lemma no_panic_cilium_checks [panic_intros]:
  "replacement_configured cm \<noteq> Panic msg" "rolled_out ds \<noteq> Panic msg"
  "cilium_templateValues decode parse cluster text \<noteq> Panic msg"
  by (auto simp: replacement_configured_def rolled_out_def cilium_templateValues_def split: sum.split)

lemma no_panic_replace [panic_intros]: "no_panic (replaceKubeProxy api client)"
proof -
  have update: "no_panic (\<lambda>s. unit_op (ad_update_daemon_set api client ns name (f s)) s)" for ns name f
    by (auto simp: no_panic_def unit_op_def split: prod.split option.split)
  show ?thesis
    unfolding replaceKubeProxy_def forceCiliumRollout_def cleanupKubeProxy_def
      waitForCiliumConfigMapToBeUpdatedWithKubeProxyReplacement_def
    by (intro panic_intros update)
qed

lemma no_panic_runApply [panic_intros]:
  assumes "\<And>c ns. no_panic (strategy c ns)"
  shows "no_panic (runApply api decode cluster strategy ns)"
proof -
  have "no_panic (isKubeProxyInstalled api client)" for client
    by (auto simp: no_panic_def isKubeProxyInstalled_def split: prod.split sum.split api_error.split)
  then show ?thesis
    unfolding runApply_def using assms by (auto intro!: panic_intros)
qed

lemma no_panic_cilium_applier [panic_intros]:
  "no_panic (helm_Apply (cilium_applier env setup name chart) cluster ns)"
  by (rule no_panic_helm_Apply)
    (auto simp: cilium_applier_def intro!: panic_intros dest: no_panic_cilium_checks(3) [THEN notE])

lemma no_panic_cilium_steps [panic_intros]:
  "no_panic (cilium_helm_steps env setup False name ns chart cluster)"
  "no_panic (cilium_values_source env setup source cluster resp)"
  unfolding cilium_helm_steps_def Let_def cilium_values_source_def
  by (auto intro!: panic_intros split: option.split)

text \<open>
  C16. A strategy that the API schema should have refused: the hooks of Node Feature Discovery, the
  cluster autoscaler and Cilium panic exactly when it is empty, the hook of the snapshot
  controller also when it is unknown; COSI and the AWS Load Balancer Controller answer every
  request.  The hooks run in goroutines of their own, so that a panic ends the process.
\<close>

theorem addon_hooks_panic_iff:
  "(panics (nfd_AfterControlPlaneInitialized env helmConfig m (Found strategy) cluster resp) s \<longleftrightarrow>
      strategy = []) \<and>
   (panics (autoscaler_AfterControlPlaneInitialized env asetup (Found strategy) cluster resp) s \<longleftrightarrow>
      strategy = []) \<and>
   (panics (cilium_AfterControlPlaneInitialized env csetup (Found cni) cluster resp) s \<longleftrightarrow>
      cni_provider cni = ''Cilium'' \<and> cni_strategy cni = []) \<and>
   (panics (snapshot_AfterControlPlaneInitialized env helmConfig m (Found strategy) cluster resp) s \<longleftrightarrow>
      strategy \<notin> {HelmAddonStrategy, ResourceSetStrategy}) \<and>
   \<not> panics (cosi_AfterControlPlaneInitialized env helmConfig strategyVar cluster resp) s \<and>
   \<not> panics (aws_lb_AfterControlPlaneInitialized env helmConfig providerVar cluster resp) s"
proof -
  note strategies = HelmAddonStrategy_def ResourceSetStrategy_def
  have "panics (nfd_AfterControlPlaneInitialized env helmConfig m (Found strategy) cluster resp) s \<longleftrightarrow>
      strategy = []"
    unfolding nfd_AfterControlPlaneInitialized_def panics_common
    by (auto simp: nfd_apply_def Let_def strategies intro!: panic_intros no_panic_panics)
  moreover have "panics (autoscaler_AfterControlPlaneInitialized env asetup (Found strategy) cluster resp) s \<longleftrightarrow>
      strategy = []"
    unfolding autoscaler_AfterControlPlaneInitialized_def panics_common
    by (auto simp: autoscaler_apply_def getCAVariable_def strategies intro!: panic_intros no_panic_panics)
  moreover have "panics (cilium_AfterControlPlaneInitialized env csetup (Found cni) cluster resp) s \<longleftrightarrow>
      cni_provider cni = ''Cilium'' \<and> cni_strategy cni = []"
    unfolding cilium_AfterControlPlaneInitialized_def panics_common
    by (auto simp: cilium_apply_def strategies intro!: panic_intros no_panic_panics split: prod.split)
  moreover have "panics (snapshot_AfterControlPlaneInitialized env helmConfig m (Found strategy) cluster resp) s \<longleftrightarrow>
      strategy \<notin> {HelmAddonStrategy, ResourceSetStrategy}"
  proof -
    have "no_panic (helm_Apply (WithTakeOwnership (new_applier env helmConfig chart)) cluster ns)" for chart ns
      by (rule no_panic_helm_Apply) simp_all
    then show ?thesis
      unfolding snapshot_AfterControlPlaneInitialized_def panics_common
      by (auto simp: snapshot_apply_def Let_def intro!: panic_intros no_panic_panics)
  qed
  moreover have "\<not> panics (cosi_AfterControlPlaneInitialized env helmConfig strategyVar cluster resp) s"
    unfolding cosi_AfterControlPlaneInitialized_def panics_common
    by (cases strategyVar) (auto simp: cosi_apply_def intro!: panic_intros no_panic_panics)
  moreover have "\<not> panics (aws_lb_AfterControlPlaneInitialized env helmConfig providerVar cluster resp) s"
    unfolding aws_lb_AfterControlPlaneInitialized_def panics_common
    by (cases providerVar) (auto simp: aws_lb_apply_def intro!: panic_intros no_panic_panics)
  ultimately show ?thesis by blast
qed

end
