(* ===== verification/CiliumProps.thy ===== *)
theory CiliumProps
  imports AddonTraces AddonSamples
begin

text \<open>
  When Cilium takes over the work of kube-proxy: kube-proxy is removed from a workload cluster only
  after Cilium was configured to replace it, restarted and rolled out there.
\<close>

section \<open>The order of the calls\<close>

abbreviation kube_proxy_key :: "string \<times> string \<times> string" where
  "kube_proxy_key \<equiv> (''DaemonSet'', kube_system, ''kube-proxy'')"

definition other_call :: "api_call \<Rightarrow> bool" where
  "other_call call \<longleftrightarrow> (\<forall>client orphan err. call \<noteq> Deleted client kube_proxy_key orphan err)"

text \<open>
  What has to be in the record: the ConfigMap of Cilium was read with the replacement, then its
  DaemonSet was changed so that the Pods restart, and last it was read when all Pods were updated
  and available.
\<close>

definition kube_proxy_replaced :: "api_client \<Rightarrow> api_call list \<Rightarrow> bool" where
  "kube_proxy_replaced client t \<longleftrightarrow>
     (\<exists>a cm ds now b ds'. t = a @ [ReadConfigMap client kube_system ''cilium-config'' (Inr cm),
          ReadDaemonSet client kube_system ''cilium'' (Inr ds),
          UpdatedDaemonSet client kube_system ''cilium'' (restart_annotated now ds) None] @ b @
          [ReadDaemonSet client kube_system ''cilium'' (Inr ds')] \<and>
        map_of (cm_data cm) ''kube-proxy-replacement'' = Some ''true'' \<and>
        ds_generation ds' = ds_observed ds' \<and> ds_available ds' = ds_desired ds' \<and>
        ds_updated ds' = ds_desired ds')"

definition removed_safely :: "(api_client \<Rightarrow> bool) \<Rightarrow> api_call list \<Rightarrow> bool" where
  "removed_safely C = preceded (\<lambda>call t. \<forall>client orphan err.
     call = Deleted client kube_proxy_key orphan err \<longrightarrow> C client \<and> kube_proxy_replaced client t)"

lemma removed_safely_Nil [simp]: "removed_safely C []"
  by (simp add: removed_safely_def)

lemma removed_safely_snoc:
  "removed_safely C (t @ [call]) \<longleftrightarrow> removed_safely C t \<and>
     (\<forall>client orphan err. call = Deleted client kube_proxy_key orphan err \<longrightarrow>
        C client \<and> kube_proxy_replaced client t)"
  by (simp add: removed_safely_def)

lemma removed_safely_other:
  "removed_safely C t \<Longrightarrow> other_call call \<Longrightarrow> removed_safely C (t @ [call])"
  by (simp add: removed_safely_snoc other_call_def)

lemma other_calls [simp, intro!]:
  "other_call (ReadConfigMap client ns name x)" "other_call (ReadDaemonSet client ns name y)"
  "other_call (Applied client force owner obj err)"
  "other_call (UpdatedDaemonSet client ns name ds uerr)"
  "other_call (Deleted client (''HelmChartProxy'', ns, name) orphan derr)"
  by (simp_all add: other_call_def)

lemma triple_others: "appends other_call m \<Longrightarrow> triple (removed_safely C) m (\<lambda>_. removed_safely C) (removed_safely C)"
  by (erule triple_keeps) (rule removed_safely_other)

section \<open>Replacing kube-proxy\<close>

lemma triple_wait_config:
  "triple (removed_safely C)
     (waitForCiliumConfigMapToBeUpdatedWithKubeProxyReplacement (recording api) client)
     (\<lambda>_ t. \<exists>a cm. t = a @ [ReadConfigMap client kube_system ''cilium-config'' (Inr cm)] \<and>
        map_of (cm_data cm) ''kube-proxy-replacement'' = Some ''true'' \<and> removed_safely C t)
     (removed_safely C)"
  unfolding waitForCiliumConfigMapToBeUpdatedWithKubeProxyReplacement_def recording_fields
  by (rule triple_wrap, rule triple_weaken [OF triple_ForObject [where P = "removed_safely C"]])
    (auto intro: removed_safely_other simp: replacement_configured_def)

definition replacement_read :: "api_client \<Rightarrow> api_call list \<Rightarrow> bool" where
  "replacement_read client t \<longleftrightarrow>
     (\<exists>a cm. t = a @ [ReadConfigMap client kube_system ''cilium-config'' (Inr cm)] \<and>
        map_of (cm_data cm) ''kube-proxy-replacement'' = Some ''true'')"

definition restart_requested :: "api_client \<Rightarrow> api_call list \<Rightarrow> bool" where
  "restart_requested client t \<longleftrightarrow>
     (\<exists>a cm ds now b. t = a @ [ReadConfigMap client kube_system ''cilium-config'' (Inr cm),
          ReadDaemonSet client kube_system ''cilium'' (Inr ds),
          UpdatedDaemonSet client kube_system ''cilium'' (restart_annotated now ds) None] @ b \<and>
        map_of (cm_data cm) ''kube-proxy-replacement'' = Some ''true'')"

lemma restart_requested_later: "restart_requested client t \<Longrightarrow> restart_requested client (t @ [call])"
  unfolding restart_requested_def by (metis append.assoc)

lemma replaced_when_rolled_out:
  assumes "restart_requested client u" "rolled_out ds = Ok True"
  shows "kube_proxy_replaced client (u @ [ReadDaemonSet client kube_system ''cilium'' (Inr ds)])"
  using assms unfolding restart_requested_def kube_proxy_replaced_def rolled_out_def
  by (force split: if_splits)

lemma restart_requested_when_updated:
  assumes "replacement_read client u"
  shows "restart_requested client (u @ [ReadDaemonSet client kube_system ''cilium'' (Inr ds),
    UpdatedDaemonSet client kube_system ''cilium'' (restart_annotated now ds) None])"
  using assms unfolding restart_requested_def replacement_read_def by force

lemma triple_rollout:
  "triple (\<lambda>t. replacement_read client t \<and> removed_safely C t)
     (forceCiliumRollout (recording api) client)
     (\<lambda>_ t. kube_proxy_replaced client t \<and> removed_safely C t) (removed_safely C)"
proof -
  let ?P = "\<lambda>t. replacement_read client t \<and> removed_safely C t"
  let ?R = "\<lambda>ds t. \<exists>u. ?P u \<and> t = u @ [ReadDaemonSet client kube_system ''cilium'' (Inr ds)]"
  let ?S = "\<lambda>t. restart_requested client t \<and> removed_safely C t"
  have read: "triple ?P (call_op (ad_daemon_set (recording api) client kube_system ''cilium'')) ?R
      (removed_safely C)"
    unfolding recording_fields
    by (rule triple_weaken [OF triple_noted_call [where P = ?P]]) (auto intro: removed_safely_other)
  have updated: "triple (?R ds)
      (\<lambda>s. unit_op (ad_update_daemon_set (recording api) client kube_system ''cilium''
         (restart_annotated (ad_now (recording api) s) ds)) s) (\<lambda>_. ?S) (removed_safely C)" for ds
    unfolding recording_fields
    by (rule triple_state, rule triple_weaken [OF triple_noted_unit [where P = "?R ds"]])
      (auto intro!: removed_safely_other simp: restart_requested_when_updated)
  have waited: "triple ?S
      (ForObject (recording api) (ad_daemon_set (recording api) client kube_system ''cilium'')
         rolled_out 1 30) (\<lambda>_ t. kube_proxy_replaced client t \<and> removed_safely C t) (removed_safely C)"
    unfolding recording_fields
    by (rule triple_weaken [OF triple_ForObject [where P = ?S]])
      (auto intro: removed_safely_other restart_requested_later replaced_when_rolled_out)
  show ?thesis
    unfolding forceCiliumRollout_def
    by (intro triple_bind [OF triple_wrap [OF read]] triple_bind [OF triple_wrap [OF updated]]
        triple_wrap waited)
qed

lemma triple_cleanup:
  assumes "C client"
  shows "triple (\<lambda>t. kube_proxy_replaced client t \<and> removed_safely C t)
    (cleanupKubeProxy (recording api) client) (\<lambda>_. removed_safely C) (removed_safely C)"
proof -
  let ?P = "\<lambda>t. kube_proxy_replaced client t \<and> removed_safely C t"
  have first: "triple ?P (delete_ignoring_op (recording api) client kube_proxy_key)
      (\<lambda>_. removed_safely C) (removed_safely C)"
    by (rule triple_weaken [OF triple_delete [where P = ?P]])
      (use assms in \<open>auto simp: removed_safely_snoc\<close>)
  have second: "triple (removed_safely C)
      (delete_ignoring_op (recording api) client (''ConfigMap'', kube_system, ''kube-proxy''))
      (\<lambda>_. removed_safely C) (removed_safely C)"
    by (rule triple_weaken [OF triple_delete [where P = "removed_safely C"]])
      (auto simp: removed_safely_snoc)
  show ?thesis
    unfolding cleanupKubeProxy_def each_op.simps
    by (rule triple_bind [OF triple_wrap [OF first]])
      (simp add: triple_wrap [OF second])
qed

lemma triple_replace:
  assumes "C client"
  shows "triple (removed_safely C) (replaceKubeProxy (recording api) client)
    (\<lambda>_. removed_safely C) (removed_safely C)"
proof -
  have wait: "triple (removed_safely C)
      (waitForCiliumConfigMapToBeUpdatedWithKubeProxyReplacement (recording api) client)
      (\<lambda>_ t. replacement_read client t \<and> removed_safely C t) (removed_safely C)"
    by (rule triple_weaken [OF triple_wait_config]) (auto simp: replacement_read_def)
  show ?thesis
    unfolding replaceKubeProxy_def
    by (intro triple_bind [OF triple_wrap [OF wait]] triple_bind [OF triple_wrap [OF triple_rollout]]
        triple_wrap triple_cleanup assms)
qed

lemma appends_installed: "appends other_call (isKubeProxyInstalled (recording api) client)"
  by (rule appends_map [OF appends_noted [of other_call
        "ReadDaemonSet client kube_system ''kube-proxy''"
        "ad_daemon_set api client kube_system ''kube-proxy''"]])
    (auto simp: isKubeProxyInstalled_def split: prod.split sum.split api_error.split)

definition replacing_client ::
    "cluster_config_spec json_decoder \<Rightarrow> cluster \<Rightarrow> api_client \<Rightarrow> bool" where
  "replacing_client decode cluster client \<longleftrightarrow>
     client = Workload (cl_namespace cluster) (cl_name cluster) \<and>
     KubeProxyIsDisabled decode cluster = Inr True"

lemma triple_runApply:
  assumes "\<And>c ns. appends other_call (strategy c ns)"
  shows "triple (removed_safely (replacing_client decode cluster))
    (runApply (recording api) decode cluster strategy ns)
    (\<lambda>_. removed_safely (replacing_client decode cluster))
    (removed_safely (replacing_client decode cluster))"
    (is "triple ?P _ _ _")
proof -
  have applied: "triple ?P (strategy cluster ns) (\<lambda>_. ?P) ?P"
    by (rule triple_others [OF assms])
  have ended: "triple ?P (return_op ()) (\<lambda>_. ?P) ?P" by (simp add: triple_def return_op_def)
  have remote: "triple ?P (bind_op (wrap_op e (remote_client_op (recording api) cluster)) k)
      (\<lambda>_. ?P) ?P"
    if "triple ?P (k (Workload (cl_namespace cluster) (cl_name cluster))) (\<lambda>_. ?P) ?P" for e k
    by (rule triple_bind [OF triple_wrap [OF triple_remote_client]], rule triple_pure) (simp add: that)
  have installed: "triple ?P (bind_op (wrap_op e (isKubeProxyInstalled (recording api) client)) k)
      (\<lambda>_. ?P) ?P"
    if "\<And>b. triple ?P (k b) (\<lambda>_. ?P) ?P" for e client k
    by (rule triple_bind [OF triple_wrap [OF triple_others [OF appends_installed]] that])
  have replace: "triple ?P (replaceKubeProxy (recording api)
      (Workload (cl_namespace cluster) (cl_name cluster))) (\<lambda>_. ?P) ?P"
    if "KubeProxyIsDisabled decode cluster = Inr True"
    by (rule triple_replace) (use that in \<open>simp add: replacing_client_def\<close>)
  have "triple ?P (error_op e) (\<lambda>_. ?P) ?P" for e by (rule triple_error)
  then show ?thesis
    unfolding runApply_def
    by (intro triple_bind [OF applied])
      (cases "KubeProxyIsDisabled decode cluster";
        auto simp: sum_op_def ended intro!: remote installed replace)
qed

section \<open>The handler\<close>

lemma appends_apply_config_map:
  assumes "en_api env = recording api"
  shows "appends other_call (apply_config_map env a b cluster cm)"
  unfolding apply_config_map_def assms by (intro call_intros other_calls)

lemma appends_cilium_crs:
  assumes "en_api env = recording api"
  shows "appends other_call (cilium_crs_Apply env name cluster ns)"
  unfolding cilium_crs_Apply_def assms
  by (intro call_intros appends_apply_config_map [OF assms] other_calls)

lemma appends_cilium_appliers:
  assumes "en_api env = recording api"
  shows "appends other_call (helm_Apply (cilium_applier env setup name chart) cluster ns)"
    and "appends other_call (helm_Apply (preflight_applier env setup name chart) cluster ns)"
    and "appends other_call (helm_Delete (preflight_applier env setup name chart) cluster)"
  by (rule appends_helm_Apply [where api = api] appends_helm_Delete [where api = api];
      auto simp: cilium_applier_def preflight_applier_def assms intro!: call_intros)+

lemma appends_preflight_wait:
  "appends other_call (waitForCiliumPreflightResources (recording api) cluster)"
  unfolding waitForCiliumPreflightResources_def waitForCiliumPreflightDaemonset_def
    waitForCiliumPreflightDeployment_def
  by (intro call_intros) (simp_all add: call_intros)

lemma appends_values_source:
  assumes "en_api env = recording api"
  shows "appends other_call (cilium_values_source env setup source cluster resp)"
  unfolding cilium_values_source_def assms
  by (cases source) (auto intro!: call_intros split: prod.split)

lemma triple_helm_steps:
  assumes "en_api env = recording api"
  shows "triple (removed_safely (replacing_client (cil_decode setup) cluster))
    (cilium_helm_steps env setup preflight name ns chart cluster)
    (\<lambda>_. removed_safely (replacing_client (cil_decode setup) cluster))
    (removed_safely (replacing_client (cil_decode setup) cluster))"
    (is "triple ?P _ _ _")
proof -
  have before: "triple ?P (if preflight then
      bind_op (helm_Apply (preflight_applier env setup name chart) cluster ns)
        (\<lambda>_. waitForCiliumPreflightResources (en_api env) cluster)
      else return_op ()) (\<lambda>_. ?P) ?P"
    by (rule triple_others)
      (auto intro!: call_intros appends_cilium_appliers [OF assms] appends_preflight_wait simp: assms)
  have after: "triple ?P (if preflight then
      wrap_op ''failed to delete Cilium preflight release: ''
        (helm_Delete (preflight_applier env setup name chart) cluster)
      else return_op ()) (\<lambda>_. ?P) ?P"
    by (rule triple_others) (auto intro!: call_intros appends_cilium_appliers [OF assms])
  have applied: "triple ?P (runApply (en_api env) (cil_decode setup) cluster
      (helm_Apply (cilium_applier env setup name chart)) ns) (\<lambda>_. ?P) ?P"
    unfolding assms by (rule triple_runApply) (rule appends_cilium_appliers [OF assms])
  show ?thesis
    unfolding cilium_helm_steps_def Let_def
    by (rule triple_bind [OF before], rule triple_bind [OF applied], rule after)
qed

lemma triple_cilium_apply:
  assumes "en_api env = recording api"
  shows "triple (removed_safely (replacing_client (cil_decode setup) cluster))
    (cilium_apply env setup preflight var cluster resp)
    (\<lambda>_. removed_safely (replacing_client (cil_decode setup) cluster))
    (removed_safely (replacing_client (cil_decode setup) cluster))"
    (is "triple ?P _ _ _")
proof -
  have crs: "triple ?P (answer resp (runApply (en_api env) (cil_decode setup) cluster
      (cilium_crs_Apply env (cil_crs_name setup)) (en_defaults env))) (\<lambda>_. ?P) ?P"
    unfolding assms
    by (intro triple_answer triple_runApply) (rule appends_cilium_crs [OF assms])
  have chart: "triple ?P (wrap_op e (chart_For (en_api env) (en_charts env) name)) (\<lambda>_. ?P) ?P"
    for e name
    unfolding assms by (intro triple_others call_intros) simp
  have source: "triple ?P (cilium_values_source env setup src cluster resp) (\<lambda>_. ?P) ?P" for src
    by (intro triple_others appends_values_source [OF assms])
  have steps: "triple ?P (case x of (valuesName, targetNamespace, resp) \<Rightarrow>
      answer resp (cilium_helm_steps env setup preflight valuesName targetNamespace chart cluster))
      (\<lambda>_. ?P) ?P" for x chart
    by (cases x) (simp add: triple_answer triple_helm_steps [OF assms])
  have helm: "triple ?P (on_error f
      (bind_op (wrap_op e (chart_For (en_api env) (en_charts env) name)) (\<lambda>chart.
       bind_op (cilium_values_source env setup src cluster resp)
         (\<lambda>(valuesName, targetNamespace, resp).
       answer resp (cilium_helm_steps env setup preflight valuesName targetNamespace chart cluster)))))
      (\<lambda>_. ?P) ?P" for f e name src
    by (intro triple_on_error triple_bind [OF chart] triple_bind [OF source] steps)
  show ?thesis
    unfolding cilium_apply_def
    by (cases var) (auto simp: triple_return_same triple_error crs helm)
qed

text \<open>
  C8. Whatever the API servers answer, the hooks of Cilium delete the DaemonSet of kube-proxy only on
  the workload cluster of a Cluster that disables kube-proxy, and only after Cilium's
  configuration was read with the replacement, its DaemonSet was restarted and then read when all
  its Pods were updated and available.
\<close>

theorem kube_proxy_removed_safely:
  assumes "en_api env = recording api"
    and "f = cilium_AfterControlPlaneInitialized env setup var cluster \<or>
      f = cilium_BeforeClusterUpgrade env setup var cluster"
    and "f resp (s, []) = (r, (s', t))"
    and "i < length t" and "t ! i = Deleted client kube_proxy_key orphan err"
  shows "client = Workload (cl_namespace cluster) (cl_name cluster) \<and>
    KubeProxyIsDisabled (cil_decode setup) cluster = Inr True \<and>
    kube_proxy_replaced client (take i t)"
proof -
  let ?P = "removed_safely (replacing_client (cil_decode setup) cluster)"
  have "triple ?P (common_hook (cilium_apply env setup preflight var cluster) resp) (\<lambda>_. ?P) ?P"
    for preflight
    unfolding common_hook_def
    by (rule triple_bind [OF triple_cilium_apply [OF assms(1)]]) (rule triple_return_same)
  then have "triple ?P (f resp) (\<lambda>_. ?P) ?P"
    using assms(2)
    by (auto simp: cilium_AfterControlPlaneInitialized_def cilium_BeforeClusterUpgrade_def)
  then have "?P t" using tripleD [of ?P "f resp" "\<lambda>_. ?P" ?P "[]" s r s' t] assms(3)
    by (cases r) simp_all
  then show ?thesis using assms(4,5) by (auto simp: removed_safely_def preceded_def replacing_client_def)
qed

definition replacing_config :: cluster_config_spec where
  "replacing_config = \<lparr>ccs_nutanix = None, ccs_control_plane = None, ccs_addons = None,
     ccs_max_parallel = None, ccs_kube_proxy = Some ''disabled'', ccs_global_mirror = None,
     ccs_other = []\<rparr>"

definition replacing_setup :: cilium_setup where
  "replacing_setup = \<lparr>cil_crs_name = ''cilium'', cil_values_name = ''cilium-values'',
     cil_decode = (\<lambda>_. (replacing_config, None)), cil_parse = (\<lambda>_. Inl []),
     cil_parse_preflight = (\<lambda>_. Inl [])\<rparr>"

definition cilium_choice :: cni_variable where
  "cilium_choice = \<lparr>cni_provider = ''Cilium'', cni_strategy = ResourceSetStrategy,
     cni_source = None, cni_pull_secret = None\<rparr>"

lemma replacing_disabled: "KubeProxyIsDisabled (\<lambda>_. (replacing_config, None)) sample_cluster = Inr True"
  by (simp add: KubeProxyIsDisabled_def KubeProxyMode_def UnmarshalClusterConfigVariable_def
      UnmarshalNamedVariable_def ClusterConfigVariableName_def sample_topology_def replacing_config_def)

theorem kube_proxy_removed_safely_witness:
  "\<exists>r t. cilium_AfterControlPlaneInitialized (addon_env_of (recording sample_addon_api)) replacing_setup
       (Found cilium_choice) sample_cluster new_response ((), []) = (r, ((), t)) \<and> length t = 10 \<and>
     t ! 8 = Deleted (Workload ''ns'' ''c'') kube_proxy_key False None \<and>
     kube_proxy_replaced (Workload ''ns'' ''c'') (take 8 t)"
proof -
  let ?run = "cilium_AfterControlPlaneInitialized (addon_env_of (recording sample_addon_api))
    replacing_setup (Found cilium_choice) sample_cluster"
  obtain r s t where run: "?run new_response ((), []) = (r, (s, t))" by (metis prod.collapse)
  note evals = cilium_AfterControlPlaneInitialized_def cilium_apply_def cilium_choice_def
    replacing_setup_def runApply_def replacing_disabled cilium_crs_Apply_def apply_config_map_def
    config_map_for_def EnsureCRSForClusterFromObjects_def isKubeProxyInstalled_def replaceKubeProxy_def
    waitForCiliumConfigMapToBeUpdatedWithKubeProxyReplacement_def forceCiliumRollout_def
    cleanupKubeProxy_def ForObject_def object_condition_def replacement_configured_def rolled_out_def
    sample_config_map_def sample_daemon_set_def operation_evals
  have deleted: "length t = 10" "t ! 8 = Deleted (Workload ''ns'' ''c'') kube_proxy_key False None"
    using run by (auto simp: evals)
  have "kube_proxy_replaced (Workload ''ns'' ''c'') (take 8 t)"
    using kube_proxy_removed_safely [where f = ?run, OF addon_env_of_fields(1) disjI1 [OF refl] run
        _ deleted(2)] deleted(1) by simp
  then show ?thesis using run deleted by auto
qed

end
