(* ===== verification/CsiProps.thy ===== *)
theory CsiProps
  imports AddonTraces AddonSamples
begin

text \<open>
  What the success of the CSI hook means: all configured StorageClasses were created on the
  workload cluster, each once and under its own name, and exactly one is the default.
\<close>

section \<open>StorageClasses in the record\<close>

fun is_class_call :: "api_call \<Rightarrow> bool" where
  "is_class_call (Applied client force owner (StorageClassObject sc) err) = True"
| "is_class_call _ = False"

definition class_calls :: "api_call list \<Rightarrow> api_call list" where
  "class_calls t = filter is_class_call t"

definition class_call :: "cluster \<Rightarrow> storage_class \<Rightarrow> api_call" where
  "class_call cluster sc = Applied (Workload (cl_namespace cluster) (cl_name cluster)) True None
     (StorageClassObject sc) None"

lemma class_calls_simps [simp]:
  "class_calls [] = []" "class_calls (t @ u) = class_calls t @ class_calls u"
  "class_calls [class_call c sc] = [class_call c sc]"
  by (simp_all add: class_calls_def class_call_def)

lemma triple_no_class:
  assumes "appends (\<lambda>call. \<not> is_class_call call) m"
  shows "triple (\<lambda>t. class_calls t = L) m (\<lambda>_ t. class_calls t = L) (\<lambda>_. True)"
  by (rule triple_weaken [OF triple_keeps [OF assms]]) (auto simp: class_calls_def)

lemma triple_each_class:
  "triple (\<lambda>t. class_calls t = L)
     (each_op (\<lambda>nc. wrap_op (e nc) (apply_op (recording api)
        (Workload (cl_namespace c) (cl_name c)) True None (StorageClassObject (f nc)))) xs)
     (\<lambda>_ t. class_calls t = L @ map (\<lambda>nc. class_call c (f nc)) xs) (\<lambda>_. True)"
proof (induction xs arbitrary: L)
  case Nil
  then show ?case by (simp add: triple_def return_op_def)
next
  case (Cons nc xs)
  have one: "triple (\<lambda>t. class_calls t = L) (apply_op (recording api)
      (Workload (cl_namespace c) (cl_name c)) True None (StorageClassObject (f nc)))
      (\<lambda>_ t. class_calls t = L @ [class_call c (f nc)]) (\<lambda>_. True)"
    by (rule triple_weaken [OF triple_apply [where P = "\<lambda>t. class_calls t = L"]])
      (auto simp: class_call_def class_calls_def)
  show ?case
    unfolding each_op.simps
    by (rule triple_bind [OF triple_wrap [OF one]], rule triple_weaken [OF Cons.IH]) auto
qed

lemma triple_create_classes:
  assumes "en_api env = recording api"
  shows "triple (\<lambda>t. class_calls t = L)
    (CreateStorageClassesOnRemote env configs cluster dst name provisioner defaults)
    (\<lambda>_ t. class_calls t =
       L @ map (\<lambda>nc. class_call cluster (class_for dst name provisioner defaults nc)) configs)
    (\<lambda>_. True)"
  unfolding CreateStorageClassesOnRemote_def assms Let_def
proof (rule triple_bind [OF triple_wrap])
  show "triple (\<lambda>t. class_calls t = L) (remote_client_op (recording api) cluster)
      (\<lambda>client t. class_calls t = L \<and> client = Workload (cl_namespace cluster) (cl_name cluster))
      (\<lambda>_. True)"
    by (rule triple_weaken [OF triple_remote_client]) auto
next
  fix client
  show "triple (\<lambda>t. class_calls t = L \<and> client = Workload (cl_namespace cluster) (cl_name cluster))
      (each_op (\<lambda>nc. wrap_op (''error creating storage class '' @ en_show env (StorageClassObject
           (class_for dst name provisioner defaults nc)) @ '' on remote cluster: '')
         (apply_op (recording api) client True None (StorageClassObject
           (class_for dst name provisioner defaults nc)))) configs)
      (\<lambda>_ t. class_calls t =
         L @ map (\<lambda>nc. class_call cluster (class_for dst name provisioner defaults nc)) configs)
      (\<lambda>_. True)"
    by (rule triple_pure, hypsubst, rule triple_each_class)
qed

section \<open>The drivers\<close>

abbreviation no_class :: "api_call \<Rightarrow> bool" where
  "no_class call \<equiv> \<not> is_class_call call"

lemma appends_new_applier:
  assumes "en_api env = recording api"
  shows "appends no_class (helm_Apply (new_applier env config chart) cluster ns)"
  by (rule appends_helm_Apply [where api = api]) (simp_all add: assms)

lemma appends_one_config_map:
  assumes "en_api env = recording api"
  shows "appends no_class (apply_config_map env a b cluster cm)"
  unfolding apply_config_map_def assms by (intro call_intros) simp_all

lemma appends_driver_sets:
  assumes "en_api env = recording api"
  shows "appends no_class (ebs_crs_Apply env name cluster ns)"
    and "appends no_class (local_path_crs_Apply env name cluster ns)"
  unfolding ebs_crs_Apply_def local_path_crs_Apply_def assms
  by (intro call_intros appends_one_config_map [OF assms] is_class_call.simps; simp)+

lemma triple_chosen_chart:
  assumes "\<And>chart. appends no_class (f chart cluster ns)"
  shows "triple (\<lambda>t. class_calls t = L)
    (bind_op (wrap_op e (chart_For (recording api) h name)) (\<lambda>chart. return_op (f chart)))
    (\<lambda>st t. class_calls t = L \<and> appends no_class (st cluster ns)) (\<lambda>_. True)"
proof (rule triple_bind)
  show "triple (\<lambda>t. class_calls t = L) (wrap_op e (chart_For (recording api) h name))
      (\<lambda>_ t. class_calls t = L) (\<lambda>_. True)"
    by (intro triple_no_class call_intros) simp
qed (use assms in \<open>auto simp: triple_def return_op_def\<close>)

text \<open>The rest of a driver: its strategy, then its StorageClasses.\<close>

lemma triple_driver_classes:
  fixes chosen :: "('s \<times> api_call list, cluster \<Rightarrow> string \<Rightarrow> ('s \<times> api_call list, unit) operation) operation"
  assumes env: "en_api env = recording api"
    and choice: "triple (\<lambda>t. class_calls t = L) chosen
      (\<lambda>st t. class_calls t = L \<and> appends no_class (st cluster ns)) (\<lambda>_. True)"
    and before: "appends no_class between"
  shows "triple (\<lambda>t. class_calls t = L)
    (bind_op chosen (\<lambda>strategy. bind_op between (\<lambda>_. bind_op (wrap_op a (strategy cluster ns)) (\<lambda>_.
       wrap_op b (CreateStorageClassesOnRemote env configs cluster dst name provisioner defaults)))))
    (\<lambda>_ t. class_calls t =
       L @ map (\<lambda>nc. class_call cluster (class_for dst name provisioner defaults nc)) configs)
    (\<lambda>_. True)"
proof (rule triple_bind [OF choice], rule triple_pure)
  fix strategy :: "cluster \<Rightarrow> string \<Rightarrow> ('s \<times> api_call list, unit) operation"
  assume "appends no_class (strategy cluster ns)"
  then have "triple (\<lambda>t. class_calls t = L) (wrap_op a (strategy cluster ns))
      (\<lambda>_ t. class_calls t = L) (\<lambda>_. True)"
    by (intro triple_no_class call_intros)
  then show "triple (\<lambda>t. class_calls t = L) (bind_op between (\<lambda>_.
      bind_op (wrap_op a (strategy cluster ns)) (\<lambda>_.
       wrap_op b (CreateStorageClassesOnRemote env configs cluster dst name provisioner defaults))))
      (\<lambda>_ t. class_calls t =
         L @ map (\<lambda>nc. class_call cluster (class_for dst name provisioner defaults nc)) configs)
      (\<lambda>_. True)"
    by (intro triple_bind [OF triple_no_class [OF before]])
      (erule triple_bind, rule triple_wrap [OF triple_create_classes [OF env]])
qed

definition provider_classes :: "default_storage \<Rightarrow> string \<times> csi_provider_spec \<Rightarrow> storage_class list" where
  "provider_classes dst p =
     (if fst p = ''aws-ebs'' then
        map (class_for dst ''aws-ebs'' ''ebs.csi.aws.com'' ebs_default_parameters) (csp_classes (snd p))
      else if fst p = ''nutanix'' then
        map (class_for dst ''nutanix'' ''csi.nutanix.com'' nutanix_default_parameters)
          (csp_classes (snd p))
      else map (class_for dst ''local-path'' ''rancher.io/local-path'' Map.empty)
        (csp_classes (snd p)))"

lemma triple_choices:
  assumes env: "en_api env = recording api"
  shows "triple (\<lambda>t. class_calls t = L) (bind_op (wrap_op e (chart_For (en_api env) h name))
      (\<lambda>chart. return_op (helm_Apply (new_applier env config chart))))
      (\<lambda>st t. class_calls t = L \<and> appends no_class (st cluster ns)) (\<lambda>_. True)"
    and "triple (\<lambda>t. class_calls t = L) (return_op (ebs_crs_Apply env m))
      (\<lambda>st t. class_calls t = L \<and> appends no_class (st cluster ns)) (\<lambda>_. True)"
    and "triple (\<lambda>t. class_calls t = L) (return_op (local_path_crs_Apply env m))
      (\<lambda>st t. class_calls t = L \<and> appends no_class (st cluster ns)) (\<lambda>_. True)"
    and "triple P (error_op msg) Q (\<lambda>_. True)"
proof -
  show "triple (\<lambda>t. class_calls t = L) (bind_op (wrap_op e (chart_For (en_api env) h name))
      (\<lambda>chart. return_op (helm_Apply (new_applier env config chart))))
      (\<lambda>st t. class_calls t = L \<and> appends no_class (st cluster ns)) (\<lambda>_. True)"
    unfolding env
    by (rule triple_chosen_chart [where f = "\<lambda>chart. helm_Apply (new_applier env config chart)"])
      (rule appends_new_applier [OF env])
  show "triple P (error_op msg) Q (\<lambda>_. True)"
    by (rule triple_weaken [OF triple_error(1)]) auto
qed (auto simp: triple_def return_op_def appends_driver_sets [OF env])

lemma appends_before_nutanix:
  assumes "en_api env = recording api"
  shows "appends no_class (nutanix_csi_credentials env credentials cluster)"
  unfolding nutanix_csi_credentials_def assms
  by (cases credentials) (auto intro!: call_intros)

lemma triple_drivers:
  assumes env: "en_api env = recording api"
  shows "triple (\<lambda>t. class_calls t = L) (ebs_Apply env ebsConfig ebsMap provider dst cluster)
      (\<lambda>_ t. class_calls t = L @ map (\<lambda>nc. class_call cluster
         (class_for dst ''aws-ebs'' ''ebs.csi.aws.com'' ebs_default_parameters nc)) (csp_classes provider))
      (\<lambda>_. True)"
    and "triple (\<lambda>t. class_calls t = L) (local_path_Apply env pathConfig pathMap provider dst cluster)
      (\<lambda>_ t. class_calls t = L @ map (\<lambda>nc. class_call cluster
         (class_for dst ''local-path'' ''rancher.io/local-path'' Map.empty nc)) (csp_classes provider))
      (\<lambda>_. True)"
    and "triple (\<lambda>t. class_calls t = L) (nutanix_csi_Apply env nutanixConfig provider dst cluster)
      (\<lambda>_ t. class_calls t = L @ map (\<lambda>nc. class_call cluster
         (class_for dst ''nutanix'' ''csi.nutanix.com'' nutanix_default_parameters nc))
         (csp_classes provider)) (\<lambda>_. True)"
proof -
  note choices = triple_choices [OF env]
  show "triple (\<lambda>t. class_calls t = L) (ebs_Apply env ebsConfig ebsMap provider dst cluster)
      (\<lambda>_ t. class_calls t = L @ map (\<lambda>nc. class_call cluster
         (class_for dst ''aws-ebs'' ''ebs.csi.aws.com'' ebs_default_parameters nc)) (csp_classes provider))
      (\<lambda>_. True)"
    unfolding ebs_Apply_def
    by (rule triple_driver_classes [OF env, where between = "return_op ()", unfolded unit_ops])
      (auto intro: choices call_intros)
  show "triple (\<lambda>t. class_calls t = L) (local_path_Apply env pathConfig pathMap provider dst cluster)
      (\<lambda>_ t. class_calls t = L @ map (\<lambda>nc. class_call cluster
         (class_for dst ''local-path'' ''rancher.io/local-path'' Map.empty nc)) (csp_classes provider))
      (\<lambda>_. True)"
    unfolding local_path_Apply_def
    by (rule triple_driver_classes [OF env, where between = "return_op ()", unfolded unit_ops])
      (auto intro: choices call_intros)
  let ?before = "bind_op (nutanix_csi_credentials env (csp_credentials provider) cluster) (\<lambda>_.
     bind_op (wrap_op ''error creating remote cluster client: ''
         (remote_client_op (en_api env) cluster)) (\<lambda>remoteClient.
     wrap_op (''failed to ensure '' @ quoted csi_namespace @ '' namespace on the remote cluster: '')
         (EnsureNamespaceWithMetadata (en_api env) remoteClient csi_namespace
            (Some PrivilegedPodSecurityEnforceLabels) None)))"
  have "appends no_class ?before"
    unfolding env by (intro call_intros appends_before_nutanix [OF env]) simp
  then show "triple (\<lambda>t. class_calls t = L) (nutanix_csi_Apply env nutanixConfig provider dst cluster)
      (\<lambda>_ t. class_calls t = L @ map (\<lambda>nc. class_call cluster
         (class_for dst ''nutanix'' ''csi.nutanix.com'' nutanix_default_parameters nc))
         (csp_classes provider)) (\<lambda>_. True)"
    unfolding nutanix_csi_Apply_def
    by (intro triple_driver_classes [OF env, where between = ?before, unfolded bind_op_assoc])
      (auto intro: choices)
qed

lemma triple_handlers:
  assumes env: "en_api env = recording api"
    and handler: "csi_handlers_of env ebsConfig ebsMap nutanixConfig pathConfig pathMap name = Some h"
  shows "triple (\<lambda>t. class_calls t = L) (h provider dst cluster)
    (\<lambda>_ t. class_calls t = L @ map (class_call cluster) (provider_classes dst (name, provider)))
    (\<lambda>_. True)"
  using handler triple_drivers [OF env]
  by (auto simp: csi_handlers_of_def provider_classes_def comp_def split: if_splits)

section \<open>The handler\<close>

lemma triple_providers:
  assumes env: "en_api env = recording api"
    and handlers: "handlers = csi_handlers_of env ebsConfig ebsMap nutanixConfig pathConfig pathMap"
  shows "triple (\<lambda>t. hr_status resp = Success \<longrightarrow> class_calls t = L)
    (csi_providers_loop handlers dst cluster providers resp)
    (\<lambda>r t. hr_status r = Success \<longrightarrow> class_calls t =
       L @ map (class_call cluster) (concat (map (provider_classes dst) providers)) \<and>
       (\<forall>p \<in> set providers. handlers (fst p) \<noteq> None)) (\<lambda>_. True)"
proof (induction providers arbitrary: resp L)
  case Nil
  show ?case by (simp add: triple_def return_op_def)
next
  case (Cons p providers)
  obtain name provider where p: "p = (name, provider)" by (cases p)
  show ?case
  proof (cases "handlers name")
    case None
    then show ?thesis by (simp add: p triple_def return_op_def fail_with_def)
  next
    case (Some h)
    let ?F = "map (class_call cluster) (provider_classes dst (name, provider))"
    have one: "triple (\<lambda>t. hr_status resp = Success \<longrightarrow> class_calls t = L)
        (on_error (\<lambda>err. fail_with (''failed to deploy CSI driver: '' @ err) resp)
          (bind_op (h provider dst cluster) (\<lambda>_. return_op resp)))
        (\<lambda>r t. hr_status r = Success \<longrightarrow> class_calls t = L @ ?F) (\<lambda>_. True)"
    proof (rule tripleI)
      fix s t r s' t'
      assume before: "hr_status resp = Success \<longrightarrow> class_calls t = L"
        and run: "on_error (\<lambda>err. fail_with (''failed to deploy CSI driver: '' @ err) resp)
          (bind_op (h provider dst cluster) (\<lambda>_. return_op resp)) (s, t) = (r, (s', t'))"
      obtain r1 s1 t1 where r1: "h provider dst cluster (s, t) = (r1, (s1, t1))" by (metis prod.collapse)
      have "case r1 of Ok x \<Rightarrow> class_calls t1 = class_calls t @ ?F | _ \<Rightarrow> True"
        using tripleD [OF triple_handlers [OF env Some [unfolded handlers]] _ r1] by simp
      then show "case r of Ok r \<Rightarrow> hr_status r = Success \<longrightarrow> class_calls t' = L @ ?F | _ \<Rightarrow> True"
        using before run r1
        by (cases r1) (auto simp: on_error_def bind_op_def return_op_def fail_with_def)
    qed
    have rest: "triple (\<lambda>t. hr_status r = Success \<longrightarrow> class_calls t = L @ ?F)
        (csi_providers_loop handlers dst cluster providers r)
        (\<lambda>r t. hr_status r = Success \<longrightarrow> class_calls t =
           L @ map (class_call cluster) (concat (map (provider_classes dst) (p # providers))) \<and>
           (\<forall>p \<in> set (p # providers). handlers (fst p) \<noteq> None)) (\<lambda>_. True)" for r
      using Cons.IH [of r "L @ ?F"] Some by (simp add: p)
    show ?thesis
      using triple_bind [OF one rest] by (simp add: p Some)
  qed
qed

text \<open>The names of StorageClasses, and which of them is the default.\<close>

definition known_provider :: "string \<Rightarrow> bool" where
  "known_provider name \<longleftrightarrow> name = ''aws-ebs'' \<or> name = ''nutanix'' \<or> name = ''local-path''"

lemma known_providers:
  "csi_handlers_of env ebsConfig ebsMap nutanixConfig pathConfig pathMap name \<noteq> None \<longleftrightarrow>
     known_provider name"
  by (auto simp: csi_handlers_of_def known_provider_def)

lemma class_name_inject:
  assumes "known_provider p" "known_provider q"
  shows "p @ ''-'' @ a = q @ ''-'' @ b \<longleftrightarrow> p = q \<and> a = b"
  using assms by (auto simp: known_provider_def)

lemma class_for_fields:
  "sto_name (class_for dst p provisioner defaults nc) = p @ ''-'' @ fst nc"
  "sto_annotations (class_for dst p provisioner defaults nc) \<noteq> None \<longleftrightarrow>
     p = dst_provider dst \<and> fst nc = dst_class dst"
  by (simp_all add: class_for_def CreateStorageClass_def)

lemma provider_classes_mem:
  assumes "known_provider (fst p)" "sc \<in> set (provider_classes dst p)"
  shows "\<exists>nc \<in> set (csp_classes (snd p)). sto_name sc = fst p @ ''-'' @ fst nc \<and>
    (sto_annotations sc \<noteq> None \<longleftrightarrow> fst p = dst_provider dst \<and> fst nc = dst_class dst)"
proof -
  from assms obtain provisioner defaults nc where
    "nc \<in> set (csp_classes (snd p))" "sc = class_for dst (fst p) provisioner defaults nc"
    by (auto simp: provider_classes_def known_provider_def split: if_splits)
  then show ?thesis
    using class_for_fields [of dst "fst p" provisioner defaults nc] by blast
qed

lemma provider_class_names:
  "known_provider (fst p) \<Longrightarrow>
     map sto_name (provider_classes dst p) = map (\<lambda>nc. fst p @ ''-'' @ fst nc) (csp_classes (snd p))"
  by (auto simp: provider_classes_def known_provider_def class_for_fields)

lemma distinct_class_names:
  assumes "distinct (map fst providers)" "\<forall>p \<in> set providers. distinct (map fst (csp_classes (snd p)))"
    and "\<forall>p \<in> set providers. known_provider (fst p)"
  shows "distinct (map sto_name (concat (map (provider_classes dst) providers)))"
  using assms
proof (induction providers)
  case Nil
  then show ?case by simp
next
  case (Cons p providers)
  have p: "known_provider (fst p)" using Cons.prems by simp
  have "distinct (map sto_name (provider_classes dst p))"
    using Cons.prems(2) by (simp add: provider_class_names [OF p] distinct_map inj_on_def)
  moreover have "sto_name sc \<noteq> sto_name sc'"
    if sc: "sc \<in> set (provider_classes dst p)" and "q \<in> set providers"
      and sc': "sc' \<in> set (provider_classes dst q)"
    for sc sc' q
  proof -
    have q: "known_provider (fst q)" "fst q \<noteq> fst p"
      using Cons.prems \<open>q \<in> set providers\<close> by (auto simp: image_iff)
    obtain a b where "sto_name sc = fst p @ ''-'' @ a" "sto_name sc' = fst q @ ''-'' @ b"
      using provider_classes_mem [OF p sc] provider_classes_mem [OF q(1) sc'] by blast
    then show ?thesis using q(2) class_name_inject [OF p q(1)] by simp
  qed
  ultimately show ?case using Cons by auto
qed

lemma filter_unique: "distinct (map f xs) \<Longrightarrow> x \<in> set xs \<Longrightarrow> filter (\<lambda>y. f y = f x) xs = [x]"
  by (induction xs) (auto simp: filter_empty_conv image_iff)

lemma one_default_class:
  assumes "distinct (map fst providers)" "\<forall>p \<in> set providers. distinct (map fst (csp_classes (snd p)))"
    and known: "\<forall>p \<in> set providers. known_provider (fst p)"
    and chosen: "map_of providers (dst_provider dst) = Some spec"
      "map_of (csp_classes spec) (dst_class dst) = Some config"
  shows "\<exists>sc. filter (\<lambda>sc. sto_annotations sc \<noteq> None) (concat (map (provider_classes dst) providers)) = [sc] \<and>
    sto_name sc = dst_provider dst @ ''-'' @ dst_class dst"
proof -
  let ?classes = "concat (map (provider_classes dst) providers)"
  have p: "(dst_provider dst, spec) \<in> set providers" using chosen(1) by (rule map_of_SomeD)
  then have k: "known_provider (dst_provider dst)" using known by fastforce
  have "dst_class dst \<in> fst ` set (csp_classes spec)"
    using map_of_SomeD [OF chosen(2)] by force
  then have "dst_provider dst @ ''-'' @ dst_class dst \<in>
      set (map sto_name (provider_classes dst (dst_provider dst, spec)))"
    by (subst provider_class_names) (use k in \<open>auto simp: image_iff\<close>)
  then obtain sc where sc: "sc \<in> set ?classes" "sto_name sc = dst_provider dst @ ''-'' @ dst_class dst"
    using p by fastforce
  have "sto_annotations x \<noteq> None \<longleftrightarrow> sto_name x = sto_name sc" if "x \<in> set ?classes" for x
  proof -
    from that obtain q where q: "q \<in> set providers" "x \<in> set (provider_classes dst q)" by auto
    then have known_q: "known_provider (fst q)" using known by simp
    obtain a where "sto_name x = fst q @ ''-'' @ a"
      "sto_annotations x \<noteq> None \<longleftrightarrow> fst q = dst_provider dst \<and> a = dst_class dst"
      using provider_classes_mem [OF known_q q(2)] by blast
    then show ?thesis using class_name_inject [OF known_q k] sc(2) by simp
  qed
  then have "filter (\<lambda>sc. sto_annotations sc \<noteq> None) ?classes = filter (\<lambda>x. sto_name x = sto_name sc) ?classes"
    by (intro filter_cong) auto
  also have "\<dots> = [sc]" by (rule filter_unique [OF distinct_class_names [OF assms(1-3)] sc(1)])
  finally show ?thesis using sc(2) by blast
qed

text \<open>
  C9. However Go's runs through the maps are ordered: when the CSI hook succeeds, the StorageClasses
  applied to the workload cluster are those of all configured providers, each applied once and
  under its own name, and exactly one of them, the configured default, is marked as the default.
\<close>

theorem csi_success_creates_classes:
  assumes "en_api env = recording api"
    and "handlers = csi_handlers_of env ebsConfig ebsMap nutanixConfig pathConfig pathMap"
    and "csi_AfterControlPlaneInitialized handlers (Found csi) cluster resp (s, []) = (Ok r, (s', t))"
    and "hr_status r = Success"
    and "distinct (map fst (csv_providers csi))"
    and "\<forall>p \<in> set (csv_providers csi). distinct (map fst (csp_classes (snd p)))"
  shows "\<exists>classes. class_calls t = map (class_call cluster) classes \<and>
    classes = concat (map (provider_classes (csv_default csi)) (csv_providers csi)) \<and>
    distinct (map sto_name classes) \<and>
    (\<exists>sc. filter (\<lambda>sc. sto_annotations sc \<noteq> None) classes = [sc] \<and>
       sto_name sc = dst_provider (csv_default csi) @ ''-'' @ dst_class (csv_default csi))"
proof -
  obtain r0 s1 where r0: "csi_apply handlers (Found csi) cluster new_response (s, []) = (Ok r0, (s1, t))"
    "hr_status r0 = Success"
    using assms(3,4)
    by (auto simp: csi_AfterControlPlaneInitialized_def common_hook_def bind_op_def return_op_def
        split: prod.splits reply.splits)
  then have valid: "validateDefaultStorage csi = None"
    and loop: "csi_providers_loop handlers (csv_default csi) cluster (csv_providers csi)
      (succeed new_response) (s, []) = (Ok r0, (s1, t))"
    by (auto simp: csi_apply_def return_op_def split: if_splits option.splits)
  have "class_calls t =
      map (class_call cluster) (concat (map (provider_classes (csv_default csi)) (csv_providers csi))) \<and>
    (\<forall>p \<in> set (csv_providers csi). handlers (fst p) \<noteq> None)"
    using tripleD [OF triple_providers [OF assms(1,2), where L = "[]"] _ loop] r0(2) by simp
  then have result: "class_calls t =
      map (class_call cluster) (concat (map (provider_classes (csv_default csi)) (csv_providers csi)))"
    and known: "\<forall>p \<in> set (csv_providers csi). known_provider (fst p)"
    unfolding assms(2) known_providers by blast+
  obtain spec config where chosen: "map_of (csv_providers csi) (dst_provider (csv_default csi)) = Some spec"
    "map_of (csp_classes spec) (dst_class (csv_default csi)) = Some config"
    using valid by (auto simp: validateDefaultStorage_def split: option.splits)
  show ?thesis
    by (rule exI, intro conjI, rule result, rule refl, rule distinct_class_names [OF assms(5,6) known],
        rule one_default_class [OF assms(5,6) known chosen])
qed

definition sample_class_config :: csi_class_config where
  "sample_class_config = \<lparr>scc_parameters = Map.empty, scc_reclaim_policy = None,
     scc_binding_mode = None, scc_expansion = True\<rparr>"

definition sample_csi_variable :: csi_variable where
  "sample_csi_variable = \<lparr>csv_default = \<lparr>dst_provider = ''local-path'', dst_class = ''fast''\<rparr>,
     csv_providers = [(''local-path'', \<lparr>csp_classes = [(''slow'', sample_class_config),
       (''fast'', sample_class_config)], csp_strategy = ResourceSetStrategy, csp_credentials = None\<rparr>)]\<rparr>"

definition sample_csi_handlers :: "(unit \<times> api_call list) csi_handlers" where
  "sample_csi_handlers = csi_handlers_of (addon_env_of (recording sample_addon_api)) ebs_helm_config
     ''ebs'' nutanix_csi_helm_config local_path_helm_config ''local-path''"

lemma sample_csi_fields:
  "csv_default sample_csi_variable = \<lparr>dst_provider = ''local-path'', dst_class = ''fast''\<rparr>"
  "csv_providers sample_csi_variable = [(''local-path'', \<lparr>csp_classes = [(''slow'', sample_class_config),
     (''fast'', sample_class_config)], csp_strategy = ResourceSetStrategy, csp_credentials = None\<rparr>)]"
  by (simp_all add: sample_csi_variable_def)

theorem csi_success_creates_classes_witness:
  "\<exists>r t. csi_AfterControlPlaneInitialized sample_csi_handlers (Found sample_csi_variable) sample_cluster
       new_response ((), []) = (Ok r, ((), t)) \<and> hr_status r = Success \<and>
     map (\<lambda>sc. (sto_name sc, sto_annotations sc \<noteq> None))
       (concat (map (provider_classes (csv_default sample_csi_variable)) (csv_providers sample_csi_variable))) =
       [(''local-path-slow'', False), (''local-path-fast'', True)] \<and> length (class_calls t) = 2"
proof -
  let ?hook = "csi_AfterControlPlaneInitialized sample_csi_handlers (Found sample_csi_variable)
    sample_cluster"
  obtain q s t where run: "?hook new_response ((), []) = (q, (s, t))" by (metis prod.collapse)
  note evals = csi_AfterControlPlaneInitialized_def csi_apply_def sample_csi_fields
    validateDefaultStorage_def sample_csi_handlers_def csi_handlers_of_def local_path_Apply_def
    ResourceSetStrategy_def HelmAddonStrategy_def local_path_crs_Apply_def apply_config_map_def
    config_map_for_def EnsureCRSForClusterFromObjects_def CreateStorageClassesOnRemote_def
    sample_config_map_def operation_evals
  have "\<exists>r. q = Ok r \<and> hr_status r = Success"
    using run by (auto simp: evals)
  then obtain r where r: "q = Ok r" "hr_status r = Success" by blast
  have "length (class_calls t) = length (concat (map (provider_classes (csv_default sample_csi_variable))
      (csv_providers sample_csi_variable)))"
    using csi_success_creates_classes [OF addon_env_of_fields(1) sample_csi_handlers_def
        run [unfolded r(1)] r(2)]
    by (auto simp: sample_csi_fields)
  then show ?thesis
    using run r by (auto simp: sample_csi_fields provider_classes_def class_for_def CreateStorageClass_def)
qed

end
