(* ===== verification/AutoscalerProps.thy ===== *)
theory AutoscalerProps
  imports AddonTraces AddonSamples
begin

text \<open>
  The cluster autoscaler of a Cluster is removed under the name and from the namespace in which it
  was installed, although both hooks search the management cluster on their own.
\<close>

section \<open>What an installation applies\<close>

definition applied_key ::
    "(addon_object \<Rightarrow> bool) \<Rightarrow> string \<times> string \<times> string \<Rightarrow> api_call list \<Rightarrow> bool" where
  "applied_key kind key t \<longleftrightarrow>
     (\<exists>owner obj. Applied Management True (Some owner) obj None \<in> set t \<and> kind obj \<and> addon_key obj = key)"

lemma applied_key_later: "applied_key kind key t \<Longrightarrow> applied_key kind key (t @ [call])"
  by (auto simp: applied_key_def)

lemma applied_key_snoc:
  "kind obj \<Longrightarrow> addon_key obj = key \<Longrightarrow>
     applied_key kind key (t @ [Applied Management True (Some owner) obj None])"
  unfolding applied_key_def by (intro exI [of _ owner] exI [of _ obj]) simp

text \<open>Any operation of which the rest follows.\<close>

lemma triple_any: "triple P m (\<lambda>_ _. True) (\<lambda>_. True)"
  by (rule tripleI) (simp split: reply.split)

lemma triple_then:
  "(\<And>x. triple (\<lambda>_. True) (k x) Q (\<lambda>_. True)) \<Longrightarrow> triple (\<lambda>_. True) (bind_op m k) Q (\<lambda>_. True)"
  by (rule triple_bind [OF triple_any])

lemma triple_first:
  assumes "triple (\<lambda>_. True) m (\<lambda>_. R) (\<lambda>_. True)"
    and "\<And>x. triple R (k x) (\<lambda>_. R) (\<lambda>_. True)"
  shows "triple (\<lambda>_. True) (bind_op m k) (\<lambda>_. R) (\<lambda>_. True)"
  by (rule triple_bind [OF assms])

lemma triple_applied:
  assumes "kind obj" "addon_key obj = key"
  shows "triple (\<lambda>_. True) (apply_op (recording api) Management True (Some owner) obj)
    (\<lambda>_. applied_key kind key) (\<lambda>_. True)"
  by (rule triple_weaken [OF triple_apply [where P = "\<lambda>_. True"]])
    (auto simp: applied_key_snoc [of kind, OF assms])

lemma triple_applied_kept:
  assumes "appends A m"
  shows "triple (applied_key kind key) m (\<lambda>_. applied_key kind key) (\<lambda>_. True)"
  by (rule triple_weaken [OF triple_keeps [OF assms, where P = "applied_key kind key"]])
    (auto simp: applied_key_later)

fun is_helm_proxy :: "addon_object \<Rightarrow> bool" where
  "is_helm_proxy (HelmProxyObject hp) = True"
| "is_helm_proxy _ = False"

fun is_resource_set :: "addon_object \<Rightarrow> bool" where
  "is_resource_set (ResourceSetObject rs) = True"
| "is_resource_set _ = False"

lemma triple_helm_applied:
  assumes "ap_api a = recording api" "ao_hooks (applied_options a) = []"
    and "ao_waiter (applied_options a) = None" "uuid_of cluster = Some u"
  shows "triple (\<lambda>_. True) (helm_Apply a cluster ns)
    (\<lambda>_. applied_key is_helm_proxy (''HelmChartProxy'',
       cl_namespace (target_of (applied_options a) cluster), proxy_name (ap_config a) u)) (\<lambda>_. True)"
    (is "triple _ _ (\<lambda>_. ?R) _")
proof -
  have hooks: "triple ?R (bind_op (run_hooks a (applied_options a) cluster hcp) (\<lambda>_.
      case ao_waiter (applied_options a) of None \<Rightarrow> return_op () | Some w \<Rightarrow> w hcp)) (\<lambda>_. ?R) (\<lambda>_. True)"
    for hcp
    using assms(2,3) by (simp add: run_hooks_def triple_def return_op_def)
  have applied: "triple (\<lambda>_. True) (apply_op (recording api) Management True
      (Some (owner_of (target_of (applied_options a) cluster)))
      (HelmProxyObject (chart_proxy_for a (applied_options a) (target_of (applied_options a) cluster) u vs)))
      (\<lambda>_. ?R) (\<lambda>_. True)" for vs
    by (rule triple_applied) simp_all
  show ?thesis
    unfolding helm_Apply_def Let_def assms(1,4) option.case
    by (intro triple_then triple_first [OF triple_wrap [OF applied] hooks])
qed

section \<open>The target\<close>

definition target_in :: "cluster_reader \<Rightarrow> cluster \<Rightarrow> cluster option" where
  "target_in reader cluster =
     (case ManagementCluster reader of
        Inl err \<Rightarrow> None
      | Inr existing \<Rightarrow> Some (case existing of None \<Rightarrow> cluster | Some c \<Rightarrow> c))"

lemma triple_target:
  assumes "\<And>s. ad_clusters api s = reader"
  shows "triple (\<lambda>_. True) (findTargetCluster (recording api) cluster)
    (\<lambda>c _. True \<and> target_in reader cluster = Some c) (\<lambda>_. True)"
  by (rule tripleI) (auto simp: findTargetCluster_def target_in_def assms split: sum.splits)

definition removal_key :: "string \<Rightarrow> cluster_reader \<Rightarrow> cluster \<Rightarrow> (string \<times> string \<times> string) option" where
  "removal_key kind reader cluster =
     map_option (\<lambda>c. (kind, cl_namespace c, addonResourceNameForCluster cluster)) (target_in reader cluster)"

lemma triple_to_target:
  assumes "\<And>s. ad_clusters api s = reader"
    and "\<And>c. target_in reader cluster = Some c \<Longrightarrow> triple (\<lambda>_. True) (k c)
      (\<lambda>_. applied_key kind (K, cl_namespace c, addonResourceNameForCluster cluster)) (\<lambda>_. True)"
  shows "triple (\<lambda>_. True) (bind_op (findTargetCluster (recording api) cluster) k)
    (\<lambda>_ t. \<exists>key. removal_key K reader cluster = Some key \<and> applied_key kind key t) (\<lambda>_. True)"
proof (rule triple_bind [OF triple_target [of api reader, OF assms(1)]], rule triple_pure)
  fix c
  assume c: "target_in reader cluster = Some c"
  show "triple (\<lambda>_. True) (k c)
      (\<lambda>_ t. \<exists>key. removal_key K reader cluster = Some key \<and> applied_key kind key t) (\<lambda>_. True)"
    by (rule triple_weaken [OF assms(2) [OF c]]) (simp_all add: removal_key_def c)
qed

lemma triple_autoscaler_helm:
  assumes "en_api env = recording api" "\<And>s. ad_clusters api s = reader"
  shows "triple (\<lambda>_. True) (autoscaler_helm_apply env parse name chart cluster ns)
    (\<lambda>_ t. \<exists>key. removal_key ''HelmChartProxy'' reader cluster = Some key \<and>
       applied_key is_helm_proxy key t) (\<lambda>_. True)"
  unfolding autoscaler_helm_apply_def assms(1)
proof (rule triple_to_target [OF assms(2)], rule triple_wrap)
  fix c
  let ?a = "WithHelmReleaseName (addonResourceNameForCluster cluster)
    (WithValueTemplater (autoscaler_templateValues parse) (WithTargetCluster (Some c)
      (new_applier env \<lparr>ha_template = name, ha_namespace = cl_namespace cluster,
         ha_release = autoscaler_addonName\<rparr> chart)))"
  show "triple (\<lambda>_. True) (helm_Apply ?a cluster ns) (\<lambda>_. applied_key is_helm_proxy
      (''HelmChartProxy'', cl_namespace c, addonResourceNameForCluster cluster)) (\<lambda>_. True)"
  proof (cases "uuid_of cluster")
    case None
    then show ?thesis by (simp add: helm_Apply_def triple_def error_op_def)
  next
    case (Some u)
    show ?thesis
      using triple_helm_applied [of ?a api cluster u ns] Some
      by (simp add: assms(1) target_of_def proxy_name_def addonResourceNameForCluster_def)
  qed
qed

lemma triple_autoscaler_crs:
  assumes "en_api env = recording api" "\<And>s. ad_clusters api s = reader"
  shows "triple (\<lambda>_. True) (autoscaler_crs_apply env parse name cluster ns)
    (\<lambda>_ t. \<exists>key. removal_key ''ClusterResourceSet'' reader cluster = Some key \<and>
       applied_key is_resource_set key t) (\<lambda>_. True)"
proof -
  have set: "triple (\<lambda>_. True) (EnsureCRSForClusterFromObjects (recording api) (en_show env)
      (addonResourceNameForCluster cluster) c (Some c) objs)
      (\<lambda>_. applied_key is_resource_set
        (''ClusterResourceSet'', cl_namespace c, addonResourceNameForCluster cluster)) (\<lambda>_. True)" for c objs
    unfolding EnsureCRSForClusterFromObjects_def Let_def
    by (intro triple_then triple_wrap triple_applied) simp_all
  show ?thesis
    unfolding autoscaler_crs_apply_def Let_def assms(1) config_map.simps
    by (intro triple_then triple_to_target [OF assms(2)] triple_wrap set)
qed

section \<open>The hooks\<close>

lemma answer_success:
  assumes "answer resp m s = (Ok r, s')" and "hr_status r = Success"
  shows "m s = (Ok (), s')"
  using assms
  by (auto simp: answer_def on_error_def bind_op_def return_op_def fail_with_def
      split: prod.splits reply.splits)

lemma strategies_differ: "HelmAddonStrategy \<noteq> ResourceSetStrategy"
  by (simp add: HelmAddonStrategy_def ResourceSetStrategy_def)

text \<open>What a successful installation has applied.\<close>

lemma installation_applied:
  assumes "en_api env = recording api" and "\<And>s. ad_clusters api s = reader"
    and "autoscaler_apply env setup (Found strategy) cluster resp (s, t) = (Ok r, (s1, t1))"
    and "hr_status r = Success"
  shows "(strategy = ResourceSetStrategy \<and> (\<exists>key. removal_key ''ClusterResourceSet'' reader cluster = Some key \<and>
       applied_key is_resource_set key t1)) \<or>
     (strategy = HelmAddonStrategy \<and> (\<exists>key. removal_key ''HelmChartProxy'' reader cluster = Some key \<and>
       applied_key is_helm_proxy key t1))"
proof -
  consider "strategy = ResourceSetStrategy" | "strategy = HelmAddonStrategy"
    using assms(3,4) by (auto simp: autoscaler_apply_def getCAVariable_def return_op_def panic_op_def
        fail_with_def split: if_splits)
  then show ?thesis
  proof cases
    case 1
    have "autoscaler_crs_apply env (aut_parse setup) (aut_crs_name setup) cluster (en_defaults env) (s, t) =
        (Ok (), (s1, t1))"
      using assms(3,4) 1 by (intro answer_success [of resp _ "(s, t)" r])
        (simp_all add: autoscaler_apply_def getCAVariable_def)
    from tripleD [OF triple_autoscaler_crs [OF assms(1,2)] TrueI this] 1 show ?thesis by simp
  next
    case 2
    let ?op = "bind_op (wrap_op ''failed to get config to create helm addon: ''
        (chart_For (en_api env) (en_charts env) ''cluster-autoscaler''))
      (\<lambda>chart. autoscaler_helm_apply env (aut_parse setup) (aut_values_name setup) chart cluster (en_defaults env))"
    have "?op (s, t) = (Ok (), (s1, t1))"
      using assms(3,4) 2 strategies_differ by (intro answer_success [of resp ?op "(s, t)" r])
        (simp_all add: autoscaler_apply_def getCAVariable_def)
    from tripleD [OF triple_then [OF triple_autoscaler_helm [OF assms(1,2)]] TrueI this] 2
    show ?thesis by simp
  qed
qed

text \<open>The call of a removal.\<close>

lemma delete_recorded:
  "delete_ignoring_op (recording api) client key (s, t) = (r, (s', t')) \<Longrightarrow>
     \<exists>err. t' = t @ [Deleted client key False err]"
  by (auto simp: delete_ignoring_op_def noted_call_def split: prod.splits option.splits api_error.splits)

lemma removal_call:
  assumes "en_api env = recording api" and "\<And>s. ad_clusters api s = reader"
    and "strategy = (if kind = ''ClusterResourceSet'' then ResourceSetStrategy else HelmAddonStrategy)"
    and "kind = ''ClusterResourceSet'' \<or> kind = ''HelmChartProxy''"
    and "removal_key kind reader cluster = Some key"
    and "autoscaler_BeforeClusterDelete env (Found strategy) cluster resp (s, t) = (r, (s', t'))"
  shows "\<exists>err. t' = t @ [Deleted Management key False err]"
proof -
  obtain c where c: "target_in reader cluster = Some c"
    "key = (kind, cl_namespace c, addonResourceNameForCluster cluster)"
    using assms(5) by (auto simp: removal_key_def)
  have found: "findTargetCluster (recording api) cluster st = (Ok c, st)" for st
    using c(1) by (auto simp: findTargetCluster_def target_in_def assms(2) split: sum.splits)
  obtain r1 s1 t1 where r1: "delete_ignoring_op (recording api) Management key (s, t) = (r1, (s1, t1))"
    by (metis prod.collapse)
  have "(s1, t1) = (s', t')"
    using assms(3,4,6) r1 c(2) strategies_differ
    by (auto simp: autoscaler_BeforeClusterDelete_def getCAVariable_def answer_def on_error_def
        autoscaler_crs_delete_def autoscaler_helm_delete_def assms(1) bind_op_def found wrap_op_def
        return_op_def split: reply.splits)
  then show ?thesis using delete_recorded [OF r1] by simp
qed

text \<open>
  C11. The round trip of an installation and its removal: if the cluster autoscaler was installed by a
  strategy and the management cluster is still the same, the hook before the deletion of the
  Cluster makes one call, which deletes an object that the installation applied: the
  HelmChartProxy or the ClusterResourceSet.
\<close>

theorem autoscaler_removes_what_it_applied:
  assumes "en_api env = recording api" and "\<And>s. ad_clusters api s = reader"
    and "autoscaler_AfterControlPlaneInitialized env setup (Found strategy) cluster resp (s, t) =
      (Ok r, (s1, t1))" and "hr_status r = Success"
    and "autoscaler_BeforeClusterDelete env (Found strategy) cluster resp2 (s2, []) = (r2, (s3, t2))"
  shows "\<exists>owner obj err. Applied Management True (Some owner) obj None \<in> set t1 \<and>
    t2 = [Deleted Management (addon_key obj) False err] \<and>
    (if strategy = HelmAddonStrategy then is_helm_proxy obj else is_resource_set obj)"
proof -
  obtain r0 where run: "autoscaler_apply env setup (Found strategy) cluster new_response (s, t) =
      (Ok r0, (s1, t1))" "hr_status r0 = Success"
    using assms(3,4)
    by (auto simp: autoscaler_AfterControlPlaneInitialized_def common_hook_def bind_op_def
        return_op_def split: prod.splits reply.splits)
  from installation_applied [OF assms(1,2) run] show ?thesis
  proof (elim disjE conjE exE)
    fix key
    assume key: "strategy = ResourceSetStrategy" "removal_key ''ClusterResourceSet'' reader cluster = Some key"
      "applied_key is_resource_set key t1"
    have "\<exists>err. t2 = [] @ [Deleted Management key False err]"
      by (rule removal_call [OF assms(1,2) _ _ key(2) assms(5)]) (simp_all add: key(1))
    with key(1,3) strategies_differ show ?thesis by (auto simp: applied_key_def)
  next
    fix key
    assume key: "strategy = HelmAddonStrategy" "removal_key ''HelmChartProxy'' reader cluster = Some key"
      "applied_key is_helm_proxy key t1"
    have "\<exists>err. t2 = [] @ [Deleted Management key False err]"
      by (rule removal_call [OF assms(1,2) _ _ key(2) assms(5)]) (simp_all add: key(1))
    with key(1,3) show ?thesis by (auto simp: applied_key_def)
  qed
qed

definition sample_autoscaler :: autoscaler_setup where
  "sample_autoscaler = \<lparr>aut_crs_name = ''cm'', aut_values_name = ''values'',
     aut_parse = (\<lambda>text. Inr (\<lambda>_. Inr text))\<rparr>"

theorem autoscaler_removes_what_it_applied_witness:
  "\<exists>r t1 r2 t2 obj err.
     autoscaler_AfterControlPlaneInitialized (addon_env_of (recording sample_addon_api)) sample_autoscaler
       (Found HelmAddonStrategy) initialized_cluster new_response ((), []) = (Ok r, ((), t1)) \<and>
     hr_status r = Success \<and>
     autoscaler_BeforeClusterDelete (addon_env_of (recording sample_addon_api)) (Found HelmAddonStrategy)
       initialized_cluster new_response ((), []) = (r2, ((), t2)) \<and>
     t2 = [Deleted Management (addon_key obj) False err] \<and> addon_key obj = (''HelmChartProxy'', ''ns'', ''ca-u'')"
proof -
  let ?env = "addon_env_of (recording sample_addon_api)"
  have reader: "\<And>s. ad_clusters sample_addon_api s = ad_clusters sample_addon_api ()" by simp
  obtain q s t where run: "autoscaler_AfterControlPlaneInitialized ?env sample_autoscaler
      (Found HelmAddonStrategy) initialized_cluster new_response ((), []) = (q, (s, t))"
    by (metis prod.collapse)
  obtain q2 s2 t2 where removal: "autoscaler_BeforeClusterDelete ?env (Found HelmAddonStrategy)
      initialized_cluster new_response ((), []) = (q2, (s2, t2))"
    by (metis prod.collapse)
  have target: "findTargetCluster (recording sample_addon_api) initialized_cluster st =
      (Ok initialized_cluster, st)" for st
    by (simp add: findTargetCluster_def sample_addon_api_def recording_def ManagementCluster_def
        clusterAnnotationsFromNodes_def annotation_def)
  note evals = operation_evals getCAVariable_def target strategies_differ
  have "\<exists>r. q = Ok r \<and> hr_status r = Success"
    using run by (auto simp: evals autoscaler_AfterControlPlaneInitialized_def autoscaler_apply_def
        autoscaler_helm_apply_def chart_For_def addon_env_of_def sample_config_map_def helm_Apply_def
        RetrieveValuesTemplate_def RetrieveValuesTemplateConfigMap_def applied_options_simps
        autoscaler_templateValues_def sample_autoscaler_def run_hooks_def Let_def split: if_splits)
  then obtain r where r: "q = Ok r" "hr_status r = Success" by blast
  have deleted: "\<exists>err. t2 = [Deleted Management (''HelmChartProxy'', ''ns'', ''ca-u'') False err]"
    using removal by (auto simp: evals autoscaler_BeforeClusterDelete_def autoscaler_helm_delete_def
        addonResourceNameForCluster_def autoscaler_addonName_def)
  obtain obj err where obj: "t2 = [Deleted Management (addon_key obj) False err]"
    using autoscaler_removes_what_it_applied [OF addon_env_of_fields(1) reader run [unfolded r(1)] r(2) removal]
    by blast
  have states: "s = ()" "s2 = ()" by simp_all
  with deleted obj have key: "addon_key obj = (''HelmChartProxy'', ''ns'', ''ca-u'')" by simp
  show ?thesis
    by (intro exI conjI, rule run [unfolded r(1) states(1)], rule r(2), rule removal [unfolded states(2)], rule obj, rule key)
qed

end
