(* ===== verification/HandlersV6.thy ===== *)
theory HandlersV6
  imports PipelineSamples
begin

text \<open>
  \<open>pkg/handlers/v6\<close>: the patch handlers of clusters that were made by an earlier release,
  kept so that an upgrade of the controllers does not change their machines.  They are copies of
  the handlers, of which only that for image registry credentials differs: it leaves templates
  alone when no registry needs configuration, and its Secret knows registries by their host alone.
  What is the same in both packages is used from \<open>CredentialConfigs\<close> and
  \<open>RegistryHandlers\<close>.  The theory also shows when both do the same.
\<close>

section \<open>The Secret\<close>

fun v6_static_template_input ::
    "credential_env \<Rightarrow> provider_config list \<Rightarrow> string + (string \<times> string \<times> string) list" where
  "v6_static_template_input env [] = Inr []"
| "v6_static_template_input env (c # cs) =
     (case requiresStaticCredentials env c of
        Inl err \<Rightarrow> Inl (''error determining if Image Registry is a supported provider: '' @ err)
      | Inr False \<Rightarrow> v6_static_template_input env cs
      | Inr True \<Rightarrow>
          (case ce_parse_uri env (pv_url c) of
             Inl err \<Rightarrow> Inl (''failed parsing registry URL: '' @ err)
           | Inr u \<Rightarrow>
               let login = (\<lambda>host. (host, pv_username c, pv_password c));
                   inputs = login (url_host u) #
                     (if url_host u = ''registry-1.docker.io'' then [login ''docker.io''] else [])
               in case v6_static_template_input env cs of
                 Inl err \<Rightarrow> Inl err | Inr rest \<Rightarrow> Inr (inputs @ rest)))"

definition v6_kubeletStaticCredentialProviderSecretContents ::
    "credential_env \<Rightarrow> credential_templates \<Rightarrow> provider_config list \<Rightarrow> string + string" where
  "v6_kubeletStaticCredentialProviderSecretContents env tpl configs =
     (case v6_static_template_input env configs of
        Inl err \<Rightarrow> Inl err
      | Inr [] \<Rightarrow> Inr []
      | Inr inputs \<Rightarrow>
          (case tpl_static tpl inputs of
             Inl err \<Rightarrow> Inl (''failed executing template: '' @ err)
           | Inr b \<Rightarrow> Inr (trim_space b)))"

definition v6_generateCredentialsSecret ::
    "credential_env \<Rightarrow> credential_templates \<Rightarrow> provider_config list \<Rightarrow> string \<Rightarrow> string \<Rightarrow>
     string + (string \<times> string \<times> string) option" where
  "v6_generateCredentialsSecret env tpl configs clusterName namespace =
     (if \<not> configsRequireStaticCredentials env configs then Inr None
      else case v6_kubeletStaticCredentialProviderSecretContents env tpl configs of
        Inl err \<Rightarrow> Inl err
      | Inr contents \<Rightarrow> Inr (Some (credentialSecretName clusterName, namespace, contents)))"

section \<open>The handler for credentials\<close>

definition v6_createSecretIfNeeded ::
    "('s, 'obj) registry_api \<Rightarrow> credential_env \<Rightarrow> credential_templates \<Rightarrow> provider_config list \<Rightarrow>
     cluster \<Rightarrow> 's \<Rightarrow> string option \<times> 's" where
  "v6_createSecretIfNeeded api env tpl registries cluster s =
     (case v6_generateCredentialsSecret env tpl registries (cl_name cluster) (cl_namespace cluster) of
        Inl err \<Rightarrow>
          (Some (''error generating credentials Secret for Image Registry Credentials variable: '' @ err), s)
      | Inr None \<Rightarrow> (None, s)
      | Inr (Some secret) \<Rightarrow>
          (case ra_own_error api cluster of
             Some err \<Rightarrow>
               (Some (''failed to set owner reference on Image Registry Credentials Secret: '' @ err), s)
           | None \<Rightarrow>
               (case ra_apply api secret s of
                  (Some err, s') \<Rightarrow>
                    (Some (''failed to apply Image Registry Credentials Secret: '' @ err), s')
                | (None, s') \<Rightarrow> (None, s'))))"

definition v6_prepare_credentials ::
    "('s, 'obj) registry_api \<Rightarrow> credential_env \<Rightarrow> credential_templates \<Rightarrow> string + cluster \<Rightarrow>
     (string \<times> string option option) list \<Rightarrow> (string \<times> string option option) option \<Rightarrow>
     provider_config list \<Rightarrow> 's \<Rightarrow> string option \<times> 's" where
  "v6_prepare_credentials api env tpl clusterGetter imageRegistries globalMirror registries s =
     (case clusterGetter of
        Inl err \<Rightarrow> (Some err, s)
      | Inr cluster \<Rightarrow>
          (case ensureOwnerReferenceOnCredentialsSecrets api imageRegistries globalMirror cluster s of
             (Some err, s') \<Rightarrow> (Some err, s')
           | (None, s') \<Rightarrow> v6_createSecretIfNeeded api env tpl registries cluster s'))"

text \<open>No registry is added for Docker Hub.\<close>

definition v6_registries_to_configure ::
    "credential_env \<Rightarrow> (string \<Rightarrow> string \<Rightarrow> string + secret) \<Rightarrow> string \<Rightarrow>
     (string \<times> string option option) list \<Rightarrow> (string \<times> string option option) option \<Rightarrow>
     string + provider_config list" where
  "v6_registries_to_configure env get namespace imageRegistries globalMirror =
     (case registries_with_credentials get namespace imageRegistries of
        Inl err \<Rightarrow> Inl err
      | Inr registries \<Rightarrow>
     (case (case globalMirror of
              None \<Rightarrow> Inr registries
            | Some m \<Rightarrow>
                (case with_credentials get ''Global Image Registry Mirror'' True namespace m of
                   Inl err \<Rightarrow> Inl err | Inr c \<Rightarrow> Inr (registries @ [c]))) of
        Inl err \<Rightarrow> Inl err
      | Inr all_registries \<Rightarrow> providerConfigsThatNeedConfiguration env all_registries))"

definition v6_credentials_Mutate ::
    "('doc, 'b, 'o, 'p) template_env \<Rightarrow> ('s, 'obj) registry_api \<Rightarrow> credential_env \<Rightarrow>
     credential_templates \<Rightarrow> (provider list \<Rightarrow> provider list) \<Rightarrow> string \<Rightarrow> ('doc \<Rightarrow> string) \<Rightarrow>
     string \<Rightarrow> string + cluster \<Rightarrow> (string \<times> string option option) list variable \<Rightarrow>
     (string \<times> string option option) variable \<Rightarrow> 'doc \<Rightarrow> 's \<Rightarrow> (string + 'doc) \<times> 's" where
  "v6_credentials_Mutate env api cenv tpl values script namespace_of clusterKeyName clusterGetter
     registriesVar mirrorVar obj s =
     (if is_Missing registriesVar \<and> is_Missing mirrorVar then (Inr obj, s)
      else case registriesVar of
        Failed err \<Rightarrow> (Inl err, s)
      | _ \<Rightarrow>
     (case mirrorVar of
        Failed err \<Rightarrow> (Inl err, s)
      | _ \<Rightarrow>
          let imageRegistries = (case registriesVar of Found rs \<Rightarrow> rs | _ \<Rightarrow> []);
              globalMirror = (case mirrorVar of Found m \<Rightarrow> Some m | _ \<Rightarrow> None);
              get = (\<lambda>ns name. map_sum id snd (ra_secret api ns name s))
          in case v6_registries_to_configure cenv get (namespace_of obj) imageRegistries globalMirror of
            Inl err \<Rightarrow> (Inl err, s)
          | Inr [] \<Rightarrow> (Inr obj, s)
          | Inr registries \<Rightarrow>
              (case generateFilesAndCommands cenv tpl values script registries clusterKeyName of
                 Inl err \<Rightarrow> (Inl err, s)
               | Inr (files, commands) \<Rightarrow>
                   let prepare = v6_prepare_credentials api cenv tpl clusterGetter imageRegistries
                         globalMirror registries
                   in case MutateWithEffect (te_cp env) (te_gvk_text env) (is_control_plane env obj)
                        (\<lambda>t s. case prepare s of
                           (Some err, s') \<Rightarrow> (Inl err, s')
                         | (None, s') \<Rightarrow> (Inr (on_spec (credentials_control_plane files commands) t), s'))
                        obj s of
                        (Inl err, s') \<Rightarrow> (Inl err, s')
                      | (Inr obj', s') \<Rightarrow>
                          MutateWithEffect (te_worker env) (te_gvk_text env) (is_worker env obj')
                            (\<lambda>w s. case prepare s of
                               (Some err, s') \<Rightarrow> (Inl err, s')
                             | (None, s') \<Rightarrow> (Inr (credentials_worker files commands w), s'))
                            obj' s')))"

section \<open>The pipelines\<close>

definition v6_MetaMutators ::
    "('doc, 'b, 'o, 'p, 's, 'obj, 'net) pipeline_env \<Rightarrow> patch_variables \<Rightarrow> ('doc, 's) mutator list" where
  "v6_MetaMutators pe v =
     (let env = pe_env pe in
      [stateless (auditpolicy_Mutate env (pe_audit_policy pe)),
       stateless (etcd_Mutate env (v_etcd v)),
       reading_cluster pe (\<lambda>c. coredns_Mutate env (pe_coredns pe) c (v_dns v)),
       reading_cluster pe (\<lambda>c. certsans_Mutate env c (v_cert_sans v)),
       reading_cluster pe (\<lambda>c. httpproxy_Mutate env (pe_netipx pe) c (v_proxy v)),
       stateless (imagerepository_Mutate env (v_image_repository v)),
       effectful (\<lambda>obj s. v6_credentials_Mutate env (pe_registry pe) (pe_credentials pe)
         (pe_templates pe) (pe_values pe) (pe_install_script pe) (pe_namespace_of pe)
         (pe_cluster_name pe) (fetched_cluster pe s) (v_registries v) (v_mirror v) obj s),
       mirrors_step pe v,
       stateless (calico_Mutate (pe_infra pe) (v_cni v)),
       stateless (users_Mutate env (v_users v)),
       stateless (containerdmetrics_Mutate env (pe_metrics pe)),
       stateless (containerdunprivilegedports_Mutate env (pe_ports pe)),
       effectful (\<lambda>obj s. encryption_Mutate env (pe_keys pe) (pe_codec pe) (fetched_cluster pe s)
         (v_encryption v) obj s),
       stateless (autorenewcerts_Mutate env (v_autorenew v)),
       stateless (kubeproxymode_Mutate env (v_proxy_mode v)),
       stateless (psa_Mutate env (pe_admission pe) (v_psa v)),
       stateless (ntp_Mutate env (v_ntp v)),
       stateless (containerd_restart_Mutate env (pe_apply_patches pe) (pe_restart pe))])"

definition v6_generic_cluster_patch ::
    "('doc, 'b, 'o, 'p, 's, 'obj, 'net) pipeline_env \<Rightarrow> patch_variables \<Rightarrow> ('doc, 's) mutator" where
  "v6_generic_cluster_patch pe v = run_pipeline (v6_MetaMutators pe v @ ControlPlaneMetaMutators pe v)"

definition v6_nutanix_cluster_patch ::
    "('doc, 'b, 'o, 'p, 's, 'obj, 'net) pipeline_env \<Rightarrow> nutanix_variables \<Rightarrow> patch_variables \<Rightarrow>
     ('doc, 's) mutator" where
  "v6_nutanix_cluster_patch pe nv v =
     run_pipeline (nutanix_mutators pe nv @ v6_MetaMutators pe v @ ControlPlaneMetaMutators pe v)"

definition v6_aws_cluster_patch ::
    "('doc, 'b, 'o, 'p, 's, 'obj, 'net) pipeline_env \<Rightarrow> string \<Rightarrow> aws_variables \<Rightarrow> patch_variables \<Rightarrow>
     ('doc, 's) mutator" where
  "v6_aws_cluster_patch pe script xv v =
     run_pipeline
       (aws_mutators (pe_infra pe) script (v_cni v) xv @ v6_MetaMutators pe v @ ControlPlaneMetaMutators pe v)"

definition v6_docker_cluster_patch ::
    "('doc, 'b, 'o, 'p, 's, 'obj, 'net) pipeline_env \<Rightarrow> string variable \<Rightarrow> patch_variables \<Rightarrow>
     ('doc, 's) mutator" where
  "v6_docker_cluster_patch pe customImage v =
     run_pipeline
       (stateless (customimage_Mutate (pe_infra pe) docker_control_plane_selector customImage (v_cp_version v)) #
        v6_MetaMutators pe v @ ControlPlaneMetaMutators pe v)"

section \<open>When both do the same\<close>

text \<open>A host in a URL has no slash, so that joining it with nothing keeps it.\<close>

lemma split_on_closed: "sep \<notin> set h \<Longrightarrow> split_on sep (h @ [sep]) = [h, []]"
  by (induction h) auto

lemma path_Join_host: "CHR ''/'' \<notin> set h \<Longrightarrow> path_Join [h, []] = h"
  by (cases h) (auto simp: path_Join_def path_Clean_def path_element_def has_prefix_def
      split_on_closed [of _ "h", simplified] split_on_closed [of _ "_ # _", simplified])

definition plain_host :: "credential_env \<Rightarrow> string \<Rightarrow> bool" where
  "plain_host env url \<longleftrightarrow>
     (\<forall>u. ce_parse_uri env url = Inr u \<longrightarrow>
        CHR ''/'' \<notin> set (url_host u) \<and> \<not> isDockerHubNutanixOrgURL u)"

lemma v6_static_input:
  "\<forall>c \<in> set cs. plain_host env (pv_url c) \<Longrightarrow> v6_static_template_input env cs = static_template_input env cs"
  by (induction cs)
    (auto simp: plain_host_def Let_def path_Join_host split: sum.split bool.split)

lemma v6_create:
  assumes "\<forall>c \<in> set cs. plain_host cenv (pv_url c)"
  shows "v6_createSecretIfNeeded api cenv tpl cs = createSecretIfNeeded api cenv tpl cs"
  by (simp add: fun_eq_iff v6_createSecretIfNeeded_def createSecretIfNeeded_def
      v6_generateCredentialsSecret_def generateCredentialsSecret_def v6_static_input [OF assms]
      v6_kubeletStaticCredentialProviderSecretContents_def kubeletStaticCredentialProviderSecretContents_def)

lemma v6_prepare:
  assumes "\<forall>c \<in> set cs. plain_host cenv (pv_url c)"
  shows "v6_prepare_credentials api cenv tpl getter rs mirror cs = prepare_credentials api cenv tpl getter rs mirror cs"
  by (intro ext) (unfold v6_prepare_credentials_def prepare_credentials_def v6_create [OF assms], rule refl)

text \<open>The registries are the declared ones.\<close>

lemma with_credentials_url: "with_credentials get origin mirror ns r = Inr c \<Longrightarrow> pv_url c = fst r"
  by (auto simp: with_credentials_def Let_def split: prod.splits sum.splits option.splits)

lemma registries_urls:
  "registries_with_credentials get ns rs = Inr cs \<Longrightarrow> c \<in> set cs \<Longrightarrow> pv_url c \<in> fst ` set rs"
  by (induction rs arbitrary: cs) (auto simp: with_credentials_url split: sum.splits)

lemma needed_configs:
  "providerConfigsThatNeedConfiguration env cs = Inr ns \<Longrightarrow> set ns \<subseteq> set cs"
  by (induction cs arbitrary: ns) (fastforce split: sum.splits if_splits)+

lemma v6_configured_urls:
  assumes "v6_registries_to_configure env get ns rs m = Inr cs" and "c \<in> set cs"
  shows "pv_url c \<in> fst ` set (rs @ (case m of None \<Rightarrow> [] | Some x \<Rightarrow> [x]))"
proof -
  obtain all registries where cs: "set cs \<subseteq> set all"
    "registries_with_credentials get ns rs = Inr registries"
    "m = None \<and> all = registries \<or> (\<exists>x d. m = Some x \<and> all = registries @ [d] \<and>
      with_credentials get ''Global Image Registry Mirror'' True ns x = Inr d)"
    using assms(1) by (auto simp: v6_registries_to_configure_def split: sum.splits option.splits
        dest!: needed_configs)
  from cs(3) assms(2) cs(1) registries_urls [OF cs(2)] show ?thesis
    by (fastforce dest: with_credentials_url)
qed

lemma v6_registries:
  "hasDockerHubRegistry rs \<Longrightarrow>
     v6_registries_to_configure env get ns rs m = registries_to_configure env get ns rs m"
  by (auto simp: v6_registries_to_configure_def registries_to_configure_def split: sum.split option.split)

definition declared_mirror :: "'a variable \<Rightarrow> 'a option" where
  "declared_mirror v = (case v of Found m \<Rightarrow> Some m | _ \<Rightarrow> None)"

lemma v6_credentials:
  assumes "hasDockerHubRegistry rs"
    and "\<forall>r \<in> set (rs @ (case declared_mirror mirrorVar of None \<Rightarrow> [] | Some m \<Rightarrow> [m])). plain_host cenv (fst r)"
    and "\<And>ns s. registries_to_configure cenv (\<lambda>ns name. map_sum id snd (ra_secret api ns name s)) ns rs
      (declared_mirror mirrorVar) \<noteq> Inr []"
  shows "v6_credentials_Mutate env api cenv tpl values script namespace_of name getter (Found rs) mirrorVar =
    credentials_Mutate env api cenv tpl values script namespace_of name getter (Found rs) mirrorVar"
proof (intro ext)
  fix obj s
  let ?get = "\<lambda>ns name. map_sum id snd (ra_secret api ns name s)"
  let ?v6 = "v6_registries_to_configure cenv ?get (namespace_of obj) rs (declared_mirror mirrorVar)"
  have same: "registries_to_configure cenv ?get (namespace_of obj) rs (declared_mirror mirrorVar) = ?v6"
    by (rule v6_registries [OF assms(1), symmetric])
  have prepare: "v6_prepare_credentials api cenv tpl getter rs (declared_mirror mirrorVar) cs =
      prepare_credentials api cenv tpl getter rs (declared_mirror mirrorVar) cs" if "?v6 = Inr cs" for cs
    using assms(2) v6_configured_urls [OF that] by (intro v6_prepare) fastforce
  show "v6_credentials_Mutate env api cenv tpl values script namespace_of name getter (Found rs) mirrorVar obj s =
    credentials_Mutate env api cenv tpl values script namespace_of name getter (Found rs) mirrorVar obj s"
    using assms(3) [of s "namespace_of obj"] prepare same
    by (cases mirrorVar; cases ?v6)
      (auto simp: v6_credentials_Mutate_def credentials_Mutate_def is_Missing_def declared_mirror_def Let_def
        cong: sum.case_cong prod.case_cong split: list.split)
qed

text \<open>
  C22. The release does not matter for a Cluster that declares Docker Hub among its registries, when
  something needs configuration whatever the Secrets are and no registry is the organisation of
  Nutanix at Docker Hub: the patch handlers of both releases do the same to every template and at
  every state of the management cluster.
\<close>

theorem v6_patches_agree:
  assumes "v_registries v = Found rs" and "hasDockerHubRegistry rs"
    and "\<forall>r \<in> set (rs @ (case declared_mirror (v_mirror v) of None \<Rightarrow> [] | Some m \<Rightarrow> [m])).
      plain_host (pe_credentials pe) (fst r)"
    and "\<And>ns s. registries_to_configure (pe_credentials pe)
      (\<lambda>ns name. map_sum id snd (ra_secret (pe_registry pe) ns name s)) ns rs
      (declared_mirror (v_mirror v)) \<noteq> Inr []"
  shows "v6_generic_cluster_patch pe v = generic_cluster_patch pe v \<and>
    v6_nutanix_cluster_patch pe nv v = nutanix_cluster_patch pe nv v \<and>
    v6_aws_cluster_patch pe script xv v = aws_cluster_patch pe script xv v \<and>
    v6_docker_cluster_patch pe customImage v = docker_cluster_patch pe customImage v"
proof -
  note same = v6_credentials [OF assms(2-4)]
  have "v6_MetaMutators pe v = MetaMutators pe v"
    unfolding v6_MetaMutators_def MetaMutators_def assms(1) same ..
  then show ?thesis
    by (simp add: v6_generic_cluster_patch_def generic_cluster_patch_def v6_nutanix_cluster_patch_def
        nutanix_cluster_patch_def v6_aws_cluster_patch_def aws_cluster_patch_def
        v6_docker_cluster_patch_def docker_cluster_patch_def)
qed

definition docker_hub_variables :: patch_variables where
  "docker_hub_variables = sample_patch_variables\<lparr>v_registries := Found [(''https://docker.io'', Some (Some ''login''))]\<rparr>"

definition docker_hub_env :: "(cp_doc, cp_doc, cp_doc, cp_doc, unit, unit, unit) pipeline_env" where
  "docker_hub_env = sample_pipeline_env\<lparr>pe_registry := (pe_registry sample_pipeline_env)
     \<lparr>ra_secret := \<lambda>_ _ _. Inr (''login'', [''username'' \<mapsto> ''u'', ''password'' \<mapsto> ''p''])\<rparr>\<rparr>"

lemma docker_hub_finished:
  "finished (generic_cluster_patch docker_hub_env docker_hub_variables sample_template ())"
  by code_simp

theorem v6_patches_agree_witness:
  "finished (v6_generic_cluster_patch docker_hub_env docker_hub_variables sample_template ())"
proof -
  have "v6_generic_cluster_patch docker_hub_env docker_hub_variables =
      generic_cluster_patch docker_hub_env docker_hub_variables"
  proof (rule v6_patches_agree [THEN conjunct1])
    show "v_registries docker_hub_variables = Found [(''https://docker.io'', Some (Some ''login''))]"
      by (simp add: docker_hub_variables_def)
    show "hasDockerHubRegistry [(''https://docker.io'', Some (Some ''login''))]"
      by (simp add: hasDockerHubRegistry_def DockerHubRegistryURL_def)
    have mirror: "declared_mirror (v_mirror docker_hub_variables) = None"
      by (simp add: docker_hub_variables_def sample_patch_variables_def no_variable_def declared_mirror_def)
    have libs: "pe_credentials docker_hub_env =
        \<lparr>ce_parse = sample_url, ce_parse_uri = sample_url, ce_api_version = ''v1''\<rparr>"
      "ra_secret (pe_registry docker_hub_env) = (\<lambda>_ _ _. Inr (''login'', [''username'' \<mapsto> ''u'', ''password'' \<mapsto> ''p'']))"
      by (simp_all add: docker_hub_env_def sample_pipeline_env_def)
    show "\<forall>r \<in> set ([(''https://docker.io'', Some (Some ''login''))] @
        (case declared_mirror (v_mirror docker_hub_variables) of None \<Rightarrow> [] | Some m \<Rightarrow> [m])).
        plain_host (pe_credentials docker_hub_env) (fst r)"
      by (simp add: mirror libs plain_host_def sample_url_def isDockerHubNutanixOrgURL_def path_Clean_def
          has_prefix_def path_element_def)
    show "registries_to_configure (pe_credentials docker_hub_env)
        (\<lambda>ns name. map_sum id snd (ra_secret (pe_registry docker_hub_env) ns name s)) ns
        [(''https://docker.io'', Some (Some ''login''))] (declared_mirror (v_mirror docker_hub_variables)) \<noteq> Inr []"
      for ns s
      by (auto simp: mirror libs registries_to_configure_def with_credentials_def isCredentialsEmpty_def
          SecretForImageRegistryCredentials_def SecretNameForImageRegistryCredentials_def secret_value_def
          split: sum.split)
  qed
  then show ?thesis using docker_hub_finished by simp
qed

end
