(* ===== verification/Spec2Isabelle.thy ===== *)
theory Spec2Isabelle
  imports PreflightProps NutanixProps MetroProps WebhookProps ControllerProps ExtensionProps
    LifecycleProps MutationProps PipelineProps AddonProps CiliumProps CsiProps AutoscalerProps
    HandlersV6
begin

text \<open>
  A verification library for the Cluster API runtime extensions of Nutanix (the Go program under
  \<open>src/\<close>).  The program runs beside Cluster API in a management cluster: admission
  webhooks check and default a \<open>Cluster\<close> before it is stored, and controllers act on
  clusters that exist.  This library models the logic of the webhooks and controllers; what
  they call over the network (the API server, Prism Central, image registries) and the
  libraries they are built on (JSON and URL parsing, semver) are arguments of the definitions.

  \<^bold>\<open>Conventions.\<close>  A struct is a record of the fields that the program reads, a pointer
  is an \<open>option\<close>, an error is the left side of a sum with the text the code builds, and a
  call that may panic has the type \<open>outcome\<close>.  A string is a list of bytes.  Go's maps are
  partial functions where they are only looked up, and association lists in the order of the
  iteration, which Go leaves open, where they are ranged over; so a theorem about a map holds
  for every order.  Machine words are used for addresses (\<open>Netip\<close>); counts and times are
  integers, since the values compared are far below the width of \<open>int\<close>, except where a
  theory says otherwise.  Loops over slices are folds or structural recursion: there is no fuel
  anywhere.  The one place where termination is not structural is the schedule of the
  goroutines, where a measure (\<open>run_left\<close> in \<open>PreflightRun\<close>, \<open>hooks_left\<close> in
  \<open>ParallelHooks\<close>) decreases in each step.

  \<^bold>\<open>The prelude.\<close>  \<open>GoBase\<close> has what the code takes from Go: panics, strings, printing
  and quoting, sorted key sets; \<open>Netip\<close> has \<open>net/netip\<close>; \<open>ApiTypes\<close> and
  \<open>ClusterConfig\<close> have the API objects and the access to cluster variables
  (\<open>api/v1alpha1\<close>, \<open>api/variables\<close>).  Of encoding and decoding a configuration only
  \<open>json_faithful\<close> is assumed: the text depends on its content (\<open>json_content\<close>), in which a
  nil map and an empty one that is \<open>omitempty\<close> are the same and the entries of a map have no
  order, and what is written is read back with the same content.

  \<^bold>\<open>The preflight webhook\<close> (\<open>pkg/webhook/preflight\<close>).  \<open>Verdict\<close> is the
  result of a check and the interface \<open>check_loop\<close> of the loops that record failures: it
  is interpreted for each loop of the checks, and gives when such a loop denies.  \<open>Skip\<close>
  is the skip annotation, \<open>Preflight\<close> the handler, \<open>PreflightRun\<close> the goroutines that
  run the checks.  \<open>Generic\<close> is the generic checker.  \<open>PrismClient\<close> is the client of the
  Nutanix checks (interface \<open>prism_responses\<close>: its responses carry data), \<open>PcVersion\<close>
  the comparison of versions (interface \<open>version_order\<close>), \<open>NutanixInit\<close> the constructors
  that fill in the dependencies of the checks, and \<open>FailureDomains\<close>, \<open>Images\<close>,
  \<open>Cidr\<close>, \<open>StorageContainers\<close> and \<open>MetroChecks\<close> are the checks that
  \<open>NutanixChecker\<close> puts together as \<open>checker.go\<close> does.

  \<^bold>\<open>The Cluster webhooks\<close> (\<open>pkg/webhook/cluster\<close>).  \<open>MetroDefaults\<close> sets and
  checks the CSI affinity of metro clusters, \<open>NutanixValidator\<close> and
  \<open>KubeletValidator\<close> are the validators.  \<open>ClusterUUID\<close> has the webhooks that give a
  Cluster its UUID, \<open>CiliumValidator\<close> the check of Cilium's values, and
  \<open>RegistryEnabler\<close> (\<open>pkg/webhook/addons/registry\<close>) the webhook that copies the registry
  addon of the management cluster.

  \<^bold>\<open>The controllers\<close> (\<open>pkg/controllers\<close>).  \<open>Rollout\<close> rolls the control plane
  out to other failure domains, \<open>AutoscalerLimits\<close> brings node groups into the limits,
  \<open>NamespaceSync\<close> copies ClusterClasses and their templates; there the API server is a
  state with the calls on it, and \<open>lawful_api\<close> states what the calls promise.  No law is assumed
  of the cached reader; what depends on it is said in the property (\<open>reports_exist\<close>: it holds
  nothing deleted, \<open>caught_up\<close>: it misses nothing).

  \<^bold>\<open>The runtime extensions\<close> (\<open>common/pkg/capi\<close>, \<open>pkg/handlers\<close>).
  \<open>ParallelHooks\<close> runs lifecycle hooks in parallel and puts their responses together.
  \<open>ServiceLoadBalancer\<close> and \<open>KonnectorAgent\<close> are the hooks that can hold up the
  deletion of a cluster.

  \<^bold>\<open>The lifecycle hooks of addons\<close> (\<open>pkg/handlers/lifecycle\<close>) install what runs
  on a workload cluster.  An operation takes the state of the API servers to a value, an error or
  a panic and the next state; the servers are the record \<open>addon_api\<close> of \<open>AddonApi\<close>,
  which also has the helpers of \<open>pkg/handlers/utils\<close> and the polling of \<open>pkg/wait\<close>.
  \<open>HelmAddon\<close> is the applier of Helm charts, \<open>AddonStrategies\<close> the other strategies.
  \<open>CsiAddons\<close>, \<open>CcmAddons\<close>, \<open>SimpleAddons\<close> (Node Feature Discovery, snapshot
  controller, COSI, AWS load balancers), \<open>CniAddons\<close>, \<open>FlowAddons\<close>,
  \<open>CiliumAddon\<close>, \<open>AutoscalerAddon\<close>, \<open>LoadBalancerAddon\<close>, \<open>RegistryCerts\<close>
  and \<open>RegistryAddons\<close> are the handlers: a handler \<open>apply\<close> of package \<open>x\<close> is
  \<open>x_apply\<close>, its hooks are \<open>x_AfterControlPlaneInitialized\<close> and so on, and
  \<open>LifecycleHandlers\<close> runs all hooks of a request in parallel as \<open>handlers.go\<close> does.
  \<open>recording\<close> pairs the state with the calls made so far, whatever the servers answer:
  \<open>AddonTraces\<close> has the rules by which assertions on this record follow the structure of
  an operation, and those that show that an operation does not panic.
  \<open>AddonProps\<close>, \<open>CiliumProps\<close>, \<open>CsiProps\<close> and \<open>AutoscalerProps\<close> use
  them: what was called before a dangerous call, what a success leaves behind, and what an error
  or a panic needs.  \<open>AddonSamples\<close> has API servers for their instances.  The number of
  polls within a time-out is a function of the servers, so that every theorem holds for all.

  \<^bold>\<open>The patch handlers\<close> (\<open>pkg/handlers/generic/mutation\<close> and \<open>mutation\<close> of
  each provider) change the templates from which Cluster API makes the machines.
  \<open>PatchFramework\<close> says which templates a handler patches and how; \<open>KubeadmSpec\<close> has
  the templates themselves, the lookup of a variable, and what handlers do with both.  A handler
  \<open>Mutate\<close> of package \<open>x\<close> is the definition \<open>x_Mutate\<close>.  \<open>NoProxy\<close> is the list
  of hosts that bypass the proxy (\<open>NetipText\<close>: addresses are read as they are printed);
  \<open>NodeMutations\<close>, \<open>KubeletConfiguration\<close>, \<open>ControlPlaneMutations\<close>,
  \<open>VirtualIP\<close>, \<open>AdmissionPlugins\<close> and \<open>EncryptionAtRest\<close> are the generic handlers;
  \<open>RegistryMatch\<close>, \<open>CredentialConfigs\<close>, \<open>ContainerdMirrors\<close> and
  \<open>RegistryHandlers\<close> those for credentials, mirrors and certificates of image registries;
  \<open>InfraHandlers\<close> those of Nutanix, AWS, EKS and Docker.  \<open>PatchPipeline\<close> puts them in
  the order of \<open>handlers.go\<close> and \<open>metapatch_handler.go\<close> and runs them over one template,
  with the API server as a state and a panic as a result.  \<open>PipelineLemmas\<close> shows of every
  handler what it keeps of the control plane template; \<open>PipelineSamples\<close> has
  concrete templates and libraries.  \<open>HandlersV6\<close> has what differs in the handlers of clusters
  made by an earlier release (\<open>pkg/handlers/v6\<close>), and when they do the same.

  \<^bold>\<open>The properties\<close> are in \<open>PreflightProps\<close>, \<open>NutanixProps\<close>, \<open>MetroProps\<close>,
  \<open>WebhookProps\<close>, \<open>ControllerProps\<close>, \<open>ExtensionProps\<close>, \<open>LifecycleProps\<close>,
  \<open>MutationProps\<close>, \<open>PipelineProps\<close> and the four theories of the addons, most with a
  number, and in \<open>HandlersV6\<close>.  They say when each check, validator and controller allows, denies, panics or acts, in terms of the objects it reads; what
  the patch handlers, alone and together, keep and add in a template;
  that every schedule of the goroutines ends and agrees with the sequential result; that the
  cached lookup of subnets agrees with the plain one, and when it does not; and that defaulting
  is stable.  A property with hypotheses is followed by an instance on the environment of
  \<open>Samples\<close>.

  \<^bold>\<open>Not modelled.\<close>  Logging, contexts and their deadlines; the registration of handlers
  (\<open>cmd/main.go\<close>), the set-up of watches and of the HTTP server; generated deep copies
  and the copied API types of other projects; tests and tools; the lookup of a variable in its
  JSON document (\<open>common/pkg/capi/clustertopology/variables\<close>), and the walk over the
  templates of a request, which is a function of Cluster API.  The files of
  \<open>pkg/handlers/v6\<close> that are literal copies of current ones are not repeated: their model is
  that of the current ones.
\<close>

end
